(* ===== verification/Go_Base.thy ===== *)
theory Go_Base
  imports Main "HOL-Library.Word"
begin

text \<open>
  Prelude of the development: the part of the Go language and its standard library that the
  modelled files use (packages \<open>strings\<close>, \<open>unicode\<close>, \<open>strconv\<close> and the \<open>fmt\<close> verbs), as
  executable definitions, with the lemmas every component shares.

  A Go \<open>string\<close> is modelled by the list of its runes, and a rune by a \<^typ>\<open>char\<close>, that is a
  Unicode code point up to U+00FF. On this range the tables of package \<open>unicode\<close> used by the
  program (\<open>IsSpace\<close>, \<open>IsLetter\<close>, \<open>IsDigit\<close>, \<open>ToLower\<close>) are written out below
  exactly; \<open>ToUpper\<close> differs from Go only on U+00B5 and U+00FF, whose upper case lies outside
  the range and which the model leaves alone. \<open>len(s)\<close>, which counts UTF-8 bytes, is
  \<open>go_len\<close>; \<open>len([]rune(s))\<close> is \<^const>\<open>length\<close>. The Chinese messages of the
  program are values of message datatypes of the components.
\<close>

section \<open>Collections of facts\<close>

named_theorems go_defs \<open>definitions of the Go library functions\<close>
named_theorems trim_simps \<open>facts about trimmed text\<close>

type_synonym rune = char
type_synonym gotime = int \<comment> \<open>an instant, in nanoseconds\<close>
type_synonym uint64 = "64 word"

section \<open>Package unicode\<close>

definition rune_code :: "rune \<Rightarrow> nat" where
  "rune_code c = of_char c"

definition IsSpace :: "rune \<Rightarrow> bool" where
  "IsSpace c = (let n = rune_code c in (9 \<le> n \<and> n \<le> 13) \<or> n = 32 \<or> n = 133 \<or> n = 160)"

definition IsDigit :: "rune \<Rightarrow> bool" where
  "IsDigit c = (let n = rune_code c in 48 \<le> n \<and> n \<le> 57)"

definition IsLetter :: "rune \<Rightarrow> bool" where
  "IsLetter c = (let n = rune_code c in
     (65 \<le> n \<and> n \<le> 90) \<or> (97 \<le> n \<and> n \<le> 122) \<or> n = 170 \<or> n = 181 \<or> n = 186
     \<or> (192 \<le> n \<and> n \<noteq> 215 \<and> n \<noteq> 247))"

definition rune_lower :: "rune \<Rightarrow> rune" where
  "rune_lower c = (let n = rune_code c in
     if (65 \<le> n \<and> n \<le> 90) \<or> (192 \<le> n \<and> n \<le> 222 \<and> n \<noteq> 215) then char_of (n + 32) else c)"

definition rune_upper :: "rune \<Rightarrow> rune" where
  "rune_upper c = (let n = rune_code c in
     if (97 \<le> n \<and> n \<le> 122) \<or> (224 \<le> n \<and> n \<le> 254 \<and> n \<noteq> 247) then char_of (n - 32) else c)"

section \<open>Package strings\<close>

definition ToLower :: "string \<Rightarrow> string" where
  "ToLower s = map rune_lower s"

definition ToUpper :: "string \<Rightarrow> string" where
  "ToUpper s = map rune_upper s"

definition EqualFold :: "string \<Rightarrow> string \<Rightarrow> bool" where
  "EqualFold s t = (ToLower s = ToLower t)"

definition TrimLeftSpace :: "string \<Rightarrow> string" where
  "TrimLeftSpace s = dropWhile IsSpace s"

definition TrimRightSpace :: "string \<Rightarrow> string" where
  "TrimRightSpace s = rev (dropWhile IsSpace (rev s))"

definition TrimSpace :: "string \<Rightarrow> string" where
  "TrimSpace s = TrimRightSpace (TrimLeftSpace s)"

definition TrimRight :: "string \<Rightarrow> rune \<Rightarrow> string" where
  "TrimRight s c = rev (dropWhile (\<lambda>x. x = c) (rev s))"

fun HasPrefix :: "string \<Rightarrow> string \<Rightarrow> bool" where
  "HasPrefix s [] = True"
| "HasPrefix [] (p # ps) = False"
| "HasPrefix (c # s) (p # ps) = (c = p \<and> HasPrefix s ps)"

definition HasSuffix :: "string \<Rightarrow> string \<Rightarrow> bool" where
  "HasSuffix s p = HasPrefix (rev s) (rev p)"

definition TrimPrefix :: "string \<Rightarrow> string \<Rightarrow> string" where
  "TrimPrefix s p = (if HasPrefix s p then drop (length p) s else s)"

definition TrimSuffix :: "string \<Rightarrow> string \<Rightarrow> string" where
  "TrimSuffix s p = (if HasSuffix s p then take (length s - length p) s else s)"

fun Contains :: "string \<Rightarrow> string \<Rightarrow> bool" where
  "Contains [] p = (p = [])"
| "Contains (c # s) p = (HasPrefix (c # s) p \<or> Contains s p)"

fun JoinWith :: "string \<Rightarrow> string list \<Rightarrow> string" where
  "JoinWith sep [] = []"
| "JoinWith sep [x] = x"
| "JoinWith sep (x # y # xs) = x @ sep @ JoinWith sep (y # xs)"

text \<open>\<open>strings.Fields\<close>: the maximal runs of runes that are not white space.\<close>

fun fieldsLoop :: "string list \<Rightarrow> string \<Rightarrow> string \<Rightarrow> string list" where
  "fieldsLoop acc cur [] = (if cur = [] then acc else acc @ [cur])"
| "fieldsLoop acc cur (c # s) =
     (if IsSpace c then fieldsLoop (if cur = [] then acc else acc @ [cur]) [] s
      else fieldsLoop acc (cur @ [c]) s)"

definition Fields :: "string \<Rightarrow> string list" where
  "Fields s = fieldsLoop [] [] s"

text \<open>\<open>len(s)\<close>: the number of bytes of the UTF-8 encoding.\<close>

definition go_len :: "string \<Rightarrow> nat" where
  "go_len s = sum_list (map (\<lambda>c. if rune_code c < 128 then 1 else 2) s)"

section \<open>Numbers: strconv and fmt\<close>

definition digit_rune :: "nat \<Rightarrow> rune" where
  "digit_rune d = (if d < 10 then char_of (48 + d) else char_of (55 + d))"

fun digits_of :: "nat \<Rightarrow> nat \<Rightarrow> string" where
  "digits_of base n =
     (if base < 2 \<or> n < base then [digit_rune n]
      else digits_of base (n div base) @ [digit_rune (n mod base)])"

declare digits_of.simps [simp del]

text \<open>\<open>strconv.Itoa\<close> and the verbs \<open>%d\<close>, \<open>%X\<close> and \<open>%08X\<close>.\<close>

definition Itoa :: "int \<Rightarrow> string" where
  "Itoa n = (if n < 0 then CHR ''-'' # digits_of 10 (nat (- n)) else digits_of 10 (nat n))"

definition FormatHex :: "nat \<Rightarrow> string" where
  "FormatHex n = digits_of 16 n"

definition PadLeft :: "nat \<Rightarrow> string \<Rightarrow> string" where
  "PadLeft w s = replicate (w - length s) CHR ''0'' @ s"

definition FormatHex8 :: "nat \<Rightarrow> string" where
  "FormatHex8 n = PadLeft 8 (FormatHex n)"

definition digit_value :: "rune \<Rightarrow> nat option" where
  "digit_value c = (let n = rune_code c in
     if 48 \<le> n \<and> n \<le> 57 then Some (n - 48)
     else if 97 \<le> n \<and> n \<le> 122 then Some (n - 87)
     else if 65 \<le> n \<and> n \<le> 90 then Some (n - 55)
     else None)"

fun parse_digits :: "nat \<Rightarrow> nat \<Rightarrow> string \<Rightarrow> nat option" where
  "parse_digits base acc [] = Some acc"
| "parse_digits base acc (c # s) =
     (case digit_value c of
        None \<Rightarrow> None
      | Some d \<Rightarrow> if d < base then parse_digits base (acc * base + d) s else None)"

text \<open>
  \<open>strconv.ParseUint(s, base, bits)\<close> for an explicit base (10 or 16 in the program):
  the empty string, a rune that is no digit of the base and a value of more than \<open>bits\<close> bits
  are errors.
\<close>

definition ParseUint :: "string \<Rightarrow> nat \<Rightarrow> nat \<Rightarrow> nat option" where
  "ParseUint s base bits =
     (if s = [] then None
      else case parse_digits base 0 s of
             None \<Rightarrow> None
           | Some v \<Rightarrow> if v < 2 ^ bits then Some v else None)"

section \<open>Helpers of internal/biz/database/usecase.go used by several components\<close>

text \<open>\<open>trimText(value, max)\<close>: trim white space, then keep at most \<open>max\<close> runes.\<close>

definition trimText :: "string \<Rightarrow> int \<Rightarrow> string" where
  "trimText value mx =
     (if mx \<le> 0 then []
      else let runes = TrimSpace value in
           if int (length runes) \<le> mx then runes else take (nat mx) runes)"

definition normalizeDBType :: "string \<Rightarrow> string" where
  "normalizeDBType dbType = ToLower (TrimSpace dbType)"

text \<open>\<open>firstNonEmpty\<close> of the package: the first argument that is not blank, trimmed.\<close>

fun firstNonEmpty :: "string list \<Rightarrow> string" where
  "firstNonEmpty [] = []"
| "firstNonEmpty (v # vs) = (if TrimSpace v \<noteq> [] then TrimSpace v else firstNonEmpty vs)"

lemmas [go_defs] =
  IsSpace_def IsDigit_def IsLetter_def rune_lower_def rune_upper_def
  ToLower_def ToUpper_def EqualFold_def TrimLeftSpace_def TrimRightSpace_def TrimSpace_def
  HasSuffix_def TrimPrefix_def TrimSuffix_def Fields_def go_len_def

section \<open>Facts about trimmed text\<close>

lemma dropWhile_idem: "dropWhile P (dropWhile P xs) = dropWhile P xs"
  by (induction xs) auto

lemma TrimRightSpace_Cons:
  "TrimRightSpace (c # s) =
     (if list_all IsSpace s \<and> IsSpace c then [] else c # TrimRightSpace s)"
  by (auto simp: TrimRightSpace_def dropWhile_append list_all_iff)

lemma TrimRightSpace_snoc:
  "TrimRightSpace (s @ [c]) = (if IsSpace c then TrimRightSpace s else s @ [c])"
  by (simp add: TrimRightSpace_def)

lemma TrimRightSpace_eq_Nil: "TrimRightSpace s = [] \<longleftrightarrow> list_all IsSpace s"
  by (simp add: TrimRightSpace_def list_all_iff)

lemma TrimSpace_eq_Nil [trim_simps]: "TrimSpace s = [] \<longleftrightarrow> list_all IsSpace s"
  by (induction s) (auto simp: TrimSpace_def TrimLeftSpace_def TrimRightSpace_Cons TrimRightSpace_eq_Nil)

lemma TrimSpace_Nil [simp]: "TrimSpace [] = []"
  by (simp add: TrimSpace_eq_Nil)

lemma TrimRightSpace_prefix: "\<exists>w. s = TrimRightSpace s @ w \<and> list_all IsSpace w"
proof (induction s rule: rev_induct)
  case (snoc c s)
  then obtain w where "s = TrimRightSpace s @ w" "list_all IsSpace w" by blast
  then show ?case
    by (cases "IsSpace c") (auto simp: TrimRightSpace_snoc intro: exI [of _ "w @ [c]"])
qed (simp add: TrimRightSpace_def)

lemma TrimSpace_split: "\<exists>u w. s = u @ TrimSpace s @ w \<and> list_all IsSpace u \<and> list_all IsSpace w"
proof -
  obtain w where "TrimLeftSpace s = TrimSpace s @ w" "list_all IsSpace w"
    using TrimRightSpace_prefix [of "TrimLeftSpace s"] by (auto simp: TrimSpace_def)
  moreover have "s = takeWhile IsSpace s @ TrimLeftSpace s"
    by (simp add: TrimLeftSpace_def)
  moreover have "list_all IsSpace (takeWhile IsSpace s)"
    by (auto simp: list_all_iff dest: set_takeWhileD)
  ultimately show ?thesis by metis
qed

text \<open>A text is trimmed when it neither starts nor ends with white space.\<close>

definition trimmed_text :: "string \<Rightarrow> bool" where
  "trimmed_text s = (s = [] \<or> (\<not> IsSpace (hd s) \<and> \<not> IsSpace (last s)))"

lemma trimmed_TrimRightSpace:
  "s = [] \<or> \<not> IsSpace (hd s) \<Longrightarrow> trimmed_text (TrimRightSpace s)"
proof (induction s rule: rev_induct)
  case (snoc c s)
  show ?case
  proof (cases "IsSpace c")
    case True
    with snoc have "s = [] \<or> \<not> IsSpace (hd s)" by (cases s) auto
    with snoc True show ?thesis by (simp add: TrimRightSpace_snoc)
  next
    case False
    with snoc show ?thesis by (simp add: TrimRightSpace_snoc trimmed_text_def)
  qed
qed (simp add: TrimRightSpace_def trimmed_text_def)

lemma trimmed_TrimSpace [simp, trim_simps]: "trimmed_text (TrimSpace s)"
  unfolding TrimSpace_def TrimLeftSpace_def
  by (rule trimmed_TrimRightSpace) (metis hd_dropWhile)

lemma TrimSpace_trimmed [trim_simps]: "trimmed_text s \<Longrightarrow> TrimSpace s = s"
proof (cases s rule: rev_cases)
  case (snoc u c)
  assume "trimmed_text s"
  then have "s = [] \<or> \<not> IsSpace (hd s)" "s = [] \<or> \<not> IsSpace (last s)"
    by (auto simp: trimmed_text_def)
  then have "TrimLeftSpace s = s" "\<not> IsSpace c"
    using snoc by (simp_all add: TrimLeftSpace_def dropWhile_eq_self_iff)
  with snoc show ?thesis by (simp add: TrimSpace_def TrimRightSpace_snoc)
qed simp

lemma TrimSpace_idem [simp, trim_simps]: "TrimSpace (TrimSpace s) = TrimSpace s"
  by (simp add: TrimSpace_trimmed)

lemma length_TrimSpace_le: "length (TrimSpace s) \<le> length s"
proof -
  obtain u w where "s = u @ TrimSpace s @ w" using TrimSpace_split [of s] by blast
  then have "length s = length u + (length (TrimSpace s) + length w)"
    by (metis length_append)
  then show ?thesis by simp
qed

lemma HasPrefix_iff: "HasPrefix s p \<longleftrightarrow> (\<exists>t. s = p @ t)"
  by (induction s p rule: HasPrefix.induct) auto

lemma HasSuffix_iff: "HasSuffix s p \<longleftrightarrow> (\<exists>t. s = t @ p)"
  by (metis HasPrefix_iff HasSuffix_def rev_append rev_rev_ident)

lemma length_trimText_le: "0 \<le> mx \<Longrightarrow> int (length (trimText s mx)) \<le> mx"
  by (auto simp: trimText_def Let_def)

section \<open>Facts about case and classes of runes\<close>

lemma rune_code_less [simp]: "rune_code c < 256"
  by (simp add: rune_code_def)

lemma rune_code_char_of [simp]: "n < 256 \<Longrightarrow> rune_code (char_of n) = n"
  by (simp add: rune_code_def)

lemma char_of_rune_code [simp]: "char_of (rune_code c) = c"
  by (simp add: rune_code_def)

lemma rune_eq_iff: "c = d \<longleftrightarrow> rune_code c = rune_code d"
  by (metis char_of_rune_code)

lemma rune_lower_idem [simp]: "rune_lower (rune_lower c) = rune_lower c"
  using rune_code_less [of c] by (auto simp: rune_lower_def Let_def)

lemma ToLower_idem [simp]: "ToLower (ToLower s) = ToLower s"
  by (simp add: ToLower_def)

lemma ToLower_Nil_iff [simp]: "ToLower s = [] \<longleftrightarrow> s = []"
  by (simp add: ToLower_def)

lemma IsSpace_rune_lower [simp]: "IsSpace (rune_lower c) = IsSpace c"
  using rune_code_less [of c] by (auto simp: rune_lower_def IsSpace_def Let_def)

lemma trimmed_no_space: "\<forall>c \<in> set s. \<not> IsSpace c \<Longrightarrow> TrimSpace s = s"
  by (rule TrimSpace_trimmed) (auto simp: trimmed_text_def)

end
