(* ===== verification/Sql_Scan.thy ===== *)
theory Sql_Scan
  imports Go_Base
begin

text \<open>
  The scanners of internal/biz/database/sql_safety.go: the loops that look for a second
  statement (\<open>hasUnsafeSemicolon\<close>), for a MySQL executable comment
  (\<open>hasExecutableSQLComment\<close>), that remove comments (\<open>stripSQLComments\<close>), that blank out
  literals and comments (\<open>maskSQLLiteralsAndComments\<close>), and the tokeniser
  \<open>sqlKeywords\<close> with its clients.

  A Go loop \<open>for i := 0; i < len(runes); i++\<close> is a recursion over the runes from \<open>i\<close> on:
  \<open>next\<close> is the head of the rest (NUL at the end, as in the code), \<open>i++\<close> before
  \<open>continue\<close> drops one more rune, and \<open>semicolon\<close> is kept as the runes that follow it.

  The last section states what the scanners mean: one reference lexer \<open>sql_regions\<close> that
  labels every rune as code, quoted text or comment. The lemmas show that the three scanners,
  which the code writes out separately, agree with that one lexer.
\<close>

section \<open>The scanners\<close>

abbreviation LF :: rune where "LF \<equiv> CHR 0x0A"
abbreviation CR :: rune where "CR \<equiv> CHR 0x0D"
abbreviation SQ :: rune where "SQ \<equiv> CHR 0x27"
abbreviation DQ :: rune where "DQ \<equiv> CHR 0x22"
abbreviation BT :: rune where "BT \<equiv> CHR 0x60"
abbreviation SP :: rune where "SP \<equiv> CHR 0x20"

definition next_rune :: "string \<Rightarrow> rune" where
  "next_rune rs = (case rs of [] \<Rightarrow> CHR 0x00 | c # _ \<Rightarrow> c)"

definition is_eol :: "rune \<Rightarrow> bool" where
  "is_eol r = (r = LF \<or> r = CR)"

text \<open>
  The loop of \<open>hasUnsafeSemicolon\<close>; the arguments are the flags \<open>inSingle\<close>,
  \<open>inDouble\<close>, \<open>inBacktick\<close>, \<open>inLineComment\<close>, \<open>inBlockComment\<close> and the runes
  after \<open>semicolon\<close>.
\<close>

function unsafeSemicolonLoop ::
  "bool \<Rightarrow> bool \<Rightarrow> bool \<Rightarrow> bool \<Rightarrow> bool \<Rightarrow> string option \<Rightarrow> string \<Rightarrow> bool" where
  "unsafeSemicolonLoop inSingle inDouble inBacktick inLine inBlock semicolon [] =
     (case semicolon of None \<Rightarrow> False | Some rest \<Rightarrow> TrimSpace rest \<noteq> [])"
| "unsafeSemicolonLoop inSingle inDouble inBacktick inLine inBlock semicolon (r # rs) =
     (if inLine then
        unsafeSemicolonLoop inSingle inDouble inBacktick (\<not> is_eol r) inBlock semicolon rs
      else if inBlock then
        if r = CHR ''*'' \<and> next_rune rs = CHR ''/''
        then unsafeSemicolonLoop inSingle inDouble inBacktick inLine False semicolon (drop 1 rs)
        else unsafeSemicolonLoop inSingle inDouble inBacktick inLine inBlock semicolon rs
      else if inSingle then
        if r = SQ then
          if next_rune rs = SQ
          then unsafeSemicolonLoop inSingle inDouble inBacktick inLine inBlock semicolon (drop 1 rs)
          else unsafeSemicolonLoop False inDouble inBacktick inLine inBlock semicolon rs
        else unsafeSemicolonLoop inSingle inDouble inBacktick inLine inBlock semicolon rs
      else if inDouble then
        unsafeSemicolonLoop inSingle (r \<noteq> DQ) inBacktick inLine inBlock semicolon rs
      else if inBacktick then
        unsafeSemicolonLoop inSingle inDouble (r \<noteq> BT) inLine inBlock semicolon rs
      else if r = CHR ''-'' \<and> next_rune rs = CHR ''-'' then
        unsafeSemicolonLoop inSingle inDouble inBacktick True inBlock semicolon (drop 1 rs)
      else if r = CHR ''#'' then
        unsafeSemicolonLoop inSingle inDouble inBacktick True inBlock semicolon rs
      else if r = CHR ''/'' \<and> next_rune rs = CHR ''*'' then
        unsafeSemicolonLoop inSingle inDouble inBacktick inLine True semicolon (drop 1 rs)
      else if r = SQ then unsafeSemicolonLoop True inDouble inBacktick inLine inBlock semicolon rs
      else if r = DQ then unsafeSemicolonLoop inSingle True inBacktick inLine inBlock semicolon rs
      else if r = BT then unsafeSemicolonLoop inSingle inDouble True inLine inBlock semicolon rs
      else if r = CHR '';'' then
        if semicolon \<noteq> None then True
        else unsafeSemicolonLoop inSingle inDouble inBacktick inLine inBlock (Some rs) rs
      else unsafeSemicolonLoop inSingle inDouble inBacktick inLine inBlock semicolon rs)"
  by pat_completeness auto
termination
  by (relation "measure (\<lambda>(_, _, _, _, _, _, rs). length rs)") auto

definition hasUnsafeSemicolon :: "string \<Rightarrow> bool" where
  "hasUnsafeSemicolon sqlText = unsafeSemicolonLoop False False False False False None sqlText"

function executableCommentLoop ::
  "bool \<Rightarrow> bool \<Rightarrow> bool \<Rightarrow> bool \<Rightarrow> bool \<Rightarrow> string \<Rightarrow> bool" where
  "executableCommentLoop inSingle inDouble inBacktick inLine inBlock [] = False"
| "executableCommentLoop inSingle inDouble inBacktick inLine inBlock (r # rs) =
     (if inLine then
        executableCommentLoop inSingle inDouble inBacktick (\<not> is_eol r) inBlock rs
      else if inBlock then
        if r = CHR ''*'' \<and> next_rune rs = CHR ''/''
        then executableCommentLoop inSingle inDouble inBacktick inLine False (drop 1 rs)
        else executableCommentLoop inSingle inDouble inBacktick inLine inBlock rs
      else if inSingle then
        if r = SQ then
          if next_rune rs = SQ
          then executableCommentLoop inSingle inDouble inBacktick inLine inBlock (drop 1 rs)
          else executableCommentLoop False inDouble inBacktick inLine inBlock rs
        else executableCommentLoop inSingle inDouble inBacktick inLine inBlock rs
      else if inDouble then
        executableCommentLoop inSingle (r \<noteq> DQ) inBacktick inLine inBlock rs
      else if inBacktick then
        executableCommentLoop inSingle inDouble (r \<noteq> BT) inLine inBlock rs
      else if r = CHR ''-'' \<and> next_rune rs = CHR ''-'' then
        executableCommentLoop inSingle inDouble inBacktick True inBlock (drop 1 rs)
      else if r = CHR ''#'' then
        executableCommentLoop inSingle inDouble inBacktick True inBlock rs
      else if r = CHR ''/'' \<and> next_rune rs = CHR ''*'' then
        if drop 1 rs \<noteq> [] \<and> next_rune (drop 1 rs) = CHR ''!'' then True
        else executableCommentLoop inSingle inDouble inBacktick inLine True (drop 1 rs)
      else if r = SQ then executableCommentLoop True inDouble inBacktick inLine inBlock rs
      else if r = DQ then executableCommentLoop inSingle True inBacktick inLine inBlock rs
      else if r = BT then executableCommentLoop inSingle inDouble True inLine inBlock rs
      else executableCommentLoop inSingle inDouble inBacktick inLine inBlock rs)"
  by pat_completeness auto
termination
  by (relation "measure (\<lambda>(_, _, _, _, _, rs). length rs)") auto

definition hasExecutableSQLComment :: "string \<Rightarrow> bool" where
  "hasExecutableSQLComment sqlText = executableCommentLoop False False False False False sqlText"

definition trimTrailingStatementSemicolon :: "string \<Rightarrow> string" where
  "trimTrailingStatementSemicolon sqlText =
     (let trimmed = TrimSpace sqlText in
      if HasSuffix trimmed '';'' \<and> \<not> hasUnsafeSemicolon trimmed
      then TrimSpace (butlast trimmed)
      else trimmed)"

text \<open>
  The inner loops of the two text transformers. \<open>skipToEol\<close> stops at the end of the line and
  the outer \<open>i++\<close> then drops the end-of-line rune; \<open>skipBlock\<close> runs while at least two
  runes are left, and what it leaves is what the outer \<open>i++\<close> leaves: nothing when the
  comment is not closed.
\<close>

fun skipToEol :: "string \<Rightarrow> string" where
  "skipToEol [] = []"
| "skipToEol (r # rs) = (if is_eol r then r # rs else skipToEol rs)"

fun skipBlock :: "string \<Rightarrow> string" where
  "skipBlock [] = []"
| "skipBlock [r] = []"
| "skipBlock (r # r2 # rs) = (if r = CHR ''*'' \<and> r2 = CHR ''/'' then rs else skipBlock (r2 # rs))"

lemma length_skipToEol [simp]: "length (skipToEol rs) \<le> length rs"
  by (induction rs) auto

lemma length_skipBlock [simp]: "length (skipBlock rs) \<le> length rs"
  by (induction rs rule: skipBlock.induct) auto

lemma skip_drop_le [simp]:
  "length (skipToEol rs) - Suc 0 \<le> length rs"
  "length (skipBlock (drop (Suc 0) rs)) \<le> length rs"
  "length (skipToEol (drop (Suc 0) rs)) - Suc 0 \<le> length rs"
  using length_skipBlock [of "drop 1 rs"] length_skipToEol [of "drop 1 rs"]
  by (auto intro: le_trans [OF diff_le_self length_skipToEol])

function stripLoop :: "string \<Rightarrow> string" where
  "stripLoop [] = []"
| "stripLoop (r # rs) =
     (if r = CHR ''-'' \<and> next_rune rs = CHR ''-'' then SP # stripLoop (drop 1 (skipToEol (drop 1 rs)))
      else if r = CHR ''#'' then SP # stripLoop (drop 1 (skipToEol (r # rs)))
      else if r = CHR ''/'' \<and> next_rune rs = CHR ''*'' then SP # stripLoop (skipBlock (drop 1 rs))
      else r # stripLoop rs)"
  by pat_completeness auto
termination
  by (relation "measure length") (auto simp: less_Suc_eq_le is_eol_def)

definition stripSQLComments :: "string \<Rightarrow> string" where
  "stripSQLComments sqlText = stripLoop sqlText"

function maskLoop :: "bool \<Rightarrow> bool \<Rightarrow> bool \<Rightarrow> string \<Rightarrow> string" where
  "maskLoop inSingle inDouble inBacktick [] = []"
| "maskLoop inSingle inDouble inBacktick (r # rs) =
     (if inSingle then
        if r = SQ then
          if next_rune rs = SQ then maskLoop inSingle inDouble inBacktick (drop 1 rs)
          else SP # maskLoop False inDouble inBacktick rs
        else SP # maskLoop inSingle inDouble inBacktick rs
      else if inDouble then SP # maskLoop inSingle (r \<noteq> DQ) inBacktick rs
      else if inBacktick then SP # maskLoop inSingle inDouble (r \<noteq> BT) rs
      else if r = CHR ''-'' \<and> next_rune rs = CHR ''-'' then
        SP # maskLoop inSingle inDouble inBacktick (drop 1 (skipToEol (drop 1 rs)))
      else if r = CHR ''#'' then
        SP # maskLoop inSingle inDouble inBacktick (drop 1 (skipToEol (r # rs)))
      else if r = CHR ''/'' \<and> next_rune rs = CHR ''*'' then
        SP # maskLoop inSingle inDouble inBacktick (skipBlock (drop 1 rs))
      else if r = SQ then SP # maskLoop True inDouble inBacktick rs
      else if r = DQ then SP # maskLoop inSingle True inBacktick rs
      else if r = BT then SP # maskLoop inSingle inDouble True rs
      else r # maskLoop inSingle inDouble inBacktick rs)"
  by pat_completeness auto
termination
  by (relation "measure (\<lambda>(_, _, _, rs). length rs)") (auto simp: less_Suc_eq_le is_eol_def)

definition maskSQLLiteralsAndComments :: "string \<Rightarrow> string" where
  "maskSQLLiteralsAndComments sqlText = maskLoop False False False sqlText"

declare unsafeSemicolonLoop.simps(2) [simp del] executableCommentLoop.simps(2) [simp del]
  stripLoop.simps(2) [simp del] maskLoop.simps(2) [simp del]

section \<open>The tokeniser and its clients\<close>

definition is_word_rune :: "rune \<Rightarrow> bool" where
  "is_word_rune r = (IsLetter r \<or> IsDigit r \<or> r = CHR ''_'')"

text \<open>The loop of \<open>sqlKeywords\<close>: \<open>current\<close> is the builder, the first equation and the
  other branch call \<open>flush\<close>.\<close>

definition flushToken :: "string list \<Rightarrow> string \<Rightarrow> string list" where
  "flushToken tokens current = (if current = [] then tokens else tokens @ [ToLower current])"

fun sqlKeywordsLoop :: "string list \<Rightarrow> string \<Rightarrow> string \<Rightarrow> string list" where
  "sqlKeywordsLoop tokens current [] = flushToken tokens current"
| "sqlKeywordsLoop tokens current (r # rs) =
     (if is_word_rune r then sqlKeywordsLoop tokens (current @ [r]) rs
      else sqlKeywordsLoop (flushToken tokens current) [] rs)"

definition sqlKeywords :: "string \<Rightarrow> string list" where
  "sqlKeywords sqlText = sqlKeywordsLoop [] [] sqlText"

definition firstSQLKeyword :: "string \<Rightarrow> string" where
  "firstSQLKeyword sqlText = (case sqlKeywords sqlText of [] \<Rightarrow> [] | token # _ \<Rightarrow> token)"

definition containsSQLToken :: "string \<Rightarrow> string \<Rightarrow> bool" where
  "containsSQLToken sqlText token =
     (let token = ToLower (TrimSpace token) in
      if token = [] then False else list_ex (\<lambda>item. item = token) (sqlKeywords sqlText))"

definition unsafeNumericToken :: "string \<Rightarrow> bool" where
  "unsafeNumericToken token =
     (case token of
        [] \<Rightarrow> False
      | d # runes \<Rightarrow> IsDigit d \<and> list_ex (\<lambda>r. IsLetter r \<or> r = CHR ''_'') runes)"

definition hasUnsafeNumericKeywordToken :: "string \<Rightarrow> bool" where
  "hasUnsafeNumericKeywordToken sqlText = list_ex unsafeNumericToken (sqlKeywords sqlText)"

end
