(* ===== verification/Sql_Lexer.thy ===== *)
theory Sql_Lexer
  imports Sql_Scan
begin

text \<open>
  What the scanners of sql_safety.go mean. One reference lexer reads a text from left to
  right: \<open>lex_rune\<close> gives, for a mode, a rune and the rune after it, the label of the rune,
  the next mode and whether the rune after it belongs to the same token; \<open>lex_steps\<close> lists
  every step with its mode and the text from there on, \<open>lex_end\<close> is the mode at the end and
  \<open>code_text\<close> the text with everything that is not code blanked, rune for rune.

  The lemmas show that the loops of \<open>hasUnsafeSemicolon\<close>, \<open>hasExecutableSQLComment\<close>
  and \<open>maskSQLLiteralsAndComments\<close> compute what this one lexer says, and that the text
  \<open>trimTrailingStatementSemicolon\<close> releases holds no statement separator.
\<close>

section \<open>The reference lexer\<close>

datatype region = Code | Single | Double | Backtick | Line | Block

definition lex_rune :: "region \<Rightarrow> rune \<Rightarrow> rune \<Rightarrow> region \<times> region \<times> bool" where
  "lex_rune m r nxt = (case m of
     Code \<Rightarrow>
       if r = CHR ''-'' \<and> nxt = CHR ''-'' then (Line, Line, True)
       else if r = CHR ''#'' then (Line, Line, False)
       else if r = CHR ''/'' \<and> nxt = CHR ''*'' then (Block, Block, True)
       else if r = SQ then (Single, Single, False)
       else if r = DQ then (Double, Double, False)
       else if r = BT then (Backtick, Backtick, False)
       else (Code, Code, False)
   | Single \<Rightarrow>
       if r = SQ \<and> nxt = SQ then (Single, Single, True)
       else (Single, if r = SQ then Code else Single, False)
   | Double \<Rightarrow> (Double, if r = DQ then Code else Double, False)
   | Backtick \<Rightarrow> (Backtick, if r = BT then Code else Backtick, False)
   | Line \<Rightarrow> (Line, if is_eol r then Code else Line, False)
   | Block \<Rightarrow>
       if r = CHR ''*'' \<and> nxt = CHR ''/'' then (Block, Code, True)
       else (Block, Block, False))"

definition step_label :: "region \<Rightarrow> rune \<Rightarrow> string \<Rightarrow> region" where
  "step_label m r rs = fst (lex_rune m r (next_rune rs))"

definition step_mode :: "region \<Rightarrow> rune \<Rightarrow> string \<Rightarrow> region" where
  "step_mode m r rs = fst (snd (lex_rune m r (next_rune rs)))"

definition step_two :: "region \<Rightarrow> rune \<Rightarrow> string \<Rightarrow> bool" where
  "step_two m r rs = snd (snd (lex_rune m r (next_rune rs)))"

definition step_rest :: "region \<Rightarrow> rune \<Rightarrow> string \<Rightarrow> string" where
  "step_rest m r rs = (if step_two m r rs then drop 1 rs else rs)"

lemmas step_defs = step_label_def step_mode_def step_two_def step_rest_def lex_rune_def

lemma length_step_rest [simp]: "length (step_rest m r rs) \<le> length rs"
  by (simp add: step_rest_def)

function lex_steps :: "region \<Rightarrow> string \<Rightarrow> (region \<times> string) list" where
  "lex_steps m [] = []"
| "lex_steps m (r # rs) = (m, r # rs) # lex_steps (step_mode m r rs) (step_rest m r rs)"
  by pat_completeness auto
termination
  by (relation "measure (\<lambda>(_, rs). length rs)") (auto simp: less_Suc_eq_le)

function lex_end :: "region \<Rightarrow> string \<Rightarrow> region" where
  "lex_end m [] = m"
| "lex_end m (r # rs) = lex_end (step_mode m r rs) (step_rest m r rs)"
  by pat_completeness auto
termination
  by (relation "measure (\<lambda>(_, rs). length rs)") (auto simp: less_Suc_eq_le)

definition blank_as :: "region \<Rightarrow> rune \<Rightarrow> rune" where
  "blank_as g r = (if g = Code then r else SP)"

function code_text_from :: "region \<Rightarrow> string \<Rightarrow> string" where
  "code_text_from m [] = []"
| "code_text_from m (r # rs) =
     blank_as (step_label m r rs) r
     # (if step_two m r rs then [SP] else [])
     @ code_text_from (step_mode m r rs) (step_rest m r rs)"
  by pat_completeness auto
termination
  by (relation "measure (\<lambda>(_, rs). length rs)") (auto simp: less_Suc_eq_le)

definition code_text :: "string \<Rightarrow> string" where
  "code_text s = code_text_from Code s"

text \<open>The statement separators of a text: its code semicolons, each with what follows it.\<close>

definition separators :: "string \<Rightarrow> string list" where
  "separators s = [tl t. (m, t) \<leftarrow> lex_steps Code s, m = Code \<and> hd t = CHR '';'']"

section \<open>Shape lemmas of the lexer\<close>

lemma next_rune_Nil [simp]: "next_rune [] = CHR 0x00"
  and next_rune_Cons [simp]: "next_rune (c # cs) = c"
  by (simp_all add: next_rune_def)

lemma step_two_nonempty: "step_two m r rs \<Longrightarrow> rs \<noteq> []"
  by (auto simp: step_defs split: region.splits if_splits)

lemma step_rest_Nil [simp]: "step_rest m r [] = []"
  by (simp add: step_rest_def)

lemma length_code_text_from [simp]: "length (code_text_from m s) = length s"
  by (induction m s rule: code_text_from.induct)
    (auto simp: step_rest_def dest!: step_two_nonempty intro: Suc_pred)

lemma lex_steps_suffix: "(m', t) \<in> set (lex_steps m s) \<Longrightarrow> \<exists>u. s = u @ t"
proof (induction m s rule: lex_steps.induct)
  case (2 m r rs)
  have "\<exists>v. rs = v @ step_rest m r rs"
    by (simp add: step_rest_def) (metis append_take_drop_id)
  then obtain v where v: "rs = v @ step_rest m r rs" by blast
  from "2.prems" consider "t = r # rs" | "(m', t) \<in> set (lex_steps (step_mode m r rs) (step_rest m r rs))"
    by auto
  then show ?case
  proof cases
    case 2
    with "2.IH" obtain u where "step_rest m r rs = u @ t" by blast
    with v show ?thesis by (metis append_Cons append_assoc)
  qed auto
qed simp

lemma lex_steps_nonempty: "(m', t) \<in> set (lex_steps m s) \<Longrightarrow> t \<noteq> []"
  by (induction m s rule: lex_steps.induct) auto

text \<open>Appending text keeps every step: a step looks one rune ahead, but starts where it did.\<close>

lemma step_append:
  "rs \<noteq> [] \<Longrightarrow> step_mode m r (rs @ w) = step_mode m r rs"
  "rs \<noteq> [] \<Longrightarrow> step_label m r (rs @ w) = step_label m r rs"
  "rs \<noteq> [] \<Longrightarrow> step_two m r (rs @ w) = step_two m r rs"
  "rs \<noteq> [] \<Longrightarrow> step_rest m r (rs @ w) = step_rest m r rs @ w"
  by (cases rs; simp add: step_mode_def step_label_def step_two_def step_rest_def)+

lemma lex_steps_append_mono:
  "(m', t) \<in> set (lex_steps m s) \<Longrightarrow> (m', t @ w) \<in> set (lex_steps m (s @ w))"
proof (induction m s rule: lex_steps.induct)
  case (2 m r rs)
  show ?case
  proof (cases "rs = []")
    case True
    with "2.prems" show ?thesis by auto
  next
    case False
    with 2 show ?thesis by (auto simp: step_append)
  qed
qed simp

text \<open>Text that starts with a blank does not change the last look-ahead.\<close>

lemma step_blank:
  "step_mode m r (SP # w) = step_mode m r []"
  "step_label m r (SP # w) = step_label m r []"
  "\<not> step_two m r (SP # w)" "\<not> step_two m r []"
  "step_rest m r (SP # w) = SP # w"
  by (simp_all add: step_defs split: region.splits)

lemma lex_steps_append_blank:
  "lex_steps m (s @ SP # w) =
     map (\<lambda>(m', t). (m', t @ SP # w)) (lex_steps m s) @ lex_steps (lex_end m s) (SP # w)"
proof (induction m s rule: lex_steps.induct)
  case (2 m r rs)
  then show ?case
    by (cases "rs = []") (simp_all add: step_append step_blank)
qed simp

lemma code_text_append_blank:
  "code_text_from m (s @ SP # w) = code_text_from m s @ code_text_from (lex_end m s) (SP # w)"
proof (induction m s rule: lex_end.induct)
  case (2 m r rs)
  then show ?case
    by (cases "rs = []") (simp_all add: step_append step_blank)
qed simp

section \<open>The scanners agree with the lexer\<close>

abbreviation semicolon_at :: "region \<Rightarrow> string option \<Rightarrow> string \<Rightarrow> bool" where
  "semicolon_at m semi s \<equiv>
     unsafeSemicolonLoop (m = Single) (m = Double) (m = Backtick) (m = Line) (m = Block) semi s"

abbreviation comment_at :: "region \<Rightarrow> string \<Rightarrow> bool" where
  "comment_at m s \<equiv>
     executableCommentLoop (m = Single) (m = Double) (m = Backtick) (m = Line) (m = Block) s"

lemma unsafeSemicolonLoop_step:
  "semicolon_at m semi (r # rs) =
     (if m = Code \<and> r = CHR '';'' then semi \<noteq> None \<or> semicolon_at Code (Some rs) rs
      else semicolon_at (step_mode m r rs) semi (step_rest m r rs))"
  by (cases m) (simp_all add: unsafeSemicolonLoop.simps(2) step_defs)

lemma executable_prefix:
  "HasPrefix (r # rs) ''/*!'' =
     (r = CHR ''/'' \<and> next_rune rs = CHR ''*'' \<and> drop 1 rs \<noteq> []
      \<and> next_rune (drop 1 rs) = CHR ''!'')"
  by (cases rs; cases "drop 1 rs") auto

lemma executableCommentLoop_step:
  "comment_at m (r # rs) =
     ((m = Code \<and> HasPrefix (r # rs) ''/*!'')
      \<or> comment_at (step_mode m r rs) (step_rest m r rs))"
  unfolding executable_prefix
  by (cases m) (auto simp: step_defs executableCommentLoop.simps(2) [of _ _ _ _ _ r rs])

lemma unsafeSemicolonLoop_spec:
  "semicolon_at m (Some rest) s \<longleftrightarrow>
     (\<exists>t. (Code, CHR '';'' # t) \<in> set (lex_steps m s)) \<or> TrimSpace rest \<noteq> []"
  "semicolon_at m None s \<longleftrightarrow>
     (\<exists>t. (Code, CHR '';'' # t) \<in> set (lex_steps m s) \<and> TrimSpace t \<noteq> [])"
proof (induction m s arbitrary: rest rule: lex_steps.induct)
  case (2 m r rs)
  {
    case 1
    show ?case using "2.IH"(1) by (auto simp: unsafeSemicolonLoop_step)
  next
    case 2
    have blank: "TrimSpace rs \<noteq> []" if "(Code, CHR '';'' # t) \<in> set (lex_steps Code rs)" for t
    proof -
      from lex_steps_suffix [OF that] obtain u where "rs = u @ CHR '';'' # t" by blast
      then show ?thesis by (simp add: TrimSpace_eq_Nil IsSpace_def rune_code_def)
    qed
    show ?case
    proof (cases "m = Code \<and> r = CHR '';''")
      case True
      then have "step_mode m r rs = Code" "step_rest m r rs = rs" by (auto simp: step_defs)
      with True "2.IH"(1) [of rs] blank show ?thesis
        using unsafeSemicolonLoop_step [of Code None r rs] by auto
    next
      case False
      with "2.IH"(2) show ?thesis by (auto simp: unsafeSemicolonLoop_step)
    qed
  }
qed auto

lemma set_separators:
  "rest \<in> set (separators s) \<longleftrightarrow> (Code, CHR '';'' # rest) \<in> set (lex_steps Code s)"
  using lex_steps_nonempty
  by (auto simp: separators_def image_iff) (metis list.collapse, force)

lemma hasUnsafeSemicolon_iff:
  "hasUnsafeSemicolon s \<longleftrightarrow> (\<exists>rest. rest \<in> set (separators s) \<and> TrimSpace rest \<noteq> [])"
  using unsafeSemicolonLoop_spec(2) [of Code s]
  by (simp add: hasUnsafeSemicolon_def set_separators)

lemma executableCommentLoop_spec:
  "comment_at m s \<longleftrightarrow> (\<exists>t. (Code, ''/*!'' @ t) \<in> set (lex_steps m s))"
proof (induction m s rule: lex_steps.induct)
  case (2 m r rs)
  have "m = Code \<and> HasPrefix (r # rs) ''/*!'' \<longleftrightarrow> (\<exists>t. (Code, ''/*!'' @ t) = (m, r # rs))"
    by (auto simp: HasPrefix_iff simp del: HasPrefix.simps)
  with 2 show ?case
    by (auto simp: executableCommentLoop_step simp del: HasPrefix.simps)
qed simp

lemma hasExecutableSQLComment_iff:
  "hasExecutableSQLComment s \<longleftrightarrow> (\<exists>t. (Code, ''/*!'' @ t) \<in> set (lex_steps Code s))"
  using executableCommentLoop_spec [of Code s] by (simp add: hasExecutableSQLComment_def)

text \<open>
  The mask: it drops runes (a doubled quote, all of a comment but one blank), so it is not
  \<open>code_text\<close> itself, but the tokens of the two texts are the same.
\<close>

lemma is_word_rune_SP [simp]: "\<not> is_word_rune SP"
  by (simp add: is_word_rune_def IsLetter_def IsDigit_def rune_code_def)

lemma flushToken_Nil [simp]: "flushToken toks [] = toks"
  by (simp add: flushToken_def)

lemma blank_as_other [simp]: "g \<noteq> Code \<Longrightarrow> blank_as g r = SP"
  by (simp add: blank_as_def)

lemma keywords_line:
  "sqlKeywordsLoop toks [] (code_text_from Line s)
   = sqlKeywordsLoop toks [] (code_text_from Code (drop 1 (skipToEol s)))"
  by (induction s) (simp_all add: step_defs)

lemma keywords_block:
  "sqlKeywordsLoop toks [] (code_text_from Block s)
   = sqlKeywordsLoop toks [] (code_text_from Code (skipBlock s))"
  by (induction s rule: skipBlock.induct) (simp_all add: step_defs)

lemma keywords_mask:
  assumes "m \<noteq> Line" "m \<noteq> Block" "m \<noteq> Code \<Longrightarrow> cur = []"
  shows "sqlKeywordsLoop toks cur (maskLoop (m = Single) (m = Double) (m = Backtick) s)
         = sqlKeywordsLoop toks cur (code_text_from m s)"
  using assms
proof (induction s arbitrary: m toks cur rule: length_induct)
  case (1 s)
  show ?case
  proof (cases s)
    case (Cons r rs)
    have IH: "sqlKeywordsLoop toks' cur' (maskLoop (m' = Single) (m' = Double) (m' = Backtick) s')
         = sqlKeywordsLoop toks' cur' (code_text_from m' s')"
      if "length s' \<le> length rs" "m' \<noteq> Line" "m' \<noteq> Block" "m' \<noteq> Code \<Longrightarrow> cur' = []"
      for toks' cur' m' s'
      using "1.IH" that Cons by (simp add: less_Suc_eq_le)
    note code = IH [where m' = Code, simplified] and single = IH [where m' = Single, simplified]
      and double = IH [where m' = Double, simplified] and backtick = IH [where m' = Backtick, simplified]
    show ?thesis
      using "1.prems" Cons
      by (cases m)
         (auto simp: maskLoop.simps(2) [of _ _ _ r rs] step_defs code single double backtick
            keywords_line keywords_block blank_as_def is_eol_def)
  qed simp
qed

lemma keywords_mask_code_text:
  "sqlKeywords (maskSQLLiteralsAndComments s) = sqlKeywords (code_text s)"
  using keywords_mask [of Code "[]" "[]" s]
  by (simp add: sqlKeywords_def maskSQLLiteralsAndComments_def code_text_def)

section \<open>The released text is one statement\<close>

lemma separators_append_mono:
  "rest \<in> set (separators s) \<Longrightarrow> rest @ w \<in> set (separators (s @ w))"
  by (auto simp: set_separators dest: lex_steps_append_mono [where w = w])

lemma separator_suffix: "rest \<in> set (separators s) \<Longrightarrow> \<exists>u. s = u @ CHR '';'' # rest"
  by (auto simp: set_separators dest: lex_steps_suffix)

lemma IsSpace_semicolon [simp]: "\<not> IsSpace CHR '';''"
  by (simp add: IsSpace_def rune_code_def)

lemma TrimSpace_semicolon: "CHR '';'' \<in> set s \<Longrightarrow> TrimSpace s \<noteq> []"
  by (metis IsSpace_semicolon TrimSpace_eq_Nil list_all_iff)

lemma released_no_separator:
  assumes "\<not> hasUnsafeSemicolon (TrimSpace s)"
  shows "separators (trimTrailingStatementSemicolon (TrimSpace s)) = []"
proof (rule ccontr)
  let ?t = "TrimSpace s" and ?r = "trimTrailingStatementSemicolon (TrimSpace s)"
  assume "separators ?r \<noteq> []"
  then obtain rest where rest: "rest \<in> set (separators ?r)"
    by (cases "separators ?r") auto
  show False
  proof (cases "HasSuffix ?t '';''")
    case True
    then obtain u where t: "?t = u @ '';''" by (auto simp: HasSuffix_iff)
    have "TrimSpace (u @ '';'') = u @ '';''"
      using t TrimSpace_idem [of s] by simp
    then have r: "?r = TrimSpace u"
      using True assms t by (simp add: trimTrailingStatementSemicolon_def)
    obtain v w where "u = v @ TrimSpace u @ w" "list_all IsSpace v"
      using TrimSpace_split by blast
    moreover have "v = []"
      using \<open>list_all IsSpace v\<close> \<open>u = v @ TrimSpace u @ w\<close> trimmed_TrimSpace [of s] t
      by (cases v) (auto simp: trimmed_text_def, metis hd_append2 list.distinct(1) list.sel(1))
    ultimately have "?t = ?r @ (w @ '';'')" using t r by simp
    with separators_append_mono [OF rest, of "w @ '';''"]
    have "rest @ w @ '';'' \<in> set (separators ?t)" by simp
    with assms TrimSpace_semicolon [of "rest @ w @ '';''"] show False
      by (auto simp: hasUnsafeSemicolon_iff)
  next
    case False
    then have r: "?r = ?t" by (simp add: trimTrailingStatementSemicolon_def)
    with rest assms have "TrimSpace rest = []" by (auto simp: hasUnsafeSemicolon_iff)
    moreover obtain u where u: "?t = u @ CHR '';'' # rest"
      using separator_suffix [OF rest] r by auto
    ultimately have "rest = []"
      using trimmed_TrimSpace [of s]
      by (cases rest rule: rev_cases) (auto simp: trimmed_text_def TrimSpace_eq_Nil)
    with u False show False by (simp add: HasSuffix_iff)
  qed
qed

section \<open>Tokens\<close>

lemma word_rune_not_space: "is_word_rune c \<Longrightarrow> \<not> IsSpace c"
  by (auto simp: is_word_rune_def IsLetter_def IsDigit_def IsSpace_def rune_code_def Let_def)

text \<open>A token as the tokeniser delivers it: not empty, lower case, without white space around.\<close>

definition wf_token :: "string \<Rightarrow> bool" where
  "wf_token t = (t \<noteq> [] \<and> ToLower t = t \<and> TrimSpace t = t)"

lemma flushToken_wf:
  assumes "\<forall>c \<in> set cur. is_word_rune c" "list_all wf_token toks"
  shows "list_all wf_token (flushToken toks cur)"
proof -
  have "TrimSpace (ToLower cur) = ToLower cur"
    by (rule trimmed_no_space) (use assms(1) word_rune_not_space in \<open>auto simp: ToLower_def\<close>)
  with assms(2) show ?thesis by (simp add: flushToken_def wf_token_def [of "ToLower cur"])
qed

lemma sqlKeywordsLoop_wf:
  "\<forall>c \<in> set cur. is_word_rune c \<Longrightarrow> list_all wf_token toks \<Longrightarrow>
     list_all wf_token (sqlKeywordsLoop toks cur s)"
  by (induction toks cur s rule: sqlKeywordsLoop.induct) (simp_all add: flushToken_wf)

lemma sqlKeywords_wf: "t \<in> set (sqlKeywords s) \<Longrightarrow> wf_token t"
  using sqlKeywordsLoop_wf [of "[]" "[]" s] by (simp add: sqlKeywords_def list_all_iff)

lemma sqlKeywords_token:
  assumes "t \<in> set (sqlKeywords s)"
  shows "t \<noteq> []" "ToLower t = t" "TrimSpace t = t"
  using sqlKeywords_wf [OF assms] by (simp_all add: wf_token_def)

lemma firstSQLKeyword_token:
  "firstSQLKeyword s \<noteq> [] \<Longrightarrow> ToLower (firstSQLKeyword s) = firstSQLKeyword s"
  "firstSQLKeyword s \<noteq> [] \<Longrightarrow> TrimSpace (firstSQLKeyword s) = firstSQLKeyword s"
  using sqlKeywords_token [of "firstSQLKeyword s" s]
  by (auto simp: firstSQLKeyword_def split: list.splits)

lemma sqlKeywordsLoop_append:
  "\<not> is_word_rune r \<Longrightarrow>
     sqlKeywordsLoop toks cur (s @ r # w) = sqlKeywordsLoop (sqlKeywordsLoop toks cur s) [] w"
  by (induction toks cur s rule: sqlKeywordsLoop.induct) simp_all

lemma flushToken_append: "flushToken (a @ b) cur = a @ flushToken b cur"
  by (simp add: flushToken_def)

lemma sqlKeywordsLoop_acc: "sqlKeywordsLoop (a @ b) cur s = a @ sqlKeywordsLoop b cur s"
  by (induction s arbitrary: b cur) (simp_all add: flushToken_append)

lemma sqlKeywords_append_blank:
  "sqlKeywords (s @ SP # w) = sqlKeywords s @ sqlKeywords w"
  using sqlKeywordsLoop_acc [of "sqlKeywordsLoop [] [] s" "[]" "[]" w]
  by (simp add: sqlKeywords_def sqlKeywordsLoop_append)


end
