(* ===== verification/Sql_Safety.thy ===== *)
theory Sql_Safety
  imports Sql_Lexer
begin

text \<open>
  The SQL gate, internal/biz/database/sql_safety.go: the four analysers that decide whether a
  statement typed into the SQL console may run (read-only, explain, write, DDL), with the
  supporting tables of database types, statement types and forbidden keywords, and the write
  policy of query_write.go and usecase.go they consult.

  Each analyser is one definition with the code's checks in the code's order; every early
  \<open>return denySQL(...)\<close> is a branch. The Chinese messages are the values of
  \<open>sql_message\<close>, one constructor per message text, with the text's parameters.
\<close>

section \<open>Constants and data\<close>

abbreviation DBTypeMySQL :: string where "DBTypeMySQL \<equiv> ''mysql''"
abbreviation DBTypeMariaDB :: string where "DBTypeMariaDB \<equiv> ''mariadb''"
abbreviation DBTypePostgreSQL :: string where "DBTypePostgreSQL \<equiv> ''postgresql''"
abbreviation DBTypeSQLServer :: string where "DBTypeSQLServer \<equiv> ''sqlserver''"
abbreviation DBTypeClickHouse :: string where "DBTypeClickHouse \<equiv> ''clickhouse''"
abbreviation DBTypeOracle :: string where "DBTypeOracle \<equiv> ''oracle''"
abbreviation DBTypeRedis :: string where "DBTypeRedis \<equiv> ''redis''"
abbreviation DBTypeMongoDB :: string where "DBTypeMongoDB \<equiv> ''mongodb''"
abbreviation DBTypeElasticsearch :: string where "DBTypeElasticsearch \<equiv> ''elasticsearch''"
abbreviation DBTypeOpenSearch :: string where "DBTypeOpenSearch \<equiv> ''opensearch''"
abbreviation DBTypeTiDB :: string where "DBTypeTiDB \<equiv> ''tidb''"
abbreviation DBTypeOceanBase :: string where "DBTypeOceanBase \<equiv> ''oceanbase''"
abbreviation DBTypeOpenGauss :: string where "DBTypeOpenGauss \<equiv> ''opengauss''"
abbreviation DBTypeDameng :: string where "DBTypeDameng \<equiv> ''dameng''"
abbreviation DBTypeKingbase :: string where "DBTypeKingbase \<equiv> ''kingbase''"

abbreviation DatabaseQueryRiskLow :: string where "DatabaseQueryRiskLow \<equiv> ''low''"
abbreviation DatabaseQueryRiskMedium :: string where "DatabaseQueryRiskMedium \<equiv> ''medium''"
abbreviation DatabaseQueryRiskHigh :: string where "DatabaseQueryRiskHigh \<equiv> ''high''"
abbreviation DatabaseQueryRiskCritical :: string where "DatabaseQueryRiskCritical \<equiv> ''critical''"

text \<open>The display name of a database type; two of them are Chinese.\<close>

datatype db_text = DbText string | DbTextDameng | DbTextKingbase

definition DBTypeText :: "string \<Rightarrow> db_text" where
  "DBTypeText dbType = (let t = normalizeDBType dbType in
     if t = DBTypeMySQL then DbText ''MySQL''
     else if t = DBTypeMariaDB then DbText ''MariaDB''
     else if t = DBTypePostgreSQL then DbText ''PostgreSQL''
     else if t = DBTypeSQLServer then DbText ''SQL Server''
     else if t = DBTypeClickHouse then DbText ''ClickHouse''
     else if t = DBTypeOracle then DbText ''Oracle''
     else if t = DBTypeRedis then DbText ''Redis''
     else if t = DBTypeMongoDB then DbText ''MongoDB''
     else if t = DBTypeElasticsearch then DbText ''Elasticsearch''
     else if t = DBTypeOpenSearch then DbText ''OpenSearch''
     else if t = DBTypeTiDB then DbText ''TiDB''
     else if t = DBTypeOceanBase then DbText ''OceanBase MySQL''
     else if t = DBTypeOpenGauss then DbText ''openGauss''
     else if t = DBTypeDameng then DbTextDameng
     else if t = DBTypeKingbase then DbTextKingbase
     else DbText dbType)"

text \<open>The errors of the Redis command parser of redis_query.go, which the analyser of Redis
  commands reports as its message. The numbers are the argument counts it asks for.\<close>

datatype redis_error =
    RedisEmpty | RedisTooLong | RedisMultiple | RedisUnclosed | RedisUnknown
  | RedisArgs string nat | RedisArgsAtLeast string nat
  | RedisMemoryUsageOnly | RedisClusterOnly | RedisNotAllowed

datatype sql_message =
    SqlEmpty | SqlTooLong | ExecutableComment | MultiStatement | NumericKeyword | UnknownSqlType
  | ReadOnlyOnly | ReadOnlyForbidden string | ReadOnlyPassed
  | ExplainUnsupportedAny | ExplainUnsupported db_text | ExplainNeedsQuery | ExplainAnalyzeDenied
  | ExplainOnlySelect | ExplainPassed
  | WriteExplainUnsupportedAny | WriteExplainUnsupported db_text | WriteExplainNeedsWrite
  | WriteExplainAnalyzeDenied | WriteExplainWith | WriteExplainOnlyWrite | WriteExplainDDL
  | WriteExplainTypeUnsupported db_text string | WriteExplainForbidden string
  | WriteExplainDisabled | WriteExplainPassed
  | WriteUnsupportedAny | WriteUnsupported db_text | WriteWith | NotAWrite | WriteUseDDL
  | WriteOnlyDML | WriteLater db_text | WriteDropTruncate | WriteNoWhere | WriteDisabled
  | WritePassed | WritePassedConfirm
  | DDLUnsupportedAny | DDLUnsupported db_text | NotADDL | DDLPrivilege | DDLDropTruncate
  | DDLOnlyCreate | DDLDisabled | DDLPassed | DDLPassedConfirm
  | NoMessage | RedisDenied redis_error | RedisPassed

record SQLSafetyResult =
  Allowed :: bool
  SQLText :: string
  SQLType :: string
  Message :: sql_message

record sqlAnalyzeOptions =
  appendLimit :: bool
  limit :: int

record SQLWriteSafetyResult =
  wAllowed :: bool
  wSQLText :: string
  wSQLType :: string
  wRiskLevel :: string
  wConfirmRequired :: bool
  wReasonRequired :: bool
  wRowsAffectedLimit :: int
  wMessage :: sql_message

record SQLDDLSafetyResult =
  dAllowed :: bool
  dSQLText :: string
  dSQLType :: string
  dRiskLevel :: string
  dConfirmRequired :: bool
  dReasonRequired :: bool
  dBackupRequired :: bool
  dMessage :: sql_message

text \<open>\<open>DatabaseWritePolicy\<close> of usecase.go and its defaults of query_write.go.\<close>

record DatabaseWritePolicy =
  WriteEnabled :: bool
  WriteExplainEnabled :: bool
  DDLEnabled :: bool
  DDLHighRiskConfirm :: bool
  DDLReasonRequired :: bool
  DDLRequireBackupHint :: bool
  HighRiskRequiresConfirm :: bool
  OperationReasonRequired :: bool
  MaxAffectedRows :: int

definition defaultMaxAffectedRows :: int where
  "defaultMaxAffectedRows = 1000"

definition defaultDatabaseWritePolicy :: DatabaseWritePolicy where
  "defaultDatabaseWritePolicy =
     \<lparr>WriteEnabled = False, WriteExplainEnabled = False, DDLEnabled = False,
      DDLHighRiskConfirm = True, DDLReasonRequired = True, DDLRequireBackupHint = True,
      HighRiskRequiresConfirm = True, OperationReasonRequired = True,
      MaxAffectedRows = defaultMaxAffectedRows\<rparr>"

definition normalizeMaxAffectedRows :: "int \<Rightarrow> int" where
  "normalizeMaxAffectedRows lim = (if lim \<le> 0 then defaultMaxAffectedRows else lim)"

definition policy_or_default :: "DatabaseWritePolicy option \<Rightarrow> DatabaseWritePolicy" where
  "policy_or_default policy = (case policy of None \<Rightarrow> defaultDatabaseWritePolicy | Some p \<Rightarrow> p)"

section \<open>Tables\<close>

definition supportsAutoAppendLimit :: "string \<Rightarrow> bool" where
  "supportsAutoAppendLimit dbType = (normalizeDBType dbType \<in> set
     ['''', DBTypeMySQL, DBTypeMariaDB, DBTypePostgreSQL, DBTypeClickHouse, DBTypeTiDB,
      DBTypeOceanBase, DBTypeOpenGauss, DBTypeKingbase])"

definition supportsWriteValidation :: "string \<Rightarrow> bool" where
  "supportsWriteValidation dbType = (normalizeDBType dbType \<in> set
     ['''', DBTypeMySQL, DBTypeMariaDB, DBTypePostgreSQL, DBTypeSQLServer, DBTypeClickHouse,
      DBTypeOracle])"

definition supportsExplain :: "string \<Rightarrow> bool" where
  "supportsExplain dbType = (normalizeDBType dbType \<in> set
     ['''', DBTypeMySQL, DBTypeMariaDB, DBTypePostgreSQL, DBTypeClickHouse, DBTypeTiDB,
      DBTypeOceanBase, DBTypeOpenGauss, DBTypeKingbase])"

definition supportsWriteExplain :: "string \<Rightarrow> bool" where
  "supportsWriteExplain dbType = (normalizeDBType dbType \<in> set
     ['''', DBTypeMySQL, DBTypeMariaDB, DBTypePostgreSQL, DBTypeTiDB, DBTypeOceanBase,
      DBTypeOpenGauss, DBTypeKingbase])"

definition supportsDDLValidation :: "string \<Rightarrow> bool" where
  "supportsDDLValidation dbType = (normalizeDBType dbType \<in> set
     ['''', DBTypeMySQL, DBTypeMariaDB, DBTypePostgreSQL])"

definition supportsWriteExecution :: "string \<Rightarrow> bool" where
  "supportsWriteExecution dbType = (normalizeDBType dbType \<in> set
     [DBTypeMySQL, DBTypeMariaDB, DBTypePostgreSQL])"

definition isSupportedWriteExecuteType :: "string \<Rightarrow> bool" where
  "isSupportedWriteExecuteType sqlType =
     (ToUpper (TrimSpace sqlType) \<in> set [''INSERT'', ''UPDATE'', ''DELETE''])"

definition isAllowedReadOnlyKeyword :: "string \<Rightarrow> bool" where
  "isAllowedReadOnlyKeyword keyword = (ToLower keyword \<in> set
     [''select'', ''show'', ''desc'', ''describe'', ''explain'', ''with''])"

definition classifyWriteSQLKeyword :: "string \<Rightarrow> string \<times> string \<times> bool" where
  "classifyWriteSQLKeyword keyword = (let k = ToLower (TrimSpace keyword) in
     if k = ''insert'' then (''INSERT'', DatabaseQueryRiskMedium, True)
     else if k = ''update'' then (''UPDATE'', DatabaseQueryRiskHigh, True)
     else if k = ''delete'' then (''DELETE'', DatabaseQueryRiskHigh, True)
     else if k = ''replace'' then (''REPLACE'', DatabaseQueryRiskHigh, True)
     else if k = ''create'' then (''CREATE'', DatabaseQueryRiskHigh, True)
     else if k = ''alter'' then (''ALTER'', DatabaseQueryRiskHigh, True)
     else if k = ''drop'' then (''DROP'', DatabaseQueryRiskCritical, True)
     else if k = ''truncate'' then (''TRUNCATE'', DatabaseQueryRiskCritical, True)
     else if k = ''rename'' then (''RENAME'', DatabaseQueryRiskHigh, True)
     else if k = ''grant'' then (''GRANT'', DatabaseQueryRiskHigh, True)
     else if k = ''revoke'' then (''REVOKE'', DatabaseQueryRiskHigh, True)
     else if k = ''merge'' then (''MERGE'', DatabaseQueryRiskHigh, True)
     else (ToUpper (TrimSpace keyword), DatabaseQueryRiskLow, False))"

definition requiresWriteConfirmation :: "string \<Rightarrow> bool" where
  "requiresWriteConfirmation riskLevel =
     (TrimSpace riskLevel \<in> set [DatabaseQueryRiskHigh, DatabaseQueryRiskCritical])"

definition isDDLSQLType :: "string \<Rightarrow> bool" where
  "isDDLSQLType sqlType = (ToUpper (TrimSpace sqlType) \<in> set
     [''CREATE'', ''ALTER'', ''DROP'', ''TRUNCATE'', ''RENAME''])"

definition isPrivilegeSQLType :: "string \<Rightarrow> bool" where
  "isPrivilegeSQLType sqlType = (ToUpper (TrimSpace sqlType) \<in> set [''GRANT'', ''REVOKE''])"

definition isDDLOrPrivilegeSQLType :: "string \<Rightarrow> bool" where
  "isDDLOrPrivilegeSQLType sqlType = (ToUpper (TrimSpace sqlType) \<in> set
     [''CREATE'', ''ALTER'', ''DROP'', ''TRUNCATE'', ''RENAME'', ''GRANT'', ''REVOKE''])"

definition isSupportedCreateDDL :: "string list \<Rightarrow> bool" where
  "isSupportedCreateDDL tokens = (case tokens of
     t0 # t1 # ts \<Rightarrow>
       t0 = ''create'' \<and>
       (if t1 \<in> set [''table'', ''index''] then True
        else if t1 = ''temporary'' then (case ts of [] \<Rightarrow> False | t2 # _ \<Rightarrow> t2 = ''table'')
        else if t1 \<in> set [''unique'', ''fulltext'', ''spatial'']
        then (case ts of [] \<Rightarrow> False | t2 # _ \<Rightarrow> t2 = ''index'')
        else False)
   | _ \<Rightarrow> False)"

definition isSupportedWriteExplainSQLType :: "string \<Rightarrow> string \<Rightarrow> bool" where
  "isSupportedWriteExplainSQLType dbType sqlType =
     (let sqlType = ToUpper (TrimSpace sqlType); t = normalizeDBType dbType in
      if t \<in> set ['''', DBTypeMySQL, DBTypeMariaDB, DBTypeTiDB, DBTypeOceanBase]
      then sqlType \<in> set [''INSERT'', ''UPDATE'', ''DELETE'', ''REPLACE'']
      else if t \<in> set [DBTypePostgreSQL, DBTypeOpenGauss, DBTypeKingbase]
      then sqlType \<in> set [''INSERT'', ''UPDATE'', ''DELETE'', ''MERGE'']
      else False)"

definition forbiddenWriteExplainKeywords :: "string list" where
  "forbiddenWriteExplainKeywords =
     [''call'', ''exec'', ''execute'', ''load'', ''lock'', ''unlock'', ''outfile'', ''dumpfile'',
      ''load_file'', ''sleep'', ''benchmark'']"

definition forbiddenReadOnlyKeywords :: "string list" where
  "forbiddenReadOnlyKeywords =
     [''insert'', ''update'', ''delete'', ''drop'', ''truncate'', ''alter'', ''create'', ''grant'',
      ''revoke'', ''replace'', ''call'', ''exec'', ''execute'', ''merge'', ''load'', ''lock'',
      ''unlock'', ''set'', ''use'', ''into'', ''outfile'', ''dumpfile'', ''load_file'', ''sleep'',
      ''benchmark'']"

definition findForbiddenWriteExplainKeyword :: "string \<Rightarrow> string option" where
  "findForbiddenWriteExplainKeyword sqlText =
     map_option ToUpper (find (\<lambda>token. token \<in> set forbiddenWriteExplainKeywords) (sqlKeywords sqlText))"

definition findForbiddenSQLKeyword :: "string \<Rightarrow> string option" where
  "findForbiddenSQLKeyword sqlText =
     map_option ToUpper (find (\<lambda>token. token \<in> set forbiddenReadOnlyKeywords) (sqlKeywords sqlText))"

definition shouldAppendLimit :: "string \<Rightarrow> string \<Rightarrow> bool" where
  "shouldAppendLimit firstKeyword tokenText =
     (if ToLower firstKeyword \<in> set [''select'', ''with'']
      then \<not> list_ex (\<lambda>token. token = ''limit'') (sqlKeywords tokenText)
      else False)"

section \<open>The analysers\<close>

definition denySQL :: "sql_message \<Rightarrow> SQLSafetyResult" where
  "denySQL message = \<lparr>Allowed = False, SQLText = [], SQLType = ''UNKNOWN'', Message = message\<rparr>"

definition denyWriteSQL :: "SQLWriteSafetyResult \<Rightarrow> sql_message \<Rightarrow> SQLWriteSafetyResult" where
  "denyWriteSQL result message = result\<lparr>wAllowed := False, wMessage := message\<rparr>"

definition denyDDLSQL :: "SQLDDLSafetyResult \<Rightarrow> sql_message \<Rightarrow> SQLDDLSafetyResult" where
  "denyDDLSQL result message = result\<lparr>dAllowed := False, dMessage := message\<rparr>"

definition maxSQLRunes :: nat where
  "maxSQLRunes = 20000"

definition analyzeReadOnlySQL :: "string \<Rightarrow> sqlAnalyzeOptions \<Rightarrow> SQLSafetyResult" where
  "analyzeReadOnlySQL sqlText opts =
     (let trimmed = TrimSpace sqlText in
      if trimmed = [] then denySQL SqlEmpty
      else if length trimmed > maxSQLRunes then denySQL SqlTooLong
      else if hasExecutableSQLComment trimmed then denySQL ExecutableComment
      else if hasUnsafeSemicolon trimmed then denySQL MultiStatement
      else let withoutTrailingSemicolon = trimTrailingStatementSemicolon trimmed;
               normalized = stripSQLComments withoutTrailingSemicolon;
               first = firstSQLKeyword normalized in
      if first = [] then denySQL UnknownSqlType
      else if \<not> isAllowedReadOnlyKeyword first then denySQL ReadOnlyOnly
      else let tokenText = maskSQLLiteralsAndComments withoutTrailingSemicolon in
      if hasUnsafeNumericKeywordToken tokenText then denySQL NumericKeyword
      else (case findForbiddenSQLKeyword tokenText of
              Some keyword \<Rightarrow> denySQL (ReadOnlyForbidden keyword)
            | None \<Rightarrow>
                let finalSQL =
                      (if appendLimit opts \<and> limit opts > 0 \<and> shouldAppendLimit first tokenText
                       then withoutTrailingSemicolon @ '' LIMIT '' @ Itoa (limit opts)
                       else withoutTrailingSemicolon)
                in \<lparr>Allowed = True, SQLText = finalSQL, SQLType = ToUpper first,
                    Message = ReadOnlyPassed\<rparr>))"

definition AnalyzeReadOnlySQLByDB :: "string \<Rightarrow> string \<Rightarrow> int \<Rightarrow> SQLSafetyResult" where
  "AnalyzeReadOnlySQLByDB dbType sqlText lim =
     analyzeReadOnlySQL sqlText \<lparr>appendLimit = supportsAutoAppendLimit dbType, limit = lim\<rparr>"

definition AnalyzeReadOnlySQL :: "string \<Rightarrow> int \<Rightarrow> SQLSafetyResult" where
  "AnalyzeReadOnlySQL sqlText lim = AnalyzeReadOnlySQLByDB [] sqlText lim"

definition AnalyzeReadOnlySQLRaw :: "string \<Rightarrow> SQLSafetyResult" where
  "AnalyzeReadOnlySQLRaw sqlText = analyzeReadOnlySQL sqlText \<lparr>appendLimit = False, limit = 0\<rparr>"

definition AnalyzeWriteExplainSQLByDB ::
  "string \<Rightarrow> string \<Rightarrow> DatabaseWritePolicy option \<Rightarrow> SQLSafetyResult" where
  "AnalyzeWriteExplainSQLByDB dbType sqlText policyPtr =
     (let policy = policy_or_default policyPtr in
      if \<not> supportsWriteExplain dbType then
        (if TrimSpace dbType = [] then denySQL WriteExplainUnsupportedAny
         else denySQL (WriteExplainUnsupported (DBTypeText dbType)))
      else let trimmed = TrimSpace sqlText in
      if trimmed = [] then denySQL SqlEmpty
      else if length trimmed > maxSQLRunes then denySQL SqlTooLong
      else if hasExecutableSQLComment trimmed then denySQL ExecutableComment
      else if hasUnsafeSemicolon trimmed then denySQL MultiStatement
      else let withoutTrailingSemicolon = trimTrailingStatementSemicolon trimmed;
               tokenText = maskSQLLiteralsAndComments withoutTrailingSemicolon in
      if hasUnsafeNumericKeywordToken tokenText then denySQL NumericKeyword
      else (case sqlKeywords tokenText of
        [] \<Rightarrow> denySQL UnknownSqlType
      | t0 # ts \<Rightarrow>
          let explicitExplain = (t0 = ''explain'') in
          if explicitExplain \<and> ts = [] then denySQL WriteExplainNeedsWrite
          else if explicitExplain \<and> hd ts = ''analyze'' then denySQL WriteExplainAnalyzeDenied
          else let statementKeyword = (if explicitExplain then hd ts else t0) in
          if statementKeyword = ''with'' then denySQL WriteExplainWith
          else (case classifyWriteSQLKeyword statementKeyword of (sqlType, _, knownWriteType) \<Rightarrow>
            if \<not> knownWriteType then denySQL WriteExplainOnlyWrite
            else if isDDLOrPrivilegeSQLType sqlType then denySQL WriteExplainDDL
            else if \<not> isSupportedWriteExplainSQLType dbType sqlType
            then denySQL (WriteExplainTypeUnsupported (DBTypeText dbType) sqlType)
            else (case findForbiddenWriteExplainKeyword tokenText of
              Some keyword \<Rightarrow> denySQL (WriteExplainForbidden keyword)
            | None \<Rightarrow>
                if \<not> WriteExplainEnabled policy then denySQL WriteExplainDisabled
                else \<lparr>Allowed = True,
                      SQLText = (if explicitExplain then withoutTrailingSemicolon
                                 else ''EXPLAIN '' @ withoutTrailingSemicolon),
                      SQLType = ''EXPLAIN'', Message = WriteExplainPassed\<rparr>))))"

definition AnalyzeExplainSQLByDB :: "string \<Rightarrow> string \<Rightarrow> SQLSafetyResult" where
  "AnalyzeExplainSQLByDB dbType sqlText =
     (if \<not> supportsExplain dbType then
        (if TrimSpace dbType = [] then denySQL ExplainUnsupportedAny
         else denySQL (ExplainUnsupported (DBTypeText dbType)))
      else let base = AnalyzeReadOnlySQLRaw sqlText in
      if \<not> Allowed base then base
      else (case sqlKeywords (maskSQLLiteralsAndComments (SQLText base)) of
        [] \<Rightarrow> denySQL UnknownSqlType
      | first # ts \<Rightarrow>
          if first = ''explain'' then
            (if ts = [] then denySQL ExplainNeedsQuery
             else if hd ts = ''analyze'' then denySQL ExplainAnalyzeDenied
             else if hd ts \<noteq> ''select'' \<and> hd ts \<noteq> ''with'' then denySQL ExplainOnlySelect
             else \<lparr>Allowed = True, SQLText = SQLText base, SQLType = ''EXPLAIN'',
                   Message = ExplainPassed\<rparr>)
          else if first \<noteq> ''select'' \<and> first \<noteq> ''with'' then denySQL ExplainOnlySelect
          else \<lparr>Allowed = True, SQLText = ''EXPLAIN '' @ SQLText base, SQLType = ''EXPLAIN'',
                Message = ExplainPassed\<rparr>))"

definition AnalyzeExplainSQL :: "string \<Rightarrow> SQLSafetyResult" where
  "AnalyzeExplainSQL sqlText = AnalyzeExplainSQLByDB [] sqlText"

definition AnalyzeWriteSQLByDB ::
  "string \<Rightarrow> string \<Rightarrow> DatabaseWritePolicy option \<Rightarrow> SQLWriteSafetyResult" where
  "AnalyzeWriteSQLByDB dbType sqlText policyPtr =
     (let policy = policy_or_default policyPtr;
          result = \<lparr>wAllowed = False, wSQLText = [], wSQLType = ''UNKNOWN'',
                    wRiskLevel = DatabaseQueryRiskLow, wConfirmRequired = False,
                    wReasonRequired = OperationReasonRequired policy,
                    wRowsAffectedLimit = normalizeMaxAffectedRows (MaxAffectedRows policy),
                    wMessage = NoMessage\<rparr> in
      if \<not> supportsWriteValidation dbType then
        (if TrimSpace dbType = [] then denyWriteSQL result WriteUnsupportedAny
         else denyWriteSQL result (WriteUnsupported (DBTypeText dbType)))
      else let trimmed = TrimSpace sqlText in
      if trimmed = [] then denyWriteSQL result SqlEmpty
      else if length trimmed > maxSQLRunes then denyWriteSQL result SqlTooLong
      else if hasExecutableSQLComment trimmed then denyWriteSQL result ExecutableComment
      else if hasUnsafeSemicolon trimmed then denyWriteSQL result MultiStatement
      else let withoutTrailingSemicolon = trimTrailingStatementSemicolon trimmed;
               result = result\<lparr>wSQLText := withoutTrailingSemicolon\<rparr>;
               normalized = stripSQLComments withoutTrailingSemicolon;
               first = firstSQLKeyword normalized in
      if first = [] then denyWriteSQL result UnknownSqlType
      else if EqualFold first ''with'' then
        denyWriteSQL (result\<lparr>wSQLType := ''WITH'', wRiskLevel := DatabaseQueryRiskHigh,
                             wConfirmRequired := HighRiskRequiresConfirm policy\<rparr>) WriteWith
      else (case classifyWriteSQLKeyword first of (sqlType, riskLevel, ok) \<Rightarrow>
        let result = result\<lparr>wSQLType := sqlType, wRiskLevel := riskLevel,
                            wConfirmRequired := HighRiskRequiresConfirm policy
                              \<and> requiresWriteConfirmation riskLevel\<rparr> in
        if \<not> ok then denyWriteSQL result NotAWrite
        else if \<not> isSupportedWriteExecuteType sqlType then
          (if isDDLOrPrivilegeSQLType sqlType then denyWriteSQL result WriteUseDDL
           else denyWriteSQL result WriteOnlyDML)
        else if \<not> supportsWriteExecution dbType
        then denyWriteSQL result (WriteLater (DBTypeText dbType))
        else let tokenText = maskSQLLiteralsAndComments withoutTrailingSemicolon in
        if hasUnsafeNumericKeywordToken tokenText then denyWriteSQL result NumericKeyword
        else if sqlType = ''DROP'' \<or> sqlType = ''TRUNCATE'' then denyWriteSQL result WriteDropTruncate
        else if (sqlType = ''UPDATE'' \<or> sqlType = ''DELETE'') \<and> \<not> containsSQLToken tokenText ''where''
        then denyWriteSQL (result\<lparr>wRiskLevel := DatabaseQueryRiskCritical,
                                  wConfirmRequired := HighRiskRequiresConfirm policy
                                    \<and> requiresWriteConfirmation DatabaseQueryRiskCritical\<rparr>) WriteNoWhere
        else if \<not> WriteEnabled policy then denyWriteSQL result WriteDisabled
        else result\<lparr>wAllowed := True,
                    wMessage := (if wConfirmRequired result then WritePassedConfirm
                                 else WritePassed)\<rparr>))"

definition AnalyzeDDLSQLByDB ::
  "string \<Rightarrow> string \<Rightarrow> DatabaseWritePolicy option \<Rightarrow> SQLDDLSafetyResult" where
  "AnalyzeDDLSQLByDB dbType sqlText policyPtr =
     (let policy = policy_or_default policyPtr;
          result = \<lparr>dAllowed = False, dSQLText = [], dSQLType = ''UNKNOWN'',
                    dRiskLevel = DatabaseQueryRiskHigh,
                    dConfirmRequired = DDLHighRiskConfirm policy,
                    dReasonRequired = DDLReasonRequired policy,
                    dBackupRequired = DDLRequireBackupHint policy, dMessage = NoMessage\<rparr> in
      if \<not> supportsDDLValidation dbType then
        (if TrimSpace dbType = [] then denyDDLSQL result DDLUnsupportedAny
         else denyDDLSQL result (DDLUnsupported (DBTypeText dbType)))
      else let trimmed = TrimSpace sqlText in
      if trimmed = [] then denyDDLSQL result SqlEmpty
      else if length trimmed > maxSQLRunes then denyDDLSQL result SqlTooLong
      else if hasExecutableSQLComment trimmed then denyDDLSQL result ExecutableComment
      else if hasUnsafeSemicolon trimmed then denyDDLSQL result MultiStatement
      else let withoutTrailingSemicolon = trimTrailingStatementSemicolon trimmed;
               result = result\<lparr>dSQLText := withoutTrailingSemicolon\<rparr>;
               tokenText = maskSQLLiteralsAndComments withoutTrailingSemicolon in
      if hasUnsafeNumericKeywordToken tokenText then denyDDLSQL result NumericKeyword
      else (case sqlKeywords tokenText of
        [] \<Rightarrow> denyDDLSQL result UnknownSqlType
      | t0 # ts \<Rightarrow>
          (case classifyWriteSQLKeyword t0 of (sqlType, riskLevel, knownWriteType) \<Rightarrow>
            let result = result\<lparr>dSQLType := sqlType, dRiskLevel := riskLevel,
                                dConfirmRequired := DDLHighRiskConfirm policy
                                  \<and> requiresWriteConfirmation riskLevel\<rparr> in
            if \<not> knownWriteType \<or> (\<not> isDDLSQLType sqlType \<and> \<not> isPrivilegeSQLType sqlType)
            then denyDDLSQL result NotADDL
            else if isPrivilegeSQLType sqlType then denyDDLSQL result DDLPrivilege
            else if sqlType = ''DROP'' \<or> sqlType = ''TRUNCATE''
            then denyDDLSQL (result\<lparr>dRiskLevel := DatabaseQueryRiskCritical,
                                    dConfirmRequired := DDLHighRiskConfirm policy
                                      \<and> requiresWriteConfirmation DatabaseQueryRiskCritical\<rparr>)
                   DDLDropTruncate
            else if sqlType = ''ALTER'' \<or> sqlType = ''RENAME'' then denyDDLSQL result DDLOnlyCreate
            else if sqlType = ''CREATE'' \<and> \<not> isSupportedCreateDDL (t0 # ts)
            then denyDDLSQL result DDLOnlyCreate
            else if \<not> DDLEnabled policy then denyDDLSQL result DDLDisabled
            else result\<lparr>dAllowed := True,
                        dMessage := (if dConfirmRequired result then DDLPassedConfirm
                                     else DDLPassed)\<rparr>)))"

end
