(* ===== verification/Query_Result.thy ===== *)
theory Query_Result
  imports Go_Base "HOL-Library.AList"
begin

text \<open>
  The sanitising of query results before they leave the server (query_result_safety.go): cells of
  sensitive columns are masked, binary cells and long texts are previewed, and the result is cut
  (a preview) or rejected (an export) when it grows beyond a byte budget.

  A cell may hold any text, so its text is a list of code points here and not a Latin-1 string;
  the Chinese markers the code inserts are written with their code points. Raw bytes are decoded
  as UTF-8 the way Go does. Column names are strings as elsewhere. A row, a Go map, is an
  association list in which the first entry of a key counts. A driver value of another type
  (\<open>VOther\<close>) carries the text \<open>fmt.Sprint\<close> gives for it, a time its formatted text.
\<close>

section \<open>Code points and UTF-8\<close>

type_synonym codepoint = int
type_synonym byte = int
type_synonym utext = "codepoint list"

definition utf8_width :: "codepoint \<Rightarrow> nat" where
  "utf8_width c = (if c < 128 then 1 else if c < 2048 then 2 else if c < 65536 then 3 else 4)"

definition utf8_len :: "utext \<Rightarrow> nat" where
  "utf8_len t = sum_list (map utf8_width t)"

definition utext_of :: "string \<Rightarrow> utext" where
  "utext_of s = map (\<lambda>c. int (rune_code c)) s"

text \<open>The decoder of \<open>unicode/utf8\<close>: the accepted range of the second byte depends on the first,
  which rules out overlong forms, surrogates and values above 0x10FFFF. \<open>None\<close> is an invalid
  byte sequence.\<close>

definition is_cont :: "byte \<Rightarrow> bool" where
  "is_cont b = (128 \<le> b \<and> b < 192)"

fun utf8_decode :: "byte list \<Rightarrow> utext option" where
  "utf8_decode [] = Some []"
| "utf8_decode (a # rest) =
     (if a < 128 then map_option ((#) a) (utf8_decode rest)
      else if 194 \<le> a \<and> a < 224 then
        (case rest of
           b # rest \<Rightarrow> if is_cont b then map_option ((#) ((a - 192) * 64 + (b - 128))) (utf8_decode rest)
                        else None
         | _ \<Rightarrow> None)
      else if 224 \<le> a \<and> a < 240 then
        (case rest of
           b # c # rest \<Rightarrow>
             if is_cont b \<and> is_cont c \<and> (a = 224 \<longrightarrow> 160 \<le> b) \<and> (a = 237 \<longrightarrow> b < 160)
             then map_option ((#) ((a - 224) * 4096 + (b - 128) * 64 + (c - 128))) (utf8_decode rest)
             else None
         | _ \<Rightarrow> None)
      else if 240 \<le> a \<and> a < 245 then
        (case rest of
           b # c # d # rest \<Rightarrow>
             if is_cont b \<and> is_cont c \<and> is_cont d \<and> (a = 240 \<longrightarrow> 144 \<le> b) \<and> (a = 244 \<longrightarrow> b < 144)
             then map_option ((#) ((a - 240) * 262144 + (b - 128) * 4096 + (c - 128) * 64 + (d - 128)))
                    (utf8_decode rest)
             else None
         | _ \<Rightarrow> None)
      else None)"

text \<open>\<open>unicode.IsControl\<close> and \<open>unicode.IsSpace\<close> on code points.\<close>

definition IsControl :: "codepoint \<Rightarrow> bool" where
  "IsControl c = (c < 32 \<or> (127 \<le> c \<and> c < 160))"

definition cpIsSpace :: "codepoint \<Rightarrow> bool" where
  "cpIsSpace c = ((9 \<le> c \<and> c \<le> 13) \<or> c = 32 \<or> c = 0x85 \<or> c = 0xA0 \<or> c = 0x1680
     \<or> (0x2000 \<le> c \<and> c \<le> 0x200A) \<or> c = 0x2028 \<or> c = 0x2029 \<or> c = 0x202F \<or> c = 0x205F \<or> c = 0x3000)"

definition cpTrimSpace :: "utext \<Rightarrow> utext" where
  "cpTrimSpace t = rev (dropWhile cpIsSpace (rev (dropWhile cpIsSpace t)))"

fun cpContains :: "utext \<Rightarrow> utext \<Rightarrow> bool" where
  "cpContains [] p = (p = [])"
| "cpContains (c # t) p = (take (length p) (c # t) = p \<or> cpContains t p)"

section \<open>Cells\<close>

datatype any_value =
    VNil | VRawBytes "byte list" | VBytes "byte list" | VString utext | VTime utext | VOther utext

record queryResultSafetyPolicy =
  maxCellRunes :: int
  maxTotalBytes :: int
  rejectTotalBytes :: bool

record queryCellSafety =
  truncated :: bool
  masked :: bool
  binary :: bool

abbreviation no_safety :: queryCellSafety where
  "no_safety \<equiv> \<lparr>truncated = False, masked = False, binary = False\<rparr>"

definition queryPreviewCellMaxRunes :: int where "queryPreviewCellMaxRunes = 2048"
definition queryPreviewTotalMaxBytes :: int where "queryPreviewTotalMaxBytes = 4 * 1024 * 1024"
definition queryExportCellMaxRunes :: int where "queryExportCellMaxRunes = 8192"
definition queryExportTotalMaxBytes :: int where "queryExportTotalMaxBytes = 10 * 1024 * 1024"

definition sensitiveQueryColumnKeywords :: "string list" where
  "sensitiveQueryColumnKeywords =
     [''password'', ''passwd'', ''pwd'', ''token'', ''secret'', ''phone'', ''mobile'', ''email'']"

definition isSensitiveQueryColumn :: "string \<Rightarrow> bool" where
  "isSensitiveQueryColumn column =
     (let normalized = ToLower (TrimSpace column);
          normalized = filter (\<lambda>c. c \<notin> set '' _-.'') normalized
      in if normalized = [] then False
         else list_ex (\<lambda>keyword. Contains normalized keyword) sensitiveQueryColumnKeywords)"

text \<open>The markers: masked, binary content with its size, truncated with the original length.\<close>

definition maskedText :: utext where
  "maskedText = [0x5B, 0x5DF2, 0x8131, 0x654F, 0x5D]"

definition binaryText :: "nat \<Rightarrow> utext" where
  "binaryText n = [0x5B, 0x4E8C, 0x8FDB, 0x5236, 0x5185, 0x5BB9] @ utext_of '', ''
     @ utext_of (Itoa (int n)) @ utext_of '' bytes]''"

definition truncatedMarker :: "nat \<Rightarrow> utext" where
  "truncatedMarker n = utext_of ''... ['' @ [0x5DF2, 0x622A, 0x65AD] @ utext_of '', ''
     @ [0x539F, 0x59CB, 0x957F, 0x5EA6] @ utext_of ''='' @ utext_of (Itoa (int n)) @ utext_of '']''"

definition safePreviewText :: utext where
  "safePreviewText = [0x5B57, 0x6BB5, 0x5DF2, 0x5B89, 0x5168, 0x9884, 0x89C8]"

definition isLikelyTextBytes :: "byte list \<Rightarrow> bool" where
  "isLikelyTextBytes data =
     (if data = [] then True
      else case utf8_decode data of
             None \<Rightarrow> False
           | Some text \<Rightarrow> list_all (\<lambda>r. r = 10 \<or> r = 13 \<or> r = 9 \<or> \<not> IsControl r) text)"

definition safeQueryStringPreview :: "utext \<Rightarrow> int \<Rightarrow> utext \<times> queryCellSafety" where
  "safeQueryStringPreview value maxRunes =
     (let maxRunes = (if maxRunes \<le> 0 then queryPreviewCellMaxRunes else maxRunes);
          runeCount = length value in
      if int runeCount \<le> maxRunes then (value, no_safety)
      else let marker = truncatedMarker runeCount;
               keep = maxRunes - int (length marker);
               keep = (if keep < 0 then 0 else keep)
           in (take (nat keep) value @ marker, no_safety\<lparr>truncated := True\<rparr>))"

definition bytesPreview :: "byte list \<Rightarrow> int \<Rightarrow> any_value \<times> queryCellSafety" where
  "bytesPreview data maxRunes =
     (if \<not> isLikelyTextBytes data
      then (VString (binaryText (length data)), no_safety\<lparr>binary := True\<rparr>)
      else apfst VString (safeQueryStringPreview (the (utf8_decode data)) maxRunes))"

definition safeQueryCellPreview :: "string \<Rightarrow> any_value \<Rightarrow> int \<Rightarrow> any_value \<times> queryCellSafety" where
  "safeQueryCellPreview column value maxRunes =
     (if isSensitiveQueryColumn column then
        (if value = VNil then (VNil, no_safety)
         else (VString maskedText, no_safety\<lparr>masked := True\<rparr>))
      else case value of
             VNil \<Rightarrow> (VNil, no_safety)
           | VRawBytes data \<Rightarrow> bytesPreview data maxRunes
           | VBytes data \<Rightarrow> bytesPreview data maxRunes
           | VString v \<Rightarrow> apfst VString (safeQueryStringPreview v maxRunes)
           | VTime v \<Rightarrow> (VString v, no_safety)
           | VOther v \<Rightarrow> (VOther v, no_safety))"

section \<open>Results\<close>

type_synonym query_row = "(string \<times> any_value) list"

definition row_get :: "query_row \<Rightarrow> string \<Rightarrow> any_value" where
  "row_get row column = (case map_of row column of None \<Rightarrow> VNil | Some v \<Rightarrow> v)"

record DatabaseQueryResultVO =
  rAuditID :: nat
  rInstanceID :: nat
  rSchemaName :: string
  rSQLType :: string
  rExecutedSQL :: string
  rColumns :: "string list"
  rRows :: "query_row list"
  rRowsReturned :: int
  rDurationMs :: int
  rLimit :: int
  rTruncated :: bool
  rCellTruncated :: bool
  rCellsMasked :: bool
  rBinaryPreviewed :: bool
  rResultBytes :: int
  rMessage :: utext

text \<open>The text of \<open>fmt.Sprint\<close>; raw bytes do not survive the preview.\<close>

definition Sprint :: "any_value \<Rightarrow> utext" where
  "Sprint v = (case v of VNil \<Rightarrow> utext_of ''<nil>'' | VString t \<Rightarrow> t | VTime t \<Rightarrow> t | VOther t \<Rightarrow> t
     | VRawBytes _ \<Rightarrow> [] | VBytes _ \<Rightarrow> [])"

definition estimateQueryCellBytes :: "string \<Rightarrow> any_value \<Rightarrow> int" where
  "estimateQueryCellBytes column value = int (go_len column) + int (utf8_len (Sprint value)) * 2 + 16"

definition estimateQueryResultHeaderBytes :: "string list \<Rightarrow> int" where
  "estimateQueryResultHeaderBytes columns = 2 + sum_list (map (\<lambda>column. int (go_len column) + 4) columns)"

text \<open>One row: the listed columns, then the keys of the row that are not among them. The
  accumulator is the new row, its estimated bytes and the flags of its cells.\<close>

fun safeCells :: "int \<Rightarrow> query_row \<Rightarrow> string list \<Rightarrow> query_row \<times> int \<times> queryCellSafety
    \<Rightarrow> query_row \<times> int \<times> queryCellSafety" where
  "safeCells maxRunes row [] acc = acc"
| "safeCells maxRunes row (column # columns) (safeRow, rowBytes, flags) =
     (case safeQueryCellPreview column (row_get row column) maxRunes of (value, safety) \<Rightarrow>
        safeCells maxRunes row columns
          (AList.update column value safeRow, rowBytes + estimateQueryCellBytes column value,
           \<lparr>truncated = truncated flags \<or> truncated safety, masked = masked flags \<or> masked safety,
            binary = binary flags \<or> binary safety\<rparr>))"

definition extra_columns :: "string list \<Rightarrow> query_row \<Rightarrow> string list" where
  "extra_columns columns row = filter (\<lambda>c. c \<notin> set columns) (remdups (map fst row))"

definition sanitizeRow :: "int \<Rightarrow> string list \<Rightarrow> query_row \<Rightarrow> query_row \<times> int \<times> queryCellSafety" where
  "sanitizeRow maxRunes columns row =
     safeCells maxRunes row (columns @ extra_columns columns row) ([], 0, no_safety)"

definition estimateQuerySafeRowBytes :: "string list \<Rightarrow> query_row \<Rightarrow> int \<Rightarrow> int" where
  "estimateQuerySafeRowBytes columns row maxRunes =
     (let maxRunes = (if maxRunes \<le> 0 then queryPreviewCellMaxRunes else maxRunes);
          cell = (\<lambda>column. estimateQueryCellBytes column
                    (fst (safeQueryCellPreview column (row_get row column) maxRunes)))
      in sum_list (map cell columns) + sum_list (map cell (extra_columns columns row)))"

text \<open>The loop over the rows. \<open>Inl\<close> is the rejection of an export that is too large; the flag in
  the result tells that the loop stopped early.\<close>

fun sanitizeRows :: "queryResultSafetyPolicy \<Rightarrow> string list \<Rightarrow> query_row list
    \<Rightarrow> query_row list \<times> int \<times> queryCellSafety \<Rightarrow> int + query_row list \<times> int \<times> queryCellSafety \<times> bool" where
  "sanitizeRows policy columns [] (safeRows, totalBytes, flags) = Inr (safeRows, totalBytes, flags, False)"
| "sanitizeRows policy columns (row # rows) (safeRows, totalBytes, flags) =
     (case sanitizeRow (maxCellRunes policy) columns row of (safeRow, rowBytes, cell) \<Rightarrow>
        let flags = \<lparr>truncated = truncated flags \<or> truncated cell, masked = masked flags \<or> masked cell,
                     binary = binary flags \<or> binary cell\<rparr> in
        if maxTotalBytes policy > 0 \<and> totalBytes + rowBytes > maxTotalBytes policy
        then (if rejectTotalBytes policy then Inl (maxTotalBytes policy)
              else Inr (safeRows, totalBytes, flags, True))
        else sanitizeRows policy columns rows (safeRows @ [safeRow], totalBytes + rowBytes, flags))"

definition previewMessage :: "bool \<Rightarrow> utext \<Rightarrow> utext" where
  "previewMessage cellTruncated message =
     (if cellTruncated \<and> \<not> cpContains message safePreviewText
      then (if cpTrimSpace message = [] then safePreviewText
            else cpTrimSpace (message @ [0xFF0C] @ safePreviewText))
      else message)"

definition sanitizeDatabaseQueryResult ::
  "DatabaseQueryResultVO \<Rightarrow> queryResultSafetyPolicy \<Rightarrow> int + DatabaseQueryResultVO" where
  "sanitizeDatabaseQueryResult result policy =
     (let policy = (if maxCellRunes policy \<le> 0
                    then policy\<lparr>maxCellRunes := queryPreviewCellMaxRunes\<rparr> else policy);
          flags = \<lparr>truncated = rCellTruncated result, masked = rCellsMasked result,
                   binary = rBinaryPreviewed result\<rparr> in
      case sanitizeRows policy (rColumns result) (rRows result)
             ([], estimateQueryResultHeaderBytes (rColumns result), flags) of
        Inl e \<Rightarrow> Inl e
      | Inr (safeRows, totalBytes, flags, stopped) \<Rightarrow>
          Inr (result\<lparr>rCellTruncated := truncated flags, rCellsMasked := masked flags,
                      rBinaryPreviewed := binary flags,
                      rTruncated := rTruncated result \<or> stopped \<or> length safeRows < length (rRows result),
                      rRows := safeRows, rRowsReturned := int (length safeRows),
                      rResultBytes := totalBytes,
                      rMessage := previewMessage (truncated flags) (rMessage result)\<rparr>))"

section \<open>Lemmas\<close>

abbreviation safe_cell :: "int \<Rightarrow> query_row \<Rightarrow> string \<Rightarrow> any_value" where
  "safe_cell m row c \<equiv> fst (safeQueryCellPreview c (row_get row c) m)"

lemma safeCells_row:
  "map_of (fst (safeCells m row cols (r, b, f))) c =
     (if c \<in> set cols then Some (safe_cell m row c) else map_of r c)"
  by (induction cols arbitrary: r b f)
    (auto simp: update_conv split: prod.splits)

lemma safeCells_bytes:
  "fst (snd (safeCells m row cols (r, b, f))) =
     b + sum_list (map (\<lambda>c. estimateQueryCellBytes c (safe_cell m row c)) cols)"
  by (induction cols arbitrary: r b f) (auto split: prod.splits)

lemma set_extra_columns: "set (columns @ extra_columns columns row) = set columns \<union> fst ` set row"
  by (auto simp: extra_columns_def)

lemma sanitizeRow_cell:
  "map_of (fst (sanitizeRow m columns row)) c =
     (if c \<in> set columns \<union> fst ` set row then Some (safe_cell m row c) else None)"
  unfolding sanitizeRow_def safeCells_row set_extra_columns by simp

lemma sanitizeRow_bytes:
  assumes "0 < m"
  shows "fst (snd (sanitizeRow m columns row)) = estimateQuerySafeRowBytes columns row m"
  using assms by (simp add: sanitizeRow_def safeCells_bytes estimateQuerySafeRowBytes_def Let_def)

lemma safe_cell_sensitive:
  "isSensitiveQueryColumn c \<Longrightarrow> safe_cell m row c \<in> {VNil, VString maskedText}"
  by (simp add: safeQueryCellPreview_def)

text \<open>What the row loop keeps: a prefix of the rows, each one sanitised, within the budget.\<close>

lemma sanitizeRows_spec:
  assumes "sanitizeRows policy columns rows (safe, tot, flags) = Inr (safe', tot', flags', stopped)"
  shows "\<exists>k \<le> length rows.
      safe' = safe @ map (\<lambda>row. fst (sanitizeRow (maxCellRunes policy) columns row)) (take k rows)
      \<and> tot' = tot + sum_list (map (\<lambda>row. fst (snd (sanitizeRow (maxCellRunes policy) columns row))) (take k rows))
      \<and> (stopped \<longleftrightarrow> k < length rows)
      \<and> (0 < maxTotalBytes policy \<longrightarrow> tot' \<le> max tot (maxTotalBytes policy))"
  using assms
proof (induction rows arbitrary: safe tot flags)
  case Nil
  then show ?case by simp
next
  case (Cons row rows)
  obtain r b cell where row: "sanitizeRow (maxCellRunes policy) columns row = (r, b, cell)"
    by (cases "sanitizeRow (maxCellRunes policy) columns row")
  show ?case
  proof (cases "maxTotalBytes policy > 0 \<and> tot + b > maxTotalBytes policy")
    case True
    with Cons.prems row show ?thesis
      by (intro exI [of _ 0]) (auto simp: Let_def split: if_splits)
  next
    case False
    with Cons.prems row
    obtain flags1 where "sanitizeRows policy columns rows (safe @ [r], tot + b, flags1)
        = Inr (safe', tot', flags', stopped)"
      by (auto simp: Let_def)
    from Cons.IH [OF this] obtain k where k: "k \<le> length rows"
      "safe' = (safe @ [r]) @ map (\<lambda>row. fst (sanitizeRow (maxCellRunes policy) columns row)) (take k rows)"
      "tot' = tot + b + sum_list (map (\<lambda>row. fst (snd (sanitizeRow (maxCellRunes policy) columns row))) (take k rows))"
      "stopped \<longleftrightarrow> k < length rows"
      "0 < maxTotalBytes policy \<longrightarrow> tot' \<le> max (tot + b) (maxTotalBytes policy)"
      by blast
    with False row show ?thesis by (intro exI [of _ "Suc k"]) auto
  qed
qed

lemma sanitizeRows_reject:
  assumes "sanitizeRows policy columns rows acc = Inl e"
  shows "rejectTotalBytes policy \<and> e = maxTotalBytes policy"
  using assms
  by (induction policy columns rows acc rule: sanitizeRows.induct)
    (auto simp: Let_def split: if_splits prod.splits)

definition effective_policy :: "queryResultSafetyPolicy \<Rightarrow> queryResultSafetyPolicy" where
  "effective_policy policy =
     (if maxCellRunes policy \<le> 0 then policy\<lparr>maxCellRunes := queryPreviewCellMaxRunes\<rparr> else policy)"

lemma effective_policy [simp]:
  "0 < maxCellRunes (effective_policy policy)"
  "maxTotalBytes (effective_policy policy) = maxTotalBytes policy"
  "rejectTotalBytes (effective_policy policy) = rejectTotalBytes policy"
  by (simp_all add: effective_policy_def queryPreviewCellMaxRunes_def)

lemma sanitize_kept:
  assumes "sanitizeDatabaseQueryResult r policy = Inr r'"
  obtains k where "k \<le> length (rRows r)" "rRowsReturned r' = int k"
    "rRows r' = map (\<lambda>row. fst (sanitizeRow (maxCellRunes (effective_policy policy)) (rColumns r) row)) (take k (rRows r))"
    "rResultBytes r' = estimateQueryResultHeaderBytes (rColumns r)
       + sum_list (map (\<lambda>row. estimateQuerySafeRowBytes (rColumns r) row (maxCellRunes (effective_policy policy))) (take k (rRows r)))"
    "rTruncated r' \<longleftrightarrow> rTruncated r \<or> k < length (rRows r)"
    "0 < maxTotalBytes policy \<Longrightarrow>
       rResultBytes r' \<le> max (estimateQueryResultHeaderBytes (rColumns r)) (maxTotalBytes policy)"
proof -
  let ?p = "effective_policy policy"
  obtain safe tot flags stopped where run:
    "sanitizeRows ?p (rColumns r) (rRows r)
       ([], estimateQueryResultHeaderBytes (rColumns r),
        \<lparr>truncated = rCellTruncated r, masked = rCellsMasked r, binary = rBinaryPreviewed r\<rparr>)
     = Inr (safe, tot, flags, stopped)"
    and fields: "rRows r' = safe" "rResultBytes r' = tot" "rRowsReturned r' = int (length safe)"
      "rTruncated r' \<longleftrightarrow> rTruncated r \<or> stopped \<or> length safe < length (rRows r)"
    using assms
    by (auto simp: sanitizeDatabaseQueryResult_def effective_policy_def Let_def split: sum.splits)
  from sanitizeRows_spec [OF run] obtain k where k: "k \<le> length (rRows r)"
    "safe = map (\<lambda>row. fst (sanitizeRow (maxCellRunes ?p) (rColumns r) row)) (take k (rRows r))"
    "tot = estimateQueryResultHeaderBytes (rColumns r)
       + sum_list (map (\<lambda>row. fst (snd (sanitizeRow (maxCellRunes ?p) (rColumns r) row))) (take k (rRows r)))"
    "stopped \<longleftrightarrow> k < length (rRows r)"
    "0 < maxTotalBytes policy \<longrightarrow>
       tot \<le> max (estimateQueryResultHeaderBytes (rColumns r)) (maxTotalBytes policy)"
    by auto
  show thesis
    by (rule that [of k]) (use k fields in \<open>auto simp: sanitizeRow_bytes\<close>)
qed

section \<open>Properties\<close>

text \<open>C37: No cell of a sensitive column leaves the server: in every row of a sanitised result the
  value stored for a column whose name contains one of the sensitive keywords (blanks, underscores,
  dashes and dots ignored) is nil or the mask.\<close>

theorem sensitive_cells_masked:
  assumes "sanitizeDatabaseQueryResult r policy = Inr r'" "row \<in> set (rRows r')"
    "map_of row c = Some v" "isSensitiveQueryColumn c"
  shows "v = VNil \<or> v = VString maskedText"
proof -
  from sanitize_kept [OF assms(1)] obtain k where
    "rRows r' = map (\<lambda>row. fst (sanitizeRow (maxCellRunes (effective_policy policy)) (rColumns r) row)) (take k (rRows r))"
    by blast
  with assms(2) obtain row0 where
    "row = fst (sanitizeRow (maxCellRunes (effective_policy policy)) (rColumns r) row0)" by auto
  with assms(3) safe_cell_sensitive [OF assms(4)] show ?thesis
    by (auto simp: sanitizeRow_cell split: if_splits)
qed

definition sample_result :: DatabaseQueryResultVO where
  "sample_result = \<lparr>rAuditID = 0, rInstanceID = 0, rSchemaName = [], rSQLType = ''SELECT'',
     rExecutedSQL = ''select'', rColumns = [''id'', ''User_Password''],
     rRows = [[(''id'', VOther [49]), (''User_Password'', VString [115, 51])]],
     rRowsReturned = 1, rDurationMs = 0, rLimit = 10, rTruncated = False, rCellTruncated = False,
     rCellsMasked = False, rBinaryPreviewed = False, rResultBytes = 0, rMessage = []\<rparr>"

definition sample_policy :: queryResultSafetyPolicy where
  "sample_policy = \<lparr>maxCellRunes = 2048, maxTotalBytes = 4194304, rejectTotalBytes = False\<rparr>"

theorem sensitive_cells_masked_witness:
  "\<exists>r' row v. sanitizeDatabaseQueryResult sample_result sample_policy = Inr r' \<and> row \<in> set (rRows r')
     \<and> map_of row ''User_Password'' = Some v \<and> isSensitiveQueryColumn ''User_Password''
     \<and> (v = VNil \<or> v = VString maskedText)"
proof -
  let ?row = "[(''id'', VOther [49]), (''User_Password'', VString maskedText)]"
  have run: "map_sum id (\<lambda>r'. rRows r') (sanitizeDatabaseQueryResult sample_result sample_policy)
      = Inr [?row]" by code_simp
  then obtain r' where r': "sanitizeDatabaseQueryResult sample_result sample_policy = Inr r'" "rRows r' = [?row]"
    by (cases "sanitizeDatabaseQueryResult sample_result sample_policy") auto
  have s: "isSensitiveQueryColumn ''User_Password''" by code_simp
  from r' have v: "map_of ?row ''User_Password'' = Some (VString maskedText)" by simp
  from sensitive_cells_masked [OF r'(1) _ v s] r' s v show ?thesis by auto
qed

text \<open>Sanitising keeps a prefix of the rows, each with exactly its listed columns and its own
  keys and every cell replaced by its preview; the reported number of rows is the length of that
  prefix, the reported bytes are the header plus the row estimates, and the result is flagged
  truncated exactly when it was before or a row was dropped.\<close>

theorem sanitize_prefix:
  assumes "sanitizeDatabaseQueryResult r policy = Inr r'"
  shows "\<exists>k \<le> length (rRows r). rRowsReturned r' = int k \<and> length (rRows r') = k
    \<and> (rTruncated r' \<longleftrightarrow> rTruncated r \<or> k < length (rRows r))
    \<and> rResultBytes r' = estimateQueryResultHeaderBytes (rColumns r)
        + sum_list (map (\<lambda>row. estimateQuerySafeRowBytes (rColumns r) row (maxCellRunes (effective_policy policy)))
            (take k (rRows r)))
    \<and> (\<forall>i < k. \<forall>c. map_of (rRows r' ! i) c =
         (if c \<in> set (rColumns r) \<union> fst ` set (rRows r ! i)
          then Some (fst (safeQueryCellPreview c (row_get (rRows r ! i) c) (maxCellRunes (effective_policy policy))))
          else None))"
proof -
  from sanitize_kept [OF assms] obtain k where k: "k \<le> length (rRows r)" "rRowsReturned r' = int k"
    "rRows r' = map (\<lambda>row. fst (sanitizeRow (maxCellRunes (effective_policy policy)) (rColumns r) row)) (take k (rRows r))"
    "rResultBytes r' = estimateQueryResultHeaderBytes (rColumns r)
       + sum_list (map (\<lambda>row. estimateQuerySafeRowBytes (rColumns r) row (maxCellRunes (effective_policy policy))) (take k (rRows r)))"
    "rTruncated r' \<longleftrightarrow> rTruncated r \<or> k < length (rRows r)" by blast
  then show ?thesis by (intro exI [of _ k]) (simp add: sanitizeRow_cell)
qed

theorem sanitize_prefix_witness:
  "\<exists>r'. sanitizeDatabaseQueryResult sample_result sample_policy = Inr r' \<and> rRowsReturned r' \<le> 1"
proof -
  have "\<exists>r'. sanitizeDatabaseQueryResult sample_result sample_policy = Inr r'"
    by (simp add: sanitizeDatabaseQueryResult_def sample_policy_def Let_def
        split: sum.split) (auto dest: sanitizeRows_reject)
  then obtain r' where "sanitizeDatabaseQueryResult sample_result sample_policy = Inr r'" by blast
  with sanitize_prefix [OF this] show ?thesis by (auto simp: sample_result_def)
qed

text \<open>A sanitised result fits the byte budget of its policy (unless the header alone exceeds
  it), and only a policy that rejects, the export policy, ever fails.\<close>

theorem sanitize_budget:
  "(0 < maxTotalBytes policy \<longrightarrow>
      (case sanitizeDatabaseQueryResult r policy of
         Inl e \<Rightarrow> rejectTotalBytes policy \<and> e = maxTotalBytes policy
       | Inr r' \<Rightarrow> rResultBytes r' \<le> max (estimateQueryResultHeaderBytes (rColumns r)) (maxTotalBytes policy)))"
proof (intro impI, cases "sanitizeDatabaseQueryResult r policy")
  case (Inl e)
  then have "\<exists>acc. sanitizeRows (effective_policy policy) (rColumns r) (rRows r) acc = Inl e"
    by (simp only: sanitizeDatabaseQueryResult_def effective_policy_def Let_def sum.distinct
        split: sum.splits prod.splits) blast
  with Inl show "case sanitizeDatabaseQueryResult r policy of
       Inl e \<Rightarrow> rejectTotalBytes policy \<and> e = maxTotalBytes policy
     | Inr r' \<Rightarrow> rResultBytes r' \<le> max (estimateQueryResultHeaderBytes (rColumns r)) (maxTotalBytes policy)"
    by (auto dest: sanitizeRows_reject)
next
  assume pos: "0 < maxTotalBytes policy"
  case (Inr r')
  from sanitize_kept [OF Inr] Inr pos show "case sanitizeDatabaseQueryResult r policy of
       Inl e \<Rightarrow> rejectTotalBytes policy \<and> e = maxTotalBytes policy
     | Inr r' \<Rightarrow> rResultBytes r' \<le> max (estimateQueryResultHeaderBytes (rColumns r)) (maxTotalBytes policy)"
    by (simp, metis)
qed

theorem sanitize_budget_witness:
  "case sanitizeDatabaseQueryResult sample_result sample_policy of
     Inl e \<Rightarrow> False | Inr r' \<Rightarrow> rResultBytes r' \<le> 4194304"
proof -
  have "max (estimateQueryResultHeaderBytes (rColumns sample_result)) (maxTotalBytes sample_policy) = 4194304"
    by code_simp
  then show ?thesis
    using sanitize_budget [of sample_policy sample_result]
    by (auto simp: sample_policy_def split: sum.splits)
qed

end
