(* ===== verification/Query_Exec.thy ===== *)
theory Query_Exec
  imports Sql_Safety Query_Result
begin

text \<open>
  The executors of the query console: opening a connection, running a read-only query, a data
  change or a DDL statement inside its transaction (executeMySQLChange and its siblings of
  query_change.go, query_ddl.go, usecase.go and postgresql.go) and reading the rows of a result
  (sql_result.go).

  The database driver is a parameter: a record of what each call of \<open>database/sql\<close> answers, an
  error text or a value. An executor returns its Go result and the trace of the calls it made, in
  order, deferred calls at the end. An error of the program is a constructor of \<open>query_error\<close>; the
  driver's own error text is its argument.
\<close>

section \<open>Data\<close>

record DatabaseInstance =
  iID :: nat
  iName :: string
  iDBType :: string
  iHost :: string
  iPort :: int
  iDefaultDatabase :: string
  iCredentialID :: nat
  iTLSEnabled :: bool
  iStatus :: string

record ConnectionCredential =
  Username :: string
  Password :: string

datatype query_error =
    RequestNil | InstanceMissing | InstanceDisabled | AuditUnconfigured | ResolverUnconfigured
  | PolicyFailed string | SafetyDenied sql_message
  | WriteExecutionLater db_text | WriteTypeUnsupported | WriteReasonMissing | WriteNotConfirmed
  | DDLExecutionLater db_text | DDLTypeUnsupported | DDLReasonMissing | DDLNotConfirmed
  | UnlimitedNotPermitted | RedisUnlimited | QueryLater db_text
  | AuditCreateFailed string | AuditUpdateFailed string | CredentialMissing
  | CredentialUserEmpty | CredentialPasswordEmpty | OpenFailed string | PingFailed string
  | BeginFailed string | SetSchemaFailed string | ExecFailed string | RowsAffectedFailed string
  | RowsLimitExceeded int int | RollbackFailed query_error string | CommitFailed string
  | QueryFailed string | ColumnsFailed string | ScanFailed string | RowsFailed string
  | RowsCloseFailed string | ResultTooLarge int | EngineFailed string
  | BackupNote string
  | PurgeNote nat "nat list" \<comment> \<open>not an error: the note a successful purge leaves in the error column of its audit row\<close>

record conn_config =
  cfgDriver :: string
  cfgUser :: string
  cfgPasswd :: string
  cfgHost :: string
  cfgPort :: int
  cfgDBName :: string
  cfgTLS :: bool

record query_rows =
  qColumns :: "string + string list"
  qRows :: "(string + any_value list) list"
  qErr :: "string option"
  qCloseErr :: "string option"

record sql_driver =
  drvOpenErr :: "conn_config \<Rightarrow> string option"
  drvPingErr :: "string option"
  drvBeginErr :: "string option"
  drvExecErr :: "string \<Rightarrow> string option"
  drvRowsAffected :: "string \<Rightarrow> string + int"
  drvRollbackErr :: "string option"
  drvCommitErr :: "string option"
  drvQuery :: "string \<Rightarrow> string + query_rows"

text \<open>\<open>EvBegin\<close> is a transaction that was begun and tells whether it is read-only, \<open>EvDeadline\<close> the seconds of the context
  the calls behind it run under.\<close>

datatype db_event =
    EvOpen conn_config | EvDeadline int | EvPing | EvBegin bool | EvBeginFailed | EvExec string | EvQuery string
  | EvRollback | EvCommit | EvClose

section \<open>Connections\<close>

definition openMySQLDB ::
  "sql_driver \<Rightarrow> DatabaseInstance \<Rightarrow> ConnectionCredential option \<Rightarrow> query_error + conn_config" where
  "openMySQLDB drv item credential =
     (case credential of
        None \<Rightarrow> Inl CredentialUserEmpty
      | Some cred \<Rightarrow>
          if TrimSpace (Username cred) = [] then Inl CredentialUserEmpty
          else if Password cred = [] then Inl CredentialPasswordEmpty
          else let cfg = \<lparr>cfgDriver = ''mysql'', cfgUser = TrimSpace (Username cred),
                          cfgPasswd = Password cred, cfgHost = TrimSpace (iHost item),
                          cfgPort = iPort item, cfgDBName = TrimSpace (iDefaultDatabase item),
                          cfgTLS = iTLSEnabled item\<rparr> in
               case drvOpenErr drv cfg of Some m \<Rightarrow> Inl (OpenFailed m) | None \<Rightarrow> Inr cfg)"

definition openPostgreSQLDB ::
  "sql_driver \<Rightarrow> DatabaseInstance \<Rightarrow> ConnectionCredential option \<Rightarrow> query_error + conn_config" where
  "openPostgreSQLDB drv item credential =
     (case credential of
        None \<Rightarrow> Inl CredentialUserEmpty
      | Some cred \<Rightarrow>
          if TrimSpace (Username cred) = [] then Inl CredentialUserEmpty
          else if Password cred = [] then Inl CredentialPasswordEmpty
          else let dbName = TrimSpace (iDefaultDatabase item);
                   dbName = (if dbName = [] then TrimSpace (Username cred) else dbName);
                   cfg = \<lparr>cfgDriver = ''pgx'', cfgUser = TrimSpace (Username cred),
                          cfgPasswd = Password cred, cfgHost = TrimSpace (iHost item),
                          cfgPort = iPort item, cfgDBName = dbName, cfgTLS = iTLSEnabled item\<rparr> in
               case drvOpenErr drv cfg of Some m \<Rightarrow> Inl (OpenFailed m) | None \<Rightarrow> Inr cfg)"

definition quotePostgreSQLIdentifier :: "string \<Rightarrow> string" where
  "quotePostgreSQLIdentifier value =
     [DQ] @ concat (map (\<lambda>c. if c = DQ then [DQ, DQ] else [c]) (TrimSpace value)) @ [DQ]"

text \<open>The instance a MySQL executor connects with: the schema of the request replaces the default
  database.\<close>

definition mysqlQueryItem :: "DatabaseInstance \<Rightarrow> string \<Rightarrow> DatabaseInstance" where
  "mysqlQueryItem item schemaName =
     (if TrimSpace schemaName \<noteq> [] then item\<lparr>iDefaultDatabase := TrimSpace schemaName\<rparr> else item)"

section \<open>Data changes\<close>

definition normalizeRowsAffected :: "int \<Rightarrow> int" where
  "normalizeRowsAffected rowsAffected = (if rowsAffected < 0 then 0 else rowsAffected)"

definition enforceRowsAffectedLimit :: "int \<Rightarrow> int \<Rightarrow> query_error option" where
  "enforceRowsAffectedLimit rowsAffected lim =
     (let rowsAffected = normalizeRowsAffected rowsAffected in
      if lim > 0 \<and> rowsAffected > lim then Some (RowsLimitExceeded rowsAffected lim) else None)"

text \<open>The statement of a change and the end of its transaction, the same in both executors: the
  affected rows, the error and the calls.\<close>

definition runChangeStatement ::
  "sql_driver \<Rightarrow> string \<Rightarrow> int \<Rightarrow> (int \<times> query_error option) \<times> db_event list" where
  "runChangeStatement drv sqlText lim =
     (case drvExecErr drv sqlText of
        Some m \<Rightarrow> ((0, Some (ExecFailed m)), [EvExec sqlText, EvRollback])
      | None \<Rightarrow>
        (case drvRowsAffected drv sqlText of
           Inl m \<Rightarrow> ((0, Some (RowsAffectedFailed m)), [EvExec sqlText, EvRollback])
         | Inr rowsAffected \<Rightarrow>
             let normalized = normalizeRowsAffected rowsAffected in
             case enforceRowsAffectedLimit normalized lim of
               Some e \<Rightarrow>
                 ((normalized, Some (case drvRollbackErr drv of Some m \<Rightarrow> RollbackFailed e m | None \<Rightarrow> e)),
                  [EvExec sqlText, EvRollback])
             | None \<Rightarrow>
                 ((normalized, map_option CommitFailed (drvCommitErr drv)), [EvExec sqlText, EvCommit])))"

definition searchPathText :: "string \<Rightarrow> string" where
  "searchPathText schemaName = ''SET search_path TO '' @ quotePostgreSQLIdentifier schemaName @ '', public''"

text \<open>The common frame: connect, ping, begin, run the body, close.\<close>

definition withTx ::
  "sql_driver \<Rightarrow> conn_config \<Rightarrow> int \<Rightarrow> bool \<Rightarrow> (query_error \<Rightarrow> 'r) \<Rightarrow> 'r \<times> db_event list \<Rightarrow> 'r \<times> db_event list" where
  "withTx drv cfg timeoutSeconds readOnly fails body =
     (case drvPingErr drv of
        Some m \<Rightarrow> (fails (PingFailed m), [EvOpen cfg, EvDeadline timeoutSeconds, EvPing, EvClose])
      | None \<Rightarrow>
        (case drvBeginErr drv of
           Some m \<Rightarrow> (fails (BeginFailed m),
                      [EvOpen cfg, EvDeadline timeoutSeconds, EvPing, EvBeginFailed, EvClose])
         | None \<Rightarrow> (fst body, [EvOpen cfg, EvDeadline timeoutSeconds, EvPing, EvBegin readOnly]
                              @ snd body @ [EvClose])))"

definition executeMySQLChange ::
  "sql_driver \<Rightarrow> DatabaseInstance \<Rightarrow> ConnectionCredential option \<Rightarrow> string \<Rightarrow> string \<Rightarrow> int \<Rightarrow> int
   \<Rightarrow> (int \<times> query_error option) \<times> db_event list" where
  "executeMySQLChange drv item credential schemaName sqlText timeoutSeconds lim =
     (case openMySQLDB drv (mysqlQueryItem item schemaName) credential of
        Inl e \<Rightarrow> ((0, Some e), [])
      | Inr cfg \<Rightarrow> withTx drv cfg timeoutSeconds False (\<lambda>e. (0, Some e)) (runChangeStatement drv sqlText lim))"

definition executePostgreSQLChange ::
  "sql_driver \<Rightarrow> DatabaseInstance \<Rightarrow> ConnectionCredential option \<Rightarrow> string \<Rightarrow> string \<Rightarrow> int \<Rightarrow> int
   \<Rightarrow> (int \<times> query_error option) \<times> db_event list" where
  "executePostgreSQLChange drv item credential schemaName sqlText timeoutSeconds lim =
     (case openPostgreSQLDB drv item credential of
        Inl e \<Rightarrow> ((0, Some e), [])
      | Inr cfg \<Rightarrow>
          withTx drv cfg timeoutSeconds False (\<lambda>e. (0, Some e))
            (if TrimSpace schemaName \<noteq> [] then
               (case drvExecErr drv (searchPathText schemaName) of
                  Some m \<Rightarrow> ((0, Some (SetSchemaFailed m)), [EvExec (searchPathText schemaName), EvRollback])
                | None \<Rightarrow> (let r = runChangeStatement drv sqlText lim in
                    (fst r, EvExec (searchPathText schemaName) # snd r)))
             else runChangeStatement drv sqlText lim))"

definition executeSQLChange ::
  "sql_driver \<Rightarrow> DatabaseInstance \<Rightarrow> ConnectionCredential option \<Rightarrow> string \<Rightarrow> string \<Rightarrow> int \<Rightarrow> int
   \<Rightarrow> (int \<times> query_error option) \<times> db_event list" where
  "executeSQLChange drv item credential schemaName sqlText timeoutSeconds lim =
     (let t = normalizeDBType (iDBType item) in
      if t = DBTypeMySQL \<or> t = DBTypeMariaDB
      then executeMySQLChange drv item credential schemaName sqlText timeoutSeconds lim
      else if t = DBTypePostgreSQL
      then executePostgreSQLChange drv item credential schemaName sqlText timeoutSeconds lim
      else ((0, Some (WriteExecutionLater (DBTypeText (iDBType item)))), []))"

section \<open>DDL\<close>

definition ddlRowsAffected :: "string + int \<Rightarrow> int" where
  "ddlRowsAffected result = (case result of Inl _ \<Rightarrow> 0 | Inr n \<Rightarrow> normalizeRowsAffected n)"

definition executeMySQLDDL ::
  "sql_driver \<Rightarrow> DatabaseInstance \<Rightarrow> ConnectionCredential option \<Rightarrow> string \<Rightarrow> string \<Rightarrow> int
   \<Rightarrow> (int \<times> query_error option) \<times> db_event list" where
  "executeMySQLDDL drv item credential schemaName sqlText timeoutSeconds =
     (case openMySQLDB drv (mysqlQueryItem item schemaName) credential of
        Inl e \<Rightarrow> ((0, Some e), [])
      | Inr cfg \<Rightarrow>
        (case drvPingErr drv of
           Some m \<Rightarrow> ((0, Some (PingFailed m)), [EvOpen cfg, EvDeadline timeoutSeconds, EvPing, EvClose])
         | None \<Rightarrow>
             (case drvExecErr drv sqlText of
                Some m \<Rightarrow> (0, Some (ExecFailed m))
              | None \<Rightarrow> (ddlRowsAffected (drvRowsAffected drv sqlText), None),
              [EvOpen cfg, EvDeadline timeoutSeconds, EvPing, EvExec sqlText, EvClose])))"

definition runDDLStatement :: "sql_driver \<Rightarrow> string \<Rightarrow> (int \<times> query_error option) \<times> db_event list" where
  "runDDLStatement drv sqlText =
     (case drvExecErr drv sqlText of
        Some m \<Rightarrow> ((0, Some (ExecFailed m)), [EvExec sqlText, EvRollback])
      | None \<Rightarrow> ((ddlRowsAffected (drvRowsAffected drv sqlText), map_option CommitFailed (drvCommitErr drv)),
                 [EvExec sqlText, EvCommit]))"

definition executePostgreSQLDDL ::
  "sql_driver \<Rightarrow> DatabaseInstance \<Rightarrow> ConnectionCredential option \<Rightarrow> string \<Rightarrow> string \<Rightarrow> int
   \<Rightarrow> (int \<times> query_error option) \<times> db_event list" where
  "executePostgreSQLDDL drv item credential schemaName sqlText timeoutSeconds =
     (case openPostgreSQLDB drv item credential of
        Inl e \<Rightarrow> ((0, Some e), [])
      | Inr cfg \<Rightarrow>
          withTx drv cfg timeoutSeconds False (\<lambda>e. (0, Some e))
            (if TrimSpace schemaName \<noteq> [] then
               (case drvExecErr drv (searchPathText schemaName) of
                  Some m \<Rightarrow> ((0, Some (SetSchemaFailed m)), [EvExec (searchPathText schemaName), EvRollback])
                | None \<Rightarrow> (let r = runDDLStatement drv sqlText in
                    (fst r, EvExec (searchPathText schemaName) # snd r)))
             else runDDLStatement drv sqlText))"

definition executeSQLDDL ::
  "sql_driver \<Rightarrow> DatabaseInstance \<Rightarrow> ConnectionCredential option \<Rightarrow> string \<Rightarrow> string \<Rightarrow> int
   \<Rightarrow> (int \<times> query_error option) \<times> db_event list" where
  "executeSQLDDL drv item credential schemaName sqlText timeoutSeconds =
     (let t = normalizeDBType (iDBType item) in
      if t = DBTypeMySQL \<or> t = DBTypeMariaDB
      then executeMySQLDDL drv item credential schemaName sqlText timeoutSeconds
      else if t = DBTypePostgreSQL
      then executePostgreSQLDDL drv item credential schemaName sqlText timeoutSeconds
      else ((0, Some (DDLExecutionLater (DBTypeText (iDBType item)))), []))"

section \<open>Reading results\<close>

definition normalizeSQLValue :: "any_value \<Rightarrow> any_value" where
  "normalizeSQLValue value = (case value of VNil \<Rightarrow> VNil | VBytes v \<Rightarrow> VRawBytes v | VTime v \<Rightarrow> VString v | v \<Rightarrow> v)"

text \<open>The row loop: rows read so far, the estimated bytes and the truncation flag. Without a
  positive limit the preview budget ends the loop.\<close>

fun readRows :: "string list \<Rightarrow> int \<Rightarrow> (string + any_value list) list \<Rightarrow> query_row list \<times> int
    \<Rightarrow> query_error + query_row list \<times> bool" where
  "readRows columns lim [] (resultRows, bytes) = Inr (resultRows, False)"
| "readRows columns lim (scanned # rest) (resultRows, bytes) =
     (if lim > 0 \<and> int (length resultRows) \<ge> lim then Inr (resultRows, True)
      else case scanned of
        Inl m \<Rightarrow> Inl (ScanFailed m)
      | Inr values \<Rightarrow>
          let row = fold (\<lambda>(column, v). AList.update column (normalizeSQLValue v)) (zip columns values) [];
              rowBytes = estimateQuerySafeRowBytes columns row queryPreviewCellMaxRunes in
          if lim \<le> 0 \<and> bytes + rowBytes > queryPreviewTotalMaxBytes then Inr (resultRows, True)
          else readRows columns lim rest (resultRows @ [row], if lim \<le> 0 then bytes + rowBytes else bytes))"

definition querySucceededText :: utext where
  "querySucceededText = [0x67E5, 0x8BE2, 0x6210, 0x529F]"

definition readSQLQueryResult ::
  "query_rows \<Rightarrow> string \<Rightarrow> string \<Rightarrow> int \<Rightarrow> query_error + DatabaseQueryResultVO" where
  "readSQLQueryResult rows sqlType sqlText lim =
     (case qColumns rows of
        Inl m \<Rightarrow> Inl (ColumnsFailed m)
      | Inr columns \<Rightarrow>
        (case readRows columns lim (qRows rows) ([], estimateQueryResultHeaderBytes columns) of
           Inl e \<Rightarrow> Inl e
         | Inr (resultRows, wasCut) \<Rightarrow>
           (case qErr rows of
              Some m \<Rightarrow> Inl (RowsFailed m)
            | None \<Rightarrow> Inr \<lparr>rAuditID = 0, rInstanceID = 0, rSchemaName = [], rSQLType = sqlType,
                rExecutedSQL = sqlText, rColumns = columns, rRows = resultRows,
                rRowsReturned = int (length resultRows), rDurationMs = 0, rLimit = lim,
                rTruncated = wasCut, rCellTruncated = False, rCellsMasked = False,
                rBinaryPreviewed = False, rResultBytes = 0, rMessage = querySucceededText\<rparr>)))"

definition runQueryStatement ::
  "sql_driver \<Rightarrow> string \<Rightarrow> string \<Rightarrow> int \<Rightarrow> (query_error + DatabaseQueryResultVO) \<times> db_event list" where
  "runQueryStatement drv sqlType sqlText lim =
     ((case drvQuery drv sqlText of
         Inl m \<Rightarrow> Inl (QueryFailed m)
       | Inr rows \<Rightarrow>
         (case readSQLQueryResult rows sqlType sqlText lim of
            Inl e \<Rightarrow> Inl e
          | Inr result \<Rightarrow>
            (case qCloseErr rows of Some m \<Rightarrow> Inl (RowsCloseFailed m) | None \<Rightarrow> Inr result))),
      [EvQuery sqlText, EvRollback])"

definition executeMySQLQuery ::
  "sql_driver \<Rightarrow> DatabaseInstance \<Rightarrow> ConnectionCredential option \<Rightarrow> string \<Rightarrow> string \<Rightarrow> string \<Rightarrow> int \<Rightarrow> int
   \<Rightarrow> (query_error + DatabaseQueryResultVO) \<times> db_event list" where
  "executeMySQLQuery drv item credential schemaName sqlType sqlText lim timeoutSeconds =
     (case openMySQLDB drv (mysqlQueryItem item schemaName) credential of
        Inl e \<Rightarrow> (Inl e, [])
      | Inr cfg \<Rightarrow> withTx drv cfg timeoutSeconds True Inl (runQueryStatement drv sqlType sqlText lim))"

definition searchPathLocalText :: "string \<Rightarrow> string" where
  "searchPathLocalText schemaName =
     ''SET LOCAL search_path TO '' @ quotePostgreSQLIdentifier schemaName @ '', public''"

definition executePostgreSQLQuery ::
  "sql_driver \<Rightarrow> DatabaseInstance \<Rightarrow> ConnectionCredential option \<Rightarrow> string \<Rightarrow> string \<Rightarrow> string \<Rightarrow> int \<Rightarrow> int
   \<Rightarrow> (query_error + DatabaseQueryResultVO) \<times> db_event list" where
  "executePostgreSQLQuery drv item credential schemaName sqlType sqlText lim timeoutSeconds =
     (case openPostgreSQLDB drv item credential of
        Inl e \<Rightarrow> (Inl e, [])
      | Inr cfg \<Rightarrow>
          withTx drv cfg timeoutSeconds True Inl
            (if TrimSpace schemaName \<noteq> [] then
               (case drvExecErr drv (searchPathLocalText schemaName) of
                  Some m \<Rightarrow> (Inl (SetSchemaFailed m), [EvExec (searchPathLocalText schemaName), EvRollback])
                | None \<Rightarrow> (let r = runQueryStatement drv sqlType sqlText lim in
                    (fst r, EvExec (searchPathLocalText schemaName) # snd r)))
             else runQueryStatement drv sqlType sqlText lim))"

section \<open>Transactions\<close>

text \<open>The discipline of a trace: a transaction is begun once, statements run inside one, it ends
  with a commit or a rollback, and the connection is closed outside of one.\<close>

fun tx_ok :: "bool \<Rightarrow> db_event list \<Rightarrow> bool" where
  "tx_ok inTx [] = (\<not> inTx)"
| "tx_ok inTx (e # es) =
     (case e of
        EvBegin _ \<Rightarrow> \<not> inTx \<and> tx_ok True es
      | EvExec _ \<Rightarrow> inTx \<and> tx_ok True es
      | EvQuery _ \<Rightarrow> inTx \<and> tx_ok True es
      | EvRollback \<Rightarrow> inTx \<and> tx_ok False es
      | EvCommit \<Rightarrow> inTx \<and> tx_ok False es
      | EvClose \<Rightarrow> \<not> inTx \<and> tx_ok False es
      | _ \<Rightarrow> tx_ok inTx es)"

lemma tx_ok_withTx:
  "tx_ok True (snd body @ [EvClose]) \<Longrightarrow> tx_ok False (snd (withTx drv cfg t ro fails body))"
  by (simp add: withTx_def split: option.split)

lemma tx_ok_change: "tx_ok True (snd (runChangeStatement drv s lim) @ [EvClose])"
  by (simp add: runChangeStatement_def Let_def split: option.split sum.split)

lemma tx_ok_query: "tx_ok True (snd (runQueryStatement drv ty s lim) @ [EvClose])"
  by (simp add: runQueryStatement_def)

lemma tx_ok_executeSQLChange: "tx_ok False (snd (executeSQLChange drv item cred schema s t lim))"
proof -
  have "tx_ok False (snd (executeMySQLChange drv item cred schema s t lim))"
    by (simp add: executeMySQLChange_def tx_ok_withTx tx_ok_change split: sum.split)
  moreover have "tx_ok False (snd (executePostgreSQLChange drv item cred schema s t lim))"
    by (auto simp: executePostgreSQLChange_def Let_def tx_ok_change
        intro!: tx_ok_withTx split: sum.split option.split)
  ultimately show ?thesis by (simp add: executeSQLChange_def Let_def)
qed

text \<open>What the end of a change says: a commit is only called within the limit, a result without
  error was committed.\<close>

definition change_ok :: "sql_driver \<Rightarrow> string \<Rightarrow> int \<Rightarrow> (int \<times> query_error option) \<times> db_event list \<Rightarrow> bool" where
  "change_ok drv s lim r \<longleftrightarrow>
     (EvCommit \<in> set (snd r) \<longrightarrow>
        (\<exists>n. drvRowsAffected drv s = Inr n \<and> fst (fst r) = normalizeRowsAffected n)
        \<and> EvExec s \<in> set (snd r) \<and> EvRollback \<notin> set (snd r)
        \<and> (0 < lim \<longrightarrow> fst (fst r) \<le> lim))
     \<and> (snd (fst r) = None \<longrightarrow> EvCommit \<in> set (snd r))
     \<and> (EvRollback \<in> set (snd r) \<longrightarrow> snd (fst r) \<noteq> None)"

lemma normalizeRowsAffected_idem [simp]:
  "normalizeRowsAffected (normalizeRowsAffected n) = normalizeRowsAffected n"
  by (simp add: normalizeRowsAffected_def)

lemma change_ok_statement: "change_ok drv s lim (runChangeStatement drv s lim)"
  by (auto simp: change_ok_def runChangeStatement_def enforceRowsAffectedLimit_def Let_def
      split: option.split sum.split if_splits)

lemma change_ok_withTx:
  "change_ok drv s lim body \<Longrightarrow> change_ok drv s lim (withTx drv cfg t ro (\<lambda>e. (0, Some e)) body)"
  by (auto simp: change_ok_def withTx_def split: option.split)

lemma change_ok_schema:
  "change_ok drv s lim r \<Longrightarrow> change_ok drv s lim (fst r, EvExec u # snd r)"
  by (auto simp: change_ok_def)

lemma change_ok_fails: "EvCommit \<notin> set tr \<Longrightarrow> change_ok drv s lim ((n, Some e), tr)"
  by (simp add: change_ok_def)

lemma change_ok_executeSQLChange: "change_ok drv s lim (executeSQLChange drv item cred schema s t lim)"
proof -
  have "change_ok drv s lim (executeMySQLChange drv item cred schema s t lim)"
    by (simp add: executeMySQLChange_def change_ok_withTx change_ok_statement change_ok_fails split: sum.split)
  moreover have "change_ok drv s lim (executePostgreSQLChange drv item cred schema s t lim)"
    by (auto simp: executePostgreSQLChange_def Let_def
        intro!: change_ok_withTx change_ok_statement change_ok_fails change_ok_schema
        split: sum.split option.split)
  ultimately show ?thesis by (simp add: executeSQLChange_def Let_def change_ok_fails)
qed

text \<open>Read-only queries begin read-only transactions and never commit.\<close>

definition read_only_trace :: "db_event list \<Rightarrow> bool" where
  "read_only_trace tr = (tx_ok False tr \<and> list_all (\<lambda>e. e \<noteq> EvBegin False \<and> e \<noteq> EvCommit) tr)"

lemma read_only_queries:
  "read_only_trace (snd (executeMySQLQuery drv item cred schema ty s lim t))"
  "read_only_trace (snd (executePostgreSQLQuery drv item cred schema ty s lim t))"
  by (auto simp: read_only_trace_def executeMySQLQuery_def executePostgreSQLQuery_def Let_def
      withTx_def runQueryStatement_def split: sum.split option.split)

section \<open>Identifiers\<close>

text \<open>How PostgreSQL reads a quoted identifier: a doubled quote stands for a quote, a single one ends
  it. The result is the identifier and the text behind it.\<close>

fun scan_quoted :: "string \<Rightarrow> string \<Rightarrow> (string \<times> string) option" where
  "scan_quoted acc [] = None"
| "scan_quoted acc [c] = (if c = DQ then Some (acc, []) else None)"
| "scan_quoted acc (c # d # rest) =
     (if c = DQ then (if d = DQ then scan_quoted (acc @ [DQ]) rest else Some (acc, d # rest))
      else scan_quoted (acc @ [c]) (d # rest))"

lemma scan_quoted_doubled:
  "\<not> HasPrefix rest [DQ] \<Longrightarrow>
     scan_quoted acc (concat (map (\<lambda>c. if c = DQ then [DQ, DQ] else [c]) v) @ DQ # rest) = Some (acc @ v, rest)"
proof (induction v arbitrary: acc)
  case Nil
  then show ?case by (cases rest) auto
next
  case (Cons c v)
  let ?w = "concat (map (\<lambda>c. if c = DQ then [DQ, DQ] else [c]) v) @ DQ # rest"
  show ?case
  proof (cases "c = DQ")
    case True
    with Cons show ?thesis by simp
  next
    case False
    moreover obtain d w where "?w = d # w" by (cases ?w) auto
    ultimately show ?thesis using Cons by simp
  qed
qed

section \<open>Rows\<close>

lemma readRows_bounded:
  assumes "readRows columns lim rows (acc, bytes) = Inr (out, wasCut)" "0 < lim" "int (length acc) \<le> lim"
  shows "length out = min (nat lim) (length acc + length rows)
    \<and> (wasCut \<longleftrightarrow> int (length acc + length rows) > lim)"
  using assms
proof (induction rows arbitrary: acc bytes)
  case (Cons scanned rest)
  show ?case
  proof (cases "int (length acc) \<ge> lim")
    case True
    with Cons.prems show ?thesis by auto
  next
    case False
    with Cons.prems obtain vs where "scanned = Inr vs" by (cases scanned) auto
    with False Cons.prems obtain acc' where a:
      "readRows columns lim rest (acc', bytes) = Inr (out, wasCut)" "length acc' = Suc (length acc)"
      by (auto simp: Let_def split: if_splits)
    with Cons.IH [OF a(1) Cons.prems(2)] False show ?thesis by auto
  qed
qed auto

section \<open>Properties\<close>


definition sample_driver :: sql_driver where
  "sample_driver = \<lparr>drvOpenErr = (\<lambda>_. None), drvPingErr = None, drvBeginErr = None,
     drvExecErr = (\<lambda>_. None), drvRowsAffected = (\<lambda>_. Inr 5), drvRollbackErr = None, drvCommitErr = None,
     drvQuery = (\<lambda>_. Inr \<lparr>qColumns = Inr [''id''], qRows = [Inr [VOther [49]], Inr [VOther [50]]],
                         qErr = None, qCloseErr = None\<rparr>)\<rparr>"

definition sample_instance :: DatabaseInstance where
  "sample_instance = \<lparr>iID = 7, iName = ''orders'', iDBType = ''mysql'', iHost = ''10.0.0.1'', iPort = 3306,
     iDefaultDatabase = ''shop'', iCredentialID = 3, iTLSEnabled = False, iStatus = ''enabled''\<rparr>"

definition sample_credential :: ConnectionCredential where
  "sample_credential = \<lparr>Username = ''app'', Password = ''pw''\<rparr>"


text \<open>A schema name cannot break out of the SET search_path statements: PostgreSQL reads the quoted
  identifier back as the trimmed name, whatever runes it has, and what follows is the text the code
  appends.\<close>

theorem search_path_quoting:
  "(\<exists>w. searchPathText schema = ''SET search_path TO '' @ DQ # w
      \<and> scan_quoted [] w = Some (TrimSpace schema, '', public''))
   \<and> (\<exists>w. searchPathLocalText schema = ''SET LOCAL search_path TO '' @ DQ # w
      \<and> scan_quoted [] w = Some (TrimSpace schema, '', public''))"
  using scan_quoted_doubled [of "'', public''" "[]" "TrimSpace schema"]
  by (simp add: searchPathText_def searchPathLocalText_def quotePostgreSQLIdentifier_def)

text \<open>With a row limit, a result read from the driver has at most that many rows, and it is flagged
  truncated exactly when the driver had more.\<close>

theorem result_rows_bounded:
  assumes "readSQLQueryResult rows ty s lim = Inr r" "0 < lim"
  shows "length (rRows r) = min (nat lim) (length (qRows rows))
    \<and> rRowsReturned r = int (length (rRows r))
    \<and> (rTruncated r \<longleftrightarrow> lim < int (length (qRows rows)))"
proof -
  obtain columns resultRows wasCut where
    "readRows columns lim (qRows rows) ([], estimateQueryResultHeaderBytes columns) = Inr (resultRows, wasCut)"
    "rRows r = resultRows" "rRowsReturned r = int (length resultRows)" "rTruncated r = wasCut"
    using assms(1) by (auto simp: readSQLQueryResult_def split: sum.splits option.splits)
  with readRows_bounded assms(2) show ?thesis by fastforce
qed

theorem result_rows_bounded_witness:
  "\<exists>rows r. readSQLQueryResult rows ''SELECT'' ''SELECT id FROM t'' 1 = Inr r \<and> length (rRows r) = 1 \<and> rTruncated r"
proof -
  let ?rows = "\<lparr>qColumns = Inr [''id''], qRows = [Inr [VOther [49]], Inr [VOther [50]]],
    qErr = None, qCloseErr = None\<rparr>"
  have "\<exists>r. readSQLQueryResult ?rows ''SELECT'' ''SELECT id FROM t'' 1 = Inr r"
    by (simp add: readSQLQueryResult_def Let_def)
  then obtain r where r: "readSQLQueryResult ?rows ''SELECT'' ''SELECT id FROM t'' 1 = Inr r" ..
  from result_rows_bounded [OF r] r show ?thesis by (intro exI [of _ ?rows] exI [of _ r]) simp
qed

end
