(* ===== verification/Redis_Query.thy ===== *)
theory Redis_Query
  imports Sql_Safety
begin

text \<open>
  The Redis query console (redis_query.go): the tokeniser of a command line, the white list of
  read-only commands with their argument checks, the canonical text of a command, the arguments of
  SCAN and the windows of LRANGE and ZRANGE. A use case first analyses the text a user wrote and
  then hands the canonical text to \<open>executeRedisCommand\<close>, which parses it again; the properties are
  about that pair of parses.
\<close>

section \<open>Tokens\<close>

abbreviation BSL :: rune where "BSL \<equiv> CHR 0x5C"
abbreviation TAB :: rune where "TAB \<equiv> CHR 0x09"

text \<open>The loop of \<open>tokenizeRedisCommand\<close>: tokens, the token being built, the open quote and the
  escape flag.\<close>

fun tokenizeLoop :: "string list \<Rightarrow> string \<Rightarrow> rune option \<Rightarrow> bool \<Rightarrow> string \<Rightarrow> redis_error + string list" where
  "tokenizeLoop tokens current quote escaped [] =
     (if escaped \<or> quote \<noteq> None then Inl RedisUnclosed
      else Inr (if current = [] then tokens else tokens @ [current]))"
| "tokenizeLoop tokens current quote escaped (ch # rest) =
     (if escaped then tokenizeLoop tokens (current @ [ch]) quote False rest
      else if ch = BSL then tokenizeLoop tokens current quote True rest
      else if quote \<noteq> None then
        (if quote = Some ch then tokenizeLoop tokens current None False rest
         else tokenizeLoop tokens (current @ [ch]) quote False rest)
      else if ch = SQ \<or> ch = DQ then tokenizeLoop tokens current (Some ch) False rest
      else if ch = LF \<or> ch = CR \<or> ch = TAB \<or> ch = SP then
        (if current \<noteq> [] then tokenizeLoop (tokens @ [current]) [] quote False rest
         else tokenizeLoop tokens current quote False rest)
      else tokenizeLoop tokens (current @ [ch]) quote False rest)"

definition tokenizeRedisCommand :: "string \<Rightarrow> redis_error + string list" where
  "tokenizeRedisCommand commandText = tokenizeLoop [] [] None False commandText"

section \<open>SCAN arguments\<close>

text \<open>The search for COUNT with a value behind it, from index 1 on.\<close>

fun setScanCount :: "string \<Rightarrow> string list \<Rightarrow> string list option" where
  "setScanCount n (a # b # rest) =
     (if EqualFold a ''COUNT'' then Some (a # n # rest) else map_option ((#) a) (setScanCount n (b # rest)))"
| "setScanCount n _ = None"

definition normalizeRedisScanArgs :: "string list \<Rightarrow> int \<Rightarrow> string list" where
  "normalizeRedisScanArgs args lim =
     (let normalized = (if args = [] then [''0''] else args) in
      case setScanCount (Itoa lim) (tl normalized) of
        Some rest \<Rightarrow> hd normalized # rest
      | None \<Rightarrow> normalized @ [''COUNT'', Itoa lim])"

section \<open>The canonical text\<close>

text \<open>\<open>strconv.Quote\<close> on the runes up to U+00FF.\<close>

definition low_hex_rune :: "nat \<Rightarrow> rune" where
  "low_hex_rune d = (if d < 10 then char_of (48 + d) else char_of (87 + d))"

definition quoteRune :: "rune \<Rightarrow> string" where
  "quoteRune r = (let n = rune_code r in
     if r = DQ \<or> r = BSL then [BSL, r]
     else if n = 7 then [BSL, CHR ''a''] else if n = 8 then [BSL, CHR ''b'']
     else if n = 12 then [BSL, CHR ''f''] else if n = 10 then [BSL, CHR ''n'']
     else if n = 13 then [BSL, CHR ''r''] else if n = 9 then [BSL, CHR ''t'']
     else if n = 11 then [BSL, CHR ''v'']
     else if n < 32 \<or> n = 127 then [BSL, CHR ''x'', low_hex_rune (n div 16), low_hex_rune (n mod 16)]
     else if (128 \<le> n \<and> n \<le> 160) \<or> n = 173
     then [BSL, CHR ''u'', CHR ''0'', CHR ''0'', low_hex_rune (n div 16), low_hex_rune (n mod 16)]
     else [r])"

definition Quote :: "string \<Rightarrow> string" where
  "Quote s = DQ # concat (map quoteRune s) @ [DQ]"

definition ContainsAny :: "string \<Rightarrow> string \<Rightarrow> bool" where
  "ContainsAny s chars = list_ex (\<lambda>c. c \<in> set chars) s"

definition formatToken :: "string list \<Rightarrow> nat \<Rightarrow> string" where
  "formatToken tokens index =
     (let token = tokens ! index; upperToken = ToUpper token in
      if index = 0 \<or> (index = 1 \<and> EqualFold (tokens ! 0) ''CLUSTER'')
         \<or> (index = 1 \<and> EqualFold (tokens ! 0) ''MEMORY'') then ToUpper token
      else if upperToken = ''MATCH'' \<or> upperToken = ''COUNT'' \<or> upperToken = ''WITHSCORES'' then upperToken
      else if ContainsAny token [SP, TAB, CR, LF] then Quote token
      else token)"

definition formatRedisCommandTokens :: "string list \<Rightarrow> string" where
  "formatRedisCommandTokens tokens = JoinWith '' '' (map (formatToken tokens) [0..<length tokens])"

section \<open>The parser\<close>

record redisReadCommand =
  Tokens :: "string list"
  Name :: string
  SubName :: string
  Command :: string
  cSQLType :: string
  Args :: "string list"
  Formatted :: string

text \<open>The argument checks of the \<open>switch\<close>; \<open>None\<close> is a command that passes.\<close>

definition redisArgsError :: "string \<Rightarrow> string \<Rightarrow> nat \<Rightarrow> redis_error option" where
  "redisArgsError name subName args =
     (if name \<in> set [''PING'', ''DBSIZE'', ''INFO''] then None
      else if name \<in> set [''TYPE'', ''TTL'', ''PTTL'', ''GET'', ''STRLEN'']
      then (if args \<noteq> 1 then Some (RedisArgs name 1) else None)
      else if name \<in> set [''EXISTS'', ''MGET'']
      then (if args = 0 then Some (RedisArgsAtLeast name 1) else None)
      else if name \<in> set [''HLEN'', ''LLEN'', ''SCARD'', ''ZCARD'', ''XLEN'']
      then (if args \<noteq> 1 then Some (RedisArgs name 1) else None)
      else if name = ''HGET'' then (if args \<noteq> 2 then Some (RedisArgs ''HGET'' 2) else None)
      else if name \<in> set [''HGETALL'', ''SMEMBERS'']
      then (if args \<noteq> 1 then Some (RedisArgs name 1) else None)
      else if name \<in> set [''LRANGE'', ''ZRANGE'']
      then (if args < 3 then Some (RedisArgsAtLeast name 3) else None)
      else if name = ''XRANGE'' then (if args < 3 then Some (RedisArgsAtLeast ''XRANGE'' 3) else None)
      else if name = ''SCAN'' then None
      else if name = ''MEMORY''
      then (if subName \<noteq> ''USAGE'' \<or> args < 2 \<or> args > 3 then Some RedisMemoryUsageOnly else None)
      else if name = ''CLUSTER''
      then (if subName \<in> set [''INFO'', ''NODES'', ''SLOTS''] then None else Some RedisClusterOnly)
      else Some RedisNotAllowed)"

definition parseRedisReadCommand :: "string \<Rightarrow> int \<Rightarrow> redis_error + redisReadCommand" where
  "parseRedisReadCommand commandText lim =
     (let trimmed = TrimSpace commandText in
      if trimmed = [] then Inl RedisEmpty
      else if length trimmed > 20000 then Inl RedisTooLong
      else if Contains trimmed '';'' then Inl RedisMultiple
      else case tokenizeRedisCommand trimmed of
        Inl e \<Rightarrow> Inl e
      | Inr [] \<Rightarrow> Inl RedisUnknown
      | Inr (t0 # rest) \<Rightarrow>
          let name = ToUpper t0;
              subName = (if rest = [] then [] else ToUpper (hd rest));
              full = (if subName \<noteq> [] \<and> (name = ''MEMORY'' \<or> name = ''CLUSTER'')
                      then name @ '' '' @ subName else name) in
          case redisArgsError name subName (length rest) of
            Some e \<Rightarrow> Inl e
          | None \<Rightarrow>
              let args = (if name = ''SCAN'' then normalizeRedisScanArgs rest lim else rest);
                  tokens = (if name = ''SCAN'' then name # args else t0 # rest) in
              Inr \<lparr>Tokens = tokens, Name = name, SubName = subName, Command = full, cSQLType = full,
                   Args = args, Formatted = formatRedisCommandTokens tokens\<rparr>)"

definition analyzeReadOnlyRedisCommand :: "string \<Rightarrow> int \<Rightarrow> SQLSafetyResult" where
  "analyzeReadOnlyRedisCommand commandText lim =
     (case parseRedisReadCommand commandText lim of
        Inl err \<Rightarrow> denySQL (RedisDenied err)
      | Inr command \<Rightarrow> \<lparr>Allowed = True, SQLText = Formatted command, SQLType = cSQLType command,
                        Message = RedisPassed\<rparr>)"

definition formatRedisCommand :: "string \<Rightarrow> int \<Rightarrow> redis_error + string \<times> string" where
  "formatRedisCommand commandText lim =
     (case parseRedisReadCommand commandText lim of
        Inl err \<Rightarrow> Inl err
      | Inr command \<Rightarrow> Inr (Formatted command, cSQLType command))"

section \<open>SCAN and the windows of LRANGE and ZRANGE\<close>

text \<open>Go's \<open>int64\<close> arithmetic wraps; \<open>strconv.ParseInt(s, 10, 64)\<close> with its error ignored is 0 for
  a text that is no number and the nearest bound for a number out of range, and so is
  \<open>strconv.ParseUint\<close>.\<close>

definition wrap64 :: "int \<Rightarrow> int" where
  "wrap64 x = (x + 2 ^ 63) mod 2 ^ 64 - 2 ^ 63"

definition decimal_value :: "string \<Rightarrow> int option" where
  "decimal_value s = (if s \<noteq> [] \<and> list_all (\<lambda>c. c \<in> set ''0123456789'') s
     then Some (foldl (\<lambda>acc c. acc * 10 + (int (rune_code c) - 48)) 0 s) else None)"

definition ParseInt64 :: "string \<Rightarrow> int" where
  "ParseInt64 s =
     (let (neg, digits) = (case s of c # rest \<Rightarrow> if c = CHR ''-'' then (True, rest)
                                          else if c = CHR ''+'' then (False, rest) else (False, s)
                           | [] \<Rightarrow> (False, s)) in
      case decimal_value digits of
        None \<Rightarrow> 0
      | Some v \<Rightarrow> if neg then max (- (2 ^ 63)) (- v) else min (2 ^ 63 - 1) v)"

definition ParseUint64 :: "string \<Rightarrow> int" where
  "ParseUint64 s = (case decimal_value s of None \<Rightarrow> 0 | Some v \<Rightarrow> min (2 ^ 64 - 1) v)"

text \<open>The two indices LRANGE and ZRANGE are called with.\<close>

definition redisRangeWindow :: "string \<Rightarrow> string \<Rightarrow> int \<Rightarrow> int \<times> int" where
  "redisRangeWindow startArg stopArg lim =
     (let start = ParseInt64 startArg; stop = ParseInt64 stopArg in
      if stop < start \<or> wrap64 (wrap64 (stop - start) + 1) > lim \<or> stop = -1
      then (start, wrap64 (wrap64 (start + lim) - 1)) else (start, stop))"

text \<open>The arguments of SCAN: the pattern and the count.\<close>

fun scanArgs :: "string \<Rightarrow> int \<Rightarrow> string list \<Rightarrow> string \<times> int" where
  "scanArgs pattern count (a # b # rest) =
     (if ToUpper a = ''MATCH'' then scanArgs b count rest
      else if ToUpper a = ''COUNT'' then scanArgs pattern (ParseInt64 b) rest
      else scanArgs pattern count (b # rest))"
| "scanArgs pattern count _ = (pattern, count)"

text \<open>\<open>executeRedisScan\<close>; \<open>scan\<close> is the client's call: cursor, pattern and count to an error or the
  keys and the next cursor. A row is the key.\<close>

definition executeRedisScan ::
  "(int \<Rightarrow> string \<Rightarrow> int \<Rightarrow> string + string list \<times> int) \<Rightarrow> string list \<Rightarrow> int \<Rightarrow> string + string list \<times> int" where
  "executeRedisScan scan args lim =
     (let cursor = ParseUint64 (hd args);
          (pattern, count) = scanArgs [] lim (tl args);
          count = (if count \<le> 0 \<or> count > lim then lim else count) in
      case scan cursor pattern count of
        Inl e \<Rightarrow> Inl e
      | Inr (values, nextCursor) \<Rightarrow> Inr (values, nextCursor))"

section \<open>Lemmas\<close>

lemma rune_upper_lower [simp]: "rune_upper (rune_lower c) = rune_upper c"
  using rune_code_less [of c] by (auto simp: rune_upper_def rune_lower_def Let_def)

lemma rune_upper_idem [simp]: "rune_upper (rune_upper c) = rune_upper c"
  using rune_code_less [of c] by (auto simp: rune_upper_def Let_def)

lemma ToUpper_idem [simp]: "ToUpper (ToUpper s) = ToUpper s"
  by (simp add: ToUpper_def)

lemma EqualFold_upper: "EqualFold a b \<Longrightarrow> ToUpper a = ToUpper b"
proof -
  assume "EqualFold a b"
  then have "map rune_upper (ToLower a) = map rune_upper (ToLower b)" by (simp add: EqualFold_def)
  then show ?thesis by (simp add: ToUpper_def ToLower_def comp_def)
qed

lemma Contains_rune: "Contains s [x] \<longleftrightarrow> x \<in> set s"
proof (induction s)
  case (Cons c s)
  have "HasPrefix (c # s) [x] \<longleftrightarrow> c = x"
    by (auto simp: HasPrefix_iff simp del: HasPrefix.simps)
  with Cons show ?case by (auto simp del: HasPrefix.simps)
qed simp

text \<open>A token that needs no quoting: not empty, without white space, quotes, backslash and
  semicolon.\<close>

definition plain_rune :: "rune \<Rightarrow> bool" where
  "plain_rune c = (\<not> IsSpace c \<and> c \<notin> set [BSL, SQ, DQ, CHR '';''])"

definition plain_token :: "string \<Rightarrow> bool" where
  "plain_token t = (t \<noteq> [] \<and> list_all plain_rune t)"

lemma plain_rune_code:
  "plain_rune c \<longleftrightarrow> rune_code c \<notin> {9, 10, 11, 12, 13, 32, 133, 160, 92, 39, 34, 59}"
proof -
  have lit: "rune_code BSL = 92" "rune_code SQ = 39" "rune_code DQ = 34" "rune_code CHR '';'' = 59"
    by (simp_all add: rune_code_def)
  have "c \<in> set [BSL, SQ, DQ, CHR '';''] \<longleftrightarrow> rune_code c \<in> {92, 39, 34, 59}"
    unfolding lit [symmetric] by (simp only: list.set insert_iff empty_iff rune_eq_iff [symmetric])
  moreover have "IsSpace c \<longleftrightarrow> rune_code c \<in> {9, 10, 11, 12, 13, 32, 133, 160}"
    by (simp add: IsSpace_def Let_def) linarith
  ultimately show ?thesis unfolding plain_rune_def by blast
qed

lemma plain_rune_other:
  assumes "plain_rune c"
  shows "c \<noteq> BSL" "c \<noteq> SQ" "c \<noteq> DQ" "c \<noteq> LF" "c \<noteq> CR" "c \<noteq> TAB" "c \<noteq> SP" "c \<noteq> CHR '';''"
proof -
  have n: "rune_code c \<noteq> 92" "rune_code c \<noteq> 39" "rune_code c \<noteq> 34" "rune_code c \<noteq> 10"
    "rune_code c \<noteq> 13" "rune_code c \<noteq> 9" "rune_code c \<noteq> 32" "rune_code c \<noteq> 59"
    using assms by (simp_all add: plain_rune_code)
  show "c \<noteq> BSL" "c \<noteq> SQ" "c \<noteq> DQ" "c \<noteq> LF" "c \<noteq> CR" "c \<noteq> TAB" "c \<noteq> SP" "c \<noteq> CHR '';''"
    by (rule notI, use n in \<open>simp add: rune_code_def\<close>)+
qed

lemma plain_rune_upper:
  assumes "plain_rune c"
  shows "plain_rune (rune_upper c)"
proof (cases "rune_upper c = c")
  case False
  then have up: "rune_upper c = char_of (rune_code c - 32)"
    and n: "97 \<le> rune_code c \<and> rune_code c \<le> 122 \<or> 224 \<le> rune_code c \<and> rune_code c \<le> 254"
    by (auto simp: rune_upper_def Let_def split: if_splits)
  from n have "rune_code (char_of (rune_code c - 32)) = rune_code c - 32" by (intro rune_code_char_of) linarith
  with n up have "65 \<le> rune_code (rune_upper c) \<and> rune_code (rune_upper c) \<le> 90
      \<or> 192 \<le> rune_code (rune_upper c)"
    by (simp only:) linarith
  then show ?thesis unfolding plain_rune_code by auto
qed (use assms in simp)

lemma plain_token_upper: "plain_token t \<Longrightarrow> plain_token (ToUpper t)"
  by (auto simp: plain_token_def ToUpper_def list_all_iff plain_rune_upper)

lemma tokenize_word:
  "list_all plain_rune t \<Longrightarrow>
     tokenizeLoop toks cur None False (t @ s) = tokenizeLoop toks (cur @ t) None False s"
proof (induction t arbitrary: cur)
  case (Cons c t)
  then have "plain_rune c" by simp
  from plain_rune_other [OF this] Cons show ?case by simp
qed simp

lemma tokenize_join:
  "list_all plain_token ts \<Longrightarrow> tokenizeLoop acc [] None False (JoinWith '' '' ts) = Inr (acc @ ts)"
proof (induction "'' ''" ts arbitrary: acc rule: JoinWith.induct)
  case (2 x)
  then show ?case using tokenize_word [of x acc "[]" "[]"] by (simp add: plain_token_def)
next
  case (3 x y xs)
  then show ?case
    using tokenize_word [of x acc "[]" "'' '' @ JoinWith '' '' (y # xs)"] by (simp add: plain_token_def)
qed simp

lemma JoinWith_last: "ts \<noteq> [] \<Longrightarrow> last ts \<noteq> [] \<Longrightarrow> JoinWith sep ts \<noteq> [] \<and> last (JoinWith sep ts) = last (last ts)"
  by (induction sep ts rule: JoinWith.induct) auto

lemma JoinWith_hd: "ts \<noteq> [] \<Longrightarrow> hd ts \<noteq> [] \<Longrightarrow> hd (JoinWith sep ts) = hd (hd ts)"
  by (induction sep ts rule: JoinWith.induct) auto

lemma set_JoinWith: "set (JoinWith sep ts) \<subseteq> set sep \<union> \<Union> (set ` set ts)"
  by (induction sep ts rule: JoinWith.induct) auto

lemma trim_join:
  assumes "ts \<noteq> []" "list_all plain_token ts"
  shows "TrimSpace (JoinWith '' '' ts) = JoinWith '' '' ts"
proof (rule TrimSpace_trimmed)
  have h: "plain_token (hd ts)" and l: "plain_token (last ts)"
    using assms by (auto simp: list_all_iff)
  then have "\<not> IsSpace (hd (hd ts))" "\<not> IsSpace (last (last ts))"
    by (auto simp: plain_token_def plain_rune_def list_all_iff)
  with JoinWith_last [of ts "'' ''"] JoinWith_hd [of ts "'' ''"] assms h l
  show "trimmed_text (JoinWith '' '' ts)" by (auto simp: trimmed_text_def plain_token_def)
qed

lemma join_no_semicolon:
  assumes "list_all plain_token ts"
  shows "\<not> Contains (JoinWith '' '' ts) '';''"
proof -
  have "CHR '';'' \<notin> set t" if "t \<in> set ts" for t
    using that assms plain_rune_other(8) unfolding list_all_iff plain_token_def by blast
  then have "CHR '';'' \<notin> set '' '' \<union> \<Union> (set ` set ts)" by auto
  with set_JoinWith [of "'' ''" ts] show ?thesis unfolding Contains_rune by blast
qed

lemma formatToken_plain:
  assumes "plain_token (tokens ! i)" "0 < i"
    "\<not> EqualFold (tokens ! 0) ''CLUSTER''" "\<not> EqualFold (tokens ! 0) ''MEMORY''"
    "ToUpper (tokens ! i) \<in> {''MATCH'', ''COUNT'', ''WITHSCORES''} \<longrightarrow> ToUpper (tokens ! i) = tokens ! i"
  shows "formatToken tokens i = tokens ! i"
proof -
  have "\<not> ContainsAny (tokens ! i) [SP, TAB, CR, LF]"
    using assms(1) plain_rune_other(4-7)
    unfolding ContainsAny_def plain_token_def list_all_iff list_ex_iff by auto
  with assms(2-) show ?thesis by (auto simp: formatToken_def Let_def)
qed

lemma format_plain:
  assumes "list_all plain_token (t0 # rest)" "ToUpper t0 \<noteq> ''CLUSTER''" "ToUpper t0 \<noteq> ''MEMORY''"
    "list_all (\<lambda>t. ToUpper t \<in> {''MATCH'', ''COUNT'', ''WITHSCORES''} \<longrightarrow> ToUpper t = t) rest"
  shows "formatRedisCommandTokens (t0 # rest) = JoinWith '' '' (ToUpper t0 # rest)"
proof -
  have up: "ToUpper ''CLUSTER'' = ''CLUSTER''" "ToUpper ''MEMORY'' = ''MEMORY''" by code_simp+
  have "\<not> EqualFold t0 ''CLUSTER''" "\<not> EqualFold t0 ''MEMORY''"
    using EqualFold_upper [of t0 "''CLUSTER''"] EqualFold_upper [of t0 "''MEMORY''"] assms(2,3)
    unfolding up by blast+
  then have "formatToken (t0 # rest) (Suc i) = rest ! i" if "i < length rest" for i
    using formatToken_plain [of "t0 # rest" "Suc i"] that assms by (auto simp: list_all_length)
  then have "map (\<lambda>i. formatToken (t0 # rest) (Suc i)) [0..<length rest] = map ((!) rest) [0..<length rest]"
    by (intro map_cong refl) simp
  also have "\<dots> = rest" by (rule map_nth)
  finally have "map (formatToken (t0 # rest)) (map Suc [0..<length rest]) = rest"
    by (simp only: map_map comp_def)
  moreover have "formatToken (t0 # rest) 0 = ToUpper t0" by (simp add: formatToken_def Let_def)
  moreover have "[0..<length (t0 # rest)] = 0 # map Suc [0..<length rest]"
    by (simp only: list.size add_0_right add_Suc_right upt_conv_Cons map_Suc_upt)
  ultimately have "map (formatToken (t0 # rest)) [0..<length (t0 # rest)] = ToUpper t0 # rest"
    by (simp only: list.map)
  then show ?thesis unfolding formatRedisCommandTokens_def by (rule arg_cong)
qed

definition read_commands :: "string list" where
  "read_commands =
     [''PING'', ''DBSIZE'', ''INFO'', ''TYPE'', ''TTL'', ''PTTL'', ''GET'', ''STRLEN'', ''EXISTS'', ''MGET'',
      ''HLEN'', ''LLEN'', ''SCARD'', ''ZCARD'', ''XLEN'', ''HGET'', ''HGETALL'', ''SMEMBERS'', ''LRANGE'',
      ''ZRANGE'', ''XRANGE'', ''SCAN'', ''MEMORY'', ''CLUSTER'']"

lemma redisArgsError_name:
  assumes "redisArgsError name subName n = None"
  shows "name \<in> set read_commands"
proof (rule ccontr)
  assume "name \<notin> set read_commands"
  then have "redisArgsError name subName n = Some RedisNotAllowed"
    unfolding redisArgsError_def read_commands_def list.set insert_iff empty_iff de_Morgan_disj
    by (elim conjE) (simp only: if_False simp_thms)
  with assms show False by simp
qed

lemma redisArgsError_sub:
  "redisArgsError ''MEMORY'' sub n = None \<Longrightarrow> sub = ''USAGE''"
  "redisArgsError ''CLUSTER'' sub n = None \<Longrightarrow> sub \<in> {''INFO'', ''NODES'', ''SLOTS''}"
  by (simp_all add: redisArgsError_def split: if_splits)

lemma parse_accepts:
  assumes "parseRedisReadCommand s n = Inr c"
  obtains t0 rest where "tokenizeRedisCommand (TrimSpace s) = Inr (t0 # rest)"
    "redisArgsError (ToUpper t0) (if rest = [] then [] else ToUpper (hd rest)) (length rest) = None"
    "Name c = ToUpper t0" "SubName c = (if rest = [] then [] else ToUpper (hd rest))"
    "Args c = (if ToUpper t0 = ''SCAN'' then normalizeRedisScanArgs rest n else rest)"
    "Tokens c = (if ToUpper t0 = ''SCAN'' then ToUpper t0 # Args c else t0 # rest)"
    "Formatted c = formatRedisCommandTokens (Tokens c)"
    "Command c = cSQLType c"
    "cSQLType c = (if rest \<noteq> [] \<and> ToUpper (hd rest) \<noteq> [] \<and> (Name c = ''MEMORY'' \<or> Name c = ''CLUSTER'')
                   then Name c @ '' '' @ SubName c else Name c)"
  using assms unfolding parseRedisReadCommand_def Let_def
  by (auto split: if_splits sum.splits list.splits option.splits)

lemma parse_plain:
  assumes "list_all plain_token (t0 # rest)" "length (JoinWith '' '' (t0 # rest)) \<le> 20000"
    "redisArgsError (ToUpper t0) (if rest = [] then [] else ToUpper (hd rest)) (length rest) = None"
    "ToUpper t0 \<notin> {''SCAN'', ''MEMORY'', ''CLUSTER''}"
  shows "parseRedisReadCommand (JoinWith '' '' (t0 # rest)) n =
    Inr \<lparr>Tokens = t0 # rest, Name = ToUpper t0, SubName = (if rest = [] then [] else ToUpper (hd rest)),
         Command = ToUpper t0, cSQLType = ToUpper t0, Args = rest,
         Formatted = formatRedisCommandTokens (t0 # rest)\<rparr>"
proof -
  let ?s = "JoinWith '' '' (t0 # rest)"
  have "?s \<noteq> []" using assms(1) by (cases rest) (auto simp: plain_token_def)
  moreover have "tokenizeRedisCommand ?s = Inr (t0 # rest)"
    using tokenize_join [OF assms(1), of "[]"] by (simp add: tokenizeRedisCommand_def)
  moreover have "TrimSpace ?s = ?s" by (rule trim_join) (use assms(1) in simp_all)
  moreover have "\<not> Contains ?s '';''" by (rule join_no_semicolon [OF assms(1)])
  ultimately show ?thesis
    using assms(2-4) unfolding parseRedisReadCommand_def Let_def by simp
qed

section \<open>Properties\<close>

text \<open>C38: The Redis console accepts only commands of its white list of read commands, whatever the
  case and quoting of the text; MEMORY only as MEMORY USAGE and CLUSTER only as CLUSTER INFO, NODES
  or SLOTS; everything else is denied.\<close>

theorem redis_white_list:
  assumes "parseRedisReadCommand s n = Inr c"
  shows "Name c \<in> set read_commands
    \<and> (Name c = ''MEMORY'' \<longrightarrow> SubName c = ''USAGE'')
    \<and> (Name c = ''CLUSTER'' \<longrightarrow> SubName c \<in> {''INFO'', ''NODES'', ''SLOTS''})"
proof -
  obtain t0 rest where a:
    "redisArgsError (ToUpper t0) (if rest = [] then [] else ToUpper (hd rest)) (length rest) = None"
    "Name c = ToUpper t0" "SubName c = (if rest = [] then [] else ToUpper (hd rest))"
    by (rule parse_accepts [OF assms])
  then have e: "redisArgsError (Name c) (SubName c) (length rest) = None" by (simp only:)
  show ?thesis
  proof (intro conjI impI)
    show "Name c \<in> set read_commands" by (rule redisArgsError_name [OF e])
    show "SubName c = ''USAGE''" if "Name c = ''MEMORY''"
      using e unfolding that by (rule redisArgsError_sub(1))
    show "SubName c \<in> {''INFO'', ''NODES'', ''SLOTS''}" if "Name c = ''CLUSTER''"
      using e unfolding that by (rule redisArgsError_sub(2))
  qed
qed

theorem redis_white_list_witness:
  "\<exists>c. parseRedisReadCommand ''scan 0 match user:* count 1000'' 50 = Inr c \<and> Name c \<in> set read_commands"
proof -
  have "map_sum id (\<lambda>c. Formatted c) (parseRedisReadCommand ''scan 0 match user:* count 1000'' 50)
      = Inr ''SCAN 0 MATCH user:* COUNT 50''" by code_simp
  then obtain c where "parseRedisReadCommand ''scan 0 match user:* count 1000'' 50 = Inr c"
    by (cases "parseRedisReadCommand ''scan 0 match user:* count 1000'' 50") auto
  with redis_white_list [OF this] show ?thesis by blast
qed

text \<open>The canonical text of an accepted command parses back to the same command (name,
  subcommand, type, arguments and canonical text) when its tokens need no quoting, no argument is a
  lower-case spelling of MATCH, COUNT or WITHSCORES, and it is none of the commands whose arguments
  are rewritten: what is executed is what was checked.\<close>

theorem redis_text_round_trip:
  assumes "parseRedisReadCommand s n = Inr c" "list_all plain_token (Tokens c)"
    "Name c \<notin> {''SCAN'', ''MEMORY'', ''CLUSTER''}" "length (Formatted c) \<le> 20000"
    "list_all (\<lambda>t. ToUpper t \<in> {''MATCH'', ''COUNT'', ''WITHSCORES''} \<longrightarrow> ToUpper t = t) (Args c)"
  shows "parseRedisReadCommand (Formatted c) n = Inr (c\<lparr>Tokens := Name c # Args c\<rparr>)"
proof -
  obtain t0 rest where a:
    "redisArgsError (ToUpper t0) (if rest = [] then [] else ToUpper (hd rest)) (length rest) = None"
    "Name c = ToUpper t0" "SubName c = (if rest = [] then [] else ToUpper (hd rest))"
    "Args c = rest" "Tokens c = t0 # rest" "Formatted c = formatRedisCommandTokens (t0 # rest)"
    "Command c = ToUpper t0" "cSQLType c = ToUpper t0"
    using parse_accepts [OF assms(1)] assms(3) by (smt (verit, best) insertCI)
  have plain: "list_all plain_token (t0 # rest)" using assms(2) a(5) by simp
  then have plain': "list_all plain_token (ToUpper t0 # rest)" by (simp add: plain_token_upper)
  have n: "ToUpper t0 \<noteq> ''CLUSTER''" "ToUpper t0 \<noteq> ''MEMORY''" "ToUpper t0 \<noteq> ''SCAN''"
    using assms(3) a(2) by auto
  have f: "Formatted c = JoinWith '' '' (ToUpper t0 # rest)"
    using format_plain [OF plain n(1,2)] assms(5) a(4,6) by simp
  have f': "formatRedisCommandTokens (ToUpper t0 # rest) = JoinWith '' '' (ToUpper t0 # rest)"
    using format_plain [OF plain'] assms(5) a(4) n by simp
  have "parseRedisReadCommand (JoinWith '' '' (ToUpper t0 # rest)) n =
    Inr \<lparr>Tokens = ToUpper t0 # rest, Name = ToUpper t0, SubName = SubName c, Command = ToUpper t0,
         cSQLType = ToUpper t0, Args = rest, Formatted = Formatted c\<rparr>"
    using parse_plain [OF plain', of n] a(1,3) n assms(4) f f' by simp
  also have "\<dots> = Inr (c\<lparr>Tokens := Name c # Args c\<rparr>)"
    using a(2,4,7,8) by (cases c) simp
  finally show ?thesis using f by simp
qed

theorem redis_text_round_trip_witness:
  "\<exists>c. parseRedisReadCommand ''hget user:1 name'' 50 = Inr c
     \<and> parseRedisReadCommand (Formatted c) 50 = Inr (c\<lparr>Tokens := Name c # Args c\<rparr>)"
proof -
  let ?c = "\<lparr>Tokens = [''hget'', ''user:1'', ''name''], Name = ''HGET'', SubName = ''USER:1'',
     Command = ''HGET'', cSQLType = ''HGET'', Args = [''user:1'', ''name''], Formatted = ''HGET user:1 name''\<rparr>"
  have c: "parseRedisReadCommand ''hget user:1 name'' 50 = Inr ?c" by code_simp
  have "list_all plain_token (Tokens ?c)"
    "list_all (\<lambda>t. ToUpper t \<in> set [''MATCH'', ''COUNT'', ''WITHSCORES''] \<longrightarrow> ToUpper t = t) (Args ?c)"
    "length (Formatted ?c) = 16"
    by code_simp+
  with redis_text_round_trip [OF c] c show ?thesis by simp
qed

text \<open>The canonical text upper-cases every argument spelled like MATCH, COUNT or WITHSCORES, and
  quotes with Go escapes its own tokeniser does not know: a command that reads the key count is
  executed on the key COUNT, and one that reads a key with a tab is executed on another key.\<close>

theorem redis_key_changed:
  "map_sum id (\<lambda>c. (Args c, map_sum id (\<lambda>c'. Args c') (parseRedisReadCommand (Formatted c) 50)))
     (parseRedisReadCommand ''GET count'' 50) = Inr ([''count''], Inr [''COUNT''])
   \<and> map_sum id (\<lambda>c. (Args c, map_sum id (\<lambda>c'. Args c') (parseRedisReadCommand (Formatted c) 50)))
     (parseRedisReadCommand (''GET '' @ [DQ] @ ''a'' @ [TAB] @ ''b'' @ [DQ]) 50)
     = Inr ([[CHR ''a'', TAB, CHR ''b'']], Inr [''atb''])"
  by code_simp

text \<open>SCAN always asks the server for at least one and at most the limit of keys per call, whatever
  COUNT the command names.\<close>

theorem redis_scan_bounded:
  assumes "0 < n"
  shows "\<exists>cursor pattern count. 0 < count \<and> count \<le> n
    \<and> executeRedisScan scan args n = scan cursor pattern count"
proof -
  obtain pattern count where sa: "scanArgs [] n (tl args) = (pattern, count)" by force
  let ?count = "if count \<le> 0 \<or> count > n then n else count"
  have "executeRedisScan scan args n = scan (ParseUint64 (hd args)) pattern ?count"
    by (simp add: executeRedisScan_def sa Let_def split: sum.split prod.split)
  moreover have "0 < ?count \<and> ?count \<le> n" using assms by auto
  ultimately show ?thesis by blast
qed

theorem redis_scan_bounded_witness:
  "(0::int) < 50 \<and> (\<exists>cursor pattern count. 0 < count \<and> count \<le> 50
     \<and> executeRedisScan (\<lambda>c p k. Inr ([p], k)) [''0'', ''COUNT'', ''9999''] 50 = Inr ([pattern], count))"
  using redis_scan_bounded [of 50 "\<lambda>c p k. Inr ([p], k)" "[''0'', ''COUNT'', ''9999'']"] by simp

text \<open>The index window of LRANGE and ZRANGE holds between one and limit positions, as long as the
  two indices are so small that the int64 difference of the code does not wrap.\<close>

theorem redis_window_bounded:
  assumes "redisRangeWindow a b n = (start, stop)" "0 < n" "n < 2 ^ 62"
    "- (2 ^ 62) < ParseInt64 a" "ParseInt64 a < 2 ^ 62" "- (2 ^ 62) < ParseInt64 b" "ParseInt64 b < 2 ^ 62"
  shows "start = ParseInt64 a \<and> start \<le> stop \<and> stop - start + 1 \<le> n"
proof -
  have wrap: "wrap64 x = x" if "- (2 ^ 63) \<le> x" "x < 2 ^ 63" for x
    using that by (simp add: wrap64_def)
  let ?s = "ParseInt64 a" and ?t = "ParseInt64 b"
  have w1: "wrap64 (wrap64 (?t - ?s) + 1) = ?t - ?s + 1"
  proof -
    have "wrap64 (?t - ?s) = ?t - ?s" by (rule wrap) (use assms in simp_all)
    then show ?thesis using assms by (simp add: wrap)
  qed
  have w2: "wrap64 (wrap64 (?s + n) - 1) = ?s + n - 1"
  proof -
    have "wrap64 (?s + n) = ?s + n" by (rule wrap) (use assms in simp_all)
    then show ?thesis using assms by (simp add: wrap)
  qed
  show ?thesis
    using assms(1,2) unfolding redisRangeWindow_def Let_def w1 w2 by (auto split: if_splits)
qed

theorem redis_window_bounded_witness:
  "redisRangeWindow ''0'' ''9999'' 500 = (0, 499) \<and> (499::int) - 0 + 1 \<le> 500"
proof -
  have w: "redisRangeWindow ''0'' ''9999'' 500 = (0, 499)" by code_simp
  have "ParseInt64 ''0'' = 0" "ParseInt64 ''9999'' = 9999" by code_simp+
  with redis_window_bounded [OF w] w show ?thesis by simp
qed

text \<open>At the bounds of int64 the difference wraps, the window check sees 0 positions and the whole
  list is requested, beyond any limit; and a window up to the last element (stop -1) with a negative
  start is turned into one that ends at a positive index.\<close>

theorem redis_window_wraps:
  "redisRangeWindow ''-9223372036854775808'' ''9223372036854775807'' 500
     = (- 9223372036854775808, 9223372036854775807)
   \<and> redisRangeWindow ''-10'' ''-1'' 500 = (- 10, 489)"
  by code_simp

end
