(* ===== verification/Sql_Gate.thy ===== *)
theory Sql_Gate
  imports Sql_Safety
begin

text \<open>
  The contract of the SQL gate. The locale \<open>statement_gate\<close> is what the callers of the
  analysers rely on: the released text is the trimmed input without its final separator, and
  the checks on the whole text were made. Its lemmas (one statement, no executable comment, a
  bounded text) are proved once and hold for the read-only, write and DDL analysers by
  interpretation. The gate specifications say exactly when each analyser allows a statement,
  in terms of the reference lexer.
\<close>

section \<open>The interface of a gate\<close>

text \<open>The checks every analyser makes on the whole text before it looks at keywords.\<close>

definition text_ok :: "string \<Rightarrow> bool" where
  "text_ok s = (TrimSpace s \<noteq> [] \<and> length (TrimSpace s) \<le> maxSQLRunes
     \<and> \<not> hasExecutableSQLComment (TrimSpace s) \<and> \<not> hasUnsafeSemicolon (TrimSpace s))"

definition statement_of :: "string \<Rightarrow> string" where
  "statement_of s = trimTrailingStatementSemicolon (TrimSpace s)"

lemma statement_of_prefix: "\<exists>w. TrimSpace s = statement_of s @ w"
proof (cases "HasSuffix (TrimSpace s) '';''")
  case True
  then obtain u where t: "TrimSpace s = u @ '';''" by (auto simp: HasSuffix_iff)
  obtain v w where u: "u = v @ TrimSpace u @ w" "list_all IsSpace v"
    using TrimSpace_split by blast
  have "v = []"
    using u trimmed_TrimSpace [of s] t
    by (cases v) (auto simp: trimmed_text_def, metis hd_append2 list.distinct(1) list.sel(1))
  moreover have "TrimSpace (u @ '';'') = u @ '';''" using t TrimSpace_idem [of s] by simp
  ultimately show ?thesis
    using u t by (auto simp: statement_of_def trimTrailingStatementSemicolon_def Let_def)
      (metis append.assoc)
next
  case False
  then show ?thesis by (simp add: statement_of_def trimTrailingStatementSemicolon_def)
qed

lemma length_statement_of: "length (statement_of s) \<le> length (TrimSpace s)"
  using statement_of_prefix [of s] by (metis le_add1 length_append)

locale statement_gate =
  fixes analyse :: "string \<Rightarrow> 'r"
    and allowed :: "'r \<Rightarrow> bool"
    and released :: "'r \<Rightarrow> string"
  assumes checked: "allowed (analyse s) \<Longrightarrow> text_ok s"
    and released_text: "allowed (analyse s) \<Longrightarrow> released (analyse s) = statement_of s"
begin

lemma single_statement: "allowed (analyse s) \<Longrightarrow> separators (released (analyse s)) = []"
  using checked [of s] released_text [of s] released_no_separator [of s]
  by (simp add: text_ok_def statement_of_def)

lemma no_executable_comment:
  assumes "allowed (analyse s)"
  shows "\<not> hasExecutableSQLComment (released (analyse s))"
proof
  assume "hasExecutableSQLComment (released (analyse s))"
  then obtain t where t: "(Code, ''/*!'' @ t) \<in> set (lex_steps Code (statement_of s))"
    using released_text [OF assms] by (auto simp: hasExecutableSQLComment_iff)
  obtain w where "TrimSpace s = statement_of s @ w" using statement_of_prefix by blast
  with lex_steps_append_mono [OF t, of w]
  have "hasExecutableSQLComment (TrimSpace s)" by (auto simp: hasExecutableSQLComment_iff)
  with checked [OF assms] show False by (simp add: text_ok_def)
qed

lemma bounded_text: "allowed (analyse s) \<Longrightarrow> length (released (analyse s)) \<le> maxSQLRunes"
  using checked [of s] released_text [of s] length_statement_of [of s] by (simp add: text_ok_def)

end

section \<open>The specifications of the analysers\<close>

abbreviation code_tokens :: "string \<Rightarrow> string list" where
  "code_tokens s \<equiv> sqlKeywords (code_text s)"

abbreviation leading_keyword :: "string \<Rightarrow> string" where
  "leading_keyword s \<equiv> firstSQLKeyword (stripSQLComments s)"

lemma find_None_iff_disjoint: "find P xs = None \<longleftrightarrow> list_all (\<lambda>x. \<not> P x) xs"
  by (auto simp: find_None_iff list_all_iff)

lemma readOnly_branches:
  "Allowed (analyzeReadOnlySQL s opts) \<longleftrightarrow>
     text_ok s
     \<and> leading_keyword (statement_of s) \<noteq> []
     \<and> isAllowedReadOnlyKeyword (leading_keyword (statement_of s))
     \<and> \<not> hasUnsafeNumericKeywordToken (maskSQLLiteralsAndComments (statement_of s))
     \<and> findForbiddenSQLKeyword (maskSQLLiteralsAndComments (statement_of s)) = None"
  unfolding analyzeReadOnlySQL_def text_ok_def Let_def denySQL_def statement_of_def
  by (simp add: not_less split: option.split)

lemma token_checks:
  "(\<not> hasUnsafeNumericKeywordToken (maskSQLLiteralsAndComments w)
    \<and> findForbiddenSQLKeyword (maskSQLLiteralsAndComments w) = None) \<longleftrightarrow>
   list_all (\<lambda>t. \<not> unsafeNumericToken t \<and> t \<notin> set forbiddenReadOnlyKeywords) (code_tokens w)"
  unfolding hasUnsafeNumericKeywordToken_def findForbiddenSQLKeyword_def keywords_mask_code_text
  by (induction "code_tokens w") (auto simp: find_None_iff_disjoint list_all_iff list_ex_iff)

lemma readOnly_keyword:
  "(firstSQLKeyword s \<noteq> [] \<and> isAllowedReadOnlyKeyword (firstSQLKeyword s)) \<longleftrightarrow>
   firstSQLKeyword s \<in> {''select'', ''show'', ''desc'', ''describe'', ''explain'', ''with''}"
  using firstSQLKeyword_token(1) [of s] by (auto simp: isAllowedReadOnlyKeyword_def)

lemma analyzeReadOnlySQL_allowed:
  "Allowed (analyzeReadOnlySQL s opts) \<longleftrightarrow>
     text_ok s
     \<and> leading_keyword (statement_of s) \<in>
         {''select'', ''show'', ''desc'', ''describe'', ''explain'', ''with''}
     \<and> list_all (\<lambda>t. \<not> unsafeNumericToken t \<and> t \<notin> set forbiddenReadOnlyKeywords)
         (code_tokens (statement_of s))"
  unfolding readOnly_branches readOnly_keyword [symmetric] token_checks [symmetric] by blast

lemma analyzeReadOnlySQL_text:
  assumes "Allowed (analyzeReadOnlySQL s opts)"
  shows "SQLText (analyzeReadOnlySQL s opts) =
    statement_of s @
    (if appendLimit opts \<and> limit opts > 0
        \<and> leading_keyword (statement_of s) \<in> {''select'', ''with''}
        \<and> ''limit'' \<notin> set (code_tokens (statement_of s))
     then '' LIMIT '' @ Itoa (limit opts) else [])"
proof -
  have "leading_keyword (statement_of s) \<noteq> []" using assms by (simp add: readOnly_branches)
  then have "shouldAppendLimit (leading_keyword (statement_of s))
      (maskSQLLiteralsAndComments (statement_of s)) \<longleftrightarrow>
      leading_keyword (statement_of s) \<in> {''select'', ''with''}
      \<and> ''limit'' \<notin> set (code_tokens (statement_of s))"
    using firstSQLKeyword_token(1)
    by (auto simp: shouldAppendLimit_def keywords_mask_code_text list_ex_iff)
  then show ?thesis
    using assms unfolding readOnly_branches text_ok_def
    by (simp add: analyzeReadOnlySQL_def statement_of_def Let_def)
qed

interpretation readonly_gate: statement_gate AnalyzeReadOnlySQLRaw Allowed SQLText
  by unfold_locales
    (auto simp: AnalyzeReadOnlySQLRaw_def analyzeReadOnlySQL_allowed analyzeReadOnlySQL_text)

subsection \<open>The write gate\<close>

lemma wDeny [simp]:
  "wAllowed (denyWriteSQL r m) = False" "wSQLText (denyWriteSQL r m) = wSQLText r"
  by (simp_all add: denyWriteSQL_def)

lemma write_branches:
  "wAllowed (AnalyzeWriteSQLByDB db s pp) \<longleftrightarrow>
     (let w = statement_of s; k = leading_keyword w; c = classifyWriteSQLKeyword k;
          m = maskSQLLiteralsAndComments w
      in supportsWriteValidation db \<and> text_ok s \<and> k \<noteq> [] \<and> \<not> EqualFold k ''with''
         \<and> snd (snd c) \<and> isSupportedWriteExecuteType (fst c) \<and> supportsWriteExecution db
         \<and> \<not> hasUnsafeNumericKeywordToken m \<and> fst c \<noteq> ''DROP'' \<and> fst c \<noteq> ''TRUNCATE''
         \<and> \<not> ((fst c = ''UPDATE'' \<or> fst c = ''DELETE'') \<and> \<not> containsSQLToken m ''where'')
         \<and> WriteEnabled (policy_or_default pp))"
proof -
  have push: "wAllowed (case p of (a, b, c) \<Rightarrow> f a b c) = wAllowed (f (fst p) (fst (snd p)) (snd (snd p)))"
    for p :: "string \<times> string \<times> bool" and f
    by (simp add: case_prod_beta)
  show ?thesis
    unfolding AnalyzeWriteSQLByDB_def text_ok_def statement_of_def
    by (simp only: Let_def if_distrib [of wAllowed] push wDeny simp_thms if_cancel not_less
        SQLWriteSafetyResult.simps if_bool_eq_conj) blast
qed

lemma write_released:
  "wAllowed (AnalyzeWriteSQLByDB db s pp) \<Longrightarrow> wSQLText (AnalyzeWriteSQLByDB db s pp) = statement_of s"
proof -
  have push: "wSQLText (case p of (a, b, c) \<Rightarrow> f a b c) = wSQLText (f (fst p) (fst (snd p)) (snd (snd p)))"
    for p :: "string \<times> string \<times> bool" and f
    by (simp add: case_prod_beta)
  have "wSQLText (AnalyzeWriteSQLByDB db s pp) =
      (if supportsWriteValidation db \<and> text_ok s then statement_of s else [])"
    unfolding AnalyzeWriteSQLByDB_def text_ok_def statement_of_def
    by (simp only: Let_def if_distrib [of wSQLText] push wDeny simp_thms if_cancel not_less
        SQLWriteSafetyResult.simps) (simp add: not_le)
  then show "wAllowed (AnalyzeWriteSQLByDB db s pp) \<Longrightarrow> ?thesis"
    by (simp add: write_branches Let_def)
qed

interpretation write_gate: statement_gate "\<lambda>s. AnalyzeWriteSQLByDB db s pp" wAllowed wSQLText
  for db pp
  by unfold_locales (auto simp: write_branches write_released Let_def)

definition write_keywords :: "string list" where
  "write_keywords =
     [''insert'', ''update'', ''delete'', ''replace'', ''create'', ''alter'', ''drop'', ''truncate'',
      ''rename'', ''grant'', ''revoke'', ''merge'']"

lemma classify_evals:
  "classifyWriteSQLKeyword ''insert'' = (''INSERT'', DatabaseQueryRiskMedium, True)"
  "classifyWriteSQLKeyword ''update'' = (''UPDATE'', DatabaseQueryRiskHigh, True)"
  "classifyWriteSQLKeyword ''delete'' = (''DELETE'', DatabaseQueryRiskHigh, True)"
  "classifyWriteSQLKeyword ''replace'' = (''REPLACE'', DatabaseQueryRiskHigh, True)"
  "classifyWriteSQLKeyword ''create'' = (''CREATE'', DatabaseQueryRiskHigh, True)"
  "classifyWriteSQLKeyword ''alter'' = (''ALTER'', DatabaseQueryRiskHigh, True)"
  "classifyWriteSQLKeyword ''drop'' = (''DROP'', DatabaseQueryRiskCritical, True)"
  "classifyWriteSQLKeyword ''truncate'' = (''TRUNCATE'', DatabaseQueryRiskCritical, True)"
  "classifyWriteSQLKeyword ''rename'' = (''RENAME'', DatabaseQueryRiskHigh, True)"
  "classifyWriteSQLKeyword ''grant'' = (''GRANT'', DatabaseQueryRiskHigh, True)"
  "classifyWriteSQLKeyword ''revoke'' = (''REVOKE'', DatabaseQueryRiskHigh, True)"
  "classifyWriteSQLKeyword ''merge'' = (''MERGE'', DatabaseQueryRiskHigh, True)"
  by code_simp+

lemma classify_other:
  assumes "TrimSpace k = k" "ToLower k = k" "k \<notin> set write_keywords"
  shows "classifyWriteSQLKeyword k = (ToUpper k, DatabaseQueryRiskLow, False)"
  using assms(3) by (simp add: classifyWriteSQLKeyword_def write_keywords_def assms(1,2))

lemma classify_known:
  assumes "TrimSpace k = k" "ToLower k = k"
  shows "snd (snd (classifyWriteSQLKeyword k)) \<longleftrightarrow> k \<in> set write_keywords"
proof (cases "k \<in> set write_keywords")
  case True
  then show ?thesis by (auto simp: write_keywords_def classify_evals)
next
  case False
  then show ?thesis by (simp add: classify_other assms)
qed

lemma executable_types:
  "isSupportedWriteExecuteType ''INSERT''" "isSupportedWriteExecuteType ''UPDATE''"
  "isSupportedWriteExecuteType ''DELETE''" "\<not> isSupportedWriteExecuteType ''REPLACE''"
  "\<not> isSupportedWriteExecuteType ''CREATE''" "\<not> isSupportedWriteExecuteType ''ALTER''"
  "\<not> isSupportedWriteExecuteType ''DROP''" "\<not> isSupportedWriteExecuteType ''TRUNCATE''"
  "\<not> isSupportedWriteExecuteType ''RENAME''" "\<not> isSupportedWriteExecuteType ''GRANT''"
  "\<not> isSupportedWriteExecuteType ''REVOKE''" "\<not> isSupportedWriteExecuteType ''MERGE''"
  by code_simp+

lemma classify_executable:
  assumes "TrimSpace k = k" "ToLower k = k"
  shows "(snd (snd (classifyWriteSQLKeyword k)) \<and> isSupportedWriteExecuteType (fst (classifyWriteSQLKeyword k)))
         \<longleftrightarrow> k \<in> {''insert'', ''update'', ''delete''}"
proof (cases "k \<in> set write_keywords")
  case True
  then show ?thesis
    unfolding write_keywords_def list.set insert_iff empty_iff
    by (elim disjE) (simp_all add: classify_evals executable_types)
next
  case False
  with classify_other [OF assms] have "\<not> snd (snd (classifyWriteSQLKeyword k))" by simp
  moreover have "k \<notin> {''insert'', ''update'', ''delete''}"
    using False by (auto simp: write_keywords_def)
  ultimately show ?thesis by blast
qed

lemma containsSQLToken_where:
  "containsSQLToken (maskSQLLiteralsAndComments w) ''where'' \<longleftrightarrow> ''where'' \<in> set (code_tokens w)"
proof -
  have "ToLower (TrimSpace ''where'') = ''where''" by code_simp
  then show ?thesis
    by (auto simp: containsSQLToken_def keywords_mask_code_text list_ex_iff)
qed

lemma write_gate_allowed:
  "wAllowed (AnalyzeWriteSQLByDB db s pp) \<longleftrightarrow>
     text_ok s
     \<and> normalizeDBType db \<in> {DBTypeMySQL, DBTypeMariaDB, DBTypePostgreSQL}
     \<and> WriteEnabled (policy_or_default pp)
     \<and> list_all (\<lambda>t. \<not> unsafeNumericToken t) (code_tokens (statement_of s))
     \<and> (leading_keyword (statement_of s) = ''insert''
        \<or> (leading_keyword (statement_of s) \<in> {''update'', ''delete''}
           \<and> ''where'' \<in> set (code_tokens (statement_of s))))"
proof -
  let ?k = "leading_keyword (statement_of s)"
  have dbs: "(supportsWriteValidation db \<and> supportsWriteExecution db) \<longleftrightarrow>
      normalizeDBType db \<in> {DBTypeMySQL, DBTypeMariaDB, DBTypePostgreSQL}"
    by (auto simp: supportsWriteValidation_def supportsWriteExecution_def)
  have numeric: "\<not> hasUnsafeNumericKeywordToken (maskSQLLiteralsAndComments (statement_of s)) \<longleftrightarrow>
      list_all (\<lambda>t. \<not> unsafeNumericToken t) (code_tokens (statement_of s))"
    by (auto simp: hasUnsafeNumericKeywordToken_def keywords_mask_code_text list_all_iff list_ex_iff)
  have lower: "\<not> EqualFold ''insert'' ''with''" "\<not> EqualFold ''update'' ''with''"
    "\<not> EqualFold ''delete'' ''with''" by code_simp+
  show ?thesis
  proof (cases "?k = []")
    case True
    then show ?thesis by (simp add: write_branches Let_def)
  next
    case False
    note wf = classify_executable [OF firstSQLKeyword_token(2) [OF False] firstSQLKeyword_token(1) [OF False]]
    show ?thesis
    proof (cases "?k \<in> {''insert'', ''update'', ''delete''}")
      case True
      then consider "?k = ''insert''" | "?k = ''update''" | "?k = ''delete''" by blast
      then show ?thesis
        by cases (use dbs numeric lower in
          \<open>auto simp: write_branches Let_def containsSQLToken_where classify_evals executable_types\<close>)
    next
      case False
      with wf show ?thesis by (auto simp: write_branches Let_def)
    qed
  qed
qed

subsection \<open>The DDL gate\<close>

lemma dDeny [simp]:
  "dAllowed (denyDDLSQL r m) = False" "dSQLText (denyDDLSQL r m) = dSQLText r"
  by (simp_all add: denyDDLSQL_def)

text \<open>The \<open>case\<close> on the token list written with the list's head, so that the record selectors
  can be pushed through it.\<close>

lemma case_tokens: "(case ts of [] \<Rightarrow> a | t # r \<Rightarrow> f t r) = (if ts = [] then a else f (hd ts) (tl ts))"
  by (cases ts) simp_all

lemma ddl_branches:
  "dAllowed (AnalyzeDDLSQLByDB db s pp) \<longleftrightarrow>
     (let w = statement_of s; m = maskSQLLiteralsAndComments w; ts = sqlKeywords m;
          c = classifyWriteSQLKeyword (hd ts)
      in supportsDDLValidation db \<and> text_ok s \<and> \<not> hasUnsafeNumericKeywordToken m \<and> ts \<noteq> []
         \<and> snd (snd c) \<and> (isDDLSQLType (fst c) \<or> isPrivilegeSQLType (fst c))
         \<and> \<not> isPrivilegeSQLType (fst c) \<and> fst c \<noteq> ''DROP'' \<and> fst c \<noteq> ''TRUNCATE''
         \<and> fst c \<noteq> ''ALTER'' \<and> fst c \<noteq> ''RENAME''
         \<and> (fst c = ''CREATE'' \<longrightarrow> isSupportedCreateDDL ts)
         \<and> DDLEnabled (policy_or_default pp))"
proof -
  have push: "dAllowed (case p of (a, b, c) \<Rightarrow> f a b c) = dAllowed (f (fst p) (fst (snd p)) (snd (snd p)))"
    for p :: "string \<times> string \<times> bool" and f
    by (simp add: case_prod_beta)
  have collapse: "ts \<noteq> [] \<Longrightarrow> isSupportedCreateDDL (hd ts # tl ts) = isSupportedCreateDDL ts" for ts
    by simp
  show ?thesis
    unfolding AnalyzeDDLSQLByDB_def text_ok_def statement_of_def case_tokens
    by (simp only: Let_def if_distrib [of dAllowed] push dDeny simp_thms if_cancel not_less
        SQLDDLSafetyResult.simps if_bool_eq_conj) (use collapse in blast)
qed

lemma ddl_released:
  "dAllowed (AnalyzeDDLSQLByDB db s pp) \<Longrightarrow> dSQLText (AnalyzeDDLSQLByDB db s pp) = statement_of s"
proof -
  have push: "dSQLText (case p of (a, b, c) \<Rightarrow> f a b c) = dSQLText (f (fst p) (fst (snd p)) (snd (snd p)))"
    for p :: "string \<times> string \<times> bool" and f
    by (simp add: case_prod_beta)
  have "dSQLText (AnalyzeDDLSQLByDB db s pp) =
      (if supportsDDLValidation db \<and> text_ok s then statement_of s else [])"
    unfolding AnalyzeDDLSQLByDB_def text_ok_def statement_of_def case_tokens
    by (simp only: Let_def if_distrib [of dSQLText] push dDeny simp_thms if_cancel not_less
        SQLDDLSafetyResult.simps) (simp add: not_le)
  then show "dAllowed (AnalyzeDDLSQLByDB db s pp) \<Longrightarrow> ?thesis"
    by (simp add: ddl_branches Let_def)
qed

interpretation ddl_gate: statement_gate "\<lambda>s. AnalyzeDDLSQLByDB db s pp" dAllowed dSQLText
  for db pp
  by unfold_locales (auto simp: ddl_branches ddl_released Let_def)

lemma ddl_types:
  "isDDLSQLType ''CREATE''" "\<not> isPrivilegeSQLType ''CREATE''" "isPrivilegeSQLType ''GRANT''"
  "isPrivilegeSQLType ''REVOKE''"
  "\<not> isDDLSQLType ''INSERT''" "\<not> isDDLSQLType ''UPDATE''" "\<not> isDDLSQLType ''DELETE''"
  "\<not> isDDLSQLType ''REPLACE''" "\<not> isDDLSQLType ''MERGE''"
  "\<not> isPrivilegeSQLType ''INSERT''" "\<not> isPrivilegeSQLType ''UPDATE''" "\<not> isPrivilegeSQLType ''DELETE''"
  "\<not> isPrivilegeSQLType ''REPLACE''" "\<not> isPrivilegeSQLType ''MERGE''"
  by code_simp+

lemma classify_ddl:
  assumes "TrimSpace k = k" "ToLower k = k"
  shows "(let c = classifyWriteSQLKeyword k in snd (snd c)
           \<and> (isDDLSQLType (fst c) \<or> isPrivilegeSQLType (fst c)) \<and> \<not> isPrivilegeSQLType (fst c)
           \<and> fst c \<noteq> ''DROP'' \<and> fst c \<noteq> ''TRUNCATE'' \<and> fst c \<noteq> ''ALTER'' \<and> fst c \<noteq> ''RENAME'')
         \<longleftrightarrow> k = ''create''"
proof (cases "k \<in> set write_keywords")
  case True
  then show ?thesis
    unfolding write_keywords_def list.set insert_iff empty_iff
    by (elim disjE) (simp_all add: classify_evals ddl_types)
next
  case False
  with classify_other [OF assms] have "\<not> snd (snd (classifyWriteSQLKeyword k))" by simp
  moreover have "k \<noteq> ''create''" using False by (auto simp: write_keywords_def)
  ultimately show ?thesis by (simp add: Let_def)
qed

lemma numeric_tokens:
  "\<not> hasUnsafeNumericKeywordToken (maskSQLLiteralsAndComments w) \<longleftrightarrow>
   list_all (\<lambda>t. \<not> unsafeNumericToken t) (code_tokens w)"
  by (auto simp: hasUnsafeNumericKeywordToken_def keywords_mask_code_text list_all_iff list_ex_iff)

lemma isSupportedCreateDDL_head: "isSupportedCreateDDL ts \<Longrightarrow> ts \<noteq> [] \<and> hd ts = ''create''"
  by (auto simp: isSupportedCreateDDL_def split: list.splits)

lemma ddl_gate_allowed:
  "dAllowed (AnalyzeDDLSQLByDB db s pp) \<longleftrightarrow>
     text_ok s
     \<and> normalizeDBType db \<in> {[], DBTypeMySQL, DBTypeMariaDB, DBTypePostgreSQL}
     \<and> DDLEnabled (policy_or_default pp)
     \<and> list_all (\<lambda>t. \<not> unsafeNumericToken t) (code_tokens (statement_of s))
     \<and> isSupportedCreateDDL (code_tokens (statement_of s))"
proof (cases "code_tokens (statement_of s)")
  case Nil
  then show ?thesis
    by (simp add: ddl_branches Let_def keywords_mask_code_text isSupportedCreateDDL_def)
next
  case (Cons t ts)
  then have "t \<in> set (code_tokens (statement_of s))" by simp
  note k = sqlKeywords_token [OF this]
  have create: "classifyWriteSQLKeyword ''create'' = (''CREATE'', DatabaseQueryRiskHigh, True)"
    by (rule classify_evals)
  have "dAllowed (AnalyzeDDLSQLByDB db s pp) \<longleftrightarrow>
      supportsDDLValidation db \<and> text_ok s
      \<and> list_all (\<lambda>t. \<not> unsafeNumericToken t) (code_tokens (statement_of s))
      \<and> t = ''create'' \<and> isSupportedCreateDDL (t # ts) \<and> DDLEnabled (policy_or_default pp)"
    using classify_ddl [OF k(3) k(2)] Cons create
    unfolding ddl_branches Let_def keywords_mask_code_text numeric_tokens [symmetric] by auto
  then show ?thesis
    using isSupportedCreateDDL_head [of "t # ts"] Cons
    by (auto simp: supportsDDLValidation_def)
qed

subsection \<open>The appended LIMIT\<close>

text \<open>Words and blanks neither open nor close a literal or a comment.\<close>

definition plain_text :: "string \<Rightarrow> bool" where
  "plain_text s = list_all (\<lambda>r. is_word_rune r \<or> r = SP) s"

lemma plain_step:
  assumes "is_word_rune r \<or> r = SP"
  shows "step_mode m r rs = m" "step_label m r rs = m" "\<not> step_two m r rs" "step_rest m r rs = rs"
proof -
  have "r \<noteq> CHR ''-''" "r \<noteq> CHR ''#''" "r \<noteq> CHR ''/''" "r \<noteq> CHR ''*''" "r \<noteq> SQ" "r \<noteq> DQ"
    "r \<noteq> BT" "\<not> is_eol r"
    using assms
    by (auto simp: is_word_rune_def IsLetter_def IsDigit_def rune_code_def Let_def is_eol_def)
  then show "step_mode m r rs = m" "step_label m r rs = m" "\<not> step_two m r rs" "step_rest m r rs = rs"
    by (simp_all add: step_defs split: region.splits)
qed

lemma code_text_plain: "plain_text s \<Longrightarrow> code_text_from m s = map (blank_as m) s"
  by (induction s) (simp_all add: plain_text_def plain_step)

lemma sqlKeywordsLoop_word:
  "list_all is_word_rune s \<Longrightarrow> sqlKeywordsLoop toks cur s = flushToken toks (cur @ s)"
  by (induction s arbitrary: cur) simp_all

lemma sqlKeywords_blanks: "sqlKeywords (map (\<lambda>_. SP) s) = []"
proof -
  have "sqlKeywordsLoop [] [] (map (\<lambda>_. SP) s) = []" by (induction s) simp_all
  then show ?thesis by (simp add: sqlKeywords_def)
qed

lemma digits_of_IsDigit: "list_all IsDigit (digits_of 10 n)"
proof (induction "10::nat" n rule: digits_of.induct)
  case (1 n)
  have d: "d < 10 \<Longrightarrow> IsDigit (digit_rune d)" for d :: nat
    by (simp add: IsDigit_def digit_rune_def rune_code_def Let_def)
  show ?case
    by (subst digits_of.simps) (use 1 d in \<open>auto simp: list_all_iff\<close>)
qed

lemma digits_of_nonempty: "digits_of b n \<noteq> []"
  by (subst digits_of.simps) simp

lemma ToLower_digits: "list_all IsDigit s \<Longrightarrow> ToLower s = s"
  by (induction s) (auto simp: ToLower_def IsDigit_def rune_lower_def rune_code_def Let_def)

lemma limit_clause_tokens:
  assumes "0 < n"
  shows "sqlKeywords (code_text_from m ('' LIMIT '' @ Itoa n)) =
         (if m = Code then [''limit'', Itoa n] else [])"
proof -
  have d: "list_all IsDigit (Itoa n)" "Itoa n \<noteq> []"
    using assms digits_of_IsDigit digits_of_nonempty by (simp_all add: Itoa_def)
  then have w: "list_all is_word_rune (Itoa n)" by (auto simp: list_all_iff is_word_rune_def)
  have "list_all (\<lambda>r. is_word_rune r \<or> r = SP) '' LIMIT ''" by code_simp
  then have "plain_text ('' LIMIT '' @ Itoa n)" using w by (auto simp: plain_text_def list_all_iff)
  note code = code_text_plain [OF this, of m]
  show ?thesis
  proof (cases "m = Code")
    case True
    have "map (blank_as Code) ('' LIMIT '' @ Itoa n) = '' LIMIT'' @ SP # Itoa n"
      by (simp add: blank_as_def map_idI)
    moreover have "sqlKeywords '' LIMIT'' = [''limit'']" by code_simp
    moreover have "sqlKeywords (Itoa n) = [Itoa n]"
      using sqlKeywordsLoop_word [OF w] d ToLower_digits [OF d(1)]
      by (simp add: sqlKeywords_def flushToken_def)
    ultimately show ?thesis using True code by (simp only: sqlKeywords_append_blank) simp
  next
    case False
    then have "map (blank_as m) ('' LIMIT '' @ Itoa n) = map (\<lambda>_. SP) ('' LIMIT '' @ Itoa n)"
      by simp
    then show ?thesis using False code sqlKeywords_blanks by metis
  qed
qed

lemma limit_appended_tokens:
  assumes "0 < n"
  shows "code_tokens (w @ '' LIMIT '' @ Itoa n) =
         code_tokens w @ (if lex_end Code w = Code then [''limit'', Itoa n] else [])"
proof -
  obtain v where v: "'' LIMIT '' @ Itoa n = SP # v" by simp
  obtain v' where v': "code_text_from (lex_end Code w) (SP # v) = SP # v'"
    by (simp add: plain_step(2-3) blank_as_def)
  have "sqlKeywords (SP # v') = sqlKeywords v'"
    by (simp add: sqlKeywords_def)
  then show ?thesis
    using limit_clause_tokens [OF assms, of "lex_end Code w"] v v'
    by (simp add: code_text_def code_text_append_blank sqlKeywords_append_blank)
qed

subsection \<open>The EXPLAIN gates\<close>

lemma code_text_plain_append:
  "plain_text u \<Longrightarrow> code_text_from m (u @ w) = map (blank_as m) u @ code_text_from m w"
  by (induction u) (simp_all add: plain_text_def plain_step)

lemma separators_plain_append: "plain_text u \<Longrightarrow> separators (u @ w) = separators w"
proof (induction u)
  case (Cons r u)
  then have r: "is_word_rune r \<or> r = SP" and u: "separators (u @ w) = separators w"
    by (simp_all add: plain_text_def)
  from r have "r \<noteq> CHR '';''" by (auto simp: is_word_rune_def IsLetter_def IsDigit_def rune_code_def Let_def)
  then show ?case using u plain_step [OF r] by (simp add: separators_def)
qed simp

lemma explain_prefix:
  "code_tokens (''EXPLAIN '' @ w) = ''explain'' # code_tokens w"
  "separators (''EXPLAIN '' @ w) = separators w"
proof -
  have plain: "plain_text ''EXPLAIN ''" by code_simp
  show "separators (''EXPLAIN '' @ w) = separators w" using separators_plain_append [OF plain] .
  have "code_text (''EXPLAIN '' @ w) = ''EXPLAIN'' @ SP # code_text w"
    using code_text_plain_append [OF plain, of Code w] by (simp add: code_text_def blank_as_def)
  moreover have "sqlKeywords ''EXPLAIN'' = [''explain'']" by code_simp
  ultimately show "code_tokens (''EXPLAIN '' @ w) = ''explain'' # code_tokens w"
    by (simp only: sqlKeywords_append_blank) simp
qed

text \<open>What an EXPLAIN gate releases: one statement, EXPLAIN and then the keyword of a statement
  it may explain, never ANALYZE, which would run the statement.\<close>

definition explains :: "string list \<Rightarrow> string list \<Rightarrow> string \<Rightarrow> bool" where
  "explains kinds forbidden s \<longleftrightarrow> separators s = [] \<and> length (code_tokens s) \<ge> 2
     \<and> code_tokens s ! 0 = ''explain'' \<and> code_tokens s ! 1 \<in> set kinds
     \<and> list_all (\<lambda>t. \<not> unsafeNumericToken t \<and> t \<notin> set forbidden) (code_tokens s)"

lemma explains_given:
  assumes "separators w = []" "code_tokens w = ''explain'' # k # ts" "k \<in> set kinds"
    "list_all (\<lambda>t. \<not> unsafeNumericToken t \<and> t \<notin> set forbidden) (code_tokens w)"
  shows "explains kinds forbidden w"
  using assms by (simp add: explains_def)

lemma explains_added:
  assumes "separators w = []" "code_tokens w = k # ts" "k \<in> set kinds"
    "list_all (\<lambda>t. \<not> unsafeNumericToken t \<and> t \<notin> set forbidden) (code_tokens w)"
    "''explain'' \<notin> set forbidden"
  shows "explains kinds forbidden (''EXPLAIN '' @ w)"
proof -
  have "\<not> unsafeNumericToken ''explain''" by code_simp
  with assms show ?thesis unfolding explains_def explain_prefix by simp
qed

lemma AnalyzeExplainSQLByDB_released:
  assumes "Allowed (AnalyzeExplainSQLByDB db s)"
  shows "explains [''select'', ''with''] forbiddenReadOnlyKeywords (SQLText (AnalyzeExplainSQLByDB db s))"
proof -
  let ?b = "AnalyzeReadOnlySQLRaw s" and ?ts = "code_tokens (statement_of s)"
  have b: "Allowed ?b" and sup: "supportsExplain db"
    using assms by (auto simp: AnalyzeExplainSQLByDB_def denySQL_def Let_def split: if_splits)
  have txt_eq: "SQLText ?b = statement_of s" by (rule readonly_gate.released_text [OF b])
  have sep: "separators (statement_of s) = []" using readonly_gate.single_statement [OF b] txt_eq by simp
  have ok: "list_all (\<lambda>t. \<not> unsafeNumericToken t \<and> t \<notin> set forbiddenReadOnlyKeywords) ?ts"
    using b by (simp add: AnalyzeReadOnlySQLRaw_def analyzeReadOnlySQL_allowed)
  have ex: "''explain'' \<notin> set forbiddenReadOnlyKeywords" by code_simp
  obtain t ts where ts: "?ts = t # ts"
    using assms b sup txt_eq
    by (cases ?ts) (simp_all add: AnalyzeExplainSQLByDB_def denySQL_def keywords_mask_code_text)
  show ?thesis
  proof (cases "t = ''explain''")
    case True
    with assms b sup txt_eq ts
    have "ts \<noteq> [] \<and> hd ts \<in> {''select'', ''with''} \<and> SQLText (AnalyzeExplainSQLByDB db s) = statement_of s"
      by (auto simp: AnalyzeExplainSQLByDB_def denySQL_def keywords_mask_code_text split: if_splits)
    with ts True sep ok show ?thesis by (cases ts) (auto intro!: explains_given)
  next
    case False
    with assms b sup txt_eq ts
    have "t \<in> {''select'', ''with''}" "SQLText (AnalyzeExplainSQLByDB db s) = ''EXPLAIN '' @ statement_of s"
      by (auto simp: AnalyzeExplainSQLByDB_def denySQL_def keywords_mask_code_text split: if_splits)
    with explains_added [OF sep ts _ ok ex] show ?thesis by auto
  qed
qed

lemma aDeny [simp]: "Allowed (denySQL m) = False"
  by (simp add: denySQL_def)

lemma find_forbidden_write_explain:
  "findForbiddenWriteExplainKeyword (maskSQLLiteralsAndComments w) = None \<longleftrightarrow>
   list_all (\<lambda>t. t \<notin> set forbiddenWriteExplainKeywords) (code_tokens w)"
  by (simp add: findForbiddenWriteExplainKeyword_def keywords_mask_code_text find_None_iff_disjoint)

lemma write_explain_branches:
  assumes "Allowed (AnalyzeWriteExplainSQLByDB db s pp)"
  defines "w \<equiv> statement_of s"
  defines "ts \<equiv> code_tokens w"
  defines "k \<equiv> (if hd ts = ''explain'' then hd (tl ts) else hd ts)"
  shows "supportsWriteExplain db" "text_ok s" "WriteExplainEnabled (policy_or_default pp)"
    "list_all (\<lambda>t. \<not> unsafeNumericToken t) ts"
    "list_all (\<lambda>t. t \<notin> set forbiddenWriteExplainKeywords) ts"
    "ts \<noteq> []" "hd ts = ''explain'' \<Longrightarrow> tl ts \<noteq> []"
    "snd (snd (classifyWriteSQLKeyword k))"
    "isSupportedWriteExplainSQLType db (fst (classifyWriteSQLKeyword k))"
    "SQLText (AnalyzeWriteExplainSQLByDB db s pp) =
       (if hd ts = ''explain'' then w else ''EXPLAIN '' @ w)"
proof -
  note all = assms(1) [unfolded AnalyzeWriteExplainSQLByDB_def]
  show "supportsWriteExplain db" "text_ok s"
    using all by (auto simp: text_ok_def Let_def split: if_splits)
  note checks = this [unfolded text_ok_def]
  show num: "list_all (\<lambda>t. \<not> unsafeNumericToken t) ts"
    using all checks
    by (auto simp: Let_def not_le ts_def w_def statement_of_def numeric_tokens [symmetric] split: if_splits)
  show ne: "ts \<noteq> []"
    using all checks num
    by (auto simp: Let_def not_less [symmetric] ts_def w_def statement_of_def
        numeric_tokens [symmetric] keywords_mask_code_text)
  then have ts: "sqlKeywords (maskSQLLiteralsAndComments w) = hd ts # tl ts"
    by (simp add: ts_def keywords_mask_code_text)
  have num': "\<not> hasUnsafeNumericKeywordToken (maskSQLLiteralsAndComments w)"
    using num by (simp add: numeric_tokens ts_def)
  let ?c = "classifyWriteSQLKeyword k"
  let ?f = "findForbiddenWriteExplainKeyword (maskSQLLiteralsAndComments w)"
  have eq: "AnalyzeWriteExplainSQLByDB db s pp =
    (if hd ts = ''explain'' \<and> tl ts = [] then denySQL WriteExplainNeedsWrite
     else if hd ts = ''explain'' \<and> hd (tl ts) = ''analyze'' then denySQL WriteExplainAnalyzeDenied
     else if k = ''with'' then denySQL WriteExplainWith
     else if \<not> snd (snd ?c) then denySQL WriteExplainOnlyWrite
     else if isDDLOrPrivilegeSQLType (fst ?c) then denySQL WriteExplainDDL
     else if \<not> isSupportedWriteExplainSQLType db (fst ?c)
     then denySQL (WriteExplainTypeUnsupported (DBTypeText db) (fst ?c))
     else case ?f of Some keyword \<Rightarrow> denySQL (WriteExplainForbidden keyword)
        | None \<Rightarrow> if \<not> WriteExplainEnabled (policy_or_default pp) then denySQL WriteExplainDisabled
           else \<lparr>Allowed = True, SQLText = (if hd ts = ''explain'' then w else ''EXPLAIN '' @ w),
                 SQLType = ''EXPLAIN'', Message = WriteExplainPassed\<rparr>)"
    unfolding AnalyzeWriteExplainSQLByDB_def
    by (simp only: checks num' ts Let_def statement_of_def [symmetric] w_def [symmetric]
        k_def [symmetric] not_le [symmetric] if_False if_True simp_thms list.case case_prod_beta)
  note c = assms(1) [unfolded eq]
  show "WriteExplainEnabled (policy_or_default pp)"
    using c by (simp split: if_splits option.splits)
  show "list_all (\<lambda>t. t \<notin> set forbiddenWriteExplainKeywords) ts"
    using c unfolding ts_def find_forbidden_write_explain [symmetric] by (simp split: if_splits option.splits)
  show "hd ts = ''explain'' \<Longrightarrow> tl ts \<noteq> []" using c by (simp split: if_splits)
  show "snd (snd ?c)" "isSupportedWriteExplainSQLType db (fst ?c)" using c by (simp_all split: if_splits)
  show "SQLText (AnalyzeWriteExplainSQLByDB db s pp) = (if hd ts = ''explain'' then w else ''EXPLAIN '' @ w)"
    unfolding eq using c by (simp split: if_splits option.splits)
qed

lemma write_explain_types:
  assumes "isSupportedWriteExplainSQLType db t"
  shows "ToUpper (TrimSpace t) \<in> {''INSERT'', ''UPDATE'', ''DELETE'', ''REPLACE'', ''MERGE''}"
  using assms by (auto simp: isSupportedWriteExplainSQLType_def Let_def split: if_splits)

lemma upper_types:
  "ToUpper (TrimSpace ''CREATE'') = ''CREATE''" "ToUpper (TrimSpace ''ALTER'') = ''ALTER''"
  "ToUpper (TrimSpace ''DROP'') = ''DROP''" "ToUpper (TrimSpace ''TRUNCATE'') = ''TRUNCATE''"
  "ToUpper (TrimSpace ''RENAME'') = ''RENAME''" "ToUpper (TrimSpace ''GRANT'') = ''GRANT''"
  "ToUpper (TrimSpace ''REVOKE'') = ''REVOKE''"
  by code_simp+

lemma classify_write_explain:
  assumes "TrimSpace k = k" "ToLower k = k" "snd (snd (classifyWriteSQLKeyword k))"
    "isSupportedWriteExplainSQLType db (fst (classifyWriteSQLKeyword k))"
  shows "k \<in> {''insert'', ''update'', ''delete'', ''replace'', ''merge''}"
proof -
  have "k \<in> set write_keywords" using classify_known [OF assms(1,2)] assms(3) by blast
  with write_explain_types [OF assms(4)] show ?thesis
    unfolding write_keywords_def list.set insert_iff empty_iff
    by (elim disjE) (simp_all add: classify_evals upper_types)
qed

lemma AnalyzeWriteExplainSQLByDB_released:
  assumes "Allowed (AnalyzeWriteExplainSQLByDB db s pp)"
  shows "WriteExplainEnabled (policy_or_default pp)"
    "explains [''insert'', ''update'', ''delete'', ''replace'', ''merge''] forbiddenWriteExplainKeywords
       (SQLText (AnalyzeWriteExplainSQLByDB db s pp))"
proof -
  note r = write_explain_branches [OF assms]
  show "WriteExplainEnabled (policy_or_default pp)" by (rule r(3))
  let ?w = "statement_of s" and ?ts = "code_tokens (statement_of s)"
  let ?k = "if hd ?ts = ''explain'' then hd (tl ?ts) else hd ?ts"
  have sep: "separators ?w = []"
    using r(2) released_no_separator [of s] by (simp add: text_ok_def statement_of_def)
  have ok: "list_all (\<lambda>t. \<not> unsafeNumericToken t \<and> t \<notin> set forbiddenWriteExplainKeywords) ?ts"
    using r(4,5) by (auto simp: list_all_iff)
  have "?k \<in> set ?ts" using r(6,7) by (cases ?ts; cases "tl ?ts") auto
  from sqlKeywords_token [OF this] r(8,9)
  have k: "?k \<in> set [''insert'', ''update'', ''delete'', ''replace'', ''merge'']"
    using classify_write_explain by simp
  have ex: "''explain'' \<notin> set forbiddenWriteExplainKeywords" by code_simp
  show "explains [''insert'', ''update'', ''delete'', ''replace'', ''merge''] forbiddenWriteExplainKeywords
       (SQLText (AnalyzeWriteExplainSQLByDB db s pp))"
  proof (cases "hd ?ts = ''explain''")
    case True
    then have "?ts = ''explain'' # ?k # tl (tl ?ts)" using r(6,7) by (cases ?ts) simp_all
    from explains_given [OF sep this k ok] show ?thesis using True r(10) by simp
  next
    case False
    then have "?ts = ?k # tl ?ts" using r(6) by simp
    from explains_added [OF sep this k ok ex] show ?thesis using False r(10) by simp
  qed
qed

end
