(* ===== verification/Query_Console.thy ===== *)
theory Query_Console
  imports Query_Exec Redis_Query Sql_Gate
begin

text \<open>
  The use cases of the query console: read-only queries, exports and EXPLAIN (usecase.go,
  query_enhancement.go), data changes (query_change.go, query_write.go) and DDL (query_ddl.go), each
  with the audit row it writes.

  The state is the audit table and the trace of the database calls. The environment holds what
  the use cases take from outside: the instance repository, the credential and policy resolvers,
  whether a write to the audit table fails, the driver, the executors of the engines that are
  not modelled, SHA-256 and the clock's difference. Every use case takes the state and returns its
  result and the new state. Chinese texts written to an audit row or a response are constructors;
  the error message of a row stands for its text cut to 500 runes.
\<close>

section \<open>Audit rows\<close>

abbreviation DatabaseQueryStatusPending :: string where "DatabaseQueryStatusPending \<equiv> ''pending''"
abbreviation DatabaseQueryStatusSuccess :: string where "DatabaseQueryStatusSuccess \<equiv> ''success''"
abbreviation DatabaseQueryStatusFailed :: string where "DatabaseQueryStatusFailed \<equiv> ''failed''"
abbreviation DatabaseQueryStatusDenied :: string where "DatabaseQueryStatusDenied \<equiv> ''denied''"
abbreviation DatabaseInstanceStatusEnabled :: string where "DatabaseInstanceStatusEnabled \<equiv> ''enabled''"

abbreviation DatabaseAuditActionQuery :: string where "DatabaseAuditActionQuery \<equiv> ''query''"
abbreviation DatabaseAuditActionExplain :: string where "DatabaseAuditActionExplain \<equiv> ''explain''"
abbreviation DatabaseAuditActionWriteExplain :: string where "DatabaseAuditActionWriteExplain \<equiv> ''write_explain''"
abbreviation DatabaseAuditActionQueryExport :: string where "DatabaseAuditActionQueryExport \<equiv> ''query_export''"
abbreviation DatabaseAuditActionChangeExecute :: string where "DatabaseAuditActionChangeExecute \<equiv> ''change_execute''"
abbreviation DatabaseAuditActionDDLExecute :: string where "DatabaseAuditActionDDLExecute \<equiv> ''ddl_execute''"

definition auditActions :: "string list" where
  "auditActions =
     [''query'', ''explain'', ''write_explain'', ''query_export'', ''metadata_export'', ''diagnosis_metrics'',
      ''diagnosis_sessions'', ''diagnosis_slow_queries'', ''change_execute'', ''ddl_execute'', ''backup_run'',
      ''backup_download'', ''backup_verify'', ''backup_alert_rule_create'', ''backup_alert_rule_update'',
      ''backup_alert_rule_delete'', ''backup_alert_rule_test'', ''topology_view'', ''restore_dry_run'',
      ''capacity_view'', ''inspection_generate'', ''instance_permission_upsert'',
      ''instance_permission_delete'', ''replica_status_view'', ''replica_check_run'',
      ''replica_incident_guide'', ''replica_incident_guide_delete'', ''replica_relation_delete'',
      ''replica_action_delete'', ''replica_pause_apply'', ''replica_resume_apply'']"

definition normalizeAuditAction :: "string \<Rightarrow> string" where
  "normalizeAuditAction action =
     (let a = ToLower (TrimSpace action) in
      if a = [] then DatabaseAuditActionQuery
      else case find (\<lambda>c. c = a) auditActions of Some c \<Rightarrow> c | None \<Rightarrow> a)"

datatype rollback_hint = NoHint | HintInsert | HintUpdateDelete | HintDDLCreate | HintDDL

record DatabaseQueryAudit =
  aID :: nat
  aInstanceID :: nat
  aSchemaName :: string
  aOperatorID :: nat
  aOperatorName :: string
  aAuditAction :: string
  aReason :: string
  aConfirmRequired :: bool
  aConfirmed :: bool
  aSQLText :: string
  aSQLFingerprint :: string
  aSQLType :: string
  aRiskLevel :: string
  aStatus :: string
  aRowsReturned :: int
  aRowsAffectedLimit :: int
  aRowsAffected :: int
  aDurationMs :: int
  aRollbackSQL :: rollback_hint
  aErrorMessage :: "query_error option"
  aClientIP :: string

definition empty_audit :: DatabaseQueryAudit where
  "empty_audit = \<lparr>aID = 0, aInstanceID = 0, aSchemaName = [], aOperatorID = 0, aOperatorName = [],
     aAuditAction = [], aReason = [], aConfirmRequired = False, aConfirmed = False, aSQLText = [],
     aSQLFingerprint = [], aSQLType = [], aRiskLevel = [], aStatus = [], aRowsReturned = 0,
     aRowsAffectedLimit = 0, aRowsAffected = 0, aDurationMs = 0, aRollbackSQL = NoHint,
     aErrorMessage = None, aClientIP = []\<rparr>"

section \<open>Environment and state\<close>

record QueryOperator =
  oID :: nat
  oUsername :: string
  oClientIP :: string

record query_world =
  audits :: "DatabaseQueryAudit list"
  dbtrace :: "db_event list"

record console_env =
  envInstance :: "nat \<Rightarrow> DatabaseInstance option"
  envAuditRepo :: bool
  envCredential :: "(nat \<Rightarrow> ConnectionCredential option) option"
  envWritePolicy :: "(string + DatabaseWritePolicy option) option"
  envCreateErr :: "DatabaseQueryAudit list \<Rightarrow> string option"
  envUpdateErr :: "DatabaseQueryAudit list \<Rightarrow> string option"
  envDriver :: sql_driver
  envEngine :: "string \<Rightarrow> string \<Rightarrow> int \<Rightarrow> (query_error + DatabaseQueryResultVO) \<times> db_event list"
  envSha256 :: "string \<Rightarrow> string"
  envDuration :: int

text \<open>The audit repository of the data layer (\<open>Create\<close> inserts a row under a fresh primary key,
  \<open>Save\<close> writes the row of that key).\<close>

definition next_id :: "DatabaseQueryAudit list \<Rightarrow> nat" where
  "next_id rows = Suc (fold max (map aID rows) 0)"

definition insert_audit :: "DatabaseQueryAudit list \<Rightarrow> DatabaseQueryAudit \<Rightarrow> DatabaseQueryAudit list \<times> DatabaseQueryAudit" where
  "insert_audit rows a = (let row = a\<lparr>aID := next_id rows\<rparr> in (rows @ [row], row))"

definition save_audit :: "DatabaseQueryAudit list \<Rightarrow> DatabaseQueryAudit \<Rightarrow> DatabaseQueryAudit list" where
  "save_audit rows a = map (\<lambda>r. if aID r = aID a then a else r) rows"

definition auditCreate ::
  "console_env \<Rightarrow> query_world \<Rightarrow> DatabaseQueryAudit \<Rightarrow> (string + DatabaseQueryAudit) \<times> query_world" where
  "auditCreate env w a =
     (case envCreateErr env (audits w) of
        Some m \<Rightarrow> (Inl m, w)
      | None \<Rightarrow> (case insert_audit (audits w) a of (rows, row) \<Rightarrow> (Inr row, w\<lparr>audits := rows\<rparr>)))"

definition auditUpdate :: "console_env \<Rightarrow> query_world \<Rightarrow> DatabaseQueryAudit \<Rightarrow> string option \<times> query_world" where
  "auditUpdate env w a =
     (case envUpdateErr env (audits w) of
        Some m \<Rightarrow> (Some m, w)
      | None \<Rightarrow> (None, w\<lparr>audits := save_audit (audits w) a\<rparr>))"

section \<open>Helpers\<close>

definition sqlFingerprint :: "console_env \<Rightarrow> string \<Rightarrow> string" where
  "sqlFingerprint env sqlText = envSha256 env (ToLower (JoinWith '' '' (Fields (TrimSpace sqlText))))"

definition normalizeQueryLimit :: "int \<Rightarrow> bool \<Rightarrow> int" where
  "normalizeQueryLimit lim unlimited =
     (if unlimited then 0 else if lim \<le> 0 then 500 else if lim > 500 then 500 else lim)"

definition normalizeQueryExportLimit :: "int \<Rightarrow> int" where
  "normalizeQueryExportLimit lim = (if lim \<le> 0 then 1000 else if lim > 5000 then 5000 else lim)"

definition normalizeQueryTimeout :: "int \<Rightarrow> int" where
  "normalizeQueryTimeout timeoutSeconds =
     (if timeoutSeconds \<le> 0 then 30 else if timeoutSeconds > 30 then 30 else timeoutSeconds)"

definition resolveQuerySchemaName :: "DatabaseInstance \<Rightarrow> string \<Rightarrow> string" where
  "resolveQuerySchemaName item schemaName =
     (let schemaName = TrimSpace schemaName in
      if schemaName \<noteq> [] then schemaName
      else if normalizeDBType (iDBType item) \<in> set [DBTypePostgreSQL, DBTypeSQLServer, DBTypeOracle,
                DBTypeOpenGauss, DBTypeKingbase] then []
      else TrimSpace (iDefaultDatabase item))"

definition getEnabledQueryInstance :: "console_env \<Rightarrow> nat \<Rightarrow> query_error + DatabaseInstance" where
  "getEnabledQueryInstance env instanceID =
     (case envInstance env instanceID of
        None \<Rightarrow> Inl InstanceMissing
      | Some item \<Rightarrow>
          if TrimSpace (iStatus item) \<noteq> DatabaseInstanceStatusEnabled then Inl InstanceDisabled
          else if \<not> envAuditRepo env then Inl AuditUnconfigured
          else if envCredential env = None then Inl ResolverUnconfigured
          else Inr item)"

definition resolveWritePolicy :: "console_env \<Rightarrow> query_error + DatabaseWritePolicy" where
  "resolveWritePolicy env =
     (case envWritePolicy env of
        None \<Rightarrow> Inr defaultDatabaseWritePolicy
      | Some (Inl m) \<Rightarrow> Inl (PolicyFailed m)
      | Some (Inr None) \<Rightarrow> Inr defaultDatabaseWritePolicy
      | Some (Inr (Some resolved)) \<Rightarrow>
          Inr (resolved\<lparr>MaxAffectedRows := normalizeMaxAffectedRows (MaxAffectedRows resolved)\<rparr>))"

definition queryResultSafetyPolicyForAction :: "string \<Rightarrow> queryResultSafetyPolicy" where
  "queryResultSafetyPolicyForAction action =
     (if normalizeAuditAction action = DatabaseAuditActionQueryExport
      then \<lparr>maxCellRunes = queryExportCellMaxRunes, maxTotalBytes = queryExportTotalMaxBytes,
            rejectTotalBytes = True\<rparr>
      else \<lparr>maxCellRunes = queryPreviewCellMaxRunes, maxTotalBytes = queryPreviewTotalMaxBytes,
            rejectTotalBytes = False\<rparr>)"

text \<open>The JSON object of \<open>buildQueryExportAuditReason\<close>; \<open>encoding/json\<close> sorts the keys of a map.\<close>

definition json_bool :: "bool \<Rightarrow> string" where
  "json_bool b = (if b then ''true'' else ''false'')"

definition buildQueryExportAuditReason :: "DatabaseQueryResultVO \<Rightarrow> string" where
  "buildQueryExportAuditReason result =
     (let field = (\<lambda>k v. [DQ] @ k @ [DQ] @ '':'' @ v) in
      trimText (''{'' @ JoinWith '','' [
        field ''binaryPreviewed'' (json_bool (rBinaryPreviewed result)),
        field ''cellTruncated'' (json_bool (rCellTruncated result)),
        field ''columns'' (Itoa (int (length (rColumns result)))),
        field ''exportRows'' (Itoa (rRowsReturned result)),
        field ''masked'' (json_bool (rCellsMasked result)),
        field ''resultBytes'' (Itoa (rResultBytes result)),
        field ''truncated'' (json_bool (rTruncated result))] @ ''}'') 500)"

section \<open>Read-only queries\<close>

definition operator_audit :: "console_env \<Rightarrow> DatabaseInstance \<Rightarrow> string \<Rightarrow> QueryOperator \<Rightarrow> DatabaseQueryAudit" where
  "operator_audit env item schemaName operator =
     empty_audit\<lparr>aInstanceID := iID item, aSchemaName := schemaName, aOperatorID := oID operator,
       aOperatorName := trimText (oUsername operator) 100, aClientIP := trimText (oClientIP operator) 64\<rparr>"

definition recordDeniedQuery ::
  "console_env \<Rightarrow> query_world \<Rightarrow> DatabaseInstance \<Rightarrow> string \<Rightarrow> string \<Rightarrow> string \<Rightarrow> string \<Rightarrow> query_error
   \<Rightarrow> QueryOperator \<Rightarrow> query_world" where
  "recordDeniedQuery env w item schemaName auditAction sqlText sqlType message operator =
     (if \<not> envAuditRepo env then w
      else let sqlType = ToUpper (TrimSpace sqlType);
               sqlType = (if sqlType = [] then ''UNKNOWN'' else sqlType)
           in snd (auditCreate env w ((operator_audit env item schemaName operator)\<lparr>
                aAuditAction := normalizeAuditAction auditAction, aSQLText := trimText sqlText 20000,
                aSQLFingerprint := sqlFingerprint env sqlText, aSQLType := sqlType,
                aRiskLevel := DatabaseQueryRiskHigh, aStatus := DatabaseQueryStatusDenied,
                aErrorMessage := Some message\<rparr>)))"

definition finishQueryAudit ::
  "console_env \<Rightarrow> query_world \<Rightarrow> DatabaseQueryAudit \<Rightarrow> string \<Rightarrow> int \<Rightarrow> int \<Rightarrow> query_error option \<Rightarrow> query_world" where
  "finishQueryAudit env w audit status rowsReturned durationMs errorMessage =
     (if \<not> envAuditRepo env \<or> aID audit = 0 then w
      else snd (auditUpdate env w (audit\<lparr>aStatus := status, aRowsReturned := rowsReturned,
             aDurationMs := durationMs, aErrorMessage := errorMessage\<rparr>)))"

definition executeSQLQuery ::
  "console_env \<Rightarrow> DatabaseInstance \<Rightarrow> ConnectionCredential option \<Rightarrow> string \<Rightarrow> string \<Rightarrow> string \<Rightarrow> int \<Rightarrow> int
   \<Rightarrow> (query_error + DatabaseQueryResultVO) \<times> db_event list" where
  "executeSQLQuery env item credential schemaName sqlType sqlText lim timeoutSeconds =
     (let t = normalizeDBType (iDBType item) in
      if t \<in> set [DBTypeMySQL, DBTypeMariaDB, DBTypeTiDB, DBTypeOceanBase]
      then executeMySQLQuery (envDriver env) item credential schemaName sqlType sqlText lim timeoutSeconds
      else if t \<in> set [DBTypePostgreSQL, DBTypeOpenGauss, DBTypeKingbase]
      then executePostgreSQLQuery (envDriver env) item credential schemaName sqlType sqlText lim timeoutSeconds
      else if t \<in> set [DBTypeSQLServer, DBTypeClickHouse, DBTypeOracle, DBTypeRedis]
      then envEngine env t sqlText lim
      else (Inl (QueryLater (DBTypeText (iDBType item))), []))"

definition runAuditedQuery ::
  "console_env \<Rightarrow> query_world \<Rightarrow> DatabaseInstance \<Rightarrow> string \<Rightarrow> string \<Rightarrow> string \<Rightarrow> string \<Rightarrow> string \<Rightarrow> int \<Rightarrow> int
   \<Rightarrow> QueryOperator \<Rightarrow> (query_error + DatabaseQueryResultVO) \<times> query_world" where
  "runAuditedQuery env w item schemaName auditAction auditSQLText sqlType executedSQLText lim timeout operator =
     (let upper = ToUpper (TrimSpace sqlType);
          audit = (operator_audit env item schemaName operator)\<lparr>
                aAuditAction := normalizeAuditAction auditAction, aSQLText := trimText auditSQLText 20000,
                aSQLFingerprint := sqlFingerprint env auditSQLText,
                aSQLType := (if upper = [] then ''UNKNOWN'' else upper),
                aRiskLevel := DatabaseQueryRiskLow, aStatus := DatabaseQueryStatusPending\<rparr> in
      case auditCreate env w audit of
        (Inl m, w) \<Rightarrow> (Inl (AuditCreateFailed m), w)
      | (Inr audit, w) \<Rightarrow>
        (case the (envCredential env) (iCredentialID item) of
           None \<Rightarrow> (Inl CredentialMissing,
                    finishQueryAudit env w audit DatabaseQueryStatusFailed 0 0 (Some CredentialMissing))
         | Some credential \<Rightarrow>
           (case executeSQLQuery env item (Some credential) schemaName (aSQLType audit) executedSQLText lim timeout of
              (outcome, tr) \<Rightarrow>
              let w = w\<lparr>dbtrace := dbtrace w @ tr\<rparr>; duration = envDuration env in
              (case outcome of
                 Inl e \<Rightarrow> (Inl e, finishQueryAudit env w audit DatabaseQueryStatusFailed 0 duration (Some e))
               | Inr result \<Rightarrow>
                 (case sanitizeDatabaseQueryResult result (queryResultSafetyPolicyForAction (aAuditAction audit)) of
                    Inl limBytes \<Rightarrow> (Inl (ResultTooLarge limBytes),
                      finishQueryAudit env w audit DatabaseQueryStatusFailed 0 duration (Some (ResultTooLarge limBytes)))
                  | Inr result \<Rightarrow>
                      let audit = audit\<lparr>aStatus := DatabaseQueryStatusSuccess, aRowsReturned := rRowsReturned result,
                                        aDurationMs := duration\<rparr>;
                          audit = (if aAuditAction audit = DatabaseAuditActionQueryExport
                                   then audit\<lparr>aReason := buildQueryExportAuditReason result\<rparr> else audit) in
                      (case auditUpdate env w audit of
                         (Some m, w) \<Rightarrow> (Inl (AuditUpdateFailed m), w)
                       | (None, w) \<Rightarrow> (Inr (result\<lparr>rAuditID := aID audit, rInstanceID := iID item,
                            rSchemaName := schemaName, rDurationMs := duration\<rparr>), w)))))))"

record DatabaseQueryRequest =
  qSchemaName :: string
  qSQLText :: string
  qLimit :: int
  qTimeoutSeconds :: int
  qUnlimitedRows :: bool
  qUnlimitedRowsPermitted :: bool

text \<open>The analysis, the denial and the run, common to the read-only use cases.\<close>

definition ExecuteQuery ::
  "console_env \<Rightarrow> query_world \<Rightarrow> nat \<Rightarrow> DatabaseQueryRequest option \<Rightarrow> QueryOperator
   \<Rightarrow> (query_error + DatabaseQueryResultVO) \<times> query_world" where
  "ExecuteQuery env w instanceID reqPtr operator =
     (case reqPtr of
        None \<Rightarrow> (Inl RequestNil, w)
      | Some req \<Rightarrow>
        (case getEnabledQueryInstance env instanceID of
           Inl e \<Rightarrow> (Inl e, w)
         | Inr item \<Rightarrow>
             if qUnlimitedRows req \<and> \<not> qUnlimitedRowsPermitted req then (Inl UnlimitedNotPermitted, w)
             else if qUnlimitedRows req \<and> normalizeDBType (iDBType item) = DBTypeRedis
             then (Inl RedisUnlimited, w)
             else
               let lim = normalizeQueryLimit (qLimit req) (qUnlimitedRows req);
                   timeout = normalizeQueryTimeout (qTimeoutSeconds req);
                   schemaName = resolveQuerySchemaName item (qSchemaName req);
                   sqlText = TrimSpace (qSQLText req);
                   safety = (if normalizeDBType (iDBType item) = DBTypeRedis
                             then analyzeReadOnlyRedisCommand sqlText lim
                             else AnalyzeReadOnlySQLByDB (iDBType item) sqlText lim) in
               if \<not> Allowed safety
               then (Inl (SafetyDenied (Message safety)),
                     recordDeniedQuery env w item schemaName DatabaseAuditActionQuery sqlText
                       (SQLType safety) (SafetyDenied (Message safety)) operator)
               else runAuditedQuery env w item schemaName DatabaseAuditActionQuery sqlText
                      (SQLType safety) (SQLText safety) lim timeout operator))"

definition ExportQuery ::
  "console_env \<Rightarrow> query_world \<Rightarrow> nat \<Rightarrow> DatabaseQueryRequest option \<Rightarrow> QueryOperator
   \<Rightarrow> (query_error + DatabaseQueryResultVO) \<times> query_world" where
  "ExportQuery env w instanceID reqPtr operator =
     (case reqPtr of
        None \<Rightarrow> (Inl RequestNil, w)
      | Some req \<Rightarrow>
        (case getEnabledQueryInstance env instanceID of
           Inl e \<Rightarrow> (Inl e, w)
         | Inr item \<Rightarrow>
             let lim = normalizeQueryExportLimit (qLimit req);
                 timeout = normalizeQueryTimeout (qTimeoutSeconds req);
                 schemaName = resolveQuerySchemaName item (qSchemaName req);
                 sqlText = TrimSpace (qSQLText req);
                 safety = (if normalizeDBType (iDBType item) = DBTypeRedis
                           then analyzeReadOnlyRedisCommand sqlText (min lim 500)
                           else AnalyzeReadOnlySQLByDB (iDBType item) sqlText lim) in
             if \<not> Allowed safety
             then (Inl (SafetyDenied (Message safety)),
                   recordDeniedQuery env w item schemaName DatabaseAuditActionQueryExport sqlText
                     (SQLType safety) (SafetyDenied (Message safety)) operator)
             else runAuditedQuery env w item schemaName DatabaseAuditActionQueryExport sqlText
                    (SQLType safety) (SQLText safety) lim timeout operator))"

definition ExplainQuery ::
  "console_env \<Rightarrow> query_world \<Rightarrow> nat \<Rightarrow> DatabaseQueryRequest option \<Rightarrow> QueryOperator
   \<Rightarrow> (query_error + DatabaseQueryResultVO) \<times> query_world" where
  "ExplainQuery env w instanceID reqPtr operator =
     (case reqPtr of
        None \<Rightarrow> (Inl RequestNil, w)
      | Some req \<Rightarrow>
        (case getEnabledQueryInstance env instanceID of
           Inl e \<Rightarrow> (Inl e, w)
         | Inr item \<Rightarrow>
             let timeout = normalizeQueryTimeout (qTimeoutSeconds req);
                 schemaName = resolveQuerySchemaName item (qSchemaName req);
                 safety = AnalyzeExplainSQLByDB (iDBType item) (qSQLText req) in
             if \<not> Allowed safety
             then (Inl (SafetyDenied (Message safety)),
                   recordDeniedQuery env w item schemaName DatabaseAuditActionExplain (SQLText safety)
                     (SQLType safety) (SafetyDenied (Message safety)) operator)
             else runAuditedQuery env w item schemaName DatabaseAuditActionExplain (SQLText safety)
                    (SQLType safety) (SQLText safety) 500 timeout operator))"

definition ExplainWriteQuery ::
  "console_env \<Rightarrow> query_world \<Rightarrow> nat \<Rightarrow> DatabaseQueryRequest option \<Rightarrow> QueryOperator
   \<Rightarrow> (query_error + DatabaseQueryResultVO) \<times> query_world" where
  "ExplainWriteQuery env w instanceID reqPtr operator =
     (case reqPtr of
        None \<Rightarrow> (Inl RequestNil, w)
      | Some req \<Rightarrow>
        (case getEnabledQueryInstance env instanceID of
           Inl e \<Rightarrow> (Inl e, w)
         | Inr item \<Rightarrow>
           (case resolveWritePolicy env of
              Inl e \<Rightarrow> (Inl e, w)
            | Inr policy \<Rightarrow>
                let timeout = normalizeQueryTimeout (qTimeoutSeconds req);
                    schemaName = resolveQuerySchemaName item (qSchemaName req);
                    safety = AnalyzeWriteExplainSQLByDB (iDBType item) (qSQLText req) (Some policy);
                    auditSQLText = (if TrimSpace (SQLText safety) \<noteq> [] then SQLText safety
                                    else TrimSpace (qSQLText req)) in
                if \<not> Allowed safety
                then (Inl (SafetyDenied (Message safety)),
                      recordDeniedQuery env w item schemaName DatabaseAuditActionWriteExplain auditSQLText
                        (SQLType safety) (SafetyDenied (Message safety)) operator)
                else runAuditedQuery env w item schemaName DatabaseAuditActionWriteExplain auditSQLText
                       (SQLType safety) (SQLText safety) 500 timeout operator)))"

section \<open>Changes and DDL\<close>

record DatabaseWriteExecuteRequest =
  xSchemaName :: string
  xSQLText :: string
  xReason :: string
  xConfirmed :: bool
  xTimeoutSeconds :: int

datatype change_message = WroteRows int | WroteRowsOver int int | DDLExecuted

record DatabaseWriteExecuteVO =
  vAuditID :: nat
  vAuditAction :: string
  vInstanceID :: nat
  vInstanceName :: string
  vDBType :: string
  vSchemaName :: string
  vSQLType :: string
  vRiskLevel :: string
  vExecutedSQL :: string
  vRowsAffected :: int
  vRowsAffectedLimit :: int
  vReason :: string
  vConfirmRequired :: bool
  vConfirmed :: bool
  vRollbackSQL :: rollback_hint
  vDurationMs :: int
  vMessage :: change_message

definition buildWriteRollbackSQLHint :: "string \<Rightarrow> string \<Rightarrow> rollback_hint" where
  "buildWriteRollbackSQLHint dbType sqlType =
     (let t = ToUpper (TrimSpace sqlType) in
      if t = ''INSERT'' then HintInsert
      else if t = ''UPDATE'' \<or> t = ''DELETE''
      then (if normalizeDBType dbType \<in> set [DBTypeMySQL, DBTypeMariaDB, DBTypePostgreSQL]
            then HintUpdateDelete else NoHint)
      else NoHint)"

definition buildDDLRollbackSQLHint :: "string \<Rightarrow> string \<Rightarrow> rollback_hint" where
  "buildDDLRollbackSQLHint dbType sqlType =
     (if ToUpper (TrimSpace sqlType) = ''CREATE'' then HintDDLCreate else HintDDL)"

definition buildWriteExecuteMessage :: "int \<Rightarrow> int \<Rightarrow> change_message" where
  "buildWriteExecuteMessage rowsAffected lim =
     (let rowsAffected = normalizeRowsAffected rowsAffected in
      if lim > 0 \<and> rowsAffected > lim then WroteRowsOver rowsAffected lim else WroteRows rowsAffected)"

definition supportsDDLExecution :: "string \<Rightarrow> bool" where
  "supportsDDLExecution dbType =
     (normalizeDBType dbType \<in> set [DBTypeMySQL, DBTypeMariaDB, DBTypePostgreSQL])"

definition isSupportedDDLExecuteType :: "string \<Rightarrow> bool" where
  "isSupportedDDLExecuteType sqlType = EqualFold (TrimSpace sqlType) ''CREATE''"

definition recordDeniedWriteQuery ::
  "console_env \<Rightarrow> query_world \<Rightarrow> DatabaseInstance \<Rightarrow> string \<Rightarrow> string \<Rightarrow> string \<Rightarrow> bool \<Rightarrow> SQLWriteSafetyResult
   \<Rightarrow> query_error \<Rightarrow> QueryOperator \<Rightarrow> query_world" where
  "recordDeniedWriteQuery env w item schemaName sqlText reason confirmed safety message operator =
     (if \<not> envAuditRepo env then w
      else let sqlType = ToUpper (TrimSpace (wSQLType safety));
               sqlType = (if sqlType = [] then ''UNKNOWN'' else sqlType);
               riskLevel = TrimSpace (wRiskLevel safety);
               riskLevel = (if riskLevel = [] then DatabaseQueryRiskHigh else riskLevel)
           in snd (auditCreate env w ((operator_audit env item schemaName operator)\<lparr>
                aAuditAction := DatabaseAuditActionChangeExecute, aReason := trimText reason 500,
                aConfirmRequired := wConfirmRequired safety, aConfirmed := confirmed,
                aSQLText := trimText sqlText 20000, aSQLFingerprint := sqlFingerprint env sqlText,
                aSQLType := sqlType, aRiskLevel := riskLevel, aStatus := DatabaseQueryStatusDenied,
                aRowsAffectedLimit := wRowsAffectedLimit safety, aErrorMessage := Some message\<rparr>)))"

definition recordDeniedDDLQuery ::
  "console_env \<Rightarrow> query_world \<Rightarrow> DatabaseInstance \<Rightarrow> string \<Rightarrow> string \<Rightarrow> string \<Rightarrow> bool \<Rightarrow> SQLDDLSafetyResult
   \<Rightarrow> query_error \<Rightarrow> QueryOperator \<Rightarrow> query_world" where
  "recordDeniedDDLQuery env w item schemaName sqlText reason confirmed safety message operator =
     (if \<not> envAuditRepo env then w
      else let sqlType = ToUpper (TrimSpace (dSQLType safety));
               sqlType = (if sqlType = [] then ''UNKNOWN'' else sqlType);
               riskLevel = TrimSpace (dRiskLevel safety);
               riskLevel = (if riskLevel = [] then DatabaseQueryRiskHigh else riskLevel)
           in snd (auditCreate env w ((operator_audit env item schemaName operator)\<lparr>
                aAuditAction := DatabaseAuditActionDDLExecute, aReason := trimText reason 500,
                aConfirmRequired := dConfirmRequired safety, aConfirmed := confirmed,
                aSQLText := trimText sqlText 20000, aSQLFingerprint := sqlFingerprint env sqlText,
                aSQLType := sqlType, aRiskLevel := riskLevel, aStatus := DatabaseQueryStatusDenied,
                aErrorMessage := Some message\<rparr>)))"

definition finishChangeAudit ::
  "console_env \<Rightarrow> query_world \<Rightarrow> DatabaseQueryAudit \<Rightarrow> string \<Rightarrow> int \<Rightarrow> int \<Rightarrow> rollback_hint \<Rightarrow> query_error option
   \<Rightarrow> query_world" where
  "finishChangeAudit env w audit status rowsAffected durationMs rollbackSQL errorMessage =
     (if \<not> envAuditRepo env \<or> aID audit = 0 then w
      else snd (auditUpdate env w (audit\<lparr>aStatus := status, aRowsAffected := normalizeRowsAffected rowsAffected,
             aDurationMs := durationMs, aRollbackSQL := rollbackSQL, aErrorMessage := errorMessage\<rparr>)))"

text \<open>The checks between the analysis and the audit row: the error of the first that fails.\<close>

definition writeChecks :: "DatabaseInstance \<Rightarrow> SQLWriteSafetyResult \<Rightarrow> string \<Rightarrow> bool \<Rightarrow> query_error option" where
  "writeChecks item safety reason confirmed =
     (if \<not> wAllowed safety then Some (SafetyDenied (wMessage safety))
      else if \<not> supportsWriteExecution (iDBType item) then Some (WriteExecutionLater (DBTypeText (iDBType item)))
      else if \<not> isSupportedWriteExecuteType (wSQLType safety) then Some WriteTypeUnsupported
      else if wReasonRequired safety \<and> reason = [] then Some WriteReasonMissing
      else if wConfirmRequired safety \<and> \<not> confirmed then Some WriteNotConfirmed
      else None)"

definition ddlChecks :: "DatabaseInstance \<Rightarrow> SQLDDLSafetyResult \<Rightarrow> string \<Rightarrow> bool \<Rightarrow> query_error option" where
  "ddlChecks item safety reason confirmed =
     (if \<not> dAllowed safety then Some (SafetyDenied (dMessage safety))
      else if \<not> supportsDDLExecution (iDBType item) then Some (DDLExecutionLater (DBTypeText (iDBType item)))
      else if \<not> isSupportedDDLExecuteType (dSQLType safety) then Some DDLTypeUnsupported
      else if dReasonRequired safety \<and> reason = [] then Some DDLReasonMissing
      else if dConfirmRequired safety \<and> \<not> confirmed then Some DDLNotConfirmed
      else None)"

definition ExecuteWriteQuery ::
  "console_env \<Rightarrow> query_world \<Rightarrow> nat \<Rightarrow> DatabaseWriteExecuteRequest option \<Rightarrow> QueryOperator
   \<Rightarrow> (query_error + DatabaseWriteExecuteVO) \<times> query_world" where
  "ExecuteWriteQuery env w instanceID reqPtr operator =
     (case reqPtr of
        None \<Rightarrow> (Inl RequestNil, w)
      | Some req \<Rightarrow>
      (case getEnabledQueryInstance env instanceID of
        Inl e \<Rightarrow> (Inl e, w)
      | Inr item \<Rightarrow>
      (case resolveWritePolicy env of
        Inl e \<Rightarrow> (Inl e, w)
      | Inr policy \<Rightarrow>
      let timeout = normalizeQueryTimeout (xTimeoutSeconds req);
          schemaName = resolveQuerySchemaName item (xSchemaName req);
          sqlText = TrimSpace (xSQLText req);
          reason = TrimSpace (xReason req);
          safety = AnalyzeWriteSQLByDB (iDBType item) sqlText (Some policy) in
      (case writeChecks item safety reason (xConfirmed req) of
        Some e \<Rightarrow> (Inl e, recordDeniedWriteQuery env w item schemaName sqlText reason (xConfirmed req)
                            safety e operator)
      | None \<Rightarrow>
      let audit = (operator_audit env item schemaName operator)\<lparr>
            aAuditAction := DatabaseAuditActionChangeExecute, aReason := trimText reason 500,
            aConfirmRequired := wConfirmRequired safety, aConfirmed := xConfirmed req,
            aSQLText := trimText sqlText 20000, aSQLFingerprint := sqlFingerprint env sqlText,
            aSQLType := wSQLType safety, aRiskLevel := wRiskLevel safety,
            aStatus := DatabaseQueryStatusPending, aRowsAffectedLimit := wRowsAffectedLimit safety\<rparr> in
      (case auditCreate env w audit of
        (Inl m, w) \<Rightarrow> (Inl (AuditCreateFailed m), w)
      | (Inr audit, w) \<Rightarrow>
      (case the (envCredential env) (iCredentialID item) of
        None \<Rightarrow> (Inl CredentialMissing,
                 finishChangeAudit env w audit DatabaseQueryStatusFailed 0 0 NoHint (Some CredentialMissing))
      | Some credential \<Rightarrow>
      (case executeSQLChange (envDriver env) item (Some credential) schemaName sqlText timeout
              (wRowsAffectedLimit safety) of
        ((rowsAffected, err), tr) \<Rightarrow>
      let w = w\<lparr>dbtrace := dbtrace w @ tr\<rparr>; duration = envDuration env in
      (case err of
        Some e \<Rightarrow> (Inl e, finishChangeAudit env w audit DatabaseQueryStatusFailed
                            (normalizeRowsAffected rowsAffected) duration NoHint (Some e))
      | None \<Rightarrow>
      let rollbackSQL = buildWriteRollbackSQLHint (iDBType item) (wSQLType safety);
          message = buildWriteExecuteMessage rowsAffected (wRowsAffectedLimit safety) in
      (Inr \<lparr>vAuditID = aID audit, vAuditAction = DatabaseAuditActionChangeExecute, vInstanceID = iID item,
            vInstanceName = iName item, vDBType = iDBType item, vSchemaName = schemaName,
            vSQLType = wSQLType safety, vRiskLevel = wRiskLevel safety, vExecutedSQL = sqlText,
            vRowsAffected = rowsAffected, vRowsAffectedLimit = wRowsAffectedLimit safety,
            vReason = trimText reason 500, vConfirmRequired = wConfirmRequired safety,
            vConfirmed = xConfirmed req, vRollbackSQL = rollbackSQL, vDurationMs = duration,
            vMessage = message\<rparr>,
       finishChangeAudit env w audit DatabaseQueryStatusSuccess rowsAffected duration rollbackSQL None)))))))))"

definition ExecuteDDLQuery ::
  "console_env \<Rightarrow> query_world \<Rightarrow> nat \<Rightarrow> DatabaseWriteExecuteRequest option \<Rightarrow> QueryOperator
   \<Rightarrow> (query_error + DatabaseWriteExecuteVO) \<times> query_world" where
  "ExecuteDDLQuery env w instanceID reqPtr operator =
     (case reqPtr of
        None \<Rightarrow> (Inl RequestNil, w)
      | Some req \<Rightarrow>
      (case getEnabledQueryInstance env instanceID of
        Inl e \<Rightarrow> (Inl e, w)
      | Inr item \<Rightarrow>
      (case resolveWritePolicy env of
        Inl e \<Rightarrow> (Inl e, w)
      | Inr policy \<Rightarrow>
      let timeout = normalizeQueryTimeout (xTimeoutSeconds req);
          schemaName = resolveQuerySchemaName item (xSchemaName req);
          sqlText = TrimSpace (xSQLText req);
          reason = TrimSpace (xReason req);
          safety = AnalyzeDDLSQLByDB (iDBType item) sqlText (Some policy) in
      (case ddlChecks item safety reason (xConfirmed req) of
        Some e \<Rightarrow> (Inl e, recordDeniedDDLQuery env w item schemaName sqlText reason (xConfirmed req)
                            safety e operator)
      | None \<Rightarrow>
      let audit = (operator_audit env item schemaName operator)\<lparr>
            aAuditAction := DatabaseAuditActionDDLExecute, aReason := trimText reason 500,
            aConfirmRequired := dConfirmRequired safety, aConfirmed := xConfirmed req,
            aSQLText := trimText sqlText 20000, aSQLFingerprint := sqlFingerprint env sqlText,
            aSQLType := dSQLType safety, aRiskLevel := dRiskLevel safety,
            aStatus := DatabaseQueryStatusPending\<rparr> in
      (case auditCreate env w audit of
        (Inl m, w) \<Rightarrow> (Inl (AuditCreateFailed m), w)
      | (Inr audit, w) \<Rightarrow>
      (case the (envCredential env) (iCredentialID item) of
        None \<Rightarrow> (Inl CredentialMissing,
                 finishChangeAudit env w audit DatabaseQueryStatusFailed 0 0 NoHint (Some CredentialMissing))
      | Some credential \<Rightarrow>
      (case executeSQLDDL (envDriver env) item (Some credential) schemaName (dSQLText safety) timeout of
        ((rowsAffected, err), tr) \<Rightarrow>
      let w = w\<lparr>dbtrace := dbtrace w @ tr\<rparr>; duration = envDuration env in
      (case err of
        Some e \<Rightarrow> (Inl e, finishChangeAudit env w audit DatabaseQueryStatusFailed
                            (normalizeRowsAffected rowsAffected) duration NoHint (Some e))
      | None \<Rightarrow>
      let rollbackSQL = buildDDLRollbackSQLHint (iDBType item) (dSQLType safety) in
      (Inr \<lparr>vAuditID = aID audit, vAuditAction = DatabaseAuditActionDDLExecute, vInstanceID = iID item,
            vInstanceName = iName item, vDBType = iDBType item, vSchemaName = schemaName,
            vSQLType = dSQLType safety, vRiskLevel = dRiskLevel safety, vExecutedSQL = dSQLText safety,
            vRowsAffected = rowsAffected, vRowsAffectedLimit = 0, vReason = trimText reason 500,
            vConfirmRequired = dConfirmRequired safety, vConfirmed = xConfirmed req,
            vRollbackSQL = rollbackSQL, vDurationMs = duration, vMessage = DDLExecuted\<rparr>,
       finishChangeAudit env w audit DatabaseQueryStatusSuccess rowsAffected duration rollbackSQL None)))))))))"

text \<open>The validation endpoints: what they show is the resolved schema and the analyser's result.\<close>

definition ValidateWriteQuery ::
  "console_env \<Rightarrow> nat \<Rightarrow> (string \<times> string) option
   \<Rightarrow> query_error + DatabaseInstance \<times> string \<times> SQLWriteSafetyResult" where
  "ValidateWriteQuery env instanceID reqPtr =
     (case reqPtr of
        None \<Rightarrow> Inl RequestNil
      | Some (schema, sqlText) \<Rightarrow>
        (case envInstance env instanceID of
           None \<Rightarrow> Inl InstanceMissing
         | Some item \<Rightarrow>
             if TrimSpace (iStatus item) \<noteq> DatabaseInstanceStatusEnabled then Inl InstanceDisabled
             else map_sum id (\<lambda>policy. (item, resolveQuerySchemaName item schema,
                    AnalyzeWriteSQLByDB (iDBType item) sqlText (Some policy))) (resolveWritePolicy env)))"

definition ValidateDDLQuery ::
  "console_env \<Rightarrow> nat \<Rightarrow> (string \<times> string) option
   \<Rightarrow> query_error + DatabaseInstance \<times> string \<times> SQLDDLSafetyResult" where
  "ValidateDDLQuery env instanceID reqPtr =
     (case reqPtr of
        None \<Rightarrow> Inl RequestNil
      | Some (schema, sqlText) \<Rightarrow>
        (case envInstance env instanceID of
           None \<Rightarrow> Inl InstanceMissing
         | Some item \<Rightarrow>
             if TrimSpace (iStatus item) \<noteq> DatabaseInstanceStatusEnabled then Inl InstanceDisabled
             else map_sum id (\<lambda>policy. (item, resolveQuerySchemaName item schema,
                    AnalyzeDDLSQLByDB (iDBType item) sqlText (Some policy))) (resolveWritePolicy env)))"

end
