(* ===== verification/Query_Audit.thy ===== *)
theory Query_Audit
  imports Query_Console
begin

text \<open>
  The audit contract of the query console. The locale \<open>audit_log\<close> is what a use case relies on when
  it creates a row and later saves it; its lemmas say that the log only grows and that the saved
  row is the created one. It is interpreted on the audit table of the model. The properties say
  that no use case changes an earlier row, that a database is only touched after a row was
  written and the checks passed, that a finished request leaves one row that tells its outcome, and
  that the read-only use cases leave read-only traces.
\<close>

section \<open>The interface of the audit log\<close>

locale audit_log =
  fixes create :: "'row list \<Rightarrow> 'row \<Rightarrow> 'row list \<times> 'row"
    and save :: "'row list \<Rightarrow> 'row \<Rightarrow> 'row list"
    and key :: "'row \<Rightarrow> nat"
  assumes create_appends: "create rows a = (rows', row) \<Longrightarrow> rows' = rows @ [row]"
    and create_fresh: "create rows a = (rows', row) \<Longrightarrow> key row \<noteq> 0 \<and> key row \<notin> key ` set rows"
    and save_row: "save rows a = map (\<lambda>r. if key r = key a then a else r) rows"
begin

lemma save_created:
  assumes "create rows a = (rows', row)" "key row' = key row"
  shows "save rows' row' = rows @ [row']"
proof -
  have "map (\<lambda>r. if key r = key row' then row' else r) rows = rows"
    by (rule map_idI) (use create_fresh [OF assms(1)] assms(2) in \<open>auto simp: image_iff\<close>)
  with create_appends [OF assms(1)] assms(2) show ?thesis by (simp add: save_row)
qed

lemma save_keeps_keys: "map key (save rows a) = map key rows"
  by (simp add: save_row)

lemma create_distinct:
  "create rows a = (rows', row) \<Longrightarrow> distinct (map key rows) \<Longrightarrow> distinct (map key rows')"
  using create_appends create_fresh by fastforce

end

lemma fold_max_ge: "(x::nat) \<in> set xs \<or> x \<le> m \<Longrightarrow> x \<le> fold max xs m"
proof -
  assume a: "x \<in> set xs \<or> x \<le> m"
  have "x \<le> Max (set (m # xs))" by (cases "x \<in> set xs") (use a in \<open>auto intro: Max_ge order_trans [OF _ Max_ge]\<close>)
  then show ?thesis unfolding Max.set_eq_fold .
qed

lemma next_id_fresh: "next_id rows \<notin> aID ` set rows"
proof
  assume "next_id rows \<in> aID ` set rows"
  then have "next_id rows \<le> fold max (map aID rows) 0" by (intro fold_max_ge) auto
  then show False by (simp add: next_id_def)
qed

interpretation query_log: audit_log insert_audit save_audit aID
proof
  fix rows a rows' row
  assume "insert_audit rows a = (rows', row)"
  then show "rows' = rows @ [row]" "aID row \<noteq> 0 \<and> aID row \<notin> aID ` set rows"
    using next_id_fresh [of rows] by (auto simp: insert_audit_def Let_def next_id_def)
next
  fix rows a
  show "save_audit rows a = map (\<lambda>r. if aID r = aID a then a else r) rows" by (simp add: save_audit_def)
qed

section \<open>Creating and finishing a row\<close>

lemma auditCreate_cases:
  obtains m where "auditCreate env w a = (Inl m, w)" "envCreateErr env (audits w) = Some m"
  | row where "auditCreate env w a = (Inr row, w\<lparr>audits := audits w @ [row]\<rparr>)"
      "insert_audit (audits w) a = (audits w @ [row], row)" "aID row \<noteq> 0"
      "row = a\<lparr>aID := aID row\<rparr>" "envCreateErr env (audits w) = None"
proof (cases "envCreateErr env (audits w)")
  case None
  obtain rows row where i: "insert_audit (audits w) a = (rows, row)" by force
  with None query_log.create_appends [OF i] query_log.create_fresh [OF i] that(2) [of row] show thesis
    by (auto simp: auditCreate_def insert_audit_def Let_def)
qed (use that in \<open>auto simp: auditCreate_def\<close>)

lemma auditUpdate_created:
  assumes "insert_audit rows a = (rows @ [row], row)" "aID row' = aID row" "audits w = rows @ [row]"
  shows "auditUpdate env w row' =
    (case envUpdateErr env (rows @ [row]) of Some m \<Rightarrow> (Some m, w)
     | None \<Rightarrow> (None, w\<lparr>audits := rows @ [row']\<rparr>))"
  using query_log.save_created [OF assms(1,2)] assms(3)
  by (simp add: auditUpdate_def split: option.split)

lemma auditUpdate_trace [simp]: "dbtrace (snd (auditUpdate env w a)) = dbtrace w"
  by (simp add: auditUpdate_def split: option.split)

lemma auditCreate_trace [simp]: "dbtrace (snd (auditCreate env w a)) = dbtrace w"
  by (simp add: auditCreate_def split: option.split prod.split)

text \<open>How far a use case may have changed the state: at most one row more, every earlier row as it was,
  and database calls only after a row was written.\<close>

definition grows :: "query_world \<Rightarrow> query_world \<Rightarrow> bool" where
  "grows w w' \<longleftrightarrow> (\<exists>rows tr. audits w' = audits w @ rows \<and> length rows \<le> 1
     \<and> dbtrace w' = dbtrace w @ tr \<and> (tr \<noteq> [] \<longrightarrow> rows \<noteq> []))"

lemma grows_refl [simp]: "grows w w"
  by (simp add: grows_def)

lemma grows_create: "grows w (snd (auditCreate env w a))"
  by (rule auditCreate_cases [of env w a]) (auto simp: grows_def)

lemma grows_row: "audits w' = audits w @ [row] \<Longrightarrow> dbtrace w' = dbtrace w @ tr \<Longrightarrow> grows w w'"
  by (auto simp: grows_def)

lemma grows_update:
  assumes "insert_audit (audits w) a = (audits w @ [row], row)" "aID row' = aID row"
    "audits w1 = audits w @ [row]" "dbtrace w1 = dbtrace w @ tr"
  shows "grows w (snd (auditUpdate env w1 row'))"
proof -
  have "\<exists>r. audits (snd (auditUpdate env w1 row')) = audits w @ [r]"
    using auditUpdate_created [OF assms(1-3), of env] assms(3) by (simp split: option.split)
  then show ?thesis using assms(4) by (auto simp: grows_def)
qed

section \<open>The read-only use cases\<close>

lemma grows_denied: "grows w (recordDeniedQuery env w item schema act s ty m op)"
  by (simp add: recordDeniedQuery_def grows_create Let_def)

text \<open>Finishing a created row: the row is replaced when the update succeeds and stays when it fails.\<close>

lemma finishQueryAudit_created:
  assumes "insert_audit rows a = (rows @ [row], row)" "aID row \<noteq> 0" "envAuditRepo env" "audits w = rows @ [row]"
  shows "finishQueryAudit env w row st n d e = w\<lparr>audits := rows @ [
    if envUpdateErr env (rows @ [row]) = None
    then row\<lparr>aStatus := st, aRowsReturned := n, aDurationMs := d, aErrorMessage := e\<rparr> else row]\<rparr>"
  using auditUpdate_created [OF assms(1) _ assms(4), of
      "row\<lparr>aStatus := st, aRowsReturned := n, aDurationMs := d, aErrorMessage := e\<rparr>" env] assms(2-4)
  by (auto simp: finishQueryAudit_def split: option.split)

lemma finishChangeAudit_created:
  assumes "insert_audit rows a = (rows @ [row], row)" "aID row \<noteq> 0" "envAuditRepo env" "audits w = rows @ [row]"
  shows "finishChangeAudit env w row st n d h e = w\<lparr>audits := rows @ [
    if envUpdateErr env (rows @ [row]) = None
    then row\<lparr>aStatus := st, aRowsAffected := normalizeRowsAffected n, aDurationMs := d, aRollbackSQL := h,
             aErrorMessage := e\<rparr> else row]\<rparr>"
  using auditUpdate_created [OF assms(1) _ assms(4), of
      "row\<lparr>aStatus := st, aRowsAffected := normalizeRowsAffected n, aDurationMs := d, aRollbackSQL := h,
             aErrorMessage := e\<rparr>" env] assms(2-4)
  by (auto simp: finishChangeAudit_def split: option.split)

text \<open>The outcome a row tells.\<close>

definition tells :: "query_error + 'a \<Rightarrow> DatabaseQueryAudit \<Rightarrow> bool" where
  "tells outcome row = (case outcome of
     Inr _ \<Rightarrow> aStatus row = DatabaseQueryStatusSuccess \<and> aErrorMessage row = None
   | Inl e \<Rightarrow> aStatus row \<in> {DatabaseQueryStatusDenied, DatabaseQueryStatusFailed} \<and> aErrorMessage row = Some e)"

text \<open>A run of an audited query: the state it leaves, the trace it adds and the row it writes.\<close>

definition run_shape ::
  "console_env \<Rightarrow> query_world \<Rightarrow> (query_error + 'a) \<times> query_world \<Rightarrow> db_event list set
   \<Rightarrow> (DatabaseQueryAudit \<Rightarrow> bool) \<Rightarrow> bool" where
  "run_shape env w r traces P \<longleftrightarrow>
     (\<exists>row tr. snd r = w\<lparr>audits := audits w @ [row], dbtrace := dbtrace w @ tr\<rparr>
        \<and> (tr = [] \<or> tr \<in> traces) \<and> P row
        \<and> ((\<forall>rows. envUpdateErr env rows = None) \<longrightarrow> tells (fst r) row))"

definition failed_create :: "console_env \<Rightarrow> query_world \<Rightarrow> (query_error + 'a) \<times> query_world \<Rightarrow> bool" where
  "failed_create env w r \<longleftrightarrow>
     (\<exists>m. envCreateErr env (audits w) = Some m \<and> snd r = w \<and> (\<exists>e. fst r = Inl e))"

lemma run_shapeI:
  assumes "tr \<in> traces" "audits (snd r) = audits w @ [row]" "dbtrace (snd r) = dbtrace w @ tr" "P row"
    "(\<forall>rows. envUpdateErr env rows = None) \<Longrightarrow> tells (fst r) row"
  shows "run_shape env w r traces P"
proof -
  have "snd r = w\<lparr>audits := audits w @ [row], dbtrace := dbtrace w @ tr\<rparr>"
    by (rule query_world.equality) (simp_all add: assms(2,3))
  with assms(1,4,5) show ?thesis unfolding run_shape_def by blast
qed

lemma run_shapeI0:
  assumes "snd r = w\<lparr>audits := audits w @ [row]\<rparr>" "P row"
    "(\<forall>rows. envUpdateErr env rows = None) \<Longrightarrow> tells (fst r) row"
  shows "run_shape env w r traces P"
  using assms unfolding run_shape_def by (intro exI [of _ row] exI [of _ "[]"]) simp

lemma run_shape_grows: "run_shape env w r traces P \<or> failed_create env w r \<Longrightarrow> grows w (snd r)"
  by (auto simp: run_shape_def failed_create_def intro: grows_row)

lemma recordDeniedQuery_shape:
  assumes "envAuditRepo env"
  shows "run_shape env w (Inl e, recordDeniedQuery env w item schema act s ty e op) traces
      (\<lambda>row. aSQLText row = trimText s 20000 \<and> aStatus row = DatabaseQueryStatusDenied)
    \<or> failed_create env w (Inl e, recordDeniedQuery env w item schema act s ty e op)"
proof -
  let ?t = "ToUpper (TrimSpace ty)"
  let ?a = "(operator_audit env item schema op)\<lparr>aAuditAction := normalizeAuditAction act,
     aSQLText := trimText s 20000, aSQLFingerprint := sqlFingerprint env s,
     aSQLType := (if ?t = [] then ''UNKNOWN'' else ?t), aRiskLevel := DatabaseQueryRiskHigh,
     aStatus := DatabaseQueryStatusDenied, aErrorMessage := Some e\<rparr>"
  have eq: "recordDeniedQuery env w item schema act s ty e op = snd (auditCreate env w ?a)"
    using assms by (simp add: recordDeniedQuery_def Let_def)
  show ?thesis
  proof (rule auditCreate_cases [of env w ?a])
    fix m assume "auditCreate env w ?a = (Inl m, w)" "envCreateErr env (audits w) = Some m"
    then show ?thesis unfolding eq by (auto simp: failed_create_def)
  next
    fix row
    assume c: "auditCreate env w ?a = (Inr row, w\<lparr>audits := audits w @ [row]\<rparr>)"
      and r: "row = ?a\<lparr>aID := aID row\<rparr>"
    have "aSQLText row = trimText s 20000" "aStatus row = DatabaseQueryStatusDenied" "aErrorMessage row = Some e"
      by (subst r, simp)+
    with c have "run_shape env w (Inl e, recordDeniedQuery env w item schema act s ty e op) traces
      (\<lambda>row. aSQLText row = trimText s 20000 \<and> aStatus row = DatabaseQueryStatusDenied)"
      unfolding eq run_shape_def by (intro exI [of _ row] exI [of _ "[]"]) (simp add: tells_def)
    then show ?thesis ..
  qed
qed

lemma runAuditedQuery_shape:
  assumes "envAuditRepo env"
  shows "run_shape env w (runAuditedQuery env w item schema act s ty ex lim t op)
      (range (\<lambda>(cred, k). snd (executeSQLQuery env item cred schema k ex lim t)))
      (\<lambda>row. aSQLText row = trimText s 20000 \<and> aStatus row \<noteq> DatabaseQueryStatusDenied)
    \<or> failed_create env w (runAuditedQuery env w item schema act s ty ex lim t op)"
proof -
  let ?k = "ToUpper (TrimSpace ty)" and ?run = "runAuditedQuery env w item schema act s ty ex lim t op"
  let ?a = "(operator_audit env item schema op)\<lparr>
       aAuditAction := normalizeAuditAction act, aSQLText := trimText s 20000,
       aSQLFingerprint := sqlFingerprint env s, aSQLType := (if ?k = [] then ''UNKNOWN'' else ?k),
       aRiskLevel := DatabaseQueryRiskLow, aStatus := DatabaseQueryStatusPending\<rparr>"
  let ?traces = "range (\<lambda>(cred, k). snd (executeSQLQuery env item cred schema k ex lim t))"
  let ?P = "\<lambda>row. aSQLText row = trimText s 20000 \<and> aStatus row \<noteq> DatabaseQueryStatusDenied"
  show ?thesis
  proof (rule auditCreate_cases [of env w ?a])
    fix m assume "auditCreate env w ?a = (Inl m, w)" "envCreateErr env (audits w) = Some m"
    then have "failed_create env w ?run"
      by (simp add: runAuditedQuery_def Let_def failed_create_def)
    then show ?thesis ..
  next
    fix row
    assume c: "auditCreate env w ?a = (Inr row, w\<lparr>audits := audits w @ [row]\<rparr>)"
      and i: "insert_audit (audits w) ?a = (audits w @ [row], row)"
      and nz: "aID row \<noteq> 0" and r: "row = ?a\<lparr>aID := aID row\<rparr>"
    have row: "aSQLText row = trimText s 20000" "aStatus row = DatabaseQueryStatusPending"
      "aErrorMessage row = None"
      by (subst r, simp add: operator_audit_def empty_audit_def)+
    note fin = finishQueryAudit_created [OF i nz assms]
    show ?thesis
    proof (cases "the (envCredential env) (iCredentialID item)")
      case None
      have "?run = (Inl CredentialMissing, finishQueryAudit env (w\<lparr>audits := audits w @ [row]\<rparr>) row
              DatabaseQueryStatusFailed 0 0 (Some CredentialMissing))"
        by (simp add: runAuditedQuery_def Let_def c None)
      then have "run_shape env w ?run ?traces ?P"
        by (intro run_shapeI0) (auto simp: fin tells_def row split: if_splits)
      then show ?thesis ..
    next
      case (Some cred)
      obtain outcome tr where ex: "executeSQLQuery env item (Some cred) schema (aSQLType row) ex lim t = (outcome, tr)"
        by force
      then have tr: "tr \<in> ?traces" by (metis (mono_tags) case_prod_conv rangeI snd_conv)
      let ?w1 = "w\<lparr>audits := audits w @ [row], dbtrace := dbtrace w @ tr\<rparr>"
      have run: "?run = (case outcome of
          Inl e \<Rightarrow> (Inl e, finishQueryAudit env ?w1 row DatabaseQueryStatusFailed 0 (envDuration env) (Some e))
        | Inr result \<Rightarrow>
          (case sanitizeDatabaseQueryResult result (queryResultSafetyPolicyForAction (aAuditAction row)) of
             Inl b \<Rightarrow> (Inl (ResultTooLarge b),
               finishQueryAudit env ?w1 row DatabaseQueryStatusFailed 0 (envDuration env) (Some (ResultTooLarge b)))
           | Inr result \<Rightarrow>
               let row' = row\<lparr>aStatus := DatabaseQueryStatusSuccess, aRowsReturned := rRowsReturned result,
                              aDurationMs := envDuration env\<rparr>;
                   row' = (if aAuditAction row' = DatabaseAuditActionQueryExport
                           then row'\<lparr>aReason := buildQueryExportAuditReason result\<rparr> else row') in
               (case auditUpdate env ?w1 row' of
                  (Some m, w) \<Rightarrow> (Inl (AuditUpdateFailed m), w)
                | (None, w) \<Rightarrow> (Inr (result\<lparr>rAuditID := aID row', rInstanceID := iID item,
                     rSchemaName := schema, rDurationMs := envDuration env\<rparr>), w))))"
        unfolding runAuditedQuery_def Let_def
        by (simp add: c Some ex cong: sum.case_cong option.case_cong)
      have fails: "run_shape env w (Inl e, finishQueryAudit env ?w1 row DatabaseQueryStatusFailed n d (Some e)) ?traces ?P"
        for e n d
        by (rule run_shapeI [OF tr, where row = "if envUpdateErr env (audits w @ [row]) = None
            then row\<lparr>aStatus := DatabaseQueryStatusFailed, aRowsReturned := n, aDurationMs := d,
                     aErrorMessage := Some e\<rparr> else row"])
          (simp_all add: fin tells_def row)
      have "run_shape env w ?run ?traces ?P"
      proof (cases outcome)
        case (Inl e)
        then show ?thesis unfolding run by (simp add: fails)
      next
        case (Inr result)
        show ?thesis
        proof (cases "sanitizeDatabaseQueryResult result (queryResultSafetyPolicyForAction (aAuditAction row))")
          case (Inl b)
          then show ?thesis unfolding run Inr by (simp add: fails)
        next
          fix res assume san: "sanitizeDatabaseQueryResult result (queryResultSafetyPolicyForAction (aAuditAction row)) = Inr res"
          let ?row1 = "row\<lparr>aStatus := DatabaseQueryStatusSuccess, aRowsReturned := rRowsReturned res,
                aDurationMs := envDuration env\<rparr>"
          let ?row = "if aAuditAction ?row1 = DatabaseAuditActionQueryExport
                then ?row1\<lparr>aReason := buildQueryExportAuditReason res\<rparr> else ?row1"
          have P: "aID ?row = aID row" "?P ?row" "aStatus ?row = DatabaseQueryStatusSuccess" "aErrorMessage ?row = None"
            using row by simp_all
          have up: "auditUpdate env ?w1 ?row = (case envUpdateErr env (audits w @ [row]) of
              Some m \<Rightarrow> (Some m, ?w1) | None \<Rightarrow> (None, ?w1\<lparr>audits := audits w @ [?row]\<rparr>))"
            by (rule auditUpdate_created [OF i P(1)]) simp
          show ?thesis
          proof (cases "envUpdateErr env (audits w @ [row])")
            case None
            show ?thesis
              unfolding run Inr Let_def sum.case san up None
              by (simp add: run_shapeI [OF tr, where row = ?row] tells_def P(2-4) row)
          next
            case (Some m)
            then have "run_shape env w (Inl (AuditUpdateFailed m) :: query_error + DatabaseQueryResultVO, ?w1) ?traces ?P"
              by (intro run_shapeI [OF tr, where row = row]) (simp_all add: row)
            then show ?thesis
              unfolding run Inr Let_def sum.case san up Some by simp
          qed
        qed
      qed
      then show ?thesis ..
    qed
  qed
qed

lemma run_shape_mono:
  "run_shape env w r traces P \<Longrightarrow> traces \<subseteq> traces' \<Longrightarrow> (\<And>row. P row \<Longrightarrow> Q row) \<Longrightarrow> run_shape env w r traces' Q"
  unfolding run_shape_def by blast

text \<open>The traces an audited query on an instance can leave, and what a read-only use case does: it is
  refused before any effect, its audit row could not be created, or it has the shape of a run.\<close>

definition query_traces :: "console_env \<Rightarrow> DatabaseInstance \<Rightarrow> db_event list set" where
  "query_traces env item =
     range (\<lambda>(schema, ex, lim, t, cred, k). snd (executeSQLQuery env item cred schema k ex lim t))"

definition refused :: "query_world \<Rightarrow> (query_error + 'a) \<times> query_world \<Rightarrow> bool" where
  "refused w r \<longleftrightarrow> snd r = w \<and> (\<exists>e. fst r = Inl e)"

definition query_shape ::
  "console_env \<Rightarrow> query_world \<Rightarrow> nat \<Rightarrow> (query_error + DatabaseQueryResultVO) \<times> query_world \<Rightarrow> bool" where
  "query_shape env w i r \<longleftrightarrow> refused w r \<or> failed_create env w r
     \<or> (\<exists>item. envInstance env i = Some item \<and> run_shape env w r (query_traces env item) (\<lambda>_. True))"

lemma getEnabled_instance:
  "getEnabledQueryInstance env i = Inr item \<Longrightarrow>
     envInstance env i = Some item \<and> envAuditRepo env \<and> envCredential env \<noteq> None"
  by (auto simp: getEnabledQueryInstance_def split: option.splits if_splits)

lemma query_shape_run:
  assumes "getEnabledQueryInstance env i = Inr item"
  shows "query_shape env w i (runAuditedQuery env w item schema act s ty ex lim t op)"
proof -
  from getEnabled_instance [OF assms]
  have item: "envInstance env i = Some item" and repo: "envAuditRepo env" by auto
  have sub: "range (\<lambda>(cred, k). snd (executeSQLQuery env item cred schema k ex lim t)) \<subseteq> query_traces env item"
    unfolding query_traces_def by (auto intro!: image_eqI [where x = "(schema, ex, lim, t, cred, k)" for cred k])
  from runAuditedQuery_shape [OF repo, of w item schema act s ty ex lim t op]
  show ?thesis
  proof
    assume "run_shape env w (runAuditedQuery env w item schema act s ty ex lim t op)
      (range (\<lambda>(cred, k). snd (executeSQLQuery env item cred schema k ex lim t)))
      (\<lambda>row. aSQLText row = trimText s 20000 \<and> aStatus row \<noteq> DatabaseQueryStatusDenied)"
    from run_shape_mono [OF this sub, of "\<lambda>_. True"] item show ?thesis by (simp add: query_shape_def)
  qed (simp add: query_shape_def)
qed

lemma query_shape_denied:
  assumes "getEnabledQueryInstance env i = Inr item"
  shows "query_shape env w i (Inl e, recordDeniedQuery env w item schema act s ty e op)"
proof -
  from getEnabled_instance [OF assms]
  have item: "envInstance env i = Some item" and repo: "envAuditRepo env" by auto
  let ?r = "(Inl e :: query_error + DatabaseQueryResultVO, recordDeniedQuery env w item schema act s ty e op)"
  have "run_shape env w ?r (query_traces env item)
      (\<lambda>row. aSQLText row = trimText s 20000 \<and> aStatus row = DatabaseQueryStatusDenied)
    \<or> failed_create env w ?r"
    by (rule recordDeniedQuery_shape [OF repo])
  then show ?thesis
  proof
    assume "run_shape env w (Inl e :: query_error + DatabaseQueryResultVO,
        recordDeniedQuery env w item schema act s ty e op) (query_traces env item)
      (\<lambda>row. aSQLText row = trimText s 20000 \<and> aStatus row = DatabaseQueryStatusDenied)"
    from run_shape_mono [OF this order_refl, of "\<lambda>_. True"] item show ?thesis by (simp add: query_shape_def)
  qed (simp add: query_shape_def)
qed

lemma query_shape_refused: "query_shape env w i (Inl e, w)"
  by (simp add: query_shape_def refused_def)

lemmas query_shapes = query_shape_run query_shape_denied query_shape_refused

lemma read_only_use_cases_shape:
  "query_shape env w i (ExecuteQuery env w i req op)"
  "query_shape env w i (ExportQuery env w i req op)"
  "query_shape env w i (ExplainQuery env w i req op)"
  "query_shape env w i (ExplainWriteQuery env w i req op)"
  unfolding ExecuteQuery_def ExportQuery_def ExplainQuery_def ExplainWriteQuery_def Let_def
  by (auto simp: query_shapes split: option.split sum.split)

lemma query_shape_grows: "query_shape env w i r \<Longrightarrow> grows w (snd r)"
  unfolding query_shape_def using run_shape_grows by (fastforce simp: refused_def)

lemma executeSQLQuery_read_only:
  assumes "normalizeDBType (iDBType item) \<notin> {DBTypeSQLServer, DBTypeClickHouse, DBTypeOracle, DBTypeRedis}"
  shows "read_only_trace (snd (executeSQLQuery env item cred schema k ex lim t))"
  using assms by (simp add: executeSQLQuery_def Let_def read_only_queries) (simp add: read_only_trace_def)

lemma query_shape_read_only:
  assumes "query_shape env w i r" "envInstance env i = Some item"
    "normalizeDBType (iDBType item) \<notin> {DBTypeSQLServer, DBTypeClickHouse, DBTypeOracle, DBTypeRedis}"
  shows "\<exists>tr. dbtrace (snd r) = dbtrace w @ tr \<and> read_only_trace tr"
proof -
  have empty: "read_only_trace []" by (simp add: read_only_trace_def)
  have traces: "tr \<in> query_traces env item \<Longrightarrow> read_only_trace tr" for tr
    using executeSQLQuery_read_only [OF assms(3)] by (auto simp: query_traces_def)
  from assms(1,2) consider "dbtrace (snd r) = dbtrace w"
    | tr where "dbtrace (snd r) = dbtrace w @ tr" "tr \<in> query_traces env item"
    unfolding query_shape_def refused_def failed_create_def run_shape_def by fastforce
  then show ?thesis using empty traces by cases auto
qed

section \<open>Changes and DDL\<close>

text \<open>The same for a change: what it does when the checks deny it and when they pass.\<close>

lemma recordDeniedWrite_shape:
  assumes "envAuditRepo env"
  shows "run_shape env w (Inl e :: query_error + 'a, recordDeniedWriteQuery env w item schema s reason conf safety e op) {}
      (\<lambda>row. aStatus row = DatabaseQueryStatusDenied)
    \<or> failed_create env w (Inl e :: query_error + 'a, recordDeniedWriteQuery env w item schema s reason conf safety e op)"
proof -
  obtain a where eq: "recordDeniedWriteQuery env w item schema s reason conf safety e op = snd (auditCreate env w a)"
    and a: "aStatus a = DatabaseQueryStatusDenied" "aErrorMessage a = Some e"
    using assms by (simp add: recordDeniedWriteQuery_def Let_def)
  show ?thesis
  proof (rule auditCreate_cases [of env w a])
    fix m assume "auditCreate env w a = (Inl m, w)" "envCreateErr env (audits w) = Some m"
    then show ?thesis unfolding eq by (auto simp: failed_create_def)
  next
    fix row
    assume c: "auditCreate env w a = (Inr row, w\<lparr>audits := audits w @ [row]\<rparr>)" and r: "row = a\<lparr>aID := aID row\<rparr>"
    have "aStatus row = DatabaseQueryStatusDenied" "aErrorMessage row = Some e"
      by (subst r, simp add: a)+
    then have "run_shape env w (Inl e :: query_error + 'a, recordDeniedWriteQuery env w item schema s reason conf safety e op) {}
      (\<lambda>row. aStatus row = DatabaseQueryStatusDenied)"
      unfolding eq by (intro run_shapeI0 [where row = row]) (simp_all add: c tells_def)
    then show ?thesis ..
  qed
qed

lemma recordDeniedDDL_shape:
  assumes "envAuditRepo env"
  shows "run_shape env w (Inl e :: query_error + 'a, recordDeniedDDLQuery env w item schema s reason conf safety e op) {}
      (\<lambda>row. aStatus row = DatabaseQueryStatusDenied)
    \<or> failed_create env w (Inl e :: query_error + 'a, recordDeniedDDLQuery env w item schema s reason conf safety e op)"
proof -
  obtain a where eq: "recordDeniedDDLQuery env w item schema s reason conf safety e op = snd (auditCreate env w a)"
    and a: "aStatus a = DatabaseQueryStatusDenied" "aErrorMessage a = Some e"
    using assms by (simp add: recordDeniedDDLQuery_def Let_def)
  show ?thesis
  proof (rule auditCreate_cases [of env w a])
    fix m assume "auditCreate env w a = (Inl m, w)" "envCreateErr env (audits w) = Some m"
    then show ?thesis unfolding eq by (auto simp: failed_create_def)
  next
    fix row
    assume c: "auditCreate env w a = (Inr row, w\<lparr>audits := audits w @ [row]\<rparr>)" and r: "row = a\<lparr>aID := aID row\<rparr>"
    have "aStatus row = DatabaseQueryStatusDenied" "aErrorMessage row = Some e"
      by (subst r, simp add: a)+
    then have "run_shape env w (Inl e :: query_error + 'a, recordDeniedDDLQuery env w item schema s reason conf safety e op) {}
      (\<lambda>row. aStatus row = DatabaseQueryStatusDenied)"
      unfolding eq by (intro run_shapeI0 [where row = row]) (simp_all add: c tells_def)
    then show ?thesis ..
  qed
qed

lemma finishChange_shape:
  assumes "insert_audit (audits w) a = (audits w @ [row], row)" "aID row \<noteq> 0" "envAuditRepo env"
    "aStatus row = DatabaseQueryStatusPending" "tr \<in> traces"
    "case out of Inl e \<Rightarrow> st = DatabaseQueryStatusFailed \<and> msg = Some e
       | Inr _ \<Rightarrow> st = DatabaseQueryStatusSuccess \<and> msg = None"
  shows "run_shape env w (out, finishChangeAudit env (w\<lparr>audits := audits w @ [row], dbtrace := dbtrace w @ tr\<rparr>)
      row st n d h msg) traces (\<lambda>row. aStatus row \<noteq> DatabaseQueryStatusDenied)"
  by (rule run_shapeI [OF assms(5), where row = "if envUpdateErr env (audits w @ [row]) = None
            then row\<lparr>aStatus := st, aRowsAffected := normalizeRowsAffected n, aDurationMs := d,
                     aRollbackSQL := h, aErrorMessage := msg\<rparr> else row"])
    (use assms(4,6) in \<open>simp_all add: finishChangeAudit_created [OF assms(1-3)] tells_def split: sum.splits\<close>)

text \<open>What a change does, in terms of its checks: the instance and policy it resolved, the analyser's
  result and the traces its execution may leave.\<close>

definition write_safety :: "DatabaseInstance \<Rightarrow> DatabaseWritePolicy \<Rightarrow> DatabaseWriteExecuteRequest \<Rightarrow> SQLWriteSafetyResult" where
  "write_safety item policy req = AnalyzeWriteSQLByDB (iDBType item) (TrimSpace (xSQLText req)) (Some policy)"

definition ddl_safety :: "DatabaseInstance \<Rightarrow> DatabaseWritePolicy \<Rightarrow> DatabaseWriteExecuteRequest \<Rightarrow> SQLDDLSafetyResult" where
  "ddl_safety item policy req = AnalyzeDDLSQLByDB (iDBType item) (TrimSpace (xSQLText req)) (Some policy)"

definition write_traces :: "console_env \<Rightarrow> DatabaseInstance \<Rightarrow> DatabaseWritePolicy \<Rightarrow> DatabaseWriteExecuteRequest
    \<Rightarrow> db_event list set" where
  "write_traces env item policy req = insert [] (range (\<lambda>cred. snd (executeSQLChange (envDriver env) item cred
     (resolveQuerySchemaName item (xSchemaName req)) (TrimSpace (xSQLText req))
     (normalizeQueryTimeout (xTimeoutSeconds req)) (wRowsAffectedLimit (write_safety item policy req)))))"

definition ddl_traces :: "console_env \<Rightarrow> DatabaseInstance \<Rightarrow> DatabaseWritePolicy \<Rightarrow> DatabaseWriteExecuteRequest
    \<Rightarrow> db_event list set" where
  "ddl_traces env item policy req = insert [] (range (\<lambda>cred. snd (executeSQLDDL (envDriver env) item cred
     (resolveQuerySchemaName item (xSchemaName req)) (dSQLText (ddl_safety item policy req))
     (normalizeQueryTimeout (xTimeoutSeconds req)))))"

lemma ExecuteWriteQuery_shape:
  fixes req :: DatabaseWriteExecuteRequest
  assumes "getEnabledQueryInstance env i = Inr item" "resolveWritePolicy env = Inr policy"
  defines "checks \<equiv> writeChecks item (write_safety item policy req) (TrimSpace (xReason req)) (xConfirmed req)"
  shows "failed_create env w (ExecuteWriteQuery env w i (Some req) op)
    \<or> (case checks of
         Some e \<Rightarrow> fst (ExecuteWriteQuery env w i (Some req) op) = Inl e
           \<and> run_shape env w (ExecuteWriteQuery env w i (Some req) op) {} (\<lambda>row. aStatus row = DatabaseQueryStatusDenied)
       | None \<Rightarrow> run_shape env w (ExecuteWriteQuery env w i (Some req) op) (write_traces env item policy req)
           (\<lambda>row. aStatus row \<noteq> DatabaseQueryStatusDenied))"
proof -
  let ?r = "ExecuteWriteQuery env w i (Some req) op"
  have repo: "envAuditRepo env" using getEnabled_instance [OF assms(1)] by simp
  let ?schema = "resolveQuerySchemaName item (xSchemaName req)" and ?s = "TrimSpace (xSQLText req)"
  let ?reason = "TrimSpace (xReason req)" and ?safety = "write_safety item policy req"
  show ?thesis
  proof (cases checks)
    case (Some e)
    then have r: "?r = (Inl e, recordDeniedWriteQuery env w item ?schema ?s ?reason (xConfirmed req) ?safety e op)"
      by (simp add: ExecuteWriteQuery_def assms(1,2) Let_def checks_def write_safety_def)
    show ?thesis unfolding r using Some recordDeniedWrite_shape [OF repo] by (simp add: disj_commute)
  next
    case None
    let ?a = "(operator_audit env item ?schema op)\<lparr>
            aAuditAction := DatabaseAuditActionChangeExecute, aReason := trimText ?reason 500,
            aConfirmRequired := wConfirmRequired ?safety, aConfirmed := xConfirmed req,
            aSQLText := trimText ?s 20000, aSQLFingerprint := sqlFingerprint env ?s,
            aSQLType := wSQLType ?safety, aRiskLevel := wRiskLevel ?safety,
            aStatus := DatabaseQueryStatusPending, aRowsAffectedLimit := wRowsAffectedLimit ?safety\<rparr>"
    show ?thesis
    proof (rule auditCreate_cases [of env w ?a])
      fix m assume "auditCreate env w ?a = (Inl m, w)" "envCreateErr env (audits w) = Some m"
      then have "failed_create env w ?r"
        using None by (simp add: ExecuteWriteQuery_def assms(1,2) Let_def checks_def write_safety_def failed_create_def)
      then show ?thesis ..
    next
      fix row
      assume c: "auditCreate env w ?a = (Inr row, w\<lparr>audits := audits w @ [row]\<rparr>)"
        and i: "insert_audit (audits w) ?a = (audits w @ [row], row)"
        and nz: "aID row \<noteq> 0" and r: "row = ?a\<lparr>aID := aID row\<rparr>"
      have pending: "aStatus row = DatabaseQueryStatusPending" by (subst r) simp
      note fin = finishChange_shape [OF i nz repo pending]
      have "run_shape env w ?r (write_traces env item policy req) (\<lambda>row. aStatus row \<noteq> DatabaseQueryStatusDenied)"
      proof (cases "the (envCredential env) (iCredentialID item)")
        case no_cred: None
        have w: "w\<lparr>audits := audits w @ [row]\<rparr> = w\<lparr>audits := audits w @ [row], dbtrace := dbtrace w @ []\<rparr>" by simp
        have "?r = (Inl CredentialMissing, finishChangeAudit env (w\<lparr>audits := audits w @ [row]\<rparr>) row
            DatabaseQueryStatusFailed 0 0 NoHint (Some CredentialMissing))"
          using None by (simp add: ExecuteWriteQuery_def assms(1,2) Let_def checks_def write_safety_def
              c [unfolded write_safety_def] no_cred)
        moreover have "run_shape env w (Inl CredentialMissing :: query_error + DatabaseWriteExecuteVO,
            finishChangeAudit env (w\<lparr>audits := audits w @ [row], dbtrace := dbtrace w @ []\<rparr>) row
            DatabaseQueryStatusFailed 0 0 NoHint (Some CredentialMissing)) (write_traces env item policy req)
            (\<lambda>row. aStatus row \<noteq> DatabaseQueryStatusDenied)"
          by (rule fin) (simp_all add: write_traces_def)
        ultimately show ?thesis by (simp only: w [symmetric])
      next
        case (Some cred)
        obtain n err tr where ex: "executeSQLChange (envDriver env) item (Some cred) ?schema ?s
            (normalizeQueryTimeout (xTimeoutSeconds req)) (wRowsAffectedLimit ?safety) = ((n, err), tr)"
          by (metis prod.exhaust)
        have tr: "tr \<in> write_traces env item policy req"
          unfolding write_traces_def using ex by (metis (mono_tags) insertI2 rangeI snd_conv)
        show ?thesis
        proof (cases err)
          case err: None
          have "\<exists>vo. ?r = (Inr vo, finishChangeAudit env
              (w\<lparr>audits := audits w @ [row], dbtrace := dbtrace w @ tr\<rparr>) row DatabaseQueryStatusSuccess n
              (envDuration env) (buildWriteRollbackSQLHint (iDBType item) (wSQLType ?safety)) None)"
            using None by (simp add: ExecuteWriteQuery_def assms(1,2) Let_def checks_def write_safety_def
                c [unfolded write_safety_def] Some ex [unfolded write_safety_def] err)
          then show ?thesis by (elim exE) (simp only:, rule fin [OF tr], simp)
        next
          case err: (Some e)
          have "?r = (Inl e, finishChangeAudit env
              (w\<lparr>audits := audits w @ [row], dbtrace := dbtrace w @ tr\<rparr>) row
              DatabaseQueryStatusFailed (normalizeRowsAffected n) (envDuration env) NoHint (Some e))"
            using None by (simp add: ExecuteWriteQuery_def assms(1,2) Let_def checks_def write_safety_def
                c [unfolded write_safety_def] Some ex [unfolded write_safety_def] err)
          then show ?thesis by (simp only:) (rule fin [OF tr], simp)
        qed
      qed
      then show ?thesis using None by simp
    qed
  qed
qed

lemma ExecuteDDLQuery_shape:
  fixes req :: DatabaseWriteExecuteRequest
  assumes "getEnabledQueryInstance env i = Inr item" "resolveWritePolicy env = Inr policy"
  defines "checks \<equiv> ddlChecks item (ddl_safety item policy req) (TrimSpace (xReason req)) (xConfirmed req)"
  shows "failed_create env w (ExecuteDDLQuery env w i (Some req) op)
    \<or> (case checks of
         Some e \<Rightarrow> fst (ExecuteDDLQuery env w i (Some req) op) = Inl e
           \<and> run_shape env w (ExecuteDDLQuery env w i (Some req) op) {} (\<lambda>row. aStatus row = DatabaseQueryStatusDenied)
       | None \<Rightarrow> run_shape env w (ExecuteDDLQuery env w i (Some req) op) (ddl_traces env item policy req)
           (\<lambda>row. aStatus row \<noteq> DatabaseQueryStatusDenied))"
proof -
  let ?r = "ExecuteDDLQuery env w i (Some req) op"
  have repo: "envAuditRepo env" using getEnabled_instance [OF assms(1)] by simp
  let ?schema = "resolveQuerySchemaName item (xSchemaName req)" and ?s = "TrimSpace (xSQLText req)"
  let ?reason = "TrimSpace (xReason req)" and ?safety = "ddl_safety item policy req"
  show ?thesis
  proof (cases checks)
    case (Some e)
    then have r: "?r = (Inl e, recordDeniedDDLQuery env w item ?schema ?s ?reason (xConfirmed req) ?safety e op)"
      by (simp add: ExecuteDDLQuery_def assms(1,2) Let_def checks_def ddl_safety_def)
    show ?thesis unfolding r using Some recordDeniedDDL_shape [OF repo] by (simp add: disj_commute)
  next
    case None
    let ?a = "(operator_audit env item ?schema op)\<lparr>
            aAuditAction := DatabaseAuditActionDDLExecute, aReason := trimText ?reason 500,
            aConfirmRequired := dConfirmRequired ?safety, aConfirmed := xConfirmed req,
            aSQLText := trimText ?s 20000, aSQLFingerprint := sqlFingerprint env ?s,
            aSQLType := dSQLType ?safety, aRiskLevel := dRiskLevel ?safety,
            aStatus := DatabaseQueryStatusPending\<rparr>"
    show ?thesis
    proof (rule auditCreate_cases [of env w ?a])
      fix m assume "auditCreate env w ?a = (Inl m, w)" "envCreateErr env (audits w) = Some m"
      then have "failed_create env w ?r"
        using None by (simp add: ExecuteDDLQuery_def assms(1,2) Let_def checks_def ddl_safety_def failed_create_def)
      then show ?thesis ..
    next
      fix row
      assume c: "auditCreate env w ?a = (Inr row, w\<lparr>audits := audits w @ [row]\<rparr>)"
        and i: "insert_audit (audits w) ?a = (audits w @ [row], row)"
        and nz: "aID row \<noteq> 0" and r: "row = ?a\<lparr>aID := aID row\<rparr>"
      have pending: "aStatus row = DatabaseQueryStatusPending" by (subst r) simp
      note fin = finishChange_shape [OF i nz repo pending]
      have "run_shape env w ?r (ddl_traces env item policy req) (\<lambda>row. aStatus row \<noteq> DatabaseQueryStatusDenied)"
      proof (cases "the (envCredential env) (iCredentialID item)")
        case no_cred: None
        have w: "w\<lparr>audits := audits w @ [row]\<rparr> = w\<lparr>audits := audits w @ [row], dbtrace := dbtrace w @ []\<rparr>" by simp
        have "?r = (Inl CredentialMissing, finishChangeAudit env (w\<lparr>audits := audits w @ [row]\<rparr>) row
            DatabaseQueryStatusFailed 0 0 NoHint (Some CredentialMissing))"
          using None by (simp add: ExecuteDDLQuery_def assms(1,2) Let_def checks_def ddl_safety_def
              c [unfolded ddl_safety_def] no_cred)
        moreover have "run_shape env w (Inl CredentialMissing :: query_error + DatabaseWriteExecuteVO,
            finishChangeAudit env (w\<lparr>audits := audits w @ [row], dbtrace := dbtrace w @ []\<rparr>) row
            DatabaseQueryStatusFailed 0 0 NoHint (Some CredentialMissing)) (ddl_traces env item policy req)
            (\<lambda>row. aStatus row \<noteq> DatabaseQueryStatusDenied)"
          by (rule fin) (simp_all add: ddl_traces_def)
        ultimately show ?thesis by (simp only: w [symmetric])
      next
        case (Some cred)
        obtain n err tr where ex: "executeSQLDDL (envDriver env) item (Some cred) ?schema
            (dSQLText ?safety) (normalizeQueryTimeout (xTimeoutSeconds req)) = ((n, err), tr)"
          by (metis prod.exhaust)
        have tr: "tr \<in> ddl_traces env item policy req"
          unfolding ddl_traces_def using ex by (metis (mono_tags) insertI2 rangeI snd_conv)
        show ?thesis
        proof (cases err)
          case err: None
          have "\<exists>vo. ?r = (Inr vo, finishChangeAudit env
              (w\<lparr>audits := audits w @ [row], dbtrace := dbtrace w @ tr\<rparr>) row DatabaseQueryStatusSuccess n
              (envDuration env) (buildDDLRollbackSQLHint (iDBType item) (dSQLType ?safety)) None)"
            using None by (simp add: ExecuteDDLQuery_def assms(1,2) Let_def checks_def ddl_safety_def
                c [unfolded ddl_safety_def] Some ex [unfolded ddl_safety_def] err)
          then show ?thesis by (elim exE) (simp only:, rule fin [OF tr], simp)
        next
          case err: (Some e)
          have "?r = (Inl e, finishChangeAudit env
              (w\<lparr>audits := audits w @ [row], dbtrace := dbtrace w @ tr\<rparr>) row
              DatabaseQueryStatusFailed (normalizeRowsAffected n) (envDuration env) NoHint (Some e))"
            using None by (simp add: ExecuteDDLQuery_def assms(1,2) Let_def checks_def ddl_safety_def
                c [unfolded ddl_safety_def] Some ex [unfolded ddl_safety_def] err)
          then show ?thesis by (simp only:) (rule fin [OF tr], simp)
        qed
      qed
      then show ?thesis using None by simp
    qed
  qed
qed

end
