(* ===== verification/Sql_Props.thy ===== *)
theory Sql_Props
  imports Sql_Gate
begin

text \<open>
  The properties of the SQL gate: when each analyser of sql_safety.go lets a statement pass, what
  the text it releases looks like to the reference lexer, what the appended LIMIT does, and two
  concrete statements on which the lexer of the gate and the lexers of the database servers
  disagree.
\<close>

section \<open>Helpers\<close>

text \<open>The checks on the whole text, in terms of the reference lexer.\<close>

definition one_statement :: "string \<Rightarrow> bool" where
  "one_statement s = (let t = TrimSpace s in
     t \<noteq> [] \<and> length t \<le> 20000
     \<and> list_all (\<lambda>(m, u). \<not> (m = Code \<and> HasPrefix u ''/*!'')) (lex_steps Code t)
     \<and> list_all (\<lambda>rest. TrimSpace rest = []) (separators t))"

lemma text_ok_iff: "text_ok s \<longleftrightarrow> one_statement s"
proof -
  have "(\<not> hasExecutableSQLComment t) \<longleftrightarrow>
      list_all (\<lambda>(m, u). \<not> (m = Code \<and> HasPrefix u ''/*!'')) (lex_steps Code t)" for t
    by (auto simp: hasExecutableSQLComment_iff list_all_iff HasPrefix_iff simp del: HasPrefix.simps)
  moreover have "(\<not> hasUnsafeSemicolon t) \<longleftrightarrow>
      list_all (\<lambda>rest. TrimSpace rest = []) (separators t)" for t
    by (auto simp: hasUnsafeSemicolon_iff list_all_iff)
  ultimately show ?thesis
    by (simp add: text_ok_def one_statement_def Let_def maxSQLRunes_def)
qed

lemma lex_steps_plain: "plain_text u \<Longrightarrow> (m', t) \<in> set (lex_steps m u) \<Longrightarrow> hd t \<noteq> CHR '';''"
proof (induction u)
  case (Cons r u)
  then have r: "is_word_rune r \<or> r = SP" and u: "plain_text u" by (simp_all add: plain_text_def)
  from r have "r \<noteq> CHR '';''"
    by (auto simp: is_word_rune_def IsLetter_def IsDigit_def rune_code_def Let_def)
  with Cons u plain_step [OF r] show ?case by auto
qed simp

lemma separators_append_plain:
  assumes "separators w = []" "plain_text (SP # v)"
  shows "separators (w @ SP # v) = []"
proof -
  have "rest \<notin> set (separators (w @ SP # v))" for rest
  proof
    assume "rest \<in> set (separators (w @ SP # v))"
    then have "(Code, CHR '';'' # rest) \<in> set (lex_steps Code (w @ SP # v))"
      by (simp add: set_separators)
    then consider t where "(Code, t) \<in> set (lex_steps Code w)" "CHR '';'' # rest = t @ SP # v"
      | "(Code, CHR '';'' # rest) \<in> set (lex_steps (lex_end Code w) (SP # v))"
      unfolding lex_steps_append_blank by auto
    then show False
    proof cases
      case 1
      then obtain t' where "t = CHR '';'' # t'"
        using lex_steps_nonempty [OF 1(1)] by (cases t) auto
      with 1(1) have "t' \<in> set (separators w)" by (simp add: set_separators)
      with assms(1) show False by simp
    next
      case 2
      then show False using lex_steps_plain [OF assms(2)] by force
    qed
  qed
  then show ?thesis by (cases "separators (w @ SP # v)") auto
qed

lemma Itoa_digits: "0 < n \<Longrightarrow> list_all IsDigit (Itoa n)"
  by (simp add: Itoa_def digits_of_IsDigit)

lemma limit_clause_plain: "0 < n \<Longrightarrow> plain_text ('' LIMIT '' @ Itoa n)"
proof -
  assume "0 < n"
  then have "list_all (\<lambda>r. is_word_rune r \<or> r = SP) (Itoa n)"
    using Itoa_digits [of n] by (auto simp: list_all_iff is_word_rune_def)
  moreover have "list_all (\<lambda>r. is_word_rune r \<or> r = SP) '' LIMIT ''" by code_simp
  ultimately show ?thesis by (auto simp: plain_text_def list_all_iff)
qed

lemma limit_tokens_safe:
  assumes "0 < n"
  shows "list_all (\<lambda>t. \<not> unsafeNumericToken t \<and> t \<notin> set forbiddenReadOnlyKeywords) [''limit'', Itoa n]"
proof -
  have d: "list_all IsDigit (Itoa n)" by (rule Itoa_digits [OF assms])
  have "\<not> (IsLetter r \<or> r = CHR ''_'')" if "IsDigit r" for r
    using that by (auto simp: IsDigit_def IsLetter_def rune_code_def Let_def)
  with d have "\<not> unsafeNumericToken (Itoa n)"
    by (auto simp: unsafeNumericToken_def list_all_iff list_ex_iff split: list.splits)
  moreover have "list_all (\<lambda>k. k \<noteq> [] \<and> \<not> IsDigit (hd k)) forbiddenReadOnlyKeywords" by code_simp
  then have "Itoa n \<notin> set forbiddenReadOnlyKeywords"
    using d by (cases "Itoa n") (auto simp: list_all_iff)
  moreover have "\<not> unsafeNumericToken ''limit'' \<and> ''limit'' \<notin> set forbiddenReadOnlyKeywords" by code_simp
  ultimately show ?thesis by simp
qed

lemma readOnly_released:
  assumes "Allowed (analyzeReadOnlySQL s opts)"
  defines "r \<equiv> SQLText (analyzeReadOnlySQL s opts)"
  shows "separators r = []"
    "list_all (\<lambda>t. \<not> unsafeNumericToken t \<and> t \<notin> set forbiddenReadOnlyKeywords) (code_tokens r)"
proof -
  let ?w = "statement_of s" and ?clause = "'' LIMIT '' @ Itoa (limit opts)"
  have ok: "text_ok s" "list_all (\<lambda>t. \<not> unsafeNumericToken t \<and> t \<notin> set forbiddenReadOnlyKeywords) (code_tokens ?w)"
    using assms(1) by (simp_all add: analyzeReadOnlySQL_allowed)
  then have sep: "separators ?w = []"
    using released_no_separator [of s] by (simp add: text_ok_def statement_of_def)
  consider "r = ?w" | "r = ?w @ ?clause" "0 < limit opts"
    using analyzeReadOnlySQL_text [OF assms(1)] unfolding r_def by (auto split: if_splits)
  then show "separators r = []"
    "list_all (\<lambda>t. \<not> unsafeNumericToken t \<and> t \<notin> set forbiddenReadOnlyKeywords) (code_tokens r)"
  proof (atomize (full), cases)
    case 1
    then show "separators r = [] \<and>
      list_all (\<lambda>t. \<not> unsafeNumericToken t \<and> t \<notin> set forbiddenReadOnlyKeywords) (code_tokens r)"
      using sep ok by simp
  next
    case 2
    then show "separators r = [] \<and>
      list_all (\<lambda>t. \<not> unsafeNumericToken t \<and> t \<notin> set forbiddenReadOnlyKeywords) (code_tokens r)"
      using separators_append_plain [OF sep] limit_clause_plain [of "limit opts"] ok(2)
        limit_appended_tokens [of "limit opts" ?w] limit_tokens_safe [of "limit opts"]
      by simp
  qed
qed

section \<open>Properties\<close>

text \<open>C8: The read-only gate lets a text pass exactly when it is one statement (not empty, at most
  20000 runes, no MySQL executable comment in code position, nothing but blanks behind a code
  semicolon), its first keyword is SELECT, SHOW, DESC, DESCRIBE, EXPLAIN or WITH, and no token of
  its code is one of the forbidden keywords or a number glued to a word.\<close>

theorem read_only_gate_exact:
  "Allowed (AnalyzeReadOnlySQLByDB db s n) \<longleftrightarrow>
     one_statement s
     \<and> firstSQLKeyword (stripSQLComments (statement_of s)) \<in>
         {''select'', ''show'', ''desc'', ''describe'', ''explain'', ''with''}
     \<and> list_all (\<lambda>t. \<not> unsafeNumericToken t \<and> t \<notin> set forbiddenReadOnlyKeywords)
         (sqlKeywords (code_text (statement_of s)))"
  by (simp add: AnalyzeReadOnlySQLByDB_def analyzeReadOnlySQL_allowed text_ok_iff)

text \<open>C3: The text the read-only gate hands to the driver, the appended LIMIT included, holds no
  statement separator in code position and no forbidden keyword among its code tokens.\<close>

theorem read_only_release_safe:
  assumes "Allowed (AnalyzeReadOnlySQLByDB db s n)"
  shows "separators (SQLText (AnalyzeReadOnlySQLByDB db s n)) = []
    \<and> list_all (\<lambda>t. \<not> unsafeNumericToken t \<and> t \<notin> set forbiddenReadOnlyKeywords)
        (sqlKeywords (code_text (SQLText (AnalyzeReadOnlySQLByDB db s n))))"
  using readOnly_released assms unfolding AnalyzeReadOnlySQLByDB_def by blast

theorem read_only_release_safe_witness:
  "Allowed (AnalyzeReadOnlySQLByDB ''mysql'' ''SELECT a FROM t;'' 50)
   \<and> separators (SQLText (AnalyzeReadOnlySQLByDB ''mysql'' ''SELECT a FROM t;'' 50)) = []"
proof -
  have "Allowed (AnalyzeReadOnlySQLByDB ''mysql'' ''SELECT a FROM t;'' 50)" by code_simp
  with read_only_release_safe [OF this] show ?thesis by blast
qed

text \<open>The tokens of the masked text, on which every keyword check runs, are the tokens of the
  code of the statement as the reference lexer sees it: literals, quoted identifiers and comments
  contribute no keyword and hide none.\<close>

theorem mask_keeps_code_keywords:
  "sqlKeywords (maskSQLLiteralsAndComments s) = sqlKeywords (code_text s)"
  by (rule keywords_mask_code_text)

text \<open>C7: The write gate lets a text pass exactly when it is one statement, the database is MySQL,
  MariaDB or PostgreSQL, writing is enabled by the policy (by default it is not), no token is a
  number glued to a word, and the statement is an INSERT, or an UPDATE or DELETE with a WHERE in
  its code.\<close>

theorem write_gate_exact:
  "wAllowed (AnalyzeWriteSQLByDB db s pp) \<longleftrightarrow>
     one_statement s
     \<and> normalizeDBType db \<in> {DBTypeMySQL, DBTypeMariaDB, DBTypePostgreSQL}
     \<and> WriteEnabled (policy_or_default pp)
     \<and> list_all (\<lambda>t. \<not> unsafeNumericToken t) (sqlKeywords (code_text (statement_of s)))
     \<and> (firstSQLKeyword (stripSQLComments (statement_of s)) = ''insert''
        \<or> (firstSQLKeyword (stripSQLComments (statement_of s)) \<in> {''update'', ''delete''}
           \<and> ''where'' \<in> set (sqlKeywords (code_text (statement_of s)))))"
  by (simp add: write_gate_allowed text_ok_iff)

text \<open>A text the write or the DDL gate releases is one statement: the trimmed input without its
  final semicolon, with no separator in code position, no executable comment and at most 20000
  runes.\<close>

theorem change_release_single:
  "(wAllowed (AnalyzeWriteSQLByDB db s pp) \<longrightarrow>
      wSQLText (AnalyzeWriteSQLByDB db s pp) = statement_of s
      \<and> separators (wSQLText (AnalyzeWriteSQLByDB db s pp)) = []
      \<and> \<not> hasExecutableSQLComment (wSQLText (AnalyzeWriteSQLByDB db s pp))
      \<and> length (wSQLText (AnalyzeWriteSQLByDB db s pp)) \<le> maxSQLRunes)
   \<and> (dAllowed (AnalyzeDDLSQLByDB db s pp) \<longrightarrow>
      dSQLText (AnalyzeDDLSQLByDB db s pp) = statement_of s
      \<and> separators (dSQLText (AnalyzeDDLSQLByDB db s pp)) = []
      \<and> \<not> hasExecutableSQLComment (dSQLText (AnalyzeDDLSQLByDB db s pp))
      \<and> length (dSQLText (AnalyzeDDLSQLByDB db s pp)) \<le> maxSQLRunes)"
  by (intro conjI impI; (rule write_gate.released_text write_gate.single_statement
      write_gate.no_executable_comment write_gate.bounded_text ddl_gate.released_text
      ddl_gate.single_statement ddl_gate.no_executable_comment ddl_gate.bounded_text; assumption))

definition open_policy :: DatabaseWritePolicy where
  "open_policy = defaultDatabaseWritePolicy\<lparr>WriteEnabled := True, DDLEnabled := True,
     WriteExplainEnabled := True\<rparr>"

theorem change_release_single_witness:
  "wAllowed (AnalyzeWriteSQLByDB ''mysql'' '' UPDATE t SET a = 1 WHERE b = 2 ; '' (Some open_policy))
   \<and> separators (wSQLText (AnalyzeWriteSQLByDB ''mysql'' '' UPDATE t SET a = 1 WHERE b = 2 ; ''
        (Some open_policy))) = []"
proof -
  have "wAllowed (AnalyzeWriteSQLByDB ''mysql'' '' UPDATE t SET a = 1 WHERE b = 2 ; '' (Some open_policy))"
    by code_simp
  with change_release_single [of "''mysql''" "'' UPDATE t SET a = 1 WHERE b = 2 ; ''" "Some open_policy"]
  show ?thesis by blast
qed

text \<open>The DDL gate lets a text pass exactly when it is one statement, the database type is
  MySQL, MariaDB, PostgreSQL or blank, DDL is enabled by the policy, no token is a number glued to
  a word, and the code starts with CREATE TABLE, CREATE INDEX, CREATE TEMPORARY TABLE or CREATE
  UNIQUE, FULLTEXT or SPATIAL INDEX.\<close>

theorem ddl_gate_exact:
  "dAllowed (AnalyzeDDLSQLByDB db s pp) \<longleftrightarrow>
     one_statement s
     \<and> normalizeDBType db \<in> {[], DBTypeMySQL, DBTypeMariaDB, DBTypePostgreSQL}
     \<and> DDLEnabled (policy_or_default pp)
     \<and> list_all (\<lambda>t. \<not> unsafeNumericToken t) (sqlKeywords (code_text (statement_of s)))
     \<and> (\<exists>rest. sqlKeywords (code_text (statement_of s)) = ''create'' # rest
          \<and> (take 1 rest \<in> {[''table''], [''index'']}
             \<or> take 2 rest \<in> {[''temporary'', ''table''], [''unique'', ''index''],
                 [''fulltext'', ''index''], [''spatial'', ''index'']}))"
proof -
  have "isSupportedCreateDDL ts \<longleftrightarrow> (\<exists>rest. ts = ''create'' # rest
          \<and> (take 1 rest \<in> {[''table''], [''index'']}
             \<or> take 2 rest \<in> {[''temporary'', ''table''], [''unique'', ''index''],
                 [''fulltext'', ''index''], [''spatial'', ''index'']}))" for ts
    by (auto simp: isSupportedCreateDDL_def take_Cons' numeral_2_eq_2 split: list.splits)
  then show ?thesis by (simp only: ddl_gate_allowed text_ok_iff)
qed

text \<open>A text the two EXPLAIN gates release is one statement whose code starts with EXPLAIN
  followed at once by the keyword of a statement it may explain (SELECT or WITH; INSERT, UPDATE,
  DELETE, REPLACE or MERGE), so never EXPLAIN ANALYZE, and it has none of the keywords forbidden
  there; the write variant is only open when the policy enables it.\<close>

theorem explain_gates_release:
  "(Allowed (AnalyzeExplainSQLByDB db s) \<longrightarrow>
      explains [''select'', ''with''] forbiddenReadOnlyKeywords (SQLText (AnalyzeExplainSQLByDB db s)))
   \<and> (Allowed (AnalyzeWriteExplainSQLByDB db s pp) \<longrightarrow>
      WriteExplainEnabled (policy_or_default pp)
      \<and> explains [''insert'', ''update'', ''delete'', ''replace'', ''merge''] forbiddenWriteExplainKeywords
          (SQLText (AnalyzeWriteExplainSQLByDB db s pp)))"
  using AnalyzeExplainSQLByDB_released AnalyzeWriteExplainSQLByDB_released by blast

theorem explain_gates_release_witness:
  "Allowed (AnalyzeExplainSQLByDB ''mysql'' ''select 1'')
   \<and> Allowed (AnalyzeWriteExplainSQLByDB ''mysql'' ''delete from t'' (Some open_policy))
   \<and> explains [''select'', ''with''] forbiddenReadOnlyKeywords
       (SQLText (AnalyzeExplainSQLByDB ''mysql'' ''select 1''))"
proof -
  have "Allowed (AnalyzeExplainSQLByDB ''mysql'' ''select 1'')"
    "Allowed (AnalyzeWriteExplainSQLByDB ''mysql'' ''delete from t'' (Some open_policy))"
    by code_simp+
  with explain_gates_release [of "''mysql''" "''select 1''"] show ?thesis by blast
qed

text \<open>When the read-only gate appends a LIMIT, the code tokens of the released text are those of
  the statement followed by LIMIT and the bound exactly when the statement does not end inside a
  comment or a literal; when it does (a trailing line comment), the clause is part of the comment
  and the released statement has no bound.\<close>

theorem appended_limit_effective:
  assumes "Allowed (AnalyzeReadOnlySQLByDB db s n)" "supportsAutoAppendLimit db" "0 < n"
    "firstSQLKeyword (stripSQLComments (statement_of s)) \<in> {''select'', ''with''}"
    "''limit'' \<notin> set (sqlKeywords (code_text (statement_of s)))"
  shows "sqlKeywords (code_text (SQLText (AnalyzeReadOnlySQLByDB db s n))) =
    sqlKeywords (code_text (statement_of s))
    @ (if lex_end Code (statement_of s) = Code then [''limit'', Itoa n] else [])"
proof -
  have "SQLText (AnalyzeReadOnlySQLByDB db s n) = statement_of s @ '' LIMIT '' @ Itoa n"
    using analyzeReadOnlySQL_text [of s "\<lparr>appendLimit = supportsAutoAppendLimit db, limit = n\<rparr>"]
      assms by (simp add: AnalyzeReadOnlySQLByDB_def)
  then show ?thesis using limit_appended_tokens [OF assms(3)] by simp
qed

theorem appended_limit_effective_witness:
  "sqlKeywords (code_text (SQLText (AnalyzeReadOnlySQLByDB ''mysql'' ''SELECT a FROM t'' 50))) =
     [''select'', ''a'', ''from'', ''t'', ''limit'', ''50'']"
proof -
  have "sqlKeywords (code_text (statement_of ''SELECT a FROM t'')) = [''select'', ''a'', ''from'', ''t'']"
    "lex_end Code (statement_of ''SELECT a FROM t'') = Code"
    "firstSQLKeyword (stripSQLComments (statement_of ''SELECT a FROM t'')) = ''select''"
    "Allowed (AnalyzeReadOnlySQLByDB ''mysql'' ''SELECT a FROM t'' 50)"
    "supportsAutoAppendLimit ''mysql''" "Itoa 50 = ''50''"
    by code_simp+
  then show ?thesis
    using appended_limit_effective [of "''mysql''" "''SELECT a FROM t''" 50] by simp
qed

text \<open>A trailing line comment defeats the row bound: the gate allows SELECT a FROM t with a
  comment behind it, appends LIMIT 50 inside the comment, and the code of the released text has no
  LIMIT.\<close>

theorem limit_lost_in_comment:
  "Allowed (AnalyzeReadOnlySQLByDB ''mysql'' ''SELECT a FROM t -- all'' 50)
   \<and> SQLText (AnalyzeReadOnlySQLByDB ''mysql'' ''SELECT a FROM t -- all'' 50)
      = ''SELECT a FROM t -- all LIMIT 50''
   \<and> sqlKeywords (code_text (SQLText (AnalyzeReadOnlySQLByDB ''mysql'' ''SELECT a FROM t -- all'' 50)))
      = [''select'', ''a'', ''from'', ''t'']"
proof (intro conjI)
  show "Allowed (AnalyzeReadOnlySQLByDB ''mysql'' ''SELECT a FROM t -- all'' 50)" by code_simp
  show "SQLText (AnalyzeReadOnlySQLByDB ''mysql'' ''SELECT a FROM t -- all'' 50)
      = ''SELECT a FROM t -- all LIMIT 50''" by code_simp
  show "sqlKeywords (code_text (SQLText (AnalyzeReadOnlySQLByDB ''mysql'' ''SELECT a FROM t -- all'' 50)))
      = [''select'', ''a'', ''from'', ''t'']" by code_simp
qed

text \<open>The gate reads the rune # as the start of a comment for every database. For PostgreSQL,
  where # is an operator, a data-changing common table expression behind it passes the read-only
  gate.\<close>

theorem hash_hides_delete_on_postgresql:
  "Allowed (AnalyzeReadOnlySQLByDB ''postgresql''
     ''WITH a AS (SELECT 1 # 2), d AS (DELETE FROM t RETURNING *) SELECT 1'' 100)
   \<and> SQLText (AnalyzeReadOnlySQLByDB ''postgresql''
     ''WITH a AS (SELECT 1 # 2), d AS (DELETE FROM t RETURNING *) SELECT 1'' 100)
     = ''WITH a AS (SELECT 1 # 2), d AS (DELETE FROM t RETURNING *) SELECT 1 LIMIT 100''"
  by code_simp

end
