(* ===== verification/Query_Props.thy ===== *)
theory Query_Props
  imports Query_Audit Sql_Props
begin

text \<open>
  The properties of the query console's use cases: the audit log, what stands between a request
  and the database, the row limit of a committed change, and the read-only use cases.
\<close>

section \<open>Helpers\<close>

lemma write_safety_fields:
  "wReasonRequired (AnalyzeWriteSQLByDB db s pp) = OperationReasonRequired (policy_or_default pp)"
  "wRowsAffectedLimit (AnalyzeWriteSQLByDB db s pp) = normalizeMaxAffectedRows (MaxAffectedRows (policy_or_default pp))"
proof -
  have d: "wReasonRequired (denyWriteSQL r m) = wReasonRequired r"
    "wRowsAffectedLimit (denyWriteSQL r m) = wRowsAffectedLimit r" for r m
    by (simp_all add: denyWriteSQL_def)
  have p1: "wReasonRequired (case p of (a, b, c) \<Rightarrow> f a b c) = wReasonRequired (f (fst p) (fst (snd p)) (snd (snd p)))"
    and p2: "wRowsAffectedLimit (case p of (a, b, c) \<Rightarrow> f a b c) = wRowsAffectedLimit (f (fst p) (fst (snd p)) (snd (snd p)))"
    for p :: "string \<times> string \<times> bool" and f
    by (simp_all add: case_prod_beta)
  show "wReasonRequired (AnalyzeWriteSQLByDB db s pp) = OperationReasonRequired (policy_or_default pp)"
    unfolding AnalyzeWriteSQLByDB_def
    by (simp only: Let_def if_distrib [of wReasonRequired] p1 d if_cancel SQLWriteSafetyResult.simps)
  show "wRowsAffectedLimit (AnalyzeWriteSQLByDB db s pp) = normalizeMaxAffectedRows (MaxAffectedRows (policy_or_default pp))"
    unfolding AnalyzeWriteSQLByDB_def
    by (simp only: Let_def if_distrib [of wRowsAffectedLimit] p2 d if_cancel SQLWriteSafetyResult.simps)
qed

lemma normalizeMaxAffectedRows_pos: "0 < normalizeMaxAffectedRows n"
  by (simp add: normalizeMaxAffectedRows_def defaultMaxAffectedRows_def)

lemma ExecuteWriteQuery_refused:
  "req = None \<or> (\<forall>item. getEnabledQueryInstance env i \<noteq> Inr item) \<or> (\<forall>policy. resolveWritePolicy env \<noteq> Inr policy) \<Longrightarrow>
     refused w (ExecuteWriteQuery env w i req op)"
  by (auto simp: ExecuteWriteQuery_def refused_def split: option.split sum.split)

lemma ExecuteDDLQuery_refused:
  "req = None \<or> (\<forall>item. getEnabledQueryInstance env i \<noteq> Inr item) \<or> (\<forall>policy. resolveWritePolicy env \<noteq> Inr policy) \<Longrightarrow>
     refused w (ExecuteDDLQuery env w i req op)"
  by (auto simp: ExecuteDDLQuery_def refused_def split: option.split sum.split)

lemma run_grows: "run_shape env w r traces P \<Longrightarrow> grows w (snd r)"
  using run_shape_grows [of env w r traces P] by blast

lemma failed_grows: "failed_create env w r \<Longrightarrow> grows w (snd r)"
  using run_shape_grows [of env w r "{}" "\<lambda>_. True"] by blast

lemma refused_grows: "refused w r \<Longrightarrow> grows w (snd r)"
  by (simp add: refused_def)

lemma ExecuteWriteQuery_grows: "grows w (snd (ExecuteWriteQuery env w i req op))"
proof (cases "\<exists>r item policy. req = Some r \<and> getEnabledQueryInstance env i = Inr item \<and> resolveWritePolicy env = Inr policy")
  case True
  then obtain r item policy where a: "req = Some r" "getEnabledQueryInstance env i = Inr item" "resolveWritePolicy env = Inr policy"
    by blast
  from ExecuteWriteQuery_shape [OF a(2,3), of w r op] show ?thesis
    unfolding a(1) by (auto split: option.splits intro: run_grows failed_grows)
next
  case False
  then show ?thesis by (intro refused_grows ExecuteWriteQuery_refused) (cases req, auto)
qed

lemma ExecuteDDLQuery_grows: "grows w (snd (ExecuteDDLQuery env w i req op))"
proof (cases "\<exists>r item policy. req = Some r \<and> getEnabledQueryInstance env i = Inr item \<and> resolveWritePolicy env = Inr policy")
  case True
  then obtain r item policy where a: "req = Some r" "getEnabledQueryInstance env i = Inr item" "resolveWritePolicy env = Inr policy"
    by blast
  from ExecuteDDLQuery_shape [OF a(2,3), of w r op] show ?thesis
    unfolding a(1) by (auto split: option.splits intro: run_grows failed_grows)
next
  case False
  then show ?thesis by (intro refused_grows ExecuteDDLQuery_refused) (cases req, auto)
qed

text \<open>The database was touched: the checks passed and the new calls are those of the execution.\<close>

lemma ExecuteWriteQuery_touched:
  assumes "dbtrace (snd (ExecuteWriteQuery env w i req op)) \<noteq> dbtrace w"
  obtains r item policy tr where "req = Some r" "getEnabledQueryInstance env i = Inr item"
    "resolveWritePolicy env = Inr policy"
    "writeChecks item (write_safety item policy r) (TrimSpace (xReason r)) (xConfirmed r) = None"
    "dbtrace (snd (ExecuteWriteQuery env w i req op)) = dbtrace w @ tr" "tr \<in> write_traces env item policy r"
proof -
  have "\<not> refused w (ExecuteWriteQuery env w i req op)" using assms by (auto simp: refused_def)
  then obtain r item policy where a: "req = Some r" "getEnabledQueryInstance env i = Inr item"
    "resolveWritePolicy env = Inr policy"
    using ExecuteWriteQuery_refused by (metis option.exhaust)
  let ?c = "writeChecks item (write_safety item policy r) (TrimSpace (xReason r)) (xConfirmed r)"
  have nf: "\<not> failed_create env w (ExecuteWriteQuery env w i (Some r) op)"
    using assms a(1) by (auto simp: failed_create_def)
  note shape = ExecuteWriteQuery_shape [OF a(2,3), of w r op]
  have c: "?c = None"
  proof (rule ccontr)
    assume "?c \<noteq> None"
    with shape nf have "run_shape env w (ExecuteWriteQuery env w i (Some r) op) {} (\<lambda>row. aStatus row = DatabaseQueryStatusDenied)"
      by (auto split: option.splits)
    with assms a(1) show False by (auto simp: run_shape_def)
  qed
  with shape nf have "run_shape env w (ExecuteWriteQuery env w i (Some r) op) (write_traces env item policy r)
      (\<lambda>row. aStatus row \<noteq> DatabaseQueryStatusDenied)" by simp
  with assms a c that show thesis by (fastforce simp: run_shape_def)
qed

lemma ExecuteDDLQuery_touched:
  assumes "dbtrace (snd (ExecuteDDLQuery env w i req op)) \<noteq> dbtrace w"
  obtains r item policy tr where "req = Some r" "getEnabledQueryInstance env i = Inr item"
    "resolveWritePolicy env = Inr policy"
    "ddlChecks item (ddl_safety item policy r) (TrimSpace (xReason r)) (xConfirmed r) = None"
    "dbtrace (snd (ExecuteDDLQuery env w i req op)) = dbtrace w @ tr" "tr \<in> ddl_traces env item policy r"
proof -
  have "\<not> refused w (ExecuteDDLQuery env w i req op)" using assms by (auto simp: refused_def)
  then obtain r item policy where a: "req = Some r" "getEnabledQueryInstance env i = Inr item"
    "resolveWritePolicy env = Inr policy"
    using ExecuteDDLQuery_refused by (metis option.exhaust)
  let ?c = "ddlChecks item (ddl_safety item policy r) (TrimSpace (xReason r)) (xConfirmed r)"
  have nf: "\<not> failed_create env w (ExecuteDDLQuery env w i (Some r) op)"
    using assms a(1) by (auto simp: failed_create_def)
  note shape = ExecuteDDLQuery_shape [OF a(2,3), of w r op]
  have c: "?c = None"
  proof (rule ccontr)
    assume "?c \<noteq> None"
    with shape nf have "run_shape env w (ExecuteDDLQuery env w i (Some r) op) {} (\<lambda>row. aStatus row = DatabaseQueryStatusDenied)"
      by (auto split: option.splits)
    with assms a(1) show False by (auto simp: run_shape_def)
  qed
  with shape nf have "run_shape env w (ExecuteDDLQuery env w i (Some r) op) (ddl_traces env item policy r)
      (\<lambda>row. aStatus row \<noteq> DatabaseQueryStatusDenied)" by simp
  with assms a c that show thesis by (fastforce simp: run_shape_def)
qed

lemma executeSQLDDL_texts:
  "EvExec s \<in> set (snd (executeSQLDDL drv item cred schema sql t)) \<Longrightarrow> s = sql \<or> s = searchPathText schema"
  by (auto simp: executeSQLDDL_def executeMySQLDDL_def executePostgreSQLDDL_def runDDLStatement_def
      withTx_def Let_def split: if_splits sum.splits option.splits)

lemma executeSQLChange_texts:
  "EvExec s \<in> set (snd (executeSQLChange drv item cred schema sql t lim)) \<Longrightarrow> s = sql \<or> s = searchPathText schema"
  by (auto simp: executeSQLChange_def executeMySQLChange_def executePostgreSQLChange_def runChangeStatement_def
      withTx_def Let_def split: if_splits sum.splits option.splits)

section \<open>Properties\<close>

text \<open>C14: The audit table is append-only for every use case of the console: no earlier row is changed,
  at most one row is added, and a database is only called when a row was added for the request.\<close>

theorem audit_log_append_only:
  assumes "w' \<in> {snd (ExecuteQuery env w i qreq op), snd (ExportQuery env w i qreq op),
      snd (ExplainQuery env w i qreq op), snd (ExplainWriteQuery env w i qreq op),
      snd (ExecuteWriteQuery env w i xreq op), snd (ExecuteDDLQuery env w i xreq op)}"
  shows "\<exists>rows tr. audits w' = audits w @ rows \<and> length rows \<le> 1
      \<and> dbtrace w' = dbtrace w @ tr \<and> (tr \<noteq> [] \<longrightarrow> rows \<noteq> [])"
proof -
  have "grows w w'"
    using assms query_shape_grows [OF read_only_use_cases_shape(1)] query_shape_grows [OF read_only_use_cases_shape(2)]
      query_shape_grows [OF read_only_use_cases_shape(3)] query_shape_grows [OF read_only_use_cases_shape(4)]
      ExecuteWriteQuery_grows ExecuteDDLQuery_grows by auto
  then show ?thesis by (simp add: grows_def)
qed

definition sample_env :: console_env where
  "sample_env = \<lparr>envInstance = (\<lambda>i. if i = 7 then Some sample_instance else None), envAuditRepo = True,
     envCredential = Some (\<lambda>_. Some sample_credential), envWritePolicy = Some (Inr (Some open_policy)),
     envCreateErr = (\<lambda>_. None), envUpdateErr = (\<lambda>_. None), envDriver = sample_driver,
     envEngine = (\<lambda>_ _ _. (Inl (EngineFailed []), [])), envSha256 = (\<lambda>s. s), envDuration = 3\<rparr>"

definition empty_world :: query_world where
  "empty_world = \<lparr>audits = [], dbtrace = []\<rparr>"

definition sample_operator :: QueryOperator where
  "sample_operator = \<lparr>oID = 1, oUsername = ''alice'', oClientIP = ''10.1.1.1''\<rparr>"

definition sample_write :: DatabaseWriteExecuteRequest where
  "sample_write = \<lparr>xSchemaName = [], xSQLText = ''DELETE FROM t WHERE a = 1'', xReason = ''cleanup'',
     xConfirmed = True, xTimeoutSeconds = 10\<rparr>"

theorem audit_log_append_only_witness:
  "\<exists>rows. audits (snd (ExecuteWriteQuery sample_env empty_world 7 (Some sample_write) sample_operator)) = rows
     \<and> length rows \<le> 1"
  using audit_log_append_only [of "snd (ExecuteWriteQuery sample_env empty_world 7 (Some sample_write) sample_operator)"
      sample_env empty_world 7 None sample_operator "Some sample_write"]
  by (auto simp: empty_world_def)

text \<open>C1: A data change reaches a database only when the whole gate let it: the instance is enabled, the
  policy enables writing, the text is one statement that is an INSERT or an UPDATE or DELETE with a
  WHERE, the reason is given when the policy asks for one and the operator confirmed when the risk
  asks for it; and the only texts executed are the statement and the search path.\<close>

theorem write_reaches_database_only_through_gate:
  assumes "dbtrace (snd (ExecuteWriteQuery env w i req op)) \<noteq> dbtrace w"
  shows "\<exists>r item policy. req = Some r \<and> getEnabledQueryInstance env i = Inr item \<and> resolveWritePolicy env = Inr policy
    \<and> WriteEnabled policy
    \<and> one_statement (TrimSpace (xSQLText r))
    \<and> (let k = firstSQLKeyword (stripSQLComments (statement_of (TrimSpace (xSQLText r))))
       in k = ''insert'' \<or> k \<in> {''update'', ''delete''}
          \<and> ''where'' \<in> set (sqlKeywords (code_text (statement_of (TrimSpace (xSQLText r))))))
    \<and> (OperationReasonRequired policy \<longrightarrow> TrimSpace (xReason r) \<noteq> [])
    \<and> (wConfirmRequired (AnalyzeWriteSQLByDB (iDBType item) (TrimSpace (xSQLText r)) (Some policy)) \<longrightarrow> xConfirmed r)
    \<and> (\<exists>tr. dbtrace (snd (ExecuteWriteQuery env w i req op)) = dbtrace w @ tr
         \<and> (\<forall>s. EvExec s \<in> set tr \<longrightarrow> s = TrimSpace (xSQLText r)
              \<or> s = searchPathText (resolveQuerySchemaName item (xSchemaName r))))"
proof -
  from ExecuteWriteQuery_touched [OF assms] obtain r item policy tr where a:
    "req = Some r" "getEnabledQueryInstance env i = Inr item" "resolveWritePolicy env = Inr policy"
    "writeChecks item (write_safety item policy r) (TrimSpace (xReason r)) (xConfirmed r) = None"
    "dbtrace (snd (ExecuteWriteQuery env w i req op)) = dbtrace w @ tr" "tr \<in> write_traces env item policy r"
    by metis
  have checks: "wAllowed (write_safety item policy r)"
    "OperationReasonRequired policy \<longrightarrow> TrimSpace (xReason r) \<noteq> []"
    "wConfirmRequired (write_safety item policy r) \<longrightarrow> xConfirmed r"
    using a(4) write_safety_fields(1) by (auto simp: writeChecks_def write_safety_def policy_or_default_def split: if_splits)
  have texts: "\<forall>s. EvExec s \<in> set tr \<longrightarrow> s = TrimSpace (xSQLText r)
              \<or> s = searchPathText (resolveQuerySchemaName item (xSchemaName r))"
    using a(6) executeSQLChange_texts by (fastforce simp: write_traces_def)
  show ?thesis
    using a(1-3,5) checks texts
    by (auto simp: write_safety_def write_gate_allowed text_ok_iff policy_or_default_def Let_def)
qed

lemma sample_write_run:
  "map_sum id vRowsAffected (fst (ExecuteWriteQuery sample_env empty_world 7 (Some sample_write) sample_operator)) = Inr 5"
  "EvCommit \<in> set (dbtrace (snd (ExecuteWriteQuery sample_env empty_world 7 (Some sample_write) sample_operator)))"
  by code_simp+

theorem write_reaches_database_only_through_gate_witness:
  "\<exists>policy. resolveWritePolicy sample_env = Inr policy \<and> WriteEnabled policy \<and> one_statement ''DELETE FROM t WHERE a = 1''"
proof -
  have t: "TrimSpace (xSQLText sample_write) = ''DELETE FROM t WHERE a = 1''" by code_simp
  have "dbtrace (snd (ExecuteWriteQuery sample_env empty_world 7 (Some sample_write) sample_operator)) \<noteq> dbtrace empty_world"
    using sample_write_run(2) by (auto simp: empty_world_def)
  from write_reaches_database_only_through_gate [OF this] t show ?thesis by auto
qed

text \<open>Whatever a data change commits is within the row limit of the policy (1000 by default, never
  zero): if the calls of a request include a commit, the driver reported the affected rows of the
  statement and their number is at most the normalised limit.\<close>

theorem write_commit_within_policy:
  assumes "EvCommit \<notin> set (dbtrace w)" "resolveWritePolicy env = Inr policy"
    "EvCommit \<in> set (dbtrace (snd (ExecuteWriteQuery env w i (Some r) op)))"
  shows "\<exists>n. drvRowsAffected (envDriver env) (TrimSpace (xSQLText r)) = Inr n
    \<and> n \<le> normalizeMaxAffectedRows (MaxAffectedRows policy)"
proof -
  have ne: "dbtrace (snd (ExecuteWriteQuery env w i (Some r) op)) \<noteq> dbtrace w" using assms(1,3) by auto
  from ExecuteWriteQuery_touched [OF ne] obtain item tr where a:
    "dbtrace (snd (ExecuteWriteQuery env w i (Some r) op)) = dbtrace w @ tr" "tr \<in> write_traces env item policy r"
    using assms(2) by (metis Inr_inject option.inject)
  with assms(1,3) have "EvCommit \<in> set tr" by auto
  with a(2) obtain cred where e: "EvCommit \<in> set (snd (executeSQLChange (envDriver env) item cred
     (resolveQuerySchemaName item (xSchemaName r)) (TrimSpace (xSQLText r))
     (normalizeQueryTimeout (xTimeoutSeconds r)) (wRowsAffectedLimit (write_safety item policy r))))"
    by (auto simp: write_traces_def)
  have lim: "wRowsAffectedLimit (write_safety item policy r) = normalizeMaxAffectedRows (MaxAffectedRows policy)"
    by (simp add: write_safety_def write_safety_fields policy_or_default_def)
  from change_ok_executeSQLChange [unfolded change_ok_def] e lim normalizeMaxAffectedRows_pos
  show ?thesis by (fastforce simp: normalizeRowsAffected_def split: if_splits)
qed

theorem write_commit_within_policy_witness:
  "\<exists>n. drvRowsAffected sample_driver ''DELETE FROM t WHERE a = 1'' = Inr n \<and> n \<le> 1000"
proof -
  have t: "TrimSpace (xSQLText sample_write) = ''DELETE FROM t WHERE a = 1''" by code_simp
  have p: "resolveWritePolicy sample_env = Inr open_policy"
    by (simp add: resolveWritePolicy_def sample_env_def open_policy_def defaultDatabaseWritePolicy_def
        normalizeMaxAffectedRows_def defaultMaxAffectedRows_def)
  have "EvCommit \<notin> set (dbtrace empty_world)" by (simp add: empty_world_def)
  from write_commit_within_policy [OF this p sample_write_run(2)] t show ?thesis
    by (simp add: sample_env_def open_policy_def defaultDatabaseWritePolicy_def
        normalizeMaxAffectedRows_def defaultMaxAffectedRows_def)
qed

text \<open>C13: When the audit repository works, a change request that reaches the gate leaves exactly one audit
  row and the row tells its outcome: success without an error, or the error returned, with status
  denied exactly when a check failed (and failed when the execution did).\<close>

theorem write_audit_tells_outcome:
  assumes "getEnabledQueryInstance env i = Inr item" "resolveWritePolicy env = Inr policy"
    "\<And>rows. envCreateErr env rows = None" "\<And>rows. envUpdateErr env rows = None"
  shows "\<exists>row. audits (snd (ExecuteWriteQuery env w i (Some r) op)) = audits w @ [row]
    \<and> (aStatus row = DatabaseQueryStatusDenied \<longleftrightarrow>
        writeChecks item (AnalyzeWriteSQLByDB (iDBType item) (TrimSpace (xSQLText r)) (Some policy))
          (TrimSpace (xReason r)) (xConfirmed r) \<noteq> None)
    \<and> (case fst (ExecuteWriteQuery env w i (Some r) op) of
         Inr _ \<Rightarrow> aStatus row = DatabaseQueryStatusSuccess \<and> aErrorMessage row = None
       | Inl e \<Rightarrow> aStatus row \<in> {DatabaseQueryStatusDenied, DatabaseQueryStatusFailed} \<and> aErrorMessage row = Some e)"
proof -
  have nf: "\<not> failed_create env w (ExecuteWriteQuery env w i (Some r) op)"
    using assms(3) by (simp add: failed_create_def)
  from ExecuteWriteQuery_shape [OF assms(1,2), of w r op] nf
  consider e where "writeChecks item (write_safety item policy r) (TrimSpace (xReason r)) (xConfirmed r) = Some e"
      "run_shape env w (ExecuteWriteQuery env w i (Some r) op) {} (\<lambda>row. aStatus row = DatabaseQueryStatusDenied)"
    | "writeChecks item (write_safety item policy r) (TrimSpace (xReason r)) (xConfirmed r) = None"
      "run_shape env w (ExecuteWriteQuery env w i (Some r) op) (write_traces env item policy r)
         (\<lambda>row. aStatus row \<noteq> DatabaseQueryStatusDenied)"
    by (auto split: option.splits)
  then show ?thesis
    by cases (use assms(4) in \<open>auto simp: run_shape_def tells_def write_safety_def [symmetric]\<close>)
qed

theorem write_audit_tells_outcome_witness:
  "\<exists>row. audits (snd (ExecuteWriteQuery sample_env empty_world 7 (Some sample_write) sample_operator)) = [row]
     \<and> aStatus row = DatabaseQueryStatusSuccess"
proof -
  have item: "getEnabledQueryInstance sample_env 7 = Inr sample_instance"
    by (simp add: getEnabledQueryInstance_def sample_env_def sample_instance_def) code_simp
  have policy: "resolveWritePolicy sample_env = Inr open_policy"
    by (simp add: resolveWritePolicy_def sample_env_def open_policy_def defaultDatabaseWritePolicy_def
        normalizeMaxAffectedRows_def defaultMaxAffectedRows_def)
  have ok: "envCreateErr sample_env rows = None" "envUpdateErr sample_env rows = None" for rows
    by (simp_all add: sample_env_def)
  show ?thesis
    using write_audit_tells_outcome [OF item policy ok(1) ok(2), of empty_world sample_write sample_operator]
      sample_write_run(1)
    by (cases "fst (ExecuteWriteQuery sample_env empty_world 7 (Some sample_write) sample_operator)")
      (auto simp: empty_world_def)
qed

text \<open>A DDL statement reaches a database only through the gate: DDL is enabled by the policy, the
  text is one supported CREATE statement, the reason is given and the operator confirmed where the
  policy asks for it, and the text executed is the released statement, without its semicolon.\<close>

theorem ddl_reaches_database_only_through_gate:
  assumes "dbtrace (snd (ExecuteDDLQuery env w i req op)) \<noteq> dbtrace w"
  shows "\<exists>r item policy. req = Some r \<and> getEnabledQueryInstance env i = Inr item \<and> resolveWritePolicy env = Inr policy
    \<and> DDLEnabled policy
    \<and> one_statement (TrimSpace (xSQLText r))
    \<and> isSupportedCreateDDL (sqlKeywords (code_text (statement_of (TrimSpace (xSQLText r)))))
    \<and> (dReasonRequired (AnalyzeDDLSQLByDB (iDBType item) (TrimSpace (xSQLText r)) (Some policy)) \<longrightarrow> TrimSpace (xReason r) \<noteq> [])
    \<and> (dConfirmRequired (AnalyzeDDLSQLByDB (iDBType item) (TrimSpace (xSQLText r)) (Some policy)) \<longrightarrow> xConfirmed r)
    \<and> (\<exists>tr. dbtrace (snd (ExecuteDDLQuery env w i req op)) = dbtrace w @ tr
         \<and> (\<forall>s. EvExec s \<in> set tr \<longrightarrow> s = statement_of (TrimSpace (xSQLText r))
              \<or> s = searchPathText (resolveQuerySchemaName item (xSchemaName r))))"
proof -
  from ExecuteDDLQuery_touched [OF assms] obtain r item policy tr where a:
    "req = Some r" "getEnabledQueryInstance env i = Inr item" "resolveWritePolicy env = Inr policy"
    "ddlChecks item (ddl_safety item policy r) (TrimSpace (xReason r)) (xConfirmed r) = None"
    "dbtrace (snd (ExecuteDDLQuery env w i req op)) = dbtrace w @ tr" "tr \<in> ddl_traces env item policy r"
    by metis
  have checks: "dAllowed (ddl_safety item policy r)"
    "dReasonRequired (ddl_safety item policy r) \<longrightarrow> TrimSpace (xReason r) \<noteq> []"
    "dConfirmRequired (ddl_safety item policy r) \<longrightarrow> xConfirmed r"
    using a(4) by (auto simp: ddlChecks_def split: if_splits)
  have "dSQLText (ddl_safety item policy r) = statement_of (TrimSpace (xSQLText r))"
    using checks(1) ddl_released by (simp add: ddl_safety_def)
  then have texts: "\<forall>s. EvExec s \<in> set tr \<longrightarrow> s = statement_of (TrimSpace (xSQLText r))
              \<or> s = searchPathText (resolveQuerySchemaName item (xSchemaName r))"
    using a(6) executeSQLDDL_texts by (fastforce simp: ddl_traces_def)
  show ?thesis
    using a(1-3,5) checks texts
    by (auto simp: ddl_safety_def ddl_gate_allowed text_ok_iff policy_or_default_def)
qed

definition sample_ddl :: DatabaseWriteExecuteRequest where
  "sample_ddl = \<lparr>xSchemaName = [], xSQLText = ''CREATE TABLE t (a int);'', xReason = ''new table'',
     xConfirmed = True, xTimeoutSeconds = 10\<rparr>"

theorem ddl_reaches_database_only_through_gate_witness:
  "\<exists>policy. resolveWritePolicy sample_env = Inr policy \<and> DDLEnabled policy \<and> one_statement ''CREATE TABLE t (a int);''"
proof -
  have t: "TrimSpace (xSQLText sample_ddl) = ''CREATE TABLE t (a int);''" by code_simp
  have "EvClose \<in> set (dbtrace (snd (ExecuteDDLQuery sample_env empty_world 7 (Some sample_ddl) sample_operator)))"
    by code_simp
  then have "dbtrace (snd (ExecuteDDLQuery sample_env empty_world 7 (Some sample_ddl) sample_operator)) \<noteq> dbtrace empty_world"
    by (auto simp: empty_world_def)
  from ddl_reaches_database_only_through_gate [OF this] t show ?thesis by auto
qed

text \<open>The four read-only use cases, exports and both EXPLAINs included, only ever open read-only
  transactions and never commit, on the engines whose executors are modelled (the MySQL and
  PostgreSQL families); every transaction they open is rolled back before the connection is closed.\<close>

theorem read_only_use_cases_read_only:
  assumes "envInstance env i = Some item"
    "normalizeDBType (iDBType item) \<notin> {DBTypeSQLServer, DBTypeClickHouse, DBTypeOracle, DBTypeRedis}"
    "w' \<in> {snd (ExecuteQuery env w i req op), snd (ExportQuery env w i req op),
      snd (ExplainQuery env w i req op), snd (ExplainWriteQuery env w i req op)}"
  shows "\<exists>tr. dbtrace w' = dbtrace w @ tr \<and> tx_ok False tr \<and> EvBegin False \<notin> set tr \<and> EvCommit \<notin> set tr"
proof -
  have "\<exists>tr. dbtrace w' = dbtrace w @ tr \<and> read_only_trace tr"
    using assms(3) query_shape_read_only [OF read_only_use_cases_shape(1) assms(1,2)]
      query_shape_read_only [OF read_only_use_cases_shape(2) assms(1,2)]
      query_shape_read_only [OF read_only_use_cases_shape(3) assms(1,2)]
      query_shape_read_only [OF read_only_use_cases_shape(4) assms(1,2)] by auto
  then show ?thesis by (auto simp: read_only_trace_def list_all_iff)
qed

definition sample_query :: DatabaseQueryRequest where
  "sample_query = \<lparr>qSchemaName = [], qSQLText = ''DELETE FROM t'', qLimit = 10, qTimeoutSeconds = 5,
     qUnlimitedRows = False, qUnlimitedRowsPermitted = False\<rparr>"

theorem read_only_use_cases_read_only_witness:
  "\<exists>tr. dbtrace (snd (ExplainWriteQuery sample_env empty_world 7 (Some sample_query) sample_operator)) = tr
     \<and> tr \<noteq> [] \<and> tx_ok False tr \<and> EvCommit \<notin> set tr"
proof -
  have i: "envInstance sample_env 7 = Some sample_instance" by (simp add: sample_env_def)
  have t: "normalizeDBType (iDBType sample_instance) \<notin> {DBTypeSQLServer, DBTypeClickHouse, DBTypeOracle, DBTypeRedis}"
  proof -
    have "normalizeDBType (iDBType sample_instance) = DBTypeMySQL" by code_simp
    then show ?thesis by simp
  qed
  have "EvClose \<in> set (dbtrace (snd (ExplainWriteQuery sample_env empty_world 7 (Some sample_query) sample_operator)))"
    by code_simp
  with read_only_use_cases_read_only [OF i t, of
      "snd (ExplainWriteQuery sample_env empty_world 7 (Some sample_query) sample_operator)"
      empty_world "Some sample_query" sample_operator]
  show ?thesis by (auto simp: empty_world_def)
qed

text \<open>A denied EXPLAIN is audited without its statement: the denied result of the analyser has an empty
  text and ExplainQuery stores that text, so the audit row of the denial does not say what was
  asked (the other use cases store the text of the request).\<close>

theorem denied_explain_audit_has_no_text:
  assumes "getEnabledQueryInstance env i = Inr item" "\<And>rows. envCreateErr env rows = None"
    "\<not> Allowed (AnalyzeExplainSQLByDB (iDBType item) (qSQLText req))"
  shows "\<exists>row. audits (snd (ExplainQuery env w i (Some req) op)) = audits w @ [row]
    \<and> aStatus row = DatabaseQueryStatusDenied \<and> aSQLText row = []"
proof -
  let ?s = "AnalyzeExplainSQLByDB (iDBType item) (qSQLText req)"
  have no_text: "SQLText ?s = []"
    using assms(3) unfolding AnalyzeExplainSQLByDB_def Let_def AnalyzeReadOnlySQLRaw_def analyzeReadOnlySQL_def
    by (auto simp: denySQL_def split: if_splits list.splits option.splits)
  have repo: "envAuditRepo env" using getEnabled_instance [OF assms(1)] by simp
  let ?r = "ExplainQuery env w i (Some req) op"
  have r: "?r = (Inl (SafetyDenied (Message ?s)), recordDeniedQuery env w item
      (resolveQuerySchemaName item (qSchemaName req)) DatabaseAuditActionExplain [] (SQLType ?s)
      (SafetyDenied (Message ?s)) op)"
    using assms(1,3) no_text by (simp add: ExplainQuery_def Let_def)
  have nf: "\<not> failed_create env w ?r" using assms(2) by (simp add: failed_create_def)
  have "run_shape env w ?r {} (\<lambda>row. aSQLText row = trimText [] 20000 \<and> aStatus row = DatabaseQueryStatusDenied)
    \<or> failed_create env w ?r"
    unfolding r by (rule recordDeniedQuery_shape [OF repo])
  with nf show ?thesis by (auto simp: run_shape_def trimText_def Let_def)
qed

theorem denied_explain_audit_has_no_text_witness:
  "\<exists>row. audits (snd (ExplainQuery sample_env empty_world 7 (Some sample_query) sample_operator)) = [row]
    \<and> aStatus row = DatabaseQueryStatusDenied \<and> aSQLText row = []"
proof -
  have item: "getEnabledQueryInstance sample_env 7 = Inr sample_instance"
    by (simp add: getEnabledQueryInstance_def sample_env_def sample_instance_def) code_simp
  have ok: "envCreateErr sample_env rows = None" for rows by (simp add: sample_env_def)
  have "\<not> Allowed (AnalyzeExplainSQLByDB (iDBType sample_instance) (qSQLText sample_query))" by code_simp
  from denied_explain_audit_has_no_text [OF item ok this, of empty_world sample_operator]
  show ?thesis by (simp add: empty_world_def)
qed

end
