(* ===== verification/Sql_Format.thy ===== *)
theory Sql_Format
  imports Query_Console Redis_Query
begin

text \<open>
  The formatter of the query console, internal/biz/database/sql_format.go, and the use case \<open>FormatQuerySQL\<close> of
  query_enhancement.go. A loop over the runes or tokens from \<open>i\<close> on is a recursion over the rest; the
  \<open>strings.Builder\<close> is the text written so far.

  The properties are in Format_Props.
\<close>

section \<open>Tables\<close>

record sqlFormatToken =
  ftText :: string
  ftKind :: string

definition sqlFormatterKeywords :: "string list" where
  "sqlFormatterKeywords =
     [''all'', ''and'', ''as'', ''asc'', ''between'', ''by'', ''case'', ''desc'', ''distinct'', ''else'', ''end'',
      ''exists'', ''from'', ''full'', ''group'', ''having'', ''in'', ''inner'', ''is'', ''join'', ''left'', ''like'',
      ''limit'', ''not'', ''null'', ''offset'', ''on'', ''or'', ''order'', ''outer'', ''right'', ''select'', ''then'',
      ''union'', ''when'', ''where'', ''with'', ''cross'', ''explain'', ''show'', ''describe'']"

definition sqlFormatterPhrases :: "string list list" where
  "sqlFormatterPhrases =
     [[''group'', ''by''], [''order'', ''by''], [''union'', ''all''], [''left'', ''outer'', ''join''],
      [''right'', ''outer'', ''join''], [''full'', ''outer'', ''join''], [''left'', ''join''], [''right'', ''join''],
      [''inner'', ''join''], [''full'', ''join''], [''cross'', ''join'']]"

definition sqlFormatterLineBreaks :: "string list" where
  "sqlFormatterLineBreaks =
     [''SELECT'', ''FROM'', ''WHERE'', ''GROUP BY'', ''HAVING'', ''ORDER BY'', ''LIMIT'', ''OFFSET'', ''UNION'',
      ''UNION ALL'', ''LEFT JOIN'', ''RIGHT JOIN'', ''INNER JOIN'', ''FULL JOIN'', ''LEFT OUTER JOIN'',
      ''RIGHT OUTER JOIN'', ''FULL OUTER JOIN'', ''CROSS JOIN'', ''JOIN'', ''ON'']"

definition formatSymbols :: string where
  "formatSymbols = ''(),=*+-/%<>''"

section \<open>Tokens\<close>

text \<open>Each loop of the tokeniser gives what it consumed and what is left.\<close>

definition lineSpan :: "string \<Rightarrow> string \<times> string" where
  "lineSpan rs = (takeWhile (\<lambda>r. \<not> is_eol r) rs, dropWhile (\<lambda>r. \<not> is_eol r) rs)"

text \<open>\<open>for i < len(runes)-1\<close>: without an end of the comment the last rune is left over.\<close>

fun blockSpan :: "string \<Rightarrow> string \<times> string" where
  "blockSpan (a # b # rs) =
     (if a = CHR ''*'' \<and> b = CHR ''/'' then ([a, b], rs)
      else case blockSpan (b # rs) of (u, v) \<Rightarrow> (a # u, v))"
| "blockSpan rs = ([], rs)"

fun quoteSpan :: "rune \<Rightarrow> string \<Rightarrow> string \<times> string" where
  "quoteSpan q [] = ([], [])"
| "quoteSpan q [r] = ([r], [])"
| "quoteSpan q (r # n # rs) =
     (if r = q then
        if q = SQ \<and> n = q then (case quoteSpan q rs of (u, v) \<Rightarrow> (r # n # u, v)) else ([r], n # rs)
      else case quoteSpan q (n # rs) of (u, v) \<Rightarrow> (r # u, v))"

fun wordSpan :: "string \<Rightarrow> string \<times> string" where
  "wordSpan [] = ([], [])"
| "wordSpan (r # rs) =
     (if IsSpace r \<or> r \<in> set formatSymbols \<or> r \<in> {SQ, DQ, BT} \<or> r = CHR ''-'' \<and> next_rune rs = CHR ''-''
         \<or> r = CHR ''#'' \<or> r = CHR ''/'' \<and> next_rune rs = CHR ''*''
      then ([], r # rs) else case wordSpan rs of (u, v) \<Rightarrow> (r # u, v))"

lemma line_span: "lineSpan rs = (u, v) \<Longrightarrow> u @ v = rs"
  by (auto simp: lineSpan_def)

lemma block_span: "blockSpan rs = (u, v) \<Longrightarrow> u @ v = rs"
  by (induction rs arbitrary: u rule: blockSpan.induct) (auto split: if_splits prod.splits)

lemma quote_span: "quoteSpan q rs = (u, v) \<Longrightarrow> u @ v = rs"
  by (induction q rs arbitrary: u rule: quoteSpan.induct) (auto split: if_splits prod.splits)

lemma word_span: "wordSpan rs = (u, v) \<Longrightarrow> u @ v = rs"
  by (induction rs arbitrary: u rule: wordSpan.induct) (auto split: if_splits prod.splits)

lemma span_shorter: "(u, v) = lineSpan rs \<Longrightarrow> length v \<le> length rs" "(u, v) = blockSpan rs \<Longrightarrow> length v \<le> length rs"
  "(u, v) = quoteSpan q rs \<Longrightarrow> length v \<le> length rs" "(u, v) = wordSpan rs \<Longrightarrow> length v \<le> length rs"
  using line_span [of rs u v] block_span [of rs u v] quote_span [of q rs u v] word_span [of rs u v] by auto

function tokenizeFrom :: "string \<Rightarrow> sqlFormatToken list" where
  "tokenizeFrom [] = []"
| "tokenizeFrom (r # rs) =
     (if IsSpace r then tokenizeFrom rs
      else if r = CHR ''-'' \<and> next_rune rs = CHR ''-'' then
        (case lineSpan (drop 1 rs) of (u, v) \<Rightarrow> \<lparr>ftText = r # CHR ''-'' # u, ftKind = ''comment''\<rparr> # tokenizeFrom v)
      else if r = CHR ''#'' then
        (case lineSpan rs of (u, v) \<Rightarrow> \<lparr>ftText = r # u, ftKind = ''comment''\<rparr> # tokenizeFrom v)
      else if r = CHR ''/'' \<and> next_rune rs = CHR ''*'' then
        (case blockSpan (drop 1 rs) of (u, v) \<Rightarrow> \<lparr>ftText = r # CHR ''*'' # u, ftKind = ''comment''\<rparr> # tokenizeFrom v)
      else if r \<in> {SQ, DQ, BT} then
        (case quoteSpan r rs of (u, v) \<Rightarrow> \<lparr>ftText = r # u, ftKind = ''literal''\<rparr> # tokenizeFrom v)
      else if r \<in> set formatSymbols then \<lparr>ftText = [r], ftKind = ''symbol''\<rparr> # tokenizeFrom rs
      else (case wordSpan rs of (u, v) \<Rightarrow> \<lparr>ftText = r # u, ftKind = ''word''\<rparr> # tokenizeFrom v))"
  by pat_completeness auto
termination
  by (relation "measure length") (auto dest!: span_shorter)

definition tokenizeSQL :: "string \<Rightarrow> sqlFormatToken list" where
  "tokenizeSQL sqlText = tokenizeFrom (TrimSpace sqlText)"

section \<open>Writing\<close>

definition blankTab :: "rune \<Rightarrow> bool" where
  "blankTab r \<longleftrightarrow> r = SP \<or> r = CHR 0x09"

definition TrimRightBlank :: "string \<Rightarrow> string" where
  "TrimRightBlank s = rev (dropWhile blankTab (rev s))"

definition trimTrailingSpace :: "string \<Rightarrow> string" where
  "trimTrailingSpace out = TrimRightBlank out"

definition ensureLineBreak :: "string \<Rightarrow> string" where
  "ensureLineBreak out =
     (let value = trimTrailingSpace out in if value = [] \<or> HasSuffix value [LF] then value else value @ [LF])"

fun splitLines :: "string \<Rightarrow> string list" where
  "splitLines [] = [[]]"
| "splitLines (r # rs) = (if r = LF then [] # splitLines rs
     else case splitLines rs of l # ls \<Rightarrow> (r # l) # ls | [] \<Rightarrow> [[r]])"

fun collapseLines :: "bool \<Rightarrow> string list \<Rightarrow> string list" where
  "collapseLines lastBlank [] = []"
| "collapseLines lastBlank (line # ls) =
     (let trimmed = TrimRightBlank line in
      if TrimSpace trimmed = [] then (if lastBlank then collapseLines lastBlank ls else [] # collapseLines True ls)
      else trimmed # collapseLines False ls)"

definition collapseBlankLines :: "string \<Rightarrow> string" where
  "collapseBlankLines value = JoinWith [LF] (collapseLines False (splitLines value))"

definition phraseAt :: "sqlFormatToken list \<Rightarrow> string list \<Rightarrow> bool" where
  "phraseAt tokens phrase \<longleftrightarrow> length phrase \<le> length tokens
     \<and> list_all2 (\<lambda>t part. ftKind t = ''word'' \<and> ToLower (ftText t) = part) (take (length phrase) tokens) phrase"

definition matchSQLPhrase :: "sqlFormatToken list \<Rightarrow> string \<times> nat" where
  "matchSQLPhrase tokens =
     (case find (phraseAt tokens) sqlFormatterPhrases of
        Some phrase \<Rightarrow> (JoinWith [SP] (map ToUpper phrase), length phrase) | None \<Rightarrow> ([], 0))"

definition normalizeSQLKeyword :: "string \<Rightarrow> string" where
  "normalizeSQLKeyword token = (if ToLower token \<in> set sqlFormatterKeywords then ToUpper token else token)"

definition needsSpace :: "string \<Rightarrow> string \<Rightarrow> string \<Rightarrow> string \<Rightarrow> bool" where
  "needsSpace previous previousKind current currentKind =
     (if previous = [] then False
      else if current \<in> set ['','', '')''] then False
      else if previous \<in> set [''('', '','', []] then False
      else if HasSuffix previous [LF] then False
      else if previousKind = ''symbol'' then previous \<noteq> ''(''
      else if currentKind = ''symbol'' \<and> current \<noteq> ''('' then True else True)"

definition needsSpaceBeforeParen :: "string \<Rightarrow> bool" where
  "needsSpaceBeforeParen previous =
     (if previous \<in> set [[], ''('', '',''] then False else previous \<in> set [''IN'', ''NOT'', ''EXISTS''])"

text \<open>A keyword or a phrase starts a line or follows a blank.\<close>

definition writeWord :: "string \<Rightarrow> string \<Rightarrow> string \<Rightarrow> string \<Rightarrow> string" where
  "writeWord out lastToken lastKind text =
     (if text \<in> set sqlFormatterLineBreaks then ensureLineBreak out
      else if needsSpace lastToken lastKind text ''word'' then out @ [SP] else out) @ text"

definition writeOther :: "string \<Rightarrow> string \<Rightarrow> string \<Rightarrow> string \<Rightarrow> string \<Rightarrow> string" where
  "writeOther out lastToken lastKind text kind =
     (if text = '','' then trimTrailingSpace out @ '', ''
      else if text = ''('' then (if needsSpaceBeforeParen lastToken then out @ [SP] else out) @ ''(''
      else if text = '')'' then trimTrailingSpace out @ '')''
      else (if needsSpace lastToken lastKind text kind then out @ [SP] else out) @ text)"

lemma phrase_consumed: "matchSQLPhrase tokens = (phrase, n) \<Longrightarrow> n > 0 \<Longrightarrow> n \<le> length tokens"
  by (auto simp: matchSQLPhrase_def phraseAt_def find_Some_iff split: option.splits)

function formatLoop :: "sqlFormatToken list \<Rightarrow> string \<Rightarrow> string \<Rightarrow> string \<Rightarrow> string" where
  "formatLoop [] out lastToken lastKind = out"
| "formatLoop (token # rest) out lastToken lastKind =
     (if ftKind token = ''comment'' then
        formatLoop rest (ensureLineBreak (ensureLineBreak out @ TrimSpace (ftText token))) [] (ftKind token)
      else case matchSQLPhrase (token # rest) of (phrase, n) \<Rightarrow>
        if n > 0 then formatLoop (drop (n - 1) rest) (writeWord out lastToken lastKind phrase) phrase ''word''
        else if ftKind token = ''word'' then
          let text = normalizeSQLKeyword (ftText token) in
          formatLoop rest (writeWord out lastToken lastKind text) text (ftKind token)
        else formatLoop rest (writeOther out lastToken lastKind (ftText token) (ftKind token)) (ftText token) (ftKind token))"
  by pat_completeness auto
termination by (relation "measure (\<lambda>(ts, _, _, _). length ts)") auto

definition FormatSQL :: "string \<Rightarrow> string" where
  "FormatSQL sqlText =
     (let tokens = tokenizeSQL sqlText in
      if tokens = [] then [] else TrimSpace (collapseBlankLines (formatLoop tokens [] [] [])))"

section \<open>The use case\<close>

datatype format_error = FormatRefused query_error | FormatRedisRefused redis_error

definition FormatQuerySQL ::
  "console_env \<Rightarrow> nat \<Rightarrow> string option \<Rightarrow> format_error + string \<times> string" where
  "FormatQuerySQL env instanceID reqSQLText =
     (case reqSQLText of
        None \<Rightarrow> Inl (FormatRefused RequestNil)
      | Some sqlText \<Rightarrow>
        (case envInstance env instanceID of
           None \<Rightarrow> Inl (FormatRefused InstanceMissing)
         | Some item \<Rightarrow>
             if normalizeDBType (iDBType item) = DBTypeRedis
             then map_sum FormatRedisRefused id (formatRedisCommand sqlText (normalizeQueryLimit 50 False))
             else
               let safety = AnalyzeReadOnlySQLRaw sqlText in
               if \<not> Allowed safety then Inl (FormatRefused (SafetyDenied (Message safety)))
               else Inr (FormatSQL (SQLText safety), SQLType safety)))"

end
