(* ===== verification/Format_Props.thy ===== *)
theory Format_Props
  imports Sql_Format Query_Props
begin

text \<open>
  The formatter of the console: up to white space and the case of letters it writes what it read, and what the white
  space it adds or drops breaks nevertheless.
\<close>

text \<open>What is left of a text without white space and case.\<close>

definition ink :: "string \<Rightarrow> string" where
  "ink s = ToLower (filter (\<lambda>r. \<not> IsSpace r) s)"

lemma ink_simps [simp]: "ink [] = []" "ink (s @ t) = ink s @ ink t" "ink (r # s) = (if IsSpace r then [] else [rune_lower r]) @ ink s"
  by (simp_all add: ink_def ToLower_def)

lemma spaces [simp]: "IsSpace SP" "IsSpace LF" "blankTab r \<Longrightarrow> IsSpace r"
  by (code_simp, code_simp) (auto simp: blankTab_def IsSpace_def rune_code_def)

lemma ink_blank: "list_all IsSpace s \<Longrightarrow> ink s = []"
  by (induction s) auto

lemma ink_trim [simp]: "ink (TrimSpace s) = ink s"
proof -
  obtain u w where s: "s = u @ TrimSpace s @ w" "list_all IsSpace u" "list_all IsSpace w" using TrimSpace_split [of s] by blast
  have "ink s = ink u @ ink (TrimSpace s) @ ink w" using s(1) by (metis ink_simps(2))
  then show ?thesis using ink_blank s(2,3) by simp
qed

lemma ink_trim_right [simp]: "ink (TrimRightBlank s) = ink s"
proof -
  have "s = rev (dropWhile blankTab (rev s)) @ rev (takeWhile blankTab (rev s))"
    by (metis rev_append rev_rev_ident takeWhile_dropWhile_id)
  moreover have "list_all IsSpace (rev (takeWhile blankTab (rev s)))"
    by (auto simp: list_all_iff dest: set_takeWhileD)
  ultimately show ?thesis unfolding TrimRightBlank_def by (metis append.right_neutral ink_blank ink_simps(2))
qed

lemma ink_break [simp]: "ink (ensureLineBreak s) = ink s" "ink (trimTrailingSpace s) = ink s"
  by (simp_all add: ensureLineBreak_def trimTrailingSpace_def Let_def)

lemma lower_upper: "rune_lower (rune_upper r) = rune_lower r"
  using rune_code_less [of r] by (auto simp: rune_lower_def rune_upper_def Let_def)

lemma space_upper: "IsSpace (rune_upper r) = IsSpace r"
  using rune_code_less [of r] by (auto simp: rune_upper_def IsSpace_def Let_def)

lemma ink_case [simp]: "ink (ToUpper s) = ink s" "ink (ToLower s) = ink s"
  by (induction s) (auto simp: ToUpper_def ToLower_def lower_upper space_upper)

text \<open>The lines.\<close>

lemma ink_join: "ink (JoinWith [LF] ls) = concat (map ink ls)"
  by (induction "[LF]" ls rule: JoinWith.induct) auto

lemma ink_lines: "concat (map ink (splitLines s)) = ink s"
  by (induction s rule: splitLines.induct) (auto split: list.split)

lemma ink_collapse: "concat (map ink (collapseLines b ls)) = concat (map ink ls)"
proof (induction b ls rule: collapseLines.induct)
  case (2 b line ls)
  have "ink line = []" if "TrimSpace (TrimRightBlank line) = []" using that ink_trim [of "TrimRightBlank line"] by simp
  then show ?case using 2 by (auto simp: Let_def)
qed simp

text \<open>The tokens hold the text, and the loop writes the tokens.\<close>

definition tokensInk :: "sqlFormatToken list \<Rightarrow> string" where
  "tokensInk ts = concat (map (ink \<circ> ftText) ts)"

lemma tokensInk_simps [simp]: "tokensInk [] = []" "tokensInk (t # ts) = ink (ftText t) @ tokensInk ts"
  "tokensInk (ts @ us) = tokensInk ts @ tokensInk us"
  by (simp_all add: tokensInk_def)

lemma next_two: "next_rune rs = c \<Longrightarrow> c \<noteq> CHR 0x00 \<Longrightarrow> rs = c # drop 1 rs"
  by (cases rs) (auto simp: next_rune_def)

lemma ink_span: "lineSpan rs = (u, v) \<Longrightarrow> ink u @ ink v = ink rs" "blockSpan rs = (u, v) \<Longrightarrow> ink u @ ink v = ink rs"
  "quoteSpan q rs = (u, v) \<Longrightarrow> ink u @ ink v = ink rs" "wordSpan rs = (u, v) \<Longrightarrow> ink u @ ink v = ink rs"
  using line_span [of rs u v] block_span [of rs u v] quote_span [of q rs u v] word_span [of rs u v] by auto

lemma ink_tokens: "tokensInk (tokenizeFrom rs) = ink rs"
proof (induction rs rule: tokenizeFrom.induct)
  case (2 r rs)
  have tail: "ink (r # rs) = ink (r # c # drop 1 rs)" if "next_rune rs = c" "c \<noteq> CHR 0x00" for c
    using next_two [OF that] by simp
  obtain u1 v1 u2 v2 u3 v3 u4 v4 u5 v5 where p: "lineSpan (drop 1 rs) = (u1, v1)" "lineSpan rs = (u2, v2)"
    "blockSpan (drop 1 rs) = (u3, v3)" "quoteSpan r rs = (u4, v4)" "wordSpan rs = (u5, v5)" by (metis surj_pair)
  consider "IsSpace r" | "\<not> IsSpace r" "r = CHR ''-''" "next_rune rs = CHR ''-''"
    | "\<not> IsSpace r" "\<not> (r = CHR ''-'' \<and> next_rune rs = CHR ''-'')" "r = CHR ''#''"
    | "\<not> IsSpace r" "r = CHR ''/''" "next_rune rs = CHR ''*''"
    | "\<not> IsSpace r" "\<not> (r = CHR ''-'' \<and> next_rune rs = CHR ''-'')" "r \<noteq> CHR ''#''"
        "\<not> (r = CHR ''/'' \<and> next_rune rs = CHR ''*'')" by blast
  then show ?case
  proof cases
    case 1
    then show ?thesis using "2"(1) by simp
  next
    case b: 2
    then have "tokensInk (tokenizeFrom v1) = ink v1" using "2"(2) p(1) by auto
    then show ?thesis using b p(1) ink_span(1) [OF p(1)] tail [OF b(3)] by simp
  next
    case b: 3
    then have "tokensInk (tokenizeFrom v2) = ink v2" using "2"(3) p(2) by auto
    then show ?thesis using b p(2) ink_span(1) [OF p(2)] by simp
  next
    case b: 4
    then have "tokensInk (tokenizeFrom v3) = ink v3" using "2"(4) p(3) by auto
    then show ?thesis using b p(3) ink_span(2) [OF p(3)] tail [OF b(3)] by simp
  next
    case b: 5
    show ?thesis
    proof (cases "r \<in> {SQ, DQ, BT}")
      case True
      then have "tokensInk (tokenizeFrom v4) = ink v4" using "2"(5) [OF b(1-4)] p(4) by auto
      then show ?thesis using b True p(4) ink_span(3) [OF p(4)] by auto
    next
      case quote: False
      show ?thesis
      proof (cases "r \<in> set formatSymbols")
        case True
        then have "tokensInk (tokenizeFrom rs) = ink rs" using "2"(6) [OF b(1-4)] quote by simp
        then show ?thesis using b quote True by auto
      next
        case False
        then have "tokensInk (tokenizeFrom v5) = ink v5" using "2"(7) [OF b(1-4)] quote p(5) by auto
        then show ?thesis using b quote False p(5) ink_span(4) [OF p(5)] by auto
      qed
    qed
  qed
qed simp

lemma phrase_ink:
  assumes "matchSQLPhrase ts = (phrase, n)" "n > 0"
  shows "ink phrase = tokensInk (take n ts)"
proof -
  obtain p where p: "phraseAt ts p" "phrase = JoinWith [SP] (map ToUpper p)" "n = length p"
    using assms by (auto simp: matchSQLPhrase_def find_Some_iff split: option.splits)
  have "ink (JoinWith [SP] (map ToUpper p)) = concat (map ink p)"
    by (induction p rule: induct_list012) auto
  moreover have "concat (map ink p) = tokensInk (take (length p) ts)"
    if "list_all2 (\<lambda>t part. ftKind t = ''word'' \<and> ToLower (ftText t) = part) (take (length p) ts) p"
  proof -
    have "list_all2 (\<lambda>t part. ink (ftText t) = ink part) (take (length p) ts) p"
      using that by (rule list_all2_mono) auto
    then have "map (ink \<circ> ftText) (take (length p) ts) = map ink p"
      by (auto simp: list_all2_conv_all_nth list_eq_iff_nth_eq)
    then show ?thesis by (simp add: tokensInk_def)
  qed
  ultimately show ?thesis using p by (simp add: phraseAt_def)
qed

lemma ink_write [simp]: "ink (writeWord out l k text) = ink out @ ink text"
  "ink (writeOther out l k text kind) = ink out @ ink text"
  by (auto simp: writeWord_def writeOther_def)

lemma ink_keyword [simp]: "ink (normalizeSQLKeyword s) = ink s"
  by (simp add: normalizeSQLKeyword_def)

lemma ink_format: "ink (formatLoop ts out l k) = ink out @ tokensInk ts"
proof (induction ts out l k rule: formatLoop.induct)
  case (2 token rest out l k)
  obtain phrase n where m: "matchSQLPhrase (token # rest) = (phrase, n)" by (metis surj_pair)
  show ?case
  proof (cases "ftKind token \<noteq> ''comment'' \<and> n > 0")
    case True
    then have "take n (token # rest) @ drop (n - 1) rest = token # rest" by (cases n) auto
    then have "ink phrase @ tokensInk (drop (n - 1) rest) = tokensInk (token # rest)"
      using phrase_ink [OF m] True by (metis tokensInk_simps(3))
    then show ?thesis using 2 True m by simp
  qed (use 2 m in \<open>auto simp: Let_def\<close>)
qed simp

text \<open>C34: The formatter only touches white space and the case of letters: what is left of the formatted text without
  them is what is left of the statement, be it code, a literal or a comment.\<close>
theorem format_keeps_text:
  "ToLower (filter (\<lambda>r. \<not> IsSpace r) (FormatSQL sqlText)) = ToLower (filter (\<lambda>r. \<not> IsSpace r) sqlText)"
proof -
  have t: "tokensInk (tokenizeSQL sqlText) = ink sqlText" by (simp add: tokenizeSQL_def ink_tokens)
  have "ink (collapseBlankLines s) = ink s" for s
    by (simp add: collapseBlankLines_def ink_join ink_collapse ink_lines)
  then have "ink (FormatSQL sqlText) = ink sqlText"
    using t by (auto simp: FormatSQL_def Let_def ink_format)
  then show ?thesis by (simp add: ink_def)
qed

section \<open>Defects\<close>

text \<open>Comparison operators of two symbols are torn apart, so the formatted statement is no statement any more.\<close>

lemma format_splits_operators:
  "FormatSQL ''select a from t where a >= 1'' = ''SELECT a'' @ [LF] @ ''FROM t'' @ [LF] @ ''WHERE a > = 1''"
  "FormatSQL ''select 1.5e-3'' = ''SELECT 1.5e - 3''"
  by code_simp+

text \<open>Empty lines inside a literal are collapsed: the formatted statement compares with another text.\<close>

lemma format_changes_literals:
  "FormatSQL (''select '' @ [SQ] @ ''a'' @ [LF, LF, LF] @ ''b'' @ [SQ]) = ''SELECT '' @ [SQ] @ ''a'' @ [LF, LF] @ ''b'' @ [SQ]"
  by code_simp

end
