(* ===== verification/Pg_Wal.thy ===== *)
theory Pg_Wal
  imports Go_Base "HOL-Library.Code_Target_Nat"
begin

text \<open>
  PostgreSQL log positions and segment names (internal/biz/database/pgwal/pgwal.go). Positions and
  the numbers of a segment are 64-bit words with the shifts, masks and wrap-around of the code; the
  segment size, an \<open>int64\<close>, is an integer. The lemmas relate the words to numbers; the properties
  are the round trips of positions and names, the interval a segment covers, and what a segment
  range contains.
\<close>

unbundle bit_operations_syntax

section \<open>Definitions\<close>

definition DefaultSegmentSize :: int where
  "DefaultSegmentSize = 16 * 1024 * 1024"

datatype wal_error =
    InvalidLSN string | NumberError | InvalidSegmentName string | EmptyTimeline
  | TimelineMismatch string string | RangeReversed string string | RangeTooLarge int int
  | PanicMakeCap int \<comment> \<open>the runtime panic of \<open>make\<close> with a negative capacity\<close>

record Segment =
  Name :: string
  TimelineID :: string
  Log :: uint64
  Segment :: uint64
  SegmentNo :: uint64

definition is_hex :: "rune \<Rightarrow> bool" where
  "is_hex c = (let n = rune_code c in
     (48 \<le> n \<and> n \<le> 57) \<or> (65 \<le> n \<and> n \<le> 70) \<or> (97 \<le> n \<and> n \<le> 102))"

definition IsSegmentName :: "string \<Rightarrow> bool" where
  "IsSegmentName value = (let v = TrimSpace value in length v = 24 \<and> list_all is_hex v)"

definition IsTimelineHistoryFile :: "string \<Rightarrow> bool" where
  "IsTimelineHistoryFile value =
     (let v = TrimSpace value in
      length v = 16 \<and> list_all is_hex (take 8 v) \<and> drop 8 v = ''.history'')"

definition TimelineFromHistoryFile :: "string \<Rightarrow> string" where
  "TimelineFromHistoryFile value =
     (let v = TrimSpace value in
      if \<not> IsTimelineHistoryFile v then [] else ToUpper (TrimSuffix v ''.history''))"

definition NormalizeTimelineID :: "string \<Rightarrow> string" where
  "NormalizeTimelineID value =
     (let v = TrimSpace value in
      if v = [] then []
      else let v = TrimPrefix (ToUpper v) ''0X'';
               base = (if v \<noteq> [] \<and> list_all IsDigit v \<and> go_len v \<noteq> 8 then 10 else 16) in
           case ParseUint v base 64 of
             None \<Rightarrow> ToUpper v
           | Some parsed \<Rightarrow> FormatHex8 parsed)"

definition TimelineNumber :: "string \<Rightarrow> wal_error + uint64" where
  "TimelineNumber value =
     (let v = NormalizeTimelineID value in
      if v = [] then Inl EmptyTimeline
      else case ParseUint v 16 64 of None \<Rightarrow> Inl NumberError | Some n \<Rightarrow> Inr (of_nat n))"

text \<open>\<open>strings.Cut\<close> at the first slash.\<close>

definition CutSlash :: "string \<Rightarrow> (string \<times> string) option" where
  "CutSlash s = (if CHR ''/'' \<in> set s
     then Some (takeWhile (\<lambda>c. c \<noteq> CHR ''/'') s, tl (dropWhile (\<lambda>c. c \<noteq> CHR ''/'') s)) else None)"

definition ParseLSN :: "string \<Rightarrow> wal_error + uint64" where
  "ParseLSN value =
     (let v = ToUpper (TrimSpace value) in
      case CutSlash v of
        None \<Rightarrow> Inl (InvalidLSN v)
      | Some (highText, lowText) \<Rightarrow>
          if highText = [] \<or> lowText = [] then Inl (InvalidLSN v)
          else case ParseUint highText 16 32 of
            None \<Rightarrow> Inl NumberError
          | Some high \<Rightarrow>
            (case ParseUint lowText 16 32 of
               None \<Rightarrow> Inl NumberError
             | Some low \<Rightarrow> Inr (push_bit 32 (of_nat high) + of_nat low)))"

definition FormatLSN :: "uint64 \<Rightarrow> string" where
  "FormatLSN value = FormatHex (unat (drop_bit 32 value)) @ ''/'' @ FormatHex (unat (value AND 0xFFFFFFFF))"

definition CompareLSN :: "string \<Rightarrow> string \<Rightarrow> wal_error + int" where
  "CompareLSN left right =
     (case ParseLSN left of
        Inl e \<Rightarrow> Inl e
      | Inr leftValue \<Rightarrow>
        (case ParseLSN right of
           Inl e \<Rightarrow> Inl e
         | Inr rightValue \<Rightarrow>
             Inr (if leftValue < rightValue then -1 else if leftValue > rightValue then 1 else 0)))"

definition effective_size :: "int \<Rightarrow> int" where
  "effective_size segmentSize = (if segmentSize \<le> 0 then DefaultSegmentSize else segmentSize)"

definition segmentsPerLog :: "int \<Rightarrow> uint64" where
  "segmentsPerLog segmentSize =
     (let n = word_of_int (0x100000000 div segmentSize) in if n = 0 then 256 else n)"

definition ParseSegmentName :: "string \<Rightarrow> int \<Rightarrow> wal_error + Segment" where
  "ParseSegmentName value segmentSize =
     (let v = ToUpper (TrimSpace value) in
      if \<not> IsSegmentName v then Inl (InvalidSegmentName v)
      else let size = effective_size segmentSize in
        case ParseUint (take 8 (drop 8 v)) 16 64 of
          None \<Rightarrow> Inl NumberError
        | Some logID \<Rightarrow>
          (case ParseUint (take 8 (drop 16 v)) 16 64 of
             None \<Rightarrow> Inl NumberError
           | Some segmentID \<Rightarrow>
               Inr \<lparr>Name = v, TimelineID = take 8 v, Log = of_nat logID, Segment = of_nat segmentID,
                    SegmentNo = of_nat logID * segmentsPerLog size + of_nat segmentID\<rparr>))"

definition segmentName :: "string \<Rightarrow> uint64 \<Rightarrow> uint64 \<Rightarrow> string" where
  "segmentName timelineID logID segmentID =
     timelineID @ FormatHex8 (unat logID) @ FormatHex8 (unat segmentID)"

definition SegmentForLSN :: "string \<Rightarrow> uint64 \<Rightarrow> int \<Rightarrow> Segment" where
  "SegmentForLSN timelineID lsn segmentSize =
     (let size = effective_size segmentSize;
          timeline = NormalizeTimelineID timelineID;
          timeline = (if timeline = [] then ''00000001'' else timeline);
          logID = drop_bit 32 lsn;
          low = lsn AND 0xFFFFFFFF;
          segmentID = low div word_of_int size
      in \<lparr>Name = segmentName timeline logID segmentID, TimelineID = timeline, Log = logID,
          Segment = segmentID, SegmentNo = logID * segmentsPerLog size + segmentID\<rparr>)"

definition SegmentLSNRange :: "Segment \<Rightarrow> int \<Rightarrow> uint64 \<times> uint64" where
  "SegmentLSNRange segment segmentSize =
     (let size = effective_size segmentSize;
          start = push_bit 32 (Log segment) + Segment segment * word_of_int size
      in (start, start + word_of_int size))"

definition nextSegment :: "Segment \<Rightarrow> int \<Rightarrow> Segment" where
  "nextSegment current segmentSize =
     (let size = effective_size segmentSize;
          segmentID = Segment current + 1;
          (logID, segmentID) = (if segmentID \<ge> segmentsPerLog size then (Log current + 1, 0)
                                else (Log current, segmentID))
      in current\<lparr>Segment := segmentID, Log := logID, SegmentNo := SegmentNo current + 1,
                 Name := segmentName (TimelineID current) logID segmentID\<rparr>)"

lemma nextSegment_fields [simp]:
  "SegmentNo (nextSegment s z) = SegmentNo s + 1" "TimelineID (nextSegment s z) = TimelineID s"
  by (simp_all add: nextSegment_def Let_def split: prod.split)

text \<open>The loop of \<open>SegmentRange\<close>. It ends: the distance to the end number shrinks, also when the number
  wraps around.\<close>

function segmentLoop :: "Segment \<Rightarrow> uint64 \<Rightarrow> int \<Rightarrow> Segment list" where
  "segmentLoop current endNo segmentSize =
     (if SegmentNo current = endNo then [current]
      else current # segmentLoop (nextSegment current segmentSize) endNo segmentSize)"
  by pat_completeness auto

termination
proof (relation "measure (\<lambda>(current, endNo, _). unat (endNo - SegmentNo current))")
  fix current :: Segment and endNo :: uint64 and segmentSize :: int
  assume "SegmentNo current \<noteq> endNo"
  then have "endNo - SegmentNo current \<noteq> 0" by simp
  then have "unat (endNo - SegmentNo current - 1) < unat (endNo - SegmentNo current)"
    by (simp add: unat_minus_one unat_gt_0)
  moreover have "endNo - (SegmentNo current + 1) = endNo - SegmentNo current - 1" by (simp add: algebra_simps)
  ultimately show "((nextSegment current segmentSize, endNo, segmentSize), (current, endNo, segmentSize))
      \<in> measure (\<lambda>(current, endNo, _). unat (endNo - SegmentNo current))"
    by (simp only: in_measure prod.case nextSegment_fields)
qed simp

declare segmentLoop.simps [simp del]

definition wrap_int64 :: "int \<Rightarrow> int" where
  "wrap_int64 x = (x + 2 ^ 63) mod 2 ^ 64 - 2 ^ 63"

definition SegmentRange :: "string \<Rightarrow> string \<Rightarrow> int \<Rightarrow> int \<Rightarrow> wal_error + Segment list" where
  "SegmentRange start end segmentSize maxSegments =
     (case ParseSegmentName start segmentSize of
        Inl e \<Rightarrow> Inl e
      | Inr startSegment \<Rightarrow>
      (case ParseSegmentName end segmentSize of
        Inl e \<Rightarrow> Inl e
      | Inr endSegment \<Rightarrow>
        if TimelineID startSegment \<noteq> TimelineID endSegment
        then Inl (TimelineMismatch (TimelineID startSegment) (TimelineID endSegment))
        else if SegmentNo endSegment < SegmentNo startSegment then Inl (RangeReversed start end)
        else let maxSegments = (if maxSegments \<le> 0 then 10000 else maxSegments);
                 count = wrap_int64 (wrap_int64 (uint (SegmentNo endSegment - SegmentNo startSegment)) + 1) in
        if count > maxSegments then Inl (RangeTooLarge count maxSegments)
        else if count < 0 then Inl (PanicMakeCap count)
        else Inr (segmentLoop startSegment (SegmentNo endSegment) segmentSize)))"

section \<open>Lemmas\<close>

text \<open>Hexadecimal texts.\<close>

lemma digit_value_rune: "d < 16 \<Longrightarrow> digit_value (digit_rune d) = Some d"
  by (auto simp: digit_value_def digit_rune_def Let_def)

lemma parse_digits_append:
  "parse_digits base acc (s @ t) = (case parse_digits base acc s of None \<Rightarrow> None | Some v \<Rightarrow> parse_digits base v t)"
  by (induction base acc s rule: parse_digits.induct) (auto split: option.split)

lemma parse_digits_of: "parse_digits 16 0 (digits_of 16 n) = Some n"
proof (induction "16::nat" n rule: digits_of.induct)
  case (1 n)
  show ?case
  proof (cases "n < 16")
    case True
    then show ?thesis by (subst digits_of.simps) (simp add: digit_value_rune)
  next
    case False
    have "n mod 16 < 16" by simp
    then show ?thesis
      using 1 False by (subst digits_of.simps) (simp add: parse_digits_append digit_value_rune)
  qed
qed

lemma digits_of_not_Nil: "digits_of b n \<noteq> []"
  by (subst digits_of.simps) simp

lemma ParseUint_FormatHex: "n < 2 ^ bits \<Longrightarrow> ParseUint (FormatHex n) 16 bits = Some n"
  by (simp add: ParseUint_def FormatHex_def digits_of_not_Nil parse_digits_of)

lemma parse_digits_zeros: "parse_digits 16 0 (replicate k CHR ''0'' @ s) = parse_digits 16 0 s"
proof (induction k)
  case (Suc k)
  have "digit_value CHR ''0'' = Some 0" by code_simp
  with Suc show ?case by simp
qed simp

lemma ParseUint_FormatHex8: "n < 2 ^ bits \<Longrightarrow> ParseUint (FormatHex8 n) 16 bits = Some n"
  by (simp add: ParseUint_def FormatHex8_def PadLeft_def FormatHex_def digits_of_not_Nil
      parse_digits_zeros parse_digits_of)

lemma length_digits_of: "n < 16 ^ k \<Longrightarrow> 0 < k \<Longrightarrow> length (digits_of 16 n) \<le> k"
proof (induction k arbitrary: n)
  case (Suc k)
  show ?case
  proof (cases "n < 16")
    case True
    then show ?thesis by (subst digits_of.simps) simp
  next
    case False
    then have "0 < k" using Suc.prems by (cases k) auto
    moreover have "n div 16 < 16 ^ k" using Suc.prems by (simp add: less_mult_imp_div_less mult.commute)
    ultimately have "length (digits_of 16 (n div 16)) \<le> k" using Suc.IH by simp
    with False show ?thesis by (subst digits_of.simps) simp
  qed
qed simp

lemma length_FormatHex8: "n < 2 ^ 32 \<Longrightarrow> length (FormatHex8 n) = 8"
  using length_digits_of [of n 8] by (simp add: FormatHex8_def PadLeft_def FormatHex_def)

text \<open>The runes of a formatted number are upper-case hexadecimal digits.\<close>

definition upper_hex :: "rune \<Rightarrow> bool" where
  "upper_hex c = (is_hex c \<and> rune_upper c = c \<and> c \<noteq> CHR ''/'' \<and> \<not> IsSpace c)"

lemma upper_hex_code:
  assumes "48 \<le> rune_code c \<and> rune_code c \<le> 57 \<or> 65 \<le> rune_code c \<and> rune_code c \<le> 70"
  shows "upper_hex c"
proof -
  have "is_hex c" "\<not> IsSpace c" "rune_upper c = c"
    using assms by (auto simp: is_hex_def IsSpace_def rune_upper_def Let_def)
  moreover have "c \<noteq> CHR ''/''"
  proof
    assume "c = CHR ''/''"
    then have "rune_code c = 47" by (simp add: rune_code_def)
    with assms show False by simp
  qed
  ultimately show ?thesis by (simp add: upper_hex_def)
qed

lemma upper_hex_digit: "d < 16 \<Longrightarrow> upper_hex (digit_rune d)"
  by (rule upper_hex_code) (auto simp: digit_rune_def)

lemma upper_hex_digits: "list_all upper_hex (digits_of 16 n)"
proof (induction "16::nat" n rule: digits_of.induct)
  case (1 n)
  show ?case
    using 1 upper_hex_digit by (subst digits_of.simps) (auto simp: list_all_iff)
qed

lemma upper_hex_FormatHex: "list_all upper_hex (FormatHex n)"
  by (simp add: FormatHex_def upper_hex_digits)

lemma upper_hex_FormatHex8: "list_all upper_hex (FormatHex8 n)"
proof -
  have "upper_hex CHR ''0''" by (rule upper_hex_code) (simp add: rune_code_def)
  then show ?thesis
    using upper_hex_digits [of n] by (auto simp: FormatHex8_def PadLeft_def FormatHex_def list_all_iff)
qed

lemma ToUpper_upper_hex: "list_all upper_hex s \<Longrightarrow> ToUpper s = s"
  by (induction s) (auto simp: ToUpper_def upper_hex_def)

lemma upper_hex_trim: "list_all upper_hex s \<Longrightarrow> TrimSpace s = s"
  by (rule trimmed_no_space) (auto simp: list_all_iff upper_hex_def)

text \<open>Words.\<close>

lemma low_word: "unat (v AND 0xFFFFFFFF :: uint64) = unat v mod 2 ^ 32"
proof -
  have "(0xFFFFFFFF :: uint64) = mask 32" by (simp add: mask_eq_exp_minus_1)
  then have "v AND 0xFFFFFFFF = v mod 2 ^ 32" by (simp only: take_bit_eq_mask [symmetric] take_bit_eq_mod)
  then show ?thesis by (simp add: unat_mod_distrib)
qed

lemma high_word: "unat (drop_bit 32 v :: uint64) = unat v div 2 ^ 32"
  by (simp add: drop_bit_eq_div unat_div_distrib)

lemma join_word:
  assumes "h < 2 ^ 32" "l < 2 ^ 32"
  shows "unat (push_bit 32 (of_nat h) + of_nat l :: uint64) = h * 2 ^ 32 + l"
proof -
  have "h * 2 ^ 32 + l < 2 ^ 64" using assms by simp
  then have "unat (of_nat (h * 2 ^ 32 + l) :: uint64) = h * 2 ^ 32 + l"
    by (simp only: unat_of_nat len_num1 len_bit0 take_bit_eq_mod) simp
  moreover have "(push_bit 32 (of_nat h) + of_nat l :: uint64) = of_nat (h * 2 ^ 32 + l)"
    by (simp add: push_bit_eq_mult mult.commute)
  ultimately show ?thesis by (simp only:)
qed

lemma digit_rune_value: "upper_hex c \<Longrightarrow> digit_value c = Some d \<Longrightarrow> digit_rune d = c \<and> d < 16"
  by (auto simp: upper_hex_def is_hex_def digit_value_def digit_rune_def rune_upper_def Let_def rune_eq_iff
      split: if_splits)

lemma parse_digits_PadLeft:
  assumes "list_all upper_hex s" "parse_digits 16 0 s = Some n" "s \<noteq> []"
  shows "PadLeft (length s) (digits_of 16 n) = s"
  using assms
proof (induction s arbitrary: n rule: rev_induct)
  case (snoc c t)
  then obtain m where m: "parse_digits 16 0 t = Some m"
    by (auto simp: parse_digits_append split: option.splits)
  with snoc.prems obtain d where d: "digit_value c = Some d" "n = m * 16 + d"
    by (auto simp: parse_digits_append split: option.splits if_splits)
  from digit_rune_value [OF _ d(1)] snoc.prems(1) have c: "digit_rune d = c" "d < 16" by auto
  show ?case
  proof (cases "t = []")
    case True
    then have "m = 0" using m by simp
    then show ?thesis using True c d(2) by (subst digits_of.simps) (simp add: PadLeft_def)
  next
    case False
    from snoc.IH [OF _ m False] snoc.prems(1) have IH: "PadLeft (length t) (digits_of 16 m) = t" by simp
    show ?thesis
    proof (cases "m = 0")
      case True
      have "digits_of 16 0 = ''0''" by (subst digits_of.simps) code_simp
      then have "replicate (length t) CHR ''0'' = t"
        using IH True False by (cases t) (auto simp: PadLeft_def replicate_append_same)
      then show ?thesis using True c d(2) by (subst digits_of.simps) (simp add: PadLeft_def)
    next
      case pos: False
      have "digits_of 16 n = digits_of 16 m @ [c]"
        using pos c d(2) by (subst digits_of.simps) simp
      then show ?thesis using IH by (simp add: PadLeft_def)
    qed
  qed
qed simp

lemma is_hex_upper: "is_hex c \<Longrightarrow> rune_upper c = c \<Longrightarrow> upper_hex c"
  by (rule upper_hex_code) (auto simp: is_hex_def rune_upper_def Let_def split: if_splits dest: arg_cong [of _ _ rune_code])

lemma rune_upper_upper [simp]: "rune_upper (rune_upper c) = rune_upper c"
  using rune_code_less [of c] by (auto simp: rune_upper_def Let_def)

lemma FormatHex8_ParseUint:
  "list_all upper_hex s \<Longrightarrow> length s = 8 \<Longrightarrow> ParseUint s 16 bits = Some n \<Longrightarrow> FormatHex8 n = s"
  using parse_digits_PadLeft [of s n]
  by (auto simp: ParseUint_def FormatHex8_def FormatHex_def split: option.splits if_splits)

lemma ParseUint_hex8_bound:
  assumes "list_all upper_hex s" "length s = 8"
  shows "\<exists>n. ParseUint s 16 64 = Some n \<and> n < 2 ^ 32"
proof -
  have "\<exists>m. parse_digits 16 acc s = Some m \<and> m < (acc + 1) * 16 ^ length s"
    if "list_all upper_hex s" for s acc
    using that
  proof (induction s arbitrary: acc)
    case (Cons c s)
    then obtain d where d: "digit_value c = Some d" "d < 16"
      by (auto simp: upper_hex_def is_hex_def digit_value_def rune_upper_def Let_def rune_eq_iff split: if_splits)
    from Cons obtain m where m: "parse_digits 16 (acc * 16 + d) s = Some m" "m < (acc * 16 + d + 1) * 16 ^ length s"
      by auto
    have "(acc * 16 + d + 1) * 16 ^ length s \<le> ((acc + 1) * 16) * 16 ^ length s"
      by (rule mult_le_mono1) (use d in simp)
    with m(2) have "m < ((acc + 1) * 16) * 16 ^ length s" by (rule order_less_le_trans)
    then have "m < (acc + 1) * 16 ^ length (c # s)" by (simp only: list.size add_0_right add_Suc_right power_Suc mult.assoc)
    with m(1) d show ?case by simp
  qed simp
  from this [OF assms(1), of 0] assms(2) show ?thesis by (auto simp: ParseUint_def)
qed

text \<open>Segments whose numbers agree: the number is the log times the segments per log plus the segment.\<close>

definition wf_segment :: "uint64 \<Rightarrow> Segment \<Rightarrow> bool" where
  "wf_segment spl s \<longleftrightarrow> unat (Segment s) < unat spl
     \<and> unat (SegmentNo s) = unat (Log s) * unat spl + unat (Segment s)
     \<and> Name s = segmentName (TimelineID s) (Log s) (Segment s)"

lemma unat_Suc: "unat (x :: uint64) < 2 ^ 64 - 1 \<Longrightarrow> unat (x + 1) = unat x + 1"
  by (simp add: unat_word_ariths take_bit_eq_mod)

lemma wf_nextSegment:
  assumes "wf_segment (segmentsPerLog (effective_size z)) s" "unat (SegmentNo s) < 2 ^ 64 - 1"
  shows "wf_segment (segmentsPerLog (effective_size z)) (nextSegment s z)"
proof -
  let ?spl = "segmentsPerLog (effective_size z)"
  have seg: "unat (Segment s) < unat ?spl" and no: "unat (SegmentNo s) = unat (Log s) * unat ?spl + unat (Segment s)"
    using assms(1) by (simp_all add: wf_segment_def)
  have "unat ?spl < 2 ^ 64" by (rule order_less_le_trans [OF unsigned_less]) simp
  with seg have s1: "unat (Segment s + 1) = unat (Segment s) + 1" by (intro unat_Suc) linarith
  have "unat (Log s) \<le> unat (Log s) * unat ?spl" using seg by simp
  with no assms(2) have l1: "unat (Log s + 1) = unat (Log s) + 1" by (intro unat_Suc) linarith
  have n1: "unat (SegmentNo s + 1) = unat (SegmentNo s) + 1" by (rule unat_Suc [OF assms(2)])
  show ?thesis
  proof (cases "?spl \<le> Segment s + 1")
    case True
    then have "unat (Segment s) + 1 = unat ?spl" using s1 seg by (simp add: word_le_nat_alt)
    with True seg no l1 n1 show ?thesis by (simp add: wf_segment_def nextSegment_def Let_def)
  next
    case False
    then have "unat (Segment s) + 1 < unat ?spl" using s1 by (simp add: word_le_nat_alt)
    with False s1 no n1 show ?thesis by (simp add: wf_segment_def nextSegment_def Let_def)
  qed
qed

lemma segmentLoop_nth:
  assumes "unat (SegmentNo s) \<le> unat e"
  shows "length (segmentLoop s e z) = unat e - unat (SegmentNo s) + 1
    \<and> (\<forall>i < length (segmentLoop s e z). segmentLoop s e z ! i = ((\<lambda>x. nextSegment x z) ^^ i) s)"
  using assms
proof (induction s e z rule: segmentLoop.induct)
  case (1 s e z)
  show ?case
  proof (cases "SegmentNo s = e")
    case True
    then show ?thesis by (subst (1 2 3) segmentLoop.simps) simp
  next
    case False
    then have lt: "unat (SegmentNo s) < unat e" using 1(2) by (metis le_neq_implies_less unsigned_word_eqI)
    have "unat e < 2 ^ 64" by (rule order_less_le_trans [OF unsigned_less]) simp
    then have n1: "unat (SegmentNo s + 1) = unat (SegmentNo s) + 1" using lt by (intro unat_Suc) linarith
    note IH = 1(1) [OF False]
    have "segmentLoop s e z = s # segmentLoop (nextSegment s z) e z"
      using False by (subst segmentLoop.simps) simp
    with IH n1 lt show ?thesis
      by (auto simp: nth_Cons' less_Suc_eq_0_disj funpow_Suc_right simp del: funpow.simps)
  qed
qed

section \<open>Properties\<close>

text \<open>Every 64-bit log position survives formatting and parsing, and comparing formatted positions
  compares the positions.\<close>

theorem lsn_round_trip:
  "ParseLSN (FormatLSN v) = Inr v
   \<and> CompareLSN (FormatLSN v) (FormatLSN u) = Inr (sgn (int (unat v) - int (unat u)))"
proof -
  have parse: "ParseLSN (FormatLSN v) = Inr v" for v
  proof -
    let ?h = "unat v div 2 ^ 32" and ?l = "unat v mod 2 ^ 32"
    let ?H = "FormatHex ?h" and ?L = "FormatHex ?l"
    have v: "FormatLSN v = ?H @ CHR ''/'' # ?L" by (simp only: FormatLSN_def high_word low_word append.simps)
    have hex: "list_all upper_hex ?H" "list_all upper_hex ?L" "?H \<noteq> []" "?L \<noteq> []"
      by (simp_all only: upper_hex_FormatHex FormatHex_def digits_of_not_Nil not_False_eq_True upper_hex_digits)
    have slash: "rune_upper CHR ''/'' = CHR ''/''" "\<not> IsSpace CHR ''/''" by code_simp+
    have up: "ToUpper (FormatLSN v) = FormatLSN v"
      using ToUpper_upper_hex [OF hex(1)] ToUpper_upper_hex [OF hex(2)] slash
      unfolding v by (simp only: ToUpper_def map_append list.map)
    have trim: "TrimSpace (FormatLSN v) = FormatLSN v"
      using hex slash unfolding v by (intro trimmed_no_space) (auto simp: list_all_iff upper_hex_def)
    have ns: "\<forall>c \<in> set ?H. c \<noteq> CHR ''/''" using hex(1) by (auto simp: list_all_iff upper_hex_def)
    then have cut: "CutSlash (?H @ CHR ''/'' # ?L) = Some (?H, ?L)"
      by (simp add: CutSlash_def takeWhile_append2 dropWhile_append2)
    have hl: "?h < 2 ^ 32" "?l < 2 ^ 32"
    proof -
      have "unat v < 2 ^ 64" by (rule order_less_le_trans [OF unsigned_less]) simp
      then show "?h < 2 ^ 32" by (simp add: less_mult_imp_div_less)
      show "?l < 2 ^ 32" by simp
    qed
    have "unat (push_bit 32 (of_nat ?h) + of_nat ?l :: uint64) = unat v"
      using join_word [OF hl] by simp
    then have "push_bit 32 (of_nat ?h) + of_nat ?l = v" by (rule unsigned_word_eqI)
    then show ?thesis
      using cut hex(3,4) ParseUint_FormatHex [OF hl(1)] ParseUint_FormatHex [OF hl(2)]
      by (simp only: ParseLSN_def Let_def trim up) (simp only: v option.case prod.case simp_thms if_False)
  qed
  have sgn_nat: "(if a < b then -1 else if b < a then 1 else 0) = sgn (int a - int b)" for a b :: nat
    by (simp add: sgn_if)
  show ?thesis
    unfolding CompareLSN_def parse sum.case word_less_nat_alt sgn_nat by simp
qed

text \<open>The segment computed for a position covers it: the interval of the segment starts at or before
  the position and ends behind it, for every positive segment size and for the default.\<close>

theorem segment_covers_lsn:
  assumes "z < 2 ^ 63" "SegmentLSNRange (SegmentForLSN timeline lsn z) z = (start, stop)"
  shows "unat start \<le> unat lsn \<and> unat lsn < unat start + nat (effective_size z)
    \<and> stop = start + word_of_int (effective_size z)"
proof -
  let ?z = "effective_size z"
  have z: "0 < ?z" "?z < 2 ^ 63" using assms(1) by (auto simp: effective_size_def DefaultSegmentSize_def)
  have uz: "unat (word_of_int ?z :: uint64) = nat ?z"
    using z by (simp add: unat_eq_nat_uint uint_word_of_int take_bit_eq_mod)
  let ?hi = "unat lsn div 2 ^ 32" and ?lo = "unat lsn mod 2 ^ 32"
  let ?q = "?lo div nat ?z * nat ?z"
  have q: "?q \<le> ?lo" "?lo < ?q + nat ?z"
    using z dividend_less_div_times [of "nat ?z" ?lo] by (simp_all add: div_times_less_eq_dividend add.commute)
  have lsn: "unat lsn < 2 ^ 64" by (rule order_less_le_trans [OF unsigned_less]) simp
  have start: "start = push_bit 32 (drop_bit 32 lsn) + ((lsn AND 0xFFFFFFFF) div word_of_int ?z) * word_of_int ?z"
    and stop: "stop = start + word_of_int ?z"
    using assms(2) by (auto simp: SegmentLSNRange_def SegmentForLSN_def Let_def)
  have hi: "unat (push_bit 32 (drop_bit 32 lsn) :: uint64) = ?hi * 2 ^ 32"
  proof -
    have "?hi < 2 ^ 32" using lsn by (simp add: less_mult_imp_div_less)
    from join_word [OF this, of 0] show ?thesis by (simp only: high_word [symmetric]) (simp add: word_of_nat_eq_0_iff)
  qed
  have lo: "unat (((lsn AND 0xFFFFFFFF) div word_of_int ?z) * word_of_int ?z) = ?q"
  proof -
    have d: "unat ((lsn AND 0xFFFFFFFF) div word_of_int ?z) = ?lo div nat ?z"
      by (simp only: unat_div_distrib low_word uz)
    have "?q < 2 ^ 64" using q(1) by (rule order_le_less_trans) (rule order_less_trans [of _ "2 ^ 32"], simp_all)
    then show ?thesis
      using unat_mult_lem [of "(lsn AND 0xFFFFFFFF) div word_of_int ?z" "word_of_int ?z"]
      unfolding d uz by simp
  qed
  have "?hi * 2 ^ 32 + ?q \<le> unat lsn" using q(1) by (metis add_left_mono div_mult_mod_eq)
  then have us: "unat start = ?hi * 2 ^ 32 + ?q"
    using lsn unat_add_lem [of "push_bit 32 (drop_bit 32 lsn)" "((lsn AND 0xFFFFFFFF) div word_of_int ?z) * word_of_int ?z"]
    unfolding start hi lo by simp
  have "unat lsn = ?hi * 2 ^ 32 + ?lo" by (rule div_mult_mod_eq [symmetric])
  with us q stop show ?thesis by linarith
qed

theorem segment_covers_lsn_witness:
  "unat (0x1800000000 :: uint64) \<le> unat (0x1800000098 :: uint64)
   \<and> SegmentLSNRange (SegmentForLSN ''3'' 0x1800000098 0) 0 = (0x1800000000, 0x1801000000)"
proof -
  have r: "SegmentLSNRange (SegmentForLSN ''3'' 0x1800000098 0) 0 = (0x1800000000, 0x1801000000)"
    by (simp add: SegmentLSNRange_def SegmentForLSN_def effective_size_def DefaultSegmentSize_def Let_def)
  have "unat (0x1800000000 :: uint64) \<le> unat (0x1800000098 :: uint64)"
    using segment_covers_lsn [OF _ r] by simp
  with r show ?thesis by blast
qed

text \<open>What \<open>ParseSegmentName\<close> delivers.\<close>

lemma ParseSegmentName_fields:
  assumes "ParseSegmentName s z = Inr seg"
  obtains a b where "a < 2 ^ 32" "b < 2 ^ 32" "Log seg = of_nat a" "Segment seg = of_nat b"
    "SegmentNo seg = Log seg * segmentsPerLog (effective_size z) + Segment seg"
    "Name seg = segmentName (TimelineID seg) (Log seg) (Segment seg)"
proof -
  let ?v = "ToUpper (TrimSpace s)"
  have name: "IsSegmentName ?v"
    using assms by (auto simp: ParseSegmentName_def Let_def split: if_splits)
  have sp: "IsSpace (rune_upper c) = IsSpace c" for c
    using rune_code_less [of c] by (auto simp: IsSpace_def rune_upper_def Let_def)
  have "trimmed_text ?v"
  proof (cases "TrimSpace s = []")
    case False
    then have "hd ?v = rune_upper (hd (TrimSpace s))" "last ?v = rune_upper (last (TrimSpace s))"
      unfolding ToUpper_def by (simp_all only: hd_map last_map simp_thms)
    with trimmed_TrimSpace [of s] False show ?thesis unfolding trimmed_text_def by (simp only: sp) blast
  qed (simp add: trimmed_text_def ToUpper_def)
  then have "TrimSpace ?v = ?v" by (rule TrimSpace_trimmed)
  then have len: "length ?v = 24" and hex: "list_all is_hex ?v" using name by (simp_all add: IsSegmentName_def Let_def)
  have up: "list_all upper_hex ?v"
    using hex is_hex_upper by (auto simp: list_all_iff ToUpper_def)
  then have hexes: "list_all upper_hex (take 8 (drop 8 ?v))" "list_all upper_hex (take 8 (drop 16 ?v))"
    by (auto simp: list_all_iff dest: in_set_takeD in_set_dropD)
  have lens: "length (take 8 (drop 8 ?v)) = 8" "length (take 8 (drop 16 ?v)) = 8" using len by simp_all
  obtain a where a: "ParseUint (take 8 (drop 8 ?v)) 16 64 = Some a" "a < 2 ^ 32"
    using ParseUint_hex8_bound [OF hexes(1) lens(1)] by blast
  obtain b where b: "ParseUint (take 8 (drop 16 ?v)) 16 64 = Some b" "b < 2 ^ 32"
    using ParseUint_hex8_bound [OF hexes(2) lens(2)] by blast
  have seg: "seg = \<lparr>Name = ?v, TimelineID = take 8 ?v, Log = of_nat a, Segment = of_nat b,
      SegmentNo = of_nat a * segmentsPerLog (effective_size z) + of_nat b\<rparr>"
    using assms name a(1) b(1) by (simp add: ParseSegmentName_def Let_def)
  have u: "unat (of_nat n :: uint64) = n" if "n < 2 ^ 32" for n
    using that by (simp add: unat_of_nat take_bit_eq_mod)
  have "drop 8 ?v = take 8 (drop 8 ?v) @ drop 8 (drop 8 ?v)" by (rule append_take_drop_id [symmetric])
  moreover have "drop 8 (drop 8 ?v) = take 8 (drop 16 ?v)" using len by simp
  ultimately have "?v = take 8 ?v @ take 8 (drop 8 ?v) @ take 8 (drop 16 ?v)" by (metis append_take_drop_id)
  then have "Name seg = segmentName (TimelineID seg) (Log seg) (Segment seg)"
    using FormatHex8_ParseUint [OF hexes(1) lens(1) a(1)] FormatHex8_ParseUint [OF hexes(2) lens(2) b(1)] a(2) b(2)
    unfolding seg segmentName_def by (simp only: Segment.select_convs u)
  with that [OF a(2) b(2)] show thesis by (simp add: seg)
qed

text \<open>The segments per log, and the bound on the number of a named segment.\<close>

lemma segmentsPerLog_bound:
  assumes "2 < z"
  shows "0 < unat (segmentsPerLog z) \<and> unat (segmentsPerLog z) \<le> 1431655765"
proof (cases "0x100000000 div z = 0")
  case True
  then show ?thesis by (simp add: segmentsPerLog_def Let_def)
next
  case False
  have "0x100000000 div z \<le> 0x100000000 div 3" using assms by (intro zdiv_mono2) simp_all
  then have le: "0x100000000 div z \<le> 1431655765" by simp
  have "0 \<le> 0x100000000 div z" using assms by (simp add: pos_imp_zdiv_nonneg_iff)
  with False have pos: "0 < 0x100000000 div z" by linarith
  from le pos have u: "unat (word_of_int (0x100000000 div z) :: uint64) = nat (0x100000000 div z)"
    by (simp add: unat_eq_nat_uint uint_word_of_int take_bit_eq_mod)
  with pos have "word_of_int (0x100000000 div z) \<noteq> (0 :: uint64)" by (metis unat_0 nat_0_iff not_less)
  with u le pos show ?thesis by (simp add: segmentsPerLog_def Let_def)
qed

lemma ParseSegmentName_number:
  assumes "ParseSegmentName s z = Inr seg" "z \<noteq> 1" "z \<noteq> 2"
  shows "unat (SegmentNo seg) < 2 ^ 63 - 1"
    "unat (SegmentNo seg) = unat (Log seg) * unat (segmentsPerLog (effective_size z)) + unat (Segment seg)"
proof -
  let ?spl = "segmentsPerLog (effective_size z)"
  from ParseSegmentName_fields [OF assms(1)] obtain a b where f: "a < 2 ^ 32" "b < 2 ^ 32" "Log seg = of_nat a"
    "Segment seg = of_nat b" "SegmentNo seg = Log seg * ?spl + Segment seg" by metis
  have u: "unat (of_nat n :: uint64) = n" if "n < 2 ^ 32" for n
    using that by (simp add: unat_of_nat take_bit_eq_mod)
  have "2 < effective_size z"
    using assms(2,3) by (auto simp: effective_size_def DefaultSegmentSize_def)
  then have spl: "unat ?spl \<le> 1431655765" using segmentsPerLog_bound by blast
  have "a * unat ?spl \<le> (2 ^ 32 - 1) * 1431655765" using f(1) spl by (intro mult_le_mono) simp_all
  then have bound: "a * unat ?spl + b < 2 ^ 63 - 1" using f(2) by simp
  have m: "unat (Log seg * ?spl) = a * unat ?spl"
    using unat_mult_lem [of "Log seg" ?spl] bound f(3) u [OF f(1)] by simp
  then have "unat (SegmentNo seg) = a * unat ?spl + b"
    using unat_add_lem [of "Log seg * ?spl" "Segment seg"] bound f(4,5) u [OF f(2)] by simp
  with bound u [OF f(1)] u [OF f(2)] f(3,4)
  show "unat (SegmentNo seg) < 2 ^ 63 - 1"
    "unat (SegmentNo seg) = unat (Log seg) * unat ?spl + unat (Segment seg)" by simp_all
qed

lemma next_iter_fields:
  "TimelineID (((\<lambda>x. nextSegment x z) ^^ i) s) = TimelineID s"
  "SegmentNo (((\<lambda>x. nextSegment x z) ^^ i) s) = SegmentNo s + of_nat i"
  by (induction i) (simp_all add: algebra_simps)

lemma wf_iter:
  assumes "wf_segment (segmentsPerLog (effective_size z)) s" "unat (SegmentNo s) + i < 2 ^ 64"
  shows "wf_segment (segmentsPerLog (effective_size z)) (((\<lambda>x. nextSegment x z) ^^ i) s)
    \<and> unat (SegmentNo (((\<lambda>x. nextSegment x z) ^^ i) s)) = unat (SegmentNo s) + i"
  using assms
proof (induction i)
  case (Suc i)
  then have IH: "wf_segment (segmentsPerLog (effective_size z)) (((\<lambda>x. nextSegment x z) ^^ i) s)"
    "unat (SegmentNo (((\<lambda>x. nextSegment x z) ^^ i) s)) = unat (SegmentNo s) + i" by simp_all
  then have "unat (SegmentNo (((\<lambda>x. nextSegment x z) ^^ i) s)) < 2 ^ 64 - 1" using Suc.prems(2) by simp
  with wf_nextSegment [OF IH(1)] unat_Suc IH(2) show ?case by simp
qed simp

lemma wf_segment_unique:
  assumes "wf_segment spl s" "wf_segment spl t" "SegmentNo s = SegmentNo t" "TimelineID s = TimelineID t"
  shows "s = t"
proof -
  have a: "unat (Segment s) < unat spl" "unat (Segment t) < unat spl"
    "unat (Log s) * unat spl + unat (Segment s) = unat (Log t) * unat spl + unat (Segment t)"
    using assms unfolding wf_segment_def by metis+
  have "unat (Segment s) = unat (Segment t)"
    using a by (metis mod_less mod_mult_self3)
  moreover from this a have "unat (Log s) = unat (Log t)" by simp
  ultimately have "Segment s = Segment t" "Log s = Log t" by (simp_all add: unsigned_word_eqI)
  with assms show ?thesis by (simp add: wf_segment_def)
qed

lemma nat_sum_small: "(a::nat) \<le> b \<Longrightarrow> b < 2 ^ 63 - 1 \<Longrightarrow> a + (b - a) < 2 ^ 64"
  by simp

lemma int_span_small: "(a::nat) \<le> b \<Longrightarrow> b < 2 ^ 63 - 1 \<Longrightarrow> int b - int a + 1 < 2 ^ 63"
  by simp

text \<open>A segment range that is returned is complete: it starts with the start segment, each element is
  the successor of the one before with the next number on the same timeline, and it has as many
  elements as the numbers say, at most the maximum; it ends with the end segment when both names have
  a segment part below the number of segments per log. Segment sizes of
  one and two bytes, with which the numbers need more than 63 bits, are left out.\<close>

theorem segment_range_complete:
  assumes "ParseSegmentName a z = Inr s" "ParseSegmentName b z = Inr e" "z \<noteq> 1" "z \<noteq> 2"
    "SegmentRange a b z m = Inr segs"
  shows "hd segs = s
    \<and> int (length segs) = uint (SegmentNo e) - uint (SegmentNo s) + 1
    \<and> int (length segs) \<le> (if m \<le> 0 then 10000 else m)
    \<and> (\<forall>i < length segs. TimelineID (segs ! i) = TimelineID s \<and> SegmentNo (segs ! i) = SegmentNo s + of_nat i)
    \<and> (\<forall>i. Suc i < length segs \<longrightarrow> segs ! Suc i = nextSegment (segs ! i) z)
    \<and> (Segment s < segmentsPerLog (effective_size z) \<and> Segment e < segmentsPerLog (effective_size z)
        \<longrightarrow> last segs = e)"
proof -
  let ?spl = "segmentsPerLog (effective_size z)" and ?it = "\<lambda>i. ((\<lambda>x. nextSegment x z) ^^ i) s"
  note ns = ParseSegmentName_number [OF assms(1,3,4)] and ne = ParseSegmentName_number [OF assms(2,3,4)]
  have run: "TimelineID s = TimelineID e" "SegmentNo s \<le> SegmentNo e"
    "segs = segmentLoop s (SegmentNo e) z"
    and cap: "wrap_int64 (wrap_int64 (uint (SegmentNo e - SegmentNo s)) + 1) \<le> (if m \<le> 0 then 10000 else m)"
    using assms by (auto simp: SegmentRange_def Let_def not_less split: if_splits)
  have le: "unat (SegmentNo s) \<le> unat (SegmentNo e)" using run(2) by (simp add: word_le_nat_alt)
  have ui: "uint x = int (unat x)" for x :: uint64 by simp
  have diff: "uint (SegmentNo e - SegmentNo s) = int (unat (SegmentNo e)) - int (unat (SegmentNo s))"
    using run(2) by (simp add: uint_minus_simple_alt [THEN iffD1])
  have w: "wrap_int64 x = x" if "0 \<le> x" "x < 2 ^ 63" for x using that by (simp add: wrap_int64_def)
  have count: "wrap_int64 (wrap_int64 (uint (SegmentNo e - SegmentNo s)) + 1)
      = int (unat (SegmentNo e)) - int (unat (SegmentNo s)) + 1"
  proof -
    have d: "0 \<le> int (unat (SegmentNo e)) - int (unat (SegmentNo s))"
      "int (unat (SegmentNo e)) - int (unat (SegmentNo s)) + 1 < 2 ^ 63"
      using le int_span_small [OF le ne(1)] by linarith+
    then have "wrap_int64 (uint (SegmentNo e - SegmentNo s)) = int (unat (SegmentNo e)) - int (unat (SegmentNo s))"
      unfolding diff by (intro w) linarith+
    then show ?thesis using d by (simp only:) (rule w, linarith+)
  qed
  note loop = segmentLoop_nth [OF le, of z]
  have len: "length segs = unat (SegmentNo e) - unat (SegmentNo s) + 1" using loop run(3) by simp
  have nth: "segs ! i = ?it i" if "i < length segs" for i using loop run(3) that by simp
  have nonempty: "segs \<noteq> []" using len by auto
  show ?thesis
  proof (intro conjI allI impI)
    show "hd segs = s" using nth [of 0] nonempty by (simp add: hd_conv_nth)
    show "int (length segs) = uint (SegmentNo e) - uint (SegmentNo s) + 1" using len le by (simp add: of_nat_diff)
    show "int (length segs) \<le> (if m \<le> 0 then 10000 else m)" using cap count len le by linarith
    fix i assume i: "i < length segs"
    show "TimelineID (segs ! i) = TimelineID s" "SegmentNo (segs ! i) = SegmentNo s + of_nat i"
      by (simp_all only: nth [OF i] next_iter_fields)
  next
    fix i assume i: "Suc i < length segs"
    then show "segs ! Suc i = nextSegment (segs ! i) z" using nth [of "Suc i"] nth [of i] by simp
  next
    assume below: "Segment s < ?spl \<and> Segment e < ?spl"
    have names: "Name s = segmentName (TimelineID s) (Log s) (Segment s)"
      "Name e = segmentName (TimelineID e) (Log e) (Segment e)"
      using ParseSegmentName_fields [OF assms(1)] ParseSegmentName_fields [OF assms(2)] by metis+
    have wf: "wf_segment ?spl s" "wf_segment ?spl e"
      using below ns(2) ne(2) names by (simp_all add: wf_segment_def word_less_nat_alt)
    let ?k = "unat (SegmentNo e) - unat (SegmentNo s)"
    have bound: "unat (SegmentNo s) + ?k < 2 ^ 64"
      by (rule nat_sum_small [OF le ne(1)])
    have "unat (SegmentNo (?it ?k)) = unat (SegmentNo e)" using wf_iter [OF wf(1) bound] le by simp
    then have "SegmentNo (?it ?k) = SegmentNo e" by (rule unsigned_word_eqI)
    moreover have "TimelineID (?it ?k) = TimelineID e" by (simp only: next_iter_fields run(1))
    ultimately have "?it ?k = e" using wf_segment_unique wf_iter [OF wf(1) bound] wf(2) by blast
    moreover have "last segs = ?it ?k" using nth [of ?k] len nonempty by (simp add: last_conv_nth)
    ultimately show "last segs = e" by simp
  qed
qed

theorem segment_range_complete_witness:
  "\<exists>s segs. ParseSegmentName ''0000000100000000000000FE'' 0 = Inr s
    \<and> SegmentRange ''0000000100000000000000FE'' ''000000010000000100000001'' 0 10 = Inr segs
    \<and> hd segs = s \<and> length segs = 4"
proof -
  let ?a = "''0000000100000000000000FE''" and ?b = "''000000010000000100000001''"
  let ?s = "\<lparr>Name = ?a, TimelineID = ''00000001'', Log = 0, Segment = 254, SegmentNo = 254\<rparr>"
  let ?e = "\<lparr>Name = ?b, TimelineID = ''00000001'', Log = 1, Segment = 1, SegmentNo = 257\<rparr>"
  have s: "ParseSegmentName ?a 0 = Inr ?s" and e: "ParseSegmentName ?b 0 = Inr ?e" by code_simp+
  have "\<exists>segs. SegmentRange ?a ?b 0 10 = Inr segs"
    by (simp add: SegmentRange_def s e wrap_int64_def)
  then obtain segs where r: "SegmentRange ?a ?b 0 10 = Inr segs" ..
  from segment_range_complete [OF s e _ _ r] s r show ?thesis by simp
qed

text \<open>A segment name is accepted when its segment part is not below the number of segments per log, and
  then a range may end with another segment than the one asked for: with 16 MiB segments the names
  0000000100000000 00000101 and 0000000100000001 00000001 have the same number.\<close>

theorem segment_number_not_checked:
  "map_sum id SegmentNo (ParseSegmentName ''000000010000000000000101'' 16777216) = Inr 257
   \<and> map_sum id SegmentNo (ParseSegmentName ''000000010000000100000001'' 16777216) = Inr 257
   \<and> map_sum id (map Name) (SegmentRange ''000000010000000000000100'' ''000000010000000100000001'' 16777216 10)
     = Inr [''000000010000000000000100'', ''000000010000000100000000'']"
  by code_simp

text \<open>A hexadecimal timeline with a 0x prefix and only decimal digits is read as a decimal number: 0x10,
  timeline 16, becomes timeline 10 (0000000A), while 0xA is read as hexadecimal.\<close>

theorem timeline_hex_prefix_ignored:
  "NormalizeTimelineID ''0x10'' = ''0000000A'' \<and> NormalizeTimelineID ''0xA'' = ''0000000A''
   \<and> NormalizeTimelineID ''00000010'' = ''00000010''"
  by code_simp

end
