(* ===== verification/Log_Archive.thy ===== *)
theory Log_Archive
  imports Query_Exec
begin

text \<open>
  The continuous log archive (log_archive_stream_control.go, runner_agent.go, and TryAcquireLease and
  ListRunnableForRunner of the data layer): operators start, pause and stop archive streams, runner
  agents authenticate, take leases on streams and report checkpoints.

  The state holds the rows of the three tables; each use case is a function of the state, of an
  environment of parameters (which repositories are configured, their failures, JSON, SHA-256 and
  time parsing) and of the time it reads. Texts the program writes itself are constructors. The
  registration of files by agents and the roll-up and pruning of events are not modelled.
\<close>

section \<open>Data\<close>

text \<open>Why no script can be built for a runner (runner_binlog.go).\<close>

datatype script_error = FileNamesEmpty | FileNameInvalid | AddressIncomplete | UserEmpty | PasswordEmpty

datatype archive_text =
    Plain string \<comment> \<open>a text of a request; \<open>Plain []\<close> is the empty text\<close>
  | WaitingForAgent | StreamPaused archive_text | ManualPause | StreamStopped
  | StreamStoppedFor string | LeaseTaken | LagBeyondTarget | AgentDegraded | AgentFailed
  | HeartbeatFailed | StreamStarted | StreamResumed | LeaseAcquiredText | LeaseReleasedText
  | NothingToArchive | SourceGone | SourceCredentialFailed string | RunnerCredentialFailed string
  | ScriptRefused script_error | RegisterFailed string | OutputCount | NotRequested string

abbreviation ArchiveTypeBinlog :: string where "ArchiveTypeBinlog \<equiv> ''binlog''"
abbreviation ModePolling :: string where "ModePolling \<equiv> ''polling''"
abbreviation ModeStreaming :: string where "ModeStreaming \<equiv> ''streaming''"
abbreviation DesiredRunning :: string where "DesiredRunning \<equiv> ''running''"
abbreviation DesiredPaused :: string where "DesiredPaused \<equiv> ''paused''"
abbreviation DesiredStopped :: string where "DesiredStopped \<equiv> ''stopped''"
abbreviation StreamPendingS :: string where "StreamPendingS \<equiv> ''pending''"
abbreviation StreamRunningS :: string where "StreamRunningS \<equiv> ''running''"
abbreviation StreamPausedS :: string where "StreamPausedS \<equiv> ''paused''"
abbreviation StreamDegradedS :: string where "StreamDegradedS \<equiv> ''degraded''"
abbreviation StreamFailedS :: string where "StreamFailedS \<equiv> ''failed''"
abbreviation StreamDisabledS :: string where "StreamDisabledS \<equiv> ''disabled''"
abbreviation DaemonStarting :: string where "DaemonStarting \<equiv> ''starting''"
abbreviation DaemonRunning :: string where "DaemonRunning \<equiv> ''running''"
abbreviation DaemonPaused :: string where "DaemonPaused \<equiv> ''paused''"
abbreviation DaemonDegraded :: string where "DaemonDegraded \<equiv> ''degraded''"
abbreviation DaemonFailed :: string where "DaemonFailed \<equiv> ''failed''"
abbreviation DaemonStopped :: string where "DaemonStopped \<equiv> ''stopped''"
abbreviation HostOnline :: string where "HostOnline \<equiv> ''online''"
abbreviation HostFailed :: string where "HostFailed \<equiv> ''failed''"
abbreviation HostDisabled :: string where "HostDisabled \<equiv> ''disabled''"

record DatabaseLogArchiveStream =
  lsID :: nat
  lsInstanceID :: nat
  lsSourceInstanceID :: nat
  lsArchiveType :: string
  lsArchiveMode :: string
  lsArchiveEngine :: string
  lsRunnerHostID :: nat
  lsRPOTargetSeconds :: int
  lsEnabled :: bool
  lsStatus :: string
  lsDesiredState :: string
  lsDaemonStatus :: string
  lsCursorFile :: string
  lsCursorPos :: int
  lsCursorGTIDSet :: string
  lsActiveFile :: string
  lsLastSourceFile :: string
  lsLastSourcePos :: int
  lsLastEventTime :: "gotime option"
  lsArchiveLagSeconds :: int
  lsLastHeartbeatAt :: "gotime option"
  lsConsecutiveFailures :: int
  lsLeaseOwner :: string
  lsLeaseExpiresAt :: "gotime option"
  lsPausedAt :: "gotime option"
  lsPausedReason :: archive_text
  lsLastArchiveName :: string
  lsLastError :: archive_text

record DatabaseRunnerHost =
  rhID :: nat
  rhName :: string
  rhRunnerType :: string
  rhHost :: string
  rhPort :: int
  rhEnabled :: bool
  rhStatus :: string
  rhLastHeartbeatAt :: "gotime option"
  rhLastError :: archive_text
  rhConfigJSON :: string
  rhCredentialID :: nat
  rhWorkDir :: string

record DatabaseLogArchiveEvent =
  evStreamID :: nat
  evInstanceID :: nat
  evSourceInstanceID :: nat
  evRunnerHostID :: nat
  evRunnerID :: string
  evEventType :: string
  evLevel :: string
  evMessage :: archive_text
  evFileName :: string
  evCursorFile :: string
  evCursorPos :: int
  evActiveFile :: string
  evArchiveLagSeconds :: int
  evOccurredAt :: gotime

record archive_world =
  awStreams :: "DatabaseLogArchiveStream list"
  awHosts :: "DatabaseRunnerHost list"
  awEvents :: "DatabaseLogArchiveEvent list"

record archive_env =
  aeStreamRepo :: bool
  aeHostRepo :: bool
  aeEventRepo :: bool
  aeInstances :: "(nat \<Rightarrow> DatabaseInstance option) option"
  aeUpdateErr :: "DatabaseLogArchiveStream \<Rightarrow> string option"
  aeHostUpdateErr :: "DatabaseRunnerHost \<Rightarrow> string option"
  aeAcquireErr :: "nat \<Rightarrow> string option"
  aeEventErr :: "DatabaseLogArchiveEvent \<Rightarrow> string option"
  aeJSON :: "string \<Rightarrow> (string \<rightharpoonup> string) option"
  aeSha256Hex :: "string \<Rightarrow> string"
  aeParseTime :: "string \<Rightarrow> string + gotime"

datatype archive_error =
    StreamRepoMissing | StreamIDEmpty | StreamMissing | BinlogOnly | InstanceRepoMissing
  | SourceInstanceMissing | EngineUnsupported db_text | StreamDisabledErr | RunnerNotChosen
  | HostRepoMissing | HostMissing | HostDisabledErr | RunnerIDEmpty | AgentAuthFailed
  | StreamNotBound | StreamNotRunning | LeaseNotOwned | EventTimeInvalid | UpdateFailed string
  | HostUpdateFailed string | AcquireFailed string | EventRepoMissing | EventFailed string

section \<open>Repositories\<close>

definition streamByID :: "archive_world \<Rightarrow> nat \<Rightarrow> DatabaseLogArchiveStream option" where
  "streamByID w i = find (\<lambda>s. lsID s = i) (awStreams w)"

definition hostByID :: "archive_world \<Rightarrow> nat \<Rightarrow> DatabaseRunnerHost option" where
  "hostByID w i = find (\<lambda>h. rhID h = i) (awHosts w)"

definition saveStream :: "DatabaseLogArchiveStream \<Rightarrow> archive_world \<Rightarrow> archive_world" where
  "saveStream s w = w\<lparr>awStreams := map (\<lambda>r. if lsID r = lsID s then s else r) (awStreams w)\<rparr>"

definition saveHost :: "DatabaseRunnerHost \<Rightarrow> archive_world \<Rightarrow> archive_world" where
  "saveHost h w = w\<lparr>awHosts := map (\<lambda>r. if rhID r = rhID h then h else r) (awHosts w)\<rparr>"

text \<open>The conditional update of \<open>TryAcquireLease\<close>: its WHERE clause and its new values. SQL compares a
  missing expiry with nothing, so the case of NULL is a condition of its own.\<close>

definition leaseAvailable :: "DatabaseLogArchiveStream \<Rightarrow> nat \<Rightarrow> string \<Rightarrow> gotime \<Rightarrow> bool" where
  "leaseAvailable s runnerHostID runnerID now \<longleftrightarrow>
     lsRunnerHostID s = runnerHostID \<and> lsEnabled s \<and> lsDesiredState s = DesiredRunning
     \<and> lsStatus s \<noteq> StreamDisabledS
     \<and> (lsLeaseOwner s = [] \<or> lsLeaseOwner s = runnerID
        \<or> (case lsLeaseExpiresAt s of None \<Rightarrow> True | Some t \<Rightarrow> t < now))"

definition TryAcquireLease ::
  "archive_world \<Rightarrow> nat \<Rightarrow> nat \<Rightarrow> string \<Rightarrow> gotime \<Rightarrow> gotime \<Rightarrow> bool \<times> archive_world" where
  "TryAcquireLease w streamID runnerHostID runnerID now leaseExpiresAt =
     (if streamID = 0 \<or> runnerHostID = 0 \<or> TrimSpace runnerID = [] then (False, w)
      else case streamByID w streamID of
        None \<Rightarrow> (False, w)
      | Some s \<Rightarrow>
          if leaseAvailable s runnerHostID runnerID now
          then (True, saveStream (s\<lparr>lsLeaseOwner := runnerID, lsLeaseExpiresAt := Some leaseExpiresAt,
                  lsLastHeartbeatAt := Some now, lsDaemonStatus := DaemonStarting,
                  lsStatus := StreamPendingS, lsLastError := LeaseTaken\<rparr>) w)
          else (False, w))"

definition ListRunnableForRunner :: "archive_world \<Rightarrow> nat \<Rightarrow> DatabaseLogArchiveStream list" where
  "ListRunnableForRunner w runnerHostID =
     (if runnerHostID = 0 then []
      else take 100 (sort_key lsID (filter (\<lambda>s. lsRunnerHostID s = runnerHostID \<and> lsEnabled s
             \<and> lsDesiredState s = DesiredRunning \<and> lsArchiveType s = ArchiveTypeBinlog
             \<and> (lsArchiveMode s = ModePolling \<or> lsArchiveMode s = ModeStreaming)
             \<and> lsStatus s \<noteq> StreamDisabledS) (awStreams w))))"

section \<open>Events\<close>

definition trimArchiveText :: "archive_text \<Rightarrow> int \<Rightarrow> archive_text" where
  "trimArchiveText t mx = (case t of Plain s \<Rightarrow> Plain (trimText (TrimSpace s) mx) | _ \<Rightarrow> t)"

definition blankText :: "archive_text \<Rightarrow> bool" where
  "blankText t = (case t of Plain s \<Rightarrow> TrimSpace s = [] | _ \<Rightarrow> False)"

definition normalizeLogArchiveEventLevel :: "string \<Rightarrow> string" where
  "normalizeLogArchiveEventLevel value =
     (let v = ToLower (TrimSpace value) in if v \<in> set [''warning'', ''error''] then v else ''info'')"

definition normalizeLogArchiveEventType :: "string \<Rightarrow> string" where
  "normalizeLogArchiveEventType value =
     (let v = ToLower (TrimSpace value) in
      if v \<in> set [''runner_heartbeat'', ''lease_acquired'', ''checkpoint'', ''state_changed'',
           ''archive_success'', ''archive_failed'', ''spool_updated'', ''purge_gap'']
      then v else ''agent_message'')"

definition recordLogArchiveEvent ::
  "archive_env \<Rightarrow> archive_world \<Rightarrow> DatabaseLogArchiveEvent \<Rightarrow> archive_error option \<times> archive_world" where
  "recordLogArchiveEvent env w item =
     (if \<not> aeEventRepo env then (None, w)
      else let item = item\<lparr>evEventType := normalizeLogArchiveEventType (evEventType item),
                 evLevel := normalizeLogArchiveEventLevel (evLevel item),
                 evMessage := trimArchiveText (evMessage item) 1000,
                 evFileName := trimText (TrimSpace (evFileName item)) 255,
                 evCursorFile := trimText (TrimSpace (evCursorFile item)) 255,
                 evActiveFile := trimText (TrimSpace (evActiveFile item)) 255,
                 evRunnerID := trimText (TrimSpace (evRunnerID item)) 120\<rparr> in
        case aeEventErr env item of
          Some m \<Rightarrow> (Some (EventFailed m), w)
        | None \<Rightarrow> (None, w\<lparr>awEvents := awEvents w @ [item]\<rparr>))"

section \<open>States of a stream\<close>

definition normalizeArchiveMode :: "string \<Rightarrow> string" where
  "normalizeArchiveMode value =
     (let v = ToLower (TrimSpace value) in
      if v = [] \<or> v = ''external'' then ''external''
      else if v \<in> set [''manual_once'', ''manual'', ''once'', ''run_once''] then ''manual_once''
      else if v \<in> set [''catch_up'', ''catchup''] then ''catch_up''
      else if v \<in> set [ModePolling, ''poll'', ''high_frequency_poll'', ''high_frequency_polling'']
      then ModePolling
      else if v \<in> set [ModeStreaming, ''stream''] then ModeStreaming
      else trimText v 30)"

definition normalizeArchiveType :: "string \<Rightarrow> string" where
  "normalizeArchiveType value =
     (let v = ToLower (TrimSpace value) in if v \<in> set [ArchiveTypeBinlog, ''wal'', ''none''] then v else [])"

definition normalizeLogArchiveDaemonStatus :: "string \<Rightarrow> string" where
  "normalizeLogArchiveDaemonStatus value =
     (let v = ToLower (TrimSpace value) in
      if v \<in> set [DaemonStarting, DaemonRunning, DaemonPaused, DaemonDegraded, DaemonFailed] then v
      else DaemonStopped)"

definition daemonArchiveModeForStart :: "string \<Rightarrow> string" where
  "daemonArchiveModeForStart value =
     (if normalizeArchiveMode value = ModeStreaming then ModeStreaming else ModePolling)"

definition archiveEngineForDaemonMode :: "string \<Rightarrow> string \<Rightarrow> string" where
  "archiveEngineForDaemonMode current archiveMode =
     (let current = ToLower (TrimSpace current) in
      if current \<noteq> [] \<and> \<not> HasPrefix current ''external'' then trimText current 60
      else if normalizeArchiveMode archiveMode = ModeStreaming then ''mysqlbinlog_streaming''
      else ''mysqlbinlog_polling'')"

definition applyLogArchiveStreamStartState ::
  "DatabaseLogArchiveStream \<Rightarrow> nat \<Rightarrow> string \<Rightarrow> string \<Rightarrow> DatabaseLogArchiveStream" where
  "applyLogArchiveStreamStartState stream runnerHostID archiveMode archiveEngine =
     (let mode = daemonArchiveModeForStart archiveMode in
      stream\<lparr>lsRunnerHostID := (if runnerHostID > 0 then runnerHostID else lsRunnerHostID stream),
        lsArchiveMode := mode, lsArchiveEngine := archiveEngineForDaemonMode archiveEngine mode,
        lsDesiredState := DesiredRunning, lsDaemonStatus := DaemonStarting, lsStatus := StreamPendingS,
        lsPausedAt := None, lsPausedReason := Plain [], lsLeaseOwner := [], lsLeaseExpiresAt := None,
        lsLastError := WaitingForAgent\<rparr>)"

definition applyLogArchiveStreamPauseState ::
  "DatabaseLogArchiveStream \<Rightarrow> string \<Rightarrow> gotime \<Rightarrow> DatabaseLogArchiveStream" where
  "applyLogArchiveStreamPauseState stream reason pausedAt =
     (let reason = trimText (TrimSpace reason) 500;
          note = (if reason = [] then ManualPause else Plain reason) in
      stream\<lparr>lsDesiredState := DesiredPaused, lsDaemonStatus := DaemonPaused, lsStatus := StreamPausedS,
        lsPausedAt := Some pausedAt, lsPausedReason := note, lsLeaseOwner := [],
        lsLeaseExpiresAt := None, lsLastError := StreamPaused note\<rparr>)"

definition applyLogArchiveStreamStopState ::
  "DatabaseLogArchiveStream \<Rightarrow> string \<Rightarrow> DatabaseLogArchiveStream" where
  "applyLogArchiveStreamStopState stream reason =
     (let reason = trimText (TrimSpace reason) 500 in
      stream\<lparr>lsDesiredState := DesiredStopped, lsDaemonStatus := DaemonStopped,
        lsStatus := (if lsEnabled stream then StreamPendingS else StreamDisabledS),
        lsPausedAt := None, lsPausedReason := Plain [], lsLeaseOwner := [], lsLeaseExpiresAt := None,
        lsLastError := (if reason \<noteq> [] then StreamStoppedFor reason else StreamStopped)\<rparr>)"

section \<open>Control by operators\<close>

definition getLogArchiveStreamForControl ::
  "archive_env \<Rightarrow> archive_world \<Rightarrow> nat \<Rightarrow> archive_error + DatabaseLogArchiveStream" where
  "getLogArchiveStreamForControl env w streamID =
     (if \<not> aeStreamRepo env then Inl StreamRepoMissing
      else if streamID = 0 then Inl StreamIDEmpty
      else case streamByID w streamID of None \<Rightarrow> Inl StreamMissing | Some s \<Rightarrow> Inr s)"

definition validateLogArchiveStreamDaemonTarget ::
  "archive_env \<Rightarrow> DatabaseLogArchiveStream \<Rightarrow> archive_error option" where
  "validateLogArchiveStreamDaemonTarget env stream =
     (if normalizeArchiveType (lsArchiveType stream) \<noteq> ArchiveTypeBinlog then Some BinlogOnly
      else let source = (if lsSourceInstanceID stream = 0 then lsInstanceID stream else lsSourceInstanceID stream) in
        case aeInstances env of
          None \<Rightarrow> Some InstanceRepoMissing
        | Some instances \<Rightarrow>
          (case instances source of
             None \<Rightarrow> Some SourceInstanceMissing
           | Some item \<Rightarrow>
               if normalizeDBType (iDBType item) \<notin> set [DBTypeMySQL, DBTypeMariaDB]
               then Some (EngineUnsupported (DBTypeText (iDBType item))) else None))"

definition validateLogArchiveRunnerHost ::
  "archive_env \<Rightarrow> archive_world \<Rightarrow> nat \<Rightarrow> archive_error + DatabaseRunnerHost option" where
  "validateLogArchiveRunnerHost env w runnerHostID =
     (if runnerHostID = 0 then Inr None
      else if \<not> aeHostRepo env then Inl HostRepoMissing
      else case hostByID w runnerHostID of
        None \<Rightarrow> Inl HostMissing
      | Some host \<Rightarrow>
          if \<not> rhEnabled host \<or> rhStatus host = HostDisabled then Inl HostDisabledErr else Inr (Some host))"

definition validateRequiredLogArchiveRunnerHost ::
  "archive_env \<Rightarrow> archive_world \<Rightarrow> nat \<Rightarrow> archive_error + DatabaseRunnerHost option" where
  "validateRequiredLogArchiveRunnerHost env w runnerHostID =
     (if runnerHostID = 0 then Inl RunnerNotChosen else validateLogArchiveRunnerHost env w runnerHostID)"

text \<open>The event of a change of state; its error is dropped.\<close>

definition recordLogArchiveStreamStateEvent ::
  "archive_env \<Rightarrow> archive_world \<Rightarrow> gotime \<Rightarrow> DatabaseLogArchiveStream \<Rightarrow> string \<Rightarrow> archive_text \<Rightarrow> archive_world" where
  "recordLogArchiveStreamStateEvent env w now stream level message =
     snd (recordLogArchiveEvent env w \<lparr>evStreamID = lsID stream, evInstanceID = lsInstanceID stream,
       evSourceInstanceID = lsSourceInstanceID stream, evRunnerHostID = lsRunnerHostID stream,
       evRunnerID = lsLeaseOwner stream, evEventType = ''state_changed'', evLevel = level,
       evMessage = message, evFileName = lsLastArchiveName stream, evCursorFile = lsCursorFile stream,
       evCursorPos = lsCursorPos stream, evActiveFile = lsActiveFile stream,
       evArchiveLagSeconds = lsArchiveLagSeconds stream, evOccurredAt = now\<rparr>)"

record DatabaseLogArchiveStreamControlRequest =
  lcRunnerHostID :: nat
  lcArchiveMode :: string
  lcReason :: string

definition updateStream ::
  "archive_env \<Rightarrow> archive_world \<Rightarrow> DatabaseLogArchiveStream \<Rightarrow> archive_error + archive_world" where
  "updateStream env w s =
     (case aeUpdateErr env s of Some m \<Rightarrow> Inl (UpdateFailed m) | None \<Rightarrow> Inr (saveStream s w))"

text \<open>Starting and resuming differ in the message of their event only.\<close>

definition launchLogArchiveStream ::
  "archive_text \<Rightarrow> archive_env \<Rightarrow> archive_world \<Rightarrow> gotime \<Rightarrow> nat \<Rightarrow> DatabaseLogArchiveStreamControlRequest option
   \<Rightarrow> (archive_error + DatabaseLogArchiveStream) \<times> archive_world" where
  "launchLogArchiveStream started env w now streamID req =
     (case getLogArchiveStreamForControl env w streamID of
        Inl e \<Rightarrow> (Inl e, w)
      | Inr stream \<Rightarrow>
      (case validateLogArchiveStreamDaemonTarget env stream of
        Some e \<Rightarrow> (Inl e, w)
      | None \<Rightarrow>
        if \<not> lsEnabled stream \<or> lsStatus stream = StreamDisabledS then (Inl StreamDisabledErr, w)
        else let hostID = (case req of Some r \<Rightarrow> if lcRunnerHostID r > 0 then lcRunnerHostID r else lsRunnerHostID stream
                           | None \<Rightarrow> lsRunnerHostID stream) in
        case validateRequiredLogArchiveRunnerHost env w hostID of
          Inl e \<Rightarrow> (Inl e, w)
        | Inr host \<Rightarrow>
          let mode = (case req of Some r \<Rightarrow> if TrimSpace (lcArchiveMode r) \<noteq> [] then lcArchiveMode r else lsArchiveMode stream
                      | None \<Rightarrow> lsArchiveMode stream);
              mode = daemonArchiveModeForStart mode;
              stream = applyLogArchiveStreamStartState stream (case host of Some h \<Rightarrow> rhID h | None \<Rightarrow> 0) mode
                         (archiveEngineForDaemonMode (lsArchiveEngine stream) mode) in
          (case updateStream env w stream of
             Inl e \<Rightarrow> (Inl e, w)
           | Inr w \<Rightarrow> (Inr stream, recordLogArchiveStreamStateEvent env w now stream ''info'' started))))"

definition StartLogArchiveStream ::
  "archive_env \<Rightarrow> archive_world \<Rightarrow> gotime \<Rightarrow> nat \<Rightarrow> DatabaseLogArchiveStreamControlRequest option
   \<Rightarrow> (archive_error + DatabaseLogArchiveStream) \<times> archive_world" where
  "StartLogArchiveStream = launchLogArchiveStream StreamStarted"

definition ResumeLogArchiveStream ::
  "archive_env \<Rightarrow> archive_world \<Rightarrow> gotime \<Rightarrow> nat \<Rightarrow> DatabaseLogArchiveStreamControlRequest option
   \<Rightarrow> (archive_error + DatabaseLogArchiveStream) \<times> archive_world" where
  "ResumeLogArchiveStream = launchLogArchiveStream StreamResumed"

definition PauseLogArchiveStream ::
  "archive_env \<Rightarrow> archive_world \<Rightarrow> gotime \<Rightarrow> nat \<Rightarrow> DatabaseLogArchiveStreamControlRequest option
   \<Rightarrow> (archive_error + DatabaseLogArchiveStream) \<times> archive_world" where
  "PauseLogArchiveStream env w now streamID req =
     (case getLogArchiveStreamForControl env w streamID of
        Inl e \<Rightarrow> (Inl e, w)
      | Inr stream \<Rightarrow>
          let stream = applyLogArchiveStreamPauseState stream (case req of Some r \<Rightarrow> lcReason r | None \<Rightarrow> []) now in
          (case updateStream env w stream of
             Inl e \<Rightarrow> (Inl e, w)
           | Inr w \<Rightarrow> (Inr stream, recordLogArchiveStreamStateEvent env w now stream ''warning'' (lsLastError stream))))"

definition StopLogArchiveStream ::
  "archive_env \<Rightarrow> archive_world \<Rightarrow> gotime \<Rightarrow> nat \<Rightarrow> DatabaseLogArchiveStreamControlRequest option
   \<Rightarrow> (archive_error + DatabaseLogArchiveStream) \<times> archive_world" where
  "StopLogArchiveStream env w now streamID req =
     (case getLogArchiveStreamForControl env w streamID of
        Inl e \<Rightarrow> (Inl e, w)
      | Inr stream \<Rightarrow>
          let stream = applyLogArchiveStreamStopState stream (case req of Some r \<Rightarrow> lcReason r | None \<Rightarrow> []) in
          (case updateStream env w stream of
             Inl e \<Rightarrow> (Inl e, w)
           | Inr w \<Rightarrow> (Inr stream, recordLogArchiveStreamStateEvent env w now stream ''warning'' (lsLastError stream))))"

section \<open>Runner agents\<close>

text \<open>A time is a number of nanoseconds.\<close>

definition secondNs :: int where
  "secondNs = 1000000000"

definition defaultRunnerAgentLeaseTTLSeconds :: int where "defaultRunnerAgentLeaseTTLSeconds = 90"

definition maxRunnerAgentLeaseTTLSeconds :: int where "maxRunnerAgentLeaseTTLSeconds = 600"

definition runnerAgentLeaseTTLSeconds :: "int \<Rightarrow> int" where
  "runnerAgentLeaseTTLSeconds value =
     (if value \<le> 0 then defaultRunnerAgentLeaseTTLSeconds
      else if value > maxRunnerAgentLeaseTTLSeconds then maxRunnerAgentLeaseTTLSeconds else value)"

definition runnerIDForHost :: "DatabaseRunnerHost \<Rightarrow> string" where
  "runnerIDForHost host =
     (if rhRunnerType host = ''local'' then ''local:'' @ Itoa (int (rhID host))
      else if rhRunnerType host = ''agent'' then
        (if TrimSpace (rhHost host) = [] then ''runner-host-'' @ Itoa (int (rhID host))
         else ''agent:'' @ rhHost host)
      else ''ssh:'' @ rhHost host @ '':'' @ Itoa (rhPort host))"

definition parseRunnerHostIDAlias :: "string \<Rightarrow> nat option" where
  "parseRunnerHostIDAlias value =
     (case ParseUint (foldl TrimPrefix (TrimSpace value) [''runner-host-'', ''runner:'', ''host:'']) 10 32 of
        None \<Rightarrow> None
      | Some i \<Rightarrow> if i = 0 then None else Some i)"

definition findRunnerHostByRunnerID :: "archive_world \<Rightarrow> string \<Rightarrow> archive_error + DatabaseRunnerHost" where
  "findRunnerHostByRunnerID w runnerID =
     (case parseRunnerHostIDAlias runnerID of
        Some i \<Rightarrow> (case hostByID w i of None \<Rightarrow> Inl HostMissing | Some h \<Rightarrow> Inr h)
      | None \<Rightarrow> (case find (\<lambda>h. runnerIDForHost h = runnerID) (awHosts w) of
                   None \<Rightarrow> Inl HostMissing | Some h \<Rightarrow> Inr h))"

definition runnerAgentAuthHash :: "archive_env \<Rightarrow> string \<Rightarrow> string" where
  "runnerAgentAuthHash env configJSON =
     (let configJSON = TrimSpace configJSON in
      if configJSON = [] then []
      else case aeJSON env configJSON of
        None \<Rightarrow> []
      | Some data \<Rightarrow>
          (case find (\<lambda>v. go_len v = 64)
                  (map (\<lambda>raw. ToLower (TrimSpace raw)) (List.map_filter data [''runnerAuthSha256'', ''authSha256''])) of
             Some v \<Rightarrow> v | None \<Rightarrow> []))"

definition runnerAgentAuthMatches :: "archive_env \<Rightarrow> string \<Rightarrow> string \<Rightarrow> bool" where
  "runnerAgentAuthMatches env configJSON auth =
     (let auth = TrimSpace auth; expected = runnerAgentAuthHash env configJSON in
      auth \<noteq> [] \<and> expected \<noteq> [] \<and> ToLower expected = aeSha256Hex env auth)"

definition authenticateRunnerAgent ::
  "archive_env \<Rightarrow> archive_world \<Rightarrow> string \<Rightarrow> string \<Rightarrow> archive_error + DatabaseRunnerHost" where
  "authenticateRunnerAgent env w runnerID auth =
     (if \<not> aeHostRepo env then Inl HostRepoMissing
      else let runnerID = TrimSpace runnerID in
      if runnerID = [] then Inl RunnerIDEmpty
      else case findRunnerHostByRunnerID w runnerID of
        Inl e \<Rightarrow> Inl e
      | Inr host \<Rightarrow>
          if \<not> rhEnabled host \<or> rhStatus host = HostDisabled then Inl HostDisabledErr
          else if \<not> runnerAgentAuthMatches env (rhConfigJSON host) auth then Inl AgentAuthFailed
          else Inr host)"

record DatabaseRunnerAgentHeartbeatRequest =
  hbStatus :: string
  hbMessage :: string

definition applyRunnerAgentHeartbeat ::
  "DatabaseRunnerHost \<Rightarrow> DatabaseRunnerAgentHeartbeatRequest option \<Rightarrow> gotime \<Rightarrow> DatabaseRunnerHost" where
  "applyRunnerAgentHeartbeat host req now =
     (let message = (case req of None \<Rightarrow> [] | Some r \<Rightarrow> trimText (TrimSpace (hbMessage r)) 500);
          reported = (case req of None \<Rightarrow> [] | Some r \<Rightarrow> ToLower (TrimSpace (hbStatus r)));
          status = (if reported = HostFailed then HostFailed
                    else if reported = HostDisabled then HostDisabled else HostOnline) in
      host\<lparr>rhLastHeartbeatAt := Some now, rhStatus := status,
           rhLastError := (if status = HostFailed
                           then if message = [] then HeartbeatFailed else Plain message else Plain [])\<rparr>)"

definition updateHost :: "archive_env \<Rightarrow> archive_world \<Rightarrow> DatabaseRunnerHost \<Rightarrow> archive_error + archive_world" where
  "updateHost env w h =
     (case aeHostUpdateErr env h of Some m \<Rightarrow> Inl (HostUpdateFailed m) | None \<Rightarrow> Inr (saveHost h w))"

definition RunnerAgentHeartbeat ::
  "archive_env \<Rightarrow> archive_world \<Rightarrow> gotime \<Rightarrow> string \<Rightarrow> string \<Rightarrow> DatabaseRunnerAgentHeartbeatRequest option
   \<Rightarrow> (archive_error + DatabaseRunnerHost) \<times> archive_world" where
  "RunnerAgentHeartbeat env w now runnerID auth req =
     (case authenticateRunnerAgent env w runnerID auth of
        Inl e \<Rightarrow> (Inl e, w)
      | Inr host \<Rightarrow>
          let host = applyRunnerAgentHeartbeat host req now in
          (case updateHost env w host of
             Inl e \<Rightarrow> (Inl e, w)
           | Inr w \<Rightarrow> (Inr host,
               if rhStatus host = HostFailed
               then snd (recordLogArchiveEvent env w \<lparr>evStreamID = 0, evInstanceID = 0, evSourceInstanceID = 0,
                      evRunnerHostID = rhID host, evRunnerID = runnerIDForHost host,
                      evEventType = ''runner_heartbeat'', evLevel = ''error'', evMessage = rhLastError host,
                      evFileName = [], evCursorFile = [], evCursorPos = 0, evActiveFile = [],
                      evArchiveLagSeconds = 0, evOccurredAt = now\<rparr>)
               else w)))"

text \<open>The loop over the candidates of \<open>RunnerAgentListLogArchiveStreams\<close>. A failing acquisition ends the
  call with an error; the leases taken before it stay taken.\<close>

definition agentEvent ::
  "DatabaseLogArchiveStream \<Rightarrow> nat \<Rightarrow> string \<Rightarrow> string \<Rightarrow> string \<Rightarrow> archive_text \<Rightarrow> string \<Rightarrow> gotime \<Rightarrow> DatabaseLogArchiveEvent" where
  "agentEvent stream hostID runnerID type level message file now =
     \<lparr>evStreamID = lsID stream, evInstanceID = lsInstanceID stream,
      evSourceInstanceID = lsSourceInstanceID stream, evRunnerHostID = hostID, evRunnerID = runnerID,
      evEventType = type, evLevel = level, evMessage = message, evFileName = file,
      evCursorFile = lsCursorFile stream, evCursorPos = lsCursorPos stream,
      evActiveFile = lsActiveFile stream, evArchiveLagSeconds = lsArchiveLagSeconds stream,
      evOccurredAt = now\<rparr>"

fun acquireLoop ::
  "archive_env \<Rightarrow> gotime \<Rightarrow> nat \<Rightarrow> string \<Rightarrow> gotime \<Rightarrow> DatabaseLogArchiveStream list \<Rightarrow> archive_world
   \<Rightarrow> (archive_error + DatabaseLogArchiveStream list) \<times> archive_world" where
  "acquireLoop env now hostID runnerID leaseExpiresAt [] w = (Inr [], w)"
| "acquireLoop env now hostID runnerID leaseExpiresAt (stream # rest) w =
     (case aeAcquireErr env (lsID stream) of
        Some m \<Rightarrow> (Inl (AcquireFailed m), w)
      | None \<Rightarrow>
        (case TryAcquireLease w (lsID stream) hostID runnerID now leaseExpiresAt of
           (False, w) \<Rightarrow> acquireLoop env now hostID runnerID leaseExpiresAt rest w
         | (True, w) \<Rightarrow>
           (case streamByID w (lsID stream) of
              None \<Rightarrow> acquireLoop env now hostID runnerID leaseExpiresAt rest w
            | Some leased \<Rightarrow>
              (case acquireLoop env now hostID runnerID leaseExpiresAt rest
                      (snd (recordLogArchiveEvent env w (agentEvent leased hostID runnerID ''lease_acquired'' ''info''
                         LeaseAcquiredText [] now))) of
                 (Inl e, w) \<Rightarrow> (Inl e, w)
               | (Inr streams, w) \<Rightarrow> (Inr (leased # streams), w)))))"

definition RunnerAgentListLogArchiveStreams ::
  "archive_env \<Rightarrow> archive_world \<Rightarrow> gotime \<Rightarrow> string \<Rightarrow> string
   \<Rightarrow> (archive_error + DatabaseLogArchiveStream list) \<times> archive_world" where
  "RunnerAgentListLogArchiveStreams env w now runnerID auth =
     (if \<not> aeStreamRepo env then (Inl StreamRepoMissing, w)
      else case authenticateRunnerAgent env w runnerID auth of
        Inl e \<Rightarrow> (Inl e, w)
      | Inr host \<Rightarrow>
          let host = applyRunnerAgentHeartbeat host (Some \<lparr>hbStatus = HostOnline, hbMessage = []\<rparr>) now in
          (case updateHost env w host of
             Inl e \<Rightarrow> (Inl e, w)
           | Inr w \<Rightarrow>
               acquireLoop env now (rhID host) (runnerIDForHost host)
                 (now + runnerAgentLeaseTTLSeconds 0 * secondNs) (ListRunnableForRunner w (rhID host)) w))"

definition validateRunnerAgentStreamOwnership ::
  "DatabaseLogArchiveStream \<Rightarrow> nat \<Rightarrow> string \<Rightarrow> archive_error option" where
  "validateRunnerAgentStreamOwnership stream runnerHostID runnerID =
     (if lsRunnerHostID stream \<noteq> runnerHostID then Some StreamNotBound
      else if lsDesiredState stream \<noteq> DesiredRunning then Some StreamNotRunning
      else if TrimSpace (lsLeaseOwner stream) \<noteq> runnerID then Some LeaseNotOwned
      else None)"

record DatabaseRunnerAgentCheckpointRequest =
  cpDaemonStatus :: string
  cpCursorFile :: string
  cpCursorPos :: int
  cpCursorGTIDSet :: string
  cpActiveFile :: string
  cpLastSourceFile :: string
  cpLastSourcePos :: int
  cpLastEventTime :: string
  cpArchiveLagSeconds :: int
  cpConsecutiveFailures :: int
  cpLastError :: string
  cpLeaseTTLSeconds :: int
  cpReleaseLease :: bool

definition parseDatabaseTime :: "archive_env \<Rightarrow> string \<Rightarrow> string + gotime option" where
  "parseDatabaseTime env value =
     (if TrimSpace value = [] then Inr None
      else case aeParseTime env (TrimSpace value) of Inl m \<Rightarrow> Inl m | Inr t \<Rightarrow> Inr (Some t))"

text \<open>\<open>applyRunnerAgentCheckpoint\<close>: a release gives the lease back; any other report renews it, moves the
  cursors and derives the status from the status of the daemon. The second function is the part behind
  the renewal, the switch on the daemon status.\<close>

definition checkpointStatus ::
  "DatabaseRunnerAgentCheckpointRequest \<Rightarrow> DatabaseLogArchiveStream \<Rightarrow> DatabaseLogArchiveStream" where
  "checkpointStatus req stream =
     (let status = lsDaemonStatus stream;
          failures = max (cpConsecutiveFailures req) (lsConsecutiveFailures stream + 1);
          quiet = (lsLastError stream = Plain []) in
      if status = DaemonRunning then
        (let stream = stream\<lparr>lsStatus := StreamRunningS, lsConsecutiveFailures := cpConsecutiveFailures req\<rparr> in
         if quiet \<and> lsRPOTargetSeconds stream > 0 \<and> lsArchiveLagSeconds stream > lsRPOTargetSeconds stream * 2
         then stream\<lparr>lsStatus := StreamDegradedS, lsDaemonStatus := DaemonDegraded, lsLastError := LagBeyondTarget\<rparr>
         else stream)
      else if status = DaemonPaused then stream\<lparr>lsStatus := StreamPausedS\<rparr>
      else if status = DaemonDegraded then
        stream\<lparr>lsStatus := StreamDegradedS, lsConsecutiveFailures := failures,
               lsLastError := (if quiet then AgentDegraded else lsLastError stream)\<rparr>
      else if status = DaemonFailed then
        stream\<lparr>lsStatus := StreamFailedS, lsConsecutiveFailures := failures,
               lsLastError := (if quiet then AgentFailed else lsLastError stream)\<rparr>
      else stream\<lparr>lsStatus := StreamPendingS\<rparr>)"

definition applyRunnerAgentCheckpoint ::
  "DatabaseLogArchiveStream \<Rightarrow> DatabaseRunnerAgentCheckpointRequest \<Rightarrow> gotime option \<Rightarrow> gotime \<Rightarrow> string
   \<Rightarrow> DatabaseLogArchiveStream" where
  "applyRunnerAgentCheckpoint stream req lastEventTime now runnerID =
     (if cpReleaseLease req then
        (let stream = stream\<lparr>lsLeaseOwner := [], lsLeaseExpiresAt := None, lsLastHeartbeatAt := Some now\<rparr> in
         if lsDesiredState stream = DesiredPaused
         then stream\<lparr>lsDaemonStatus := DaemonPaused, lsStatus := StreamPausedS\<rparr>
         else stream\<lparr>lsDaemonStatus := DaemonStopped, lsStatus := StreamPendingS\<rparr>)
      else checkpointStatus req (stream\<lparr>
        lsLeaseOwner := runnerID,
        lsLeaseExpiresAt := Some (now + runnerAgentLeaseTTLSeconds (cpLeaseTTLSeconds req) * secondNs),
        lsLastHeartbeatAt := Some now,
        lsDaemonStatus := normalizeLogArchiveDaemonStatus (cpDaemonStatus req),
        lsCursorFile := (if TrimSpace (cpCursorFile req) \<noteq> [] then trimText (TrimSpace (cpCursorFile req)) 255
                         else lsCursorFile stream),
        lsCursorPos := (if cpCursorPos req > 0 then cpCursorPos req else lsCursorPos stream),
        lsCursorGTIDSet := (if TrimSpace (cpCursorGTIDSet req) \<noteq> [] then TrimSpace (cpCursorGTIDSet req)
                            else lsCursorGTIDSet stream),
        lsActiveFile := trimText (TrimSpace (cpActiveFile req)) 255,
        lsLastSourceFile := (if TrimSpace (cpLastSourceFile req) \<noteq> []
                             then trimText (TrimSpace (cpLastSourceFile req)) 255 else lsLastSourceFile stream),
        lsLastSourcePos := (if cpLastSourcePos req > 0 then cpLastSourcePos req else lsLastSourcePos stream),
        lsLastEventTime := (case lastEventTime of None \<Rightarrow> lsLastEventTime stream | Some t \<Rightarrow> Some t),
        lsArchiveLagSeconds := cpArchiveLagSeconds req,
        lsLastError := Plain (trimText (TrimSpace (cpLastError req)) 1000)\<rparr>))"

definition checkpointEvent ::
  "archive_env \<Rightarrow> archive_world \<Rightarrow> gotime \<Rightarrow> nat \<Rightarrow> string \<Rightarrow> DatabaseLogArchiveStream \<Rightarrow> bool \<Rightarrow> archive_world" where
  "checkpointEvent env w now hostID runnerID stream releaseLease =
     (if releaseLease \<or> lsStatus stream = StreamDegradedS \<or> lsStatus stream = StreamFailedS
         \<or> \<not> blankText (lsLastError stream)
      then let level = (if lsStatus stream = StreamFailedS then ''error''
                        else if lsStatus stream = StreamDegradedS \<or> \<not> blankText (lsLastError stream)
                        then ''warning'' else ''info'');
               message = (if releaseLease then LeaseReleasedText else lsLastError stream)
           in snd (recordLogArchiveEvent env w (agentEvent stream hostID runnerID ''checkpoint'' level message
                     (lsLastArchiveName stream) now))
      else w)"

text \<open>The use case in its two halves: what it reads and decides, and what it writes.\<close>

definition checkpointRead ::
  "archive_env \<Rightarrow> archive_world \<Rightarrow> gotime \<Rightarrow> string \<Rightarrow> string \<Rightarrow> nat \<Rightarrow> DatabaseRunnerAgentCheckpointRequest
   \<Rightarrow> archive_error + DatabaseRunnerHost \<times> DatabaseLogArchiveStream" where
  "checkpointRead env w now runnerID auth streamID req =
     (if \<not> aeStreamRepo env then Inl StreamRepoMissing
      else case authenticateRunnerAgent env w runnerID auth of
        Inl e \<Rightarrow> Inl e
      | Inr host \<Rightarrow>
        (case streamByID w streamID of
           None \<Rightarrow> Inl StreamMissing
         | Some stream \<Rightarrow>
           (case validateRunnerAgentStreamOwnership stream (rhID host) (runnerIDForHost host) of
              Some e \<Rightarrow> Inl e
            | None \<Rightarrow>
              (case parseDatabaseTime env (cpLastEventTime req) of
                 Inl m \<Rightarrow> Inl EventTimeInvalid
               | Inr lastEventTime \<Rightarrow>
                   Inr (host, applyRunnerAgentCheckpoint stream req lastEventTime now (runnerIDForHost host))))))"

definition checkpointWrite ::
  "archive_env \<Rightarrow> archive_world \<Rightarrow> gotime \<Rightarrow> DatabaseRunnerAgentCheckpointRequest
   \<Rightarrow> DatabaseRunnerHost \<times> DatabaseLogArchiveStream
   \<Rightarrow> (archive_error + DatabaseLogArchiveStream) \<times> archive_world" where
  "checkpointWrite env w now req r =
     (case r of (host, stream) \<Rightarrow>
      (case updateStream env w stream of
         Inl e \<Rightarrow> (Inl e, w)
       | Inr w \<Rightarrow> (Inr stream,
           checkpointEvent env w now (rhID host) (runnerIDForHost host) stream (cpReleaseLease req))))"

definition RunnerAgentCheckpointLogArchiveStream ::
  "archive_env \<Rightarrow> archive_world \<Rightarrow> gotime \<Rightarrow> string \<Rightarrow> string \<Rightarrow> nat \<Rightarrow> DatabaseRunnerAgentCheckpointRequest
   \<Rightarrow> (archive_error + DatabaseLogArchiveStream) \<times> archive_world" where
  "RunnerAgentCheckpointLogArchiveStream env w now runnerID auth streamID req =
     (case checkpointRead env w now runnerID auth streamID req of
        Inl e \<Rightarrow> (Inl e, w)
      | Inr r \<Rightarrow> checkpointWrite env w now req r)"

section \<open>Steps\<close>

text \<open>The requests of operators and agents, each with the time it is served at.\<close>

datatype archive_op =
    OpStart nat "DatabaseLogArchiveStreamControlRequest option"
  | OpResume nat "DatabaseLogArchiveStreamControlRequest option"
  | OpPause nat "DatabaseLogArchiveStreamControlRequest option"
  | OpStop nat "DatabaseLogArchiveStreamControlRequest option"
  | OpHeartbeat string string "DatabaseRunnerAgentHeartbeatRequest option"
  | OpList string string
  | OpCheckpoint string string nat DatabaseRunnerAgentCheckpointRequest

fun archive_step :: "archive_env \<Rightarrow> gotime \<times> archive_op \<Rightarrow> archive_world \<Rightarrow> archive_world" where
  "archive_step env (now, OpStart i req) w = snd (StartLogArchiveStream env w now i req)"
| "archive_step env (now, OpResume i req) w = snd (ResumeLogArchiveStream env w now i req)"
| "archive_step env (now, OpPause i req) w = snd (PauseLogArchiveStream env w now i req)"
| "archive_step env (now, OpStop i req) w = snd (StopLogArchiveStream env w now i req)"
| "archive_step env (now, OpHeartbeat r a req) w = snd (RunnerAgentHeartbeat env w now r a req)"
| "archive_step env (now, OpList r a) w = snd (RunnerAgentListLogArchiveStreams env w now r a)"
| "archive_step env (now, OpCheckpoint r a i req) w = snd (RunnerAgentCheckpointLogArchiveStream env w now r a i req)"

definition archive_run :: "archive_env \<Rightarrow> (gotime \<times> archive_op) list \<Rightarrow> archive_world \<Rightarrow> archive_world" where
  "archive_run env ops w = fold (archive_step env) ops w"

end
