(* ===== verification/Tables.thy ===== *)
theory Tables
  imports Main
begin

text \<open>
  Rows of a table, looked up and saved by a key: the interface of the repositories of the components,
  and the facts about lists of rows that discharge it.
\<close>

locale row_table =
  fixes lookup :: "'w \<Rightarrow> 'k \<Rightarrow> 'r option" and save :: "'r \<Rightarrow> 'w \<Rightarrow> 'w" and key :: "'r \<Rightarrow> 'k"
  assumes lookup_key: "lookup w i = Some r \<Longrightarrow> key r = i"
    and lookup_save_same: "lookup w (key r) \<noteq> None \<Longrightarrow> lookup (save r w) (key r) = Some r"
    and lookup_save_other: "i \<noteq> key r \<Longrightarrow> lookup (save r w) i = lookup w i"
begin

lemma lookup_save:
  assumes "lookup w i = Some r0" "key r = i"
  shows "lookup (save r w) j = (if j = i then Some r else lookup w j)"
  using assms lookup_save_same [of w r] lookup_save_other [of j r w] by auto

lemma lookup_save_exists:
  assumes "lookup w (key r) \<noteq> None" "lookup w j \<noteq> None"
  shows "lookup (save r w) j \<noteq> None"
  using assms lookup_save_same [of w r] lookup_save_other [of j r w] by (cases "j = key r") auto

end

lemma find_map_key:
  "find (\<lambda>r. f r = i) (map (\<lambda>r. if f r = f s then s else r) rs) =
    (if i = f s \<and> find (\<lambda>r. f r = i) rs \<noteq> None then Some s else find (\<lambda>r. f r = i) rs)"
  by (induction rs) auto

lemma find_key: "find (\<lambda>r. f r = i) rs = Some r \<Longrightarrow> f r = i"
  by (auto simp: find_Some_iff)

lemma find_append: "find P (xs @ ys) = (case find P xs of Some x \<Rightarrow> Some x | None \<Rightarrow> find P ys)"
  by (induction xs) auto

end
