(* ===== verification/Log_Lease.thy ===== *)
theory Log_Lease
  imports Log_Archive Sql_Gate Tables
begin

text \<open>
  Leases on archive streams. The abstract view of a stream is whether it shall run and who holds its
  lease until when; \<open>lease_step\<close> says which actor may change it how. The lemmas show that every
  operation of \<open>Log_Archive\<close> refines it. The stream and the host repository provide the
  interface \<open>row_table\<close>, and what a run of a lease table implies about its holder
  is proved once in \<open>lease_trace\<close>.
\<close>

section \<open>Tables\<close>

interpretation streams: row_table streamByID saveStream lsID
  by unfold_locales (auto simp: streamByID_def saveStream_def find_map_key dest: find_key)

interpretation hosts: row_table hostByID saveHost rhID
  by unfold_locales (auto simp: hostByID_def saveHost_def find_map_key dest: find_key)

named_theorems table_simps

lemma streams_of_events [table_simps]:
  "awStreams (snd (recordLogArchiveEvent env w ev)) = awStreams w"
  "awHosts (snd (recordLogArchiveEvent env w ev)) = awHosts w"
  by (simp_all add: recordLogArchiveEvent_def Let_def split: option.split)

lemma streams_of_updates [table_simps]:
  "awStreams (saveHost h w) = awStreams w" "awHosts (saveStream s w) = awHosts w"
  "streamByID (saveHost h w) i = streamByID w i"
  "streamByID (snd (recordLogArchiveEvent env w ev)) i = streamByID w i"
  "streamByID (recordLogArchiveStreamStateEvent env w now s lv msg) i = streamByID w i"
  "streamByID (checkpointEvent env w now hid rid s rl) i = streamByID w i"
  by (simp_all add: saveHost_def saveStream_def streamByID_def recordLogArchiveStreamStateEvent_def
      checkpointEvent_def Let_def streams_of_events)

lemma streamByID_event: "streamByID (snd (recordLogArchiveEvent env w ev)) i = streamByID w i"
  by (simp only: table_simps)

section \<open>The abstract lease\<close>

datatype actor = Operator | Agent string | Nobody

type_synonym lease = "bool \<times> (string \<times> gotime) option"

inductive lease_step :: "gotime \<Rightarrow> actor \<Rightarrow> lease \<Rightarrow> lease \<Rightarrow> bool" where
  keep: "lease_step now a l l"
| launch: "lease_step now Operator l (True, None)"
| halt: "lease_step now Operator l (False, None)"
| grant: "\<lbrakk>case h of None \<Rightarrow> True | Some (q, t) \<Rightarrow> q = r \<or> t < now; now < e; e \<le> now + 600 * secondNs\<rbrakk>
    \<Longrightarrow> lease_step now (Agent r) (True, h) (True, Some (r, e))"
| release: "lease_step now (Agent r) (True, Some (r, t)) (True, None)"

inductive_cases lease_step_NobodyE: "lease_step now Nobody l l'"
inductive_cases lease_step_AgentE: "lease_step now (Agent r) l l'"

definition lease_of :: "DatabaseLogArchiveStream \<Rightarrow> lease" where
  "lease_of s = (lsDesiredState s = DesiredRunning,
     if lsLeaseOwner s = [] then None else map_option (Pair (lsLeaseOwner s)) (lsLeaseExpiresAt s))"

definition stream_wf :: "DatabaseLogArchiveStream \<Rightarrow> bool" where
  "stream_wf s \<longleftrightarrow> (lsLeaseOwner s = [] \<longleftrightarrow> lsLeaseExpiresAt s = None)
     \<and> (lsDesiredState s \<noteq> DesiredRunning \<longrightarrow> lsLeaseOwner s = []) \<and> trimmed_text (lsLeaseOwner s)"

text \<open>The host name of a runner is stored without blanks around it.\<close>

definition hosts_trimmed :: "archive_world \<Rightarrow> bool" where
  "hosts_trimmed w \<longleftrightarrow> list_all (\<lambda>h. trimmed_text (rhHost h)) (awHosts w)"

definition archive_wf :: "archive_world \<Rightarrow> bool" where
  "archive_wf w \<longleftrightarrow> hosts_trimmed w
     \<and> list_all (\<lambda>s. case streamByID w (lsID s) of None \<Rightarrow> False | Some s' \<Rightarrow> stream_wf s') (awStreams w)"

lemma archive_wf_lookup:
  "archive_wf w \<longleftrightarrow> hosts_trimmed w \<and> (\<forall>i s. streamByID w i = Some s \<longrightarrow> stream_wf s)"
proof -
  have "s \<in> set (awStreams w) \<Longrightarrow> streamByID w (lsID s) \<noteq> None" for s
    by (auto simp: streamByID_def find_None_iff)
  moreover have "streamByID w i = Some s \<Longrightarrow> s \<in> set (awStreams w) \<and> lsID s = i" for i s
    by (auto simp: streamByID_def find_Some_iff)
  ultimately show ?thesis
    unfolding archive_wf_def list_all_iff
    by (auto split: option.splits) blast
qed

lemma trimmed_text_Nil [simp]: "trimmed_text []"
  by (simp add: trimmed_text_def)

definition archive_actor :: "archive_env \<Rightarrow> archive_world \<Rightarrow> archive_op \<Rightarrow> actor" where
  "archive_actor env w op =
     (let agent = (\<lambda>r a. case authenticateRunnerAgent env w r a of
                     Inl _ \<Rightarrow> Nobody | Inr host \<Rightarrow> Agent (runnerIDForHost host)) in
      case op of OpHeartbeat r a _ \<Rightarrow> agent r a | OpList r a \<Rightarrow> agent r a | OpCheckpoint r a _ _ \<Rightarrow> agent r a
      | _ \<Rightarrow> Operator)"

text \<open>What a step may do to one stream: it keeps it well formed and takes a lease step.\<close>

definition lease_moves :: "gotime \<Rightarrow> actor \<Rightarrow> DatabaseLogArchiveStream option \<Rightarrow> DatabaseLogArchiveStream option \<Rightarrow> bool" where
  "lease_moves now a x y = (case x of None \<Rightarrow> y = None
     | Some s \<Rightarrow> (case y of None \<Rightarrow> False
        | Some s' \<Rightarrow> stream_wf s \<longrightarrow> stream_wf s' \<and> lease_step now a (lease_of s) (lease_of s')))"

lemma lease_moves_refl [simp]: "lease_moves now a x x"
  by (simp add: lease_moves_def lease_step.keep split: option.split)

lemma lease_moves_Some:
  assumes "stream_wf s \<Longrightarrow> stream_wf s' \<and> lease_step now a (lease_of s) (lease_of s')"
  shows "lease_moves now a (Some s) (Some s')"
  using assms by (simp add: lease_moves_def)

section \<open>Operators\<close>

lemma control_streamByID:
  assumes "getLogArchiveStreamForControl env w i = Inr s"
  shows "streamByID w i = Some s" "lsID s = i"
  using assms streams.lookup_key [of w i s]
  by (auto simp: getLogArchiveStreamForControl_def split: if_splits option.splits)

lemma applied_fields [simp]:
  "lsID (applyLogArchiveStreamStartState s h m e) = lsID s"
  "lsID (applyLogArchiveStreamPauseState s r t) = lsID s"
  "lsID (applyLogArchiveStreamStopState s r) = lsID s"
  "lease_of (applyLogArchiveStreamStartState s h m e) = (True, None)"
  "lease_of (applyLogArchiveStreamPauseState s r t) = (False, None)"
  "lease_of (applyLogArchiveStreamStopState s r) = (False, None)"
  "stream_wf (applyLogArchiveStreamStartState s h m e)"
  "stream_wf (applyLogArchiveStreamPauseState s r t)"
  "stream_wf (applyLogArchiveStreamStopState s r)"
  by (simp_all add: applyLogArchiveStreamStartState_def applyLogArchiveStreamPauseState_def
      applyLogArchiveStreamStopState_def lease_of_def stream_wf_def Let_def)

lemma lease_moves_update:
  assumes "streamByID w i = Some s" "lsID s' = i" "updateStream env w s' = Inr w'"
    "stream_wf s \<Longrightarrow> stream_wf s' \<and> lease_step now a (lease_of s) (lease_of s')"
  shows "lease_moves now a (streamByID w j) (streamByID w' j)"
  using assms by (auto simp: updateStream_def streams.lookup_save lease_moves_Some split: option.splits)

lemma lease_moves_control:
  assumes "getLogArchiveStreamForControl env w i = Inr s" "updateStream env w s' = Inr w'"
    "lsID s' = lsID s" "stream_wf s'" "lease_step now a (lease_of s) (lease_of s')"
  shows "lease_moves now a (streamByID w j) (streamByID w' j)"
  using lease_moves_update [OF control_streamByID(1) [OF assms(1)] _ assms(2)]
    control_streamByID(2) [OF assms(1)] assms(3-5) by simp

lemma launch_moves:
  "lease_moves now Operator (streamByID w j) (streamByID (snd (launchLogArchiveStream m env w t i req)) j)"
  unfolding launchLogArchiveStream_def Let_def
  by (auto simp: table_simps split: sum.split option.split;
      erule (1) lease_moves_control; simp add: lease_step.launch)

lemma halt_moves:
  "lease_moves now Operator (streamByID w j) (streamByID (snd (PauseLogArchiveStream env w t i req)) j)"
  "lease_moves now Operator (streamByID w j) (streamByID (snd (StopLogArchiveStream env w t i req)) j)"
  unfolding PauseLogArchiveStream_def StopLogArchiveStream_def Let_def
  by (auto simp: table_simps split: sum.split option.split;
      erule (1) lease_moves_control; simp add: lease_step.halt)+

section \<open>Agents\<close>

lemma runnerIDForHost_nonempty [simp]: "runnerIDForHost h \<noteq> []"
  by (simp add: runnerIDForHost_def)

lemma lease_seconds: "0 < runnerAgentLeaseTTLSeconds n" "runnerAgentLeaseTTLSeconds n \<le> 600"
  by (simp_all add: runnerAgentLeaseTTLSeconds_def defaultRunnerAgentLeaseTTLSeconds_def
      maxRunnerAgentLeaseTTLSeconds_def)

lemma lease_seconds_ns:
  "now < now + runnerAgentLeaseTTLSeconds n * secondNs"
  "now + runnerAgentLeaseTTLSeconds n * secondNs \<le> now + 600 * secondNs"
  using lease_seconds [of n] by (simp_all add: secondNs_def)

definition lease_granted :: "string \<Rightarrow> gotime \<Rightarrow> gotime \<Rightarrow> DatabaseLogArchiveStream \<Rightarrow> DatabaseLogArchiveStream" where
  "lease_granted r now e s = s\<lparr>lsLeaseOwner := r, lsLeaseExpiresAt := Some e, lsLastHeartbeatAt := Some now,
     lsDaemonStatus := DaemonStarting, lsStatus := StreamPendingS, lsLastError := LeaseTaken\<rparr>"

lemma TryAcquireLease_cases:
  obtains (refused) "TryAcquireLease w i hid r now e = (False, w)"
  | (taken) s where "TryAcquireLease w i hid r now e = (True, saveStream (lease_granted r now e s) w)"
      "streamByID w i = Some s" "leaseAvailable s hid r now" "r \<noteq> []"
proof (cases "i = 0 \<or> hid = 0 \<or> TrimSpace r = [] \<or> streamByID w i = None")
  case True
  then show thesis by (intro refused) (auto simp: TryAcquireLease_def)
next
  case False
  then obtain s where "streamByID w i = Some s" by auto
  moreover have "r \<noteq> []" using False by (cases r) simp_all
  ultimately show thesis
    using False refused taken [of s] by (cases "leaseAvailable s hid r now") (auto simp: TryAcquireLease_def lease_granted_def)
qed

lemma lease_granted_step:
  assumes "leaseAvailable s hid r now" "r \<noteq> []" "now < e" "e \<le> now + 600 * secondNs" "stream_wf s" "trimmed_text r"
  shows "stream_wf (lease_granted r now e s)"
    "lease_step now (Agent r) (lease_of s) (lease_of (lease_granted r now e s))"
  using assms(1-5) assms(6)
  by (auto simp: leaseAvailable_def stream_wf_def lease_of_def lease_granted_def
      intro!: lease_step.grant split: option.splits)

definition grant_moves ::
  "gotime \<Rightarrow> gotime \<Rightarrow> string \<Rightarrow> DatabaseLogArchiveStream option \<Rightarrow> DatabaseLogArchiveStream option \<Rightarrow> bool" where
  "grant_moves now e r x y \<longleftrightarrow> lease_moves now (Agent r) x y
     \<and> (y \<noteq> x \<longrightarrow> (\<exists>s'. y = Some s' \<and> lease_of s' = (True, Some (r, e))))"

lemma grant_moves_refl [simp]: "grant_moves now e r x x"
  by (simp add: grant_moves_def)

lemma grant_moves_trans:
  assumes "grant_moves now e r x y" "grant_moves now e r y z"
  shows "grant_moves now e r x z"
  using assms by (cases "y = x"; cases "z = y") (auto simp: grant_moves_def lease_moves_def split: option.splits)

lemma grant_moves_acquire:
  assumes "TryAcquireLease w i hid r now e = (ok, w')" "now < e" "e \<le> now + 600 * secondNs" "trimmed_text r"
  shows "grant_moves now e r (streamByID w j) (streamByID w' j)"
proof (cases rule: TryAcquireLease_cases [of w i hid r now e])
  case refused
  with assms(1) show ?thesis by simp
next
  case (taken s)
  have k: "lsID (lease_granted r now e s) = i"
    using streams.lookup_key [OF taken(2)] by (simp add: lease_granted_def)
  have "lease_moves now (Agent r) (Some s) (Some (lease_granted r now e s))"
    using lease_granted_step [OF taken(3,4) assms(2,3) _ assms(4)] by (simp add: lease_moves_def)
  moreover have "lease_of (lease_granted r now e s) = (True, Some (r, e))"
    using taken(3,4) by (simp add: lease_of_def lease_granted_def leaseAvailable_def)
  ultimately show ?thesis
    using taken(1,2) assms(1) by (auto simp: grant_moves_def streams.lookup_save [OF taken(2) k])
qed

lemma acquireLoop_moves:
  assumes "now < e" "e \<le> now + 600 * secondNs" "trimmed_text r"
  shows "grant_moves now e r (streamByID w j) (streamByID (snd (acquireLoop env now hid r e ss w)) j)"
proof (induction ss arbitrary: w)
  case (Cons s ss)
  obtain ok w' where t: "TryAcquireLease w (lsID s) hid r now e = (ok, w')" by force
  note step = grant_moves_acquire [OF t assms, of j]
  show ?case
    using grant_moves_trans [OF step Cons.IH [of w']] grant_moves_trans [OF step]
    by (auto simp: t table_simps split: option.split bool.split prod.split sum.split)
      (metis Cons.IH snd_conv streamByID_event)+
qed simp

lemma checkpointStatus_fields [simp]:
  "lsID (checkpointStatus req s) = lsID s" "lsLeaseOwner (checkpointStatus req s) = lsLeaseOwner s"
  "lsLeaseExpiresAt (checkpointStatus req s) = lsLeaseExpiresAt s"
  "lsDesiredState (checkpointStatus req s) = lsDesiredState s"
  "lsRunnerHostID (checkpointStatus req s) = lsRunnerHostID s"
  by (simp_all add: checkpointStatus_def Let_def)

lemma checkpoint_fields [simp]:
  "lsID (applyRunnerAgentCheckpoint s req t now r) = lsID s"
  "lsDesiredState (applyRunnerAgentCheckpoint s req t now r) = lsDesiredState s"
  "lsRunnerHostID (applyRunnerAgentCheckpoint s req t now r) = lsRunnerHostID s"
  "lsLeaseOwner (applyRunnerAgentCheckpoint s req t now r) = (if cpReleaseLease req then [] else r)"
  "lsLeaseExpiresAt (applyRunnerAgentCheckpoint s req t now r) =
    (if cpReleaseLease req then None
     else Some (now + runnerAgentLeaseTTLSeconds (cpLeaseTTLSeconds req) * secondNs))"
  by (simp_all add: applyRunnerAgentCheckpoint_def Let_def)

lemma checkpointRead_Inr:
  assumes "checkpointRead env w now rid auth i req = Inr r"
  obtains host s t where "r = (host, applyRunnerAgentCheckpoint s req t now (runnerIDForHost host))"
    "authenticateRunnerAgent env w rid auth = Inr host" "streamByID w i = Some s" "lsID s = i"
    "validateRunnerAgentStreamOwnership s (rhID host) (runnerIDForHost host) = None"
    "aeStreamRepo env"
  using assms streams.lookup_key [of w i]
  by (auto simp: checkpointRead_def split: if_splits sum.splits option.splits)

lemma owned_fields:
  assumes "validateRunnerAgentStreamOwnership s h r = None"
  shows "lsRunnerHostID s = h" "lsDesiredState s = DesiredRunning" "TrimSpace (lsLeaseOwner s) = r"
  using assms by (simp_all add: validateRunnerAgentStreamOwnership_def split: if_splits)

lemma owned_step:
  assumes "validateRunnerAgentStreamOwnership s h r = None" "r \<noteq> []" "stream_wf s"
  shows "stream_wf (applyRunnerAgentCheckpoint s req t now r)"
    "lease_step now (Agent r) (lease_of s) (lease_of (applyRunnerAgentCheckpoint s req t now r))"
proof -
  note o = owned_fields [OF assms(1)]
  have r: "lsLeaseOwner s = r" "trimmed_text r"
    using o(3) assms(3) by (auto simp: stream_wf_def TrimSpace_trimmed)
  obtain e where e: "lsLeaseExpiresAt s = Some e" using r assms(2,3) by (auto simp: stream_wf_def)
  show "stream_wf (applyRunnerAgentCheckpoint s req t now r)"
    using o r assms(2) by (simp add: stream_wf_def trimmed_text_def)
  show "lease_step now (Agent r) (lease_of s) (lease_of (applyRunnerAgentCheckpoint s req t now r))"
    using o r assms(2) e lease_seconds_ns by (auto simp: lease_of_def intro!: lease_step.grant lease_step.release)
qed

lemma Itoa_no_space: "\<not> IsSpace (last (Itoa n))" "Itoa n \<noteq> []"
proof -
  have d: "digits_of 10 m \<noteq> []" for m by (rule digits_of_nonempty)
  then have "IsDigit (last (digits_of 10 m))" for m
    using digits_of_IsDigit [of m] by (auto simp: list_all_iff)
  moreover have "IsDigit c \<Longrightarrow> \<not> IsSpace c" for c
    by (auto simp: IsDigit_def IsSpace_def Let_def)
  ultimately show "\<not> IsSpace (last (Itoa n))" using d by (simp add: Itoa_def)
  show "Itoa n \<noteq> []" using d by (simp add: Itoa_def)
qed

lemma runnerID_trimmed:
  assumes "trimmed_text (rhHost h)"
  shows "trimmed_text (runnerIDForHost h)"
proof -
  have "\<not> IsSpace c" if "c \<in> {CHR ''l'', CHR ''r'', CHR ''a'', CHR ''s''}" for c
    using that by (auto simp: IsSpace_def rune_code_def Let_def)
  moreover have "rhHost h = [] \<or> \<not> IsSpace (last (rhHost h))" using assms by (auto simp: trimmed_text_def)
  ultimately show ?thesis
    by (auto simp: runnerIDForHost_def trimmed_text_def Itoa_no_space)
qed

lemma hostByID_trimmed: "hosts_trimmed w \<Longrightarrow> hostByID w i = Some h \<Longrightarrow> trimmed_text (rhHost h)"
  by (auto simp: hosts_trimmed_def hostByID_def find_Some_iff list_all_length)

lemma authenticated_host:
  assumes "authenticateRunnerAgent env w rid auth = Inr host"
  shows "host \<in> set (awHosts w)" "rhEnabled host" "rhStatus host \<noteq> HostDisabled"
    "runnerAgentAuthMatches env (rhConfigJSON host) auth"
  using assms
  by (auto simp: authenticateRunnerAgent_def findRunnerHostByRunnerID_def hostByID_def Let_def find_Some_iff
      split: if_splits sum.splits option.splits)

lemma heartbeat_host [simp]:
  "rhID (applyRunnerAgentHeartbeat h req now) = rhID h"
  "rhHost (applyRunnerAgentHeartbeat h req now) = rhHost h"
  "runnerIDForHost (applyRunnerAgentHeartbeat h req now) = runnerIDForHost h"
  by (simp_all add: applyRunnerAgentHeartbeat_def runnerIDForHost_def Let_def)

lemma checkpoint_moves:
  assumes "archive_wf w"
  shows "lease_moves now (archive_actor env w (OpCheckpoint rid a i req)) (streamByID w j)
    (streamByID (snd (RunnerAgentCheckpointLogArchiveStream env w now rid a i req)) j)"
proof (cases "checkpointRead env w now rid a i req")
  case (Inl e)
  then show ?thesis by (simp add: RunnerAgentCheckpointLogArchiveStream_def)
next
  case (Inr r)
  then obtain host s t where r: "r = (host, applyRunnerAgentCheckpoint s req t now (runnerIDForHost host))"
    "authenticateRunnerAgent env w rid a = Inr host" "streamByID w i = Some s" "lsID s = i"
    "validateRunnerAgentStreamOwnership s (rhID host) (runnerIDForHost host) = None"
    by (elim checkpointRead_Inr)
  have wf: "stream_wf s" using assms r(3) by (simp add: archive_wf_lookup)
  note o = owned_step [OF r(5) runnerIDForHost_nonempty wf, where req = req and t = t and now = now]
  show ?thesis
    using lease_moves_update [OF r(3), of "applyRunnerAgentCheckpoint s req t now (runnerIDForHost host)" env]
      o r(1,2,4) Inr
    by (auto simp: RunnerAgentCheckpointLogArchiveStream_def checkpointWrite_def archive_actor_def table_simps
        split: sum.split)
qed

lemma list_moves:
  assumes "archive_wf w"
  shows "lease_moves now (archive_actor env w (OpList rid a)) (streamByID w j)
    (streamByID (snd (RunnerAgentListLogArchiveStreams env w now rid a)) j)"
proof (cases "authenticateRunnerAgent env w rid a")
  case (Inl e)
  then show ?thesis by (simp add: RunnerAgentListLogArchiveStreams_def)
next
  case (Inr host)
  then have "trimmed_text (rhHost host)"
    using assms authenticated_host(1) [OF Inr] by (auto simp: archive_wf_def hosts_trimmed_def list_all_iff)
  then have t: "trimmed_text (runnerIDForHost host)" by (rule runnerID_trimmed)
  note loop = acquireLoop_moves [OF lease_seconds_ns t, of now 0 "saveHost h w" j env for h]
  show ?thesis
    using loop Inr
    by (auto simp: RunnerAgentListLogArchiveStreams_def Let_def archive_actor_def updateHost_def grant_moves_def
        table_simps split: sum.split option.split)
qed

lemma heartbeat_moves:
  "streamByID (snd (RunnerAgentHeartbeat env w now rid a req)) j = streamByID w j"
  by (auto simp: RunnerAgentHeartbeat_def Let_def updateHost_def table_simps split: sum.split option.split)

lemma archive_step_moves:
  assumes "archive_wf w"
  shows "lease_moves now (archive_actor env w op) (streamByID w j) (streamByID (archive_step env (now, op) w) j)"
  using checkpoint_moves [OF assms] list_moves [OF assms] launch_moves halt_moves heartbeat_moves
  by (cases op) (auto simp: StartLogArchiveStream_def ResumeLogArchiveStream_def archive_actor_def)

lemma acquireLoop_hosts: "awHosts (snd (acquireLoop env now hid r e ss w)) = awHosts w"
proof (induction ss arbitrary: w)
  case (Cons s ss)
  have "awHosts (snd (TryAcquireLease w (lsID s) hid r now e)) = awHosts w"
    by (cases rule: TryAcquireLease_cases [of w "lsID s" hid r now e]) (simp_all add: table_simps)
  then show ?case
    by (auto simp: Cons.IH table_simps split: option.split bool.split prod.split sum.split)
      (metis Cons.IH snd_conv streams_of_events(2))+
qed simp

lemma hosts_trimmed_save:
  assumes "hosts_trimmed w" "host \<in> set (awHosts w)" "rhHost h = rhHost host"
  shows "hosts_trimmed (saveHost h w)"
  using assms by (auto simp: hosts_trimmed_def saveHost_def list_all_iff)

lemma same_hosts_trimmed: "awHosts w' = awHosts w \<Longrightarrow> hosts_trimmed w' = hosts_trimmed w"
  by (simp add: hosts_trimmed_def)

lemma control_hosts:
  "awHosts (snd (launchLogArchiveStream m env w now i req)) = awHosts w"
  "awHosts (snd (PauseLogArchiveStream env w now i req)) = awHosts w"
  "awHosts (snd (StopLogArchiveStream env w now i req)) = awHosts w"
  "awHosts (snd (RunnerAgentCheckpointLogArchiveStream env w now rid a i cp)) = awHosts w"
  by (auto simp: launchLogArchiveStream_def PauseLogArchiveStream_def StopLogArchiveStream_def Let_def
      RunnerAgentCheckpointLogArchiveStream_def checkpointWrite_def checkpointEvent_def updateStream_def
      recordLogArchiveStreamStateEvent_def table_simps split: sum.split option.split prod.split)

lemma archive_step_hosts:
  assumes "hosts_trimmed w"
  shows "hosts_trimmed (archive_step env (now, op) w)"
proof (cases op)
  case (OpHeartbeat rid a req)
  show ?thesis
    using hosts_trimmed_save [OF assms authenticated_host(1)] assms
    by (auto simp: OpHeartbeat RunnerAgentHeartbeat_def Let_def updateHost_def
        same_hosts_trimmed [OF streams_of_events(2)] split: sum.split option.split)
next
  case (OpList rid a)
  show ?thesis
    using hosts_trimmed_save [OF assms authenticated_host(1)] assms
    by (auto simp: OpList RunnerAgentListLogArchiveStreams_def Let_def updateHost_def
        same_hosts_trimmed [OF acquireLoop_hosts] split: sum.split option.split)
qed (use assms in \<open>auto simp: StartLogArchiveStream_def ResumeLogArchiveStream_def
      same_hosts_trimmed [OF control_hosts(1)] same_hosts_trimmed [OF control_hosts(2)]
      same_hosts_trimmed [OF control_hosts(3)] same_hosts_trimmed [OF control_hosts(4)]\<close>)

lemma archive_step_wf:
  assumes "archive_wf w"
  shows "archive_wf (archive_step env (now, op) w)"
proof -
  have "stream_wf s'" if "streamByID (archive_step env (now, op) w) i = Some s'" for i s'
    using archive_step_moves [OF assms, of now env op i] that assms
    by (auto simp: lease_moves_def archive_wf_lookup split: option.splits)
  then show ?thesis using archive_step_hosts assms by (simp add: archive_wf_lookup)
qed

lemma archive_step_lease:
  assumes "archive_wf w" "streamByID w i = Some s"
  obtains s' where "streamByID (archive_step env (now, op) w) i = Some s'"
    "lease_step now (archive_actor env w op) (lease_of s) (lease_of s')"
  using archive_step_moves [OF assms(1), of now env op i] assms
  by (auto simp: lease_moves_def archive_wf_lookup split: option.splits)

section \<open>Runs\<close>

text \<open>A table of leases that operations grant and end: whoever holds the lease at the end of a run held it
  from the start, or was granted it and nothing ended it since.\<close>

primrec along :: "('op \<Rightarrow> 's \<Rightarrow> 's) \<Rightarrow> ('op \<Rightarrow> 's \<Rightarrow> bool) \<Rightarrow> 'op list \<Rightarrow> 's \<Rightarrow> bool" where
  "along step P [] s \<longleftrightarrow> True"
| "along step P (op # ops) s \<longleftrightarrow> P op s \<and> along step P ops (step op s)"

lemma along_snoc: "along step P (ops @ [op]) s \<longleftrightarrow> along step P ops s \<and> P op (fold step ops s)"
  by (induction ops arbitrary: s) auto

locale lease_trace =
  fixes step :: "'op \<Rightarrow> 's \<Rightarrow> 's" and inv :: "'s \<Rightarrow> bool" and held_by :: "'s \<Rightarrow> 'r \<Rightarrow> bool"
    and grants :: "'op \<Rightarrow> 's \<Rightarrow> 'r \<Rightarrow> bool" and ends :: "'op \<Rightarrow> 's \<Rightarrow> 'r \<Rightarrow> bool"
  assumes inv_step: "inv s \<Longrightarrow> inv (step op s)"
    and held_step: "inv s \<Longrightarrow> held_by (step op s) r \<Longrightarrow> grants op s r \<or> held_by s r \<and> \<not> ends op s r"
begin

lemma inv_run: "inv s \<Longrightarrow> inv (fold step ops s)"
  by (induction ops arbitrary: s) (auto intro: inv_step)

lemma held_run:
  assumes "inv s" "held_by (fold step ops s) r"
  shows "held_by s r \<and> along step (\<lambda>op s. \<not> ends op s r) ops s
    \<or> (\<exists>a op b. ops = a @ op # b \<and> grants op (fold step a s) r
         \<and> along step (\<lambda>op s. \<not> ends op s r) b (fold step (a @ [op]) s))"
  using assms(2)
proof (induction ops rule: rev_induct)
  case (snoc op ops)
  from snoc.prems have "held_by (step op (fold step ops s)) r" by simp
  from held_step [OF inv_run [OF assms(1)] this] consider
      (grant) "grants op (fold step ops s) r"
    | (keep) "held_by (fold step ops s) r" "\<not> ends op (fold step ops s) r" by blast
  then show ?case
  proof cases
    case grant
    then show ?thesis by (intro disjI2 exI [of _ ops] exI [of _ op] exI [of _ "[]"]) simp
  next
    case keep
    from snoc.IH [OF keep(1)] show ?thesis
    proof (elim disjE exE conjE)
      fix a o' b
      assume d: "ops = a @ o' # b" "grants o' (fold step a s) r"
        "along step (\<lambda>op s. \<not> ends op s r) b (fold step (a @ [o']) s)"
      then show ?thesis
        using keep(2)
        by (intro disjI2 exI [of _ a] exI [of _ o'] exI [of _ "b @ [op]"]) (simp add: along_snoc)
    qed (use keep(2) in \<open>simp add: along_snoc\<close>)
  qed
qed simp

end

end
