(* ===== verification/Log_Props.thy ===== *)
theory Log_Props
  imports Log_Lease "HOL-Library.Code_Target_Nat"
begin

text \<open>
  Properties of the log archive: every operation refines the abstract lease, a lease changes hands
  only when it has expired, a report is accepted only from the agent that was granted the lease, an
  agent can report on every stream it was given, and what happens when a report and a pause overlap.
\<close>

section \<open>Who holds the lease of a stream\<close>

definition stream_holder :: "nat \<Rightarrow> archive_world \<Rightarrow> string \<Rightarrow> bool" where
  "stream_holder i w r \<longleftrightarrow> r \<noteq> [] \<and> map_option lsLeaseOwner (streamByID w i) = Some r"

definition lists_as :: "archive_env \<Rightarrow> gotime \<times> archive_op \<Rightarrow> archive_world \<Rightarrow> string \<Rightarrow> bool" where
  "lists_as env op w r \<longleftrightarrow> (case snd op of OpList _ _ \<Rightarrow> archive_actor env w (snd op) = Agent r | _ \<Rightarrow> False)"

definition succeeded :: "('e + 'a) \<times> 'w \<Rightarrow> bool" where
  "succeeded r = (case fst r of Inr _ \<Rightarrow> True | Inl _ \<Rightarrow> False)"

text \<open>The requests that end a lease of the stream: an operator's, and the release by an agent.\<close>

definition ends_lease :: "archive_env \<Rightarrow> nat \<Rightarrow> gotime \<times> archive_op \<Rightarrow> archive_world \<Rightarrow> bool" where
  "ends_lease env i op w \<longleftrightarrow> (case op of (now, o') \<Rightarrow> case o' of
       OpStart j req \<Rightarrow> j = i \<and> succeeded (StartLogArchiveStream env w now j req)
     | OpResume j req \<Rightarrow> j = i \<and> succeeded (ResumeLogArchiveStream env w now j req)
     | OpPause j req \<Rightarrow> j = i \<and> succeeded (PauseLogArchiveStream env w now j req)
     | OpStop j req \<Rightarrow> j = i \<and> succeeded (StopLogArchiveStream env w now j req)
     | OpCheckpoint rid a j req \<Rightarrow> j = i \<and> cpReleaseLease req
         \<and> succeeded (RunnerAgentCheckpointLogArchiveStream env w now rid a j req)
     | _ \<Rightarrow> False)"

lemma ended_by_control:
  assumes "getLogArchiveStreamForControl env w i = Inr s" "updateStream env w s' = Inr w'"
    "lsID s' = lsID s" "lsLeaseOwner s' = []"
  shows "\<not> stream_holder i w' r"
  using control_streamByID [OF assms(1)] assms(2-4)
  by (auto simp: stream_holder_def updateStream_def streams.lookup_save split: option.splits)

lemma applied_owner [simp]:
  "lsLeaseOwner (applyLogArchiveStreamStartState s h m e) = []"
  "lsLeaseOwner (applyLogArchiveStreamPauseState s rs t) = []"
  "lsLeaseOwner (applyLogArchiveStreamStopState s rs) = []"
  by (simp_all add: applyLogArchiveStreamStartState_def applyLogArchiveStreamPauseState_def
      applyLogArchiveStreamStopState_def Let_def)

lemma stream_holder_events [table_simps]:
  "stream_holder i (recordLogArchiveStreamStateEvent env w now s lv msg) r = stream_holder i w r"
  "stream_holder i (checkpointEvent env w now hid rid s rl) r = stream_holder i w r"
  by (simp_all add: stream_holder_def table_simps)

text \<open>A request that fails or leaves the stream without the holder.\<close>

definition unheld :: "nat \<Rightarrow> string \<Rightarrow> (archive_error + 'a) \<times> archive_world \<Rightarrow> bool" where
  "unheld i r p \<longleftrightarrow> \<not> (succeeded p \<and> stream_holder i (snd p) r)"

lemma unheld_Inl [simp]: "unheld i r (Inl e, w)"
  by (simp add: unheld_def succeeded_def)

lemma unheld_Inr [simp]: "unheld i r (Inr s, w) \<longleftrightarrow> \<not> stream_holder i w r"
  by (simp add: unheld_def succeeded_def)

lemma control_ends:
  "unheld i r (launchLogArchiveStream m env w now i req)"
  "unheld i r (PauseLogArchiveStream env w now i req)"
  "unheld i r (StopLogArchiveStream env w now i req)"
  unfolding launchLogArchiveStream_def PauseLogArchiveStream_def StopLogArchiveStream_def Let_def
  by (auto simp: table_simps split: sum.split option.split;
      drule (1) ended_by_control [where r = r]; simp)+

lemma release_ends:
  assumes "succeeded (RunnerAgentCheckpointLogArchiveStream env w now rid a i req)" "cpReleaseLease req"
  shows "\<not> stream_holder i (snd (RunnerAgentCheckpointLogArchiveStream env w now rid a i req)) r"
proof -
  obtain x where x: "checkpointRead env w now rid a i req = Inr x"
    using assms by (cases "checkpointRead env w now rid a i req")
      (auto simp: RunnerAgentCheckpointLogArchiveStream_def succeeded_def)
  then obtain host s t where s: "x = (host, applyRunnerAgentCheckpoint s req t now (runnerIDForHost host))"
    "streamByID w i = Some s" "lsID s = i" by (elim checkpointRead_Inr)
  show ?thesis
    using assms s by (auto simp: RunnerAgentCheckpointLogArchiveStream_def checkpointWrite_def x succeeded_def
        table_simps updateStream_def stream_holder_def streams.lookup_save split: option.splits)
qed

lemma ends_lease_not_held:
  assumes "ends_lease env i op w"
  shows "\<not> stream_holder i (archive_step env op w) r"
  using assms control_ends [unfolded unheld_def] release_ends
  by (cases op; cases "snd op")
    (auto simp: ends_lease_def StartLogArchiveStream_def ResumeLogArchiveStream_def)

lemma lease_step_holder:
  assumes "lease_step now a l (b, Some (r, e))"
  shows "l = (b, Some (r, e)) \<or> a = Agent r"
  using assms by cases auto

lemma checkpoint_keeps_holder:
  assumes "archive_wf w" "stream_holder i (snd (RunnerAgentCheckpointLogArchiveStream env w now rid a j req)) r"
  shows "stream_holder i w r"
proof (cases "checkpointRead env w now rid a j req")
  case (Inl e)
  then show ?thesis using assms(2) by (simp add: RunnerAgentCheckpointLogArchiveStream_def)
next
  case (Inr x)
  then obtain host s t where s: "x = (host, applyRunnerAgentCheckpoint s req t now (runnerIDForHost host))"
    "streamByID w j = Some s" "lsID s = j"
    "validateRunnerAgentStreamOwnership s (rhID host) (runnerIDForHost host) = None"
    by (elim checkpointRead_Inr)
  have "TrimSpace (lsLeaseOwner s) = lsLeaseOwner s"
    using assms(1) s(2) by (auto simp: archive_wf_lookup stream_wf_def TrimSpace_trimmed)
  then have "lsLeaseOwner s = runnerIDForHost host" using owned_fields(3) [OF s(4)] by simp
  then show ?thesis
    using assms(2) s(1-3)
    by (auto simp: RunnerAgentCheckpointLogArchiveStream_def checkpointWrite_def Inr table_simps updateStream_def
        stream_holder_def streams.lookup_save split: option.splits if_splits)
qed

lemma held_after_step:
  assumes "archive_wf w" "stream_holder i (archive_step env op w) r"
  shows "lists_as env op w r \<or> stream_holder i w r \<and> \<not> ends_lease env i op w"
proof -
  obtain now o' where op: "op = (now, o')" by force
  have ne: "\<not> ends_lease env i op w" using ends_lease_not_held assms(2) by blast
  obtain s' where s': "streamByID (archive_step env op w) i = Some s'" "lsLeaseOwner s' = r" "r \<noteq> []"
    using assms(2) by (auto simp: stream_holder_def)
  have mv: "lease_moves now (archive_actor env w o') (streamByID w i) (Some s')"
    using archive_step_moves [OF assms(1), of now env o' i] s'(1) by (simp add: op)
  then obtain s where s: "streamByID w i = Some s" "stream_wf s" "stream_wf s'"
    "lease_step now (archive_actor env w o') (lease_of s) (lease_of s')"
    using assms(1) by (auto simp: lease_moves_def archive_wf_lookup split: option.splits)
  obtain e where e: "lease_of s' = (lsDesiredState s' = DesiredRunning, Some (r, e))"
    using s' s(3) by (auto simp: lease_of_def stream_wf_def)
  from lease_step_holder [OF s(4) [unfolded e]] show ?thesis
  proof
    assume "lease_of s = (lsDesiredState s' = DesiredRunning, Some (r, e))"
    then have "stream_holder i w r" using s(1) s'(3) by (auto simp: lease_of_def stream_holder_def split: if_splits)
    then show ?thesis using ne by blast
  next
    assume "archive_actor env w o' = Agent r"
    show ?thesis
    proof (cases o')
      case (OpCheckpoint rid b j req)
      then show ?thesis using checkpoint_keeps_holder [OF assms(1)] assms(2) ne by (simp add: op)
    next
      case (OpHeartbeat rid b req)
      then show ?thesis using assms(2) ne by (simp add: op stream_holder_def heartbeat_moves)
    qed (use \<open>archive_actor env w o' = Agent r\<close> in \<open>simp_all add: op lists_as_def archive_actor_def\<close>)
  qed
qed

interpretation archive_lease: lease_trace "archive_step env" archive_wf "stream_holder i" "lists_as env"
    "\<lambda>op w r. ends_lease env i op w"
  by unfold_locales (use archive_step_wf held_after_step in auto)

section \<open>Streams given to an agent\<close>

definition leased_to :: "nat \<Rightarrow> string \<Rightarrow> nat \<Rightarrow> archive_world \<Rightarrow> bool" where
  "leased_to hid r i w = (case streamByID w i of None \<Rightarrow> False
     | Some s \<Rightarrow> lsLeaseOwner s = r \<and> lsRunnerHostID s = hid \<and> lsDesiredState s = DesiredRunning)"

lemma leased_to_event [simp]: "leased_to hid r i (snd (recordLogArchiveEvent env w ev)) = leased_to hid r i w"
  by (simp add: leased_to_def table_simps)

lemma leased_to_acquire:
  assumes "TryAcquireLease w j hid r now e = (ok, w')"
  shows "leased_to hid r i w \<Longrightarrow> leased_to hid r i w'" "ok \<Longrightarrow> leased_to hid r j w'"
proof -
  have "(leased_to hid r i w \<longrightarrow> leased_to hid r i w') \<and> (ok \<longrightarrow> leased_to hid r j w')"
  proof (cases rule: TryAcquireLease_cases [of w j hid r now e])
    case (taken s)
    have "lsID (lease_granted r now e s) = j"
      using streams.lookup_key [OF taken(2)] by (simp add: lease_granted_def)
    from streams.lookup_save [OF taken(2) this]
    have look: "streamByID w' k = (if k = j then Some (lease_granted r now e s) else streamByID w k)" for k
      using taken(1) assms by simp
    have "lsRunnerHostID s = hid" "lsDesiredState s = DesiredRunning"
      using taken(3) by (simp_all add: leaseAvailable_def)
    then show ?thesis by (simp add: leased_to_def look lease_granted_def)
  qed (use assms in simp)
  then show "leased_to hid r i w \<Longrightarrow> leased_to hid r i w'" "ok \<Longrightarrow> leased_to hid r j w'" by blast+
qed

lemma leased_to_loop:
  "leased_to hid r i w \<Longrightarrow> leased_to hid r i (snd (acquireLoop env now hid r e ss w))"
proof (induction ss arbitrary: w)
  case (Cons s ss)
  obtain ok w' where t: "TryAcquireLease w (lsID s) hid r now e = (ok, w')" by force
  have l: "leased_to hid r i w'" by (rule leased_to_acquire(1) [OF t Cons.prems])
  have l': "leased_to hid r i (snd (recordLogArchiveEvent env w' ev))" for ev using l by simp
  show ?case
    using Cons.IH [OF l] Cons.IH [OF l'] Cons.prems
    by (auto simp: t split: option.split bool.split prod.split sum.split) (metis snd_conv)+
qed simp

lemma acquireLoop_leased:
  assumes "fst (acquireLoop env now hid r e ss w) = Inr streams" "s \<in> set streams"
  shows "leased_to hid r (lsID s) (snd (acquireLoop env now hid r e ss w))"
  using assms
proof (induction ss arbitrary: w streams)
  case (Cons x ss)
  obtain ok w' where t: "TryAcquireLease w (lsID x) hid r now e = (ok, w')" by force
  show ?case
  proof (cases "ok \<and> streamByID w' (lsID x) \<noteq> None")
    case False
    then show ?thesis
      using Cons.prems Cons.IH by (auto simp: t split: option.splits bool.splits)
  next
    case True
    then obtain y where y: "streamByID w' (lsID x) = Some y" by auto
    have "leased_to hid r (lsID x) w'" using leased_to_acquire(2) [OF t] True by simp
    then have l: "leased_to hid r (lsID x) (snd (recordLogArchiveEvent env w' ev))" for ev by simp
    have k: "lsID y = lsID x" by (rule streams.lookup_key [OF y])
    show ?thesis
      using Cons.prems True y k leased_to_loop [OF l] Cons.IH
      by (auto simp: t split: option.splits prod.splits sum.splits)
        (metis fst_conv snd_conv)+
  qed
qed simp

lemma online_heartbeat:
  "applyRunnerAgentHeartbeat host (Some \<lparr>hbStatus = HostOnline, hbMessage = []\<rparr>) now
    = host\<lparr>rhLastHeartbeatAt := Some now, rhStatus := HostOnline, rhLastError := Plain []\<rparr>"
proof -
  have "ToLower (TrimSpace HostOnline) = HostOnline" by code_simp
  then show ?thesis by (simp add: applyRunnerAgentHeartbeat_def)
qed

lemma find_saved:
  assumes "find P rs = Some h" "P h'"
  shows "find P (map (\<lambda>r. if f r = f h then h' else r) rs) = Some h'"
  using assms by (induction rs) (auto split: if_splits)

lemma authenticate_saved:
  assumes "authenticateRunnerAgent env w rid a = Inr h" "rhID h' = rhID h"
    "runnerIDForHost h' = runnerIDForHost h" "rhEnabled h'" "rhStatus h' \<noteq> HostDisabled"
    "rhConfigJSON h' = rhConfigJSON h" "awHosts w' = awHosts (saveHost h' w)"
  shows "authenticateRunnerAgent env w' rid a = Inr h'"
proof -
  have found: "findRunnerHostByRunnerID w (TrimSpace rid) = Inr h"
    using assms(1) by (auto simp: authenticateRunnerAgent_def Let_def split: if_splits sum.splits)
  have "findRunnerHostByRunnerID w' (TrimSpace rid) = Inr h'"
  proof (cases "parseRunnerHostIDAlias (TrimSpace rid)")
    case (Some i)
    then have f: "find (\<lambda>h. rhID h = i) (awHosts w) = Some h"
      using found by (auto simp: findRunnerHostByRunnerID_def hostByID_def split: option.splits)
    from find_saved [OF f, of h' rhID] have "find (\<lambda>h. rhID h = i) (awHosts w') = Some h'"
      using find_key [OF f] assms(2) by (simp add: assms(7) saveHost_def)
    then show ?thesis using Some by (simp add: findRunnerHostByRunnerID_def hostByID_def)
  next
    case None
    then have f: "find (\<lambda>h. runnerIDForHost h = TrimSpace rid) (awHosts w) = Some h"
      using found by (auto simp: findRunnerHostByRunnerID_def split: option.splits)
    from find_saved [OF f, of h' rhID] have "find (\<lambda>h. runnerIDForHost h = TrimSpace rid) (awHosts w') = Some h'"
      using find_key [OF f] assms(2,3) by (simp add: assms(7) saveHost_def)
    then show ?thesis using None by (simp add: findRunnerHostByRunnerID_def)
  qed
  then show ?thesis
    using assms by (auto simp: authenticateRunnerAgent_def Let_def split: if_splits sum.splits)
qed

section \<open>A sample\<close>

definition sample_archive_env :: archive_env where
  "sample_archive_env = \<lparr>aeStreamRepo = True, aeHostRepo = True, aeEventRepo = True, aeInstances = Some Map.empty,
     aeUpdateErr = (\<lambda>_. None), aeHostUpdateErr = (\<lambda>_. None), aeAcquireErr = (\<lambda>_. None), aeEventErr = (\<lambda>_. None),
     aeJSON = (\<lambda>_. Some [''runnerAuthSha256'' \<mapsto> replicate 64 CHR ''a'']),
     aeSha256Hex = (\<lambda>_. replicate 64 CHR ''a''), aeParseTime = (\<lambda>_. Inr 0)\<rparr>"

definition sample_runner :: DatabaseRunnerHost where
  "sample_runner = \<lparr>rhID = 4, rhName = ''r1'', rhRunnerType = ''agent'', rhHost = ''db1'', rhPort = 22,
     rhEnabled = True, rhStatus = HostOnline, rhLastHeartbeatAt = None, rhLastError = Plain [],
     rhConfigJSON = ''{}'', rhCredentialID = 0, rhWorkDir = []\<rparr>"

definition sample_stream :: DatabaseLogArchiveStream where
  "sample_stream = \<lparr>lsID = 7, lsInstanceID = 1, lsSourceInstanceID = 0, lsArchiveType = ArchiveTypeBinlog,
     lsArchiveMode = ModePolling, lsArchiveEngine = [], lsRunnerHostID = 4, lsRPOTargetSeconds = 60,
     lsEnabled = True, lsStatus = StreamRunningS, lsDesiredState = DesiredRunning, lsDaemonStatus = DaemonRunning,
     lsCursorFile = ''binlog.01'', lsCursorPos = 4, lsCursorGTIDSet = [], lsActiveFile = [], lsLastSourceFile = [],
     lsLastSourcePos = 0, lsLastEventTime = None, lsArchiveLagSeconds = 0, lsLastHeartbeatAt = None,
     lsConsecutiveFailures = 0, lsLeaseOwner = ''gone'', lsLeaseExpiresAt = Some 50, lsPausedAt = None,
     lsPausedReason = Plain [], lsLastArchiveName = [], lsLastError = Plain []\<rparr>"

definition sample_archive :: archive_world where
  "sample_archive = \<lparr>awStreams = [sample_stream], awHosts = [sample_runner], awEvents = []\<rparr>"

definition sample_report :: DatabaseRunnerAgentCheckpointRequest where
  "sample_report = \<lparr>cpDaemonStatus = ''running'', cpCursorFile = ''binlog.02'', cpCursorPos = 9,
     cpCursorGTIDSet = [], cpActiveFile = [], cpLastSourceFile = [], cpLastSourcePos = 0, cpLastEventTime = [],
     cpArchiveLagSeconds = 0, cpConsecutiveFailures = 0, cpLastError = [], cpLeaseTTLSeconds = 0,
     cpReleaseLease = False\<rparr>"

lemma sample_archive_wf: "archive_wf sample_archive"
  by code_simp

section \<open>Properties\<close>

text \<open>C6: Every request of an operator or an agent takes each stream through a step of the abstract lease, by the
  actor the request comes from (an agent only when it authenticates), and keeps the state well formed:
  a stream has an expiry exactly when it has an owner, and has no owner unless it shall run.\<close>

theorem archive_refines_lease:
  assumes "archive_wf w" "streamByID w i = Some s"
  shows "archive_wf (archive_step env (now, op) w)
    \<and> (\<exists>s'. streamByID (archive_step env (now, op) w) i = Some s'
         \<and> lease_step now (archive_actor env w op) (lease_of s) (lease_of s'))"
  using archive_step_lease [OF assms] archive_step_wf [OF assms(1)] by metis

text \<open>C5: A lease is exclusive: when the owner of a stream is no longer the agent that owned it, an operator or that
  agent itself ended the lease and nobody owns it, or the lease had expired and the new owner is the
  agent that made the request.\<close>

theorem lease_changes_hands:
  assumes "archive_wf w" "streamByID w i = Some s" "lsLeaseOwner s \<noteq> []" "lsLeaseExpiresAt s = Some t"
    "streamByID (archive_step env (now, op) w) i = Some s'" "lsLeaseOwner s' \<noteq> lsLeaseOwner s"
  shows "(lsLeaseOwner s' = [] \<and> archive_actor env w op \<in> {Operator, Agent (lsLeaseOwner s)})
    \<or> (archive_actor env w op = Agent (lsLeaseOwner s') \<and> t < now)"
proof -
  obtain "lease_step now (archive_actor env w op) (lease_of s) (lease_of s')"
    using archive_step_lease [OF assms(1,2)] assms(5) by (metis option.inject)
  moreover have "stream_wf s'" using archive_step_wf [OF assms(1)] assms(5) by (auto simp: archive_wf_lookup)
  ultimately show ?thesis
    using assms(3,4,6) by (cases rule: lease_step.cases) (auto simp: lease_of_def stream_wf_def split: if_splits)
qed

text \<open>C35: Behind any run of requests a report on a stream is accepted only from an authenticated agent bound to the
  stream that holds its lease: it held it from the start, or a request of that agent for its streams
  granted it, and no request that ends leases of the stream succeeded since.\<close>

theorem report_needs_lease:
  assumes "archive_wf w"
    "fst (RunnerAgentCheckpointLogArchiveStream env (archive_run env ops w) now rid auth i req) = Inr s"
  shows "\<exists>host r. authenticateRunnerAgent env (archive_run env ops w) rid auth = Inr host
    \<and> r = runnerIDForHost host \<and> lsRunnerHostID s = rhID host
    \<and> (stream_holder i w r \<and> along (archive_step env) (\<lambda>op v. \<not> ends_lease env i op v) ops w
       \<or> (\<exists>a op b. ops = a @ op # b \<and> lists_as env op (archive_run env a w) r
            \<and> along (archive_step env) (\<lambda>op v. \<not> ends_lease env i op v) b (archive_run env (a @ [op]) w)))"
proof -
  let ?w = "archive_run env ops w"
  obtain x where x: "checkpointRead env ?w now rid auth i req = Inr x"
    using assms(2) by (cases "checkpointRead env ?w now rid auth i req")
      (auto simp: RunnerAgentCheckpointLogArchiveStream_def)
  then obtain host s0 t where s0: "x = (host, applyRunnerAgentCheckpoint s0 req t now (runnerIDForHost host))"
    "authenticateRunnerAgent env ?w rid auth = Inr host" "streamByID ?w i = Some s0"
    "validateRunnerAgentStreamOwnership s0 (rhID host) (runnerIDForHost host) = None"
    by (elim checkpointRead_Inr)
  have "archive_wf ?w" unfolding archive_run_def by (rule archive_lease.inv_run [OF assms(1)])
  then have "lsLeaseOwner s0 = runnerIDForHost host"
    using owned_fields(3) [OF s0(4)] s0(3) by (auto simp: archive_wf_lookup stream_wf_def TrimSpace_trimmed)
  then have held: "stream_holder i (fold (archive_step env) ops w) (runnerIDForHost host)"
    using s0(3) by (simp add: stream_holder_def archive_run_def)
  have "lsRunnerHostID s = rhID host"
    using assms(2) x s0(1) owned_fields(1) [OF s0(4)]
    by (auto simp: RunnerAgentCheckpointLogArchiveStream_def checkpointWrite_def split: sum.splits)
  with s0(2) archive_lease.held_run [OF assms(1) held] show ?thesis by (auto simp: archive_run_def)
qed



text \<open>A report and a pause that overlap: when an operator pauses a stream after an agent's report was checked and
  before it is written, the whole row the agent's request read is written back, so the stream is
  running again and leased although the pause succeeded, and its pause time is lost.\<close>

theorem report_undoes_pause:
  assumes "checkpointRead env w now rid auth i req = Inr x" "\<not> cpReleaseLease req"
    "PauseLogArchiveStream env w t i preq = (Inr p, w1)"
    "checkpointWrite env w1 now' req x = (Inr s, w2)"
  shows "map_option lsDesiredState (streamByID w1 i) = Some DesiredPaused
    \<and> map_option lsDesiredState (streamByID w2 i) = Some DesiredRunning
    \<and> map_option lsPausedAt (streamByID w2 i) = map_option lsPausedAt (streamByID w i)
    \<and> (\<exists>r. stream_holder i w2 r)"
proof -
  obtain host s0 u where x: "x = (host, applyRunnerAgentCheckpoint s0 req u now (runnerIDForHost host))"
    "streamByID w i = Some s0" "lsID s0 = i" "lsDesiredState s0 = DesiredRunning"
    using assms(1) by (elim checkpointRead_Inr) (metis owned_fields(2))
  obtain wp where p: "updateStream env w (applyLogArchiveStreamPauseState s0 (case preq of Some r \<Rightarrow> lcReason r | None \<Rightarrow> []) t) = Inr wp"
    "\<And>j. streamByID w1 j = streamByID wp j"
    using assms(3) x(2)
    by (auto simp: PauseLogArchiveStream_def getLogArchiveStreamForControl_def Let_def table_simps
        split: if_splits sum.splits)
  have w1: "streamByID w1 i = Some (applyLogArchiveStreamPauseState s0 (case preq of Some r \<Rightarrow> lcReason r | None \<Rightarrow> []) t)"
    using p streams.lookup_save [OF x(2)] x(3) by (auto simp: updateStream_def split: option.splits)
  have w2: "streamByID w2 i = Some (applyRunnerAgentCheckpoint s0 req u now (runnerIDForHost host))"
    using assms(4) streams.lookup_save [OF w1] x(1,3)
    by (auto simp: checkpointWrite_def updateStream_def table_simps split: option.splits)
  have "lsPausedAt (applyRunnerAgentCheckpoint s0 req u now (runnerIDForHost host)) = lsPausedAt s0"
    by (simp add: applyRunnerAgentCheckpoint_def checkpointStatus_def Let_def)
  then show ?thesis
    using w1 w2 x assms(2) by (simp add: stream_holder_def applyLogArchiveStreamPauseState_def Let_def)
qed

definition sample_leased :: archive_world where
  "sample_leased = snd (RunnerAgentListLogArchiveStreams sample_archive_env sample_archive 100 ''host:4'' ''k'')"

theorem report_undoes_pause_witness:
  "map_option lsDesiredState (streamByID (snd (PauseLogArchiveStream sample_archive_env sample_leased 200 7 None)) 7)
     = Some DesiredPaused
   \<and> map_option lsDesiredState (streamByID
       (snd (checkpointWrite sample_archive_env (snd (PauseLogArchiveStream sample_archive_env sample_leased 200 7 None))
          210 sample_report
          (projr (checkpointRead sample_archive_env sample_leased 190 ''host:4'' ''k'' 7 sample_report)))) 7)
     = Some DesiredRunning"
proof -
  let ?x = "checkpointRead sample_archive_env sample_leased 190 ''host:4'' ''k'' 7 sample_report"
  let ?p = "PauseLogArchiveStream sample_archive_env sample_leased 200 7 None"
  let ?y = "checkpointWrite sample_archive_env (snd ?p) 210 sample_report (projr ?x)"
  have x: "?x = Inr (projr ?x)" and p: "?p = (Inr (projr (fst ?p)), snd ?p)" and y: "?y = (Inr (projr (fst ?y)), snd ?y)"
    by code_simp+
  have "\<not> cpReleaseLease sample_report" by code_simp
  from report_undoes_pause [OF x this p y] show ?thesis by simp
qed

text \<open>The witnesses of the other properties, on the same sample.\<close>

theorem archive_refines_lease_witness:
  "\<exists>s'. streamByID (archive_step sample_archive_env (100, OpList ''host:4'' ''k'') sample_archive) 7 = Some s'
    \<and> lease_step 100 (archive_actor sample_archive_env sample_archive (OpList ''host:4'' ''k''))
        (lease_of sample_stream) (lease_of s')"
proof -
  have "streamByID sample_archive 7 = Some sample_stream" by code_simp
  from archive_refines_lease [OF sample_archive_wf this] show ?thesis by blast
qed

theorem lease_changes_hands_witness:
  "map_option lsLeaseOwner (streamByID (archive_step sample_archive_env (100, OpList ''host:4'' ''k'') sample_archive) 7)
     = Some ''agent:db1''
   \<and> archive_actor sample_archive_env sample_archive (OpList ''host:4'' ''k'') = Agent ''agent:db1'' \<and> (50::int) < 100"
proof -
  have before: "streamByID sample_archive 7 = Some sample_stream" by code_simp
  let ?s = "lease_granted ''agent:db1'' 100 (100 + 90 * secondNs) sample_stream"
  have behind: "streamByID (archive_step sample_archive_env (100, OpList ''host:4'' ''k'') sample_archive) 7 = Some ?s"
    by code_simp
  have o: "lsLeaseOwner sample_stream \<noteq> []" "lsLeaseExpiresAt sample_stream = Some 50"
    "lsLeaseOwner ?s \<noteq> lsLeaseOwner sample_stream" "lsLeaseOwner ?s = ''agent:db1''" by code_simp+
  from lease_changes_hands [OF sample_archive_wf before o(1,2) behind o(3)] behind o(4) show ?thesis by simp
qed

theorem report_needs_lease_witness:
  "\<exists>host a op b. authenticateRunnerAgent sample_archive_env
       (archive_run sample_archive_env [(100, OpList ''host:4'' ''k'')] sample_archive) ''host:4'' ''k'' = Inr host
    \<and> [(100, OpList ''host:4'' ''k'')] = a @ op # b
    \<and> lists_as sample_archive_env op (archive_run sample_archive_env a sample_archive) (runnerIDForHost host)"
proof -
  let ?ops = "[(100, OpList ''host:4'' ''k'')]"
  let ?c = "fst (RunnerAgentCheckpointLogArchiveStream sample_archive_env
    (archive_run sample_archive_env ?ops sample_archive) 200 ''host:4'' ''k'' 7 sample_report)"
  have c: "?c = Inr (projr ?c)" by code_simp
  have n: "\<not> stream_holder 7 sample_archive (runnerIDForHost h)" for h
    by (auto simp: stream_holder_def sample_archive_def streamByID_def sample_stream_def runnerIDForHost_def)
  from report_needs_lease [OF sample_archive_wf c] show ?thesis using n by blast
qed

end
