(* ===== verification/Backup_Purge.thy ===== *)
theory Backup_Purge
  imports Query_Console "HOL-Library.List_Lexorder" "HOL-Library.Char_ord"
begin

text \<open>
  The purge of superseded backup chains (backup_policy_purge.go, with the helpers of
  backup_policy_chain.go, backup_policy.go and backup_pitr.go it calls). A synthetic full backup
  replaces the records it was built from; once its restore was proved, the old records are marked
  superseded, get a window, and are marked expired when the window has passed.

  The state holds the rows of the tables; JSON parsing, the calendar and repository failures are
  parameters. Texts are constructors of \<open>purge_text\<close>. Records of a use case are values: the code shares
  pointers between its lists, but writes only to fields no other list is read for.
\<close>

section \<open>Data\<close>

abbreviation BackupSuccess :: string where "BackupSuccess \<equiv> ''success''"
abbreviation BackupPending :: string where "BackupPending \<equiv> ''pending''"
abbreviation BackupExpired :: string where "BackupExpired \<equiv> ''expired''"
abbreviation BackupLevelFull :: string where "BackupLevelFull \<equiv> ''full''"
abbreviation BackupMethodPhysical :: string where "BackupMethodPhysical \<equiv> ''physical''"
abbreviation OriginSyntheticFull :: string where "OriginSyntheticFull \<equiv> ''synthetic_full''"
abbreviation ArtifactMissing :: string where "ArtifactMissing \<equiv> ''missing''"
abbreviation ArtifactChecksumFailed :: string where "ArtifactChecksumFailed \<equiv> ''checksum_failed''"
abbreviation LogMissing :: string where "LogMissing \<equiv> ''missing''"
abbreviation LogChecksumFailed :: string where "LogChecksumFailed \<equiv> ''checksum_failed''"
abbreviation PolicyActive :: string where "PolicyActive \<equiv> ''active''"

datatype chain_status =
    ChainComplete | ChainMissingBinlog | ChainGTIDGap | ChainTimeRangeGap | ChainUnsupported
  | ChainMissingBase | ChainMissingIncremental | ChainBroken
  | ChainMissingWAL | ChainTimelineGap | ChainTimelineMismatch | ChainSystemMismatch | ChainLSNNotCovered

datatype chain_text =
    NoChainText | PolicyNotFound | NoStreamBound | NoSyntheticRecord | LogMarkedMissing string
  | LogChecksumBad string | ChainVerified | NoBase | NoStart | GTIDSetMissing | NoLogs
  | NextFileBroken string string | PreviousFileBroken string string | LogGTIDMissing string
  | StartNotFound | ChainNotProved

text \<open>What the check of a chain of backups finds, and what a preview adds.\<close>

datatype unusable =
    NoRecord | OtherPolicy | NotSuccessful | NotPhysical | OtherEngine | OtherSource | LevelUnsupported | ArtifactBad
  | ChecksumMissing | ToLSNMissing | PathIncomplete | PathOfHost nat | PathUnparsed | PathMetadata | PathMissing

datatype chain_reason =
    BaseGone nat | NoFullBackup | BaseUnusable nat unusable | CycleAt nat | NotIncremental nat | BaseDiffers nat nat nat
  | IncrementalUnusable nat unusable | LSNGap nat string nat string | FromLSNMissing nat | ServerDiffers nat
  | LatestGone nat | LatestNotReached nat nat | ManyChildren nat | NoBinlogStream | BasePicked nat
  | ChainVerifiedFrom nat nat nat | SyntheticOff | ChainNotPassed | NothingToMerge | TooFewIncrementals nat int
  | ProofWanted

datatype purge_text =
    PurgePlain string | ChainReasons string "chain_reason list" | NoPolicy | NoSynthetic | SyntheticNotSuccess nat | SyntheticArtifactState nat string
  | SyntheticNoChecksum nat | SyntheticNoProof nat | ChainReason chain_text | SyntheticNoSources
  | DependentRecord nat nat | RecordMissing | AlreadyExpired | NotSuperseded | StillProtected gotime
  | NoWindow | WindowNotReached gotime | SupersededBy nat gotime | PurgedBySynthetic nat | PurgeMetadata nat
  | PurgedRecords nat nat

text \<open>The columns of backups and of logs that only PostgreSQL uses.\<close>

record pg_backup =
  pbExternalBackupID :: string
  pbExternalServerName :: string
  pbSystemIdentifier :: string
  pbTimelineID :: string
  pbWALSegmentSize :: int
  pbEndLSN :: string
  pbWALEnd :: string
  pbManifestJSON :: string
  pbManifestChecksum :: string

record pg_log =
  plSystemIdentifier :: string
  plTimelineID :: string
  plWALSegmentSize :: int
  plExternalServerName :: string
  plTimelineHistoryURI :: string

definition no_pg_backup :: pg_backup where
  "no_pg_backup = \<lparr>pbExternalBackupID = [], pbExternalServerName = [], pbSystemIdentifier = [], pbTimelineID = [],
     pbWALSegmentSize = 0, pbEndLSN = [], pbWALEnd = [], pbManifestJSON = [], pbManifestChecksum = []\<rparr>"

definition no_pg_log :: pg_log where
  "no_pg_log = \<lparr>plSystemIdentifier = [], plTimelineID = [], plWALSegmentSize = 0, plExternalServerName = [],
     plTimelineHistoryURI = []\<rparr>"

record DatabaseBackupRecord =
  brID :: nat
  brPolicyID :: nat
  brBackupMethod :: string
  brBackupLevel :: string
  brBackupOrigin :: string
  brStatus :: string
  brArtifactState :: string
  brFileName :: string
  brFileSize :: int
  brStorageURI :: string
  brFilePath :: string
  brChecksumSHA256 :: string
  brParentRecordID :: nat
  brSupersededByRecordID :: nat
  brPurgeEligibleAt :: "gotime option"
  brProtectedUntil :: "gotime option"
  brRestoreTestStatus :: string
  brVerifyStatus :: string
  brVerifyMessage :: purge_text
  brErrorMessage :: purge_text
  brSyntheticSourceRecordIDs :: string
  brFinishedAt :: "gotime option"
  brStartedAt :: "gotime option"
  brCreatedAt :: gotime
  brBackupBinlogFile :: string
  brBackupGTIDSet :: string
  brExecutedGTIDSet :: string
  brGTIDMode :: string
  brInstanceID :: nat
  brTriggerType :: string
  brChainID :: string
  brBaseRecordID :: nat
  brBackupEngine :: string
  brSourceInstanceID :: nat
  brCheckpointFromLSN :: string
  brCheckpointToLSN :: string
  brServerUUID :: string
  brRecoverableFrom :: "gotime option"
  brRecoverableUntil :: "gotime option"
  brExpiresAt :: "gotime option"
  brTaskID :: nat
  brToolName :: string
  brPostgreSQL :: pg_backup

record DatabaseLogArchive =
  laID :: nat
  laStreamID :: nat
  laInstanceID :: nat
  laArchiveType :: string
  laFileName :: string
  laPreviousFileName :: string
  laNextFileName :: string
  laStartGTIDSet :: string
  laEndGTIDSet :: string
  laStatus :: string
  laFirstEventTime :: "gotime option"
  laLastEventTime :: "gotime option"
  laFileSize :: int
  laPostgreSQL :: pg_log

record DatabaseBackupPolicyConfig =
  bpID :: nat
  bpInstanceID :: nat
  bpName :: string
  bpBinlogStreamID :: nat
  bpSyntheticRuleJSON :: string
  bpStatus :: string
  bpLastRunAt :: "gotime option"
  bpLastStatus :: string
  bpLastMessage :: purge_text
  bpEnabled :: bool
  bpBackupEngine :: string
  bpSourceInstanceID :: nat
  bpRunnerHostID :: nat
  bpSyntheticEnabled :: bool
  bpRestoreDrillRequired :: bool
  bpRetentionJSON :: string
  bpLastError :: purge_text
  bpLastFullAt :: "gotime option"
  bpLastIncrementalAt :: "gotime option"
  bpLastSyntheticAt :: "gotime option"
  bpEngine :: string

record syntheticRuleConfig =
  srMode :: string
  srAutoRun :: bool
  srTriggerAfterIncrementals :: int
  srMergeOldestIncrementals :: int
  srRequireRestoreProof :: bool
  srSupersededKeepDaysAfterProof :: int
  srNeverDeleteWithoutProof :: bool
  srMarkSupersededAfterProof :: bool

record purge_world =
  pwRecords :: "DatabaseBackupRecord list"
  pwPolicies :: "DatabaseBackupPolicyConfig list"
  pwLogs :: "DatabaseLogArchive list"
  pwConsole :: query_world

record purge_env =
  pePolicyRepo :: bool
  peRecordRepo :: bool
  peLogRepo :: bool
  peInstanceRepo :: bool
  peConsole :: console_env
  peListErr :: "string option"
  peLogsErr :: bool
  peRecordErr :: "DatabaseBackupRecord \<Rightarrow> string option"
  pePolicyErr :: "DatabaseBackupPolicyConfig \<Rightarrow> string option"
  peRuleJSON :: "string \<Rightarrow> syntheticRuleConfig \<Rightarrow> syntheticRuleConfig"
  peIDsJSON :: "string \<Rightarrow> nat list option"
  peAddDate :: "gotime \<Rightarrow> int \<Rightarrow> gotime"

datatype purge_error =
    PolicyRepoMissing | PolicyMissingErr | ListFailed string | NoSyntheticErr | RecordUpdateFailed nat string
  | ReconcileFailed string | PurgeBlocked "purge_text list" | NothingEligible

record syntheticPurgeInput =
  piPolicy :: DatabaseBackupPolicyConfig
  piSynthetic :: DatabaseBackupRecord
  piSourceRecords :: "DatabaseBackupRecord list"
  piAllRecords :: "DatabaseBackupRecord list"
  piLogArchives :: "DatabaseLogArchive list"
  piRule :: syntheticRuleConfig
  piNow :: gotime

section \<open>Repositories\<close>

definition recordByID :: "purge_world \<Rightarrow> nat \<Rightarrow> DatabaseBackupRecord option" where
  "recordByID w i = find (\<lambda>r. brID r = i) (pwRecords w)"

definition policyByID :: "purge_world \<Rightarrow> nat \<Rightarrow> DatabaseBackupPolicyConfig option" where
  "policyByID w i = find (\<lambda>p. bpID p = i) (pwPolicies w)"

definition saveRecord :: "DatabaseBackupRecord \<Rightarrow> purge_world \<Rightarrow> purge_world" where
  "saveRecord r w = w\<lparr>pwRecords := map (\<lambda>x. if brID x = brID r then r else x) (pwRecords w)\<rparr>"

definition savePolicy :: "DatabaseBackupPolicyConfig \<Rightarrow> purge_world \<Rightarrow> purge_world" where
  "savePolicy p w = w\<lparr>pwPolicies := map (\<lambda>x. if bpID x = bpID p then p else x) (pwPolicies w)\<rparr>"

text \<open>\<open>ListSuccessfulPhysicalByPolicy\<close>, ordered by the time a record was finished (NULL first) and its number.\<close>

definition ListSuccessfulPhysicalByPolicy :: "purge_world \<Rightarrow> nat \<Rightarrow> DatabaseBackupRecord list" where
  "ListSuccessfulPhysicalByPolicy w policyID =
     (if policyID = 0 then []
      else (let rows = sort_key brID (filter (\<lambda>r. brPolicyID r = policyID \<and> brBackupMethod r = BackupMethodPhysical
                         \<and> brStatus r = BackupSuccess) (pwRecords w))
            in filter (\<lambda>r. brFinishedAt r = None) rows
               @ sort_key (\<lambda>r. the (brFinishedAt r)) (filter (\<lambda>r. brFinishedAt r \<noteq> None) rows)))"

text \<open>The log archives of a stream, the newest 1000, by file name and number.\<close>

definition listBinlogArchives :: "purge_world \<Rightarrow> DatabaseBackupPolicyConfig \<Rightarrow> DatabaseLogArchive list" where
  "listBinlogArchives w policy =
     (let rows = filter (\<lambda>a. laStreamID a = bpBinlogStreamID policy
                    \<and> (bpInstanceID policy = 0 \<or> laInstanceID a = bpInstanceID policy)
                    \<and> laArchiveType a = ''binlog'') (pwLogs w);
          rows = sort_key laID rows;
          page = take 1000 (rev (filter (\<lambda>a. laFirstEventTime a = None) rows
            @ sort_key (\<lambda>a. the (laFirstEventTime a)) (filter (\<lambda>a. laFirstEventTime a \<noteq> None) rows)))
      in sort_key laFileName (sort_key laID page))"

section \<open>Helpers\<close>

definition normalizeBackupLevel :: "string \<Rightarrow> string" where
  "normalizeBackupLevel value =
     (let v = ToLower (TrimSpace value) in
      if v \<in> set [''incremental'', ''differential''] then v else BackupLevelFull)"

definition backupRecordSortTime :: "DatabaseBackupRecord \<Rightarrow> gotime" where
  "backupRecordSortTime item =
     (case brFinishedAt item of Some t \<Rightarrow> t
      | None \<Rightarrow> (case brStartedAt item of Some t \<Rightarrow> t | None \<Rightarrow> brCreatedAt item))"

definition findBackupRecordByID :: "DatabaseBackupRecord list \<Rightarrow> nat \<Rightarrow> DatabaseBackupRecord option" where
  "findBackupRecordByID records i = find (\<lambda>r. brID r = i) records"

text \<open>\<open>uniqueStrings\<close> on the texts of reasons, none of which is blank: the first of each.\<close>

fun uniqueReasons :: "purge_text list \<Rightarrow> purge_text list \<Rightarrow> purge_text list" where
  "uniqueReasons seen [] = []"
| "uniqueReasons seen (x # xs) =
     (if x \<in> set seen then uniqueReasons seen xs else x # uniqueReasons (x # seen) xs)"

fun latestSyntheticLoop :: "DatabaseBackupRecord option \<Rightarrow> DatabaseBackupRecord list \<Rightarrow> DatabaseBackupRecord option" where
  "latestSyntheticLoop latest [] = latest"
| "latestSyntheticLoop latest (r # rs) =
     (if brBackupOrigin r \<noteq> OriginSyntheticFull \<or> normalizeBackupLevel (brBackupLevel r) \<noteq> BackupLevelFull
      then latestSyntheticLoop latest rs
      else case latest of
        None \<Rightarrow> latestSyntheticLoop (Some r) rs
      | Some l \<Rightarrow>
          if backupRecordSortTime l < backupRecordSortTime r
             \<or> (backupRecordSortTime l = backupRecordSortTime r \<and> brID l < brID r)
          then latestSyntheticLoop (Some r) rs else latestSyntheticLoop latest rs)"

definition latestSyntheticFullRecord :: "DatabaseBackupRecord list \<Rightarrow> DatabaseBackupRecord option" where
  "latestSyntheticFullRecord records = latestSyntheticLoop None records"

text \<open>\<open>parseUintText\<close>: the sum of an unsigned 64-bit integer wraps.\<close>

fun uintDigits :: "nat \<Rightarrow> string \<Rightarrow> nat option" where
  "uintDigits parsed [] = Some parsed"
| "uintDigits parsed (ch # rest) =
     (if IsDigit ch then uintDigits ((parsed * 10 + (rune_code ch - 48)) mod 2 ^ 64) rest else None)"

definition parseUintText :: "string \<Rightarrow> nat option" where
  "parseUintText value = (let v = TrimSpace value in if v = [] then None else uintDigits 0 v)"

fun splitIDs :: "string \<Rightarrow> string \<Rightarrow> string list" where
  "splitIDs cur [] = (if cur = [] then [] else [cur])"
| "splitIDs cur (c # s) =
     (if c = CHR '','' \<or> c = CHR '';'' \<or> c = SP \<or> c = LF \<or> c = CHR 0x09
      then (if cur = [] then splitIDs [] s else cur # splitIDs [] s) else splitIDs (cur @ [c]) s)"

definition parseSyntheticSourceRecordIDs :: "purge_env \<Rightarrow> string \<Rightarrow> nat list" where
  "parseSyntheticSourceRecordIDs env value =
     (let value = TrimSpace value in
      if value = [] then []
      else case peIDsJSON env value of
        Some ids \<Rightarrow> ids
      | None \<Rightarrow> filter (\<lambda>i. i > 0) (List.map_filter parseUintText (splitIDs [] value)))"

definition parseSyntheticRule :: "purge_env \<Rightarrow> DatabaseBackupPolicyConfig \<Rightarrow> syntheticRuleConfig" where
  "parseSyntheticRule env policy =
     (let rule = \<lparr>srMode = ''rolling_synthetic_full'', srAutoRun = False, srTriggerAfterIncrementals = 5,
                  srMergeOldestIncrementals = 5, srRequireRestoreProof = True,
                  srSupersededKeepDaysAfterProof = 7, srNeverDeleteWithoutProof = True,
                  srMarkSupersededAfterProof = True\<rparr>;
          rule = (if TrimSpace (bpSyntheticRuleJSON policy) \<noteq> []
                  then peRuleJSON env (bpSyntheticRuleJSON policy) rule else rule);
          rule = (if TrimSpace (srMode rule) = [] then rule\<lparr>srMode := ''rolling_synthetic_full''\<rparr> else rule);
          rule = (if srTriggerAfterIncrementals rule \<le> 0 then rule\<lparr>srTriggerAfterIncrementals := 5\<rparr> else rule);
          rule = (if srMergeOldestIncrementals rule \<le> 0
                  then rule\<lparr>srMergeOldestIncrementals := srTriggerAfterIncrementals rule\<rparr> else rule)
      in if srSupersededKeepDaysAfterProof rule < 0 then rule\<lparr>srSupersededKeepDaysAfterProof := 7\<rparr> else rule)"

section \<open>The chain of binary logs\<close>

definition gtidEnabled :: "DatabaseBackupRecord \<Rightarrow> bool" where
  "gtidEnabled base \<longleftrightarrow> EqualFold (TrimSpace (brGTIDMode base)) ''ON''
     \<or> Contains (ToLower (brGTIDMode base)) ''mariadb'' \<or> TrimSpace (brBackupGTIDSet base) \<noteq> []"

fun restoreLogLoop ::
  "DatabaseBackupRecord \<Rightarrow> bool \<Rightarrow> DatabaseLogArchive option \<Rightarrow> DatabaseLogArchive list \<Rightarrow> chain_status \<times> chain_text" where
  "restoreLogLoop base foundStart prev [] =
     (if \<not> foundStart then (ChainMissingBinlog, StartNotFound) else (ChainComplete, NoChainText))"
| "restoreLogLoop base foundStart prev (item # rest) =
     (let foundStart = (foundStart \<or> laFileName item = brBackupBinlogFile base
                        \<or> laPreviousFileName item = brBackupBinlogFile base);
          broken = (case prev of None \<Rightarrow> None | Some p \<Rightarrow>
             if TrimSpace (laNextFileName p) \<noteq> [] \<and> laNextFileName p \<noteq> laFileName item
             then Some (NextFileBroken (laFileName p) (laFileName item))
             else if TrimSpace (laPreviousFileName item) \<noteq> [] \<and> laPreviousFileName item \<noteq> laFileName p
             then Some (PreviousFileBroken (laFileName item) (laFileName p)) else None) in
      case broken of
        Some t \<Rightarrow> (ChainMissingBinlog, t)
      | None \<Rightarrow>
          if gtidEnabled base \<and> TrimSpace (laStartGTIDSet item) = [] \<and> TrimSpace (laEndGTIDSet item) = []
          then (ChainGTIDGap, LogGTIDMissing (laFileName item))
          else restoreLogLoop base foundStart (Some item) rest)"

definition validateMySQLRestoreLogMetadata ::
  "DatabaseBackupRecord \<Rightarrow> DatabaseLogArchive list \<Rightarrow> chain_status \<times> chain_text" where
  "validateMySQLRestoreLogMetadata base logs =
     (if TrimSpace (brBackupBinlogFile base) = [] \<and> TrimSpace (brBackupGTIDSet base) = []
      then (ChainMissingBinlog, NoStart)
      else if gtidEnabled base \<and> TrimSpace (brBackupGTIDSet base) = [] \<and> TrimSpace (brExecutedGTIDSet base) = []
      then (ChainGTIDGap, GTIDSetMissing)
      else if logs = [] then (ChainMissingBinlog, NoLogs)
      else if TrimSpace (brBackupBinlogFile base) \<noteq> [] then restoreLogLoop base False None logs
      else (ChainComplete, NoChainText))"

definition badArchive :: "DatabaseLogArchive \<Rightarrow> bool" where
  "badArchive a \<longleftrightarrow> laStatus a = LogMissing \<or> laStatus a = LogChecksumFailed"

definition syntheticPurgeBinlogStatus :: "syntheticPurgeInput \<Rightarrow> chain_status \<times> chain_text" where
  "syntheticPurgeBinlogStatus input =
     (if bpBinlogStreamID (piPolicy input) = 0 then (ChainMissingBinlog, NoStreamBound)
      else case find badArchive (piLogArchives input) of
        Some a \<Rightarrow> (if laStatus a = LogMissing then (ChainMissingBinlog, LogMarkedMissing (laFileName a))
                   else (ChainTimeRangeGap, LogChecksumBad (laFileName a)))
      | None \<Rightarrow>
        (case validateMySQLRestoreLogMetadata (piSynthetic input) (piLogArchives input) of
           (status, message) \<Rightarrow> if status = ChainComplete then (status, ChainVerified) else (status, message)))"

section \<open>The input of a purge\<close>

definition sourceRecords :: "purge_world \<Rightarrow> DatabaseBackupRecord list \<Rightarrow> nat list \<Rightarrow> DatabaseBackupRecord list" where
  "sourceRecords w records ids =
     List.map_filter (\<lambda>i. case findBackupRecordByID records i of
        Some r \<Rightarrow> Some r | None \<Rightarrow> recordByID w i) ids"

definition buildSyntheticPurgeInput ::
  "purge_env \<Rightarrow> purge_world \<Rightarrow> gotime \<Rightarrow> nat \<Rightarrow> purge_error + syntheticPurgeInput" where
  "buildSyntheticPurgeInput env w now policyID =
     (if \<not> pePolicyRepo env \<or> \<not> peRecordRepo env then Inl PolicyRepoMissing
      else case policyByID w policyID of
        None \<Rightarrow> Inl PolicyMissingErr
      | Some policy \<Rightarrow>
        (case peListErr env of
           Some m \<Rightarrow> Inl (ListFailed m)
         | None \<Rightarrow>
             let records = ListSuccessfulPhysicalByPolicy w (bpID policy) in
             case latestSyntheticFullRecord records of
               None \<Rightarrow> Inl NoSyntheticErr
             | Some synthetic \<Rightarrow>
                 Inr \<lparr>piPolicy = policy, piSynthetic = synthetic,
                      piSourceRecords = sourceRecords w records
                        (parseSyntheticSourceRecordIDs env (brSyntheticSourceRecordIDs synthetic)),
                      piAllRecords = records,
                      piLogArchives = (if peLogRepo env \<and> bpBinlogStreamID policy > 0 \<and> \<not> peLogsErr env
                                       then listBinlogArchives w policy else []),
                      piRule = parseSyntheticRule env policy, piNow = now\<rparr>))"

section \<open>Marking the superseded records\<close>

definition supersede :: "syntheticPurgeInput \<Rightarrow> gotime \<Rightarrow> DatabaseBackupRecord \<Rightarrow> DatabaseBackupRecord" where
  "supersede input eligibleAt r =
     (if brID r = brID (piSynthetic input) \<or> brStatus r = BackupExpired
         \<or> (brSupersededByRecordID r = brID (piSynthetic input) \<and> brPurgeEligibleAt r \<noteq> None) then r
      else r\<lparr>brSupersededByRecordID := brID (piSynthetic input),
             brPurgeEligibleAt := (case brPurgeEligibleAt r of None \<Rightarrow> Some eligibleAt | Some t \<Rightarrow> Some t),
             brErrorMessage := SupersededBy (brID (piSynthetic input)) eligibleAt\<rparr>)"

text \<open>The loop over the sources: the rows written, and the records as the rest of the request sees them.
  A failing write ends the request.\<close>

fun supersedeLoop ::
  "purge_env \<Rightarrow> syntheticPurgeInput \<Rightarrow> gotime \<Rightarrow> DatabaseBackupRecord list \<Rightarrow> purge_world
   \<Rightarrow> (purge_error + DatabaseBackupRecord list) \<times> purge_world" where
  "supersedeLoop env input eligibleAt [] w = (Inr [], w)"
| "supersedeLoop env input eligibleAt (r # rs) w =
     (let r' = supersede input eligibleAt r in
      if r' = r then apfst (map_sum id ((#) r)) (supersedeLoop env input eligibleAt rs w)
      else case peRecordErr env r' of
        Some m \<Rightarrow> (Inl (ReconcileFailed m), w)
      | None \<Rightarrow> apfst (map_sum id ((#) r')) (supersedeLoop env input eligibleAt rs (saveRecord r' w)))"

definition reconcileSyntheticPurgeState ::
  "purge_env \<Rightarrow> purge_world \<Rightarrow> syntheticPurgeInput \<Rightarrow> (purge_error + syntheticPurgeInput) \<times> purge_world" where
  "reconcileSyntheticPurgeState env w input =
     (if srNeverDeleteWithoutProof (piRule input) \<and> brRestoreTestStatus (piSynthetic input) \<noteq> BackupSuccess
      then (Inr input, w)
      else if \<not> srMarkSupersededAfterProof (piRule input) then (Inr input, w)
      else case supersedeLoop env input
                  (peAddDate env (piNow input) (srSupersededKeepDaysAfterProof (piRule input)))
                  (piSourceRecords input) w of
        (Inl e, w) \<Rightarrow> (Inl e, w)
      | (Inr sources, w) \<Rightarrow> (Inr (input\<lparr>piSourceRecords := sources\<rparr>), w))"

section \<open>What may be purged\<close>

definition sourceDependencyBlockReasons :: "syntheticPurgeInput \<Rightarrow> purge_text list" where
  "sourceDependencyBlockReasons input =
     (let sources = map brID (piSourceRecords input) in
      uniqueReasons [] (map (\<lambda>r. DependentRecord (brID r) (brParentRecordID r))
        (filter (\<lambda>r. brID r \<noteq> brID (piSynthetic input) \<and> brStatus r \<noteq> BackupExpired
           \<and> brID r \<notin> set sources \<and> brParentRecordID r \<in> set sources) (piAllRecords input))))"

definition globalBlocks :: "syntheticPurgeInput \<Rightarrow> purge_text list" where
  "globalBlocks input =
     (let s = piSynthetic input; chain = syntheticPurgeBinlogStatus input in
      (if brStatus s \<noteq> BackupSuccess then [SyntheticNotSuccess (brID s)] else [])
      @ (if brArtifactState s = ArtifactMissing \<or> brArtifactState s = ArtifactChecksumFailed
         then [SyntheticArtifactState (brID s) (brArtifactState s)] else [])
      @ (if TrimSpace (brChecksumSHA256 s) = [] then [SyntheticNoChecksum (brID s)] else [])
      @ (if srNeverDeleteWithoutProof (piRule input) \<and> brRestoreTestStatus s \<noteq> BackupSuccess
         then [SyntheticNoProof (brID s)] else [])
      @ (if fst chain \<noteq> ChainComplete
         then [ChainReason (if snd chain = NoChainText then ChainNotProved else snd chain)] else [])
      @ (if piSourceRecords input = [] then [SyntheticNoSources] else [])
      @ sourceDependencyBlockReasons input)"

definition firstRecordPurgeBlockReason ::
  "DatabaseBackupRecord \<Rightarrow> DatabaseBackupRecord \<Rightarrow> gotime \<Rightarrow> purge_text list \<Rightarrow> purge_text option" where
  "firstRecordPurgeBlockReason record synthetic now globalBlocked =
     (if brStatus record = BackupExpired then Some AlreadyExpired
      else if globalBlocked \<noteq> [] then Some (hd globalBlocked)
      else if brSupersededByRecordID record \<noteq> brID synthetic then Some NotSuperseded
      else case (case brProtectedUntil record of Some t \<Rightarrow> if t > now then Some (StillProtected t) else None
                 | None \<Rightarrow> None) of
        Some reason \<Rightarrow> Some reason
      | None \<Rightarrow>
        (case brPurgeEligibleAt record of
           None \<Rightarrow> Some NoWindow
         | Some t \<Rightarrow> if t > now then Some (WindowNotReached t) else None))"

record DatabaseBackupPolicyPurgePreviewVO =
  ppProofStatus :: string
  ppChainStatus :: chain_status
  ppChainText :: chain_text
  ppEligibleRecordIDs :: "nat list"
  ppBlockedRecordIDs :: "nat list"
  ppStorageDeletePlan :: "DatabaseBackupRecord list"
  ppBlockedRecords :: "(DatabaseBackupRecord \<times> purge_text) list"
  ppBlockingReasons :: "purge_text list"

definition buildSyntheticPurgePreview :: "syntheticPurgeInput \<Rightarrow> DatabaseBackupPolicyPurgePreviewVO" where
  "buildSyntheticPurgePreview input =
     (let blocked = globalBlocks input;
          verdict = map (\<lambda>r. (r, firstRecordPurgeBlockReason r (piSynthetic input) (piNow input) blocked))
                      (piSourceRecords input);
          free = filter (\<lambda>(_, reason). reason = None) verdict;
          held = filter (\<lambda>(_, reason). reason \<noteq> None) verdict;
          chain = syntheticPurgeBinlogStatus input
      in \<lparr>ppProofStatus = firstNonEmpty [brRestoreTestStatus (piSynthetic input), BackupPending],
          ppChainStatus = fst chain, ppChainText = snd chain,
          ppEligibleRecordIDs = map (brID \<circ> fst) free, ppBlockedRecordIDs = map (brID \<circ> fst) held,
          ppStorageDeletePlan = map fst free, ppBlockedRecords = map (\<lambda>(r, reason). (r, the reason)) held,
          ppBlockingReasons = uniqueReasons [] blocked\<rparr>)"

definition PreviewBackupPolicyPurge ::
  "purge_env \<Rightarrow> purge_world \<Rightarrow> gotime \<Rightarrow> nat \<Rightarrow> (purge_error + DatabaseBackupPolicyPurgePreviewVO) \<times> purge_world" where
  "PreviewBackupPolicyPurge env w now policyID =
     (case buildSyntheticPurgeInput env w now policyID of
        Inl e \<Rightarrow> (Inl e, w)
      | Inr input \<Rightarrow>
        (case reconcileSyntheticPurgeState env w input of
           (Inl e, w) \<Rightarrow> (Inl e, w)
         | (Inr input, w) \<Rightarrow> (Inr (buildSyntheticPurgePreview input), w)))"

section \<open>The purge\<close>

definition expireRecord :: "nat \<Rightarrow> DatabaseBackupRecord \<Rightarrow> DatabaseBackupRecord" where
  "expireRecord syntheticID r =
     r\<lparr>brStatus := BackupExpired, brVerifyStatus := BackupExpired,
       brVerifyMessage := PurgedBySynthetic syntheticID, brErrorMessage := PurgeMetadata syntheticID\<rparr>"

fun purgeLoop ::
  "purge_env \<Rightarrow> syntheticPurgeInput \<Rightarrow> nat list \<Rightarrow> purge_world \<Rightarrow> (purge_error + nat list) \<times> purge_world" where
  "purgeLoop env input [] w = (Inr [], w)"
| "purgeLoop env input (i # ids) w =
     (case findBackupRecordByID (piSourceRecords input) i of
        None \<Rightarrow> purgeLoop env input ids w
      | Some r \<Rightarrow>
        (let r' = expireRecord (brID (piSynthetic input)) r in
         case peRecordErr env r' of
           Some m \<Rightarrow> (Inl (RecordUpdateFailed (brID r) m), w)
         | None \<Rightarrow> apfst (map_sum id ((#) (brID r))) (purgeLoop env input ids (saveRecord r' w))))"

definition purgePolicyUpdate :: "purge_env \<Rightarrow> syntheticPurgeInput \<Rightarrow> nat list \<Rightarrow> purge_world \<Rightarrow> purge_world" where
  "purgePolicyUpdate env input purged w =
     (let p = (piPolicy input)\<lparr>bpLastRunAt := Some (piNow input), bpLastStatus := BackupExpired,
                bpLastMessage := PurgedRecords (brID (piSynthetic input)) (length purged),
                bpStatus := PolicyActive\<rparr> in
      case pePolicyErr env p of Some _ \<Rightarrow> w | None \<Rightarrow> savePolicy p w)"

definition purgeAuditText :: "DatabaseBackupPolicyConfig \<Rightarrow> string" where
  "purgeAuditText policy =
     ''BACKUP TASK '' @ TrimSpace (bpName policy) @ '' DATABASE policy TYPE PHYSICAL STORAGE EXTERNAL''"

definition purgeAudit ::
  "purge_env \<Rightarrow> syntheticPurgeInput \<Rightarrow> nat list \<Rightarrow> QueryOperator \<Rightarrow> purge_world \<Rightarrow> purge_world" where
  "purgeAudit env input purged operator w =
     (if \<not> peInstanceRepo env then w
      else case envInstance (peConsole env) (bpInstanceID (piPolicy input)) of
        None \<Rightarrow> w
      | Some instance \<Rightarrow>
          if \<not> envAuditRepo (peConsole env) then w
          else let text = purgeAuditText (piPolicy input) in
          (case auditCreate (peConsole env) (pwConsole w)
                  ((operator_audit (peConsole env) instance ''policy'' operator)\<lparr>
                     aAuditAction := ''backup_run'', aSQLText := trimText text 20000,
                     aSQLFingerprint := sqlFingerprint (peConsole env) text, aSQLType := ''BACKUP'',
                     aRiskLevel := DatabaseQueryRiskMedium, aStatus := DatabaseQueryStatusPending\<rparr>) of
             (Inl _, c) \<Rightarrow> w\<lparr>pwConsole := c\<rparr>
           | (Inr audit, c) \<Rightarrow>
               w\<lparr>pwConsole := snd (auditUpdate (peConsole env) c (audit\<lparr>aStatus := DatabaseQueryStatusSuccess,
                  aDurationMs := 0,
                  aErrorMessage := Some (PurgeNote (brID (piSynthetic input)) purged)\<rparr>))\<rparr>))"

record DatabaseBackupPolicyPurgeRunVO =
  prSyntheticRecordID :: nat
  prPurgedRecordIDs :: "nat list"
  prSkippedRecordIDs :: "nat list"
  prStorageDeletePlan :: "DatabaseBackupRecord list"

definition RunBackupPolicyPurge ::
  "purge_env \<Rightarrow> purge_world \<Rightarrow> gotime \<Rightarrow> nat \<Rightarrow> QueryOperator
   \<Rightarrow> (purge_error + DatabaseBackupPolicyPurgeRunVO) \<times> purge_world" where
  "RunBackupPolicyPurge env w now policyID operator =
     (case buildSyntheticPurgeInput env w now policyID of
        Inl e \<Rightarrow> (Inl e, w)
      | Inr input \<Rightarrow>
      (case reconcileSyntheticPurgeState env w input of
        (Inl e, w) \<Rightarrow> (Inl e, w)
      | (Inr input, w) \<Rightarrow>
        let preview = buildSyntheticPurgePreview input in
        if ppBlockingReasons preview \<noteq> [] then (Inl (PurgeBlocked (ppBlockingReasons preview)), w)
        else if ppEligibleRecordIDs preview = [] then (Inl NothingEligible, w)
        else case purgeLoop env input (ppEligibleRecordIDs preview) w of
          (Inl e, w) \<Rightarrow> (Inl e, w)
        | (Inr purged, w) \<Rightarrow>
            (Inr \<lparr>prSyntheticRecordID = brID (piSynthetic input), prPurgedRecordIDs = purged,
                 prSkippedRecordIDs = ppBlockedRecordIDs preview,
                 prStorageDeletePlan = ppStorageDeletePlan preview\<rparr>,
             purgeAudit env input purged operator (purgePolicyUpdate env input purged w))))"

end
