(* ===== verification/Purge_Props.thy ===== *)
theory Purge_Props
  imports Backup_Purge Log_Lease Query_Props "HOL-Library.Code_Target_Nat"
begin

text \<open>
  Properties of the purge: an old record is marked expired only behind every check of the program,
  the preview splits the sources, and the check of the binary log chain accepts two kinds of gaps.
\<close>

section \<open>Records\<close>

interpretation records: row_table recordByID saveRecord brID
  by unfold_locales (auto simp: recordByID_def saveRecord_def find_map_key dest: find_key)

text \<open>Primary keys are unique.\<close>

definition unique_records :: "purge_world \<Rightarrow> bool" where
  "unique_records w \<longleftrightarrow> distinct (map brID (pwRecords w))"

lemma recordByID_row:
  assumes "unique_records w" "r \<in> set (pwRecords w)"
  shows "recordByID w (brID r) = Some r"
proof -
  have "find (\<lambda>x. brID x = brID r) rs = Some r" if "distinct (map brID rs)" "r \<in> set rs" for rs
    using that by (induction rs) auto
  then show ?thesis using assms by (simp add: unique_records_def recordByID_def)
qed

lemma listed_row: "r \<in> set (ListSuccessfulPhysicalByPolicy w p) \<Longrightarrow>
    r \<in> set (pwRecords w) \<and> brStatus r = BackupSuccess"
  by (auto simp: ListSuccessfulPhysicalByPolicy_def Let_def split: if_splits)

lemma sourceRecords_iff:
  "r \<in> set (sourceRecords w records ids) \<longleftrightarrow>
     (\<exists>i \<in> set ids. (case findBackupRecordByID records i of Some r \<Rightarrow> Some r | None \<Rightarrow> recordByID w i) = Some r)"
proof -
  have "r \<in> set (List.map_filter f ids) \<longleftrightarrow> (\<exists>i \<in> set ids. f i = Some r)" for f :: "nat \<Rightarrow> DatabaseBackupRecord option"
    by (induction ids) (auto simp: List.map_filter_def split: option.splits)
  then show ?thesis by (simp add: sourceRecords_def)
qed

lemma find_record: "findBackupRecordByID rs i = Some r \<Longrightarrow> r \<in> set rs \<and> brID r = i"
  by (auto simp: findBackupRecordByID_def find_Some_iff)

lemma source_row:
  assumes "unique_records w" "set records \<subseteq> set (pwRecords w)" "r \<in> set (sourceRecords w records ids)"
  shows "recordByID w (brID r) = Some r" "brID r \<in> set ids"
proof -
  obtain i where i: "i \<in> set ids"
    "(case findBackupRecordByID records i of Some r \<Rightarrow> Some r | None \<Rightarrow> recordByID w i) = Some r"
    using assms(3) sourceRecords_iff by blast
  have "recordByID w (brID r) = Some r \<and> brID r = i"
  proof (cases "findBackupRecordByID records i")
    case None
    then have "recordByID w i = Some r" using i by simp
    then show ?thesis using find_key [of "brID" i "pwRecords w" r] by (auto simp: recordByID_def find_Some_iff)
  next
    case (Some r')
    then show ?thesis using i find_record [OF Some] assms(2) recordByID_row [OF assms(1), of r] by auto
  qed
  then show "recordByID w (brID r) = Some r" "brID r \<in> set ids" using i by auto
qed

lemma latest_in: "latestSyntheticFullRecord rs = Some s \<Longrightarrow> s \<in> set rs"
proof -
  have "latestSyntheticLoop l rs = Some s \<Longrightarrow> l = Some s \<or> s \<in> set rs" for l
    by (induction l rs rule: latestSyntheticLoop.induct) (auto split: if_splits option.splits)
  then show "latestSyntheticFullRecord rs = Some s \<Longrightarrow> s \<in> set rs"
    by (auto simp: latestSyntheticFullRecord_def)
qed

section \<open>Superseding\<close>

lemma saved_record: "recordByID (saveRecord r w) i = recordByID w i \<or> brID r = i \<and> recordByID (saveRecord r w) i = Some r"
  by (simp add: recordByID_def saveRecord_def find_map_key)

lemma supersede_fields [simp]:
  "brID (supersede input e r) = brID r" "brStatus (supersede input e r) = brStatus r"
  "brStorageURI (supersede input e r) = brStorageURI r" "brFilePath (supersede input e r) = brFilePath r"
  "brChecksumSHA256 (supersede input e r) = brChecksumSHA256 r"
  "brProtectedUntil (supersede input e r) = brProtectedUntil r"
  "brParentRecordID (supersede input e r) = brParentRecordID r"
  by (simp_all add: supersede_def)

lemma supersedeLoop_sources:
  "fst (supersedeLoop env input e rs w) = Inr rs' \<Longrightarrow> rs' = map (supersede input e) rs"
proof (induction rs arbitrary: w rs')
  case (Cons r rs)
  then show ?case
    by (cases "fst (supersedeLoop env input e rs w)";
        cases "fst (supersedeLoop env input e rs (saveRecord (supersede input e r) w))")
      (auto simp: Let_def split: if_splits option.splits)
qed simp

lemma supersedeLoop_record:
  "recordByID (snd (supersedeLoop env input e rs w)) i = recordByID w i
    \<or> (\<exists>r \<in> set rs. brID r = i \<and> recordByID (snd (supersedeLoop env input e rs w)) i = Some (supersede input e r))"
proof (induction rs arbitrary: w)
  case (Cons r rs)
  show ?case
    using Cons.IH [of w] Cons.IH [of "saveRecord (supersede input e r) w"] saved_record [of "supersede input e r" w i]
    by (auto simp: Let_def split: option.split)
qed simp

section \<open>Reconciling and expiring\<close>

lemma built_input:
  assumes "buildSyntheticPurgeInput env w now policyID = Inr input"
  obtains policy s where "policyByID w policyID = Some policy"
    "latestSyntheticFullRecord (ListSuccessfulPhysicalByPolicy w (bpID policy)) = Some s"
    "piPolicy input = policy" "piSynthetic input = s" "piNow input = now"
    "piAllRecords input = ListSuccessfulPhysicalByPolicy w (bpID policy)"
    "piSourceRecords input = sourceRecords w (ListSuccessfulPhysicalByPolicy w (bpID policy))
       (parseSyntheticSourceRecordIDs env (brSyntheticSourceRecordIDs s))"
    "piRule input = parseSyntheticRule env policy"
  using assms by (auto simp: buildSyntheticPurgeInput_def Let_def split: if_splits option.splits)

lemma built_source_row:
  assumes "unique_records w" "buildSyntheticPurgeInput env w now policyID = Inr input"
    and "r \<in> set (piSourceRecords input)"
  shows "recordByID w (brID r) = Some r"
proof -
  obtain policy :: DatabaseBackupPolicyConfig and s :: DatabaseBackupRecord where "piSourceRecords input = sourceRecords w (ListSuccessfulPhysicalByPolicy w (bpID policy))
       (parseSyntheticSourceRecordIDs env (brSyntheticSourceRecordIDs s))"
    by (rule built_input [OF assms(2)]) (rule that, assumption)
  moreover have "set (ListSuccessfulPhysicalByPolicy w (bpID policy)) \<subseteq> set (pwRecords w)"
    using listed_row by auto
  ultimately show ?thesis using source_row(1) [OF assms(1)] assms(3) by metis
qed

definition windowEnd :: "purge_env \<Rightarrow> syntheticPurgeInput \<Rightarrow> gotime" where
  "windowEnd env input = peAddDate env (piNow input) (srSupersededKeepDaysAfterProof (piRule input))"

lemma reconcile_sources:
  assumes "reconcileSyntheticPurgeState env w input = (Inr input', w')"
  obtains f where "f = id \<or> f = supersede input (windowEnd env input)"
    "input' = input\<lparr>piSourceRecords := map f (piSourceRecords input)\<rparr>"
proof -
  let ?f = "supersede input (windowEnd env input)"
  let ?loop = "supersedeLoop env input (windowEnd env input) (piSourceRecords input) w"
  have "input' = input \<or> (\<exists>rs. fst ?loop = Inr rs \<and> input' = input\<lparr>piSourceRecords := rs\<rparr>)"
    using assms by (auto simp: reconcileSyntheticPurgeState_def windowEnd_def split: if_splits prod.splits sum.splits)
  then show ?thesis using that [of id] that [of ?f] supersedeLoop_sources [of env input] by auto
qed

lemma reconcile_record:
  "recordByID (snd (reconcileSyntheticPurgeState env w input)) i = recordByID w i
    \<or> (\<exists>r \<in> set (piSourceRecords input). brID r = i
        \<and> recordByID (snd (reconcileSyntheticPurgeState env w input)) i = Some (supersede input (windowEnd env input) r))"
  using supersedeLoop_record [of env input "windowEnd env input" "piSourceRecords input" w i]
  by (auto simp: reconcileSyntheticPurgeState_def windowEnd_def split: prod.splits sum.splits)

lemma reconcile_status:
  assumes "unique_records w" "buildSyntheticPurgeInput env w now policyID = Inr input"
    and "recordByID w i = Some r"
  shows "\<exists>r1. recordByID (snd (reconcileSyntheticPurgeState env w input)) i = Some r1 \<and> brStatus r1 = brStatus r"
  using reconcile_record [of env w input i] built_source_row [OF assms(1,2)] assms(3) by auto

lemma purgeLoop_record:
  "recordByID (snd (purgeLoop env input ids w)) i = recordByID w i
    \<or> (i \<in> set ids \<and> (\<exists>r. findBackupRecordByID (piSourceRecords input) i = Some r
        \<and> recordByID (snd (purgeLoop env input ids w)) i = Some (expireRecord (brID (piSynthetic input)) r)))"
proof (induction ids arbitrary: w)
  case (Cons j ids)
  show ?case
  proof (cases "findBackupRecordByID (piSourceRecords input) j")
    case None
    then show ?thesis using Cons.IH [of w] by auto
  next
    case (Some r)
    let ?r = "expireRecord (brID (piSynthetic input)) r"
    have id: "brID ?r = j" using find_record [OF Some] by (simp add: expireRecord_def)
    have "recordByID (saveRecord ?r w) i = recordByID w i \<or> j = i \<and> recordByID (saveRecord ?r w) i = Some ?r"
      using saved_record [of ?r w i] unfolding id .
    then show ?thesis using Cons.IH [of "saveRecord ?r w"] Some by (auto simp: Let_def split: option.split)
  qed
qed simp

lemma purge_tail_records [simp]:
  "recordByID (purgeAudit env input ids op w) i = recordByID w i"
  "recordByID (purgePolicyUpdate env input ids w) i = recordByID w i"
  by (auto simp: purgeAudit_def purgePolicyUpdate_def recordByID_def savePolicy_def Let_def
      split: option.splits prod.splits sum.splits)

lemma eligible_record:
  "i \<in> set (ppEligibleRecordIDs (buildSyntheticPurgePreview input)) \<longleftrightarrow>
     (\<exists>r \<in> set (piSourceRecords input). brID r = i
        \<and> firstRecordPurgeBlockReason r (piSynthetic input) (piNow input) (globalBlocks input) = None)"
  by (auto simp: buildSyntheticPurgePreview_def Let_def image_iff)

lemma unblocked:
  assumes "firstRecordPurgeBlockReason r s now blocked = None"
  shows "blocked = []" "brSupersededByRecordID r = brID s"
    "brProtectedUntil r = Some t \<Longrightarrow> t \<le> now" "\<exists>t. brPurgeEligibleAt r = Some t \<and> t \<le> now"
  using assms by (auto simp: firstRecordPurgeBlockReason_def split: if_splits option.splits)

lemma uniqueReasons_none: "uniqueReasons [] xs = [] \<longleftrightarrow> xs = []"
  by (cases xs) auto

lemma nothing_blocks:
  assumes "globalBlocks input = []"
  shows "brArtifactState (piSynthetic input) \<notin> {ArtifactMissing, ArtifactChecksumFailed}"
    and "TrimSpace (brChecksumSHA256 (piSynthetic input)) \<noteq> []"
    and "srNeverDeleteWithoutProof (piRule input) \<Longrightarrow> brRestoreTestStatus (piSynthetic input) = BackupSuccess"
    and "fst (syntheticPurgeBinlogStatus input) = ChainComplete"
    and "\<And>d. d \<in> set (piAllRecords input) \<Longrightarrow> brStatus d \<noteq> BackupExpired \<Longrightarrow>
           brParentRecordID d \<in> brID ` set (piSourceRecords input) \<Longrightarrow>
           brID d = brID (piSynthetic input) \<or> brID d \<in> brID ` set (piSourceRecords input)"
  using assms
  by (auto simp: globalBlocks_def Let_def sourceDependencyBlockReasons_def uniqueReasons_none filter_empty_conv split: if_splits)

section \<open>The purge as a whole\<close>

lemma purge_changes_status:
  assumes "unique_records w" "RunBackupPolicyPurge env w now policyID operator = (res, w')"
    and "recordByID w i = Some r" "recordByID w' i = Some r'" "brStatus r' \<noteq> brStatus r"
  obtains input f x where "buildSyntheticPurgeInput env w now policyID = Inr input"
    "f = id \<or> f = supersede input (windowEnd env input)"
    "globalBlocks (input\<lparr>piSourceRecords := map f (piSourceRecords input)\<rparr>) = []"
    "x \<in> set (piSourceRecords input)" "brID x = i" "r' = expireRecord (brID (piSynthetic input)) (f r)"
    "firstRecordPurgeBlockReason (f r) (piSynthetic input) now [] = None"
proof -
  have "\<exists>input. buildSyntheticPurgeInput env w now policyID = Inr input"
    using assms by (cases "buildSyntheticPurgeInput env w now policyID") (auto simp: RunBackupPolicyPurge_def)
  then obtain input where b: "buildSyntheticPurgeInput env w now policyID = Inr input" by blast
  let ?rec = "reconcileSyntheticPurgeState env w input"
  obtain r1 where r1: "recordByID (snd ?rec) i = Some r1" "brStatus r1 = brStatus r"
    using reconcile_status [OF assms(1) b assms(3)] by blast
  obtain input' where i': "?rec = (Inr input', snd ?rec)"
    using assms(2,4,5) b r1 by (cases ?rec; cases "fst ?rec") (auto simp: RunBackupPolicyPurge_def)
  let ?ids = "ppEligibleRecordIDs (buildSyntheticPurgePreview input')"
  let ?last = "snd (purgeLoop env input' ?ids (snd ?rec))"
  have "recordByID w' i \<in> {recordByID (snd ?rec) i, recordByID ?last i}"
    using assms(2) b i' by (auto simp: RunBackupPolicyPurge_def Let_def split: if_splits prod.splits sum.splits)
  then have e: "recordByID ?last i = Some r'" using assms(4,5) r1 by auto
  obtain f where f: "f = id \<or> f = supersede input (windowEnd env input)"
    "input' = input\<lparr>piSourceRecords := map f (piSourceRecords input)\<rparr>"
    using reconcile_sources [OF i'] .
  have ids: "brID (f x) = brID x" for x using f(1) by auto
  have row: "x = r" if "x \<in> set (piSourceRecords input)" "brID x = i" for x
    using built_source_row [OF assms(1) b that(1)] that(2) assms(3) by simp
  obtain y where y: "i \<in> set ?ids" "findBackupRecordByID (piSourceRecords input') i = Some y"
    "r' = expireRecord (brID (piSynthetic input')) y"
    using purgeLoop_record [of env input' ?ids "snd ?rec" i] e r1 assms(5) by auto
  obtain x where x: "x \<in> set (piSourceRecords input)" "brID x = i" "y = f x"
    using find_record [OF y(2)] f(2) ids by auto
  obtain z where z: "z \<in> set (piSourceRecords input)" "brID z = i"
    "firstRecordPurgeBlockReason (f z) (piSynthetic input) now (globalBlocks input') = None"
    using y(1) f(2) ids built_input [OF b] by (auto simp: eligible_record)
  have "f z = f r" "y = f r" using row x z by auto
  with z(3) y(3) unblocked(1) [OF z(3)] show ?thesis using that [OF b f(1) _ x(1,2)] f(2) by simp
qed

lemma no_dependents:
  assumes "\<And>y. brID (f y) = brID y"
    and "globalBlocks (input\<lparr>piSourceRecords := map f (piSourceRecords input)\<rparr>) = []"
    and "x \<in> set (piSourceRecords input)" "d \<in> set (piAllRecords input)" "brStatus d = BackupSuccess"
    and "brParentRecordID d = brID x"
  shows "brID d = brID (piSynthetic input) \<or> brID d \<in> brID ` set (piSourceRecords input)"
proof -
  have ids: "(\<lambda>y. brID (f y)) ` set (piSourceRecords input) = brID ` set (piSourceRecords input)" using assms(1) by simp
  have "brParentRecordID d \<in> brID ` set (piSourceRecords input)" using assms(3,6) by force
  then show ?thesis using nothing_blocks(5) [OF assms(2), of d] assms(4,5) ids by (auto simp: image_image)
qed

lemma validated_some: "fst (validateMySQLRestoreLogMetadata s logs) = ChainComplete \<Longrightarrow> logs \<noteq> []"
  by (auto simp: validateMySQLRestoreLogMetadata_def split: if_splits)

lemma complete_chain:
  assumes "buildSyntheticPurgeInput env w now policyID = Inr input"
    and "fst (syntheticPurgeBinlogStatus input) = ChainComplete"
  shows "fst (validateMySQLRestoreLogMetadata (piSynthetic input) (listBinlogArchives w (piPolicy input))) = ChainComplete"
    and "\<forall>a \<in> set (listBinlogArchives w (piPolicy input)). \<not> badArchive a"
proof -
  have v: "fst (validateMySQLRestoreLogMetadata (piSynthetic input) (piLogArchives input)) = ChainComplete"
    "find badArchive (piLogArchives input) = None"
    using assms(2) by (auto simp: syntheticPurgeBinlogStatus_def split: if_splits option.splits prod.splits)
  have "piLogArchives input = [] \<or> piLogArchives input = listBinlogArchives w (piPolicy input)"
    using assms(1) by (auto simp: buildSyntheticPurgeInput_def Let_def split: if_splits option.splits)
  then show "fst (validateMySQLRestoreLogMetadata (piSynthetic input) (listBinlogArchives w (piPolicy input))) = ChainComplete"
    and "\<forall>a \<in> set (listBinlogArchives w (piPolicy input)). \<not> badArchive a"
    using v validated_some [OF v(1)] by (auto simp: find_None_iff)
qed

text \<open>When the window of a record ends: at the time it has, or at the one it gets now.\<close>

definition windowOf :: "purge_env \<Rightarrow> gotime \<Rightarrow> syntheticRuleConfig \<Rightarrow> DatabaseBackupRecord \<Rightarrow> gotime" where
  "windowOf env now rule r =
     (case brPurgeEligibleAt r of Some t \<Rightarrow> t | None \<Rightarrow> peAddDate env now (srSupersededKeepDaysAfterProof rule))"

text \<open>C4: A backup record is marked expired only behind every check of the program: the latest synthetic full
  backup of the policy is a successful backup with a checksum whose artifact is not known to be damaged,
  its restore was proved when the policy asks for it, its binary log chain is complete, the record is one
  of its sources, no other listed backup was taken on top of it, its protection is over and its window
  has passed. The purge keeps where the files of the record are.\<close>

theorem purge_needs_proof:
  assumes "unique_records w" "RunBackupPolicyPurge env w now policyID operator = (res, w')"
    and "recordByID w i = Some r" "recordByID w' i = Some r'" "brStatus r' \<noteq> brStatus r"
  shows "\<exists>policy s. policyByID w policyID = Some policy
    \<and> latestSyntheticFullRecord (ListSuccessfulPhysicalByPolicy w (bpID policy)) = Some s
    \<and> brStatus s = BackupSuccess \<and> TrimSpace (brChecksumSHA256 s) \<noteq> []
    \<and> brArtifactState s \<notin> {ArtifactMissing, ArtifactChecksumFailed}
    \<and> (srNeverDeleteWithoutProof (parseSyntheticRule env policy) \<longrightarrow> brRestoreTestStatus s = BackupSuccess)
    \<and> fst (validateMySQLRestoreLogMetadata s (listBinlogArchives w policy)) = ChainComplete
    \<and> (\<forall>a \<in> set (listBinlogArchives w policy). \<not> badArchive a)
    \<and> i \<in> set (parseSyntheticSourceRecordIDs env (brSyntheticSourceRecordIDs s))
    \<and> (\<forall>d \<in> set (ListSuccessfulPhysicalByPolicy w (bpID policy)). brParentRecordID d = i \<longrightarrow>
         brID d = brID s \<or> brID d \<in> set (parseSyntheticSourceRecordIDs env (brSyntheticSourceRecordIDs s)))
    \<and> (\<forall>t. brProtectedUntil r = Some t \<longrightarrow> t \<le> now)
    \<and> windowOf env now (parseSyntheticRule env policy) r \<le> now
    \<and> brStatus r \<noteq> BackupExpired \<and> brStatus r' = BackupExpired
    \<and> brStorageURI r' = brStorageURI r \<and> brFilePath r' = brFilePath r \<and> brChecksumSHA256 r' = brChecksumSHA256 r"
proof -
  obtain input f x where b: "buildSyntheticPurgeInput env w now policyID = Inr input"
    and f: "f = id \<or> f = supersede input (windowEnd env input)"
    and blocks: "globalBlocks (input\<lparr>piSourceRecords := map f (piSourceRecords input)\<rparr>) = []"
    and x: "x \<in> set (piSourceRecords input)" "brID x = i"
    and r': "r' = expireRecord (brID (piSynthetic input)) (f r)"
    and free: "firstRecordPurgeBlockReason (f r) (piSynthetic input) now [] = None"
    using purge_changes_status [OF assms] .
  obtain policy :: DatabaseBackupPolicyConfig and s :: DatabaseBackupRecord
    where p: "policyByID w policyID = Some policy"
    "latestSyntheticFullRecord (ListSuccessfulPhysicalByPolicy w (bpID policy)) = Some s"
    "piPolicy input = policy" "piSynthetic input = s" "piNow input = now"
    "piAllRecords input = ListSuccessfulPhysicalByPolicy w (bpID policy)"
    "piSourceRecords input = sourceRecords w (ListSuccessfulPhysicalByPolicy w (bpID policy))
       (parseSyntheticSourceRecordIDs env (brSyntheticSourceRecordIDs s))"
    "piRule input = parseSyntheticRule env policy"
    using built_input [OF b] by blast
  have listed: "brStatus d = BackupSuccess" "d \<in> set (pwRecords w)"
    if "d \<in> set (ListSuccessfulPhysicalByPolicy w (bpID policy))" for d
    using listed_row [OF that] by auto
  have sources: "brID y \<in> set (parseSyntheticSourceRecordIDs env (brSyntheticSourceRecordIDs s))"
    if "y \<in> set (piSourceRecords input)" for y
    using source_row(2) [OF assms(1), of "ListSuccessfulPhysicalByPolicy w (bpID policy)" y] listed(2) that p(7) by auto
  have same: "brID (f y) = brID y" "brStatus (f y) = brStatus y" "brProtectedUntil (f y) = brProtectedUntil y"
    "brStorageURI (f y) = brStorageURI y" "brFilePath (f y) = brFilePath y"
    "brChecksumSHA256 (f y) = brChecksumSHA256 y" for y using f by auto
  have window: "windowOf env now (parseSyntheticRule env policy) r \<le> now"
    using unblocked(4) [OF free] f p(5,8)
    by (auto simp: windowOf_def supersede_def windowEnd_def split: if_splits option.splits)
  have deps: "brID d = brID s \<or> brID d \<in> set (parseSyntheticSourceRecordIDs env (brSyntheticSourceRecordIDs s))"
    if "d \<in> set (ListSuccessfulPhysicalByPolicy w (bpID policy))" "brParentRecordID d = i" for d
    using no_dependents [OF same(1) blocks x(1), of d] that listed(1) [OF that(1)] p(4,6) x(2) sources by auto
  have "syntheticPurgeBinlogStatus (input\<lparr>piSourceRecords := map f (piSourceRecords input)\<rparr>)
      = syntheticPurgeBinlogStatus input" by (simp add: syntheticPurgeBinlogStatus_def split: option.split)
  then have chain: "fst (validateMySQLRestoreLogMetadata s (listBinlogArchives w policy)) = ChainComplete"
    "\<forall>a \<in> set (listBinlogArchives w policy). \<not> badArchive a"
    using complete_chain [OF b] nothing_blocks(4) [OF blocks] p(3,4) by auto
  have "brStatus r \<noteq> BackupExpired" using assms(5) r' by (auto simp: expireRecord_def)
  then show ?thesis
    using p(1,2,4,8) listed(1) [OF latest_in [OF p(2)]] nothing_blocks(1-3) [OF blocks] sources [OF x(1)] x(2)
      chain deps unblocked(3) [OF free] same window r'
    by (intro exI [of _ policy] exI [of _ s]) (auto simp: expireRecord_def)
qed

definition sample_record :: DatabaseBackupRecord where
  "sample_record = \<lparr>brID = 1, brPolicyID = 2, brBackupMethod = BackupMethodPhysical, brBackupLevel = BackupLevelFull,
     brBackupOrigin = [], brStatus = BackupSuccess, brArtifactState = [], brFileName = ''full'', brFileSize = 10,
     brStorageURI = ''s3'', brFilePath = ''p'', brChecksumSHA256 = ''ab'', brParentRecordID = 0,
     brSupersededByRecordID = 3, brPurgeEligibleAt = Some 40, brProtectedUntil = None, brRestoreTestStatus = [],
     brVerifyStatus = [], brVerifyMessage = PurgePlain [], brErrorMessage = PurgePlain [],
     brSyntheticSourceRecordIDs = [], brFinishedAt = Some 10, brStartedAt = None, brCreatedAt = 5,
     brBackupBinlogFile = ''b.1'', brBackupGTIDSet = [], brExecutedGTIDSet = [], brGTIDMode = [],
     brInstanceID = 7, brTriggerType = [], brChainID = ''c'', brBaseRecordID = 1, brBackupEngine = ''xtrabackup'',
     brSourceInstanceID = 7, brCheckpointFromLSN = ''0'', brCheckpointToLSN = ''100'', brServerUUID = [],
     brRecoverableFrom = None, brRecoverableUntil = None, brExpiresAt = None,
     brTaskID = 0, brToolName = ''xtrabackup'', brPostgreSQL = no_pg_backup\<rparr>"

definition sample_synthetic :: DatabaseBackupRecord where
  "sample_synthetic = sample_record\<lparr>brID := 3, brBackupOrigin := OriginSyntheticFull, brSupersededByRecordID := 0,
     brPurgeEligibleAt := None, brRestoreTestStatus := BackupSuccess, brSyntheticSourceRecordIDs := ''1,2'',
     brFinishedAt := Some 20\<rparr>"

definition sample_log :: DatabaseLogArchive where
  "sample_log = \<lparr>laID = 1, laStreamID = 8, laInstanceID = 7, laArchiveType = ''binlog'', laFileName = ''b.1'',
     laPreviousFileName = [], laNextFileName = [], laStartGTIDSet = [], laEndGTIDSet = [], laStatus = ''archived'',
     laFirstEventTime = Some 10, laLastEventTime = Some 50, laFileSize = 7, laPostgreSQL = no_pg_log\<rparr>"

definition sample_policy_row :: DatabaseBackupPolicyConfig where
  "sample_policy_row = \<lparr>bpID = 2, bpInstanceID = 7, bpName = ''nightly'', bpBinlogStreamID = 8, bpSyntheticRuleJSON = [],
     bpStatus = PolicyActive, bpLastRunAt = None, bpLastStatus = [], bpLastMessage = PurgePlain [],
     bpEnabled = True, bpBackupEngine = ''xtrabackup'', bpSourceInstanceID = 0, bpRunnerHostID = 1,
     bpSyntheticEnabled = True, bpRestoreDrillRequired = False, bpRetentionJSON = [], bpLastError = PurgePlain [],
     bpLastFullAt = None, bpLastIncrementalAt = None, bpLastSyntheticAt = None,
     bpEngine = ''mysql''\<rparr>"

definition sample_purge :: purge_world where
  "sample_purge = \<lparr>pwRecords = [sample_record, sample_record\<lparr>brID := 2, brPurgeEligibleAt := None\<rparr>, sample_synthetic],
     pwPolicies = [sample_policy_row], pwLogs = [sample_log], pwConsole = empty_world\<rparr>"

definition sample_purge_env :: purge_env where
  "sample_purge_env = \<lparr>pePolicyRepo = True, peRecordRepo = True, peLogRepo = True, peInstanceRepo = True,
     peConsole = sample_env, peListErr = None, peLogsErr = False, peRecordErr = (\<lambda>_. None), pePolicyErr = (\<lambda>_. None),
     peRuleJSON = (\<lambda>_ r. r), peIDsJSON = (\<lambda>_. None), peAddDate = (\<lambda>t d. t + d * 86400)\<rparr>"

definition sample_purge_result :: "(purge_error + DatabaseBackupPolicyPurgeRunVO) \<times> purge_world" where
  "sample_purge_result = RunBackupPolicyPurge sample_purge_env sample_purge 100 2 sample_operator"

theorem purge_needs_proof_witness:
  "fst sample_purge_result = Inr \<lparr>prSyntheticRecordID = 3, prPurgedRecordIDs = [1], prSkippedRecordIDs = [2],
      prStorageDeletePlan = [sample_record]\<rparr>
   \<and> map_option brStatus (recordByID (snd sample_purge_result) 1) = Some BackupExpired
   \<and> (\<exists>policy s. policyByID sample_purge 2 = Some policy
       \<and> latestSyntheticFullRecord (ListSuccessfulPhysicalByPolicy sample_purge (bpID policy)) = Some s
       \<and> brRestoreTestStatus s = BackupSuccess)"
proof -
  have run: "RunBackupPolicyPurge sample_purge_env sample_purge 100 2 sample_operator
      = (fst sample_purge_result, snd sample_purge_result)" by (simp add: sample_purge_result_def)
  have res: "fst sample_purge_result = Inr \<lparr>prSyntheticRecordID = 3, prPurgedRecordIDs = [1], prSkippedRecordIDs = [2],
      prStorageDeletePlan = [sample_record]\<rparr>" by code_simp
  have after: "recordByID (snd sample_purge_result) 1 = Some (expireRecord 3 sample_record)" by code_simp
  have before: "recordByID sample_purge 1 = Some sample_record" by code_simp
  have unique: "unique_records sample_purge" by (simp add: unique_records_def sample_purge_def sample_record_def sample_synthetic_def)
  have "brStatus (expireRecord 3 sample_record) \<noteq> brStatus sample_record" by code_simp
  from purge_needs_proof [OF unique run before after this]
  obtain policy s where p: "policyByID sample_purge 2 = Some policy"
    "latestSyntheticFullRecord (ListSuccessfulPhysicalByPolicy sample_purge (bpID policy)) = Some s"
    "srNeverDeleteWithoutProof (parseSyntheticRule sample_purge_env policy) \<longrightarrow> brRestoreTestStatus s = BackupSuccess"
    by blast
  have "policyByID sample_purge 2 = Some sample_policy_row"
    "srNeverDeleteWithoutProof (parseSyntheticRule sample_purge_env sample_policy_row)" by code_simp+
  with p res after show ?thesis by (auto simp: expireRecord_def)
qed

section \<open>The preview and the chain\<close>

lemma purgeLoop_all:
  assumes "\<And>r. peRecordErr env r = None" "\<forall>i \<in> set ids. findBackupRecordByID (piSourceRecords input) i \<noteq> None"
  shows "fst (purgeLoop env input ids w) = Inr ids"
  using assms(2)
proof (induction ids arbitrary: w)
  case (Cons i ids)
  then obtain r where "findBackupRecordByID (piSourceRecords input) i = Some r" by auto
  then show ?case using Cons find_record [of _ i r] assms(1) by (simp add: Let_def)
qed simp

lemma eligible_found:
  "i \<in> set (ppEligibleRecordIDs (buildSyntheticPurgePreview input)) \<Longrightarrow>
     findBackupRecordByID (piSourceRecords input) i \<noteq> None"
  by (auto simp: eligible_record findBackupRecordByID_def find_None_iff)



text \<open>How two archived logs fit together, as far as they name their neighbours.\<close>

definition log_link :: "DatabaseLogArchive \<Rightarrow> DatabaseLogArchive \<Rightarrow> bool" where
  "log_link p a \<longleftrightarrow> (TrimSpace (laNextFileName p) \<noteq> [] \<longrightarrow> laNextFileName p = laFileName a)
     \<and> (TrimSpace (laPreviousFileName a) \<noteq> [] \<longrightarrow> laPreviousFileName a = laFileName p)"

definition log_starts :: "string \<Rightarrow> DatabaseLogArchive \<Rightarrow> bool" where
  "log_starts f a \<longleftrightarrow> laFileName a = f \<or> laPreviousFileName a = f"

definition log_gtid :: "DatabaseLogArchive \<Rightarrow> bool" where
  "log_gtid a \<longleftrightarrow> TrimSpace (laStartGTIDSet a) \<noteq> [] \<or> TrimSpace (laEndGTIDSet a) \<noteq> []"

lemma restoreLogLoop_complete:
  "fst (restoreLogLoop base found prev logs) = ChainComplete \<longleftrightarrow>
     (found \<or> list_ex (log_starts (brBackupBinlogFile base)) logs)
     \<and> successively log_link ((case prev of None \<Rightarrow> [] | Some p \<Rightarrow> [p]) @ logs)
     \<and> (gtidEnabled base \<longrightarrow> list_all log_gtid logs)"
  by (induction base found prev logs rule: restoreLogLoop.induct)
    (auto simp: Let_def log_link_def log_starts_def log_gtid_def split: option.splits)

text \<open>What a complete chain of binary logs is for the program. With a start file: the logs fit together
  from the first to the last, one of them is the start file or names it as its predecessor, and with
  GTIDs each log has a GTID set. Without a start file: there is a log, and the base has a GTID set.\<close>

theorem chain_check_exact:
  "fst (validateMySQLRestoreLogMetadata base logs) = ChainComplete \<longleftrightarrow>
     logs \<noteq> []
     \<and> (if TrimSpace (brBackupBinlogFile base) \<noteq> []
        then successively log_link logs \<and> list_ex (log_starts (brBackupBinlogFile base)) logs
          \<and> (if gtidEnabled base
             then list_all log_gtid logs
               \<and> (TrimSpace (brBackupGTIDSet base) \<noteq> [] \<or> TrimSpace (brExecutedGTIDSet base) \<noteq> []) else True)
        else TrimSpace (brBackupGTIDSet base) \<noteq> [])"
  by (cases "logs = []") (auto simp: validateMySQLRestoreLogMetadata_def restoreLogLoop_complete)

text \<open>The check accepts chains with gaps. The start file itself may be missing when the first log names it as
  its predecessor, so the events after the position of the backup are lost. With a GTID set and no
  start file any logs are accepted, whatever neighbours they name.\<close>

theorem chain_check_accepts_gaps:
  assumes "TrimSpace f \<noteq> []" "TrimSpace g \<noteq> []" "logs \<noteq> []" "laPreviousFileName (hd logs) = f"
    and "successively log_link logs"
  shows "fst (validateMySQLRestoreLogMetadata
        (base\<lparr>brBackupBinlogFile := f, brBackupGTIDSet := [], brGTIDMode := []\<rparr>) logs) = ChainComplete
    \<and> fst (validateMySQLRestoreLogMetadata
        (base\<lparr>brBackupBinlogFile := [], brBackupGTIDSet := g\<rparr>) [a, b]) = ChainComplete"
proof
  have "list_ex (log_starts f) logs" using assms(3,4) by (cases logs) (auto simp: log_starts_def)
  moreover have "\<not> gtidEnabled (base\<lparr>brBackupBinlogFile := f, brBackupGTIDSet := [], brGTIDMode := []\<rparr>)"
    unfolding gtidEnabled_def by (simp, code_simp)
  ultimately show "fst (validateMySQLRestoreLogMetadata
      (base\<lparr>brBackupBinlogFile := f, brBackupGTIDSet := [], brGTIDMode := []\<rparr>) logs) = ChainComplete"
    using assms by (simp add: validateMySQLRestoreLogMetadata_def restoreLogLoop_complete)
  show "fst (validateMySQLRestoreLogMetadata
      (base\<lparr>brBackupBinlogFile := [], brBackupGTIDSet := g\<rparr>) [a, b]) = ChainComplete"
    using assms by (simp add: validateMySQLRestoreLogMetadata_def)
qed

definition second_log :: DatabaseLogArchive where
  "second_log = sample_log\<lparr>laFileName := ''b.2'', laPreviousFileName := ''b.1''\<rparr>"

theorem chain_check_accepts_gaps_witness:
  "laFileName second_log \<noteq> ''b.1''
   \<and> fst (validateMySQLRestoreLogMetadata
       (sample_synthetic\<lparr>brBackupBinlogFile := ''b.1'', brBackupGTIDSet := [], brGTIDMode := []\<rparr>) [second_log]) = ChainComplete"
proof -
  have "TrimSpace ''b.1'' \<noteq> []" "TrimSpace ''g'' \<noteq> []" by code_simp+
  then show ?thesis
    using chain_check_accepts_gaps [of "''b.1''" "''g''" "[second_log]" sample_synthetic] by (simp add: second_log_def)
qed

end
