(* ===== verification/Backup_Chain.thy ===== *)
theory Backup_Chain
  imports Backup_Purge Log_Archive Pg_Wal
begin

text \<open>
  Chains of physical backups of a policy: backup_policy_chain.go, backup_policy.go, backup_policy_synthetic.go,
  backup_policy_auto_synthetic.go and the locks of backup_execution.go. A full backup starts a chain, every incremental
  backup continues the last record of a complete chain, a synthetic full backup merges the oldest records into a new
  base.

  The state holds the rows, the locks of running backups and the background jobs that were started. What a runner
  reports is the input of the step that ends its job; the texts of reasons are constructors of \<open>chain_reason\<close>. The
  times of the next scheduled runs and the files of the tools are not modelled. The request and result columns of a job
  are the data their JSON is made of.
\<close>

section \<open>Data\<close>

abbreviation BackupQueued :: string where "BackupQueued \<equiv> ''queued''"
abbreviation BackupRunning :: string where "BackupRunning \<equiv> ''running''"
abbreviation BackupFailed :: string where "BackupFailed \<equiv> ''failed''"
abbreviation BackupLevelIncremental :: string where "BackupLevelIncremental \<equiv> ''incremental''"
abbreviation OriginNativeFull :: string where "OriginNativeFull \<equiv> ''native_full''"
abbreviation OriginNativeIncremental :: string where "OriginNativeIncremental \<equiv> ''native_incremental''"
abbreviation PolicyDegraded :: string where "PolicyDegraded \<equiv> ''degraded''"
abbreviation PolicyDisabled :: string where "PolicyDisabled \<equiv> ''disabled''"
abbreviation ArtifactRemote :: string where "ArtifactRemote \<equiv> ''remote''"
abbreviation JobSyntheticFull :: string where "JobSyntheticFull \<equiv> ''mysql_synthetic_full''"
abbreviation JobPhysicalBackup :: string where "JobPhysicalBackup \<equiv> ''physical_backup''"

datatype chain_health = ChainHealthy | ChainDegraded | ChainStateBroken

record DatabaseBackupChainState =
  csID :: nat
  csPolicyID :: nat
  csInstanceID :: nat
  csChainID :: string
  csCurrentBaseRecordID :: nat
  csLatestRecordID :: nat
  csLatestFullRecordID :: nat
  csLatestSyntheticRecordID :: nat
  csIncrementalCount :: int
  csChainStartedAt :: "gotime option"
  csLastSuccessAt :: "gotime option"
  csRecoverableUntil :: "gotime option"
  csStatus :: chain_health
  csLastValidationStatus :: chain_status
  csLastError :: purge_text

record backupPolicyChainValidation =
  cvStatus :: chain_status
  cvBaseRecord :: "DatabaseBackupRecord option"
  cvLatestRecord :: "DatabaseBackupRecord option"
  cvRecords :: "DatabaseBackupRecord list"
  cvBlockingReasons :: "chain_reason list"
  cvWarnings :: "chain_reason list"
  cvMessages :: "chain_reason list"
  cvCheckedAt :: gotime
  cvState :: "DatabaseBackupChainState option"

datatype preview_status = PreviewPassed | PreviewWarning | PreviewFailed

record DatabaseSyntheticFullPreviewVO =
  spStatus :: preview_status
  spSelectedBaseRecordID :: nat
  spSelectedIncrementalRecordIDs :: "nat list"
  spSelectedRecordIDs :: "nat list"
  spSelectedRecords :: "DatabaseBackupRecord list"
  spNewSyntheticFullAfterRecordID :: nat
  spEstimatedInputSize :: int
  spEstimatedWorkdirSize :: int
  spMergeIncrementalCount :: int
  spRequiresRestoreProof :: bool
  spBlockingReasons :: "chain_reason list"
  spWarnings :: "chain_reason list"
  spMessages :: "chain_reason list"
  spCheckedAt :: gotime

record DatabaseRunnerJob =
  rjID :: nat
  rjJobType :: string
  rjRunnerHostID :: nat
  rjSourceInstanceID :: nat
  rjStatus :: string
  rjWorkDir :: string
  rjExitCode :: int
  rjOperatorID :: nat
  rjOperatorName :: string
  rjRequestPolicyID :: nat
  rjRequestRecordID :: nat
  rjRequestSourceIDs :: "nat list"
  rjRequestTrigger :: "string \<times> nat"
  rjErrorMessage :: string
  rjStartedAt :: "gotime option"
  rjFinishedAt :: "gotime option"

text \<open>What a runner reports about its job.\<close>

record mysqlPhysicalBackupRunnerResult =
  rrFailed :: bool
  rrError :: string
  rrStderr :: string
  rrExitCode :: int
  rrFilePath :: string
  rrFileName :: string
  rrStorageURI :: string
  rrFileSize :: int
  rrChecksumSHA256 :: string
  rrCheckpointFromLSN :: string
  rrCheckpointToLSN :: string
  rrBackupBinlogFile :: string
  rrBackupGTIDSet :: string
  rrDurationMs :: int
  rrToolName :: string

record mysqlBackupMetadata =
  mmServerUUID :: string
  mmGTIDMode :: string
  mmExecutedGTIDSet :: string
  mmPurgedGTIDSet :: string

datatype chain_error =
    RepositoriesMissing | PolicyGone | HostGone | HostOff | HostNotSSH | HostNoCredential | PolicyDisabledErr
  | SyntheticDisabled | InstanceGone | InstanceOff | SourceGone | SourceOff | SourceNotMySQL | PolicyBusy | TaskBusy
  | InstanceBusy | TaskGone | ResolverMissing | CredentialFailed | PasswordMissing | LevelNotSupported
  | ChainRefused "chain_reason list" | IncrementNotPassed | ParentRefused unusable | AuditRefused string
  | RecordListFailed string | RecordNotSaved string | PolicyNotSaved string | JobNotSaved string

datatype background_kind = PhysicalRun | SyntheticRun "DatabaseBackupRecord list"

text \<open>A job that was started in the background and has not ended.\<close>

record background =
  bgKind :: background_kind
  bgPolicyID :: nat
  bgInstanceID :: nat
  bgRecordID :: nat
  bgJobID :: nat
  bgLevel :: string
  bgAudit :: "DatabaseQueryAudit option"
  bgRows :: "(DatabaseBackupPolicyConfig \<times> DatabaseBackupRecord \<times> DatabaseRunnerJob) option"
    \<comment> \<open>the rows it works on once it has begun\<close>

record chain_world =
  cwPurge :: purge_world
  cwStates :: "DatabaseBackupChainState list"
  cwJobs :: "DatabaseRunnerJob list"
  cwRunningPolicies :: "nat list"
  cwRunningTasks :: "nat list"
  cwRunningInstances :: "nat list"
  cwBackground :: "background list"
  cwTaskRuns :: "(nat \<times> nat) list"

record chain_env =
  cePurge :: purge_env
  ceStateRepo :: bool
  ceHostRepo :: bool
  ceJobRepo :: bool
  ceHost :: "nat \<Rightarrow> DatabaseRunnerHost option"
  ceUrlPath :: "string \<Rightarrow> string option"
  ceStamp :: "gotime \<Rightarrow> string"
  ceRetentionDays :: "string \<Rightarrow> int option" \<comment> \<open>the first positive number of days in the settings\<close>
  ceMetadata :: "nat \<Rightarrow> mysqlBackupMetadata option"
  ceStateErr :: "DatabaseBackupChainState \<Rightarrow> bool"
  ceJobErr :: "DatabaseRunnerJob \<Rightarrow> string option"

section \<open>Repositories\<close>

definition stateOf :: "chain_env \<Rightarrow> chain_world \<Rightarrow> nat \<Rightarrow> DatabaseBackupChainState option" where
  "stateOf env w policyID =
     (if \<not> ceStateRepo env \<or> policyID = 0 then None else find (\<lambda>s. csPolicyID s = policyID) (cwStates w))"

definition createState :: "chain_env \<Rightarrow> DatabaseBackupChainState \<Rightarrow> chain_world \<Rightarrow> chain_world" where
  "createState env s w =
     (if ceStateErr env s then w
      else w\<lparr>cwStates := cwStates w @ [s\<lparr>csID := Suc (Max (set (0 # map csID (cwStates w))))\<rparr>]\<rparr>)"

definition updateState :: "chain_env \<Rightarrow> DatabaseBackupChainState \<Rightarrow> chain_world \<Rightarrow> chain_world" where
  "updateState env s w =
     (if ceStateErr env s then w else w\<lparr>cwStates := map (\<lambda>x. if csID x = csID s then s else x) (cwStates w)\<rparr>)"

definition putState :: "chain_env \<Rightarrow> DatabaseBackupChainState \<Rightarrow> chain_world \<Rightarrow> chain_world" where
  "putState env s w = (if csID s = 0 then createState env s w else updateState env s w)"

definition createRecord ::
  "chain_env \<Rightarrow> DatabaseBackupRecord \<Rightarrow> chain_world \<Rightarrow> (string + DatabaseBackupRecord) \<times> chain_world" where
  "createRecord env r w =
     (case peRecordErr (cePurge env) r of
        Some m \<Rightarrow> (Inl m, w)
      | None \<Rightarrow>
          let r = r\<lparr>brID := Suc (Max (set (0 # map brID (pwRecords (cwPurge w)))))\<rparr> in
          (Inr r, w\<lparr>cwPurge := (cwPurge w)\<lparr>pwRecords := pwRecords (cwPurge w) @ [r]\<rparr>\<rparr>))"

definition updateRecord :: "chain_env \<Rightarrow> DatabaseBackupRecord \<Rightarrow> chain_world \<Rightarrow> string option \<times> chain_world" where
  "updateRecord env r w =
     (case peRecordErr (cePurge env) r of
        Some m \<Rightarrow> (Some m, w) | None \<Rightarrow> (None, w\<lparr>cwPurge := saveRecord r (cwPurge w)\<rparr>))"

definition updatePolicyRow :: "chain_env \<Rightarrow> DatabaseBackupPolicyConfig \<Rightarrow> chain_world \<Rightarrow> string option \<times> chain_world" where
  "updatePolicyRow env p w =
     (case pePolicyErr (cePurge env) p of
        Some m \<Rightarrow> (Some m, w) | None \<Rightarrow> (None, w\<lparr>cwPurge := savePolicy p (cwPurge w)\<rparr>))"

definition jobByID :: "chain_world \<Rightarrow> nat \<Rightarrow> DatabaseRunnerJob option" where
  "jobByID w i = find (\<lambda>j. rjID j = i) (cwJobs w)"

definition createJob ::
  "chain_env \<Rightarrow> DatabaseRunnerJob \<Rightarrow> chain_world \<Rightarrow> (string + DatabaseRunnerJob) \<times> chain_world" where
  "createJob env j w =
     (case ceJobErr env j of
        Some m \<Rightarrow> (Inl m, w)
      | None \<Rightarrow>
          let j = j\<lparr>rjID := Suc (Max (set (0 # map rjID (cwJobs w))))\<rparr> in (Inr j, w\<lparr>cwJobs := cwJobs w @ [j]\<rparr>))"

definition updateJob :: "chain_env \<Rightarrow> DatabaseRunnerJob \<Rightarrow> chain_world \<Rightarrow> chain_world" where
  "updateJob env j w =
     (case ceJobErr env j of
        Some _ \<Rightarrow> w | None \<Rightarrow> w\<lparr>cwJobs := map (\<lambda>x. if rjID x = rjID j then j else x) (cwJobs w)\<rparr>)"

section \<open>Locks\<close>

definition acquireBackupPolicyRun :: "nat \<Rightarrow> nat \<Rightarrow> chain_world \<Rightarrow> chain_error + chain_world" where
  "acquireBackupPolicyRun policyID instanceID w =
     (if policyID = 0 then Inl PolicyGone
      else if policyID \<in> set (cwRunningPolicies w) then Inl PolicyBusy
      else if instanceID > 0 \<and> instanceID \<in> set (cwRunningInstances w) then Inl InstanceBusy
      else Inr (w\<lparr>cwRunningPolicies := policyID # cwRunningPolicies w,
                  cwRunningInstances := (if instanceID > 0 then instanceID # cwRunningInstances w
                                         else cwRunningInstances w)\<rparr>))"

definition releaseBackupPolicyRun :: "nat \<Rightarrow> nat \<Rightarrow> chain_world \<Rightarrow> chain_world" where
  "releaseBackupPolicyRun policyID instanceID w =
     (if policyID = 0 then w
      else w\<lparr>cwRunningPolicies := removeAll policyID (cwRunningPolicies w),
             cwRunningInstances := (if instanceID > 0 then removeAll instanceID (cwRunningInstances w)
                                    else cwRunningInstances w)\<rparr>)"

definition acquireBackupTaskRun :: "nat \<Rightarrow> nat \<Rightarrow> chain_world \<Rightarrow> chain_error + chain_world" where
  "acquireBackupTaskRun taskID instanceID w =
     (if taskID = 0 then Inl TaskGone
      else if taskID \<in> set (cwRunningTasks w) then Inl TaskBusy
      else if instanceID > 0 \<and> instanceID \<in> set (cwRunningInstances w) then Inl InstanceBusy
      else Inr (w\<lparr>cwRunningTasks := taskID # cwRunningTasks w,
                  cwRunningInstances := (if instanceID > 0 then instanceID # cwRunningInstances w
                                         else cwRunningInstances w)\<rparr>))"

definition releaseBackupTaskRun :: "nat \<Rightarrow> nat \<Rightarrow> chain_world \<Rightarrow> chain_world" where
  "releaseBackupTaskRun taskID instanceID w =
     (if taskID = 0 then w
      else w\<lparr>cwRunningTasks := removeAll taskID (cwRunningTasks w),
             cwRunningInstances := (if instanceID > 0 then removeAll instanceID (cwRunningInstances w)
                                    else cwRunningInstances w)\<rparr>)"

definition isBackupTaskRunningError :: "chain_error \<Rightarrow> bool" where
  "isBackupTaskRunningError e \<longleftrightarrow> e \<in> set [PolicyBusy, TaskBusy, InstanceBusy]"

section \<open>Helpers\<close>

definition normalizeBackupMethod :: "string \<Rightarrow> string" where
  "normalizeBackupMethod value =
     (let v = ToLower (TrimSpace value) in if v \<in> set [BackupMethodPhysical, ''external''] then v else ''logical'')"

definition normalizeBackupSourceInstanceID :: "nat \<Rightarrow> nat \<Rightarrow> nat" where
  "normalizeBackupSourceInstanceID sourceInstanceID fallbackInstanceID =
     (if sourceInstanceID > 0 then sourceInstanceID else fallbackInstanceID)"

definition normalizeBackupTriggerType :: "string \<Rightarrow> string" where
  "normalizeBackupTriggerType triggerType =
     (if TrimSpace triggerType \<in> set [''schedule'', ''manual_retry'', ''external''] then triggerType else ''manual'')"

definition normalizeRunnerType :: "string \<Rightarrow> string" where
  "normalizeRunnerType value = (let v = ToLower (TrimSpace value) in if v \<in> set [''local'', ''agent''] then v else ''ssh'')"

definition backupOriginForLevel :: "string \<Rightarrow> string" where
  "backupOriginForLevel level =
     (if normalizeBackupLevel level = BackupLevelIncremental then OriginNativeIncremental else OriginNativeFull)"

text \<open>\<open>normalizeMySQLPhysicalBackupEngine\<close> without a version of the server; names are compared with \<open>_\<close> for \<open>-\<close>
  and \<open>.\<close>\<close>

definition engineName :: "string \<Rightarrow> string" where
  "engineName value = map (\<lambda>r. if r \<in> set ''-.'' then CHR ''_'' else r) (ToLower (TrimSpace value))"

definition normalizeMySQLPhysicalBackupEngine :: "string \<Rightarrow> string \<Rightarrow> string" where
  "normalizeMySQLPhysicalBackupEngine value dbType =
     (let v = engineName value in
      if v \<in> set [''xtrabackup80'', ''xtrabackup_80'', ''percona_xtrabackup_8_0'', ''xtrabackup_8_0'']
      then ''xtrabackup_8_0''
      else if v \<in> set [''xtrabackup84'', ''xtrabackup_84'', ''percona_xtrabackup_8_4'', ''xtrabackup_8_4'']
      then ''xtrabackup_8_4''
      else if v \<in> set [''xtrabackup24'', ''xtrabackup_24'', ''percona_xtrabackup_2_4'', ''xtrabackup_2_4'']
      then ''xtrabackup_2_4''
      else if v \<in> set [''mariabackup'', ''mariadb_backup'', ''mariadb_backup_latest''] then ''mariadb_backup''
      else if normalizeDBType dbType = DBTypeMariaDB then ''mariadb_backup'' else ''xtrabackup_8_0'')"

definition mysqlPhysicalBackupToolName :: "string \<Rightarrow> string \<Rightarrow> string" where
  "mysqlPhysicalBackupToolName engine dbType =
     (if normalizeMySQLPhysicalBackupEngine engine dbType = ''mariadb_backup'' then ''mariadb-backup'' else ''xtrabackup'')"

definition policyRetentionDays :: "chain_env \<Rightarrow> DatabaseBackupPolicyConfig \<Rightarrow> int" where
  "policyRetentionDays env policy = (case ceRetentionDays env (bpRetentionJSON policy) of Some d \<Rightarrow> d | None \<Rightarrow> 45)"

definition safeBackupName :: "string \<Rightarrow> string" where
  "safeBackupName value =
     (let value = TrimSpace value;
          plain = (\<lambda>r. rune_code r < 128 \<and> (IsLetter r \<or> IsDigit r) \<or> r \<in> set ''-_.'');
          cut = dropWhile (\<lambda>r. r \<in> set ''-_.'');
          result = rev (cut (rev (cut (map (\<lambda>r. if plain r then r else CHR ''-'') value)))) in
      if value = [] \<or> result = [] then ''postgresql'' else result)"

text \<open>\<open>resolveRunnerReadableArtifactPath\<close>. The error of the number is ignored, the number is then the greatest one
  when it was too long and 0 otherwise.\<close>

definition hostIDOf :: "string \<Rightarrow> nat" where
  "hostIDOf text =
     (case ParseUint text 10 64 of
        Some i \<Rightarrow> i
      | None \<Rightarrow> if text \<noteq> [] \<and> list_all IsDigit text then 2 ^ 64 - 1 else 0)"

fun artifactPath :: "chain_env \<Rightarrow> nat \<Rightarrow> string list \<Rightarrow> unusable + string" where
  "artifactPath env runnerHostID [] = Inl PathMissing"
| "artifactPath env runnerHostID (candidate # rest) =
     (let c = TrimSpace candidate in
      if c = [] then artifactPath env runnerHostID rest
      else if HasPrefix c ''runner://runner-host-'' then
        (case CutSlash (TrimPrefix c ''runner://runner-host-'') of
           None \<Rightarrow> Inl PathIncomplete
         | Some (idText, pathPart) \<Rightarrow>
             if hostIDOf idText \<noteq> runnerHostID then Inl (PathOfHost (hostIDOf idText)) else Inr (CHR ''/'' # pathPart))
      else if HasPrefix c ''local://'' then Inr (TrimPrefix c ''local://'')
      else if HasPrefix c ''file://'' then (case ceUrlPath env c of None \<Rightarrow> Inl PathUnparsed | Some p \<Rightarrow> Inr p)
      else if HasPrefix c ''/'' then Inr c
      else if HasPrefix c ''metadata://'' then Inl PathMetadata
      else artifactPath env runnerHostID rest)"

definition resolveRunnerReadableArtifactPath :: "chain_env \<Rightarrow> string \<Rightarrow> string \<Rightarrow> nat \<Rightarrow> unusable + string" where
  "resolveRunnerReadableArtifactPath env storageURI filePath runnerHostID =
     artifactPath env runnerHostID [storageURI, filePath]"

definition validateBarmanRunnerHost :: "DatabaseRunnerHost \<Rightarrow> chain_error option" where
  "validateBarmanRunnerHost host =
     (if \<not> rhEnabled host \<or> rhStatus host = HostDisabled then Some HostOff
      else if normalizeRunnerType (rhRunnerType host) \<noteq> ''ssh'' then Some HostNotSSH
      else if rhCredentialID host = 0 then Some HostNoCredential else None)"

text \<open>The audit row of a backup; without a repository there is none.\<close>

definition startBackupAudit ::
  "chain_env \<Rightarrow> DatabaseInstance \<Rightarrow> DatabaseBackupPolicyConfig \<Rightarrow> QueryOperator \<Rightarrow> chain_world
   \<Rightarrow> (string + DatabaseQueryAudit option) \<times> chain_world" where
  "startBackupAudit env item policy operator w =
     (let c = peConsole (cePurge env);
          text = ''BACKUP TASK '' @ TrimSpace (bpName policy) @ '' DATABASE instance TYPE PHYSICAL STORAGE EXTERNAL'' in
      if \<not> envAuditRepo c then (Inr None, w)
      else case auditCreate c (pwConsole (cwPurge w)) ((operator_audit c item ''instance'' operator)\<lparr>
             aAuditAction := ''backup_run'', aSQLText := trimText text 20000, aSQLFingerprint := sqlFingerprint c text,
             aSQLType := ''BACKUP'', aRiskLevel := DatabaseQueryRiskMedium, aStatus := DatabaseQueryStatusPending\<rparr>) of
        (Inl m, q) \<Rightarrow> (Inl m, w\<lparr>cwPurge := (cwPurge w)\<lparr>pwConsole := q\<rparr>\<rparr>)
      | (Inr a, q) \<Rightarrow> (Inr (Some a), w\<lparr>cwPurge := (cwPurge w)\<lparr>pwConsole := q\<rparr>\<rparr>))"

definition finishBackupAudit ::
  "chain_env \<Rightarrow> DatabaseQueryAudit option \<Rightarrow> string \<Rightarrow> int \<Rightarrow> string \<Rightarrow> chain_world \<Rightarrow> chain_world" where
  "finishBackupAudit env audit status durationMs errorMessage w =
     (case audit of
        None \<Rightarrow> w
      | Some a \<Rightarrow>
          if \<not> envAuditRepo (peConsole (cePurge env)) then w
          else w\<lparr>cwPurge := (cwPurge w)\<lparr>pwConsole := snd (auditUpdate (peConsole (cePurge env)) (pwConsole (cwPurge w))
                 (a\<lparr>aStatus := status, aDurationMs := durationMs,
                    aErrorMessage := (if errorMessage = [] then None else Some (BackupNote (trimText errorMessage 500)))\<rparr>))\<rparr>\<rparr>)"

section \<open>The check of a chain\<close>

definition failChain :: "chain_status \<Rightarrow> chain_reason \<Rightarrow> backupPolicyChainValidation \<Rightarrow> backupPolicyChainValidation" where
  "failChain status reason v =
     v\<lparr>cvStatus := (if cvStatus v = ChainComplete then status else cvStatus v),
       cvBlockingReasons := cvBlockingReasons v @ [reason]\<rparr>"

definition warnChain :: "chain_reason \<Rightarrow> backupPolicyChainValidation \<Rightarrow> backupPolicyChainValidation" where
  "warnChain text v = v\<lparr>cvWarnings := cvWarnings v @ [text]\<rparr>"

definition messageChain :: "chain_reason \<Rightarrow> backupPolicyChainValidation \<Rightarrow> backupPolicyChainValidation" where
  "messageChain text v = v\<lparr>cvMessages := cvMessages v @ [text]\<rparr>"

definition validatePolicyChainRecord ::
  "chain_env \<Rightarrow> DatabaseBackupPolicyConfig \<Rightarrow> DatabaseRunnerHost \<Rightarrow> DatabaseBackupRecord \<Rightarrow> unusable option" where
  "validatePolicyChainRecord env policy host r =
     (if brPolicyID r \<noteq> bpID policy then Some OtherPolicy
      else if brStatus r \<noteq> BackupSuccess then Some NotSuccessful
      else if normalizeBackupMethod (brBackupMethod r) \<noteq> BackupMethodPhysical then Some NotPhysical
      else if TrimSpace (brBackupEngine r) \<noteq> TrimSpace (bpBackupEngine policy) then Some OtherEngine
      else if brSourceInstanceID r \<noteq> normalizeBackupSourceInstanceID (bpSourceInstanceID policy) (bpInstanceID policy)
      then Some OtherSource
      else if normalizeBackupLevel (brBackupLevel r) \<notin> set [BackupLevelFull, BackupLevelIncremental]
      then Some LevelUnsupported
      else if brArtifactState r \<in> set [ArtifactMissing, ArtifactChecksumFailed] then Some ArtifactBad
      else if TrimSpace (brChecksumSHA256 r) = [] then Some ChecksumMissing
      else if TrimSpace (brCheckpointToLSN r) = [] then Some ToLSNMissing
      else case resolveRunnerReadableArtifactPath env (brStorageURI r) (brFilePath r) (rhID host) of
        Inl e \<Rightarrow> Some e | Inr _ \<Rightarrow> None)"

text \<open>The stable sort by time and number.\<close>

definition chainSort :: "DatabaseBackupRecord list \<Rightarrow> DatabaseBackupRecord list" where
  "chainSort records = sort_key backupRecordSortTime (sort_key brID records)"

text \<open>A map filled in order keeps the last record of a number.\<close>

definition byID :: "DatabaseBackupRecord list \<Rightarrow> nat \<Rightarrow> DatabaseBackupRecord option" where
  "byID records i = find (\<lambda>r. brID r = i) (rev records)"

definition stateBase :: "DatabaseBackupChainState option \<Rightarrow> DatabaseBackupRecord list \<Rightarrow> DatabaseBackupRecord option" where
  "stateBase state records =
     (case state of None \<Rightarrow> None
      | Some s \<Rightarrow> if csCurrentBaseRecordID s > 0 then byID records (csCurrentBaseRecordID s) else None)"

definition chooseBase ::
  "DatabaseBackupChainState option \<Rightarrow> DatabaseBackupRecord list \<Rightarrow> backupPolicyChainValidation
   \<Rightarrow> DatabaseBackupRecord option \<times> backupPolicyChainValidation" where
  "chooseBase state records v =
     (case stateBase state records of
        Some b \<Rightarrow> (Some b, v)
      | None \<Rightarrow>
          let v = (case state of None \<Rightarrow> v
                   | Some s \<Rightarrow> if csCurrentBaseRecordID s > 0
                       then failChain ChainMissingBase (BaseGone (csCurrentBaseRecordID s)) v else v) in
          case find (\<lambda>r. normalizeBackupLevel (brBackupLevel r) = BackupLevelFull) (rev records) of
            None \<Rightarrow> (None, v)
          | Some b \<Rightarrow> (Some b, messageChain (BasePicked (brID b)) v))"

definition chainChildren :: "DatabaseBackupRecord \<Rightarrow> DatabaseBackupRecord list \<Rightarrow> nat \<Rightarrow> DatabaseBackupRecord list" where
  "chainChildren base records parentID =
     chainSort (filter (\<lambda>r. brParentRecordID r = parentID \<and> brParentRecordID r \<noteq> 0 \<and> brID r \<noteq> brID base
       \<and> (TrimSpace (brChainID base) = [] \<or> TrimSpace (brChainID r) = TrimSpace (brChainID base))) records)"

text \<open>What is said about the next record of a chain, in order.\<close>

definition linkReasons ::
  "chain_env \<Rightarrow> DatabaseBackupPolicyConfig \<Rightarrow> DatabaseRunnerHost \<Rightarrow> DatabaseBackupRecord \<Rightarrow> DatabaseBackupRecord
   \<Rightarrow> DatabaseBackupRecord \<Rightarrow> chain_reason list" where
  "linkReasons env policy host base current next =
     (let fromLSN = TrimSpace (brCheckpointFromLSN next); toLSN = TrimSpace (brCheckpointToLSN current) in
      (if normalizeBackupLevel (brBackupLevel next) \<noteq> BackupLevelIncremental then [NotIncremental (brID next)] else [])
      @ (if brBaseRecordID next \<noteq> brID base then [BaseDiffers (brID next) (brBaseRecordID next) (brID base)] else [])
      @ (case validatePolicyChainRecord env policy host next of
           Some e \<Rightarrow> [IncrementalUnusable (brID next) e] | None \<Rightarrow> [])
      @ (if fromLSN \<noteq> [] then
           (if toLSN \<noteq> [] \<and> fromLSN \<noteq> toLSN then [LSNGap (brID next) fromLSN (brID current) toLSN] else [])
         else [FromLSNMissing (brID next)])
      @ (if TrimSpace (brServerUUID current) \<noteq> [] \<and> TrimSpace (brServerUUID next) \<noteq> []
            \<and> TrimSpace (brServerUUID current) \<noteq> TrimSpace (brServerUUID next) then [ServerDiffers (brID next)] else []))"

lemma child_in: "r \<in> set (chainChildren base records i) \<Longrightarrow>
    r \<in> set records \<and> brParentRecordID r = i \<and> i \<noteq> 0 \<and> brID r \<noteq> brID base"
  by (auto simp: chainChildren_def chainSort_def)

text \<open>The walk from the base to the latest record: with every step one more number of a record has been visited.\<close>

function chainWalk ::
  "chain_env \<Rightarrow> DatabaseBackupPolicyConfig \<Rightarrow> DatabaseRunnerHost \<Rightarrow> DatabaseBackupRecord \<Rightarrow> DatabaseBackupRecord list
   \<Rightarrow> nat list \<Rightarrow> DatabaseBackupRecord \<Rightarrow> backupPolicyChainValidation
   \<Rightarrow> DatabaseBackupRecord \<times> backupPolicyChainValidation" where
  "chainWalk env policy host base records visited current v =
     (case chainChildren base records (brID current) of
        [] \<Rightarrow> (current, v)
      | next # others \<Rightarrow>
          let v = (if others \<noteq> [] then warnChain (ManyChildren (brID current)) v else v) in
          if brID next \<in> set visited then (current, failChain ChainBroken (CycleAt (brID next)) v)
          else let v = fold (failChain ChainBroken) (linkReasons env policy host base current next) v in
            chainWalk env policy host base records (brID next # visited) next (v\<lparr>cvRecords := cvRecords v @ [next]\<rparr>))"
  by pat_completeness auto
termination
proof (relation "measure (\<lambda>(env, policy, host, base, records, visited, current, v).
    card (set (map brID records) - set visited))", goal_cases)
  case (2 env policy host base records visited current v "next" others)
  then have "next \<in> set records" using child_in [of "next" base records "brID current"] by simp
  then have "set (map brID records) - set (brID next # visited) \<subset> set (map brID records) - set visited"
    using 2(3) by auto
  then show ?case by (auto intro!: psubset_card_mono)
qed simp

declare chainWalk.simps [simp del]

definition validateBackupPolicyChainRecords ::
  "chain_env \<Rightarrow> gotime \<Rightarrow> DatabaseBackupPolicyConfig \<Rightarrow> DatabaseRunnerHost \<Rightarrow> DatabaseBackupChainState option
   \<Rightarrow> DatabaseBackupRecord list \<Rightarrow> backupPolicyChainValidation" where
  "validateBackupPolicyChainRecords env now policy host state records =
     (let v = \<lparr>cvStatus = ChainComplete, cvBaseRecord = None, cvLatestRecord = None, cvRecords = [],
               cvBlockingReasons = [], cvWarnings = [], cvMessages = [], cvCheckedAt = now, cvState = state\<rparr>;
          records = chainSort records in
      case chooseBase state records v of
        (None, v) \<Rightarrow> failChain ChainMissingBase NoFullBackup v
      | (Some base, v) \<Rightarrow>
          let v = v\<lparr>cvBaseRecord := Some base\<rparr>;
              v = (case validatePolicyChainRecord env policy host base of
                     Some e \<Rightarrow> failChain ChainBroken (BaseUnusable (brID base) e) v | None \<Rightarrow> v);
              v = v\<lparr>cvRecords := cvRecords v @ [base]\<rparr>;
              (current, v) = chainWalk env policy host base records [brID base] base v;
              v = v\<lparr>cvLatestRecord := Some current\<rparr>;
              v = (case state of None \<Rightarrow> v
                   | Some s \<Rightarrow>
                       if csLatestRecordID s > 0 \<and> csLatestRecordID s \<noteq> brID current then
                         failChain ChainMissingIncremental
                           (case byID records (csLatestRecordID s) of
                              None \<Rightarrow> LatestGone (csLatestRecordID s)
                            | Some _ \<Rightarrow> LatestNotReached (csLatestRecordID s) (brID base)) v
                       else v);
              v = (if bpBinlogStreamID policy = 0 then warnChain NoBinlogStream v else v) in
          if cvBlockingReasons v = []
          then messageChain (ChainVerifiedFrom (brID base) (brID current) (length (cvRecords v) - 1))
                 (v\<lparr>cvStatus := ChainComplete\<rparr>)
          else v)"

definition isIncremental :: "DatabaseBackupRecord \<Rightarrow> bool" where
  "isIncremental r \<longleftrightarrow> normalizeBackupLevel (brBackupLevel r) = BackupLevelIncremental"

definition newState :: "DatabaseBackupPolicyConfig \<Rightarrow> DatabaseBackupChainState" where
  "newState policy = \<lparr>csID = 0, csPolicyID = bpID policy, csInstanceID = bpInstanceID policy, csChainID = [],
     csCurrentBaseRecordID = 0, csLatestRecordID = 0, csLatestFullRecordID = 0, csLatestSyntheticRecordID = 0,
     csIncrementalCount = 0, csChainStartedAt = None, csLastSuccessAt = None, csRecoverableUntil = None,
     csStatus = ChainHealthy, csLastValidationStatus = ChainComplete, csLastError = PurgePlain []\<rparr>"

definition noteRecord :: "DatabaseBackupRecord \<Rightarrow> DatabaseBackupChainState \<Rightarrow> DatabaseBackupChainState" where
  "noteRecord r s =
     (let s = (if isIncremental r then s\<lparr>csIncrementalCount := csIncrementalCount s + 1\<rparr> else s) in
      if normalizeBackupLevel (brBackupLevel r) = BackupLevelFull then
        (if brBackupOrigin r = OriginSyntheticFull then s\<lparr>csLatestSyntheticRecordID := brID r\<rparr>
         else s\<lparr>csLatestFullRecordID := brID r\<rparr>)
      else s)"

definition persistBackupPolicyChainValidation ::
  "chain_env \<Rightarrow> DatabaseBackupPolicyConfig \<Rightarrow> backupPolicyChainValidation \<Rightarrow> chain_world \<Rightarrow> chain_world" where
  "persistBackupPolicyChainValidation env policy v w =
     (if \<not> ceStateRepo env then w
      else
        let s = (case cvState v of Some s \<Rightarrow> s | None \<Rightarrow> newState policy);
            s = s\<lparr>csInstanceID := bpInstanceID policy, csLastValidationStatus := cvStatus v\<rparr> in
        if cvBlockingReasons v \<noteq> [] then
          putState env (s\<lparr>csStatus := ChainStateBroken, csLastError := ChainReasons [] (cvBlockingReasons v)\<rparr>) w
        else
          let s = s\<lparr>csStatus := ChainHealthy, csLastError := PurgePlain []\<rparr>;
              s = (case cvBaseRecord v of None \<Rightarrow> s
                   | Some b \<Rightarrow> s\<lparr>csChainID := brChainID b, csCurrentBaseRecordID := brID b,
                       csChainStartedAt := (if brStartedAt b \<noteq> None then brStartedAt b else csChainStartedAt s)\<rparr>);
              s = (case cvLatestRecord v of None \<Rightarrow> s
                   | Some r \<Rightarrow> s\<lparr>csLatestRecordID := brID r, csRecoverableUntil := brRecoverableUntil r,
                       csLastSuccessAt := (if brFinishedAt r \<noteq> None then brFinishedAt r else csLastSuccessAt s)\<rparr>)
          in putState env (fold noteRecord (cvRecords v) (s\<lparr>csIncrementalCount := 0\<rparr>)) w)"

definition validateBackupPolicyChainInternal ::
  "chain_env \<Rightarrow> gotime \<Rightarrow> DatabaseBackupPolicyConfig \<Rightarrow> DatabaseRunnerHost \<Rightarrow> chain_world
   \<Rightarrow> (chain_error + backupPolicyChainValidation) \<times> chain_world" where
  "validateBackupPolicyChainInternal env now policy host w =
     (if \<not> peRecordRepo (cePurge env) then (Inl RepositoriesMissing, w)
      else case peListErr (cePurge env) of
        Some m \<Rightarrow> (Inl (RecordListFailed m), w)
      | None \<Rightarrow>
          let v = validateBackupPolicyChainRecords env now policy host (stateOf env w (bpID policy))
                    (ListSuccessfulPhysicalByPolicy (cwPurge w) (bpID policy))
          in (Inr v, persistBackupPolicyChainValidation env policy v w))"

definition ValidateBackupPolicyChain ::
  "chain_env \<Rightarrow> gotime \<Rightarrow> nat \<Rightarrow> chain_world \<Rightarrow> (chain_error + backupPolicyChainValidation) \<times> chain_world" where
  "ValidateBackupPolicyChain env now policyID w =
     (if \<not> (pePolicyRepo (cePurge env) \<and> peRecordRepo (cePurge env) \<and> ceStateRepo env \<and> ceHostRepo env)
      then (Inl RepositoriesMissing, w)
      else case policyByID (cwPurge w) policyID of
        None \<Rightarrow> (Inl PolicyGone, w)
      | Some policy \<Rightarrow>
        (case ceHost env (bpRunnerHostID policy) of
           None \<Rightarrow> (Inl HostGone, w)
         | Some host \<Rightarrow> validateBackupPolicyChainInternal env now policy host w))"

section \<open>The preview of a synthetic full backup\<close>

definition finalizeSyntheticPreviewStatus :: "DatabaseSyntheticFullPreviewVO \<Rightarrow> DatabaseSyntheticFullPreviewVO" where
  "finalizeSyntheticPreviewStatus p =
     p\<lparr>spStatus := (if spBlockingReasons p \<noteq> [] then PreviewFailed
                    else if spWarnings p \<noteq> [] then PreviewWarning else PreviewPassed)\<rparr>"

definition wrapSize :: "int \<Rightarrow> int" where
  "wrapSize n = (n + 2 ^ 63) mod 2 ^ 64 - 2 ^ 63"

definition buildSyntheticFullPreview ::
  "chain_env \<Rightarrow> gotime \<Rightarrow> DatabaseBackupPolicyConfig \<Rightarrow> backupPolicyChainValidation \<Rightarrow> DatabaseSyntheticFullPreviewVO" where
  "buildSyntheticFullPreview env now policy v =
     (let rule = parseSyntheticRule (cePurge env) policy;
          p = \<lparr>spStatus = PreviewPassed, spSelectedBaseRecordID = 0, spSelectedIncrementalRecordIDs = [],
               spSelectedRecordIDs = [], spSelectedRecords = [], spNewSyntheticFullAfterRecordID = 0,
               spEstimatedInputSize = 0, spEstimatedWorkdirSize = 0,
               spMergeIncrementalCount = srMergeOldestIncrementals rule,
               spRequiresRestoreProof = (srRequireRestoreProof rule \<or> bpRestoreDrillRequired policy),
               spBlockingReasons = (if bpSyntheticEnabled policy then [] else [SyntheticOff]),
               spWarnings = [], spMessages = [], spCheckedAt = now\<rparr>;
          p = (if cvStatus v = ChainComplete then p
               else p\<lparr>spBlockingReasons := spBlockingReasons p @ [ChainNotPassed] @ cvBlockingReasons v,
                      spWarnings := spWarnings p @ cvWarnings v\<rparr>) in
      case cvBaseRecord v of
        None \<Rightarrow> finalizeSyntheticPreviewStatus (p\<lparr>spBlockingReasons := spBlockingReasons p @ [NothingToMerge]\<rparr>)
      | Some base \<Rightarrow>
          let incrementals = filter isIncremental (cvRecords v);
              few = int (length incrementals) < srMergeOldestIncrementals rule;
              chosen = take (nat (srMergeOldestIncrementals rule)) incrementals;
              selected = base # chosen;
              size = foldl (\<lambda>n r. wrapSize (n + brFileSize r)) 0 selected;
              p = p\<lparr>spSelectedBaseRecordID := brID base,
                    spBlockingReasons := spBlockingReasons p
                      @ (if few then [TooFewIncrementals (length incrementals) (srMergeOldestIncrementals rule)] else []),
                    spSelectedIncrementalRecordIDs := map brID chosen,
                    spSelectedRecordIDs := map brID selected, spSelectedRecords := selected,
                    spNewSyntheticFullAfterRecordID := brID (last selected),
                    spEstimatedInputSize := size, spEstimatedWorkdirSize := wrapSize (size * 3),
                    spWarnings := spWarnings p @ (if spRequiresRestoreProof p then [ProofWanted] else [])\<rparr>
          in finalizeSyntheticPreviewStatus p)"

definition PreviewBackupPolicySyntheticFull ::
  "chain_env \<Rightarrow> gotime \<Rightarrow> nat \<Rightarrow> chain_world \<Rightarrow> (chain_error + DatabaseSyntheticFullPreviewVO) \<times> chain_world" where
  "PreviewBackupPolicySyntheticFull env now policyID w =
     (if \<not> (pePolicyRepo (cePurge env) \<and> peRecordRepo (cePurge env) \<and> ceHostRepo env) then (Inl RepositoriesMissing, w)
      else case policyByID (cwPurge w) policyID of
        None \<Rightarrow> (Inl PolicyGone, w)
      | Some policy \<Rightarrow>
        (case ceHost env (bpRunnerHostID policy) of
           None \<Rightarrow> (Inl HostGone, w)
         | Some host \<Rightarrow>
           (case validateBackupPolicyChainInternal env now policy host w of
              (Inl e, w) \<Rightarrow> (Inl e, w)
            | (Inr v, w) \<Rightarrow> (Inr (buildSyntheticFullPreview env now policy v), w))))"

section \<open>Starting a backup\<close>

definition sourceInstanceOf ::
  "chain_env \<Rightarrow> bool \<Rightarrow> DatabaseBackupPolicyConfig \<Rightarrow> DatabaseInstance \<Rightarrow> chain_error + DatabaseInstance" where
  "sourceInstanceOf env strict policy item =
     (if bpSourceInstanceID policy > 0 \<and> bpSourceInstanceID policy \<noteq> bpInstanceID policy then
        (case envInstance (peConsole (cePurge env)) (bpSourceInstanceID policy) of
           None \<Rightarrow> Inl SourceGone
         | Some source \<Rightarrow>
             if strict \<and> TrimSpace (iStatus source) \<noteq> DatabaseInstanceStatusEnabled then Inl SourceOff
             else if strict \<and> normalizeDBType (iDBType source) \<notin> set [DBTypeMySQL, DBTypeMariaDB] then Inl SourceNotMySQL
             else Inr source)
      else Inr item)"

text \<open>\<open>validatePolicyIncrementalParent\<close> makes the checks of \<open>validatePolicyChainRecord\<close> in the same order.\<close>

definition validatePolicyIncrementalParent ::
  "chain_env \<Rightarrow> DatabaseBackupPolicyConfig \<Rightarrow> DatabaseRunnerHost \<Rightarrow> DatabaseBackupRecord \<Rightarrow> unusable option" where
  "validatePolicyIncrementalParent env policy host parent = validatePolicyChainRecord env policy host parent"

definition queuedRecord ::
  "chain_env \<Rightarrow> DatabaseBackupPolicyConfig \<Rightarrow> DatabaseInstance \<Rightarrow> gotime \<Rightarrow> string \<Rightarrow> string \<Rightarrow> string \<Rightarrow> string
   \<Rightarrow> string \<Rightarrow> string \<Rightarrow> string \<Rightarrow> DatabaseBackupRecord" where
  "queuedRecord env policy source started triggerType chainID level origin uri fileName message =
     \<lparr>brID = 0, brPolicyID = bpID policy, brBackupMethod = BackupMethodPhysical, brBackupLevel = level,
      brBackupOrigin = origin, brStatus = BackupQueued, brArtifactState = ArtifactRemote,
      brFileName = trimText fileName 255, brFileSize = 0, brStorageURI = trimText uri 1000, brFilePath = [],
      brChecksumSHA256 = [], brParentRecordID = 0, brSupersededByRecordID = 0, brPurgeEligibleAt = None,
      brProtectedUntil = None, brRestoreTestStatus = [], brVerifyStatus = BackupPending, brVerifyMessage = PurgePlain [],
      brErrorMessage = PurgePlain message, brSyntheticSourceRecordIDs = [], brFinishedAt = None,
      brStartedAt = Some started, brCreatedAt = started, brBackupBinlogFile = [], brBackupGTIDSet = [],
      brExecutedGTIDSet = [], brGTIDMode = [], brInstanceID = bpInstanceID policy,
      brTriggerType = normalizeBackupTriggerType triggerType, brChainID = trimText chainID 64, brBaseRecordID = 0,
      brBackupEngine = bpBackupEngine policy, brSourceInstanceID = iID source, brCheckpointFromLSN = [],
      brCheckpointToLSN = [], brServerUUID = [], brRecoverableFrom = Some started, brRecoverableUntil = Some started,
      brExpiresAt = Some (peAddDate (cePurge env) started (policyRetentionDays env policy)), brTaskID = 0,
      brToolName = mysqlPhysicalBackupToolName (bpBackupEngine policy) (bpEngine policy), brPostgreSQL = no_pg_backup\<rparr>"

definition finishBackupPolicy ::
  "chain_env \<Rightarrow> DatabaseBackupPolicyConfig \<Rightarrow> gotime \<Rightarrow> string \<Rightarrow> string \<Rightarrow> chain_world \<Rightarrow> chain_world" where
  "finishBackupPolicy env policy finishedAt status message w =
     (let p = policy\<lparr>bpLastRunAt := Some finishedAt, bpLastStatus := status,
                bpLastMessage := PurgePlain (trimText message 500)\<rparr>;
          p = (if status = BackupSuccess then p\<lparr>bpStatus := PolicyActive, bpLastError := PurgePlain []\<rparr>
               else if status = BackupFailed
               then p\<lparr>bpStatus := PolicyDegraded, bpLastError := PurgePlain (trimText message 1000)\<rparr> else p)
      in snd (updatePolicyRow env p w))"

text \<open>What both kinds of runs do once the record is saved: the policy is updated and the job created.\<close>

definition failRecord ::
  "chain_env \<Rightarrow> DatabaseBackupRecord \<Rightarrow> string \<Rightarrow> chain_world \<Rightarrow> chain_world" where
  "failRecord env r message w =
     snd (updateRecord env (r\<lparr>brStatus := BackupFailed, brErrorMessage := PurgePlain (trimText message 500)\<rparr>) w)"

definition queueJob ::
  "chain_env \<Rightarrow> gotime \<Rightarrow> DatabaseBackupPolicyConfig \<Rightarrow> DatabaseBackupRecord \<Rightarrow> DatabaseRunnerJob
   \<Rightarrow> DatabaseQueryAudit option \<Rightarrow> string \<Rightarrow> chain_world \<Rightarrow> (chain_error + DatabaseRunnerJob) \<times> chain_world" where
  "queueJob env now policy r job audit message w =
     (let policy = policy\<lparr>bpLastRunAt := Some now, bpLastStatus := BackupQueued, bpLastMessage := PurgePlain message,
                     bpStatus := PolicyActive\<rparr> in
      case updatePolicyRow env policy w of
        (Some m, w) \<Rightarrow>
          let text = ''policy not updated: '' @ m in
          (Inl (PolicyNotSaved m), finishBackupAudit env audit BackupFailed 0 text (failRecord env r text w))
      | (None, w) \<Rightarrow>
        (case createJob env job w of
           (Inl m, w) \<Rightarrow>
             let text = ''job not created: '' @ m in
             (Inl (JobNotSaved m), finishBackupAudit env audit BackupFailed 0 text
                (finishBackupPolicy env policy now BackupFailed text (failRecord env r text w)))
         | (Inr job, w) \<Rightarrow> (Inr job, w)))"

definition newJob ::
  "string \<Rightarrow> DatabaseRunnerHost \<Rightarrow> DatabaseInstance \<Rightarrow> QueryOperator \<Rightarrow> DatabaseBackupPolicyConfig
   \<Rightarrow> DatabaseBackupRecord \<Rightarrow> nat list \<Rightarrow> string \<times> nat \<Rightarrow> DatabaseRunnerJob" where
  "newJob jobType host source operator policy r sourceIDs trigger =
     \<lparr>rjID = 0, rjJobType = jobType, rjRunnerHostID = rhID host, rjSourceInstanceID = iID source, rjStatus = BackupQueued,
      rjWorkDir = rhWorkDir host, rjExitCode = 0, rjOperatorID = oID operator,
      rjOperatorName = trimText (oUsername operator) 120, rjRequestPolicyID = bpID policy, rjRequestRecordID = brID r,
      rjRequestSourceIDs = sourceIDs, rjRequestTrigger = trigger, rjErrorMessage = [], rjStartedAt = None,
      rjFinishedAt = None\<rparr>"

text \<open>The parent of an incremental backup is the latest record of a complete chain; a full backup has none.\<close>

definition parentFor ::
  "chain_env \<Rightarrow> gotime \<Rightarrow> DatabaseBackupPolicyConfig \<Rightarrow> DatabaseRunnerHost \<Rightarrow> string \<Rightarrow> chain_world
   \<Rightarrow> (chain_error + DatabaseBackupRecord option) \<times> chain_world" where
  "parentFor env now policy host level w =
     (if level \<noteq> BackupLevelIncremental then (Inr None, w)
      else case validateBackupPolicyChainInternal env now policy host w of
        (Inl e, w) \<Rightarrow> (Inl e, w)
      | (Inr v, w) \<Rightarrow>
        (case (if cvStatus v \<noteq> ChainComplete \<or> cvBaseRecord v = None then None else cvLatestRecord v) of
           None \<Rightarrow> (Inl (if cvBlockingReasons v \<noteq> [] then ChainRefused (cvBlockingReasons v) else IncrementNotPassed), w)
         | Some parent \<Rightarrow>
           (case validatePolicyIncrementalParent env policy host parent of
              Some e \<Rightarrow> (Inl (ParentRefused e), w) | None \<Rightarrow> (Inr (Some parent), w))))"

text \<open>\<open>runBackupPolicy\<close>, from the lock to the start of the background job.\<close>

definition queuePhysicalBackup ::
  "chain_env \<Rightarrow> gotime \<Rightarrow> DatabaseBackupPolicyConfig \<Rightarrow> DatabaseInstance \<Rightarrow> DatabaseInstance \<Rightarrow> DatabaseRunnerHost
   \<Rightarrow> string \<Rightarrow> QueryOperator \<Rightarrow> string \<Rightarrow> DatabaseBackupRecord option \<Rightarrow> chain_world
   \<Rightarrow> (chain_error + background) \<times> chain_world" where
  "queuePhysicalBackup env now policy item source host level operator triggerType parent w =
     (case startBackupAudit env item policy operator w of
        (Inl m, w) \<Rightarrow> (Inl (AuditRefused m), w)
      | (Inr audit, w) \<Rightarrow>
        let message = ''MySQL/MariaDB physical backup queued'';
            seconds = now div 10 ^ 9;
            fileName = safeBackupName (iName item) @ ''-'' @ level @ ''-'' @ ceStamp env now @ ''.physical.tar.gz'';
            uri = ''runner://runner-host-'' @ Itoa (int (rhID host)) @ ''/pending/'' @ Itoa seconds;
            chainID = (case parent of Some p \<Rightarrow> brChainID p
                       | None \<Rightarrow> ''mysql-policy-'' @ Itoa (int (bpID policy)) @ ''-'' @ Itoa seconds);
            r = (queuedRecord env policy source now triggerType chainID level (backupOriginForLevel level) uri fileName
                   message)
                \<lparr>brBaseRecordID := (case parent of None \<Rightarrow> 0
                   | Some p \<Rightarrow> if brBaseRecordID p = 0 then brID p else brBaseRecordID p),
                 brParentRecordID := (case parent of None \<Rightarrow> 0 | Some p \<Rightarrow> brID p)\<rparr> in
     (case createRecord env r w of
        (Inl m, w) \<Rightarrow> (Inl (RecordNotSaved m), finishBackupAudit env audit BackupFailed 0 (''record not created: '' @ m) w)
      | (Inr r, w) \<Rightarrow>
        let r = (if level = BackupLevelFull then r\<lparr>brBaseRecordID := brID r\<rparr> else r);
            w = (if level = BackupLevelFull then snd (updateRecord env r w) else w) in
     (case queueJob env now policy r (newJob JobPhysicalBackup host source operator policy r [] ([], 0)) audit message w of
        (Inl e, w) \<Rightarrow> (Inl e, w)
      | (Inr job, w) \<Rightarrow>
          (Inr \<lparr>bgKind = PhysicalRun, bgPolicyID = bpID policy, bgInstanceID = bpInstanceID policy, bgRecordID = brID r,
                bgJobID = rjID job, bgLevel = level, bgAudit = audit, bgRows = None\<rparr>, w))))"

definition startPhysicalBackup ::
  "chain_env \<Rightarrow> gotime \<Rightarrow> DatabaseBackupPolicyConfig \<Rightarrow> DatabaseInstance \<Rightarrow> DatabaseInstance \<Rightarrow> DatabaseRunnerHost
   \<Rightarrow> string \<Rightarrow> QueryOperator \<Rightarrow> string \<Rightarrow> chain_world \<Rightarrow> (chain_error + background) \<times> chain_world" where
  "startPhysicalBackup env now policy item source host level operator triggerType w =
     (case envCredential (peConsole (cePurge env)) of
        None \<Rightarrow> (Inl ResolverMissing, w)
      | Some resolve \<Rightarrow>
     (case resolve (iCredentialID source) of
        None \<Rightarrow> (Inl CredentialFailed, w)
      | Some credential \<Rightarrow>
          if TrimSpace (Username credential) = [] \<or> Password credential = [] then (Inl PasswordMissing, w)
          else if level \<notin> set [BackupLevelFull, BackupLevelIncremental] then (Inl LevelNotSupported, w)
          else case parentFor env now policy host level w of
            (Inl e, w) \<Rightarrow> (Inl e, w)
          | (Inr parent, w) \<Rightarrow> queuePhysicalBackup env now policy item source host level operator triggerType parent w))"

text \<open>The lock is held until the background job ends, or given back when none was started.\<close>

definition underPolicyLock ::
  "DatabaseBackupPolicyConfig \<Rightarrow> (chain_world \<Rightarrow> (chain_error + background) \<times> chain_world) \<Rightarrow> chain_world
   \<Rightarrow> (chain_error + background) \<times> chain_world" where
  "underPolicyLock policy start w =
     (case acquireBackupPolicyRun (bpID policy) (bpInstanceID policy) w of
        Inl e \<Rightarrow> (Inl e, w)
      | Inr w \<Rightarrow>
        (case start w of
           (Inl e, w) \<Rightarrow> (Inl e, releaseBackupPolicyRun (bpID policy) (bpInstanceID policy) w)
         | (Inr bg, w) \<Rightarrow> (Inr bg, w\<lparr>cwBackground := cwBackground w @ [bg]\<rparr>)))"

definition runBackupPolicy ::
  "chain_env \<Rightarrow> gotime \<Rightarrow> nat \<Rightarrow> string \<Rightarrow> QueryOperator \<Rightarrow> string \<Rightarrow> chain_world
   \<Rightarrow> (chain_error + background) \<times> chain_world" where
  "runBackupPolicy env now policyID backupLevel operator triggerType w =
     (if \<not> (pePolicyRepo (cePurge env) \<and> peRecordRepo (cePurge env) \<and> ceStateRepo env \<and> ceHostRepo env \<and> ceJobRepo env)
      then (Inl RepositoriesMissing, w)
      else case policyByID (cwPurge w) policyID of
        None \<Rightarrow> (Inl PolicyGone, w)
      | Some policy \<Rightarrow>
          if \<not> bpEnabled policy \<or> bpStatus policy = PolicyDisabled then (Inl PolicyDisabledErr, w)
          else case envInstance (peConsole (cePurge env)) (bpInstanceID policy) of
            None \<Rightarrow> (Inl InstanceGone, w)
          | Some item \<Rightarrow>
              if TrimSpace (iStatus item) \<noteq> DatabaseInstanceStatusEnabled then (Inl InstanceOff, w)
              else case sourceInstanceOf env True policy item of
                Inl e \<Rightarrow> (Inl e, w)
              | Inr source \<Rightarrow>
                (case ceHost env (bpRunnerHostID policy) of
                   None \<Rightarrow> (Inl HostGone, w)
                 | Some host \<Rightarrow>
                   (case validateBarmanRunnerHost host of
                      Some e \<Rightarrow> (Inl e, w)
                    | None \<Rightarrow> underPolicyLock policy (startPhysicalBackup env now policy item source host
                                (normalizeBackupLevel backupLevel) operator triggerType) w)))"

section \<open>Starting a synthetic full backup\<close>

definition marshalIDs :: "nat list \<Rightarrow> string" where
  "marshalIDs ids = ''['' @ JoinWith '','' (map (Itoa \<circ> int) ids) @ '']''"

text \<open>A time that was written as a text and read again.\<close>

definition wholeSeconds :: "gotime \<Rightarrow> gotime" where
  "wholeSeconds t = t div 10 ^ 9 * 10 ^ 9"

text \<open>What comes before the lock: the check of the chain and the choice of the records.\<close>

definition prepareSyntheticFull ::
  "chain_env \<Rightarrow> gotime \<Rightarrow> nat \<Rightarrow> chain_world
   \<Rightarrow> (chain_error + DatabaseBackupPolicyConfig \<times> DatabaseInstance \<times> DatabaseInstance \<times> DatabaseRunnerHost
        \<times> backupPolicyChainValidation \<times> DatabaseSyntheticFullPreviewVO) \<times> chain_world" where
  "prepareSyntheticFull env now policyID w =
     (if \<not> (pePolicyRepo (cePurge env) \<and> peRecordRepo (cePurge env) \<and> ceHostRepo env \<and> ceJobRepo env)
      then (Inl RepositoriesMissing, w)
      else case policyByID (cwPurge w) policyID of
        None \<Rightarrow> (Inl PolicyGone, w)
      | Some policy \<Rightarrow>
          if \<not> bpEnabled policy \<or> bpStatus policy = PolicyDisabled then (Inl PolicyDisabledErr, w)
          else if \<not> bpSyntheticEnabled policy then (Inl SyntheticDisabled, w)
          else case envInstance (peConsole (cePurge env)) (bpInstanceID policy) of
            None \<Rightarrow> (Inl InstanceGone, w)
          | Some item \<Rightarrow>
            (case sourceInstanceOf env False policy item of
               Inl e \<Rightarrow> (Inl e, w)
             | Inr source \<Rightarrow>
               (case ceHost env (bpRunnerHostID policy) of
                  None \<Rightarrow> (Inl HostGone, w)
                | Some host \<Rightarrow>
                  (case validateBarmanRunnerHost host of
                     Some e \<Rightarrow> (Inl e, w)
                   | None \<Rightarrow>
                     (case validateBackupPolicyChainInternal env now policy host w of
                        (Inl e, w) \<Rightarrow> (Inl e, w)
                      | (Inr v, w) \<Rightarrow>
                          let p = buildSyntheticFullPreview env now policy v in
                          if spBlockingReasons p \<noteq> [] then (Inl (ChainRefused (spBlockingReasons p)), w)
                          else (Inr (policy, item, source, host, v, p), w))))))"

definition startSyntheticFull ::
  "chain_env \<Rightarrow> gotime \<Rightarrow> DatabaseBackupPolicyConfig \<Rightarrow> DatabaseInstance \<Rightarrow> DatabaseInstance \<Rightarrow> DatabaseRunnerHost
   \<Rightarrow> backupPolicyChainValidation \<Rightarrow> DatabaseSyntheticFullPreviewVO \<Rightarrow> QueryOperator \<Rightarrow> string \<Rightarrow> string \<Rightarrow> nat
   \<Rightarrow> chain_world \<Rightarrow> (chain_error + background) \<times> chain_world" where
  "startSyntheticFull env now policy item source host v preview operator triggerType triggerReason triggerRecordID w =
     (case startBackupAudit env item policy operator w of
        (Inl m, w) \<Rightarrow> (Inl (AuditRefused m), w)
      | (Inr audit, w) \<Rightarrow>
        let rule = parseSyntheticRule (cePurge env) policy;
            seconds = now div 10 ^ 9;
            sourceIDs = map brID (spSelectedRecords preview);
            reason = (if TrimSpace triggerReason = [] then normalizeBackupTriggerType triggerType else triggerReason);
            message = (if reason = ''auto_after_incremental'' then ''automatic synthetic full queued''
                       else ''MySQL/MariaDB synthetic full queued'');
            fileName = safeBackupName (iName item) @ ''-synthetic-full-'' @ ceStamp env now @ ''.physical.tar.gz'';
            uri = ''runner://runner-host-'' @ Itoa (int (rhID host)) @ ''/pending/synthetic/'' @ Itoa seconds;
            chainID = ''mysql-policy-'' @ Itoa (int (bpID policy)) @ ''-synthetic-'' @ Itoa seconds;
            first = hd (spSelectedRecords preview); final = last (spSelectedRecords preview);
            r = (queuedRecord env policy source now triggerType chainID BackupLevelFull OriginSyntheticFull uri fileName
                   message)
                \<lparr>brParentRecordID := spNewSyntheticFullAfterRecordID preview,
                 brRecoverableFrom := Some (wholeSeconds (case brRecoverableFrom first of Some t \<Rightarrow> t | None \<Rightarrow> now)),
                 brRecoverableUntil := Some (wholeSeconds (case brRecoverableUntil final of Some t \<Rightarrow> t | None \<Rightarrow> now)),
                 brSyntheticSourceRecordIDs := marshalIDs sourceIDs,
                 brRestoreTestStatus := (if srRequireRestoreProof rule \<or> bpRestoreDrillRequired policy
                     \<or> srNeverDeleteWithoutProof rule then BackupPending else [])\<rparr> in
     (case createRecord env r w of
        (Inl m, w) \<Rightarrow> (Inl (RecordNotSaved m), finishBackupAudit env audit BackupFailed 0 (''record not created: '' @ m) w)
      | (Inr r, w) \<Rightarrow>
        let r = r\<lparr>brBaseRecordID := brID r\<rparr> in
     (case updateRecord env r w of
        (Some m, w) \<Rightarrow> (Inl (RecordNotSaved m), finishBackupAudit env audit BackupFailed 0 (''record not updated: '' @ m) w)
      | (None, w) \<Rightarrow>
     (case queueJob env now policy r
             (newJob JobSyntheticFull host source operator policy r sourceIDs (TrimSpace reason, triggerRecordID))
             audit message w of
        (Inl e, w) \<Rightarrow> (Inl e, w)
      | (Inr job, w) \<Rightarrow>
          (Inr \<lparr>bgKind = SyntheticRun (List.map_filter (findBackupRecordByID (cvRecords v)) (spSelectedRecordIDs preview)),
                bgPolicyID = bpID policy, bgInstanceID = bpInstanceID policy, bgRecordID = brID r, bgJobID = rjID job,
                bgLevel = BackupLevelFull, bgAudit = audit, bgRows = None\<rparr>, w)))))"

definition runBackupPolicySyntheticFull ::
  "chain_env \<Rightarrow> gotime \<Rightarrow> nat \<Rightarrow> QueryOperator \<Rightarrow> string \<Rightarrow> string \<Rightarrow> nat \<Rightarrow> chain_world
   \<Rightarrow> (chain_error + background) \<times> chain_world" where
  "runBackupPolicySyntheticFull env now policyID operator triggerType triggerReason triggerRecordID w =
     (case prepareSyntheticFull env now policyID w of
        (Inl e, w) \<Rightarrow> (Inl e, w)
      | (Inr (policy, item, source, host, v, preview), w) \<Rightarrow>
          underPolicyLock policy (startSyntheticFull env now policy item source host v preview operator triggerType
            triggerReason triggerRecordID) w)"

section \<open>The end of a background job\<close>

definition startTimeFromRecord :: "DatabaseBackupRecord \<Rightarrow> gotime \<Rightarrow> int \<Rightarrow> gotime" where
  "startTimeFromRecord r fallback durationMs =
     (case brStartedAt r of Some t \<Rightarrow> t | None \<Rightarrow> fallback - durationMs * 10 ^ 6)"

definition markBackupRecordStatus :: "string \<Rightarrow> string \<Rightarrow> DatabaseBackupRecord \<Rightarrow> DatabaseBackupRecord" where
  "markBackupRecordStatus status message r = r\<lparr>brStatus := status, brErrorMessage := PurgePlain (trimText message 500)\<rparr>"

definition finishBackupRecord ::
  "string \<Rightarrow> gotime \<Rightarrow> gotime \<Rightarrow> string \<Rightarrow> DatabaseBackupRecord \<Rightarrow> DatabaseBackupRecord" where
  "finishBackupRecord status startedAt finishedAt message r =
     r\<lparr>brStatus := status, brStartedAt := Some startedAt, brFinishedAt := Some finishedAt,
       brErrorMessage := PurgePlain (trimText message 500)\<rparr>"

definition finishBackupRecordSuccess ::
  "gotime \<Rightarrow> gotime \<Rightarrow> int \<Rightarrow> string \<Rightarrow> string \<Rightarrow> DatabaseBackupRecord \<Rightarrow> DatabaseBackupRecord" where
  "finishBackupRecordSuccess startedAt finishedAt fileSize checksum message r =
     r\<lparr>brStatus := BackupSuccess, brStartedAt := Some startedAt, brFinishedAt := Some finishedAt,
       brRecoverableFrom := Some startedAt, brRecoverableUntil := Some finishedAt, brFileSize := fileSize,
       brChecksumSHA256 := TrimSpace checksum, brVerifyStatus := BackupSuccess,
       brVerifyMessage := PurgePlain ''file written and its checksum computed'',
       brErrorMessage := PurgePlain (trimText message 500)\<rparr>"

definition updateBackupChainStateAfterSuccess ::
  "chain_env \<Rightarrow> DatabaseBackupPolicyConfig \<Rightarrow> DatabaseBackupRecord \<Rightarrow> gotime \<Rightarrow> chain_world \<Rightarrow> chain_world" where
  "updateBackupChainStateAfterSuccess env policy r finishedAt w =
     (if \<not> ceStateRepo env then w
      else
        let s = (case stateOf env w (bpID policy) of Some s \<Rightarrow> s | None \<Rightarrow> newState policy);
            s = (if normalizeBackupLevel (brBackupLevel r) = BackupLevelFull then
                   (let s = s\<lparr>csChainID := brChainID r, csCurrentBaseRecordID := brID r, csLatestRecordID := brID r,
                            csIncrementalCount := 0,
                            csChainStartedAt := (if brStartedAt r \<noteq> None then brStartedAt r else csChainStartedAt s)\<rparr> in
                    if brBackupOrigin r = OriginSyntheticFull then s\<lparr>csLatestSyntheticRecordID := brID r\<rparr>
                    else s\<lparr>csLatestFullRecordID := brID r\<rparr>)
                 else s\<lparr>csLatestRecordID := brID r, csIncrementalCount := csIncrementalCount s + 1\<rparr>)
        in putState env (s\<lparr>csInstanceID := bpInstanceID policy, csLastSuccessAt := Some finishedAt,
             csRecoverableUntil := brRecoverableUntil r, csStatus := ChainHealthy,
             csLastValidationStatus := ChainComplete, csLastError := PurgePlain []\<rparr>) w)"

definition markBackupChainStateError :: "chain_env \<Rightarrow> nat \<Rightarrow> string \<Rightarrow> chain_world \<Rightarrow> chain_world" where
  "markBackupChainStateError env policyID message w =
     (case stateOf env w policyID of
        None \<Rightarrow> w
      | Some s \<Rightarrow> updateState env (s\<lparr>csStatus := ChainDegraded, csLastValidationStatus := ChainBroken,
                   csLastError := PurgePlain (trimText message 1000)\<rparr>) w)"

definition resultIncomplete :: "mysqlPhysicalBackupRunnerResult \<Rightarrow> bool" where
  "resultIncomplete res \<longleftrightarrow> rrFileSize res \<le> 0 \<or> TrimSpace (rrChecksumSHA256 res) = []
     \<or> TrimSpace (rrStorageURI res) = [] \<or> TrimSpace (rrCheckpointToLSN res) = []"

definition applyResult :: "mysqlPhysicalBackupRunnerResult \<Rightarrow> DatabaseBackupRecord \<Rightarrow> DatabaseBackupRecord" where
  "applyResult res r =
     r\<lparr>brFileName := trimText (rrFileName res) 255, brFilePath := trimText (rrFilePath res) 500,
       brStorageURI := trimText (rrStorageURI res) 1000, brFileSize := rrFileSize res,
       brChecksumSHA256 := trimText (rrChecksumSHA256 res) 64,
       brCheckpointFromLSN := trimText (rrCheckpointFromLSN res) 120,
       brCheckpointToLSN := trimText (rrCheckpointToLSN res) 120,
       brBackupBinlogFile := trimText (rrBackupBinlogFile res) 255,
       brBackupGTIDSet := TrimSpace (rrBackupGTIDSet res), brArtifactState := ArtifactRemote,
       brToolName := trimText (rrToolName res) 60\<rparr>"

definition enrichMySQLPolicyBackupRecordMetadata ::
  "chain_env \<Rightarrow> DatabaseBackupPolicyConfig \<Rightarrow> DatabaseBackupRecord \<Rightarrow> DatabaseBackupRecord" where
  "enrichMySQLPolicyBackupRecordMetadata env policy r =
     (let i = normalizeBackupSourceInstanceID (bpSourceInstanceID policy) (bpInstanceID policy) in
      case (envCredential (peConsole (cePurge env)), envInstance (peConsole (cePurge env)) i) of
        (Some resolve, Some item) \<Rightarrow>
          (case (resolve (iCredentialID item), ceMetadata env (iID item)) of
             (Some _, Some meta) \<Rightarrow>
               r\<lparr>brServerUUID := mmServerUUID meta, brGTIDMode := mmGTIDMode meta,
                 brExecutedGTIDSet := mmExecutedGTIDSet meta,
                 brBackupGTIDSet := firstNonEmpty [brBackupGTIDSet r, mmExecutedGTIDSet meta, mmPurgedGTIDSet meta]\<rparr>
           | _ \<Rightarrow> r)
      | _ \<Rightarrow> r)"

definition endJob :: "string \<Rightarrow> string \<Rightarrow> gotime \<Rightarrow> mysqlPhysicalBackupRunnerResult \<Rightarrow> DatabaseRunnerJob \<Rightarrow> DatabaseRunnerJob" where
  "endJob status message now res job =
     job\<lparr>rjStatus := status, rjErrorMessage := message, rjExitCode := rrExitCode res, rjFinishedAt := Some now\<rparr>"

text \<open>The failed ends of both kinds of jobs; only a physical backup marks the chain.\<close>

definition failedEnd ::
  "chain_env \<Rightarrow> gotime \<Rightarrow> bool \<Rightarrow> DatabaseBackupPolicyConfig \<Rightarrow> DatabaseBackupRecord \<Rightarrow> DatabaseRunnerJob
   \<Rightarrow> DatabaseQueryAudit option \<Rightarrow> mysqlPhysicalBackupRunnerResult \<Rightarrow> string \<Rightarrow> chain_world \<Rightarrow> chain_world" where
  "failedEnd env now marks policy r job audit res message w =
     (let w = snd (updateRecord env (finishBackupRecord BackupFailed (startTimeFromRecord r now (rrDurationMs res)) now
                     message r) w);
          w = finishBackupPolicy env policy now BackupFailed message w;
          w = (if marks then markBackupChainStateError env (bpID policy) message w else w);
          w = finishBackupAudit env audit BackupFailed (rrDurationMs res) message w
      in updateJob env (endJob BackupFailed message now res job) w)"

definition failureText :: "mysqlPhysicalBackupRunnerResult \<Rightarrow> string \<Rightarrow> string" where
  "failureText res text = trimText (firstNonEmpty [rrError res, rrStderr res, text]) 1000"

definition applyMySQLPhysicalBackupPolicyResult ::
  "chain_env \<Rightarrow> gotime \<Rightarrow> DatabaseBackupPolicyConfig \<Rightarrow> DatabaseBackupRecord \<Rightarrow> DatabaseRunnerJob
   \<Rightarrow> DatabaseQueryAudit option \<Rightarrow> mysqlPhysicalBackupRunnerResult \<Rightarrow> chain_world \<Rightarrow> chain_world" where
  "applyMySQLPhysicalBackupPolicyResult env now policy r job audit res w =
     (if rrFailed res \<or> rrExitCode res \<noteq> 0
      then failedEnd env now True policy r job audit res (failureText res ''physical backup failed'') w
      else if resultIncomplete res
      then failedEnd env now True policy r job audit res ''physical backup without complete artifact and checkpoint data'' w
      else
        let r = enrichMySQLPolicyBackupRecordMetadata env policy (applyResult res r);
            r = finishBackupRecordSuccess (startTimeFromRecord r now (rrDurationMs res)) now (rrFileSize res)
                  (rrChecksumSHA256 res) ''physical backup done'' r;
            w = snd (updateRecord env r w);
            policy = (if isIncremental r then policy\<lparr>bpLastIncrementalAt := Some now\<rparr>
                      else policy\<lparr>bpLastFullAt := Some now\<rparr>);
            w = finishBackupPolicy env policy now BackupSuccess ''physical backup done'' w;
            w = updateBackupChainStateAfterSuccess env policy r now w;
            w = finishBackupAudit env audit BackupSuccess (rrDurationMs res) [] w
        in updateJob env (endJob BackupSuccess [] now res job) w)"

text \<open>The record of a successful synthetic full backup.\<close>

definition mergedRecord ::
  "chain_env \<Rightarrow> gotime \<Rightarrow> DatabaseBackupPolicyConfig \<Rightarrow> DatabaseBackupRecord list \<Rightarrow> mysqlPhysicalBackupRunnerResult
   \<Rightarrow> DatabaseBackupRecord \<Rightarrow> DatabaseBackupRecord" where
  "mergedRecord env now policy selected res r =
     (let rule = parseSyntheticRule (cePurge env) policy;
          r = (applyResult res r)\<lparr>brBackupOrigin := OriginSyntheticFull, brBackupLevel := BackupLevelFull,
                brBaseRecordID := brID r\<rparr>;
          r = (if selected = [] then r
               else let parent = last selected; base = hd selected in
                 r\<lparr>brParentRecordID := brID parent, brRecoverableUntil := brRecoverableUntil parent,
                   brServerUUID := brServerUUID parent, brGTIDMode := brGTIDMode parent,
                   brExecutedGTIDSet := brExecutedGTIDSet parent, brRecoverableFrom := brRecoverableFrom base,
                   brCheckpointFromLSN := (if brCheckpointFromLSN r = [] then brCheckpointFromLSN base
                                           else brCheckpointFromLSN r)\<rparr>);
          r = r\<lparr>brSyntheticSourceRecordIDs := marshalIDs (map brID selected),
                brRestoreTestStatus := (if TrimSpace (brRestoreTestStatus r) = []
                    \<and> (srRequireRestoreProof rule \<or> bpRestoreDrillRequired policy \<or> srNeverDeleteWithoutProof rule)
                  then BackupPending else brRestoreTestStatus r)\<rparr>
      in finishBackupRecordSuccess (startTimeFromRecord r now (rrDurationMs res)) now (rrFileSize res)
           (rrChecksumSHA256 res) ''synthetic full done'' r)"

definition applyMySQLSyntheticFullResult ::
  "chain_env \<Rightarrow> gotime \<Rightarrow> DatabaseBackupPolicyConfig \<Rightarrow> DatabaseBackupRecord \<Rightarrow> DatabaseRunnerJob
   \<Rightarrow> DatabaseQueryAudit option \<Rightarrow> DatabaseBackupRecord list \<Rightarrow> mysqlPhysicalBackupRunnerResult
   \<Rightarrow> chain_world \<Rightarrow> chain_world" where
  "applyMySQLSyntheticFullResult env now policy r job audit selected res w =
     (if rrFailed res \<or> rrExitCode res \<noteq> 0
      then failedEnd env now False policy r job audit res (failureText res ''synthetic full failed'') w
      else if resultIncomplete res
      then failedEnd env now False policy r job audit res ''synthetic full without complete artifact and checkpoint data'' w
      else
        let r = mergedRecord env now policy selected res r;
            w = snd (updateRecord env r w);
            policy = policy\<lparr>bpLastSyntheticAt := Some now\<rparr>;
            w = finishBackupPolicy env policy now BackupSuccess ''synthetic full done'' w;
            w = updateBackupChainStateAfterSuccess env policy r now w;
            w = finishBackupAudit env audit BackupSuccess (rrDurationMs res) [] w
        in updateJob env (endJob BackupSuccess [] now res job) w)"

text \<open>The body of a background job. It begins with reading its rows and marking them as running; when the runner has
  ended, its result is applied to the rows that were read.\<close>

definition beginJob ::
  "chain_env \<Rightarrow> gotime \<Rightarrow> background \<Rightarrow> chain_world
   \<Rightarrow> (DatabaseBackupPolicyConfig \<times> DatabaseBackupRecord \<times> DatabaseRunnerJob) option \<times> chain_world" where
  "beginJob env started bg w =
     (case (policyByID (cwPurge w) (bgPolicyID bg), recordByID (cwPurge w) (bgRecordID bg), jobByID w (bgJobID bg)) of
        (Some policy, Some r, Some job) \<Rightarrow>
          if envInstance (peConsole (cePurge env)) (bpInstanceID policy) = None
             \<or> ceHost env (rjRunnerHostID job) = None then (None, w)
          else
            let job = job\<lparr>rjStatus := BackupRunning, rjStartedAt := Some started\<rparr>;
                r = markBackupRecordStatus BackupRunning ''running'' r;
                policy = policy\<lparr>bpLastStatus := BackupRunning, bpLastMessage := PurgePlain ''running''\<rparr>
            in (Some (policy, r, job),
                snd (updatePolicyRow env policy (snd (updateRecord env r (updateJob env job w)))))
      | _ \<Rightarrow> (None, w))"

definition endJobRun ::
  "chain_env \<Rightarrow> gotime \<Rightarrow> background \<Rightarrow> mysqlPhysicalBackupRunnerResult \<Rightarrow> chain_world \<Rightarrow> chain_world" where
  "endJobRun env now bg res w =
     (case bgRows bg of
        None \<Rightarrow> w
      | Some (policy, r, job) \<Rightarrow>
        (case bgKind bg of
           PhysicalRun \<Rightarrow> applyMySQLPhysicalBackupPolicyResult env now policy r job (bgAudit bg) res w
         | SyntheticRun selected \<Rightarrow> applyMySQLSyntheticFullResult env now policy r job (bgAudit bg) selected res w))"

section \<open>The automatic synthetic full backup\<close>

datatype auto_reason =
    AutoDisabled | AutoOff | AutoNoTrigger | AutoChainNotPassed "chain_reason list" | AutoBelow nat int | AutoNoStream
  | AutoPartial | AutoTooFew int nat | AutoNotLatest nat nat | AutoCovered | AutoPreviewBlocked "chain_reason list"
  | AutoCountDiffers nat int | AutoOldWindow nat | AutoReached

record syntheticAutoDecision =
  adShouldRun :: bool
  adDegraded :: bool
  adReason :: auto_reason

definition autoNo :: "auto_reason \<Rightarrow> syntheticAutoDecision" where
  "autoNo r = \<lparr>adShouldRun = False, adDegraded = False, adReason = r\<rparr>"

definition autoBlocked :: "auto_reason \<Rightarrow> syntheticAutoDecision" where
  "autoBlocked r = \<lparr>adShouldRun = False, adDegraded = True, adReason = r\<rparr>"

definition countValidationIncrementals :: "backupPolicyChainValidation \<Rightarrow> nat" where
  "countValidationIncrementals v = length (filter isIncremental (cvRecords v))"

definition buildSyntheticAutoDecision ::
  "DatabaseBackupPolicyConfig \<Rightarrow> syntheticRuleConfig \<Rightarrow> backupPolicyChainValidation \<Rightarrow> DatabaseSyntheticFullPreviewVO
   \<Rightarrow> DatabaseBackupRecord \<Rightarrow> syntheticAutoDecision" where
  "buildSyntheticAutoDecision policy rule v preview trigger =
     (let n = countValidationIncrementals v in
      if \<not> bpEnabled policy \<or> bpStatus policy = PolicyDisabled then autoNo AutoDisabled
      else if \<not> bpSyntheticEnabled policy \<or> \<not> srAutoRun rule then autoNo AutoOff
      else if brID trigger = 0 \<or> brStatus trigger \<noteq> BackupSuccess \<or> \<not> isIncremental trigger then autoNo AutoNoTrigger
      else case (if cvStatus v = ChainComplete then cvLatestRecord v else None) of
        None \<Rightarrow> autoBlocked (AutoChainNotPassed (cvBlockingReasons v))
      | Some latest \<Rightarrow>
          if int n < srTriggerAfterIncrementals rule then autoNo (AutoBelow n (srTriggerAfterIncrementals rule))
          else if bpBinlogStreamID policy = 0 then autoBlocked AutoNoStream
          else if srMergeOldestIncrementals rule \<noteq> srTriggerAfterIncrementals rule then autoBlocked AutoPartial
          else if srMergeOldestIncrementals rule > int n then autoBlocked (AutoTooFew (srMergeOldestIncrementals rule) n)
          else if brID latest \<noteq> brID trigger then autoBlocked (AutoNotLatest (brID trigger) (brID latest))
          else if (case (bpLastSyntheticAt policy, brFinishedAt trigger) of
                     (Some t, Some f) \<Rightarrow> \<not> t < f | _ \<Rightarrow> False) then autoNo AutoCovered
          else if spBlockingReasons preview \<noteq> [] then autoBlocked (AutoPreviewBlocked (spBlockingReasons preview))
          else if int (length (spSelectedIncrementalRecordIDs preview)) \<noteq> srMergeOldestIncrementals rule
          then autoBlocked (AutoCountDiffers (length (spSelectedIncrementalRecordIDs preview)) (srMergeOldestIncrementals rule))
          else if spNewSyntheticFullAfterRecordID preview \<noteq> brID trigger then autoBlocked (AutoOldWindow n)
          else \<lparr>adShouldRun = True, adDegraded = False, adReason = AutoReached\<rparr>)"

definition hasActiveBackupPolicySyntheticJob :: "chain_world \<Rightarrow> DatabaseBackupPolicyConfig \<Rightarrow> bool" where
  "hasActiveBackupPolicySyntheticJob w policy =
     (let source = normalizeBackupSourceInstanceID (bpSourceInstanceID policy) (bpInstanceID policy);
          rows = filter (\<lambda>j. rjJobType j = JobSyntheticFull \<and> (source = 0 \<or> rjSourceInstanceID j = source)) (cwJobs w) in
      list_ex (\<lambda>j. rjRequestPolicyID j = bpID policy \<and> TrimSpace (rjStatus j) \<in> set [BackupQueued, BackupRunning])
        (take 100 (rev (sort_key rjID rows))))"

definition markBackupPolicyAutoSyntheticBlocked ::
  "chain_env \<Rightarrow> gotime \<Rightarrow> DatabaseBackupPolicyConfig \<Rightarrow> chain_world \<Rightarrow> chain_world" where
  "markBackupPolicyAutoSyntheticBlocked env now policy w =
     (if bpID policy = 0 then w
      else snd (updatePolicyRow env (policy\<lparr>bpLastRunAt := Some now, bpLastStatus := BackupFailed,
             bpLastMessage := PurgePlain ''automatic synthetic full blocked'',
             bpLastError := PurgePlain ''automatic synthetic full blocked'', bpStatus := PolicyDegraded\<rparr>) w))"

definition maybeRunBackupPolicySyntheticAfterSuccess ::
  "chain_env \<Rightarrow> gotime \<Rightarrow> nat \<Rightarrow> nat \<Rightarrow> string \<Rightarrow> chain_world \<Rightarrow> chain_world" where
  "maybeRunBackupPolicySyntheticAfterSuccess env now policyID triggerRecordID triggerReason w =
     (if \<not> (pePolicyRepo (cePurge env) \<and> peRecordRepo (cePurge env) \<and> ceHostRepo env \<and> ceJobRepo env) then w
      else case recordByID (cwPurge w) triggerRecordID of
        None \<Rightarrow> w
      | Some trigger \<Rightarrow>
          if brStatus trigger \<noteq> BackupSuccess \<or> \<not> isIncremental trigger then w
          else case policyByID (cwPurge w) policyID of
            None \<Rightarrow> w
          | Some policy \<Rightarrow>
              let rule = parseSyntheticRule (cePurge env) policy in
              if \<not> srAutoRun rule \<or> \<not> bpSyntheticEnabled policy \<or> \<not> bpEnabled policy \<or> bpStatus policy = PolicyDisabled then w
              else case ceHost env (bpRunnerHostID policy) of
                None \<Rightarrow> markBackupPolicyAutoSyntheticBlocked env now policy w
              | Some host \<Rightarrow>
                (case validateBackupPolicyChainInternal env now policy host w of
                   (Inl e, w) \<Rightarrow> markBackupPolicyAutoSyntheticBlocked env now policy w
                 | (Inr v, w) \<Rightarrow>
                     let d = buildSyntheticAutoDecision policy rule v (buildSyntheticFullPreview env now policy v) trigger in
                     if \<not> adShouldRun d then
                       (if adDegraded d then markBackupPolicyAutoSyntheticBlocked env now policy w else w)
                     else if hasActiveBackupPolicySyntheticJob w policy then w
                     else case runBackupPolicySyntheticFull env now (bpID policy)
                            \<lparr>oID = 0, oUsername = ''system-auto-synthetic'', oClientIP = ''system''\<rparr> ''schedule''
                            (if TrimSpace triggerReason = [] then ''auto_after_incremental'' else triggerReason)
                            (brID trigger) w of
                       (Inl e, w) \<Rightarrow> if isBackupTaskRunningError e then w
                                   else markBackupPolicyAutoSyntheticBlocked env now policy w
                     | (Inr _, w) \<Rightarrow> w))"

section \<open>Steps\<close>

text \<open>The end of the goroutine of a run: the lock, and after an incremental backup the automatic merge.\<close>

definition leaveBackground :: "chain_env \<Rightarrow> gotime \<Rightarrow> background \<Rightarrow> chain_world \<Rightarrow> chain_world" where
  "leaveBackground env now bg w =
     (let w = releaseBackupPolicyRun (bgPolicyID bg) (bgInstanceID bg) w in
      if bgKind bg = PhysicalRun \<and> bgLevel bg = BackupLevelIncremental
      then maybeRunBackupPolicySyntheticAfterSuccess env now (bgPolicyID bg) (bgRecordID bg) ''auto_after_incremental'' w
      else w)"

definition dropAt :: "nat \<Rightarrow> 'a list \<Rightarrow> 'a list" where
  "dropAt n xs = take n xs @ drop (Suc n) xs"

datatype chain_op =
    OpBackup gotime nat string QueryOperator string | OpSynthetic gotime nat QueryOperator | OpBegin gotime nat
  | OpFinish gotime nat mysqlPhysicalBackupRunnerResult | OpTaskStart nat nat | OpTaskEnd nat
  | OpValidate gotime nat | OpPreview gotime nat

fun chain_step :: "chain_env \<Rightarrow> chain_op \<Rightarrow> chain_world \<Rightarrow> chain_world" where
  "chain_step env (OpBackup now policyID level operator triggerType) w =
     snd (runBackupPolicy env now policyID level operator triggerType w)"
| "chain_step env (OpSynthetic now policyID operator) w =
     snd (runBackupPolicySyntheticFull env now policyID operator ''manual'' ''manual'' 0 w)"
| "chain_step env (OpBegin started n) w =
     (if n < length (cwBackground w) \<and> bgRows (cwBackground w ! n) = None then
        (case beginJob env started (cwBackground w ! n) w of
           (None, w) \<Rightarrow> leaveBackground env started (cwBackground w ! n) (w\<lparr>cwBackground := dropAt n (cwBackground w)\<rparr>)
         | (rows, w) \<Rightarrow> w\<lparr>cwBackground := (cwBackground w)[n := (cwBackground w ! n)\<lparr>bgRows := rows\<rparr>]\<rparr>)
      else w)"
| "chain_step env (OpFinish now n res) w =
     (if n < length (cwBackground w) \<and> bgRows (cwBackground w ! n) \<noteq> None then
        leaveBackground env now (cwBackground w ! n)
          (endJobRun env now (cwBackground w ! n) res (w\<lparr>cwBackground := dropAt n (cwBackground w)\<rparr>))
      else w)"
| "chain_step env (OpTaskStart taskID instanceID) w =
     (case acquireBackupTaskRun taskID instanceID w of
        Inl _ \<Rightarrow> w | Inr w \<Rightarrow> w\<lparr>cwTaskRuns := (taskID, instanceID) # cwTaskRuns w\<rparr>)"
| "chain_step env (OpTaskEnd n) w =
     (if n < length (cwTaskRuns w)
      then releaseBackupTaskRun (fst (cwTaskRuns w ! n)) (snd (cwTaskRuns w ! n))
             (w\<lparr>cwTaskRuns := dropAt n (cwTaskRuns w)\<rparr>)
      else w)"
| "chain_step env (OpValidate now policyID) w = snd (ValidateBackupPolicyChain env now policyID w)"
| "chain_step env (OpPreview now policyID) w = snd (PreviewBackupPolicySyntheticFull env now policyID w)"

fun chain_run :: "chain_env \<Rightarrow> chain_op list \<Rightarrow> chain_world \<Rightarrow> chain_world" where
  "chain_run env [] w = w"
| "chain_run env (op # ops) w = chain_run env ops (chain_step env op w)"

end
