(* ===== verification/Chain_Walk.thy ===== *)
theory Chain_Walk
  imports Backup_Chain
begin

text \<open>
  The check of a chain: what its walk along the records collects, when the check passes, and that no record is visited
  twice.
\<close>

section \<open>Reasons\<close>

text \<open>The status tells whether anything was found.\<close>

definition status_fits :: "backupPolicyChainValidation \<Rightarrow> bool" where
  "status_fits v \<longleftrightarrow> (cvStatus v = ChainComplete \<longleftrightarrow> cvBlockingReasons v = [])"

lemma fail_fields [simp]: "cvBlockingReasons (failChain s r v) = cvBlockingReasons v @ [r]"
  "cvRecords (failChain s r v) = cvRecords v" "cvBaseRecord (failChain s r v) = cvBaseRecord v"
  "cvLatestRecord (failChain s r v) = cvLatestRecord v" "cvState (failChain s r v) = cvState v"
  by (simp_all add: failChain_def)

lemma fail_fits: "s \<noteq> ChainComplete \<Longrightarrow> status_fits v \<Longrightarrow> status_fits (failChain s r v)"
  by (auto simp: failChain_def status_fits_def)

lemma warn_fields [simp]: "cvBlockingReasons (warnChain r v) = cvBlockingReasons v" "cvRecords (warnChain r v) = cvRecords v"
  "cvBaseRecord (warnChain r v) = cvBaseRecord v" "cvLatestRecord (warnChain r v) = cvLatestRecord v"
  "cvState (warnChain r v) = cvState v" "status_fits (warnChain r v) = status_fits v" "cvStatus (warnChain r v) = cvStatus v"
  by (simp_all add: warnChain_def status_fits_def)

lemma message_fields [simp]: "cvBlockingReasons (messageChain r v) = cvBlockingReasons v"
  "cvRecords (messageChain r v) = cvRecords v" "cvBaseRecord (messageChain r v) = cvBaseRecord v"
  "cvLatestRecord (messageChain r v) = cvLatestRecord v" "cvState (messageChain r v) = cvState v"
  "status_fits (messageChain r v) = status_fits v" "cvStatus (messageChain r v) = cvStatus v"
  by (simp_all add: messageChain_def status_fits_def)

lemma fold_fail [simp]:
  "cvBlockingReasons (fold (failChain s) rs v) = cvBlockingReasons v @ rs"
  "cvRecords (fold (failChain s) rs v) = cvRecords v" "cvBaseRecord (fold (failChain s) rs v) = cvBaseRecord v"
  "cvState (fold (failChain s) rs v) = cvState v"
  by (induction rs arbitrary: v) simp_all

lemma fold_fits: "s \<noteq> ChainComplete \<Longrightarrow> status_fits v \<Longrightarrow> status_fits (fold (failChain s) rs v)"
  by (induction rs arbitrary: v) (simp_all add: fail_fits)

lemma fits_fields [simp]: "status_fits (v\<lparr>cvRecords := rs\<rparr>) = status_fits v" "status_fits (v\<lparr>cvBaseRecord := b\<rparr>) = status_fits v"
  "status_fits (v\<lparr>cvLatestRecord := l\<rparr>) = status_fits v"
  by (simp_all add: status_fits_def)

section \<open>Links\<close>

text \<open>The record \<open>b\<close> is the incremental backup that continues \<open>a\<close>.\<close>

definition continues ::
  "chain_env \<Rightarrow> DatabaseBackupPolicyConfig \<Rightarrow> DatabaseRunnerHost \<Rightarrow> DatabaseBackupRecord \<Rightarrow> DatabaseBackupRecord
   \<Rightarrow> DatabaseBackupRecord \<Rightarrow> bool" where
  "continues env policy host base a b \<longleftrightarrow>
     brParentRecordID b = brID a \<and> brID b \<noteq> brID base \<and> brBaseRecordID b = brID base
   \<and> (TrimSpace (brChainID base) = [] \<or> TrimSpace (brChainID b) = TrimSpace (brChainID base))
   \<and> isIncremental b \<and> validatePolicyChainRecord env policy host b = None
   \<and> TrimSpace (brCheckpointFromLSN b) \<noteq> []
   \<and> (TrimSpace (brCheckpointToLSN a) = [] \<or> TrimSpace (brCheckpointFromLSN b) = TrimSpace (brCheckpointToLSN a))
   \<and> (TrimSpace (brServerUUID a) = [] \<or> TrimSpace (brServerUUID b) = []
      \<or> TrimSpace (brServerUUID b) = TrimSpace (brServerUUID a))"

lemma no_reasons:
  assumes "linkReasons env policy host base a b = []" "b \<in> set (chainChildren base records (brID a))"
  shows "continues env policy host base a b"
  using assms by (auto simp: linkReasons_def continues_def isIncremental_def chainChildren_def chainSort_def Let_def
      split: if_splits option.splits)

section \<open>The walk\<close>

lemma walk_nil: "chainChildren base records (brID current) = [] \<Longrightarrow>
    chainWalk env policy host base records visited current v = (current, v)"
  by (subst chainWalk.simps) simp

lemma walk_step:
  assumes "chainChildren base records (brID current) = b # others"
  shows "chainWalk env policy host base records visited current v =
    (let v = (if others \<noteq> [] then warnChain (ManyChildren (brID current)) v else v) in
     if brID b \<in> set visited then (current, failChain ChainBroken (CycleAt (brID b)) v)
     else let v = fold (failChain ChainBroken) (linkReasons env policy host base current b) v in
       chainWalk env policy host base records (brID b # visited) b (v\<lparr>cvRecords := cvRecords v @ [b]\<rparr>))"
  using assms by (subst chainWalk.simps) simp

text \<open>What a walk adds, and what it has seen when it found nothing to complain about.\<close>

definition walked ::
  "chain_env \<Rightarrow> DatabaseBackupPolicyConfig \<Rightarrow> DatabaseRunnerHost \<Rightarrow> DatabaseBackupRecord \<Rightarrow> DatabaseBackupRecord list
   \<Rightarrow> DatabaseBackupRecord \<Rightarrow> backupPolicyChainValidation \<Rightarrow> DatabaseBackupRecord \<times> backupPolicyChainValidation
   \<Rightarrow> DatabaseBackupRecord list \<Rightarrow> chain_reason list \<Rightarrow> bool" where
  "walked env policy host base records current v res path rs \<longleftrightarrow>
     cvRecords (snd res) = cvRecords v @ path \<and> fst res = last (current # path) \<and> set path \<subseteq> set records
   \<and> cvBlockingReasons (snd res) = cvBlockingReasons v @ rs \<and> cvBaseRecord (snd res) = cvBaseRecord v
   \<and> (status_fits v \<longrightarrow> status_fits (snd res))
   \<and> (rs = [] \<longrightarrow> successively (continues env policy host base) (current # path)
                 \<and> chainChildren base records (brID (fst res)) = [])"

lemma walk_collects:
  "\<exists>path rs. walked env policy host base records current v
     (chainWalk env policy host base records visited current v) path rs"
proof (induction env policy host base records visited current v rule: chainWalk.induct)
  case (1 env policy host base records visited current v)
  show ?case
  proof (cases "chainChildren base records (brID current)")
    case Nil
    then show ?thesis by (intro exI [of _ "[]"]) (simp add: walk_nil walked_def)
  next
    case (Cons b others)
    define v1 where "v1 = (if others \<noteq> [] then warnChain (ManyChildren (brID current)) v else v)"
    have v1: "cvRecords v1 = cvRecords v" "cvBlockingReasons v1 = cvBlockingReasons v" "cvBaseRecord v1 = cvBaseRecord v"
      "status_fits v1 = status_fits v" by (simp_all add: v1_def)
    show ?thesis
    proof (cases "brID b \<in> set visited")
      case True
      then have "chainWalk env policy host base records visited current v =
          (current, failChain ChainBroken (CycleAt (brID b)) v1)" using walk_step [OF Cons] by (simp add: v1_def Let_def)
      then show ?thesis
        by (intro exI [of _ "[]"] exI [of _ "[CycleAt (brID b)]"]) (simp add: walked_def v1 fail_fits)
    next
      case False
      define links where "links = linkReasons env policy host base current b"
      define v2 where "v2 = fold (failChain ChainBroken) links v1"
      define v3 where "v3 = v2\<lparr>cvRecords := cvRecords v2 @ [b]\<rparr>"
      have w: "chainWalk env policy host base records visited current v =
          chainWalk env policy host base records (brID b # visited) b v3"
        using walk_step [OF Cons] False by (simp add: v1_def v2_def v3_def links_def Let_def)
      have b: "b \<in> set (chainChildren base records (brID current))" using Cons by simp
      from 1 [OF Cons refl False refl] obtain path rs where
        p: "walked env policy host base records b v3 (chainWalk env policy host base records (brID b # visited) b v3) path rs"
        unfolding v1_def [symmetric] links_def [symmetric] v2_def [symmetric] v3_def [symmetric] by blast
      have "walked env policy host base records current v (chainWalk env policy host base records visited current v)
          (b # path) (links @ rs)"
        unfolding w using p v1 b child_in [OF b] no_reasons [of env policy host base current b records]
        by (auto simp: walked_def v2_def v3_def links_def fold_fits successively_Cons)
      then show ?thesis by blast
    qed
  qed
qed

section \<open>No record twice\<close>

text \<open>The records collected so far: each is the child of the one before it.\<close>

definition way :: "DatabaseBackupRecord \<Rightarrow> DatabaseBackupRecord list \<Rightarrow> DatabaseBackupRecord list \<Rightarrow> bool" where
  "way base records rs \<longleftrightarrow> rs \<noteq> [] \<and> hd rs = base \<and> distinct (map brID rs) \<and> set (tl rs) \<subseteq> set records
     \<and> successively (\<lambda>a b. brParentRecordID b = brID a) rs"

lemma way_new:
  assumes "way base records rs" "b \<in> set (chainChildren base records (brID (last rs)))" "distinct (map brID records)"
  shows "brID b \<notin> brID ` set rs"
proof
  assume "brID b \<in> brID ` set rs"
  then obtain i where i: "i < length rs" "brID (rs ! i) = brID b" by (auto simp: in_set_conv_nth)
  have b: "b \<in> set records" "brParentRecordID b = brID (last rs)" "brID b \<noteq> brID base" using child_in [OF assms(2)] by auto
  have "i \<noteq> 0" using i b(3) assms(1) by (cases i) (auto simp: way_def hd_conv_nth)
  then obtain j where j: "i = Suc j" by (cases i) auto
  then have "rs ! i \<in> set records" using assms(1) i(1) nth_tl [of j rs] nth_mem [of j "tl rs"] by (auto simp: way_def)
  then have "rs ! i = b" using i(2) b(1) assms(3) by (auto simp: distinct_map inj_on_def)
  moreover have "brParentRecordID (rs ! Suc j) = brID (rs ! j)"
    using assms(1) i(1) j by (simp add: way_def successively_conv_nth)
  ultimately have "brID (rs ! j) = brID (rs ! (length rs - 1))" using b(2) j assms(1) by (simp add: way_def last_conv_nth)
  then have "j = length rs - 1" using assms(1) i(1) j
    by (auto simp: way_def distinct_conv_nth dest: spec [of _ j])
  then show False using i(1) j by simp
qed

lemma way_longer:
  assumes "way base records rs" "b \<in> set (chainChildren base records (brID (last rs)))" "distinct (map brID records)"
  shows "way base records (rs @ [b])"
  using assms child_in [OF assms(2)] way_new [OF assms]
  by (auto simp: way_def successively_append_iff)

lemma walk_way:
  assumes "distinct (map brID records)" "way base records (cvRecords v)" "current = last (cvRecords v)"
    and "set visited = brID ` set (cvRecords v)" "\<forall>i. CycleAt i \<notin> set (cvBlockingReasons v)"
  shows "way base records (cvRecords (snd (chainWalk env policy host base records visited current v)))
    \<and> (\<forall>i. CycleAt i \<notin> set (cvBlockingReasons (snd (chainWalk env policy host base records visited current v))))"
  using assms
proof (induction env policy host base records visited current v rule: chainWalk.induct)
  case (1 env policy host base records visited current v)
  show ?case
  proof (cases "chainChildren base records (brID current)")
    case Nil
    then show ?thesis using 1 by (simp add: walk_nil)
  next
    case (Cons b others)
    define v1 where "v1 = (if others \<noteq> [] then warnChain (ManyChildren (brID current)) v else v)"
    define v2 where "v2 = fold (failChain ChainBroken) (linkReasons env policy host base current b) v1"
    define v3 where "v3 = v2\<lparr>cvRecords := cvRecords v2 @ [b]\<rparr>"
    have b: "b \<in> set (chainChildren base records (brID (last (cvRecords v))))" using Cons 1(4) by simp
    have new: "brID b \<notin> set visited" using way_new [OF 1(3) b 1(2)] 1(5) by simp
    have w: "chainWalk env policy host base records visited current v =
        chainWalk env policy host base records (brID b # visited) b v3"
      using walk_step [OF Cons] new by (simp add: v1_def v2_def v3_def Let_def)
    have r: "cvRecords v3 = cvRecords v @ [b]" by (simp add: v3_def v2_def v1_def)
    have "\<forall>i. CycleAt i \<notin> set (cvBlockingReasons v3)"
      using 1(6) by (auto simp: v3_def v2_def v1_def linkReasons_def Let_def split: option.splits)
    with 1(1) [OF Cons refl new refl] 1(2) way_longer [OF 1(3) b 1(2)] 1(5) show ?thesis
      unfolding w v1_def [symmetric] v2_def [symmetric] v3_def [symmetric] r by simp
  qed
qed

section \<open>The check\<close>

lemma sorted_same: "set (chainSort rs) = set rs" "distinct (map brID rs) \<Longrightarrow> distinct (map brID (chainSort rs))"
  "length (chainSort rs) = length rs"
  by (simp_all add: chainSort_def distinct_map)

lemma found_in: "find P xs = Some x \<Longrightarrow> x \<in> set xs \<and> P x"
  by (auto simp: find_Some_iff)

lemma chosen_base:
  assumes "chooseBase state records v = (Some base, v')"
  shows "base \<in> set records" "cvRecords v' = cvRecords v" "cvBaseRecord v' = cvBaseRecord v"
    "status_fits v \<Longrightarrow> status_fits v'" "\<forall>i. CycleAt i \<notin> set (cvBlockingReasons v) \<Longrightarrow> \<forall>i. CycleAt i \<notin> set (cvBlockingReasons v')"
    "cvBlockingReasons v' = [] \<Longrightarrow> (case state of Some s \<Rightarrow> csCurrentBaseRecordID s = 0 \<or> csCurrentBaseRecordID s = brID base
       | None \<Rightarrow> True)"
    "stateBase state records = None \<Longrightarrow> normalizeBackupLevel (brBackupLevel base) = BackupLevelFull"
  using assms by (auto simp: chooseBase_def stateBase_def byID_def Let_def fail_fits dest!: found_in
      split: option.splits if_splits)

text \<open>The check in parts: the base, the walk, and what is said at the end.\<close>

definition checkStart ::
  "chain_env \<Rightarrow> DatabaseBackupPolicyConfig \<Rightarrow> DatabaseRunnerHost \<Rightarrow> DatabaseBackupRecord \<Rightarrow> backupPolicyChainValidation
   \<Rightarrow> backupPolicyChainValidation" where
  "checkStart env policy host base v =
     (let v = v\<lparr>cvBaseRecord := Some base\<rparr>;
          v = (case validatePolicyChainRecord env policy host base of
                 Some e \<Rightarrow> failChain ChainBroken (BaseUnusable (brID base) e) v | None \<Rightarrow> v)
      in v\<lparr>cvRecords := cvRecords v @ [base]\<rparr>)"

definition checkEnd ::
  "DatabaseBackupPolicyConfig \<Rightarrow> DatabaseBackupChainState option \<Rightarrow> DatabaseBackupRecord list \<Rightarrow> DatabaseBackupRecord
   \<Rightarrow> DatabaseBackupRecord \<times> backupPolicyChainValidation \<Rightarrow> backupPolicyChainValidation" where
  "checkEnd policy state records base res =
     (let (current, v) = res;
          v = v\<lparr>cvLatestRecord := Some current\<rparr>;
          v = (case state of None \<Rightarrow> v
               | Some s \<Rightarrow>
                   if csLatestRecordID s > 0 \<and> csLatestRecordID s \<noteq> brID current then
                     failChain ChainMissingIncremental
                       (case byID records (csLatestRecordID s) of
                          None \<Rightarrow> LatestGone (csLatestRecordID s)
                        | Some _ \<Rightarrow> LatestNotReached (csLatestRecordID s) (brID base)) v
                   else v);
          v = (if bpBinlogStreamID policy = 0 then warnChain NoBinlogStream v else v) in
      if cvBlockingReasons v = []
      then messageChain (ChainVerifiedFrom (brID base) (brID current) (length (cvRecords v) - 1))
             (v\<lparr>cvStatus := ChainComplete\<rparr>)
      else v)"

definition emptyCheck :: "gotime \<Rightarrow> DatabaseBackupChainState option \<Rightarrow> backupPolicyChainValidation" where
  "emptyCheck now state = \<lparr>cvStatus = ChainComplete, cvBaseRecord = None, cvLatestRecord = None, cvRecords = [],
     cvBlockingReasons = [], cvWarnings = [], cvMessages = [], cvCheckedAt = now, cvState = state\<rparr>"

lemma check_parts:
  "validateBackupPolicyChainRecords env now policy host state records =
     (case chooseBase state (chainSort records) (emptyCheck now state) of
        (None, v) \<Rightarrow> failChain ChainMissingBase NoFullBackup v
      | (Some base, v) \<Rightarrow> checkEnd policy state (chainSort records) base
          (chainWalk env policy host base (chainSort records) [brID base] base (checkStart env policy host base v)))"
  by (simp add: validateBackupPolicyChainRecords_def checkStart_def checkEnd_def emptyCheck_def Let_def
      split: prod.split option.split)

lemma check_start:
  "cvRecords (checkStart env policy host base v) = cvRecords v @ [base]"
  "cvBaseRecord (checkStart env policy host base v) = Some base"
  "status_fits v \<Longrightarrow> status_fits (checkStart env policy host base v)"
  "\<forall>i. CycleAt i \<notin> set (cvBlockingReasons v) \<Longrightarrow> \<forall>i. CycleAt i \<notin> set (cvBlockingReasons (checkStart env policy host base v))"
  "cvBlockingReasons (checkStart env policy host base v) = [] \<Longrightarrow>
     cvBlockingReasons v = [] \<and> validatePolicyChainRecord env policy host base = None"
  by (auto simp: checkStart_def Let_def fail_fits split: option.splits)

lemma check_end:
  assumes "checkEnd policy state records base (current, v) = v'"
  shows "cvRecords v' = cvRecords v" "cvBaseRecord v' = cvBaseRecord v" "cvLatestRecord v' = Some current"
    "status_fits v \<Longrightarrow> status_fits v'"
    "\<forall>i. CycleAt i \<notin> set (cvBlockingReasons v) \<Longrightarrow> \<forall>i. CycleAt i \<notin> set (cvBlockingReasons v')"
    "cvBlockingReasons v' = [] \<Longrightarrow> cvBlockingReasons v = []
       \<and> (case state of Some s \<Rightarrow> csLatestRecordID s = 0 \<or> csLatestRecordID s = brID current | None \<Rightarrow> True)"
proof -
  show "cvRecords v' = cvRecords v" "cvBaseRecord v' = cvBaseRecord v" "cvLatestRecord v' = Some current"
    using assms by (auto simp: checkEnd_def Let_def split: option.splits if_splits)
  show "status_fits v'" if "status_fits v"
    using assms that by (auto simp: checkEnd_def Let_def status_fits_def failChain_def split: option.splits if_splits)
  show "\<forall>i. CycleAt i \<notin> set (cvBlockingReasons v')" if "\<forall>i. CycleAt i \<notin> set (cvBlockingReasons v)"
    using assms that by (auto simp: checkEnd_def Let_def split: option.splits if_splits)
  show "cvBlockingReasons v = [] \<and> (case state of Some s \<Rightarrow> csLatestRecordID s = 0 \<or> csLatestRecordID s = brID current
      | None \<Rightarrow> True)" if "cvBlockingReasons v' = []"
    using assms that by (auto simp: checkEnd_def Let_def split: option.splits if_splits)
qed

text \<open>What holds when the check passes.\<close>

lemma check_passed:
  assumes "cvStatus (validateBackupPolicyChainRecords env now policy host state records) = ChainComplete"
  obtains base path where
    "cvBaseRecord (validateBackupPolicyChainRecords env now policy host state records) = Some base"
    "cvRecords (validateBackupPolicyChainRecords env now policy host state records) = base # path"
    "cvLatestRecord (validateBackupPolicyChainRecords env now policy host state records) = Some (last (base # path))"
    "successively (continues env policy host base) (base # path)"
    "validatePolicyChainRecord env policy host base = None" "base \<in> set records" "set path \<subseteq> set records"
    "chainChildren base (chainSort records) (brID (last (base # path))) = []"
    "case state of Some s \<Rightarrow> (csCurrentBaseRecordID s = 0 \<or> csCurrentBaseRecordID s = brID base)
       \<and> (csLatestRecordID s = 0 \<or> csLatestRecordID s = brID (last (base # path))) | None \<Rightarrow> True"
    "stateBase state (chainSort records) = None \<longrightarrow> normalizeBackupLevel (brBackupLevel base) = BackupLevelFull"
proof (cases "chooseBase state (chainSort records) (emptyCheck now state)")
  case (Pair b v)
  have e: "status_fits (emptyCheck now state)" by (simp add: emptyCheck_def status_fits_def)
  show ?thesis
  proof (cases b)
    case None
    then show ?thesis using assms Pair e unfolding check_parts
      by (auto simp: chooseBase_def stateBase_def failChain_def emptyCheck_def Let_def split: option.splits if_splits)
  next
    case (Some base)
    note base = chosen_base [OF Pair [unfolded Some]]
    let ?v = "checkStart env policy host base v"
    let ?w = "chainWalk env policy host base (chainSort records) [brID base] base ?v"
    obtain path rs where p: "walked env policy host base (chainSort records) base ?v ?w path rs"
      using walk_collects by blast
    obtain current u where u: "?w = (current, u)" by (metis surj_pair)
    let ?r = "checkEnd policy state (chainSort records) base (current, u)"
    have r: "validateBackupPolicyChainRecords env now policy host state records = ?r"
      using Pair Some u by (simp add: check_parts)
    note fin = check_end [OF refl [of ?r]]
    have "status_fits ?r" using base(4) e check_start(3) p fin(4) u by (auto simp: walked_def)
    then have "cvBlockingReasons ?r = []" using assms r by (simp add: status_fits_def)
    then have u0: "cvBlockingReasons u = []" and latest: "case state of Some s \<Rightarrow> csLatestRecordID s = 0
        \<or> csLatestRecordID s = brID current | None \<Rightarrow> True" using fin(6) by auto
    then have rs: "rs = []" "cvBlockingReasons ?v = []" using p u by (auto simp: walked_def)
    then have v0: "cvBlockingReasons v = []" "validatePolicyChainRecord env policy host base = None"
      using check_start(5) by blast+
    have empty: "cvRecords v = []" "cvRecords (emptyCheck now state) = []" using base(2) by (simp_all add: emptyCheck_def)
    have "cvBlockingReasons (emptyCheck now state) = []" by (simp add: emptyCheck_def)
    show ?thesis
    proof (rule that)
      show "cvBaseRecord (validateBackupPolicyChainRecords env now policy host state records) = Some base"
        using p u fin(2) check_start(2) by (simp add: r walked_def)
      show "cvRecords (validateBackupPolicyChainRecords env now policy host state records) = base # path"
        using p u fin(1) check_start(1) [of env policy host base v] empty by (simp add: r walked_def)
      show "cvLatestRecord (validateBackupPolicyChainRecords env now policy host state records) = Some (last (base # path))"
        using p u fin(3) by (simp add: r walked_def)
      show "successively (continues env policy host base) (base # path)"
        "chainChildren base (chainSort records) (brID (last (base # path))) = []"
        using p u rs by (auto simp: walked_def split: if_splits)
      show "set path \<subseteq> set records" "base \<in> set records" using p base(1) by (simp_all add: walked_def sorted_same)
      show "validatePolicyChainRecord env policy host base = None" by (rule v0)
      show "case state of Some s \<Rightarrow> (csCurrentBaseRecordID s = 0 \<or> csCurrentBaseRecordID s = brID base)
          \<and> (csLatestRecordID s = 0 \<or> csLatestRecordID s = brID (last (base # path))) | None \<Rightarrow> True"
        using base(6) [OF v0(1)] latest p u by (auto simp: walked_def split: option.splits)
      show "stateBase state (chainSort records) = None \<longrightarrow> normalizeBackupLevel (brBackupLevel base) = BackupLevelFull"
        using base(7) by blast
    qed
  qed
qed

lemma check_walk_once:
  assumes "distinct (map brID records)"
  shows "distinct (map brID (cvRecords (validateBackupPolicyChainRecords env now policy host state records)))"
    and "set (cvRecords (validateBackupPolicyChainRecords env now policy host state records)) \<subseteq> set records"
    and "CycleAt i \<notin> set (cvBlockingReasons (validateBackupPolicyChainRecords env now policy host state records))"
proof -
  let ?c = "validateBackupPolicyChainRecords env now policy host state records"
  have "distinct (map brID (cvRecords ?c)) \<and> set (cvRecords ?c) \<subseteq> set records \<and> CycleAt i \<notin> set (cvBlockingReasons ?c)"
  proof (cases "chooseBase state (chainSort records) (emptyCheck now state)")
    case (Pair b v)
    show ?thesis
    proof (cases b)
      case None
      then show ?thesis using Pair unfolding check_parts
        by (auto simp: chooseBase_def emptyCheck_def Let_def split: option.splits if_splits)
    next
      case (Some base)
      note base = chosen_base [OF Pair [unfolded Some]]
      let ?v = "checkStart env policy host base v"
      have v: "cvRecords ?v = [base]" using base(2) check_start(1) by (simp add: emptyCheck_def)
      have "\<forall>i. CycleAt i \<notin> set (cvBlockingReasons ?v)" using base(5) check_start(4) by (simp add: emptyCheck_def)
      then have w: "way base (chainSort records) (cvRecords (snd (chainWalk env policy host base (chainSort records) [brID base] base ?v)))
          \<and> (\<forall>i. CycleAt i \<notin> set (cvBlockingReasons (snd (chainWalk env policy host base (chainSort records) [brID base] base ?v))))"
        using walk_way [OF sorted_same(2) [OF assms], of base ?v base "[brID base]"] v by (simp add: way_def)
      obtain current u where u: "chainWalk env policy host base (chainSort records) [brID base] base ?v = (current, u)"
        by (metis surj_pair)
      have r: "?c = checkEnd policy state (chainSort records) base (current, u)" using Pair Some u by (simp add: check_parts)
      have "set (cvRecords u) \<subseteq> set records"
        using w u base(1) by (cases "cvRecords u") (auto simp: way_def sorted_same)
      then show ?thesis using w u check_end(1,5) [OF r [symmetric]] by (auto simp: way_def)
    qed
  qed
  then show "distinct (map brID (cvRecords ?c))" "set (cvRecords ?c) \<subseteq> set records"
    "CycleAt i \<notin> set (cvBlockingReasons ?c)" by auto
qed

end
