(* ===== verification/Chain_Props.thy ===== *)
theory Chain_Props
  imports Chain_Walk Purge_Props Tables
begin

text \<open>
  Properties of the chains of backups: that one backup of an instance runs at a time, what a chain that passed its
  check is, what an incremental backup continues, what a synthetic full backup merges, and that the walk along a chain
  ends.
\<close>

section \<open>Locks\<close>

text \<open>The fields of the locks and of what runs; every operation but those of the locks leaves them alone.\<close>

definition locks :: "chain_world \<Rightarrow> nat list \<times> nat list \<times> nat list \<times> background list \<times> (nat \<times> nat) list" where
  "locks w = (cwRunningPolicies w, cwRunningTasks w, cwRunningInstances w, cwBackground w, cwTaskRuns w)"

lemma locks_update [simp]: "locks (w\<lparr>cwPurge := p\<rparr>) = locks w" "locks (w\<lparr>cwStates := s\<rparr>) = locks w"
  "locks (w\<lparr>cwJobs := j\<rparr>) = locks w"
  by (simp_all add: locks_def)

lemma locks_rows [simp]: "locks (putState env s w) = locks w" "locks (updateState env s w) = locks w"
  "locks (snd (updateRecord env r w)) = locks w" "locks (snd (updatePolicyRow env p w)) = locks w"
  "locks (updateJob env j w) = locks w" "locks (finishBackupAudit env audit status ms m w) = locks w"
  by (auto simp: putState_def createState_def updateState_def updateRecord_def updatePolicyRow_def updateJob_def
      finishBackupAudit_def Let_def split: option.split)

lemma locks_created: "createRecord env r w = (a, w') \<Longrightarrow> locks w' = locks w"
  "createJob env j w = (b, w') \<Longrightarrow> locks w' = locks w" "updateRecord env r w = (c, w') \<Longrightarrow> locks w' = locks w"
  "updatePolicyRow env p w = (c, w') \<Longrightarrow> locks w' = locks w"
  "startBackupAudit env item policy operator w = (d, w') \<Longrightarrow> locks w' = locks w"
  by (auto simp: createRecord_def createJob_def updateRecord_def updatePolicyRow_def startBackupAudit_def Let_def
      split: option.splits if_splits prod.splits sum.splits)

lemma locks_finish [simp]: "locks (finishBackupPolicy env policy now status m w) = locks w"
  "locks (failRecord env r m w) = locks w" "locks (persistBackupPolicyChainValidation env policy v w) = locks w"
  "locks (updateBackupChainStateAfterSuccess env policy r now w) = locks w"
  "locks (markBackupChainStateError env i m w) = locks w" "locks (markBackupPolicyAutoSyntheticBlocked env now policy w) = locks w"
  by (auto simp: finishBackupPolicy_def failRecord_def persistBackupPolicyChainValidation_def markBackupChainStateError_def
      updateBackupChainStateAfterSuccess_def markBackupPolicyAutoSyntheticBlocked_def Let_def split: option.split)

lemma locks_checked: "validateBackupPolicyChainInternal env now policy host w = (a, w') \<Longrightarrow> locks w' = locks w"
  by (auto simp: validateBackupPolicyChainInternal_def Let_def split: option.splits if_splits)

lemma locks_queue: "queueJob env now policy r job audit m w = (a, w') \<Longrightarrow> locks w' = locks w"
  by (auto simp: queueJob_def Let_def dest!: locks_created split: option.splits sum.splits prod.splits)

lemma locks_parent: "parentFor env now policy host level w = (a, w') \<Longrightarrow> locks w' = locks w"
  by (auto simp: parentFor_def dest!: locks_checked split: option.splits sum.splits prod.splits if_splits)

lemma locks_prepare: "prepareSyntheticFull env now i w = (a, w') \<Longrightarrow> locks w' = locks w"
  by (auto simp: prepareSyntheticFull_def Let_def dest!: locks_checked
      split: option.splits sum.splits prod.splits if_splits)

lemma locks_end [simp]: "locks (endJobRun env now bg res w) = locks w"
proof -
  have f: "locks (failedEnd env now marks policy r job audit res m w) = locks w" for marks policy r job audit m w
    by (simp add: failedEnd_def Let_def)
  show ?thesis
    by (auto simp: endJobRun_def applyMySQLPhysicalBackupPolicyResult_def applyMySQLSyntheticFullResult_def Let_def f
        split: option.split prod.split background_kind.split)
qed

lemma locks_begin: "beginJob env started bg w = (rows, w') \<Longrightarrow> locks w' = locks w"
  by (auto simp: beginJob_def Let_def split: option.splits if_splits)

text \<open>What the starts of both kinds of runs give.\<close>

lemma started_synthetic:
  assumes "startSyntheticFull env now policy item source host v p operator trigger reason i w = (a, w')"
  shows "locks w' = locks w" "a = Inr bg \<Longrightarrow> bgPolicyID bg = bpID policy \<and> bgInstanceID bg = bpInstanceID policy
    \<and> bgRows bg = None"
  using assms by (auto simp: startSyntheticFull_def Let_def dest!: locks_created locks_queue
      split: option.splits sum.splits prod.splits)

lemma queued_physical:
  assumes "queuePhysicalBackup env now policy item source host level operator trigger parent w = (a, w')"
  shows "locks w' = locks w" "a = Inr bg \<Longrightarrow> bgPolicyID bg = bpID policy \<and> bgInstanceID bg = bpInstanceID policy
    \<and> bgRows bg = None"
  using assms by (auto simp: queuePhysicalBackup_def Let_def dest!: locks_created locks_queue
      split: option.splits sum.splits prod.splits if_splits)

lemma started_physical:
  assumes "startPhysicalBackup env now policy item source host level operator trigger w = (a, w')"
  shows "locks w' = locks w" "a = Inr bg \<Longrightarrow> bgPolicyID bg = bpID policy \<and> bgInstanceID bg = bpInstanceID policy
    \<and> bgRows bg = None"
proof -
  show "locks w' = locks w"
    using assms by (auto simp: startPhysicalBackup_def dest!: locks_parent queued_physical(1)
        split: option.splits sum.splits prod.splits if_splits)
  show "a = Inr bg \<Longrightarrow> bgPolicyID bg = bpID policy \<and> bgInstanceID bg = bpInstanceID policy \<and> bgRows bg = None"
    using assms by (auto simp: startPhysicalBackup_def dest: queued_physical(2) [OF _ refl]
        split: option.splits sum.splits prod.splits if_splits)
qed

text \<open>The invariant: what is locked is what runs, each of it once.\<close>

definition used_instances :: "background list \<Rightarrow> (nat \<times> nat) list \<Rightarrow> nat list" where
  "used_instances bgs runs = filter (\<lambda>i. i > 0) (map bgInstanceID bgs @ map snd runs)"

fun locks_ok :: "nat list \<times> nat list \<times> nat list \<times> background list \<times> (nat \<times> nat) list \<Rightarrow> bool" where
  "locks_ok (policies, tasks, instances, bgs, runs) \<longleftrightarrow>
     distinct (map bgPolicyID bgs) \<and> set policies = set (map bgPolicyID bgs)
   \<and> distinct (map fst runs) \<and> set tasks = set (map fst runs)
   \<and> distinct (used_instances bgs runs) \<and> set instances = set (used_instances bgs runs)
   \<and> (\<forall>bg \<in> set bgs. bgPolicyID bg \<noteq> 0) \<and> (\<forall>r \<in> set runs. fst r \<noteq> 0)"

lemma acquired:
  assumes "acquireBackupPolicyRun p i w = Inr u"
  shows "p \<noteq> 0" "p \<notin> set (cwRunningPolicies w)" "i > 0 \<Longrightarrow> i \<notin> set (cwRunningInstances w)"
    "locks u = (p # cwRunningPolicies w, cwRunningTasks w,
       if i > 0 then i # cwRunningInstances w else cwRunningInstances w, cwBackground w, cwTaskRuns w)"
  using assms by (auto simp: acquireBackupPolicyRun_def locks_def split: if_splits)

lemma released:
  assumes "locks u = (ps, ts, is, bgs, rs)"
  shows "locks (releaseBackupPolicyRun p i u) =
    (if p = 0 then ps else removeAll p ps, ts, if p = 0 \<or> i = 0 then is else removeAll i is, bgs, rs)"
  using assms by (simp add: releaseBackupPolicyRun_def locks_def)

lemma given_back:
  assumes "acquireBackupPolicyRun p i w = Inr u" "locks u' = locks u"
  shows "locks (releaseBackupPolicyRun p i u') = locks w"
  using acquired [OF assms(1)] released [of u' "p # cwRunningPolicies w"] assms(2) by (simp add: locks_def)

lemma running_more:
  assumes "locks_ok (ps, ts, is, bgs, rs)" "bgPolicyID bg \<noteq> 0" "bgPolicyID bg \<notin> set ps"
    and "bgInstanceID bg > 0 \<Longrightarrow> bgInstanceID bg \<notin> set is"
  shows "locks_ok (bgPolicyID bg # ps, ts, if bgInstanceID bg > 0 then bgInstanceID bg # is else is, bgs @ [bg], rs)"
proof (cases "bgInstanceID bg > 0")
  case True
  define xs ys where "xs = filter (\<lambda>i. i > 0) (map bgInstanceID bgs)" "ys = filter (\<lambda>i. i > 0) (map snd rs)"
  then have "used_instances bgs rs = xs @ ys" "used_instances (bgs @ [bg]) rs = xs @ bgInstanceID bg # ys"
    using True by (simp_all add: used_instances_def)
  then show ?thesis using assms True by auto
next
  case False
  then have "used_instances (bgs @ [bg]) rs = used_instances bgs rs" by (simp add: used_instances_def)
  then show ?thesis using assms False by auto
qed

lemma under_lock:
  assumes "locks_ok (locks w)" "underPolicyLock policy start w = (a, w')"
    and "\<And>w b w'. start w = (b, w') \<Longrightarrow> locks w' = locks w"
    and "\<And>w bg w'. start w = (Inr bg, w') \<Longrightarrow> bgPolicyID bg = bpID policy \<and> bgInstanceID bg = bpInstanceID policy"
  shows "locks_ok (locks w')"
proof (cases "acquireBackupPolicyRun (bpID policy) (bpInstanceID policy) w")
  case (Inl e)
  then show ?thesis using assms(1,2) by (simp add: underPolicyLock_def)
next
  case (Inr u)
  obtain b u' where b: "start u = (b, u')" by (metis surj_pair)
  have l: "locks u' = locks u" by (rule assms(3) [OF b])
  show ?thesis
  proof (cases b)
    case (Inl e)
    then have "w' = releaseBackupPolicyRun (bpID policy) (bpInstanceID policy) u'"
      using assms(2) b \<open>acquireBackupPolicyRun _ _ _ = Inr u\<close> by (simp add: underPolicyLock_def)
    then show ?thesis using given_back [OF \<open>acquireBackupPolicyRun _ _ _ = Inr u\<close> l] assms(1) by simp
  next
    case right: (Inr bg)
    then have w': "w' = u'\<lparr>cwBackground := cwBackground u' @ [bg]\<rparr>" using assms(2) b Inr by (simp add: underPolicyLock_def)
    have ids: "bgPolicyID bg = bpID policy" "bgInstanceID bg = bpInstanceID policy" using assms(4) b right by auto
    have "locks w' = (bgPolicyID bg # cwRunningPolicies w, cwRunningTasks w,
        if bgInstanceID bg > 0 then bgInstanceID bg # cwRunningInstances w else cwRunningInstances w,
        cwBackground w @ [bg], cwTaskRuns w)"
      using l acquired(4) [OF Inr] by (simp add: w' locks_def ids)
    then show ?thesis using running_more [of "cwRunningPolicies w" _ _ _ _ bg] assms(1) acquired [OF Inr]
      by (simp add: locks_def ids del: locks_ok.simps)
  qed
qed

lemma task_more:
  assumes "locks_ok (ps, ts, is, bgs, rs)" "t \<noteq> 0" "t \<notin> set ts" "i > 0 \<Longrightarrow> i \<notin> set is"
  shows "locks_ok (ps, t # ts, if i > 0 then i # is else is, bgs, (t, i) # rs)"
proof (cases "i > 0")
  case True
  define xs ys where "xs = filter (\<lambda>i. i > 0) (map bgInstanceID bgs)" "ys = filter (\<lambda>i. i > 0) (map snd rs)"
  then have "used_instances bgs rs = xs @ ys" "used_instances bgs ((t, i) # rs) = xs @ i # ys"
    using True by (simp_all add: used_instances_def)
  then show ?thesis using assms True by auto
next
  case False
  then have "used_instances bgs ((t, i) # rs) = used_instances bgs rs" by (simp add: used_instances_def)
  then show ?thesis using assms False by auto
qed

lemma running_less:
  assumes "locks_ok (ps, ts, is, bgs, rs)" "n < length bgs"
  shows "locks_ok (removeAll (bgPolicyID (bgs ! n)) ps, ts,
    if bgInstanceID (bgs ! n) = 0 then is else removeAll (bgInstanceID (bgs ! n)) is, dropAt n bgs, rs)"
proof -
  define a b bg where "a = take n bgs" "b = drop (Suc n) bgs" "bg = bgs ! n"
  then have bgs: "bgs = a @ bg # b" "dropAt n bgs = a @ b" using id_take_nth_drop [OF assms(2)] by (simp_all add: dropAt_def)
  show ?thesis using assms(1) unfolding bgs(2) a_b_bg_def(3) [symmetric] unfolding bgs(1)
    by (cases "bgInstanceID bg = 0") (auto simp: used_instances_def)
qed

lemma task_less:
  assumes "locks_ok (ps, ts, is, bgs, rs)" "n < length rs"
  shows "locks_ok (ps, removeAll (fst (rs ! n)) ts,
    if snd (rs ! n) = 0 then is else removeAll (snd (rs ! n)) is, bgs, dropAt n rs)"
proof -
  define a b r where "a = take n rs" "b = drop (Suc n) rs" "r = rs ! n"
  then have rs: "rs = a @ r # b" "dropAt n rs = a @ b" using id_take_nth_drop [OF assms(2)] by (simp_all add: dropAt_def)
  show ?thesis using assms(1) unfolding rs(2) a_b_r_def(3) [symmetric] unfolding rs(1)
    by (cases "snd r = 0") (auto simp: used_instances_def)
qed

lemma synthetic_locks:
  assumes "locks_ok (locks w)" "runBackupPolicySyntheticFull env now i operator trigger reason j w = (a, w')"
  shows "locks_ok (locks w')"
proof -
  obtain b u where b: "prepareSyntheticFull env now i w = (b, u)" by (metis surj_pair)
  have u: "locks_ok (locks u)" using assms(1) locks_prepare [OF b] by simp
  show ?thesis
  proof (cases b)
    case (Inl e)
    then show ?thesis using assms(2) b u by (simp add: runBackupPolicySyntheticFull_def)
  next
    case (Inr x)
    obtain policy item source host v p where x: "x = (policy, item, source, host, v, p)" by (metis surj_pair)
    let ?start = "startSyntheticFull env now policy item source host v p operator trigger reason j"
    have "underPolicyLock policy ?start u = (a, w')" using assms(2) b Inr x by (simp add: runBackupPolicySyntheticFull_def)
    moreover have "\<And>w b w'. ?start w = (b, w') \<Longrightarrow> locks w' = locks w" by (rule started_synthetic(1))
    moreover have "\<And>w bg w'. ?start w = (Inr bg, w') \<Longrightarrow> bgPolicyID bg = bpID policy \<and> bgInstanceID bg = bpInstanceID policy"
      using started_synthetic(2) by blast
    ultimately show ?thesis using under_lock [OF u] by blast
  qed
qed

lemma backup_locks:
  assumes "locks_ok (locks w)" "runBackupPolicy env now i level operator trigger w = (a, w')"
  shows "locks_ok (locks w')"
proof -
  have "locks_ok (locks w')" if "underPolicyLock policy
      (startPhysicalBackup env now policy item source host (normalizeBackupLevel level) operator trigger) w = (a, w')"
    for policy item source host
  proof (rule under_lock [OF assms(1) that])
    show "startPhysicalBackup env now policy item source host (normalizeBackupLevel level) operator trigger w1 = (b, w2) \<Longrightarrow>
        locks w2 = locks w1" for w1 b w2 by (rule started_physical(1))
    show "startPhysicalBackup env now policy item source host (normalizeBackupLevel level) operator trigger w1 = (Inr bg, w2) \<Longrightarrow>
        bgPolicyID bg = bpID policy \<and> bgInstanceID bg = bpInstanceID policy" for w1 bg w2
      using started_physical(2) by blast
  qed
  then show ?thesis using assms by (auto simp: runBackupPolicy_def split: if_splits option.splits sum.splits)
qed

lemma auto_locks:
  assumes "locks_ok (locks w)"
  shows "locks_ok (locks (maybeRunBackupPolicySyntheticAfterSuccess env now i j reason w))"
proof -
  have r: "locks_ok (locks w')" if "runBackupPolicySyntheticFull env now k operator trigger why l u = (a, w')"
    "locks u = locks w" for k operator trigger why l u a w'
    using synthetic_locks [OF _ that(1)] assms that(2) by simp
  have v: "locks u = locks w" if "validateBackupPolicyChainInternal env now policy host w = (b, u)" for policy host b u
    by (rule locks_checked [OF that])
  show ?thesis
    using assms unfolding maybeRunBackupPolicySyntheticAfterSuccess_def
    by (auto simp: Let_def dest!: v split: option.split sum.split prod.split if_splits intro: r)
qed

lemma leave_locks:
  assumes "locks_ok (ps, ts, is, bgs, rs)" "n < length bgs" "locks w = (ps, ts, is, dropAt n bgs, rs)"
  shows "locks_ok (locks (leaveBackground env now (bgs ! n) w))"
proof -
  have "bgPolicyID (bgs ! n) \<noteq> 0" using assms(1,2) by simp
  then have "locks_ok (locks (releaseBackupPolicyRun (bgPolicyID (bgs ! n)) (bgInstanceID (bgs ! n)) w))"
    using running_less [OF assms(1,2)] released [OF assms(3), of "bgPolicyID (bgs ! n)" "bgInstanceID (bgs ! n)"]
    by (simp del: locks_ok.simps)
  then show ?thesis by (auto simp: leaveBackground_def Let_def intro: auto_locks)
qed

lemma step_locks: "locks_ok (locks w) \<Longrightarrow> locks_ok (locks (chain_step env op w))"
proof (induction env op w rule: chain_step.induct)
  case (1 env now i level operator trigger w)
  then show ?case using backup_locks by (metis chain_step.simps(1) surjective_pairing)
next
  case (2 env now i operator w)
  then show ?case using synthetic_locks by (metis chain_step.simps(2) surjective_pairing)
next
  case (3 env started n w)
  let ?bg = "cwBackground w ! n"
  obtain rows u where b: "beginJob env started ?bg w = (rows, u)" by (metis surj_pair)
  have l: "locks u = locks w" by (rule locks_begin [OF b])
  show ?case
  proof (cases "n < length (cwBackground w) \<and> bgRows ?bg = None")
    case True
    show ?thesis
    proof (cases rows)
      case None
      have "locks (u\<lparr>cwBackground := dropAt n (cwBackground u)\<rparr>) =
          (cwRunningPolicies w, cwRunningTasks w, cwRunningInstances w, dropAt n (cwBackground w), cwTaskRuns w)"
        using l by (simp add: locks_def)
      from leave_locks [OF _ _ this] have "locks_ok (locks (leaveBackground env started ?bg
          (u\<lparr>cwBackground := dropAt n (cwBackground u)\<rparr>)))" using 3 True by (simp add: locks_def del: locks_ok.simps)
      then show ?thesis using True b None l by (simp add: locks_def)
    next
      case (Some x)
      have "map bgPolicyID ((cwBackground w)[n := ?bg\<lparr>bgRows := rows\<rparr>]) = map bgPolicyID (cwBackground w)"
        "map bgInstanceID ((cwBackground w)[n := ?bg\<lparr>bgRows := rows\<rparr>]) = map bgInstanceID (cwBackground w)"
        by (simp_all add: map_update list_update_same_conv True)
      then show ?thesis using 3 True b Some l
        by (auto simp: locks_def used_instances_def dest: in_set_conv_nth [THEN iffD1] simp: nth_list_update)
    qed
  qed (use 3 in auto)
next
  case (4 env now n res w)
  let ?w = "w\<lparr>cwBackground := dropAt n (cwBackground w)\<rparr>"
  show ?case
  proof (cases "n < length (cwBackground w) \<and> bgRows (cwBackground w ! n) \<noteq> None")
    case True
    have "locks (endJobRun env now (cwBackground w ! n) res ?w) =
        (cwRunningPolicies w, cwRunningTasks w, cwRunningInstances w, dropAt n (cwBackground w), cwTaskRuns w)"
      by (simp add: locks_def [of ?w])
    from leave_locks [OF _ _ this] show ?thesis using 4 True by (auto simp: locks_def simp del: locks_ok.simps)
  qed (use 4 in auto)
next
  case (5 env t i w)
  show ?case
  proof (cases "acquireBackupTaskRun t i w")
    case (Inr u)
    then have t: "t \<noteq> 0" "t \<notin> set (cwRunningTasks w)" "i > 0 \<Longrightarrow> i \<notin> set (cwRunningInstances w)"
      "locks u = (cwRunningPolicies w, t # cwRunningTasks w,
         if i > 0 then i # cwRunningInstances w else cwRunningInstances w, cwBackground w, cwTaskRuns w)"
      by (auto simp: acquireBackupTaskRun_def locks_def split: if_splits)
    have "locks (chain_step env (OpTaskStart t i) w) = (cwRunningPolicies w, t # cwRunningTasks w,
        if i > 0 then i # cwRunningInstances w else cwRunningInstances w, cwBackground w, (t, i) # cwTaskRuns w)"
      using Inr t(4) by (simp add: locks_def)
    then show ?thesis using task_more [OF _ t(1-3)] 5 by (simp add: locks_def [of w] del: locks_ok.simps chain_step.simps)
  qed (use 5 in simp)
next
  case (6 env n w)
  show ?case
  proof (cases "n < length (cwTaskRuns w)")
    case True
    then have "fst (cwTaskRuns w ! n) \<noteq> 0" using 6 by (simp add: locks_def)
    moreover have "locks_ok (cwRunningPolicies w, cwRunningTasks w, cwRunningInstances w, cwBackground w, cwTaskRuns w)"
      using 6 by (simp add: locks_def)
    ultimately show ?thesis using task_less [OF _ True]
      by (cases "snd (cwTaskRuns w ! n) = 0") (force simp: locks_def releaseBackupTaskRun_def True simp del: locks_ok.simps)+
  qed (use 6 in simp)
next
  case (7 env now i w)
  obtain a u where "ValidateBackupPolicyChain env now i w = (a, u)" by (metis surj_pair)
  moreover from this have "locks u = locks w"
    by (auto simp: ValidateBackupPolicyChain_def dest: locks_checked split: if_splits option.splits)
  ultimately show ?case using 7 by simp
next
  case (8 env now i w)
  obtain a u where "PreviewBackupPolicySyntheticFull env now i w = (a, u)" by (metis surj_pair)
  moreover from this have "locks u = locks w"
    by (auto simp: PreviewBackupPolicySyntheticFull_def dest: locks_checked split: if_splits option.splits prod.splits sum.splits)
  ultimately show ?case using 8 by simp
qed

lemma run_locks: "locks_ok (locks w) \<Longrightarrow> locks_ok (locks (chain_run env ops w))"
  by (induction ops arbitrary: w) (simp_all add: step_locks)


section \<open>Chains\<close>

text \<open>C27: The check of a chain ends after visiting every record at most once, whatever the parents of the records
  are: with the unique numbers of the rows, the records it collects are different rows of the policy, and the report of
  a cycle never appears.\<close>
theorem chain_walk_ends:
  assumes "distinct (map brID records)"
  shows "distinct (map brID (cvRecords (validateBackupPolicyChainRecords env now policy host state records)))
    \<and> length (cvRecords (validateBackupPolicyChainRecords env now policy host state records)) \<le> length records
    \<and> (\<forall>i. CycleAt i \<notin> set (cvBlockingReasons (validateBackupPolicyChainRecords env now policy host state records)))"
proof -
  let ?rs = "cvRecords (validateBackupPolicyChainRecords env now policy host state records)"
  have "length ?rs = card (set ?rs)" using check_walk_once(1) [OF assms] by (simp add: distinct_map distinct_card)
  also have "\<dots> \<le> card (set records)" using check_walk_once(2) [OF assms] by (simp add: card_mono)
  also have "\<dots> \<le> length records" by (rule card_length)
  finally show ?thesis using check_walk_once [OF assms] by auto
qed

lemma persist_purge [simp]: "cwPurge (persistBackupPolicyChainValidation env policy v w) = cwPurge w"
  by (auto simp: persistBackupPolicyChainValidation_def putState_def createState_def updateState_def Let_def
      split: option.split)

text \<open>A chain that passed: its records, each continuing the one before, are successful rows of the policy.\<close>

definition passed_chain ::
  "chain_env \<Rightarrow> purge_world \<Rightarrow> DatabaseBackupPolicyConfig \<Rightarrow> DatabaseRunnerHost \<Rightarrow> DatabaseBackupRecord
   \<Rightarrow> DatabaseBackupRecord list \<Rightarrow> bool" where
  "passed_chain env p policy host base path \<longleftrightarrow>
     set (base # path) \<subseteq> set (ListSuccessfulPhysicalByPolicy p (bpID policy))
   \<and> validatePolicyChainRecord env policy host base = None
   \<and> successively (continues env policy host base) (base # path)"

lemma checked_chain:
  assumes "validateBackupPolicyChainInternal env now policy host w = (Inr v, w')" "cvStatus v = ChainComplete"
  obtains base path where "passed_chain env (cwPurge w) policy host base path" "cvBaseRecord v = Some base"
    "cvRecords v = base # path" "cvLatestRecord v = Some (last (base # path))" "cwPurge w' = cwPurge w"
proof -
  have v: "v = validateBackupPolicyChainRecords env now policy host (stateOf env w (bpID policy))
      (ListSuccessfulPhysicalByPolicy (cwPurge w) (bpID policy))" "cwPurge w' = cwPurge w"
    using assms(1) by (auto simp: validateBackupPolicyChainInternal_def Let_def split: if_splits option.splits)
  show ?thesis
  proof (rule check_passed [OF assms(2) [unfolded v(1)]])
    fix base path
    assume "cvBaseRecord (validateBackupPolicyChainRecords env now policy host (stateOf env w (bpID policy))
        (ListSuccessfulPhysicalByPolicy (cwPurge w) (bpID policy))) = Some base"
      "cvRecords (validateBackupPolicyChainRecords env now policy host (stateOf env w (bpID policy))
        (ListSuccessfulPhysicalByPolicy (cwPurge w) (bpID policy))) = base # path"
      "cvLatestRecord (validateBackupPolicyChainRecords env now policy host (stateOf env w (bpID policy))
        (ListSuccessfulPhysicalByPolicy (cwPurge w) (bpID policy))) = Some (last (base # path))"
      "successively (continues env policy host base) (base # path)"
      "validatePolicyChainRecord env policy host base = None"
      "base \<in> set (ListSuccessfulPhysicalByPolicy (cwPurge w) (bpID policy))"
      "set path \<subseteq> set (ListSuccessfulPhysicalByPolicy (cwPurge w) (bpID policy))"
    then show ?thesis using that [of base path] v by (simp add: passed_chain_def)
  qed
qed

lemma parent_chain:
  assumes "parentFor env now policy host BackupLevelIncremental w = (Inr p, w')"
  obtains base path where "passed_chain env (cwPurge w) policy host base path" "p = Some (last (base # path))"
    "cwPurge w' = cwPurge w"
proof -
  obtain v where v: "validateBackupPolicyChainInternal env now policy host w = (Inr v, w')" "cvStatus v = ChainComplete"
    "p = cvLatestRecord v"
    using assms by (auto simp: parentFor_def split: prod.splits sum.splits option.splits if_splits)
  show ?thesis by (rule checked_chain [OF v(1,2)]) (use that v(3) in auto)
qed

lemma queued_records:
  "updatePolicyRow env p w = (a, w') \<Longrightarrow> pwRecords (cwPurge w') = pwRecords (cwPurge w)"
  "createJob env j w = (b, w') \<Longrightarrow> cwPurge w' = cwPurge w"
  "startBackupAudit env item policy operator w = (d, w') \<Longrightarrow> pwRecords (cwPurge w') = pwRecords (cwPurge w)"
  "createRecord env r w = (Inr r', w') \<Longrightarrow> \<exists>i. r' = r\<lparr>brID := i\<rparr> \<and> r' \<in> set (pwRecords (cwPurge w'))"
  by (auto simp: updatePolicyRow_def createJob_def startBackupAudit_def createRecord_def savePolicy_def Let_def
      split: option.splits if_splits prod.splits sum.splits)

lemma queued_job: "queueJob env now policy r job audit m w = (Inr j, w') \<Longrightarrow> pwRecords (cwPurge w') = pwRecords (cwPurge w)"
  by (auto simp: queueJob_def Let_def dest!: queued_records split: prod.splits option.splits sum.splits)

lemma queued_increment:
  assumes "queuePhysicalBackup env now policy item source host BackupLevelIncremental operator trigger (Some p) w = (Inr bg, w')"
  shows "\<exists>r \<in> set (pwRecords (cwPurge w')). brID r = bgRecordID bg \<and> brParentRecordID r = brID p
    \<and> brChainID r = trimText (brChainID p) 64 \<and> isIncremental r \<and> brStatus r = BackupQueued"
proof -
  obtain u r u' r' j where "createRecord env r u = (Inr r', u')" "brParentRecordID r = brID p"
    "brChainID r = trimText (brChainID p) 64" "brBackupLevel r = BackupLevelIncremental" "brStatus r = BackupQueued"
    and q: "bgRecordID bg = brID r'" "pwRecords (cwPurge w') = pwRecords (cwPurge u')"
    using assms by (auto simp: queuePhysicalBackup_def queuedRecord_def Let_def dest!: queued_job
        split: prod.splits option.splits sum.splits)
  moreover have "normalizeBackupLevel BackupLevelIncremental = BackupLevelIncremental" by code_simp
  ultimately show ?thesis using queued_records(4) [of env r u r' u']
    by (auto simp: isIncremental_def)
qed

lemma purge_locked: "acquireBackupPolicyRun p i w = Inr u \<Longrightarrow> cwPurge u = cwPurge w"
  "cwPurge (releaseBackupPolicyRun p i w) = cwPurge w"
  by (auto simp: acquireBackupPolicyRun_def releaseBackupPolicyRun_def split: if_splits)

lemma under_lock_started:
  assumes "underPolicyLock policy start w = (Inr bg, w')"
  obtains u u' where "cwPurge u = cwPurge w" "start u = (Inr bg, u')" "cwPurge w' = cwPurge u'"
proof -
  obtain u u' where "acquireBackupPolicyRun (bpID policy) (bpInstanceID policy) w = Inr u" "start u = (Inr bg, u')"
    "w' = u'\<lparr>cwBackground := cwBackground u' @ [bg]\<rparr>"
    using assms by (auto simp: underPolicyLock_def split: sum.splits prod.splits)
  then show ?thesis using that [of u u'] purge_locked(1) by simp
qed


section \<open>Synthetic full backups\<close>

lemma path_incremental: "successively (continues env policy host base) (a # path) \<Longrightarrow> \<forall>r \<in> set path. isIncremental r"
proof (induction path arbitrary: a)
  case (Cons b path)
  then have c: "continues env policy host base a b" "successively (continues env policy host base) (b # path)" by simp_all
  have "isIncremental b" using c(1) unfolding continues_def by blast
  then show ?case using Cons.IH [OF c(2)] by simp
qed simp

lemma preview_blocks:
  assumes "cvBaseRecord v = Some base"
  shows "spBlockingReasons (buildSyntheticFullPreview env now policy v) =
    (if bpSyntheticEnabled policy then [] else [SyntheticOff])
    @ (if cvStatus v = ChainComplete then [] else ChainNotPassed # cvBlockingReasons v)
    @ (if int (length (filter isIncremental (cvRecords v))) < srMergeOldestIncrementals (parseSyntheticRule (cePurge env) policy)
       then [TooFewIncrementals (length (filter isIncremental (cvRecords v)))
               (srMergeOldestIncrementals (parseSyntheticRule (cePurge env) policy))] else [])"
  by (simp add: assms buildSyntheticFullPreview_def finalizeSyntheticPreviewStatus_def Let_def)

lemma preview_free:
  assumes "spBlockingReasons (buildSyntheticFullPreview env now policy v) = []" "cvBaseRecord v = Some base"
  shows "cvStatus v = ChainComplete" "bpSyntheticEnabled policy"
    "srMergeOldestIncrementals (parseSyntheticRule (cePurge env) policy) \<le> int (length (filter isIncremental (cvRecords v)))"
  using assms(1) unfolding preview_blocks [OF assms(2)] by (simp_all split: if_splits)

lemma preview_selects:
  assumes "cvBaseRecord v = Some base" "p = buildSyntheticFullPreview env now policy v"
  shows "spSelectedRecords p = base # take (nat (srMergeOldestIncrementals (parseSyntheticRule (cePurge env) policy)))
      (filter isIncremental (cvRecords v))"
    "spSelectedRecordIDs p = map brID (spSelectedRecords p)"
    "spSelectedIncrementalRecordIDs p = map brID (tl (spSelectedRecords p))"
    "spNewSyntheticFullAfterRecordID p = brID (last (spSelectedRecords p))"
  using assms by (auto simp: buildSyntheticFullPreview_def finalizeSyntheticPreviewStatus_def Let_def)

lemma preview_base: "spBlockingReasons (buildSyntheticFullPreview env now policy v) = [] \<Longrightarrow> cvBaseRecord v \<noteq> None"
  by (auto simp: buildSyntheticFullPreview_def finalizeSyntheticPreviewStatus_def Let_def split: option.splits)

lemma queued_synthetic:
  assumes "startSyntheticFull env now policy item source host v p operator trigger reason j w = (Inr bg, w')"
  shows "bgKind bg = SyntheticRun (List.map_filter (findBackupRecordByID (cvRecords v)) (spSelectedRecordIDs p))"
    and "\<exists>r \<in> set (pwRecords (cwPurge w')). brID r = bgRecordID bg \<and> brBaseRecordID r = brID r
      \<and> brParentRecordID r = spNewSyntheticFullAfterRecordID p \<and> brBackupOrigin r = OriginSyntheticFull
      \<and> brSyntheticSourceRecordIDs r = marshalIDs (map brID (spSelectedRecords p))"
proof -
  show "bgKind bg = SyntheticRun (List.map_filter (findBackupRecordByID (cvRecords v)) (spSelectedRecordIDs p))"
    using assms by (auto simp: startSyntheticFull_def Let_def split: prod.splits option.splits sum.splits)
  obtain r u r' u' u'' where c: "createRecord env r u = (Inr r', u')" "brParentRecordID r = spNewSyntheticFullAfterRecordID p"
    "brBackupOrigin r = OriginSyntheticFull" "brSyntheticSourceRecordIDs r = marshalIDs (map brID (spSelectedRecords p))"
    "updateRecord env (r'\<lparr>brBaseRecordID := brID r'\<rparr>) u' = (None, u'')"
    "bgRecordID bg = brID r'" "pwRecords (cwPurge w') = pwRecords (cwPurge u'')"
    using assms by (auto simp: startSyntheticFull_def queuedRecord_def Let_def dest!: queued_job
        split: prod.splits option.splits sum.splits)
  have "r' \<in> set (pwRecords (cwPurge u'))" using queued_records(4) [OF c(1)] by blast
  then have "r'\<lparr>brBaseRecordID := brID r'\<rparr> \<in> set (pwRecords (cwPurge u''))"
    using c(5) by (force simp: updateRecord_def saveRecord_def split: option.splits)
  then show "\<exists>r \<in> set (pwRecords (cwPurge w')). brID r = bgRecordID bg \<and> brBaseRecordID r = brID r
      \<and> brParentRecordID r = spNewSyntheticFullAfterRecordID p \<and> brBackupOrigin r = OriginSyntheticFull
      \<and> brSyntheticSourceRecordIDs r = marshalIDs (map brID (spSelectedRecords p))"
    using c queued_records(4) [OF c(1)] by (intro bexI [of _ "r'\<lparr>brBaseRecordID := brID r'\<rparr>"]) auto
qed

text \<open>C23: A synthetic full backup is only started from a chain that passed its check with enough incremental backups:
  it merges the base with the oldest incremental backups of the chain, as many as the rule of the policy says, in their
  order, and its record becomes the child of the last of them.\<close>
theorem synthetic_merges_oldest:
  assumes "runBackupPolicySyntheticFull env now policyID operator trigger reason j w = (Inr bg, w')"
  shows "\<exists>policy host base path r. policyByID (cwPurge w) policyID = Some policy \<and> bpSyntheticEnabled policy
    \<and> ceHost env (bpRunnerHostID policy) = Some host \<and> passed_chain env (cwPurge w) policy host base path
    \<and> r \<in> set (pwRecords (cwPurge w')) \<and> brID r = bgRecordID bg \<and> brBackupOrigin r = OriginSyntheticFull
    \<and> (let n = srMergeOldestIncrementals (parseSyntheticRule (cePurge env) policy);
           increments = (if isIncremental base then base # path else path);
           selected = base # take (nat n) increments in
       n \<le> int (length increments) \<and> brParentRecordID r = brID (last selected)
       \<and> brSyntheticSourceRecordIDs r = marshalIDs (map brID selected))"
proof -
  obtain policy item source host v p u where p: "prepareSyntheticFull env now policyID w
      = (Inr (policy, item, source, host, v, p), u)"
    "underPolicyLock policy (startSyntheticFull env now policy item source host v p operator trigger reason j) u = (Inr bg, w')"
    using assms by (auto simp: runBackupPolicySyntheticFull_def split: prod.splits sum.splits)
  then have c: "policyByID (cwPurge w) policyID = Some policy" "ceHost env (bpRunnerHostID policy) = Some host"
    "validateBackupPolicyChainInternal env now policy host w = (Inr v, u)"
    "p = buildSyntheticFullPreview env now policy v" "spBlockingReasons p = []"
    by (auto simp: prepareSyntheticFull_def Let_def split: if_splits option.splits prod.splits sum.splits)
  then obtain b where b: "cvBaseRecord v = Some b" using preview_base by blast
  note free = preview_free [OF _ b, of env now policy] and selects = preview_selects [OF b c(4)]
  obtain base path where chain: "passed_chain env (cwPurge w) policy host base path" "cvBaseRecord v = Some base"
    "cvRecords v = base # path" by (rule checked_chain [OF c(3)]) (use free c(4,5) in auto)
  have inc: "filter isIncremental (cvRecords v) = (if isIncremental base then base # path else path)"
    using path_incremental [of env policy host base base path] chain(1,3) by (simp add: passed_chain_def)
  obtain x x' where x: "startSyntheticFull env now policy item source host v p operator trigger reason j x = (Inr bg, x')"
    "cwPurge w' = cwPurge x'" by (rule under_lock_started [OF p(2)])
  from queued_synthetic(2) [OF x(1)] obtain r where r: "r \<in> set (pwRecords (cwPurge w'))" "brID r = bgRecordID bg"
    "brParentRecordID r = spNewSyntheticFullAfterRecordID p" "brBackupOrigin r = OriginSyntheticFull"
    "brSyntheticSourceRecordIDs r = marshalIDs (map brID (spSelectedRecords p))" using x(2) by auto
  let ?n = "srMergeOldestIncrementals (parseSyntheticRule (cePurge env) policy)"
  have "b = base" using b chain(2) by simp
  then have s: "spSelectedRecords p = base # take (nat ?n) (if isIncremental base then base # path else path)"
    "?n \<le> int (length (if isIncremental base then base # path else path))" "bpSyntheticEnabled policy"
    "brParentRecordID r = brID (last (spSelectedRecords p))"
    using selects(1,4) free(2,3) c(4,5) inc r(3) by simp_all
  show ?thesis
    using c(1,2) chain(1) r(1,2,4,5) s(2-4) unfolding s(1) Let_def by blast
qed

lemma merge_positive: "srMergeOldestIncrementals (parseSyntheticRule env policy) > 0"
  by (simp add: parseSyntheticRule_def Let_def)

lemma should_run:
  assumes "adShouldRun (buildSyntheticAutoDecision policy rule v preview trigger)"
  shows "cvStatus v = ChainComplete" "\<exists>latest. cvLatestRecord v = Some latest \<and> brID latest = brID trigger"
    "spBlockingReasons preview = []" "spNewSyntheticFullAfterRecordID preview = brID trigger" "bpBinlogStreamID policy \<noteq> 0"
  using assms by (auto simp: buildSyntheticAutoDecision_def autoNo_def autoBlocked_def Let_def
      split: if_splits option.splits)

text \<open>When the automatic decision is to merge, the merge covers the whole chain up to the backup that triggered it:
  no incremental backup of the old chain is left behind the new base.\<close>
theorem auto_merge_covers_chain:
  fixes records :: "DatabaseBackupRecord list"
  assumes "v = validateBackupPolicyChainRecords env now policy host state records"
    and "preview = buildSyntheticFullPreview env now policy v"
    and "adShouldRun (buildSyntheticAutoDecision policy (parseSyntheticRule (cePurge env) policy) v preview trigger)"
    and "distinct (map brID records)"
  shows "set (spSelectedRecordIDs preview) = brID ` set (cvRecords v) \<and> brID trigger = brID (last (cvRecords v))
    \<and> bpBinlogStreamID policy \<noteq> 0"
proof -
  note run = should_run [OF assms(3)]
  obtain base path where c: "cvBaseRecord v = Some base" "cvRecords v = base # path"
    "cvLatestRecord v = Some (last (base # path))" "successively (continues env policy host base) (base # path)"
    by (rule check_passed [OF run(1) [unfolded assms(1)]]) (simp add: assms(1))
  let ?n = "nat (srMergeOldestIncrementals (parseSyntheticRule (cePurge env) policy))"
  let ?l = "if isIncremental base then base # path else path"
  have inc: "filter isIncremental (cvRecords v) = ?l" using path_incremental [OF c(4)] c(2) by simp
  have n: "?n > 0" "?n \<le> length ?l"
    using merge_positive [of "cePurge env" policy] preview_free(3) [OF run(3) [unfolded assms(2)] c(1)] inc by auto
  have l: "?l \<noteq> []" "last ?l = last (base # path)" "set (base # ?l) = set (base # path)" using n by (auto split: if_splits)
  note s = preview_selects [OF c(1) assms(2), unfolded inc]
  have "last (base # take ?n ?l) = ?l ! (?n - 1)" using n l(1) by (auto simp: last_conv_nth)
  then have "brID (?l ! (?n - 1)) = brID (?l ! (length ?l - 1))"
    using run(2,4) s(1,4) c(3) l by (auto simp: last_conv_nth)
  then have same: "map brID ?l ! (?n - 1) = map brID ?l ! (length ?l - 1)" using n by simp
  have "distinct (map brID (cvRecords v))" unfolding assms(1) by (rule check_walk_once(1) [OF assms(4)])
  then have "distinct (map brID ?l)" using c(2) by (auto split: if_splits)
  then have "?n - 1 = length ?l - 1" using nth_eq_iff_index_eq [of "map brID ?l" "?n - 1" "length ?l - 1"] same n by simp
  then have "take ?n ?l = ?l" using n l(1) by simp
  then have "set (spSelectedRecordIDs preview) = brID ` set (base # path)" using s(1,2) l(3) by (simp add: image_iff)
  then show ?thesis using run(2,5) c by auto
qed

section \<open>Defects\<close>

text \<open>The end of a synthetic full backup first takes over the times of the merged records and then overwrites them
  with its own: it counts as recoverable until the merge ended, although its data ends with the last merged backup.\<close>

lemma synthetic_recoverable_overstated:
  "brRecoverableUntil (mergedRecord env now policy selected res r) = Some now"
  by (simp add: mergedRecord_def finishBackupRecordSuccess_def Let_def)

text \<open>A job writes back the policy as it was when the job began: what an operator changed in the meantime, such as
  disabling the policy, is undone.\<close>

lemma saved_policy: "policyByID u (bpID p) \<noteq> None \<Longrightarrow> policyByID (savePolicy p u) (bpID p) = Some p"
  by (auto simp: policyByID_def savePolicy_def find_map_key)

lemma finish_restores_policy:
  assumes "\<And>p. pePolicyErr (cePurge env) p = None" "policyByID (cwPurge w) (bpID policy) \<noteq> None"
  shows "\<exists>p. policyByID (cwPurge (finishBackupPolicy env policy now status m w)) (bpID policy) = Some p
    \<and> bpEnabled p = bpEnabled policy"
proof -
  obtain p where p: "finishBackupPolicy env policy now status m w = snd (updatePolicyRow env p w)" "bpID p = bpID policy"
    "bpEnabled p = bpEnabled policy"
    by (simp add: finishBackupPolicy_def Let_def split: if_split)
  then have "cwPurge (finishBackupPolicy env policy now status m w) = savePolicy p (cwPurge w)"
    using assms(1) by (simp add: updatePolicyRow_def)
  then show ?thesis using saved_policy [of "cwPurge w" p] assms(2) p by simp
qed

section \<open>A concrete chain\<close>

definition sample_full :: DatabaseBackupRecord where
  "sample_full = sample_record\<lparr>brSupersededByRecordID := 0, brPurgeEligibleAt := None, brStorageURI := ''/b'', brFilePath := []\<rparr>"

definition sample_increment :: DatabaseBackupRecord where
  "sample_increment = sample_full\<lparr>brID := 2, brBackupLevel := BackupLevelIncremental, brParentRecordID := 1,
     brCheckpointFromLSN := ''100'', brCheckpointToLSN := ''200'', brFinishedAt := Some 20\<rparr>"

definition sample_chain_policy :: DatabaseBackupPolicyConfig where
  "sample_chain_policy = sample_policy_row\<lparr>bpSyntheticRuleJSON := ''x''\<rparr>"

definition sample_rule :: "syntheticRuleConfig \<Rightarrow> syntheticRuleConfig" where
  "sample_rule r = r\<lparr>srTriggerAfterIncrementals := 1, srMergeOldestIncrementals := 1, srAutoRun := True\<rparr>"

definition sample_host :: DatabaseRunnerHost where
  "sample_host = \<lparr>rhID = 1, rhName = [], rhRunnerType = ''ssh'', rhHost = [], rhPort = 22, rhEnabled = True,
     rhStatus = ''online'', rhLastHeartbeatAt = None, rhLastError = Plain [], rhConfigJSON = [],
     rhCredentialID = 1, rhWorkDir = ''/w''\<rparr>"

definition sample_chain_env :: chain_env where
  "sample_chain_env = \<lparr>cePurge = sample_purge_env\<lparr>peRuleJSON := (\<lambda>_. sample_rule)\<rparr>, ceStateRepo = True,
     ceHostRepo = True, ceJobRepo = True, ceHost = (\<lambda>i. if i = 1 then Some sample_host else None),
     ceUrlPath = (\<lambda>_. None), ceStamp = (\<lambda>_. []), ceRetentionDays = (\<lambda>_. None), ceMetadata = (\<lambda>_. None),
     ceStateErr = (\<lambda>_. False), ceJobErr = (\<lambda>_. None)\<rparr>"

definition sample_chain :: chain_world where
  "sample_chain = \<lparr>cwPurge = \<lparr>pwRecords = [sample_full, sample_increment], pwPolicies = [sample_chain_policy],
     pwLogs = [], pwConsole = empty_world\<rparr>, cwStates = [], cwJobs = [], cwRunningPolicies = [], cwRunningTasks = [],
     cwRunningInstances = [], cwBackground = [], cwTaskRuns = []\<rparr>"

lemma sample_rows: "ListSuccessfulPhysicalByPolicy (cwPurge sample_chain) 2 = [sample_full, sample_increment]"
  "distinct (map brID [sample_full, sample_increment])"
  by (code_simp, simp add: sample_full_def sample_increment_def sample_record_def)

text \<open>Two requests for the same instance: the second is refused while the first runs.\<close>

definition sample_ops :: "chain_op list" where
  "sample_ops = [OpBackup 100 2 ''incremental'' sample_operator ''manual'', OpSynthetic 101 2 sample_operator,
     OpTaskStart 5 7, OpBegin 102 0]"


theorem chain_walk_ends_witness:
  "length (cvRecords (validateBackupPolicyChainRecords sample_chain_env 100 sample_chain_policy sample_host None
      [sample_full, sample_increment])) \<le> 2
   \<and> cvStatus (validateBackupPolicyChainRecords sample_chain_env 100 sample_chain_policy sample_host None
      [sample_full, sample_increment]) = ChainComplete"
proof -
  have "cvStatus (validateBackupPolicyChainRecords sample_chain_env 100 sample_chain_policy sample_host None
      [sample_full, sample_increment]) = ChainComplete" by code_simp
  then show ?thesis using chain_walk_ends [OF sample_rows(2), of sample_chain_env 100 sample_chain_policy sample_host None]
    by simp
qed

definition sample_backup_run :: "(chain_error + background) \<times> chain_world" where
  "sample_backup_run = runBackupPolicy sample_chain_env 100 2 ''incremental'' sample_operator ''manual'' sample_chain"


definition sample_merge_run :: "(chain_error + background) \<times> chain_world" where
  "sample_merge_run = runBackupPolicySyntheticFull sample_chain_env 100 2 sample_operator ''manual'' [] 0 sample_chain"

theorem synthetic_merges_oldest_witness:
  "\<exists>bg policy r. fst sample_merge_run = Inr bg \<and> policyByID (cwPurge sample_chain) 2 = Some policy
     \<and> bpSyntheticEnabled policy \<and> r \<in> set (pwRecords (cwPurge (snd sample_merge_run)))
     \<and> brID r = bgRecordID bg \<and> brBackupOrigin r = OriginSyntheticFull"
proof -
  have "\<not> isl (fst sample_merge_run)" by code_simp
  then obtain bg where bg: "runBackupPolicySyntheticFull sample_chain_env 100 2 sample_operator ''manual'' [] 0 sample_chain
      = (Inr bg, snd sample_merge_run)" "fst sample_merge_run = Inr bg"
    by (cases "fst sample_merge_run") (auto simp: sample_merge_run_def prod_eq_iff)
  from synthetic_merges_oldest [OF bg(1)] bg(2) show ?thesis by metis
qed

theorem auto_merge_covers_chain_witness:
  "set (spSelectedRecordIDs (buildSyntheticFullPreview sample_chain_env 100 sample_chain_policy
       (validateBackupPolicyChainRecords sample_chain_env 100 sample_chain_policy sample_host None
          [sample_full, sample_increment]))) = {1, 2}"
proof -
  define v where "v = validateBackupPolicyChainRecords sample_chain_env 100 sample_chain_policy sample_host None
    [sample_full, sample_increment]"
  have run: "adShouldRun (buildSyntheticAutoDecision sample_chain_policy
      (parseSyntheticRule (cePurge sample_chain_env) sample_chain_policy) v
      (buildSyntheticFullPreview sample_chain_env 100 sample_chain_policy v) sample_increment)"
    unfolding v_def by code_simp
  have "map brID (cvRecords v) = [1, 2]" unfolding v_def by code_simp
  then have "brID ` set (cvRecords v) = {1, 2}" by (metis list.set_map list.simps(15) empty_set)
  then show ?thesis using auto_merge_covers_chain [OF v_def refl run sample_rows(2)] unfolding v_def by simp
qed

end
