(* ===== verification/Chain_Rows.thy ===== *)
theory Chain_Rows
  imports Chain_Props
begin

text \<open>
  The rows of the tables behind the chains of backups keep numbers of their own: whatever requests and jobs run, no two
  records, policies, jobs or states of chains share a number. The check of a chain rests on it.
\<close>

definition row_numbers :: "chain_world \<Rightarrow> nat list \<times> nat list \<times> nat list \<times> nat list" where
  "row_numbers w = (map brID (pwRecords (cwPurge w)), map bpID (pwPolicies (cwPurge w)), map rjID (cwJobs w),
     map csID (cwStates w))"

definition rows_ok :: "chain_world \<Rightarrow> bool" where
  "rows_ok w \<longleftrightarrow> distinct (map brID (pwRecords (cwPurge w))) \<and> distinct (map bpID (pwPolicies (cwPurge w)))
     \<and> distinct (map rjID (cwJobs w)) \<and> distinct (map csID (cwStates w))"

lemma same_rows: "row_numbers w' = row_numbers w \<Longrightarrow> rows_ok w' = rows_ok w"
  by (simp add: row_numbers_def rows_ok_def)

lemma map_same_key: "map f (map (\<lambda>x. if f x = f r then r else x) xs) = map f xs"
  by (induction xs) auto

lemma fresh_number: "Suc (Max (set (0 # map f xs))) \<notin> set (map f xs)"
proof
  assume "Suc (Max (set (0 # map f xs))) \<in> set (map f xs)"
  then have "Suc (Max (set (0 # map f xs))) \<le> Max (set (0 # map f xs))" by (intro Max_ge) auto
  then show False by simp
qed

text \<open>Updates.\<close>

lemma rows_updated [simp]: "row_numbers (snd (updateRecord env r w)) = row_numbers w"
  "row_numbers (snd (updatePolicyRow env p w)) = row_numbers w" "row_numbers (updateState env s w) = row_numbers w"
  "row_numbers (updateJob env j w) = row_numbers w" "row_numbers (finishBackupAudit env audit status ms m w) = row_numbers w"
  "row_numbers (failRecord env r m w) = row_numbers w" "row_numbers (finishBackupPolicy env p now status m w) = row_numbers w"
  "row_numbers (markBackupChainStateError env i m w) = row_numbers w"
  "row_numbers (markBackupPolicyAutoSyntheticBlocked env now p w) = row_numbers w"
  "row_numbers (releaseBackupPolicyRun i k w) = row_numbers w" "row_numbers (releaseBackupTaskRun i k w) = row_numbers w"
proof -
  show r: "row_numbers (snd (updateRecord env r w)) = row_numbers w" for r w
    using map_same_key [of brID r] by (auto simp: updateRecord_def saveRecord_def row_numbers_def split: option.split)
  show p: "row_numbers (snd (updatePolicyRow env p w)) = row_numbers w" for p w
    using map_same_key [of bpID p] by (auto simp: updatePolicyRow_def savePolicy_def row_numbers_def split: option.split)
  show s: "row_numbers (updateState env s w) = row_numbers w" for s w
    using map_same_key [of csID s] by (auto simp: updateState_def row_numbers_def)
  show "row_numbers (updateJob env j w) = row_numbers w"
    using map_same_key [of rjID j] by (auto simp: updateJob_def row_numbers_def split: option.split)
  show "row_numbers (finishBackupAudit env audit status ms m w) = row_numbers w"
    by (auto simp: finishBackupAudit_def row_numbers_def split: option.split)
  show "row_numbers (failRecord env r m w) = row_numbers w" by (simp add: failRecord_def r)
  show "row_numbers (finishBackupPolicy env p now status m w) = row_numbers w"
    unfolding finishBackupPolicy_def Let_def by (rule p)
  show "row_numbers (markBackupChainStateError env i m w) = row_numbers w"
    by (auto simp: markBackupChainStateError_def s split: option.split)
  show "row_numbers (markBackupPolicyAutoSyntheticBlocked env now p w) = row_numbers w"
    by (simp add: markBackupPolicyAutoSyntheticBlocked_def p)
  show "row_numbers (releaseBackupPolicyRun i k w) = row_numbers w" "row_numbers (releaseBackupTaskRun i k w) = row_numbers w"
    by (simp_all add: releaseBackupPolicyRun_def releaseBackupTaskRun_def row_numbers_def)
qed

lemma rows_kept [simp]: "rows_ok (snd (updateRecord env r w)) = rows_ok w"
  "rows_ok (snd (updatePolicyRow env p w)) = rows_ok w" "rows_ok (updateState env s w) = rows_ok w"
  "rows_ok (updateJob env j w) = rows_ok w" "rows_ok (finishBackupAudit env audit status ms m w) = rows_ok w"
  "rows_ok (failRecord env r m w) = rows_ok w" "rows_ok (finishBackupPolicy env p now status m w) = rows_ok w"
  "rows_ok (markBackupChainStateError env i m w) = rows_ok w"
  "rows_ok (markBackupPolicyAutoSyntheticBlocked env now p w) = rows_ok w"
  "rows_ok (releaseBackupPolicyRun i k w) = rows_ok w" "rows_ok (releaseBackupTaskRun i k w) = rows_ok w"
  "rows_ok (w\<lparr>cwBackground := b\<rparr>) = rows_ok w" "rows_ok (w\<lparr>cwTaskRuns := t\<rparr>) = rows_ok w"
  by (rule same_rows, simp)+ (simp_all add: rows_ok_def)

text \<open>Insertions.\<close>

lemma put_state [simp]: "rows_ok w \<Longrightarrow> rows_ok (putState env s w)"
  using fresh_number [of csID "cwStates w"] by (auto simp: putState_def createState_def rows_ok_def [of "w\<lparr>cwStates := _\<rparr>"])
    (auto simp: rows_ok_def)

lemma rows_created: "createRecord env r w = (a, w') \<Longrightarrow> rows_ok w \<Longrightarrow> rows_ok w'"
  "createJob env j w = (b, w') \<Longrightarrow> rows_ok w \<Longrightarrow> rows_ok w'"
  "updateRecord env r w = (c, w') \<Longrightarrow> rows_ok w \<Longrightarrow> rows_ok w'"
  "updatePolicyRow env p w = (c, w') \<Longrightarrow> rows_ok w \<Longrightarrow> rows_ok w'"
  "startBackupAudit env item policy operator w = (d, w') \<Longrightarrow> rows_ok w \<Longrightarrow> rows_ok w'"
  "acquireBackupPolicyRun i k w = Inr w' \<Longrightarrow> rows_ok w \<Longrightarrow> rows_ok w'"
  "acquireBackupTaskRun i k w = Inr w' \<Longrightarrow> rows_ok w \<Longrightarrow> rows_ok w'"
proof -
  show "createRecord env r w = (a, w') \<Longrightarrow> rows_ok w \<Longrightarrow> rows_ok w'"
    using fresh_number [of brID "pwRecords (cwPurge w)"]
    by (auto simp: createRecord_def rows_ok_def Let_def split: option.splits)
  show "createJob env j w = (b, w') \<Longrightarrow> rows_ok w \<Longrightarrow> rows_ok w'"
    using fresh_number [of rjID "cwJobs w"] by (auto simp: createJob_def rows_ok_def Let_def split: option.splits)
  show "updateRecord env r w = (c, w') \<Longrightarrow> rows_ok w \<Longrightarrow> rows_ok w'" by (metis rows_kept(1) snd_conv)
  show "updatePolicyRow env p w = (c, w') \<Longrightarrow> rows_ok w \<Longrightarrow> rows_ok w'" by (metis rows_kept(2) snd_conv)
  show "startBackupAudit env item policy operator w = (d, w') \<Longrightarrow> rows_ok w \<Longrightarrow> rows_ok w'"
    by (auto simp: startBackupAudit_def rows_ok_def Let_def split: if_splits prod.splits sum.splits)
  show "acquireBackupPolicyRun i k w = Inr w' \<Longrightarrow> rows_ok w \<Longrightarrow> rows_ok w'"
    "acquireBackupTaskRun i k w = Inr w' \<Longrightarrow> rows_ok w \<Longrightarrow> rows_ok w'"
    by (auto simp: acquireBackupPolicyRun_def acquireBackupTaskRun_def rows_ok_def split: if_splits)
qed

lemma rows_persist [simp]: "rows_ok w \<Longrightarrow> rows_ok (persistBackupPolicyChainValidation env policy v w)"
  "rows_ok w \<Longrightarrow> rows_ok (updateBackupChainStateAfterSuccess env policy r now w)"
  by (simp_all add: persistBackupPolicyChainValidation_def updateBackupChainStateAfterSuccess_def Let_def)

lemma rows_checked: "validateBackupPolicyChainInternal env now policy host w = (a, w') \<Longrightarrow> rows_ok w \<Longrightarrow> rows_ok w'"
  by (auto simp: validateBackupPolicyChainInternal_def Let_def split: option.splits if_splits)

lemma rows_queue: "queueJob env now policy r job audit m w = (a, w') \<Longrightarrow> rows_ok w \<Longrightarrow> rows_ok w'"
  by (auto simp: queueJob_def Let_def dest: rows_created split: option.splits sum.splits prod.splits)

lemma rows_parent: "parentFor env now policy host level w = (a, w') \<Longrightarrow> rows_ok w \<Longrightarrow> rows_ok w'"
  by (auto simp: parentFor_def dest: rows_checked split: option.splits sum.splits prod.splits if_splits)

lemma rows_prepare: "prepareSyntheticFull env now i w = (a, w') \<Longrightarrow> rows_ok w \<Longrightarrow> rows_ok w'"
  by (auto simp: prepareSyntheticFull_def Let_def dest: rows_checked split: option.splits sum.splits prod.splits if_splits)

lemma rows_begin: "beginJob env started bg w = (rows, w') \<Longrightarrow> rows_ok w \<Longrightarrow> rows_ok w'"
  by (auto simp: beginJob_def Let_def split: option.splits if_splits)

lemma rows_end [simp]: "rows_ok w \<Longrightarrow> rows_ok (endJobRun env now bg res w)"
proof -
  have f: "rows_ok (failedEnd env now marks policy r job audit res m w) = rows_ok w" for marks policy r job audit m w
    by (simp add: failedEnd_def Let_def)
  show "rows_ok w \<Longrightarrow> rows_ok (endJobRun env now bg res w)"
    by (auto simp: endJobRun_def applyMySQLPhysicalBackupPolicyResult_def applyMySQLSyntheticFullResult_def Let_def f
        split: option.split prod.split background_kind.split)
qed

text \<open>Runs.\<close>

lemma rows_start: "startSyntheticFull env now policy item source host v p operator trigger reason i w = (a, w') \<Longrightarrow>
    rows_ok w \<Longrightarrow> rows_ok w'"
  by (auto simp: startSyntheticFull_def Let_def dest!: rows_created(1,3,5) dest: rows_queue
      split: option.splits sum.splits prod.splits)

lemma rows_queued: "queuePhysicalBackup env now policy item source host level operator trigger parent w = (a, w') \<Longrightarrow>
    rows_ok w \<Longrightarrow> rows_ok w'"
  by (auto simp: queuePhysicalBackup_def Let_def if_distrib [of rows_ok] dest!: rows_created(1,5) dest: rows_queue
      split: option.splits sum.splits prod.splits)

lemma rows_physical: "startPhysicalBackup env now policy item source host level operator trigger w = (a, w') \<Longrightarrow>
    rows_ok w \<Longrightarrow> rows_ok w'"
  by (auto simp: startPhysicalBackup_def dest: rows_parent rows_queued split: option.splits sum.splits prod.splits if_splits)

lemma rows_under_lock:
  assumes "underPolicyLock policy start w = (a, w')" "rows_ok w"
    and "\<And>w b w'. start w = (b, w') \<Longrightarrow> rows_ok w \<Longrightarrow> rows_ok w'"
  shows "rows_ok w'"
  using assms(1,2) by (auto simp: underPolicyLock_def dest: rows_created(6) assms(3) split: sum.splits prod.splits)

lemma rows_synthetic: "runBackupPolicySyntheticFull env now i operator trigger reason j w = (a, w') \<Longrightarrow> rows_ok w \<Longrightarrow> rows_ok w'"
  by (auto simp: runBackupPolicySyntheticFull_def dest!: rows_prepare split: sum.splits prod.splits
      intro: rows_under_lock rows_start)

lemma rows_backup: "runBackupPolicy env now i level operator trigger w = (a, w') \<Longrightarrow> rows_ok w \<Longrightarrow> rows_ok w'"
  by (auto simp: runBackupPolicy_def split: if_splits option.splits sum.splits intro: rows_under_lock rows_physical)

lemma rows_auto: "rows_ok w \<Longrightarrow> rows_ok (maybeRunBackupPolicySyntheticAfterSuccess env now i j reason w)"
  by (auto simp: maybeRunBackupPolicySyntheticAfterSuccess_def Let_def dest!: rows_checked dest: rows_synthetic
      split: option.split sum.split prod.split if_splits)

lemma rows_leave [simp]: "rows_ok w \<Longrightarrow> rows_ok (leaveBackground env now bg w)"
  by (simp add: leaveBackground_def Let_def rows_auto)

lemma rows_step: "rows_ok w \<Longrightarrow> rows_ok (chain_step env op w)"
proof (cases op)
  case (OpBackup now i level operator trigger)
  then show "rows_ok w \<Longrightarrow> ?thesis" using rows_backup by (metis chain_step.simps(1) surjective_pairing)
next
  case (OpSynthetic now i operator)
  then show "rows_ok w \<Longrightarrow> ?thesis" using rows_synthetic by (metis chain_step.simps(2) surjective_pairing)
next
  case (OpBegin started n)
  obtain rows u where "beginJob env started (cwBackground w ! n) w = (rows, u)" by (metis surj_pair)
  then show "rows_ok w \<Longrightarrow> ?thesis" using OpBegin by (auto dest: rows_begin split: option.split)
next
  case (OpTaskStart t i)
  then show "rows_ok w \<Longrightarrow> ?thesis" by (auto dest: rows_created(7) split: sum.split)
next
  case (OpValidate now i)
  obtain a u where "ValidateBackupPolicyChain env now i w = (a, u)" by (metis surj_pair)
  moreover from this have "rows_ok w \<Longrightarrow> rows_ok u"
    by (auto simp: ValidateBackupPolicyChain_def dest: rows_checked split: if_splits option.splits)
  ultimately show "rows_ok w \<Longrightarrow> ?thesis" using OpValidate by simp
next
  case (OpPreview now i)
  obtain a u where "PreviewBackupPolicySyntheticFull env now i w = (a, u)" by (metis surj_pair)
  moreover from this have "rows_ok w \<Longrightarrow> rows_ok u"
    by (auto simp: PreviewBackupPolicySyntheticFull_def dest: rows_checked split: if_splits option.splits prod.splits sum.splits)
  ultimately show "rows_ok w \<Longrightarrow> ?thesis" using OpPreview by simp
qed simp_all

lemma rows_run: "rows_ok w \<Longrightarrow> rows_ok (chain_run env ops w)"
  by (induction ops arbitrary: w) (simp_all add: rows_step)



end
