(* ===== verification/Restore_Plan.thy ===== *)
theory Restore_Plan
  imports Backup_Chain
begin

text \<open>
  Plans of point-in-time restores (internal/biz/database/backup_pitr.go, with the queries of backup_repository.go and
  backup_pitr_repository.go): which backup a restore to a time or a log position starts from, which incremental backups
  and archived logs follow it, and the checks that decide whether the plan passed. A plan is stored whatever its checks
  say.

  The reading and printing of times, a hundred years from now, the catalogue of Barman servers and failures of
  repositories are parameters. The JSON columns of a plan are the values they are made of, proofs are the rows they
  describe. A sort with nil times last is written as the sorted rows with a time followed by the others.
\<close>

section \<open>Data\<close>

abbreviation LogArchived :: string where "LogArchived \<equiv> ''archived''"

datatype plan_storage = StorageAvailable | StorageMissingObject | StorageChecksumFailed | StoragePermissionDenied | StorageUnsupported

datatype plan_tool = ToolCompatible | ToolIncompatible | ToolMissing | ToolPermissionDenied | ToolUnsupported

datatype plan_validation = PlanPending | PlanPassed | PlanWarning | PlanFailed

datatype plan_message =
    NoBaseBackup | LogicalNoPITR | StorageText plan_storage | ToolText plan_tool | LogRepoMissing | LogListFailed string
  | ParentOutside nat nat | NoLogsInRange | LogMarkedMissingText | LogChecksumText | LogRangeGap | TargetNotCovered
  | MySQLLogs chain_text | PlanOk | PlanNotOk
  | NoPostgreSQLBase | IncrementStorage nat plan_storage | IncrementTool nat plan_tool | ManifestMissing nat
  | NotAnIncrement nat | OtherBase nat nat nat | NoParent nat | BarmanRepoMissing | BarmanListFailed string
  | BarmanUnknown string | BarmanAmbiguous | BarmanCheckFailed | NoRunnerURI | WALGExternal | PgBackRestExternal
  | ServerSystemDiffers string string | CatalogFailed "string option" | WALSystemDiffers string string string | TimelineDiffers string string | TargetTimeMissing
  | TimelineUnknown | NoEndLSN | EndLSNInvalid | SegmentRangeError wal_error | SegmentMissing string
  | SegmentMarkedMissing string | SegmentChecksum string | SegmentTimeline string string string | SegmentsNotContiguous
  | HistoryMissing string | WALChecksum string | WALMissing string | BaseBackupPassed | WALGChecked | PgBackRestChecked
  | BarmanPassed | PgPlanNotOk

record restorePlanValidationResult =
  vrBaseRecordID :: nat
  vrBackupRecordIDs :: "nat list"
  vrLogArchiveIDs :: "nat list"
  vrBackupChain :: chain_status
  vrLogChain :: chain_status
  vrStorage :: plan_storage
  vrTool :: plan_tool
  vrValidation :: plan_validation
  vrRecoverableFrom :: "gotime option"
  vrRecoverableUntil :: "gotime option"
  vrBackupProofs :: "DatabaseBackupRecord list"
  vrLogProofs :: "DatabaseLogArchive list"
  vrValidationSQL :: "string list"
  vrMessages :: "plan_message list"
  vrRunnerHostID :: nat
  vrBarmanServerID :: nat
  vrBarmanServerName :: string
  vrTargetTimelineID :: string
  vrTargetLSN :: string

record DatabaseRestorePlan =
  rpID :: nat
  rpSourceInstanceID :: nat
  rpTargetInstanceID :: nat
  rpRunnerHostID :: nat
  rpRestoreMode :: string
  rpTargetType :: string
  rpTargetValue :: string
  rpTargetInclusive :: bool
  rpSelectedBaseRecordID :: nat
  rpSelectedBackupRecordIDs :: "nat list"
  rpSelectedLogArchiveIDs :: "nat list"
  rpBackupChain :: chain_status
  rpLogChain :: chain_status
  rpStorage :: plan_storage
  rpTool :: plan_tool
  rpValidation :: plan_validation
  rpRestoreStatus :: string
  rpEstimatedBytes :: int
  rpEstimatedMinutes :: int
  rpResult :: restorePlanValidationResult
  rpOperatorID :: nat
  rpOperatorName :: string

record DatabaseRestorePlanRequest =
  rqSourceInstanceID :: nat
  rqTargetInstanceID :: nat
  rqRestoreMode :: string
  rqTargetType :: string
  rqTargetValue :: string
  rqTargetInclusive :: bool
  rqTargetTimelineID :: string
  rqBaseRecordID :: nat

record DatabaseBarmanServer =
  bsID :: nat
  bsRunnerHostID :: nat
  bsBarmanServerName :: string
  bsLastCheckStatus :: string
  bsSystemIdentifier :: string
  bsWALSegmentSize :: int

text \<open>Of the table of backup tasks only the capability to restore is touched.\<close>

record restore_world =
  rwPurge :: purge_world
  rwPlans :: "DatabaseRestorePlan list"
  rwTaskCapability :: "(nat \<times> string) list"

record restore_env =
  rePurge :: purge_env
  rePlanRepo :: bool
  reTaskRepo :: bool
  reBarmanRepo :: bool
  reEnvironment :: "nat \<Rightarrow> string" \<comment> \<open>the column of an instance\<close>
  reParseTime :: "string \<Rightarrow> gotime option" \<comment> \<open>one of the layouts of \<open>parseDatabaseTime\<close>\<close>
  reFormatTime :: "gotime \<Rightarrow> string"
  reHundredYears :: "gotime \<Rightarrow> gotime"
  reBarmanServers :: "nat \<Rightarrow> string + DatabaseBarmanServer list"
  reLogListErr :: "string option"
  rePlanErr :: "DatabaseRestorePlan \<Rightarrow> string option"
  reTaskErr :: "nat \<Rightarrow> bool"

datatype restore_error =
    RestoreRepoMissing | SourceNotGiven | SourceInstanceGone | TargetInstanceGone | TargetIsProduction
  | OnlyTimeSupported | TargetTimeInvalid | RestoreListFailed string | PlanNotSaved string
  | PgTimeInvalid | PgLSNInvalid | PgTargetUnsupported | BaseNotFound | BaseOtherInstance | BaseNotSuccess | BaseNotPhysical
  | BaseStartsLate | BaseFinishedLate
  | RestorePanic \<comment> \<open>the panic of a segment range, see \<open>SegmentRange\<close>\<close>

section \<open>Queries\<close>

text \<open>Rows in the order of a time that may be missing: ascending with the missing ones last, as the sorts of the code
  have it, and descending with them last, as the database does.\<close>

definition timesUp :: "('a \<Rightarrow> gotime option) \<Rightarrow> 'a list \<Rightarrow> 'a list" where
  "timesUp f rows = sort_key (\<lambda>x. the (f x)) (filter (\<lambda>x. f x \<noteq> None) rows) @ filter (\<lambda>x. f x = None) rows"

definition timesDown :: "('a \<Rightarrow> gotime option) \<Rightarrow> 'a list \<Rightarrow> 'a list" where
  "timesDown f rows = sort_key (\<lambda>x. - the (f x)) (filter (\<lambda>x. f x \<noteq> None) rows) @ filter (\<lambda>x. f x = None) rows"

definition notAfter :: "gotime option \<Rightarrow> gotime \<Rightarrow> bool" where
  "notAfter t bound \<longleftrightarrow> (case t of None \<Rightarrow> True | Some t \<Rightarrow> t \<le> bound)"

definition ListSuccessfulForRestore ::
  "purge_world \<Rightarrow> nat \<Rightarrow> gotime option \<Rightarrow> DatabaseBackupRecord list" where
  "ListSuccessfulForRestore w instanceID targetTime =
     timesDown brFinishedAt (rev (sort_key brID (filter (\<lambda>r. brInstanceID r = instanceID \<and> brStatus r = BackupSuccess
       \<and> (case targetTime of None \<Rightarrow> True
          | Some t \<Rightarrow> notAfter (brFinishedAt r) t \<and> notAfter (brRecoverableFrom r) t)) (pwRecords w))))"

definition ListCoveringTimeRange ::
  "purge_world \<Rightarrow> nat \<Rightarrow> string \<Rightarrow> gotime \<Rightarrow> gotime \<Rightarrow> DatabaseLogArchive list" where
  "ListCoveringTimeRange w instanceID archiveType startTime endTime =
     sort_key (\<lambda>a. the (laFirstEventTime a)) (sort_key laID (filter (\<lambda>a. laInstanceID a = instanceID
       \<and> laArchiveType a = archiveType \<and> laStatus a \<in> set [LogArchived, LogChecksumFailed, LogMissing]
       \<and> (case (laFirstEventTime a, laLastEventTime a) of
            (Some f, Some l) \<Rightarrow> startTime \<le> l \<and> f \<le> endTime | _ \<Rightarrow> False)) (pwLogs w)))"

section \<open>Helpers\<close>

definition isProductionEnvironment :: "string \<Rightarrow> bool" where
  "isProductionEnvironment environment \<longleftrightarrow> ToLower (TrimSpace environment) \<in> set [''prod'', ''production'', ''prd'']"

definition archiveTypeForEngine :: "string \<Rightarrow> string" where
  "archiveTypeForEngine engine =
     (let t = normalizeDBType engine in
      if t \<in> set [DBTypeMySQL, DBTypeMariaDB, DBTypeTiDB, DBTypeOceanBase] then ''binlog''
      else if t \<in> set [DBTypePostgreSQL, DBTypeOpenGauss] then ''wal'' else [])"

definition normalizeExternalToolEngineName :: "string \<Rightarrow> string" where
  "normalizeExternalToolEngineName value =
     (let v = engineName value in
      if v = ''wal_g'' then ''walg''
      else if v \<in> set [''pg_backrest'', ''pg_back_rest''] then ''pgbackrest''
      else if v \<in> set [''mariadb_backup'', ''mariabackup''] then ''mariadb_backup''
      else if v \<in> set [''pg_basebackup'', ''pgbasebackup''] then ''pg_basebackup'' else v)"

definition validationSQLForRestorePlan :: "DatabaseInstance \<Rightarrow> string list" where
  "validationSQLForRestorePlan item =
     (let t = normalizeDBType (iDBType item) in
      if t \<in> set [DBTypeMySQL, DBTypeMariaDB]
      then [''SELECT 1 AS restore_probe'', ''SELECT @@version AS version'', ''SHOW DATABASES'']
      else if t = DBTypePostgreSQL
      then [''SELECT 1 AS restore_probe'', ''SELECT version()'',
            ''SELECT datname FROM pg_database WHERE datistemplate = false'']
      else [''SELECT 1 AS restore_probe''])"

definition storageStatusForBackupRecord :: "DatabaseBackupRecord \<Rightarrow> plan_storage" where
  "storageStatusForBackupRecord r =
     (if brVerifyStatus r = BackupFailed then StorageChecksumFailed
      else if TrimSpace (brStorageURI r) = [] \<and> TrimSpace (brFilePath r) = [] then StorageMissingObject
      else if TrimSpace (brChecksumSHA256 r) \<noteq> [] \<and> go_len (TrimSpace (brChecksumSHA256 r)) \<noteq> 64
      then StorageChecksumFailed else StorageAvailable)"

definition toolStatusForBackupRecord :: "DatabaseBackupRecord \<Rightarrow> plan_tool" where
  "toolStatusForBackupRecord r =
     (if TrimSpace (brBackupEngine r) = [] \<and> TrimSpace (brToolName r) = [] then ToolUnsupported else ToolCompatible)"

text \<open>Proofs: the selected rows, each once.\<close>

definition backupRecordsByIDs :: "DatabaseBackupRecord list \<Rightarrow> nat list \<Rightarrow> DatabaseBackupRecord list" where
  "backupRecordsByIDs records ids = List.map_filter (byID records) (rev (remdups (rev ids)))"

definition buildSelectedBackupProofs :: "DatabaseBackupRecord list \<Rightarrow> nat list \<Rightarrow> DatabaseBackupRecord list" where
  "buildSelectedBackupProofs records ids = backupRecordsByIDs records ids"

definition buildSelectedLogProofs :: "DatabaseLogArchive list \<Rightarrow> nat list \<Rightarrow> DatabaseLogArchive list" where
  "buildSelectedLogProofs logs ids = filter (\<lambda>a. laID a \<in> set ids) logs"

definition estimateRestoreBytes :: "restorePlanValidationResult \<Rightarrow> int" where
  "estimateRestoreBytes v =
     foldl (\<lambda>n size. if size > 0 then wrapSize (n + size) else n) 0
       (map brFileSize (vrBackupProofs v) @ map laFileSize (vrLogProofs v))"

definition estimateRestoreMinutes :: "restorePlanValidationResult \<Rightarrow> int" where
  "estimateRestoreMinutes v =
     (let total = estimateRestoreBytes v; unit = 2 * 1024 * 1024 * 1024 in
      if total \<le> 0 then 0 else max 1 (wrapSize (total + (unit - 1)) div unit))"

section \<open>Checks\<close>

definition selectRestoreBaseRecord :: "DatabaseBackupRecord list \<Rightarrow> gotime \<Rightarrow> DatabaseBackupRecord option" where
  "selectRestoreBaseRecord records targetTime =
     (let candidates = timesDown brFinishedAt (filter (\<lambda>r. brStatus r = BackupSuccess
            \<and> notAfter (brRecoverableFrom r) targetTime \<and> notAfter (brFinishedAt r) targetTime) records) in
      case find (\<lambda>r. normalizeBackupMethod (brBackupMethod r) \<noteq> ''logical''
                   \<and> normalizeBackupLevel (brBackupLevel r) = BackupLevelFull) candidates of
        Some r \<Rightarrow> Some r
      | None \<Rightarrow> (case candidates of [] \<Rightarrow> None | r # _ \<Rightarrow> Some r))"

definition sameChain :: "DatabaseBackupRecord \<Rightarrow> gotime \<Rightarrow> DatabaseBackupRecord \<Rightarrow> bool" where
  "sameChain base targetTime r \<longleftrightarrow> brID r \<noteq> brID base \<and> brStatus r = BackupSuccess
     \<and> normalizeBackupMethod (brBackupMethod r) = normalizeBackupMethod (brBackupMethod base)
     \<and> (TrimSpace (brBackupEngine r) \<noteq> [] \<and> TrimSpace (brBackupEngine base) \<noteq> [] \<longrightarrow>
          normalizeExternalToolEngineName (brBackupEngine r) = normalizeExternalToolEngineName (brBackupEngine base))
     \<and> normalizeBackupLevel (brBackupLevel r) = BackupLevelIncremental
     \<and> (brChainID r \<noteq> [] \<and> brChainID base \<noteq> [] \<longrightarrow> brChainID r = brChainID base)
     \<and> notAfter (brFinishedAt r) targetTime"

fun incrementLoop ::
  "nat list \<Rightarrow> DatabaseBackupRecord list \<Rightarrow> chain_status \<Rightarrow> chain_status \<times> nat list \<times> plan_message list" where
  "incrementLoop selected [] status = (status, [], [])"
| "incrementLoop selected (r # rs) status =
     (let outside = brParentRecordID r > 0 \<and> brParentRecordID r \<notin> set selected in
      case incrementLoop (brID r # selected) rs (if outside then ChainMissingIncremental else status) of
        (status, ids, messages) \<Rightarrow>
          (status, brID r # ids, (if outside then [ParentOutside (brID r) (brParentRecordID r)] else []) @ messages))"

definition validateIncrementalBackupChain ::
  "DatabaseBackupRecord list \<Rightarrow> DatabaseBackupRecord \<Rightarrow> gotime \<Rightarrow> chain_status \<times> nat list \<times> plan_message list" where
  "validateIncrementalBackupChain records base targetTime =
     incrementLoop [brID base] (timesUp brFinishedAt (filter (sameChain base targetTime) records)) ChainComplete"

definition missingLogStatus :: "string \<Rightarrow> chain_status" where
  "missingLogStatus archiveType = (if archiveType = ''wal'' then ChainMissingWAL else ChainMissingBinlog)"

definition logTolerance :: gotime where
  "logTolerance = 60 * 10 ^ 9"

fun coverageLoop ::
  "string \<Rightarrow> gotime \<Rightarrow> DatabaseLogArchive list \<Rightarrow> gotime \<Rightarrow> nat list
   \<Rightarrow> chain_status \<times> nat list \<times> plan_message option" where
  "coverageLoop archiveType endTime [] cursor ids =
     (if cursor < endTime then (missingLogStatus archiveType, ids, Some TargetNotCovered) else (ChainComplete, ids, None))"
| "coverageLoop archiveType endTime (a # rest) cursor ids =
     (case (laFirstEventTime a, laLastEventTime a) of
        (Some f, Some l) \<Rightarrow>
          if laStatus a = LogMissing then (missingLogStatus archiveType, ids, Some LogMarkedMissingText)
          else if laStatus a = LogChecksumFailed then (ChainTimeRangeGap, ids, Some LogChecksumText)
          else if f > cursor + logTolerance then (ChainTimeRangeGap, ids, Some LogRangeGap)
          else
            let cursor = (if l > cursor then l else cursor); ids = ids @ [laID a] in
            if \<not> cursor < endTime then (ChainComplete, ids, None)
            else coverageLoop archiveType endTime rest cursor ids
      | _ \<Rightarrow> coverageLoop archiveType endTime rest cursor ids)"

definition validateLogArchiveCoverage ::
  "DatabaseLogArchive list \<Rightarrow> string \<Rightarrow> gotime \<Rightarrow> gotime \<Rightarrow> chain_status \<times> nat list \<times> plan_message option" where
  "validateLogArchiveCoverage items archiveType startTime endTime =
     (if items = [] then (missingLogStatus archiveType, [], Some NoLogsInRange)
      else coverageLoop archiveType endTime (timesUp laFirstEventTime items) startTime [])"

section \<open>The check of a plan by time\<close>

definition emptyResult :: "DatabaseInstance \<Rightarrow> restorePlanValidationResult" where
  "emptyResult item =
     \<lparr>vrBaseRecordID = 0, vrBackupRecordIDs = [], vrLogArchiveIDs = [], vrBackupChain = ChainMissingBase,
      vrLogChain = ChainUnsupported, vrStorage = StorageUnsupported, vrTool = ToolUnsupported, vrValidation = PlanFailed,
      vrRecoverableFrom = None, vrRecoverableUntil = None, vrBackupProofs = [], vrLogProofs = [],
      vrValidationSQL = validationSQLForRestorePlan item, vrMessages = [], vrRunnerHostID = 0, vrBarmanServerID = 0,
      vrBarmanServerName = [], vrTargetTimelineID = [], vrTargetLSN = []\<rparr>"

definition say :: "plan_message list \<Rightarrow> restorePlanValidationResult \<Rightarrow> restorePlanValidationResult" where
  "say ms v = v\<lparr>vrMessages := vrMessages v @ ms\<rparr>"

text \<open>The four checks have to hold for a plan to pass.\<close>

definition allChecks :: "restorePlanValidationResult \<Rightarrow> bool" where
  "allChecks v \<longleftrightarrow> vrBackupChain v = ChainComplete \<and> vrLogChain v = ChainComplete \<and> vrStorage v = StorageAvailable
     \<and> vrTool v = ToolCompatible"

definition chainAndStorage ::
  "DatabaseBackupRecord list \<Rightarrow> DatabaseBackupRecord \<Rightarrow> gotime \<Rightarrow> restorePlanValidationResult
   \<Rightarrow> restorePlanValidationResult" where
  "chainAndStorage records base targetTime v =
     (case validateIncrementalBackupChain records base targetTime of
        (status, ids, messages) \<Rightarrow>
          let ids = brID base # ids in
          say messages (v\<lparr>vrBaseRecordID := brID base, vrBackupRecordIDs := ids, vrBackupChain := status,
            vrBackupProofs := buildSelectedBackupProofs records ids, vrStorage := storageStatusForBackupRecord base,
            vrTool := toolStatusForBackupRecord base\<rparr>))"

definition sayStatus :: "restorePlanValidationResult \<Rightarrow> restorePlanValidationResult" where
  "sayStatus v =
     say ((if vrStorage v \<noteq> StorageAvailable then [StorageText (vrStorage v)] else [])
        @ (if vrTool v \<noteq> ToolCompatible then [ToolText (vrTool v)] else [])) v"

definition planLogs ::
  "restore_env \<Rightarrow> restore_world \<Rightarrow> DatabaseInstance \<Rightarrow> DatabaseBackupRecord \<Rightarrow> gotime \<Rightarrow> gotime
   \<Rightarrow> restorePlanValidationResult \<Rightarrow> restorePlanValidationResult" where
  "planLogs env w item base logStart targetTime v =
     (let archiveType = archiveTypeForEngine (normalizeDBType (iDBType item)) in
      if archiveType = [] then v\<lparr>vrLogChain := ChainUnsupported\<rparr>
      else if \<not> peLogRepo (rePurge env) then say [LogRepoMissing] (v\<lparr>vrLogChain := ChainUnsupported\<rparr>)
      else case reLogListErr env of
        Some m \<Rightarrow> say [LogListFailed m] (v\<lparr>vrLogChain := ChainUnsupported\<rparr>)
      | None \<Rightarrow>
          let logs = ListCoveringTimeRange (rwPurge w) (brInstanceID base) archiveType logStart targetTime in
          case validateLogArchiveCoverage logs archiveType logStart targetTime of
            (status, ids, message) \<Rightarrow>
              let v = v\<lparr>vrLogChain := status, vrLogArchiveIDs := ids, vrLogProofs := buildSelectedLogProofs logs ids\<rparr>;
                  v = say (case message of None \<Rightarrow> [] | Some m \<Rightarrow> [m]) v;
                  v = (if archiveType = ''binlog'' \<and> status = ChainComplete then
                         (case validateMySQLRestoreLogMetadata base (timesUp laFirstEventTime logs) of
                            (status, text) \<Rightarrow>
                              if status \<noteq> ChainComplete then say [MySQLLogs text] (v\<lparr>vrLogChain := status\<rparr>) else v)
                       else v)
              in if list_ex (\<lambda>a. laStatus a = LogChecksumFailed) logs then v\<lparr>vrStorage := StorageChecksumFailed\<rparr> else v)"

text \<open>The start of the logs a plan needs: what the base backup holds, or else its end.\<close>

definition logStart :: "DatabaseBackupRecord \<Rightarrow> gotime option" where
  "logStart base = (case brRecoverableUntil base of Some t \<Rightarrow> Some t | None \<Rightarrow> brFinishedAt base)"

definition planStart ::
  "DatabaseInstance \<Rightarrow> DatabaseBackupRecord list \<Rightarrow> DatabaseBackupRecord \<Rightarrow> gotime \<Rightarrow> restorePlanValidationResult" where
  "planStart item records base targetTime =
     sayStatus (chainAndStorage records base targetTime
       ((emptyResult item)\<lparr>vrBaseRecordID := brID base, vrBackupRecordIDs := [brID base],
          vrRecoverableFrom := brRecoverableFrom base, vrRecoverableUntil := brRecoverableUntil base\<rparr>))"

definition planLogPart ::
  "restore_env \<Rightarrow> restore_world \<Rightarrow> DatabaseInstance \<Rightarrow> DatabaseBackupRecord \<Rightarrow> gotime \<Rightarrow> restorePlanValidationResult
   \<Rightarrow> restorePlanValidationResult" where
  "planLogPart env w item base targetTime v =
     (case logStart base of
        None \<Rightarrow> v\<lparr>vrLogChain := ChainComplete\<rparr>
      | Some t \<Rightarrow> if \<not> targetTime > t then v\<lparr>vrLogChain := ChainComplete\<rparr> else planLogs env w item base t targetTime v)"

definition planVerdict :: "restorePlanValidationResult \<Rightarrow> restorePlanValidationResult" where
  "planVerdict v =
     (if allChecks v then say [PlanOk] (v\<lparr>vrValidation := PlanPassed\<rparr>)
      else if vrMessages v = [] then say [PlanNotOk] v else v)"

definition validateRestorePlan ::
  "restore_env \<Rightarrow> restore_world \<Rightarrow> DatabaseInstance \<Rightarrow> DatabaseBackupRecord list \<Rightarrow> DatabaseBackupRecord option
   \<Rightarrow> gotime \<Rightarrow> restorePlanValidationResult" where
  "validateRestorePlan env w item records baseOpt targetTime =
     (case baseOpt of
        None \<Rightarrow> say [NoBaseBackup] (emptyResult item)
      | Some base \<Rightarrow>
          if normalizeBackupMethod (brBackupMethod base) = ''logical'' then
            say [LogicalNoPITR] ((emptyResult item)\<lparr>vrBaseRecordID := brID base, vrBackupRecordIDs := [brID base],
              vrRecoverableFrom := brRecoverableFrom base, vrRecoverableUntil := brRecoverableUntil base,
              vrBackupChain := ChainUnsupported, vrLogChain := ChainUnsupported,
              vrStorage := StorageAvailable, vrTool := ToolUnsupported\<rparr>)
          else planVerdict (planLogPart env w item base targetTime (planStart item records base targetTime)))"

end
