(* ===== verification/Restore_Pg.thy ===== *)
theory Restore_Pg
  imports Restore_Plan
begin

text \<open>
  The restore plans of PostgreSQL (backup_pitr.go): targets are times or log positions, the logs are the archived WAL
  segments of the catalogue, compared by system identifier, timeline and segment number; and \<open>CreateRestorePlan\<close>, which
  chooses between the two families.
\<close>

section \<open>Targets and base backups\<close>

record postgreSQLRestoreTarget =
  ptType :: string
  ptValue :: string
  ptTime :: "gotime option"
  ptLSN :: uint64
  ptTimelineID :: string

definition restoreTargetTime :: "restore_env \<Rightarrow> string \<Rightarrow> gotime option" where
  "restoreTargetTime env value =
     (let v = TrimSpace value in if v = [] then None else reParseTime env v)"

definition normalizePostgreSQLRestoreTarget ::
  "restore_env \<Rightarrow> string \<Rightarrow> string \<Rightarrow> string \<Rightarrow> restore_error + postgreSQLRestoreTarget" where
  "normalizePostgreSQLRestoreTarget env targetType value timelineID =
     (let t = ToLower (TrimSpace targetType);
          t = (if t = [] then ''time'' else t);
          timelineID = NormalizeTimelineID timelineID in
      if t = ''time'' then
        (case restoreTargetTime env value of
           None \<Rightarrow> Inl PgTimeInvalid
         | Some at \<Rightarrow> Inr \<lparr>ptType = ''time'', ptValue = reFormatTime env at, ptTime = Some at, ptLSN = 0,
             ptTimelineID = timelineID\<rparr>)
      else if t = ''lsn'' then
        (case ParseLSN value of
           Inl _ \<Rightarrow> Inl PgLSNInvalid
         | Inr lsn \<Rightarrow> Inr \<lparr>ptType = ''lsn'', ptValue = FormatLSN lsn, ptTime = None, ptLSN = lsn,
             ptTimelineID = timelineID\<rparr>)
      else Inl PgTargetUnsupported)"

definition normalizePostgreSQLPhysicalBackupEngine :: "string \<Rightarrow> string" where
  "normalizePostgreSQLPhysicalBackupEngine value =
     (let v = engineName value in
      if v \<in> set [[], ''barman''] then ''barman''
      else if v \<in> set [''pg_basebackup'', ''pgbasebackup''] then ''pg_basebackup''
      else if v \<in> set [''walg'', ''wal_g''] then ''walg''
      else if v \<in> set [''pgbackrest'', ''pg_backrest'', ''pg_back_rest''] then ''pgbackrest''
      else trimText v 60)"

definition isPostgreSQLExternalMetadataBackupEngine :: "string \<Rightarrow> bool" where
  "isPostgreSQLExternalMetadataBackupEngine engine \<longleftrightarrow>
     normalizePostgreSQLPhysicalBackupEngine engine \<in> set [''walg'', ''pgbackrest'']"

definition isPostgreSQLPhysicalBaseRecord :: "DatabaseBackupRecord \<Rightarrow> bool" where
  "isPostgreSQLPhysicalBaseRecord r =
     (let methodName = normalizeBackupMethod (brBackupMethod r);
          engine = normalizePostgreSQLPhysicalBackupEngine (brBackupEngine r);
          external = TrimSpace (pbExternalBackupID (brPostgreSQL r)) \<noteq> [];
          file = TrimSpace (brStorageURI r) \<noteq> [] \<or> TrimSpace (brFilePath r) \<noteq> [] in
      if normalizeBackupLevel (brBackupLevel r) \<noteq> BackupLevelFull then False
      else if methodName \<noteq> BackupMethodPhysical
              \<and> \<not> (methodName = ''external'' \<and> isPostgreSQLExternalMetadataBackupEngine engine) then False
      else if engine = ''barman'' then external
      else if engine = ''pg_basebackup'' then file
      else if engine \<in> set [''walg'', ''pgbackrest''] then external \<or> file
      else False)"

text \<open>The first physical full backup that ended before the position; without a position any will do.\<close>

definition endsBefore :: "postgreSQLRestoreTarget \<Rightarrow> DatabaseBackupRecord \<Rightarrow> bool" where
  "endsBefore target r \<longleftrightarrow>
     (if ptType target \<noteq> ''lsn'' then True
      else let text = TrimSpace (pbEndLSN (brPostgreSQL r)) in
        if text \<noteq> [] then (case ParseLSN text of Inl _ \<Rightarrow> False | Inr endLSN \<Rightarrow> endLSN \<le> ptLSN target) else True)"

definition selectPostgreSQLPhysicalBaseRecord ::
  "DatabaseBackupRecord list \<Rightarrow> postgreSQLRestoreTarget \<Rightarrow> DatabaseBackupRecord option" where
  "selectPostgreSQLPhysicalBaseRecord records target =
     find (\<lambda>r. isPostgreSQLPhysicalBaseRecord r \<and> endsBefore target r) records"

definition validateRequestedPostgreSQLBaseRecord ::
  "DatabaseBackupRecord \<Rightarrow> nat \<Rightarrow> postgreSQLRestoreTarget \<Rightarrow> restore_error option" where
  "validateRequestedPostgreSQLBaseRecord r sourceInstanceID target =
     (if brInstanceID r \<noteq> sourceInstanceID then Some BaseOtherInstance
      else if TrimSpace (brStatus r) \<noteq> BackupSuccess then Some BaseNotSuccess
      else if \<not> isPostgreSQLPhysicalBaseRecord r then Some BaseNotPhysical
      else case ptTime target of
        None \<Rightarrow> None
      | Some t \<Rightarrow>
          (case (brRecoverableFrom r, brFinishedAt r) of
             (Some f, _) \<Rightarrow> if f > t then Some BaseStartsLate else None
           | (None, Some f) \<Rightarrow> if f > t then Some BaseFinishedLate else None
           | (None, None) \<Rightarrow> None))"

definition postgreSQLRestoreBaseRecordFromRequest ::
  "restore_world \<Rightarrow> DatabaseRestorePlanRequest \<Rightarrow> postgreSQLRestoreTarget \<Rightarrow> DatabaseBackupRecord list
   \<Rightarrow> restore_error + DatabaseBackupRecord" where
  "postgreSQLRestoreBaseRecordFromRequest w req target candidates =
     (let row = (case find (\<lambda>r. brID r = rqBaseRecordID req) candidates of
                   Some r \<Rightarrow> Some r | None \<Rightarrow> recordByID (rwPurge w) (rqBaseRecordID req)) in
      case row of
        None \<Rightarrow> Inl BaseNotFound
      | Some r \<Rightarrow> (case validateRequestedPostgreSQLBaseRecord r (rqSourceInstanceID req) target of
                      Some e \<Rightarrow> Inl e | None \<Rightarrow> Inr r))"

definition backupRecordInList :: "DatabaseBackupRecord list \<Rightarrow> nat \<Rightarrow> bool" where
  "backupRecordInList records i \<longleftrightarrow> list_ex (\<lambda>r. brID r = i) records"

section \<open>Incremental backups of the server\<close>

definition noManifest :: "DatabaseBackupRecord \<Rightarrow> bool" where
  "noManifest r \<longleftrightarrow> TrimSpace (pbManifestChecksum (brPostgreSQL r)) = [] \<and> TrimSpace (pbManifestJSON (brPostgreSQL r)) = []"

fun incrementMetadata :: "nat \<Rightarrow> nat list \<Rightarrow> DatabaseBackupRecord list \<Rightarrow> plan_message option" where
  "incrementMetadata baseID seen [] = None"
| "incrementMetadata baseID seen (r # rest) =
     (if normalizeBackupLevel (brBackupLevel r) \<noteq> BackupLevelIncremental then Some (NotAnIncrement (brID r))
      else if brBaseRecordID r > 0 \<and> brBaseRecordID r \<noteq> baseID then Some (OtherBase (brID r) (brBaseRecordID r) baseID)
      else if brParentRecordID r = 0 then Some (NoParent (brID r))
      else if brParentRecordID r \<notin> set seen then Some (ParentOutside (brID r) (brParentRecordID r))
      else if noManifest r then Some (ManifestMissing (brID r))
      else incrementMetadata baseID (brID r # seen) rest)"

definition validatePgBaseBackupIncrementalMetadata :: "DatabaseBackupRecord list \<Rightarrow> plan_message option" where
  "validatePgBaseBackupIncrementalMetadata records =
     (case records of
        [] \<Rightarrow> None
      | [_] \<Rightarrow> None
      | base # rest \<Rightarrow>
          if noManifest base then Some (ManifestMissing (brID base)) else incrementMetadata (brID base) [brID base] rest)"

section \<open>Servers of Barman and runners\<close>

definition findBarmanServerForBackup ::
  "restore_env \<Rightarrow> DatabaseBackupRecord \<Rightarrow> plan_message + DatabaseBarmanServer" where
  "findBarmanServerForBackup env base =
     (if \<not> reBarmanRepo env then Inl BarmanRepoMissing
      else case reBarmanServers env (brInstanceID base) of
        Inl m \<Rightarrow> Inl (BarmanListFailed m)
      | Inr servers \<Rightarrow>
          let serverName = TrimSpace (pbExternalServerName (brPostgreSQL base)) in
          case find (\<lambda>s. serverName \<noteq> [] \<and> TrimSpace (bsBarmanServerName s) = serverName) servers of
            Some s \<Rightarrow> Inr s
          | None \<Rightarrow>
              if serverName \<noteq> [] then Inl (BarmanUnknown serverName)
              else (case servers of [s] \<Rightarrow> Inr s | _ \<Rightarrow> Inl BarmanAmbiguous))"

definition runnerHostIDFromRunnerStorageURI :: "string \<Rightarrow> nat" where
  "runnerHostIDFromRunnerStorageURI value =
     (let v = TrimSpace value in
      if \<not> HasPrefix v ''runner://runner-host-'' then 0
      else case ParseUint (takeWhile (\<lambda>c. c \<noteq> CHR ''/'') (TrimPrefix v ''runner://runner-host-'')) 10 64 of
        Some i \<Rightarrow> i | None \<Rightarrow> 0)"

definition postgreSQLWALSegmentSize :: "DatabaseBackupRecord \<Rightarrow> DatabaseBarmanServer option \<Rightarrow> int" where
  "postgreSQLWALSegmentSize base server =
     (if pbWALSegmentSize (brPostgreSQL base) > 0 then pbWALSegmentSize (brPostgreSQL base)
      else case server of
        Some s \<Rightarrow> if bsWALSegmentSize s > 0 then bsWALSegmentSize s else DefaultSegmentSize
      | None \<Rightarrow> DefaultSegmentSize)"

section \<open>The catalogue of WAL segments\<close>

definition listPostgreSQLWALArchivesForRestore ::
  "restore_env \<Rightarrow> restore_world \<Rightarrow> nat \<Rightarrow> string option + DatabaseLogArchive list" where
  "listPostgreSQLWALArchivesForRestore env w instanceID =
     (if \<not> peLogRepo (rePurge env) then Inl None
      else case reLogListErr env of
        Some m \<Rightarrow> Inl (Some m)
      | None \<Rightarrow> Inr (take 10000 (timesDown laFirstEventTime (rev (sort_key laID
          (filter (\<lambda>a. (instanceID > 0 \<longrightarrow> laInstanceID a = instanceID) \<and> laArchiveType a = ''wal'')
             (pwLogs (rwPurge w))))))))"

definition otherSystem :: "string \<Rightarrow> DatabaseLogArchive \<Rightarrow> bool" where
  "otherSystem systemID a \<longleftrightarrow> TrimSpace systemID \<noteq> [] \<and> TrimSpace (plSystemIdentifier (laPostgreSQL a)) \<noteq> []
     \<and> TrimSpace (plSystemIdentifier (laPostgreSQL a)) \<noteq> TrimSpace systemID"

text \<open>The timeline of a segment is read, but a segment of another timeline is kept like the others.\<close>

definition filterPostgreSQLWALArchives ::
  "DatabaseLogArchive list \<Rightarrow> string \<Rightarrow> string \<Rightarrow> string \<Rightarrow> DatabaseLogArchive list" where
  "filterPostgreSQLWALArchives items systemID timelineID externalServerName =
     (let server = TrimSpace externalServerName in
      filter (\<lambda>a. let own = TrimSpace (plExternalServerName (laPostgreSQL a)) in
                  if otherSystem systemID a then True
                  else if server \<noteq> [] \<and> own \<noteq> [] \<and> own \<noteq> server then False
                  else True) items)"

definition firstNonZeroInt64 :: "int list \<Rightarrow> int" where
  "firstNonZeroInt64 values = (case find (\<lambda>v. v > 0) values of Some v \<Rightarrow> v | None \<Rightarrow> 0)"

fun continuityLoop :: "string \<Rightarrow> DatabaseLogArchive list \<Rightarrow> plan_message + uint64 list" where
  "continuityLoop timelineID [] = Inr []"
| "continuityLoop timelineID (a # rest) =
     (if \<not> IsSegmentName (laFileName a) then continuityLoop timelineID rest
      else case ParseSegmentName (laFileName a) (plWALSegmentSize (laPostgreSQL a)) of
        Inl _ \<Rightarrow> continuityLoop timelineID rest
      | Inr s \<Rightarrow>
          if timelineID \<noteq> [] \<and> TimelineID s \<noteq> timelineID
          then Inl (SegmentTimeline (laFileName a) (TimelineID s) timelineID)
          else (case continuityLoop timelineID rest of Inl m \<Rightarrow> Inl m | Inr ns \<Rightarrow> Inr (SegmentNo s # ns)))"

fun consecutive :: "uint64 list \<Rightarrow> bool" where
  "consecutive (m # n # ns) = ((n = m \<or> n = m + 1) \<and> consecutive (n # ns))"
| "consecutive _ = True"

definition validatePostgreSQLWALContinuity ::
  "DatabaseLogArchive list \<Rightarrow> string \<Rightarrow> chain_status \<times> plan_message option" where
  "validatePostgreSQLWALContinuity logs timelineID =
     (case continuityLoop (NormalizeTimelineID timelineID) logs of
        Inl m \<Rightarrow> (ChainTimelineMismatch, Some m)
      | Inr segments \<Rightarrow>
          if consecutive (sort segments) then (ChainComplete, None) else (ChainMissingWAL, Some SegmentsNotContiguous))"

definition validatePostgreSQLTimeWALCoverage ::
  "DatabaseBackupRecord \<Rightarrow> DatabaseLogArchive list \<Rightarrow> postgreSQLRestoreTarget \<Rightarrow> string
   \<Rightarrow> chain_status \<times> nat list \<times> plan_message option" where
  "validatePostgreSQLTimeWALCoverage base logs target timelineID =
     (case ptTime target of
        None \<Rightarrow> (ChainTimeRangeGap, [], Some TargetTimeMissing)
      | Some targetTime \<Rightarrow>
          (case logStart base of
            None \<Rightarrow> (ChainComplete, [], None)
          | Some start \<Rightarrow>
              if \<not> targetTime > start then (ChainComplete, [], None)
              else
                let candidates = filter (\<lambda>a. \<not> IsTimelineHistoryFile (laFileName a)
                      \<and> (case (laFirstEventTime a, laLastEventTime a) of
                           (Some f, Some l) \<Rightarrow> \<not> (l < start \<or> f > targetTime) | _ \<Rightarrow> False)) logs in
                case validateLogArchiveCoverage candidates ''wal'' start targetTime of
                  (status, ids, message) \<Rightarrow>
                    if status \<noteq> ChainComplete then (status, ids, message)
                    else case validatePostgreSQLWALContinuity (timesUp laFirstEventTime candidates) timelineID of
                      (status, message) \<Rightarrow>
                        if status \<noteq> ChainComplete then (status, ids, message) else (ChainComplete, ids, None)))"

text \<open>The archive of a segment: of several, the last of the list.\<close>

definition segmentArchive :: "DatabaseLogArchive list \<Rightarrow> string \<Rightarrow> int \<Rightarrow> string \<Rightarrow> DatabaseLogArchive option" where
  "segmentArchive logs timelineID segmentSize name =
     find (\<lambda>a. IsSegmentName (laFileName a)
               \<and> (case ParseSegmentName (laFileName a)
                      (firstNonZeroInt64 [plWALSegmentSize (laPostgreSQL a), segmentSize]) of
                    Inl _ \<Rightarrow> False
                  | Inr s \<Rightarrow> TimelineID s = timelineID \<and> Name s = name)) (rev logs)"

fun segmentsLoop ::
  "(string \<Rightarrow> DatabaseLogArchive option) \<Rightarrow> Segment list \<Rightarrow> nat list \<Rightarrow> chain_status \<times> nat list \<times> plan_message option" where
  "segmentsLoop archive [] ids = (ChainComplete, ids, None)"
| "segmentsLoop archive (s # rest) ids =
     (case archive (Name s) of
        None \<Rightarrow> (ChainMissingWAL, ids, Some (SegmentMissing (Name s)))
      | Some a \<Rightarrow>
          if laStatus a = LogMissing then (ChainMissingWAL, ids, Some (SegmentMarkedMissing (Name s)))
          else if laStatus a = LogChecksumFailed then (ChainTimeRangeGap, ids, Some (SegmentChecksum (Name s)))
          else segmentsLoop archive rest (ids @ [laID a]))"

definition validatePostgreSQLLSNWALCoverage ::
  "DatabaseBackupRecord \<Rightarrow> DatabaseLogArchive list \<Rightarrow> postgreSQLRestoreTarget \<Rightarrow> string \<Rightarrow> int
   \<Rightarrow> chain_status \<times> nat list \<times> plan_message option" where
  "validatePostgreSQLLSNWALCoverage base logs target timelineID segmentSize =
     (let pg = brPostgreSQL base;
          timelineID = NormalizeTimelineID (firstNonEmpty [timelineID, pbTimelineID pg]);
          timelineID = (if timelineID = [] \<and> TrimSpace (pbWALEnd pg) \<noteq> []
                        then (case ParseSegmentName (pbWALEnd pg) segmentSize of Inr s \<Rightarrow> TimelineID s | Inl _ \<Rightarrow> timelineID)
                        else timelineID) in
      if timelineID = [] then (ChainTimelineMismatch, [], Some TimelineUnknown)
      else if TrimSpace (pbEndLSN pg) \<noteq> []
              \<and> (case ParseLSN (pbEndLSN pg) of Inr baseEnd \<Rightarrow> ptLSN target \<le> baseEnd | Inl _ \<Rightarrow> False)
      then (ChainComplete, [], None)
      else
        let start = (if TrimSpace (pbWALEnd pg) \<noteq> [] then Inr (TrimSpace (pbWALEnd pg))
                     else if TrimSpace (pbEndLSN pg) = [] then Inl NoEndLSN
                     else case ParseLSN (pbEndLSN pg) of
                       Inl _ \<Rightarrow> Inl EndLSNInvalid
                     | Inr baseEnd \<Rightarrow> Inr (Name (SegmentForLSN timelineID baseEnd segmentSize))) in
        case start of
          Inl m \<Rightarrow> (ChainLSNNotCovered, [], Some m)
        | Inr startName \<Rightarrow>
            (case SegmentRange startName (Name (SegmentForLSN timelineID (ptLSN target) segmentSize)) segmentSize 20000 of
               Inl e \<Rightarrow> (ChainLSNNotCovered, [], Some (SegmentRangeError e))
             | Inr required \<Rightarrow> segmentsLoop (segmentArchive logs timelineID segmentSize) required []))"

definition validatePostgreSQLWALCoverage ::
  "DatabaseBackupRecord \<Rightarrow> DatabaseLogArchive list \<Rightarrow> postgreSQLRestoreTarget \<Rightarrow> string \<Rightarrow> int
   \<Rightarrow> chain_status \<times> nat list \<times> plan_message option" where
  "validatePostgreSQLWALCoverage base logs target timelineID segmentSize =
     (if ptType target = ''lsn'' then validatePostgreSQLLSNWALCoverage base logs target timelineID segmentSize
      else validatePostgreSQLTimeWALCoverage base logs target timelineID)"

definition validatePostgreSQLTimelineHistory ::
  "DatabaseLogArchive list \<Rightarrow> string \<Rightarrow> chain_status \<times> plan_message option" where
  "validatePostgreSQLTimelineHistory logs timelineID =
     (let timelineID = NormalizeTimelineID timelineID in
      if timelineID = [] then (ChainComplete, None)
      else case TimelineNumber timelineID of
        Inl _ \<Rightarrow> (ChainComplete, None)
      | Inr n \<Rightarrow>
          if n \<le> 1 then (ChainComplete, None)
          else if list_ex (\<lambda>a. TimelineFromHistoryFile (laFileName a) = timelineID
                 \<or> Contains (ToUpper (plTimelineHistoryURI (laPostgreSQL a))) (timelineID @ ''.HISTORY'')) logs
          then (ChainComplete, None)
          else (ChainTimelineGap, Some (HistoryMissing timelineID)))"

section \<open>The check of a plan\<close>

text \<open>The files and the tools of the incremental backups: the first bad one is reported.\<close>

fun incrementStatus ::
  "nat \<Rightarrow> DatabaseBackupRecord list \<Rightarrow> restorePlanValidationResult \<Rightarrow> restorePlanValidationResult" where
  "incrementStatus baseID [] v = v"
| "incrementStatus baseID (r # rest) v =
     (if brID r = baseID then incrementStatus baseID rest v
      else if storageStatusForBackupRecord r \<noteq> StorageAvailable then
        say [IncrementStorage (brID r) (storageStatusForBackupRecord r)] (v\<lparr>vrStorage := storageStatusForBackupRecord r\<rparr>)
      else if toolStatusForBackupRecord r \<noteq> ToolCompatible then
        say [IncrementTool (brID r) (toolStatusForBackupRecord r)] (v\<lparr>vrTool := toolStatusForBackupRecord r\<rparr>)
      else incrementStatus baseID rest v)"

definition pgBackups ::
  "restore_env \<Rightarrow> gotime \<Rightarrow> DatabaseBackupRecord list \<Rightarrow> DatabaseBackupRecord \<Rightarrow> postgreSQLRestoreTarget
   \<Rightarrow> restorePlanValidationResult \<Rightarrow> restorePlanValidationResult" where
  "pgBackups env now records base target v =
     (let targetTime = (case ptTime target of Some t \<Rightarrow> t | None \<Rightarrow> reHundredYears env now);
          v = chainAndStorage records base targetTime v;
          selected = backupRecordsByIDs records (vrBackupRecordIDs v);
          v = sayStatus (incrementStatus (brID base) selected v) in
      if normalizePostgreSQLPhysicalBackupEngine (brBackupEngine base) = ''pg_basebackup'' \<and> length (vrBackupRecordIDs v) > 1
      then (case validatePgBaseBackupIncrementalMetadata selected of
              None \<Rightarrow> v
            | Some m \<Rightarrow> say [m] (v\<lparr>vrBackupChain := ChainMissingIncremental, vrTool := ToolIncompatible\<rparr>))
      else v)"

text \<open>What the engine of the base backup needs. The server of Barman is known only inside this switch.\<close>

definition pgEngine ::
  "restore_env \<Rightarrow> DatabaseBackupRecord \<Rightarrow> restorePlanValidationResult \<Rightarrow> restorePlanValidationResult" where
  "pgEngine env base v =
     (let engine = normalizePostgreSQLPhysicalBackupEngine (brBackupEngine base) in
      if engine = ''barman'' then
        (case findBarmanServerForBackup env base of
           Inl m \<Rightarrow> say [m] (v\<lparr>vrTool := ToolMissing\<rparr>)
         | Inr server \<Rightarrow>
             let v = v\<lparr>vrRunnerHostID := bsRunnerHostID server, vrBarmanServerID := bsID server,
                       vrBarmanServerName := bsBarmanServerName server\<rparr> in
             if TrimSpace (bsLastCheckStatus server) = ''failed''
             then say [BarmanCheckFailed] (v\<lparr>vrTool := ToolIncompatible\<rparr>) else v)
      else if engine = ''pg_basebackup'' then
        (if runnerHostIDFromRunnerStorageURI (brStorageURI base) > 0
         then v\<lparr>vrRunnerHostID := runnerHostIDFromRunnerStorageURI (brStorageURI base)\<rparr>
         else if runnerHostIDFromRunnerStorageURI (brFilePath base) > 0
         then v\<lparr>vrRunnerHostID := runnerHostIDFromRunnerStorageURI (brFilePath base)\<rparr>
         else say [NoRunnerURI] (v\<lparr>vrTool := ToolMissing\<rparr>))
      else if engine = ''walg'' then say [WALGExternal] v
      else if engine = ''pgbackrest'' then say [PgBackRestExternal] v
      else v)"

definition postgreSQLPlanBackupEngine :: "restorePlanValidationResult \<Rightarrow> string" where
  "postgreSQLPlanBackupEngine v =
     (case vrBackupProofs v of
        [] \<Rightarrow> ''barman'' | r # _ \<Rightarrow> normalizePostgreSQLPhysicalBackupEngine (brBackupEngine r))"

definition finalizePostgreSQLRestoreValidation ::
  "restorePlanValidationResult \<Rightarrow> restorePlanValidationResult" where
  "finalizePostgreSQLRestoreValidation v =
     (if allChecks v then
        (let engine = postgreSQLPlanBackupEngine v in
         if engine = ''pg_basebackup'' then say [BaseBackupPassed] (v\<lparr>vrValidation := PlanPassed\<rparr>)
         else if engine = ''walg'' then say [WALGChecked] (v\<lparr>vrValidation := PlanWarning\<rparr>)
         else if engine = ''pgbackrest'' then say [PgBackRestChecked] (v\<lparr>vrValidation := PlanWarning\<rparr>)
         else say [BarmanPassed] (v\<lparr>vrValidation := PlanPassed\<rparr>))
      else if vrMessages v = [] then say [PgPlanNotOk] (v\<lparr>vrValidation := PlanFailed\<rparr>)
      else v\<lparr>vrValidation := PlanFailed\<rparr>)"

definition pgTimeline :: "DatabaseBackupRecord \<Rightarrow> DatabaseBarmanServer option \<Rightarrow> postgreSQLRestoreTarget \<Rightarrow> string" where
  "pgTimeline base server target =
     (let pg = brPostgreSQL base;
          expected = NormalizeTimelineID (firstNonEmpty [ptTimelineID target, pbTimelineID pg]) in
      if expected = [] \<and> TrimSpace (pbWALEnd pg) \<noteq> []
      then (case ParseSegmentName (pbWALEnd pg) (postgreSQLWALSegmentSize base server) of
              Inr s \<Rightarrow> TimelineID s | Inl _ \<Rightarrow> expected)
      else expected)"

text \<open>The segments that a complete coverage must not find damaged.\<close>

fun badSegment :: "DatabaseLogArchive list \<Rightarrow> restorePlanValidationResult \<Rightarrow> restorePlanValidationResult" where
  "badSegment [] v = v"
| "badSegment (a # rest) v =
     (if laStatus a = LogChecksumFailed then say [WALChecksum (laFileName a)] (v\<lparr>vrStorage := StorageChecksumFailed\<rparr>)
      else if laStatus a = LogMissing then say [WALMissing (laFileName a)] (v\<lparr>vrStorage := StorageMissingObject\<rparr>)
      else badSegment rest v)"

definition pgCoverage ::
  "DatabaseBackupRecord \<Rightarrow> DatabaseLogArchive list \<Rightarrow> postgreSQLRestoreTarget \<Rightarrow> string \<Rightarrow> int
   \<Rightarrow> restorePlanValidationResult \<Rightarrow> restorePlanValidationResult" where
  "pgCoverage base logs target timeline segmentSize v =
     (case validatePostgreSQLWALCoverage base logs target timeline segmentSize of
        (status, selected, message) \<Rightarrow>
          let v = v\<lparr>vrLogChain := status, vrLogArchiveIDs := selected,
                    vrLogProofs := buildSelectedLogProofs logs selected\<rparr>;
              v = say (case message of None \<Rightarrow> [] | Some m \<Rightarrow> [m]) v;
              v = (if status = ChainComplete then
                     (case validatePostgreSQLTimelineHistory logs timeline of
                        (status, message) \<Rightarrow>
                          if status \<noteq> ChainComplete
                          then say (case message of None \<Rightarrow> [] | Some m \<Rightarrow> [m]) (v\<lparr>vrLogChain := status\<rparr>) else v)
                   else v)
          in badSegment logs v)"

definition pgLogs ::
  "restore_env \<Rightarrow> restore_world \<Rightarrow> DatabaseBackupRecord \<Rightarrow> DatabaseBarmanServer option \<Rightarrow> postgreSQLRestoreTarget
   \<Rightarrow> restorePlanValidationResult \<Rightarrow> restorePlanValidationResult" where
  "pgLogs env w base server target v =
     (let pg = brPostgreSQL base;
          engine = normalizePostgreSQLPhysicalBackupEngine (brBackupEngine base);
          serverSystemID = (case server of Some s \<Rightarrow> bsSystemIdentifier s | None \<Rightarrow> []);
          expectedSystemID = TrimSpace (firstNonEmpty [pbSystemIdentifier pg, serverSystemID]);
          expectedTimeline = pgTimeline base server target;
          v = v\<lparr>vrTargetTimelineID := expectedTimeline\<rparr> in
      if server \<noteq> None \<and> TrimSpace (pbSystemIdentifier pg) \<noteq> [] \<and> TrimSpace serverSystemID \<noteq> []
         \<and> TrimSpace (pbSystemIdentifier pg) \<noteq> TrimSpace serverSystemID
      then say [ServerSystemDiffers (pbSystemIdentifier pg) serverSystemID] (v\<lparr>vrLogChain := ChainSystemMismatch\<rparr>)
      else case listPostgreSQLWALArchivesForRestore env w (brInstanceID base) of
        Inl m \<Rightarrow> say [CatalogFailed m] (v\<lparr>vrLogChain := ChainUnsupported\<rparr>)
      | Inr logs \<Rightarrow>
          let externalServerName = (if engine = ''barman'' \<or> isPostgreSQLExternalMetadataBackupEngine engine
                                    then pbExternalServerName pg else []);
              logs = filterPostgreSQLWALArchives logs expectedSystemID expectedTimeline externalServerName in
          case find (otherSystem expectedSystemID) logs of
            Some a \<Rightarrow> say [WALSystemDiffers (laFileName a) (plSystemIdentifier (laPostgreSQL a)) expectedSystemID]
                        (v\<lparr>vrLogChain := ChainSystemMismatch\<rparr>)
          | None \<Rightarrow>
              let baseTimeline = NormalizeTimelineID (pbTimelineID pg) in
              if expectedTimeline \<noteq> [] \<and> baseTimeline \<noteq> [] \<and> baseTimeline \<noteq> expectedTimeline
              then say [TimelineDiffers expectedTimeline baseTimeline] (v\<lparr>vrLogChain := ChainTimelineMismatch\<rparr>)
              else pgCoverage base logs target expectedTimeline (postgreSQLWALSegmentSize base server) v)"

text \<open>The variable of the server that is declared before the switch is never assigned: inside the switch another one of
  the same name is declared.\<close>

definition validatePostgreSQLRestorePlan ::
  "restore_env \<Rightarrow> restore_world \<Rightarrow> gotime \<Rightarrow> DatabaseInstance \<Rightarrow> DatabaseBackupRecord list \<Rightarrow> DatabaseBackupRecord option
   \<Rightarrow> postgreSQLRestoreTarget \<Rightarrow> restorePlanValidationResult" where
  "validatePostgreSQLRestorePlan env w now item records baseOpt target =
     (let v = (emptyResult item)\<lparr>vrTargetTimelineID := ptTimelineID target,
                vrTargetLSN := (if ptType target = ''lsn'' then ptValue target else [])\<rparr> in
      case baseOpt of
        None \<Rightarrow> say [NoPostgreSQLBase] v
      | Some base \<Rightarrow>
          let v = pgEngine env base (pgBackups env now records base target v);
              server = None
          in finalizePostgreSQLRestoreValidation (pgLogs env w base server target v))"

section \<open>Making a plan\<close>

definition restoreMode :: "DatabaseRestorePlanRequest \<Rightarrow> string" where
  "restoreMode req = (let mode = TrimSpace (rqRestoreMode req) in if mode = [] then ''isolated_restore'' else mode)"

definition plannedRow ::
  "DatabaseRestorePlanRequest \<Rightarrow> string \<Rightarrow> string \<Rightarrow> nat \<Rightarrow> restorePlanValidationResult \<Rightarrow> QueryOperator \<Rightarrow> restore_world
   \<Rightarrow> DatabaseRestorePlan" where
  "plannedRow req targetType targetValue runnerHostID v operator w =
     \<lparr>rpID = Suc (fold max (map rpID (rwPlans w)) 0), rpSourceInstanceID = rqSourceInstanceID req,
      rpTargetInstanceID = rqTargetInstanceID req, rpRunnerHostID = runnerHostID, rpRestoreMode = restoreMode req,
      rpTargetType = targetType, rpTargetValue = targetValue, rpTargetInclusive = rqTargetInclusive req,
      rpSelectedBaseRecordID = vrBaseRecordID v, rpSelectedBackupRecordIDs = vrBackupRecordIDs v,
      rpSelectedLogArchiveIDs = vrLogArchiveIDs v, rpBackupChain = vrBackupChain v, rpLogChain = vrLogChain v,
      rpStorage = vrStorage v, rpTool = vrTool v, rpValidation = vrValidation v, rpRestoreStatus = ''planned'',
      rpEstimatedBytes = estimateRestoreBytes v, rpEstimatedMinutes = estimateRestoreMinutes v, rpResult = v,
      rpOperatorID = oID operator, rpOperatorName = trimText (oUsername operator) 120\<rparr>"

definition createPlan :: "restore_env \<Rightarrow> DatabaseRestorePlan \<Rightarrow> restore_world \<Rightarrow> (restore_error + DatabaseRestorePlan) \<times> restore_world" where
  "createPlan env plan w =
     (case rePlanErr env plan of
        Some m \<Rightarrow> (Inl (PlanNotSaved m), w)
      | None \<Rightarrow> (Inr plan, w\<lparr>rwPlans := rwPlans w @ [plan]\<rparr>))"

text \<open>The task of the base backup is told that it can be restored to a time.\<close>

definition markTaskCapable :: "restore_env \<Rightarrow> nat \<Rightarrow> restore_world \<Rightarrow> restore_world" where
  "markTaskCapable env taskID w =
     (if reTaskErr env taskID then w
      else w\<lparr>rwTaskCapability := map (\<lambda>(i, c). if i = taskID then (i, ''pitr_capable'') else (i, c)) (rwTaskCapability w)\<rparr>)"

definition isPanic :: "plan_message \<Rightarrow> bool" where
  "isPanic m = (case m of SegmentRangeError e \<Rightarrow> (case e of PanicMakeCap _ \<Rightarrow> True | _ \<Rightarrow> False) | _ \<Rightarrow> False)"

definition createPostgreSQLRestorePlan ::
  "restore_env \<Rightarrow> gotime \<Rightarrow> DatabaseRestorePlanRequest \<Rightarrow> DatabaseInstance \<Rightarrow> string \<Rightarrow> QueryOperator \<Rightarrow> restore_world
   \<Rightarrow> (restore_error + DatabaseRestorePlan) \<times> restore_world" where
  "createPostgreSQLRestorePlan env now req source targetType operator w =
     (case normalizePostgreSQLRestoreTarget env targetType (rqTargetValue req) (rqTargetTimelineID req) of
        Inl e \<Rightarrow> (Inl e, w)
      | Inr target \<Rightarrow>
          (case peListErr (rePurge env) of
             Some m \<Rightarrow> (Inl (RestoreListFailed m), w)
           | None \<Rightarrow>
               let records = ListSuccessfulForRestore (rwPurge w) (rqSourceInstanceID req) (ptTime target);
                   chosen = (if rqBaseRecordID req > 0 then
                               (case postgreSQLRestoreBaseRecordFromRequest w req target records of
                                  Inl e \<Rightarrow> Inl e
                                | Inr r \<Rightarrow> Inr (Some r, if backupRecordInList records (brID r) then records else records @ [r]))
                             else Inr (selectPostgreSQLPhysicalBaseRecord records target, records)) in
               case chosen of
                 Inl e \<Rightarrow> (Inl e, w)
               | Inr (base, records) \<Rightarrow>
                   let v = validatePostgreSQLRestorePlan env w now source records base target in
                   if list_ex isPanic (vrMessages v) then (Inl RestorePanic, w)
                   else createPlan env (plannedRow req (ptType target) (ptValue target) (vrRunnerHostID v) v operator w) w))"

definition CreateRestorePlan ::
  "restore_env \<Rightarrow> gotime \<Rightarrow> DatabaseRestorePlanRequest \<Rightarrow> QueryOperator \<Rightarrow> restore_world
   \<Rightarrow> (restore_error + DatabaseRestorePlan) \<times> restore_world" where
  "CreateRestorePlan env now req operator w =
     (if \<not> rePlanRepo env \<or> \<not> peRecordRepo (rePurge env) then (Inl RestoreRepoMissing, w)
      else if rqSourceInstanceID req = 0 then (Inl SourceNotGiven, w)
      else case envInstance (peConsole (rePurge env)) (rqSourceInstanceID req) of
        None \<Rightarrow> (Inl SourceInstanceGone, w)
      | Some source \<Rightarrow>
          if rqTargetInstanceID req > 0 \<and> envInstance (peConsole (rePurge env)) (rqTargetInstanceID req) = None
          then (Inl TargetInstanceGone, w)
          else if rqTargetInstanceID req > 0 \<and> isProductionEnvironment (reEnvironment env (rqTargetInstanceID req))
          then (Inl TargetIsProduction, w)
          else
            let targetType = ToLower (TrimSpace (rqTargetType req));
                targetType = (if targetType = [] then ''time'' else targetType) in
            if normalizeDBType (iDBType source) = DBTypePostgreSQL
            then createPostgreSQLRestorePlan env now req source targetType operator w
            else if targetType \<noteq> ''time'' then (Inl OnlyTimeSupported, w)
            else case restoreTargetTime env (rqTargetValue req) of
              None \<Rightarrow> (Inl TargetTimeInvalid, w)
            | Some targetTime \<Rightarrow>
                (case peListErr (rePurge env) of
                   Some m \<Rightarrow> (Inl (RestoreListFailed m), w)
                 | None \<Rightarrow>
                     let records = ListSuccessfulForRestore (rwPurge w) (rqSourceInstanceID req) (Some targetTime);
                         base = selectRestoreBaseRecord records targetTime;
                         v = validateRestorePlan env w source records base targetTime in
                     case createPlan env (plannedRow req targetType (reFormatTime env targetTime) 0 v operator w) w of
                       (Inl e, w) \<Rightarrow> (Inl e, w)
                     | (Inr plan, w) \<Rightarrow>
                         (case base of
                            Some b \<Rightarrow>
                              if vrValidation v = PlanPassed \<and> reTaskRepo env \<and> brTaskID b > 0
                              then (Inr plan, markTaskCapable env (brTaskID b) w) else (Inr plan, w)
                          | None \<Rightarrow> (Inr plan, w))))"

end
