(* ===== verification/Restore_Props.thy ===== *)
theory Restore_Props
  imports Restore_Pg Chain_Props "HOL-Library.Code_Target_Nat"
begin

text \<open>
  What a restore plan that passed its checks rests on: the base backup and the increments behind it, the logs between the
  base and the target time, the WAL segments up to the target position; and where the checks do not look.
\<close>

section \<open>Rows in the order of a time\<close>

lemma set_times [simp]: "set (timesUp f xs) = set xs" "set (timesDown f xs) = set xs"
  by (auto simp: timesUp_def timesDown_def)

lemma ListSuccessfulForRestore_row:
  "r \<in> set (ListSuccessfulForRestore w i t) \<Longrightarrow> r \<in> set (pwRecords w) \<and> brInstanceID r = i \<and> brStatus r = BackupSuccess"
  by (simp add: ListSuccessfulForRestore_def)

lemma chosen_of_list:
  "(case find P xs of Some r \<Rightarrow> Some r | None \<Rightarrow> (case xs of [] \<Rightarrow> None | r # _ \<Rightarrow> Some r)) = Some b \<Longrightarrow> b \<in> set xs"
  by (auto dest: found_in split: option.splits list.splits)

lemma selected_base:
  assumes "selectRestoreBaseRecord records t = Some b"
  shows "b \<in> set records \<and> brStatus b = BackupSuccess \<and> notAfter (brFinishedAt b) t \<and> notAfter (brRecoverableFrom b) t"
  using chosen_of_list [OF assms [unfolded selectRestoreBaseRecord_def Let_def]] by simp

section \<open>Increments\<close>

text \<open>In a chain that is complete every increment has a parent before it in the selection, if it has one at all.\<close>

fun parents_first :: "nat list \<Rightarrow> DatabaseBackupRecord list \<Rightarrow> bool" where
  "parents_first seen [] \<longleftrightarrow> True"
| "parents_first seen (r # rs) \<longleftrightarrow> (brParentRecordID r = 0 \<or> brParentRecordID r \<in> set seen) \<and> parents_first (brID r # seen) rs"

lemma incrementLoop_ids: "incrementLoop seen rs status = (s, ids, ms) \<Longrightarrow> ids = map brID rs"
  by (induction seen rs status arbitrary: s ids ms rule: incrementLoop.induct) (auto simp: Let_def split: prod.splits)

lemma incrementLoop_missing: "fst (incrementLoop seen rs ChainMissingIncremental) = ChainMissingIncremental"
  by (induction seen rs "ChainMissingIncremental" rule: incrementLoop.induct) (auto simp: Let_def split: prod.splits)

lemma incrementLoop_complete:
  "incrementLoop seen rs status = (ChainComplete, ids, ms) \<Longrightarrow> parents_first seen rs"
proof (induction seen rs status arbitrary: ids ms rule: incrementLoop.induct)
  case (2 selected r rs status)
  then show ?case using incrementLoop_missing [of "brID r # selected" rs]
    by (auto simp: Let_def split: prod.splits if_splits)
qed simp

lemma increments_checked:
  assumes "validateIncrementalBackupChain records base t = (ChainComplete, ids, ms)"
  obtains rs where "ids = map brID rs" "parents_first [brID base] rs" "\<forall>r\<in>set rs. r \<in> set records \<and> sameChain base t r"
proof -
  let ?rs = "timesUp brFinishedAt (filter (sameChain base t) records)"
  have "incrementLoop [brID base] ?rs ChainComplete = (ChainComplete, ids, ms)"
    using assms by (simp add: validateIncrementalBackupChain_def)
  then have "ids = map brID ?rs" "parents_first [brID base] ?rs"
    using incrementLoop_ids incrementLoop_complete by blast+
  moreover have "\<forall>r\<in>set ?rs. r \<in> set records \<and> sameChain base t r" by simp
  ultimately show ?thesis by (rule that)
qed

section \<open>Logs between two times\<close>

text \<open>The instant \<open>u\<close> is in one of the selected logs, or at most a minute before it.\<close>

definition covers :: "DatabaseLogArchive \<Rightarrow> gotime \<Rightarrow> bool" where
  "covers a u \<longleftrightarrow> (\<exists>f l. laFirstEventTime a = Some f \<and> laLastEventTime a = Some l \<and> f \<le> u + logTolerance \<and> u \<le> l)"

lemma coverageLoop_skip:
  "laFirstEventTime a = None \<or> laLastEventTime a = None \<Longrightarrow>
     coverageLoop ty e (a # rest) cursor ids = coverageLoop ty e rest cursor ids"
  by (auto split: option.split)

lemma coverageLoop_take:
  assumes "laFirstEventTime a = Some f" "laLastEventTime a = Some l" "coverageLoop ty e (a # rest) cursor ids = (ChainComplete, ids', m)"
  shows "laStatus a \<noteq> LogMissing \<and> laStatus a \<noteq> LogChecksumFailed \<and> f \<le> cursor + logTolerance
    \<and> (e \<le> max cursor l \<and> ids' = ids @ [laID a]
       \<or> coverageLoop ty e rest (max cursor l) (ids @ [laID a]) = (ChainComplete, ids', m))"
  using assms by (auto simp: missingLogStatus_def Let_def max_def not_less split: if_splits)

abbreviation covering :: "DatabaseLogArchive list \<Rightarrow> nat list \<Rightarrow> gotime \<Rightarrow> bool" where
  "covering items ids u \<equiv> \<exists>a\<in>set items. laID a \<in> set ids \<and> laStatus a \<noteq> LogMissing \<and> laStatus a \<noteq> LogChecksumFailed \<and> covers a u"

lemma coverageLoop_covers:
  "coverageLoop ty e items cursor ids = (ChainComplete, ids', m) \<Longrightarrow>
     set ids \<subseteq> set ids' \<and> (\<forall>u. cursor < u \<and> u \<le> e \<longrightarrow> covering items ids' u)"
proof (induction items arbitrary: cursor ids)
  case Nil
  then show ?case by (auto simp: missingLogStatus_def split: if_splits)
next
  case (Cons a rest)
  show ?case
  proof (cases "laFirstEventTime a = None \<or> laLastEventTime a = None")
    case True
    then have "coverageLoop ty e rest cursor ids = (ChainComplete, ids', m)" using Cons.prems coverageLoop_skip by metis
    from Cons.IH [OF this] show ?thesis by auto
  next
    case False
    then obtain f l where t: "laFirstEventTime a = Some f" "laLastEventTime a = Some l" by auto
    note step = coverageLoop_take [OF t Cons.prems]
    have here: "covering (a # rest) ids' u" if "laID a \<in> set ids'" "cursor < u" "u \<le> max cursor l" for u
      using that step t by (auto simp: covers_def)
    from step consider "e \<le> max cursor l" "ids' = ids @ [laID a]"
      | "coverageLoop ty e rest (max cursor l) (ids @ [laID a]) = (ChainComplete, ids', m)" by blast
    then show ?thesis
    proof cases
      case 1
      then show ?thesis using here by (simp add: subset_insertI)
    next
      case 2
      note IH = Cons.IH [OF 2]
      then have "covering (a # rest) ids' u" if "cursor < u" "u \<le> e" for u
        using here [of u] that by (cases "u \<le> max cursor l") auto
      then show ?thesis using IH by simp
    qed
  qed
qed

lemma logs_cover:
  assumes "validateLogArchiveCoverage items ty s e = (ChainComplete, ids, m)" "s < u" "u \<le> e"
  shows "\<exists>a\<in>set items. laID a \<in> set ids \<and> laStatus a \<noteq> LogMissing \<and> laStatus a \<noteq> LogChecksumFailed \<and> covers a u"
  using assms coverageLoop_covers [of ty e "timesUp laFirstEventTime items" s "[]" ids m]
  by (auto simp: validateLogArchiveCoverage_def missingLogStatus_def split: if_splits)

section \<open>Plans by time\<close>

lemma say_fields [simp]:
  "vrBackupRecordIDs (say ms v) = vrBackupRecordIDs v" "vrLogArchiveIDs (say ms v) = vrLogArchiveIDs v"
  "vrBackupChain (say ms v) = vrBackupChain v" "vrLogChain (say ms v) = vrLogChain v" "vrStorage (say ms v) = vrStorage v"
  "vrTool (say ms v) = vrTool v" "vrValidation (say ms v) = vrValidation v" "vrBaseRecordID (say ms v) = vrBaseRecordID v"
  "vrMessages (say ms v) = vrMessages v @ ms" "vrBackupProofs (say ms v) = vrBackupProofs v"
  by (simp_all add: say_def)

lemma sayStatus_fields [simp]:
  "vrBackupRecordIDs (sayStatus v) = vrBackupRecordIDs v" "vrBackupChain (sayStatus v) = vrBackupChain v"
  "vrLogChain (sayStatus v) = vrLogChain v" "vrStorage (sayStatus v) = vrStorage v" "vrTool (sayStatus v) = vrTool v"
  "vrValidation (sayStatus v) = vrValidation v" "vrBaseRecordID (sayStatus v) = vrBaseRecordID v"
  "vrLogArchiveIDs (sayStatus v) = vrLogArchiveIDs v" "vrBackupProofs (sayStatus v) = vrBackupProofs v"
  by (simp_all add: sayStatus_def)

lemma chainAndStorage_fields [simp]:
  "vrBackupChain (chainAndStorage rs b t v) = fst (validateIncrementalBackupChain rs b t)"
  "vrBackupRecordIDs (chainAndStorage rs b t v) = brID b # fst (snd (validateIncrementalBackupChain rs b t))"
  "vrStorage (chainAndStorage rs b t v) = storageStatusForBackupRecord b"
  "vrTool (chainAndStorage rs b t v) = toolStatusForBackupRecord b"
  "vrBaseRecordID (chainAndStorage rs b t v) = brID b" "vrValidation (chainAndStorage rs b t v) = vrValidation v"
  by (simp_all add: chainAndStorage_def Let_def split: prod.split)

lemma planLogs_fields [simp]:
  "vrBackupChain (planLogs env w item b s t v) = vrBackupChain v" "vrTool (planLogs env w item b s t v) = vrTool v"
  "vrBackupRecordIDs (planLogs env w item b s t v) = vrBackupRecordIDs v"
  "vrBaseRecordID (planLogs env w item b s t v) = vrBaseRecordID v" "vrValidation (planLogs env w item b s t v) = vrValidation v"
  by (simp_all add: planLogs_def Let_def split: prod.split option.split)

lemma planLogs_storage: "vrStorage (planLogs env w item b s t v) = StorageAvailable \<Longrightarrow> vrStorage v = StorageAvailable"
  by (auto simp: planLogs_def Let_def split: prod.splits option.splits if_splits)

lemma planLogs_complete:
  assumes "vrLogChain (planLogs env w item b s t v) = ChainComplete"
  obtains ty m where "ty = archiveTypeForEngine (normalizeDBType (iDBType item))"
    "validateLogArchiveCoverage (ListCoveringTimeRange (rwPurge w) (brInstanceID b) ty s t) ty s t
       = (ChainComplete, vrLogArchiveIDs (planLogs env w item b s t v), m)"
    "ty = ''binlog'' \<Longrightarrow> fst (validateMySQLRestoreLogMetadata b
       (timesUp laFirstEventTime (ListCoveringTimeRange (rwPurge w) (brInstanceID b) ty s t))) = ChainComplete"
proof -
  let ?ty = "archiveTypeForEngine (normalizeDBType (iDBType item))"
  let ?logs = "ListCoveringTimeRange (rwPurge w) (brInstanceID b) ?ty s t"
  obtain status ids m where c: "validateLogArchiveCoverage ?logs ?ty s t = (status, ids, m)" by (metis prod_cases3)
  obtain status' txt' where d: "validateMySQLRestoreLogMetadata b (timesUp laFirstEventTime ?logs) = (status', txt')" by fastforce
  have "status = ChainComplete \<and> vrLogArchiveIDs (planLogs env w item b s t v) = ids \<and> (?ty = ''binlog'' \<longrightarrow> status' = ChainComplete)"
    using assms unfolding planLogs_def Let_def c d by (auto split: option.splits if_splits)
  moreover from this have "fst (validateMySQLRestoreLogMetadata b (timesUp laFirstEventTime ?logs)) = ChainComplete" if "?ty = ''binlog''"
    using that d by simp
  ultimately show ?thesis using that [OF refl, of m] c by simp
qed

lemma ListCoveringTimeRange_row:
  "a \<in> set (ListCoveringTimeRange w i ty s t) \<Longrightarrow>
     a \<in> set (pwLogs w) \<and> laInstanceID a = i \<and> laArchiveType a = ty \<and> laStatus a \<in> {LogArchived, LogChecksumFailed, LogMissing}"
  by (auto simp: ListCoveringTimeRange_def split: option.splits)

lemma planStart_fields [simp]:
  "vrBackupChain (planStart item rs b t) = fst (validateIncrementalBackupChain rs b t)"
  "vrBackupRecordIDs (planStart item rs b t) = brID b # fst (snd (validateIncrementalBackupChain rs b t))"
  "vrStorage (planStart item rs b t) = storageStatusForBackupRecord b"
  "vrTool (planStart item rs b t) = toolStatusForBackupRecord b"
  "vrBaseRecordID (planStart item rs b t) = brID b" "vrValidation (planStart item rs b t) = PlanFailed"
  by (simp_all add: planStart_def emptyResult_def)

lemma planLogPart_fields [simp]:
  "vrBackupChain (planLogPart env w item b t v) = vrBackupChain v" "vrTool (planLogPart env w item b t v) = vrTool v"
  "vrBackupRecordIDs (planLogPart env w item b t v) = vrBackupRecordIDs v"
  "vrBaseRecordID (planLogPart env w item b t v) = vrBaseRecordID v" "vrValidation (planLogPart env w item b t v) = vrValidation v"
  by (simp_all add: planLogPart_def split: option.split)

lemma planLogPart_storage: "vrStorage (planLogPart env w item b t v) = StorageAvailable \<Longrightarrow> vrStorage v = StorageAvailable"
  by (auto simp: planLogPart_def dest: planLogs_storage split: option.splits if_splits)

lemma planVerdict_passed:
  "vrValidation v = PlanFailed \<Longrightarrow> vrValidation (planVerdict v) = PlanPassed \<longleftrightarrow> allChecks v"
  by (simp add: planVerdict_def)

lemma planVerdict_fields [simp]:
  "vrBackupRecordIDs (planVerdict v) = vrBackupRecordIDs v" "vrBaseRecordID (planVerdict v) = vrBaseRecordID v"
  "vrLogArchiveIDs (planVerdict v) = vrLogArchiveIDs v"
  by (simp_all add: planVerdict_def)

lemma passed_parts:
  assumes "vrValidation (validateRestorePlan env w item records baseOpt t) = PlanPassed"
  obtains base ids ms v where "baseOpt = Some base" "normalizeBackupMethod (brBackupMethod base) \<noteq> ''logical''"
    "validateIncrementalBackupChain records base t = (ChainComplete, ids, ms)"
    "vrBackupRecordIDs (validateRestorePlan env w item records baseOpt t) = brID base # ids"
    "vrBaseRecordID (validateRestorePlan env w item records baseOpt t) = brID base"
    "storageStatusForBackupRecord base = StorageAvailable" "toolStatusForBackupRecord base = ToolCompatible"
    "vrLogChain (planLogPart env w item base t v) = ChainComplete"
    "vrLogArchiveIDs (validateRestorePlan env w item records baseOpt t) = vrLogArchiveIDs (planLogPart env w item base t v)"
proof (cases baseOpt)
  case None
  then show ?thesis using assms by (simp add: validateRestorePlan_def emptyResult_def)
next
  case (Some base)
  let ?v = "planStart item records base t" let ?u = "planLogPart env w item base t ?v"
  have m: "normalizeBackupMethod (brBackupMethod base) \<noteq> ''logical''"
    using assms Some by (auto simp: validateRestorePlan_def emptyResult_def)
  then have e: "validateRestorePlan env w item records baseOpt t = planVerdict ?u" by (simp add: validateRestorePlan_def Some)
  then have ok: "allChecks ?u" using assms planVerdict_passed [of ?u] by simp
  obtain status ids ms where "validateIncrementalBackupChain records base t = (status, ids, ms)" by (metis prod_cases3)
  moreover from this ok have "status = ChainComplete" by (simp add: allChecks_def)
  moreover have "vrStorage ?v = StorageAvailable" using ok planLogPart_storage unfolding allChecks_def by blast
  ultimately show ?thesis using that [of base ids ms ?v] Some m ok e by (simp add: allChecks_def)
qed

lemma usable_file:
  "storageStatusForBackupRecord r = StorageAvailable \<Longrightarrow> TrimSpace (brStorageURI r) \<noteq> [] \<or> TrimSpace (brFilePath r) \<noteq> []"
  by (auto simp: storageStatusForBackupRecord_def split: if_splits)

text \<open>The part of a plan by time that rests on the logs.\<close>

lemma logPart_covers:
  assumes "vrLogChain (planLogPart env w item base t v) = ChainComplete" "logStart base = Some s" "s < u" "u \<le> t"
  shows "\<exists>a\<in>set (pwLogs (rwPurge w)). laID a \<in> set (vrLogArchiveIDs (planLogPart env w item base t v))
    \<and> laInstanceID a = brInstanceID base \<and> laStatus a = LogArchived \<and> covers a u"
proof -
  have "planLogPart env w item base t v = planLogs env w item base s t v" using assms by (simp add: planLogPart_def)
  moreover from this have "vrLogChain (planLogs env w item base s t v) = ChainComplete" using assms by simp
  ultimately show ?thesis
    using planLogs_complete [of env w item base s t v] logs_cover [OF _ assms(3,4)] ListCoveringTimeRange_row
    by (metis empty_iff insert_iff)
qed

lemma plannedRow_fields [simp]:
  "rpValidation (plannedRow req ty val h v op w) = vrValidation v"
  "rpSelectedBaseRecordID (plannedRow req ty val h v op w) = vrBaseRecordID v"
  "rpSelectedBackupRecordIDs (plannedRow req ty val h v op w) = vrBackupRecordIDs v"
  "rpSelectedLogArchiveIDs (plannedRow req ty val h v op w) = vrLogArchiveIDs v"
  "rpTargetType (plannedRow req ty val h v op w) = ty" "rpTargetValue (plannedRow req ty val h v op w) = val"
  by (simp_all add: plannedRow_def)

lemma createPlan_made: "createPlan env plan w = (Inr p, w') \<Longrightarrow> p = plan"
  by (auto simp: createPlan_def split: option.splits)

text \<open>What a plan for another engine than PostgreSQL was made from.\<close>

lemma made_by_time:
  assumes "CreateRestorePlan env now req operator w = (Inr plan, w')"
    and "envInstance (peConsole (rePurge env)) (rqSourceInstanceID req) = Some source"
    and "normalizeDBType (iDBType source) \<noteq> DBTypePostgreSQL"
  obtains t ty where "restoreTargetTime env (rqTargetValue req) = Some t"
    "plan = plannedRow req ty (reFormatTime env t) 0 (validateRestorePlan env w source
        (ListSuccessfulForRestore (rwPurge w) (rqSourceInstanceID req) (Some t))
        (selectRestoreBaseRecord (ListSuccessfulForRestore (rwPurge w) (rqSourceInstanceID req) (Some t)) t) t) operator w"
  using assms unfolding CreateRestorePlan_def Let_def
  by (auto dest: createPlan_made split: if_splits option.splits sum.splits prod.splits)

text \<open>C24: A restore plan of MySQL that passed names a base backup of the instance that succeeded, is no dump, ended before the
  target and has a file; the increments behind it succeeded, ended before the target and have their parents before them
  in the plan; and every instant between what the base holds and the target lies in an intact log of the plan or at most
  a minute before one.\<close>
theorem passed_plan_recoverable:
  assumes "CreateRestorePlan env now req operator w = (Inr plan, w')" "rpValidation plan = PlanPassed"
    and "envInstance (peConsole (rePurge env)) (rqSourceInstanceID req) = Some source"
    and "normalizeDBType (iDBType source) \<noteq> DBTypePostgreSQL"
  shows "\<exists>t base increments. restoreTargetTime env (rqTargetValue req) = Some t
    \<and> base \<in> set (pwRecords (rwPurge w)) \<and> brID base = rpSelectedBaseRecordID plan
    \<and> brInstanceID base = rqSourceInstanceID req \<and> brStatus base = BackupSuccess
    \<and> normalizeBackupMethod (brBackupMethod base) \<noteq> ''logical'' \<and> notAfter (brFinishedAt base) t
    \<and> (TrimSpace (brStorageURI base) \<noteq> [] \<or> TrimSpace (brFilePath base) \<noteq> [])
    \<and> rpSelectedBackupRecordIDs plan = brID base # map brID increments \<and> parents_first [brID base] increments
    \<and> (\<forall>r\<in>set increments. r \<in> set (pwRecords (rwPurge w)) \<and> brInstanceID r = rqSourceInstanceID req
        \<and> brStatus r = BackupSuccess \<and> normalizeBackupLevel (brBackupLevel r) = BackupLevelIncremental
        \<and> notAfter (brFinishedAt r) t)
    \<and> (\<forall>s u. logStart base = Some s \<and> s < u \<and> u \<le> t \<longrightarrow>
        (\<exists>a\<in>set (pwLogs (rwPurge w)). laID a \<in> set (rpSelectedLogArchiveIDs plan)
           \<and> laInstanceID a = rqSourceInstanceID req \<and> laStatus a = LogArchived \<and> covers a u))"
proof -
  obtain t ty where t: "restoreTargetTime env (rqTargetValue req) = Some t" and plan: "plan = plannedRow req ty (reFormatTime env t) 0
      (validateRestorePlan env w source (ListSuccessfulForRestore (rwPurge w) (rqSourceInstanceID req) (Some t))
        (selectRestoreBaseRecord (ListSuccessfulForRestore (rwPurge w) (rqSourceInstanceID req) (Some t)) t) t) operator w"
    using made_by_time [OF assms(1,3,4)] .
  let ?rows = "ListSuccessfulForRestore (rwPurge w) (rqSourceInstanceID req) (Some t)"
  have "vrValidation (validateRestorePlan env w source ?rows (selectRestoreBaseRecord ?rows t) t) = PlanPassed"
    using assms(2) plan by simp
  from passed_parts [OF this] obtain base ids ms v where b: "selectRestoreBaseRecord ?rows t = Some base"
    "normalizeBackupMethod (brBackupMethod base) \<noteq> ''logical''" "validateIncrementalBackupChain ?rows base t = (ChainComplete, ids, ms)"
    "rpSelectedBackupRecordIDs plan = brID base # ids" "rpSelectedBaseRecordID plan = brID base"
    "storageStatusForBackupRecord base = StorageAvailable"
    "vrLogChain (planLogPart env w source base t v) = ChainComplete"
    "rpSelectedLogArchiveIDs plan = vrLogArchiveIDs (planLogPart env w source base t v)"
    unfolding plan plannedRow_fields by metis
  obtain rs where rs: "ids = map brID rs" "parents_first [brID base] rs" "\<forall>r\<in>set rs. r \<in> set ?rows \<and> sameChain base t r"
    using increments_checked [OF b(3)] .
  note base = selected_base [OF b(1)] and row = ListSuccessfulForRestore_row [of _ "rwPurge w" "rqSourceInstanceID req" "Some t"]
  have i: "brInstanceID base = rqSourceInstanceID req" "base \<in> set (pwRecords (rwPurge w))" using base row by blast+
  have "\<forall>s u. logStart base = Some s \<and> s < u \<and> u \<le> t \<longrightarrow>
        (\<exists>a\<in>set (pwLogs (rwPurge w)). laID a \<in> set (rpSelectedLogArchiveIDs plan)
           \<and> laInstanceID a = rqSourceInstanceID req \<and> laStatus a = LogArchived \<and> covers a u)"
    using logPart_covers [OF b(7)] b(8) i by simp
  moreover have "\<forall>r\<in>set rs. r \<in> set (pwRecords (rwPurge w)) \<and> brInstanceID r = rqSourceInstanceID req
        \<and> brStatus r = BackupSuccess \<and> normalizeBackupLevel (brBackupLevel r) = BackupLevelIncremental \<and> notAfter (brFinishedAt r) t"
    using rs(3) row by (auto simp: sameChain_def)
  ultimately show ?thesis using t base b i rs usable_file [OF b(6)] by (intro exI [of _ t] exI [of _ base] exI [of _ rs]) simp
qed

section \<open>A concrete plan\<close>

definition sample_base :: DatabaseBackupRecord where
  "sample_base = sample_record\<lparr>brChecksumSHA256 := replicate 64 CHR ''a'', brTaskID := 5\<rparr>"

definition sample_next :: DatabaseBackupRecord where
  "sample_next = sample_base\<lparr>brID := 2, brBackupLevel := BackupLevelIncremental, brParentRecordID := 1, brFinishedAt := Some 20\<rparr>"

definition sample_restore :: restore_world where
  "sample_restore = \<lparr>rwPurge = \<lparr>pwRecords = [sample_base, sample_next], pwPolicies = [], pwLogs = [sample_log],
     pwConsole = empty_world\<rparr>, rwPlans = [], rwTaskCapability = [(5, [])]\<rparr>"

definition sample_restore_env :: restore_env where
  "sample_restore_env = \<lparr>rePurge = sample_purge_env, rePlanRepo = True, reTaskRepo = True, reBarmanRepo = True,
     reEnvironment = (\<lambda>_. ''test''), reParseTime = (\<lambda>s. if s = ''at 40'' then Some 40 else None), reFormatTime = (\<lambda>_. ''at 40''),
     reHundredYears = (\<lambda>t. t + 3155760000 * 10 ^ 9), reBarmanServers = (\<lambda>_. Inr []), reLogListErr = None, rePlanErr = (\<lambda>_. None),
     reTaskErr = (\<lambda>_. False)\<rparr>"

definition sample_restore_request :: DatabaseRestorePlanRequest where
  "sample_restore_request = \<lparr>rqSourceInstanceID = 7, rqTargetInstanceID = 0, rqRestoreMode = [], rqTargetType = '' Time'',
     rqTargetValue = ''at 40 '', rqTargetInclusive = True, rqTargetTimelineID = [], rqBaseRecordID = 0\<rparr>"

definition sample_restore_result :: "(restore_error + DatabaseRestorePlan) \<times> restore_world" where
  "sample_restore_result = CreateRestorePlan sample_restore_env 60 sample_restore_request sample_operator sample_restore"

text \<open>What is asked of the outcome, as a function so that it is evaluated once.\<close>

definition outcomeOf ::
  "(restore_error + DatabaseRestorePlan) \<times> restore_world \<Rightarrow> (plan_validation \<times> nat list \<times> nat list) option \<times> (nat \<times> string) list" where
  "outcomeOf x = (case fst x of
       Inl _ \<Rightarrow> None | Inr p \<Rightarrow> Some (rpValidation p, rpSelectedBackupRecordIDs p, rpSelectedLogArchiveIDs p), rwTaskCapability (snd x))"

lemma outcome_made: "outcomeOf x = (Some (v, ids), c) \<Longrightarrow> \<exists>plan w. x = (Inr plan, w) \<and> rpValidation plan = v"
  by (cases x) (auto simp: outcomeOf_def split: sum.splits)

lemma sample_restore_outcome: "outcomeOf sample_restore_result = (Some (PlanPassed, [1, 2], [1]), [(5, ''pitr_capable'')])"
  by code_simp

theorem passed_plan_recoverable_witness:
  "outcomeOf sample_restore_result = (Some (PlanPassed, [1, 2], [1]), [(5, ''pitr_capable'')])
   \<and> (\<exists>a\<in>set (pwLogs (rwPurge sample_restore)). laStatus a = LogArchived \<and> covers a 40)"
proof -
  obtain plan w where p: "sample_restore_result = (Inr plan, w)" "rpValidation plan = PlanPassed"
    using outcome_made [OF sample_restore_outcome] by blast
  have src: "envInstance (peConsole (rePurge sample_restore_env)) (rqSourceInstanceID sample_restore_request) = Some sample_instance"
    "normalizeDBType (iDBType sample_instance) \<noteq> DBTypePostgreSQL" by code_simp+
  have t: "restoreTargetTime sample_restore_env (rqTargetValue sample_restore_request) = Some 40" by code_simp
  from passed_plan_recoverable [OF p(1) [unfolded sample_restore_result_def] p(2) src] t
  obtain base where "base \<in> set (pwRecords (rwPurge sample_restore))"
    and c: "\<forall>s u. logStart base = Some s \<and> s < u \<and> u \<le> 40 \<longrightarrow>
        (\<exists>a\<in>set (pwLogs (rwPurge sample_restore)). laStatus a = LogArchived \<and> covers a u)"
    unfolding t option.inject by blast
  then have "logStart base = Some 10 \<or> logStart base = Some 20"
    by (auto simp: sample_restore_def sample_base_def sample_next_def sample_record_def logStart_def)
  then show ?thesis using sample_restore_outcome c by auto
qed

section \<open>Where the checks do not look\<close>

text \<open>A minute is missing between two logs, and still the plan passes.\<close>

lemma minute_missing_accepted:
  "validateLogArchiveCoverage [sample_log\<lparr>laLastEventTime := Some 1000\<rparr>,
      sample_log\<lparr>laID := 2, laFirstEventTime := Some (59 * 10 ^ 9), laLastEventTime := Some (70 * 10 ^ 9)\<rparr>] ''binlog'' 10 (60 * 10 ^ 9)
   = (ChainComplete, [1, 2], None)"
  by code_simp

text \<open>A synthetic full backup that was merged at the time \<open>now\<close> asks for no logs up to \<open>now\<close>, although its data end
  with the backups it was merged from.\<close>

lemma synthetic_base_needs_no_logs:
  assumes "t \<le> now"
  shows "vrLogChain (planLogPart env w item (mergedRecord chain now policy selected res r) t v) = ChainComplete"
  using assms by (simp add: planLogPart_def logStart_def synthetic_recoverable_overstated)

end
