(* ===== verification/Restore_Pg_Props.thy ===== *)
theory Restore_Pg_Props
  imports Restore_Props
begin

text \<open>
  Restore plans of PostgreSQL: which segments a plan to a log position rests on, and that the identity of the server of
  Barman is never compared.
\<close>

section \<open>Segments\<close>

definition intact :: "DatabaseLogArchive \<Rightarrow> bool" where
  "intact a \<longleftrightarrow> laStatus a \<noteq> LogMissing \<and> laStatus a \<noteq> LogChecksumFailed"

lemma segmentsLoop_complete:
  "segmentsLoop archive required ids = (ChainComplete, ids', m) \<Longrightarrow>
     set ids \<subseteq> set ids' \<and> (\<forall>s\<in>set required. \<exists>a. archive (Name s) = Some a \<and> intact a \<and> laID a \<in> set ids')"
proof (induction archive required ids rule: segmentsLoop.induct)
  case (2 archive s rest ids)
  then obtain a where a: "archive (Name s) = Some a" "intact a" "segmentsLoop archive rest (ids @ [laID a]) = (ChainComplete, ids', m)"
    by (auto simp: intact_def split: option.splits if_splits)
  with 2 have "set (ids @ [laID a]) \<subseteq> set ids' \<and> (\<forall>s\<in>set rest. \<exists>a. archive (Name s) = Some a \<and> intact a \<and> laID a \<in> set ids')"
    by (auto simp: intact_def)
  then show ?case using a by auto
qed simp

definition holdsSegment :: "DatabaseLogArchive \<Rightarrow> string \<Rightarrow> string \<Rightarrow> bool" where
  "holdsSegment a timeline name \<longleftrightarrow>
     (\<exists>sz s. ParseSegmentName (laFileName a) sz = Inr s \<and> TimelineID s = timeline \<and> Name s = name)"

lemma segmentArchive_row:
  assumes "segmentArchive logs timeline sz name = Some a"
  shows "a \<in> set logs \<and> holdsSegment a timeline name"
proof -
  have a: "a \<in> set logs" and b: "case ParseSegmentName (laFileName a) (firstNonZeroInt64 [plWALSegmentSize (laPostgreSQL a), sz]) of
      Inl _ \<Rightarrow> False | Inr s \<Rightarrow> TimelineID s = timeline \<and> Name s = name"
    using found_in [OF assms [unfolded segmentArchive_def]] by auto
  obtain s where "ParseSegmentName (laFileName a) (firstNonZeroInt64 [plWALSegmentSize (laPostgreSQL a), sz]) = Inr s"
    "TimelineID s = timeline" "Name s = name"
    using b by (auto split: sum.splits)
  then show ?thesis using a unfolding holdsSegment_def by blast
qed

text \<open>The first segment behind a base backup, and what a complete coverage of a position says.\<close>

definition firstSegment :: "DatabaseBackupRecord \<Rightarrow> string \<Rightarrow> int \<Rightarrow> string \<Rightarrow> bool" where
  "firstSegment base timeline sz start \<longleftrightarrow>
     (let pg = brPostgreSQL base in
      if TrimSpace (pbWALEnd pg) \<noteq> [] then start = TrimSpace (pbWALEnd pg)
      else \<exists>e. ParseLSN (pbEndLSN pg) = Inr e \<and> start = Name (SegmentForLSN timeline e sz))"

lemma lsn_coverage:
  assumes "validatePostgreSQLLSNWALCoverage base logs target timelineID sz = (ChainComplete, ids, m)"
  shows "(\<exists>e. ParseLSN (pbEndLSN (brPostgreSQL base)) = Inr e \<and> ptLSN target \<le> e)
    \<or> (\<exists>timeline start required. timeline \<noteq> [] \<and> firstSegment base timeline sz start
        \<and> SegmentRange start (Name (SegmentForLSN timeline (ptLSN target) sz)) sz 20000 = Inr required
        \<and> (\<forall>s\<in>set required. \<exists>a\<in>set logs. holdsSegment a timeline (Name s) \<and> intact a \<and> laID a \<in> set ids))"
proof -
  let ?pg = "brPostgreSQL base"
  define tl where "tl = (let tl = NormalizeTimelineID (firstNonEmpty [timelineID, pbTimelineID ?pg]) in
      if tl = [] \<and> TrimSpace (pbWALEnd ?pg) \<noteq> []
      then (case ParseSegmentName (pbWALEnd ?pg) sz of Inr s \<Rightarrow> TimelineID s | Inl _ \<Rightarrow> tl) else tl)"
  define start where "start = (if TrimSpace (pbWALEnd ?pg) \<noteq> [] then Inr (TrimSpace (pbWALEnd ?pg))
                     else if TrimSpace (pbEndLSN ?pg) = [] then Inl NoEndLSN
                     else case ParseLSN (pbEndLSN ?pg) of
                       Inl _ \<Rightarrow> Inl EndLSNInvalid
                     | Inr baseEnd \<Rightarrow> Inr (Name (SegmentForLSN tl baseEnd sz)))"
  have run: "validatePostgreSQLLSNWALCoverage base logs target timelineID sz =
     (if tl = [] then (ChainTimelineMismatch, [], Some TimelineUnknown)
      else if TrimSpace (pbEndLSN ?pg) \<noteq> []
              \<and> (case ParseLSN (pbEndLSN ?pg) of Inr baseEnd \<Rightarrow> ptLSN target \<le> baseEnd | Inl _ \<Rightarrow> False)
      then (ChainComplete, [], None)
      else case start of
          Inl m \<Rightarrow> (ChainLSNNotCovered, [], Some m)
        | Inr startName \<Rightarrow>
            (case SegmentRange startName (Name (SegmentForLSN tl (ptLSN target) sz)) sz 20000 of
               Inl e \<Rightarrow> (ChainLSNNotCovered, [], Some (SegmentRangeError e))
             | Inr required \<Rightarrow> segmentsLoop (segmentArchive logs tl sz) required []))"
    unfolding validatePostgreSQLLSNWALCoverage_def tl_def start_def Let_def by (rule refl)
  have first: "firstSegment base tl sz s" if "start = Inr s" for s
    using that by (auto simp: start_def firstSegment_def Let_def split: if_splits sum.splits)
  have tl: "tl \<noteq> []" using assms unfolding run by (auto split: if_splits)
  show ?thesis
  proof (cases "TrimSpace (pbEndLSN ?pg) \<noteq> [] \<and> (case ParseLSN (pbEndLSN ?pg) of Inr e \<Rightarrow> ptLSN target \<le> e | Inl _ \<Rightarrow> False)")
    case True
    then show ?thesis by (auto split: sum.splits)
  next
    case False
    then obtain s required where s: "start = Inr s"
      "SegmentRange s (Name (SegmentForLSN tl (ptLSN target) sz)) sz 20000 = Inr required"
      "segmentsLoop (segmentArchive logs tl sz) required [] = (ChainComplete, ids, m)"
      using assms tl unfolding run if_not_P [OF tl] if_not_P [OF False] by (auto split: sum.splits)
    have "\<forall>s\<in>set required. \<exists>a\<in>set logs. holdsSegment a tl (Name s) \<and> intact a \<and> laID a \<in> set ids"
      using segmentsLoop_complete [OF s(3)] segmentArchive_row by blast
    then show ?thesis using s first tl by blast
  qed
qed

section \<open>The verdict\<close>

lemma finalize_fields [simp]:
  "vrBackupRecordIDs (finalizePostgreSQLRestoreValidation v) = vrBackupRecordIDs v"
  "vrLogArchiveIDs (finalizePostgreSQLRestoreValidation v) = vrLogArchiveIDs v"
  "vrBaseRecordID (finalizePostgreSQLRestoreValidation v) = vrBaseRecordID v"
  by (simp_all add: finalizePostgreSQLRestoreValidation_def Let_def)

lemma finalize_verdict: "vrValidation (finalizePostgreSQLRestoreValidation v) \<noteq> PlanFailed \<Longrightarrow> allChecks v"
  by (auto simp: finalizePostgreSQLRestoreValidation_def split: if_splits)

lemma badSegment_fields [simp]:
  "vrLogChain (badSegment logs v) = vrLogChain v" "vrLogArchiveIDs (badSegment logs v) = vrLogArchiveIDs v"
  "vrBaseRecordID (badSegment logs v) = vrBaseRecordID v" "vrBackupChain (badSegment logs v) = vrBackupChain v"
  by (induction logs v rule: badSegment.induct) simp_all

lemma badSegment_none: "vrStorage (badSegment logs v) = StorageAvailable \<Longrightarrow> list_all intact logs"
  by (induction logs v rule: badSegment.induct) (auto simp: intact_def split: if_splits)

lemma pgEngine_base [simp]: "vrBaseRecordID (pgEngine env base v) = vrBaseRecordID v"
  by (simp add: pgEngine_def Let_def split: sum.split)

lemma incrementStatus_base [simp]: "vrBaseRecordID (incrementStatus i rs v) = vrBaseRecordID v"
  by (induction i rs v rule: incrementStatus.induct) simp_all

lemma pgBackups_base [simp]: "vrBaseRecordID (pgBackups env now rs base target v) = brID base"
  by (simp add: pgBackups_def Let_def split: option.split)

lemma pgCoverage_base [simp]: "vrBaseRecordID (pgCoverage base logs target tml sz v) = vrBaseRecordID v"
  by (simp add: pgCoverage_def Let_def split: prod.split)

lemma pgLogs_base [simp]: "vrBaseRecordID (pgLogs env w base server target v) = vrBaseRecordID v"
  by (simp add: pgLogs_def Let_def split: sum.split option.split)

lemma history_message: "validatePostgreSQLTimelineHistory logs tml = (ChainComplete, m) \<Longrightarrow> tml' = NormalizeTimelineID tml \<Longrightarrow>
    tml' \<noteq> [] \<Longrightarrow> TimelineNumber tml' = Inr n \<Longrightarrow> 1 < n \<Longrightarrow>
    \<exists>a\<in>set logs. TimelineFromHistoryFile (laFileName a) = tml' \<or> Contains (ToUpper (plTimelineHistoryURI (laPostgreSQL a))) (tml' @ ''.HISTORY'')"
  by (auto simp: validatePostgreSQLTimelineHistory_def Let_def list_ex_iff not_le split: if_splits)

lemma pgCoverage_complete:
  assumes "vrLogChain (pgCoverage base logs target tml sz v) = ChainComplete"
  obtains ids m where "validatePostgreSQLWALCoverage base logs target tml sz = (ChainComplete, ids, m)"
    "vrLogArchiveIDs (pgCoverage base logs target tml sz v) = ids"
    "fst (validatePostgreSQLTimelineHistory logs tml) = ChainComplete"
proof -
  obtain status ids m where c: "validatePostgreSQLWALCoverage base logs target tml sz = (status, ids, m)" by (metis prod_cases3)
  obtain status' m' where h: "validatePostgreSQLTimelineHistory logs tml = (status', m')" by fastforce
  have "status = ChainComplete \<and> status' = ChainComplete"
    using assms unfolding pgCoverage_def Let_def c h by (auto split: if_splits)
  moreover from this have "vrLogArchiveIDs (pgCoverage base logs target tml sz v) = ids"
    unfolding pgCoverage_def Let_def c h by simp
  ultimately show ?thesis using that c h by simp
qed

text \<open>The catalogue a plan of the instance is compared with.\<close>

lemma catalogue_row:
  "listPostgreSQLWALArchivesForRestore env w i = Inr logs \<Longrightarrow> a \<in> set logs \<Longrightarrow> a \<in> set (pwLogs (rwPurge w)) \<and> (i > 0 \<longrightarrow> laInstanceID a = i)"
  by (auto simp: listPostgreSQLWALArchivesForRestore_def dest!: in_set_takeD split: if_splits option.splits)

lemma pgLogs_complete:
  assumes "vrLogChain (pgLogs env w base None target v) = ChainComplete"
  obtains rows logs u where "listPostgreSQLWALArchivesForRestore env w (brInstanceID base) = Inr rows" "set logs \<subseteq> set rows"
    "pgLogs env w base None target v
      = pgCoverage base logs target (pgTimeline base None target) (postgreSQLWALSegmentSize base None) u"
    "\<forall>a\<in>set logs. \<not> otherSystem (pbSystemIdentifier (brPostgreSQL base)) a"
proof -
  let ?pg = "brPostgreSQL base"
  let ?sys = "TrimSpace (firstNonEmpty [pbSystemIdentifier ?pg, []])"
  let ?tml = "pgTimeline base None target"
  define ext where "ext = (if normalizePostgreSQLPhysicalBackupEngine (brBackupEngine base) = ''barman''
      \<or> isPostgreSQLExternalMetadataBackupEngine (normalizePostgreSQLPhysicalBackupEngine (brBackupEngine base))
      then pbExternalServerName ?pg else [])"
  define logs where "logs = (case listPostgreSQLWALArchivesForRestore env w (brInstanceID base) of
      Inl _ \<Rightarrow> [] | Inr rows \<Rightarrow> filterPostgreSQLWALArchives rows ?sys ?tml ext)"
  have run: "pgLogs env w base None target v =
     (case listPostgreSQLWALArchivesForRestore env w (brInstanceID base) of
        Inl m \<Rightarrow> say [CatalogFailed m] (v\<lparr>vrTargetTimelineID := ?tml, vrLogChain := ChainUnsupported\<rparr>)
      | Inr rows \<Rightarrow>
          (case find (otherSystem ?sys) logs of
            Some a \<Rightarrow> say [WALSystemDiffers (laFileName a) (plSystemIdentifier (laPostgreSQL a)) ?sys]
                        (v\<lparr>vrTargetTimelineID := ?tml, vrLogChain := ChainSystemMismatch\<rparr>)
          | None \<Rightarrow>
              if ?tml \<noteq> [] \<and> NormalizeTimelineID (pbTimelineID ?pg) \<noteq> [] \<and> NormalizeTimelineID (pbTimelineID ?pg) \<noteq> ?tml
              then say [TimelineDiffers ?tml (NormalizeTimelineID (pbTimelineID ?pg))]
                (v\<lparr>vrTargetTimelineID := ?tml, vrLogChain := ChainTimelineMismatch\<rparr>)
              else pgCoverage base logs target ?tml (postgreSQLWALSegmentSize base None) (v\<lparr>vrTargetTimelineID := ?tml\<rparr>)))"
    unfolding pgLogs_def Let_def logs_def ext_def
    by (cases "listPostgreSQLWALArchivesForRestore env w (brInstanceID base)")
      (simp_all cong del: option.case_cong_weak if_weak_cong)
  obtain rows where rows: "listPostgreSQLWALArchivesForRestore env w (brInstanceID base) = Inr rows"
    using assms unfolding run by (auto split: sum.splits)
  have none: "find (otherSystem ?sys) logs = None" using assms unfolding run rows by (auto split: option.splits)
  have "pgLogs env w base None target v
      = pgCoverage base logs target ?tml (postgreSQLWALSegmentSize base None) (v\<lparr>vrTargetTimelineID := ?tml\<rparr>)"
    using assms unfolding run rows sum.case none option.case by (auto split: if_splits)
  moreover have "set logs \<subseteq> set rows" by (auto simp: logs_def rows filterPostgreSQLWALArchives_def Let_def)
  moreover have "\<forall>a\<in>set logs. \<not> otherSystem (pbSystemIdentifier ?pg) a"
    using none by (auto simp: find_None_iff otherSystem_def)
  ultimately show ?thesis using that rows by blast
qed

section \<open>Plans to a position\<close>

lemma row_found: "recordByID w i = Some r \<Longrightarrow> r \<in> set (pwRecords w) \<and> brID r = i"
  using found_in by (fastforce simp: recordByID_def)

lemma requested_base:
  assumes "postgreSQLRestoreBaseRecordFromRequest w req target records = Inr r"
  shows "(r \<in> set records \<or> r \<in> set (pwRecords (rwPurge w))) \<and> brInstanceID r = rqSourceInstanceID req
    \<and> TrimSpace (brStatus r) = BackupSuccess \<and> isPostgreSQLPhysicalBaseRecord r"
proof -
  obtain row where "(case find (\<lambda>r. brID r = rqBaseRecordID req) records of
      Some r \<Rightarrow> Some r | None \<Rightarrow> recordByID (rwPurge w) (rqBaseRecordID req)) = Some row"
    and r: "validateRequestedPostgreSQLBaseRecord row (rqSourceInstanceID req) target = None" "r = row"
    using assms by (auto simp: postgreSQLRestoreBaseRecordFromRequest_def Let_def split: option.splits)
  then have "row \<in> set records \<or> row \<in> set (pwRecords (rwPurge w))"
    using found_in [of _ records row] row_found by (metis option.case_eq_if option.collapse option.sel)
  then show ?thesis using r by (simp add: validateRequestedPostgreSQLBaseRecord_def split: if_splits)
qed

text \<open>The base backup a plan is checked with.\<close>

definition goodBase :: "restore_world \<Rightarrow> nat \<Rightarrow> DatabaseBackupRecord \<Rightarrow> bool" where
  "goodBase w i r \<longleftrightarrow> r \<in> set (pwRecords (rwPurge w)) \<and> brInstanceID r = i \<and> TrimSpace (brStatus r) = BackupSuccess
     \<and> isPostgreSQLPhysicalBaseRecord r"

lemma success_trimmed: "TrimSpace BackupSuccess = BackupSuccess" by code_simp

lemma made_by_target:
  assumes "CreateRestorePlan env now req operator w = (Inr plan, w')"
    and "envInstance (peConsole (rePurge env)) (rqSourceInstanceID req) = Some source"
    and "normalizeDBType (iDBType source) = DBTypePostgreSQL"
  obtains ty target records base where
    "normalizePostgreSQLRestoreTarget env ty (rqTargetValue req) (rqTargetTimelineID req) = Inr target"
    "plan = plannedRow req (ptType target) (ptValue target)
       (vrRunnerHostID (validatePostgreSQLRestorePlan env w now source records base target))
       (validatePostgreSQLRestorePlan env w now source records base target) operator w"
    "\<forall>r. base = Some r \<longrightarrow> goodBase w (rqSourceInstanceID req) r" "rqSourceInstanceID req > 0"
proof -
  obtain ty where c: "createPostgreSQLRestorePlan env now req source ty operator w = (Inr plan, w')" "rqSourceInstanceID req > 0"
    using assms unfolding CreateRestorePlan_def Let_def by (auto split: if_splits)
  then obtain target where t: "normalizePostgreSQLRestoreTarget env ty (rqTargetValue req) (rqTargetTimelineID req) = Inr target"
    by (auto simp: createPostgreSQLRestorePlan_def split: sum.splits)
  let ?rows = "ListSuccessfulForRestore (rwPurge w) (rqSourceInstanceID req) (ptTime target)"
  define chosen where "chosen = (if rqBaseRecordID req > 0 then
       (case postgreSQLRestoreBaseRecordFromRequest w req target ?rows of
          Inl e \<Rightarrow> Inl e | Inr r \<Rightarrow> Inr (Some r, if backupRecordInList ?rows (brID r) then ?rows else ?rows @ [r]))
       else Inr (selectPostgreSQLPhysicalBaseRecord ?rows target, ?rows))"
  have run: "createPostgreSQLRestorePlan env now req source ty operator w =
      (case peListErr (rePurge env) of
         Some m \<Rightarrow> (Inl (RestoreListFailed m), w)
       | None \<Rightarrow> (case chosen of
           Inl e \<Rightarrow> (Inl e, w)
         | Inr (base, records) \<Rightarrow>
             let v = validatePostgreSQLRestorePlan env w now source records base target in
             if list_ex isPanic (vrMessages v) then (Inl RestorePanic, w)
             else createPlan env (plannedRow req (ptType target) (ptValue target) (vrRunnerHostID v) v operator w) w))"
    unfolding createPostgreSQLRestorePlan_def t sum.case chosen_def Let_def by (rule refl)
  obtain base records where b: "chosen = Inr (base, records)"
    and p: "plan = plannedRow req (ptType target) (ptValue target)
       (vrRunnerHostID (validatePostgreSQLRestorePlan env w now source records base target))
       (validatePostgreSQLRestorePlan env w now source records base target) operator w"
    using c(1) unfolding run Let_def
    by (auto dest: createPlan_made split: option.splits sum.splits prod.splits if_splits)
  have "goodBase w (rqSourceInstanceID req) r" if "base = Some r" for r
  proof (cases "rqBaseRecordID req > 0")
    case True
    then have "postgreSQLRestoreBaseRecordFromRequest w req target ?rows = Inr r"
      using b that by (auto simp: chosen_def split: sum.splits)
    then show ?thesis using requested_base ListSuccessfulForRestore_row unfolding goodBase_def by blast
  next
    case False
    then have "r \<in> set ?rows \<and> isPostgreSQLPhysicalBaseRecord r"
      using b that by (auto simp: chosen_def selectPostgreSQLPhysicalBaseRecord_def dest: found_in)
    then show ?thesis using ListSuccessfulForRestore_row success_trimmed unfolding goodBase_def by metis
  qed
  then show ?thesis using that t p c(2) by blast
qed

text \<open>What a plan that was not refused was checked with.\<close>

lemma checked_plan:
  assumes "vrValidation (validatePostgreSQLRestorePlan env w now item records baseOpt target) \<noteq> PlanFailed"
  obtains base v where "baseOpt = Some base" "vrLogChain (pgLogs env w base None target v) = ChainComplete"
    "vrStorage (pgLogs env w base None target v) = StorageAvailable"
    "vrBaseRecordID (validatePostgreSQLRestorePlan env w now item records baseOpt target) = brID base"
    "vrLogArchiveIDs (validatePostgreSQLRestorePlan env w now item records baseOpt target)
       = vrLogArchiveIDs (pgLogs env w base None target v)"
proof (cases baseOpt)
  case None
  then show ?thesis using assms by (simp add: validatePostgreSQLRestorePlan_def emptyResult_def Let_def)
next
  case (Some base)
  let ?v = "pgEngine env base (pgBackups env now records base target ((emptyResult item)\<lparr>vrTargetTimelineID := ptTimelineID target,
                vrTargetLSN := (if ptType target = ''lsn'' then ptValue target else [])\<rparr>))"
  have e: "validatePostgreSQLRestorePlan env w now item records baseOpt target
      = finalizePostgreSQLRestoreValidation (pgLogs env w base None target ?v)"
    by (simp add: validatePostgreSQLRestorePlan_def Let_def Some)
  then have "allChecks (pgLogs env w base None target ?v)" using assms finalize_verdict by simp
  then show ?thesis using that [of base ?v] e Some by (simp add: allChecks_def)
qed


section \<open>A concrete plan to a position\<close>

definition sample_pg_base :: DatabaseBackupRecord where
  "sample_pg_base = sample_base\<lparr>brBackupEngine := ''pg_basebackup'', brStorageURI := ''runner://runner-host-4/b'',
     brPostgreSQL := no_pg_backup\<lparr>pbTimelineID := ''1'', pbEndLSN := ''0/2000100'', pbWALEnd := ''000000010000000000000002''\<rparr>\<rparr>"

definition sample_wal :: "nat \<Rightarrow> string \<Rightarrow> DatabaseLogArchive" where
  "sample_wal i name = sample_log\<lparr>laID := i, laArchiveType := ''wal'', laFileName := name\<rparr>"

definition sample_pg :: restore_world where
  "sample_pg = \<lparr>rwPurge = \<lparr>pwRecords = [sample_pg_base], pwPolicies = [],
     pwLogs = [sample_wal 1 ''000000010000000000000002'', sample_wal 2 ''000000010000000000000003''],
     pwConsole = empty_world\<rparr>, rwPlans = [], rwTaskCapability = []\<rparr>"

definition sample_pg_instance :: DatabaseInstance where
  "sample_pg_instance = sample_instance\<lparr>iDBType := DBTypePostgreSQL\<rparr>"

definition sample_pg_env :: restore_env where
  "sample_pg_env = sample_restore_env\<lparr>rePurge := sample_purge_env\<lparr>peConsole := sample_env\<lparr>envInstance := (\<lambda>_. Some sample_pg_instance)\<rparr>\<rparr>\<rparr>"

definition sample_pg_request :: DatabaseRestorePlanRequest where
  "sample_pg_request = sample_restore_request\<lparr>rqTargetType := ''lsn'', rqTargetValue := ''0/3000010''\<rparr>"

definition sample_target :: "uint64 \<Rightarrow> postgreSQLRestoreTarget" where
  "sample_target lsn = \<lparr>ptType = ''lsn'', ptValue = FormatLSN lsn, ptTime = None, ptLSN = lsn, ptTimelineID = []\<rparr>"

text \<open>What is asked of a result below, as a function so that the result is evaluated once.\<close>

definition verdictOf :: "restorePlanValidationResult \<Rightarrow> plan_validation \<times> nat list \<times> nat \<times> bool" where
  "verdictOf v = (vrValidation v, vrLogArchiveIDs v, vrRunnerHostID v, list_ex isPanic (vrMessages v))"

definition sample_pg_check :: "uint64 \<Rightarrow> restorePlanValidationResult" where
  "sample_pg_check lsn = validatePostgreSQLRestorePlan sample_pg_env sample_pg 60 sample_pg_instance [sample_pg_base]
     (Some sample_pg_base) (sample_target lsn)"

lemma sample_pg_verdict: "verdictOf (sample_pg_check 0x3000010) = (PlanPassed, [1, 2], 4, False)"
  by code_simp

lemma sample_pg_steps:
  "normalizePostgreSQLRestoreTarget sample_pg_env ''lsn'' ''0/3000010'' [] = Inr (sample_target 0x3000010)"
  "ListSuccessfulForRestore (rwPurge sample_pg) 7 None = [sample_pg_base]"
  "selectPostgreSQLPhysicalBaseRecord [sample_pg_base] (sample_target 0x3000010) = Some sample_pg_base"
  "ToLower (TrimSpace ''lsn'') = ''lsn''" "normalizeDBType (iDBType sample_pg_instance) = DBTypePostgreSQL"
  by code_simp+

definition sample_pg_result :: "(restore_error + DatabaseRestorePlan) \<times> restore_world" where
  "sample_pg_result = CreateRestorePlan sample_pg_env 60 sample_pg_request sample_operator sample_pg"

lemma sample_pg_plan:
  "sample_pg_result = createPlan sample_pg_env (plannedRow sample_pg_request ''lsn'' (FormatLSN 0x3000010) 4
     (sample_pg_check 0x3000010) sample_operator sample_pg) sample_pg"
proof -
  have env: "rePlanRepo sample_pg_env" "peRecordRepo (rePurge sample_pg_env)" "peListErr (rePurge sample_pg_env) = None"
    "envInstance (peConsole (rePurge sample_pg_env)) = (\<lambda>_. Some sample_pg_instance)"
    by (simp_all add: sample_pg_env_def sample_restore_env_def sample_purge_env_def)
  have req: "rqSourceInstanceID sample_pg_request = 7" "rqTargetInstanceID sample_pg_request = 0" "rqTargetType sample_pg_request = ''lsn''"
    "rqTargetValue sample_pg_request = ''0/3000010''" "rqTargetTimelineID sample_pg_request = []" "rqBaseRecordID sample_pg_request = 0"
    by (simp_all add: sample_pg_request_def sample_restore_request_def)
  have v: "vrRunnerHostID (sample_pg_check 0x3000010) = 4" "\<not> list_ex isPanic (vrMessages (sample_pg_check 0x3000010))"
    using sample_pg_verdict by (simp_all add: verdictOf_def)
  have t: "ptType (sample_target n) = ''lsn''" "ptValue (sample_target n) = FormatLSN n" "ptTime (sample_target n) = None" for n
    by (simp_all add: sample_target_def)
  show ?thesis
    by (simp add: sample_pg_result_def CreateRestorePlan_def createPostgreSQLRestorePlan_def Let_def env req t v sample_pg_steps
        sample_pg_check_def [symmetric])
qed

lemma sample_pg_made:
  "sample_pg_result = (Inr plan, w) \<Longrightarrow> rpValidation plan = PlanPassed \<and> rpSelectedLogArchiveIDs plan = [1, 2] \<and> rpTargetType plan = ''lsn''"
  using sample_pg_verdict by (auto simp: sample_pg_plan verdictOf_def dest!: createPlan_made)


section \<open>Where the checks do not look\<close>

text \<open>The base backup and the server of Barman it is restored with belong to different systems, and the plan passes.\<close>

definition sample_barman :: DatabaseBarmanServer where
  "sample_barman = \<lparr>bsID = 1, bsRunnerHostID = 4, bsBarmanServerName = ''pg'', bsLastCheckStatus = ''success'',
     bsSystemIdentifier = ''7002'', bsWALSegmentSize = 0\<rparr>"

definition sample_barman_base :: DatabaseBackupRecord where
  "sample_barman_base = sample_base\<lparr>brBackupEngine := ''barman'',
     brPostgreSQL := no_pg_backup\<lparr>pbExternalBackupID := ''b1'', pbSystemIdentifier := ''7001''\<rparr>\<rparr>"

lemma server_identity_unchecked:
  "verdictOf (validatePostgreSQLRestorePlan (sample_pg_env\<lparr>reBarmanServers := (\<lambda>_. Inr [sample_barman])\<rparr>) sample_pg 60
     sample_pg_instance [sample_barman_base] (Some sample_barman_base)
     \<lparr>ptType = ''time'', ptValue = [], ptTime = Some 10, ptLSN = 0, ptTimelineID = []\<rparr>) = (PlanPassed, [], 4, False)"
  by code_simp

text \<open>A base backup that is asked for by its number may end behind the position; the plan then passes without any log,
  although such a backup cannot be brought back to an earlier position.\<close>

lemma base_behind_target_accepted:
  "postgreSQLRestoreBaseRecordFromRequest sample_pg (sample_pg_request\<lparr>rqBaseRecordID := 1\<rparr>) (sample_target 0x1000000) []
     = Inr sample_pg_base"
  "verdictOf (sample_pg_check 0x1000000) = (PlanPassed, [], 4, False)"
  by code_simp+

end
