(* ===== verification/Sys_Config.thy ===== *)
theory Sys_Config
  imports Go_Base
begin

text \<open>
  System settings: the security, monitoring, operation log and database groups of
  internal/biz/system/usecase.go with the repository internal/data/system/config.go and the checks of
  internal/service/system/config.go. A setting is a text stored under a key; a group is read as a map
  and decoded with defaults. The basic and LDAP groups hold texts only and are left out, and so are the
  remarks of the rows. JSON and failing reads and writes are parameters.
\<close>

section \<open>Rows and defaults\<close>

record SysConfig =
  scKey :: string
  scValue :: string
  scType :: string
  scGroup :: string

record config_env =
  ceReadErr :: bool
  ceWriteErr :: bool
  ceMarshal :: "string list \<Rightarrow> string"
  ceUnmarshal :: "string \<Rightarrow> string list option"

datatype config_error =
    ConfigReadFailed | ConfigWriteFailed | ConfigMissing | PasswordLengthRange | LoginAttemptsRange
  | MonitoringDaysRange | AuditDaysRange | PrefixNoSlash | PrefixTooLong | AffectedRowsRange | BackupDaysRange
  | PermissionModeUnknown

abbreviation GroupSecurity :: string where "GroupSecurity \<equiv> ''security''"
abbreviation GroupBasic :: string where "GroupBasic \<equiv> ''basic''"
abbreviation GroupLDAP :: string where "GroupLDAP \<equiv> ''ldap''"
abbreviation GroupMessageQueue :: string where "GroupMessageQueue \<equiv> ''messagequeue''"
abbreviation GroupMonitoring :: string where "GroupMonitoring \<equiv> ''monitoring''"
abbreviation GroupAuditLog :: string where "GroupAuditLog \<equiv> ''audit_log''"
abbreviation GroupDatabase :: string where "GroupDatabase \<equiv> ''database''"

definition defaultAuditLogExcludedPathPrefixesJSON :: string where
  "defaultAuditLogExcludedPathPrefixesJSON =
     ''[\"/metrics\",\"/api/v1/public/agents/report\",\"/api/v1/public/agents/echo-ip\",\"/api/v1/public/databases/runner-agents/\"]''"

definition defaultLDAPConfigJSON :: string where
  "defaultLDAPConfigJSON =
     ''{\"enabled\":false,\"host\":\"\",\"port\":389,\"useTls\":false,\"startTls\":false,''
     @ ''\"skipVerify\":false,\"bindDn\":\"\",\"bindPassword\":\"\",\"baseDn\":\"\",''
     @ ''\"userFilter\":\"(uid=%s)\",\"attrUsername\":\"uid\",\"attrEmail\":\"mail\",''
     @ ''\"attrRealName\":\"cn\",\"attrPhone\":\"telephoneNumber\",\"defaultRoleId\":0,''
     @ ''\"defaultDeptId\":0,\"autoCreateUser\":true}''"

text \<open>\<open>DefaultConfigs\<close>: key, value, type and group. The description of the system, whose value is a Chinese text
  outside the runes of the model, is left out.\<close>

definition DefaultConfigs :: "(string \<times> string \<times> string \<times> string) list" where
  "DefaultConfigs =
     [(''system_name'', ''OpsHub'', ''string'', GroupBasic), (''system_logo'', [], ''string'', GroupBasic),
      (''password_min_length'', ''8'', ''int'', GroupSecurity), (''session_timeout'', ''3600'', ''int'', GroupSecurity),
      (''enable_captcha'', ''true'', ''bool'', GroupSecurity), (''max_login_attempts'', ''5'', ''int'', GroupSecurity),
      (''lockout_duration'', ''300'', ''int'', GroupSecurity), (''mfa_enabled'', ''false'', ''bool'', GroupSecurity),
      (''mfa_enforced'', ''false'', ''bool'', GroupSecurity), (''mfa_type'', ''totp'', ''string'', GroupSecurity),
      (''mfa_skip_duration'', ''2592000'', ''int'', GroupSecurity),
      (''ldap_config'', defaultLDAPConfigJSON, ''json'', GroupLDAP),
      (''prometheus_retention_days'', ''15'', ''int'', GroupMonitoring),
      (''audit_log_enabled'', ''true'', ''bool'', GroupAuditLog), (''audit_log_retention_days'', ''30'', ''int'', GroupAuditLog),
      (''audit_log_auto_cleanup_enabled'', ''true'', ''bool'', GroupAuditLog),
      (''audit_log_excluded_path_prefixes'', defaultAuditLogExcludedPathPrefixesJSON, ''json'', GroupAuditLog),
      (''database_write_enabled'', ''false'', ''bool'', GroupDatabase),
      (''database_write_explain_enabled'', ''false'', ''bool'', GroupDatabase),
      (''database_ddl_enabled'', ''false'', ''bool'', GroupDatabase),
      (''database_ddl_high_risk_requires_confirm'', ''true'', ''bool'', GroupDatabase),
      (''database_ddl_reason_required'', ''true'', ''bool'', GroupDatabase),
      (''database_ddl_require_backup_hint'', ''true'', ''bool'', GroupDatabase),
      (''database_high_risk_requires_confirm'', ''true'', ''bool'', GroupDatabase),
      (''database_operation_reason_required'', ''true'', ''bool'', GroupDatabase),
      (''database_max_affected_rows'', ''1000'', ''int'', GroupDatabase),
      (''database_default_backup_retention_days'', ''7'', ''int'', GroupDatabase),
      (''database_backup_storage_path'', ''./data/database-backups'', ''string'', GroupDatabase),
      (''database_instance_permission_mode'', ''compat'', ''string'', GroupDatabase),
      (''messageQueueHighRiskEnabled'', ''false'', ''bool'', GroupMessageQueue),
      (''messageQueueOperationReasonRequired'', ''true'', ''bool'', GroupMessageQueue),
      (''messageQueueOperationMaxMetadataAgeMinutes'', ''30'', ''int'', GroupMessageQueue)]"

section \<open>Repository\<close>

definition configByKey :: "SysConfig list \<Rightarrow> string \<Rightarrow> SysConfig option" where
  "configByKey rows k = find (\<lambda>c. scKey c = k) rows"

definition configByGroup :: "SysConfig list \<Rightarrow> string \<Rightarrow> SysConfig list" where
  "configByGroup rows g = filter (\<lambda>c. scGroup c = g) rows"

text \<open>One key of \<open>BatchSaveOrUpdate\<close>: a known row keeps everything but its value.\<close>

definition saveConfig :: "string \<Rightarrow> string \<Rightarrow> SysConfig list \<Rightarrow> SysConfig list" where
  "saveConfig k v rows =
     (if configByKey rows k \<noteq> None then map (\<lambda>c. if scKey c = k then c\<lparr>scValue := v\<rparr> else c) rows
      else rows @ [case map_of DefaultConfigs k of
        Some (_, t, g) \<Rightarrow> \<lparr>scKey = k, scValue = v, scType = t, scGroup = g\<rparr>
      | None \<Rightarrow> \<lparr>scKey = k, scValue = v, scType = ''string'', scGroup = []\<rparr>])"

text \<open>The transaction over a map: the order of its keys does not matter, they differ.\<close>

definition BatchSaveOrUpdate ::
  "config_env \<Rightarrow> (string \<times> string) list \<Rightarrow> SysConfig list \<Rightarrow> config_error option \<times> SysConfig list" where
  "BatchSaveOrUpdate env configs rows =
     (if ceWriteErr env then (Some ConfigWriteFailed, rows)
      else (None, fold (\<lambda>(k, v). saveConfig k v) configs rows))"

definition InitDefaultConfigs :: "config_env \<Rightarrow> SysConfig list \<Rightarrow> config_error option \<times> SysConfig list" where
  "InitDefaultConfigs env rows =
     (if ceWriteErr env then (Some ConfigWriteFailed, rows)
      else (None, fold (\<lambda>(k, v, t, g) rows. if configByKey rows k \<noteq> None then rows
             else rows @ [\<lparr>scKey = k, scValue = v, scType = t, scGroup = g\<rparr>]) DefaultConfigs rows))"

section \<open>Decoding\<close>

text \<open>\<open>strconv.Atoi\<close>: an optional sign and decimal digits, in the range of an \<open>int\<close>.\<close>

definition Atoi :: "string \<Rightarrow> int option" where
  "Atoi s =
     (let (neg, digits) = (case s of c # rest \<Rightarrow> if c = CHR ''-'' then (True, rest)
                                          else if c = CHR ''+'' then (False, rest) else (False, s)
                           | [] \<Rightarrow> (False, s)) in
      if digits = [] \<or> \<not> list_all IsDigit digits then None
      else let v = foldl (\<lambda>n c. n * 10 + int (rune_code c - 48)) 0 digits;
               v = (if neg then - v else v)
           in if - (2 ^ 63) \<le> v \<and> v < 2 ^ 63 then Some v else None)"

definition FormatBool :: "bool \<Rightarrow> string" where
  "FormatBool b = (if b then ''true'' else ''false'')"

definition getStringValue :: "(string \<rightharpoonup> string) \<Rightarrow> string \<Rightarrow> string \<Rightarrow> string" where
  "getStringValue m k d = (case m k of Some v \<Rightarrow> if v \<noteq> [] then v else d | None \<Rightarrow> d)"

definition getIntValue :: "(string \<rightharpoonup> string) \<Rightarrow> string \<Rightarrow> int \<Rightarrow> int" where
  "getIntValue m k d = (case m k of Some v \<Rightarrow> (case Atoi v of Some i \<Rightarrow> i | None \<Rightarrow> d) | None \<Rightarrow> d)"

definition getBoolValue :: "(string \<rightharpoonup> string) \<Rightarrow> string \<Rightarrow> bool \<Rightarrow> bool" where
  "getBoolValue m k d = (case m k of Some v \<Rightarrow> v = ''true'' \<or> v = ''1'' | None \<Rightarrow> d)"

text \<open>The map of a group; a later row of the same key replaces an earlier one.\<close>

definition configMap :: "SysConfig list \<Rightarrow> string \<rightharpoonup> string" where
  "configMap rows = map_of (rev (map (\<lambda>c. (scKey c, scValue c)) rows))"

definition groupMap :: "config_env \<Rightarrow> SysConfig list \<Rightarrow> string \<Rightarrow> config_error + (string \<rightharpoonup> string)" where
  "groupMap env rows g = (if ceReadErr env then Inl ConfigReadFailed else Inr (configMap (configByGroup rows g)))"

section \<open>Security\<close>

record SecurityConfig =
  sePasswordMinLength :: int
  seSessionTimeout :: int
  seEnableCaptcha :: bool
  seMaxLoginAttempts :: int
  seLockoutDuration :: int
  seMFAEnabled :: bool
  seMFAEnforced :: bool
  seMFAType :: string
  seMFASkipDuration :: int

definition GetSecurityConfig :: "config_env \<Rightarrow> SysConfig list \<Rightarrow> config_error + SecurityConfig" where
  "GetSecurityConfig env rows =
     map_sum id (\<lambda>m. \<lparr>sePasswordMinLength = getIntValue m ''password_min_length'' 8,
       seSessionTimeout = getIntValue m ''session_timeout'' 3600,
       seEnableCaptcha = getBoolValue m ''enable_captcha'' True,
       seMaxLoginAttempts = getIntValue m ''max_login_attempts'' 5,
       seLockoutDuration = getIntValue m ''lockout_duration'' 300,
       seMFAEnabled = getBoolValue m ''mfa_enabled'' False,
       seMFAEnforced = getBoolValue m ''mfa_enforced'' False,
       seMFAType = getStringValue m ''mfa_type'' ''totp'',
       seMFASkipDuration = getIntValue m ''mfa_skip_duration'' 2592000\<rparr>) (groupMap env rows GroupSecurity)"

definition SaveSecurityConfig :: "config_env \<Rightarrow> SecurityConfig \<Rightarrow> SysConfig list \<Rightarrow> config_error option \<times> SysConfig list" where
  "SaveSecurityConfig env c rows = BatchSaveOrUpdate env
     [(''password_min_length'', Itoa (sePasswordMinLength c)), (''session_timeout'', Itoa (seSessionTimeout c)),
      (''enable_captcha'', FormatBool (seEnableCaptcha c)), (''max_login_attempts'', Itoa (seMaxLoginAttempts c)),
      (''lockout_duration'', Itoa (seLockoutDuration c)), (''mfa_enabled'', FormatBool (seMFAEnabled c)),
      (''mfa_enforced'', FormatBool (seMFAEnforced c)), (''mfa_type'', seMFAType c),
      (''mfa_skip_duration'', Itoa (seMFASkipDuration c))] rows"

text \<open>The service checks the request before it saves it.\<close>

definition serviceSaveSecurityConfig ::
  "config_env \<Rightarrow> SecurityConfig \<Rightarrow> SysConfig list \<Rightarrow> config_error option \<times> SysConfig list" where
  "serviceSaveSecurityConfig env req rows =
     (if sePasswordMinLength req < 6 \<or> sePasswordMinLength req > 20 then (Some PasswordLengthRange, rows)
      else if seMaxLoginAttempts req < 3 \<or> seMaxLoginAttempts req > 10 then (Some LoginAttemptsRange, rows)
      else SaveSecurityConfig env req rows)"

section \<open>Monitoring and operation log\<close>

definition GetMonitoringConfig :: "config_env \<Rightarrow> SysConfig list \<Rightarrow> config_error + int" where
  "GetMonitoringConfig env rows =
     map_sum id (\<lambda>m. getIntValue m ''prometheus_retention_days'' 15) (groupMap env rows GroupMonitoring)"

definition SaveMonitoringConfig :: "config_env \<Rightarrow> int \<Rightarrow> SysConfig list \<Rightarrow> config_error option \<times> SysConfig list" where
  "SaveMonitoringConfig env days rows = BatchSaveOrUpdate env [(''prometheus_retention_days'', Itoa days)] rows"

definition serviceSaveMonitoringConfig :: "config_env \<Rightarrow> int \<Rightarrow> SysConfig list \<Rightarrow> config_error option \<times> SysConfig list" where
  "serviceSaveMonitoringConfig env days rows =
     (if days < 1 \<or> days > 3650 then (Some MonitoringDaysRange, rows) else SaveMonitoringConfig env days rows)"

record AuditLogConfig =
  alEnabled :: bool
  alRetentionDays :: int
  alAutoCleanupEnabled :: bool
  alExcludedPathPrefixes :: "string list"

definition normalizeAuditLogRetentionDays :: "int \<Rightarrow> int" where
  "normalizeAuditLogRetentionDays days = (if days < 1 then 30 else if days > 3650 then 3650 else days)"

fun normalizeAuditLogExcludedPathPrefixes :: "string list \<Rightarrow> string list \<Rightarrow> string list" where
  "normalizeAuditLogExcludedPathPrefixes seen [] = []"
| "normalizeAuditLogExcludedPathPrefixes seen (prefix # rest) =
     (let item = TrimSpace prefix in
      if item = [] then normalizeAuditLogExcludedPathPrefixes seen rest
      else let item = CHR ''/'' # dropWhile (\<lambda>c. c = CHR ''/'') item in
        if item \<in> set seen then normalizeAuditLogExcludedPathPrefixes seen rest
        else item # normalizeAuditLogExcludedPathPrefixes (item # seen) rest)"

definition defaultAuditLogExcludedPathPrefixes :: "config_env \<Rightarrow> string list" where
  "defaultAuditLogExcludedPathPrefixes env =
     (case ceUnmarshal env defaultAuditLogExcludedPathPrefixesJSON of Some ps \<Rightarrow> ps
      | None \<Rightarrow> [''/metrics'', ''/api/v1/public/agents/report'', ''/api/v1/public/agents/echo-ip'',
                 ''/api/v1/public/databases/runner-agents/''])"

definition parseAuditLogExcludedPathPrefixes :: "config_env \<Rightarrow> (string \<rightharpoonup> string) \<Rightarrow> string list" where
  "parseAuditLogExcludedPathPrefixes env m =
     (let value = (case m ''audit_log_excluded_path_prefixes'' of
                     Some v \<Rightarrow> if TrimSpace v = [] then defaultAuditLogExcludedPathPrefixesJSON else v
                   | None \<Rightarrow> defaultAuditLogExcludedPathPrefixesJSON)
      in normalizeAuditLogExcludedPathPrefixes []
           (case ceUnmarshal env value of Some ps \<Rightarrow> ps | None \<Rightarrow> defaultAuditLogExcludedPathPrefixes env))"

definition GetAuditLogConfig :: "config_env \<Rightarrow> SysConfig list \<Rightarrow> config_error + AuditLogConfig" where
  "GetAuditLogConfig env rows =
     map_sum id (\<lambda>m. \<lparr>alEnabled = getBoolValue m ''audit_log_enabled'' True,
       alRetentionDays = normalizeAuditLogRetentionDays (getIntValue m ''audit_log_retention_days'' 30),
       alAutoCleanupEnabled = getBoolValue m ''audit_log_auto_cleanup_enabled'' True,
       alExcludedPathPrefixes = parseAuditLogExcludedPathPrefixes env m\<rparr>) (groupMap env rows GroupAuditLog)"

definition SaveAuditLogConfig :: "config_env \<Rightarrow> AuditLogConfig \<Rightarrow> SysConfig list \<Rightarrow> config_error option \<times> SysConfig list" where
  "SaveAuditLogConfig env c rows = BatchSaveOrUpdate env
     [(''audit_log_enabled'', FormatBool (alEnabled c)),
      (''audit_log_retention_days'', Itoa (normalizeAuditLogRetentionDays (alRetentionDays c))),
      (''audit_log_auto_cleanup_enabled'', FormatBool (alAutoCleanupEnabled c)),
      (''audit_log_excluded_path_prefixes'',
        ceMarshal env (normalizeAuditLogExcludedPathPrefixes [] (alExcludedPathPrefixes c)))] rows"

text \<open>The prefixes of a request: blank ones are dropped, the first bad one ends the check.\<close>

fun checkPrefixes :: "string list \<Rightarrow> config_error + string list" where
  "checkPrefixes [] = Inr []"
| "checkPrefixes (prefix # rest) =
     (let item = TrimSpace prefix in
      if item = [] then checkPrefixes rest
      else if \<not> HasPrefix item ''/'' then Inl PrefixNoSlash
      else if go_len item > 200 then Inl PrefixTooLong
      else map_sum id ((#) item) (checkPrefixes rest))"

definition serviceSaveAuditLogConfig ::
  "config_env \<Rightarrow> AuditLogConfig \<Rightarrow> SysConfig list \<Rightarrow> config_error option \<times> SysConfig list" where
  "serviceSaveAuditLogConfig env req rows =
     (if alRetentionDays req < 1 \<or> alRetentionDays req > 3650 then (Some AuditDaysRange, rows)
      else case checkPrefixes (alExcludedPathPrefixes req) of
        Inl e \<Rightarrow> (Some e, rows)
      | Inr prefixes \<Rightarrow> SaveAuditLogConfig env (req\<lparr>alExcludedPathPrefixes := prefixes\<rparr>) rows)"

section \<open>Database\<close>

record DatabaseConfig =
  dcWriteEnabled :: bool
  dcWriteExplainEnabled :: bool
  dcDDLEnabled :: bool
  dcDDLHighRiskRequiresConfirm :: bool
  dcDDLReasonRequired :: bool
  dcDDLRequireBackupHint :: bool
  dcHighRiskRequiresConfirm :: bool
  dcOperationReasonRequired :: bool
  dcMaxAffectedRows :: int
  dcDefaultBackupRetentionDays :: int
  dcBackupStoragePath :: string
  dcInstancePermissionMode :: string

definition normalizeDatabaseInstancePermissionMode :: "string \<Rightarrow> string" where
  "normalizeDatabaseInstancePermissionMode mode =
     (if ToLower (TrimSpace mode) = ''whitelist'' then ''whitelist'' else ''compat'')"

definition GetDatabaseConfig :: "config_env \<Rightarrow> SysConfig list \<Rightarrow> config_error + DatabaseConfig" where
  "GetDatabaseConfig env rows =
     map_sum id (\<lambda>m. \<lparr>dcWriteEnabled = getBoolValue m ''database_write_enabled'' False,
       dcWriteExplainEnabled = getBoolValue m ''database_write_explain_enabled'' False,
       dcDDLEnabled = getBoolValue m ''database_ddl_enabled'' False,
       dcDDLHighRiskRequiresConfirm = getBoolValue m ''database_ddl_high_risk_requires_confirm'' True,
       dcDDLReasonRequired = getBoolValue m ''database_ddl_reason_required'' True,
       dcDDLRequireBackupHint = getBoolValue m ''database_ddl_require_backup_hint'' True,
       dcHighRiskRequiresConfirm = getBoolValue m ''database_high_risk_requires_confirm'' True,
       dcOperationReasonRequired = getBoolValue m ''database_operation_reason_required'' True,
       dcMaxAffectedRows = getIntValue m ''database_max_affected_rows'' 1000,
       dcDefaultBackupRetentionDays = getIntValue m ''database_default_backup_retention_days'' 7,
       dcBackupStoragePath = getStringValue m ''database_backup_storage_path'' ''./data/database-backups'',
       dcInstancePermissionMode = normalizeDatabaseInstancePermissionMode
         (getStringValue m ''database_instance_permission_mode'' ''compat'')\<rparr>) (groupMap env rows GroupDatabase)"

definition SaveDatabaseConfig :: "config_env \<Rightarrow> DatabaseConfig \<Rightarrow> SysConfig list \<Rightarrow> config_error option \<times> SysConfig list" where
  "SaveDatabaseConfig env c rows = BatchSaveOrUpdate env
     [(''database_write_enabled'', FormatBool (dcWriteEnabled c)),
      (''database_write_explain_enabled'', FormatBool (dcWriteExplainEnabled c)),
      (''database_ddl_enabled'', FormatBool (dcDDLEnabled c)),
      (''database_ddl_high_risk_requires_confirm'', FormatBool (dcDDLHighRiskRequiresConfirm c)),
      (''database_ddl_reason_required'', FormatBool (dcDDLReasonRequired c)),
      (''database_ddl_require_backup_hint'', FormatBool (dcDDLRequireBackupHint c)),
      (''database_high_risk_requires_confirm'', FormatBool (dcHighRiskRequiresConfirm c)),
      (''database_operation_reason_required'', FormatBool (dcOperationReasonRequired c)),
      (''database_max_affected_rows'', Itoa (dcMaxAffectedRows c)),
      (''database_default_backup_retention_days'', Itoa (dcDefaultBackupRetentionDays c)),
      (''database_backup_storage_path'', dcBackupStoragePath c),
      (''database_instance_permission_mode'', normalizeDatabaseInstancePermissionMode (dcInstancePermissionMode c))] rows"

definition serviceSaveDatabaseConfig ::
  "config_env \<Rightarrow> DatabaseConfig \<Rightarrow> SysConfig list \<Rightarrow> config_error option \<times> SysConfig list" where
  "serviceSaveDatabaseConfig env req rows =
     (if dcMaxAffectedRows req < 1 \<or> dcMaxAffectedRows req > 1000000 then (Some AffectedRowsRange, rows)
      else if dcDefaultBackupRetentionDays req < 1 \<or> dcDefaultBackupRetentionDays req > 3650 then (Some BackupDaysRange, rows)
      else
        let mode = ToLower (TrimSpace (dcInstancePermissionMode req));
            mode = (if mode = [] then ''compat'' else mode) in
        if mode \<noteq> ''compat'' \<and> mode \<noteq> ''whitelist'' then (Some PermissionModeUnknown, rows)
        else
          let path = TrimSpace (dcBackupStoragePath req);
              path = (if path = [] then ''./data/database-backups'' else path)
          in SaveDatabaseConfig env (req\<lparr>dcBackupStoragePath := path, dcInstancePermissionMode := mode\<rparr>) rows)"

section \<open>Single keys\<close>

text \<open>\<open>GetConfigByKey\<close>: a failing or empty read gives the default.\<close>

definition GetConfigByKey :: "config_env \<Rightarrow> SysConfig list \<Rightarrow> string \<Rightarrow> config_error + string" where
  "GetConfigByKey env rows k =
     (case (if ceReadErr env then None else configByKey rows k) of
        Some c \<Rightarrow> Inr (scValue c)
      | None \<Rightarrow> (case map_of DefaultConfigs k of Some (v, _) \<Rightarrow> Inr v | None \<Rightarrow> Inl ConfigMissing))"

definition GetPasswordMinLength :: "config_env \<Rightarrow> SysConfig list \<Rightarrow> int" where
  "GetPasswordMinLength env rows =
     (case GetConfigByKey env rows ''password_min_length'' of Inl _ \<Rightarrow> 8
      | Inr v \<Rightarrow> (case Atoi v of Some i \<Rightarrow> i | None \<Rightarrow> 8))"

definition IsCaptchaEnabled :: "config_env \<Rightarrow> SysConfig list \<Rightarrow> bool" where
  "IsCaptchaEnabled env rows = (case GetConfigByKey env rows ''enable_captcha'' of Inl _ \<Rightarrow> True | Inr v \<Rightarrow> v = ''true'')"

definition IsDatabaseWriteEnabled :: "config_env \<Rightarrow> SysConfig list \<Rightarrow> bool" where
  "IsDatabaseWriteEnabled env rows =
     (case GetConfigByKey env rows ''database_write_enabled'' of Inl _ \<Rightarrow> False | Inr v \<Rightarrow> v = ''true'')"

end
