(* ===== verification/Mfa.thy ===== *)
theory Mfa
  imports Go_Base "HOL-Library.Word" "HOL-Library.Signed_Division"
begin

unbundle bit_operations_syntax

text \<open>
  Multi-factor authentication: internal/biz/mfa (totp.go, usecase.go, model.go), the repository
  internal/data/mfa and the service internal/service/mfa.

  The state holds the rows of the three tables and the number of reads of the random source. AES-GCM,
  HMAC-SHA1, SHA-256, the QR code library and failing repositories are parameters. What is encrypted
  is a \<open>mfa_plain\<close>: a secret, a JSON array of strings or a JSON array of backup code objects.
\<close>

section \<open>Data\<close>

type_synonym octet = "8 word"

record BackupCode =
  bcCode :: string
  bcUsed :: bool
  bcUsedAt :: "gotime option"

datatype mfa_plain = SecretText string | CodeStrings "string list" | CodeObjects "BackupCode list"

record UserMFA =
  umID :: nat
  umUserID :: nat
  umTOTPEnabled :: bool
  umTOTPSecret :: string
  umTOTPVerified :: bool
  umBackupCodes :: string

record MFALog =
  mlUserID :: nat
  mlAction :: string
  mlIPAddress :: string
  mlUserAgent :: string
  mlSuccess :: bool

record TrustedDevice =
  tdID :: nat
  tdUserID :: nat
  tdDeviceToken :: string
  tdDeviceName :: string
  tdIPAddress :: string
  tdLastVerifiedAt :: gotime
  tdExpiresAt :: gotime

record mfa_world =
  mwSettings :: "UserMFA list"
  mwLogs :: "MFALog list"
  mwDevices :: "TrustedDevice list"
  mwReads :: nat

record mfa_env =
  meIssuer :: string
  meKey :: "octet list"
  meRand :: "nat \<Rightarrow> nat \<Rightarrow> octet list option" \<comment> \<open>the read of that number, of so many bytes\<close>
  meSeal :: "octet list \<Rightarrow> octet list \<Rightarrow> mfa_plain \<Rightarrow> octet list"
  meOpen :: "octet list \<Rightarrow> octet list \<Rightarrow> octet list \<Rightarrow> mfa_plain option"
  meHmacSha1 :: "octet list \<Rightarrow> octet list \<Rightarrow> 160 word"
  meSha256 :: "string \<Rightarrow> octet list"
  meQRPng :: "string \<Rightarrow> string option" \<comment> \<open>the data URL of the image\<close>
  meGetErr :: "nat \<Rightarrow> bool"
  meCreateErr :: "UserMFA \<Rightarrow> bool"
  meUpdateErr :: "UserMFA \<Rightarrow> bool"
  meLogErr :: "MFALog \<Rightarrow> bool"
  meDeviceErr :: "TrustedDevice \<Rightarrow> bool"
  meDeleteErr :: bool

datatype mfa_error =
    SecretNotGenerated | BackupCodesNotGenerated | SecretNotEncrypted | BackupCodesNotEncrypted | MFANotRead
  | MFANotSetUp | MFANotEnabled | SecretNotDecrypted | MFANotCreated | MFANotUpdated | QRNotGenerated
  | WrongCode | RandomFailed | DeviceTokenFailed | DeviceNotSaved

record MFASetupResponse =
  msSecret :: string
  msQRCodeURL :: string
  msManualCode :: string

definition IsEnabled :: "UserMFA \<Rightarrow> bool" where
  "IsEnabled m \<longleftrightarrow> umTOTPEnabled m \<and> umTOTPVerified m"

definition IsValidDevice :: "gotime \<Rightarrow> TrustedDevice \<Rightarrow> bool" where
  "IsValidDevice now d \<longleftrightarrow> now < tdExpiresAt d"

section \<open>Repository\<close>

definition settingOf :: "mfa_world \<Rightarrow> nat \<Rightarrow> UserMFA option" where
  "settingOf w uid = find (\<lambda>m. umUserID m = uid) (mwSettings w)"

text \<open>\<open>GetUserMFA\<close>: \<open>Inl\<close> an error, or the row if there is one.\<close>

definition GetUserMFA :: "mfa_env \<Rightarrow> mfa_world \<Rightarrow> nat \<Rightarrow> mfa_error + UserMFA option" where
  "GetUserMFA env w uid = (if meGetErr env uid then Inl MFANotRead else Inr (settingOf w uid))"

text \<open>\<open>user_id\<close> has a unique index: a second row of a user is an error.\<close>

definition CreateMFA :: "mfa_env \<Rightarrow> mfa_world \<Rightarrow> UserMFA \<Rightarrow> mfa_error option \<times> mfa_world" where
  "CreateMFA env w m =
     (if meCreateErr env m \<or> settingOf w (umUserID m) \<noteq> None then (Some MFANotCreated, w)
      else (None, w\<lparr>mwSettings := mwSettings w @ [m\<lparr>umID := Suc (Max (set (0 # map umID (mwSettings w))))\<rparr>]\<rparr>))"

definition saveSetting :: "UserMFA \<Rightarrow> mfa_world \<Rightarrow> mfa_world" where
  "saveSetting m w = w\<lparr>mwSettings := map (\<lambda>x. if umUserID x = umUserID m then m else x) (mwSettings w)\<rparr>"

definition UpdateMFA :: "mfa_env \<Rightarrow> mfa_world \<Rightarrow> UserMFA \<Rightarrow> mfa_error option \<times> mfa_world" where
  "UpdateMFA env w m = (if meUpdateErr env m then (Some MFANotUpdated, w) else (None, saveSetting m w))"

definition CreateLog :: "mfa_env \<Rightarrow> mfa_world \<Rightarrow> MFALog \<Rightarrow> mfa_world" where
  "CreateLog env w l = (if meLogErr env l then w else w\<lparr>mwLogs := mwLogs w @ [l]\<rparr>)"

definition SaveTrustedDeviceRow :: "mfa_env \<Rightarrow> mfa_world \<Rightarrow> TrustedDevice \<Rightarrow> mfa_error option \<times> mfa_world" where
  "SaveTrustedDeviceRow env w d =
     (if meDeviceErr env d \<or> list_ex (\<lambda>x. tdDeviceToken x = tdDeviceToken d) (mwDevices w) then (Some DeviceNotSaved, w)
      else (None, w\<lparr>mwDevices := mwDevices w @ [d\<lparr>tdID := Suc (Max (set (0 # map tdID (mwDevices w))))\<rparr>]\<rparr>))"

definition GetTrustedDevice :: "mfa_world \<Rightarrow> string \<Rightarrow> TrustedDevice option" where
  "GetTrustedDevice w token = find (\<lambda>d. tdDeviceToken d = token) (mwDevices w)"

definition DeleteExpiredTrustedDevices :: "gotime \<Rightarrow> mfa_world \<Rightarrow> mfa_world" where
  "DeleteExpiredTrustedDevices now w = w\<lparr>mwDevices := filter (\<lambda>d. \<not> tdExpiresAt d < now) (mwDevices w)\<rparr>"

definition DeleteUserTrustedDevices :: "mfa_env \<Rightarrow> mfa_world \<Rightarrow> nat \<Rightarrow> mfa_world" where
  "DeleteUserTrustedDevices env w uid =
     (if meDeleteErr env then w else w\<lparr>mwDevices := filter (\<lambda>d. tdUserID d \<noteq> uid) (mwDevices w)\<rparr>)"

section \<open>Bytes\<close>

definition randRead :: "mfa_env \<Rightarrow> nat \<Rightarrow> mfa_world \<Rightarrow> octet list option \<times> mfa_world" where
  "randRead env n w = (map_option (\<lambda>bs. take n (bs @ replicate n 0)) (meRand env (mwReads w) n), w\<lparr>mwReads := Suc (mwReads w)\<rparr>)"

text \<open>\<open>%x\<close> of bytes, and \<open>hex.EncodeToString\<close>.\<close>

definition hexDigit :: "octet \<Rightarrow> rune" where
  "hexDigit d = ''0123456789abcdef'' ! unat d"

definition hexText :: "octet list \<Rightarrow> string" where
  "hexText bs = concat (map (\<lambda>b. [hexDigit (drop_bit 4 b), hexDigit (b AND 15)]) bs)"

definition hexValue :: "rune \<Rightarrow> octet option" where
  "hexValue c = (let n = rune_code c in
     if 48 \<le> n \<and> n \<le> 57 then Some (of_nat (n - 48))
     else if 97 \<le> n \<and> n \<le> 102 then Some (of_nat (n - 87))
     else if 65 \<le> n \<and> n \<le> 70 then Some (of_nat (n - 55)) else None)"

text \<open>\<open>fmt.Sscanf\<close> of two bytes with \<open>%02x\<close>: leading spaces are skipped, a newline is an error, one digit is enough.\<close>

definition scanHexByte :: "rune \<Rightarrow> rune \<Rightarrow> octet option" where
  "scanHexByte a b =
     (case hexValue a of
        Some x \<Rightarrow> (case hexValue b of Some y \<Rightarrow> Some (16 * x + y) | None \<Rightarrow> Some x)
      | None \<Rightarrow> if rune_code a \<in> {9, 11, 12, 13, 32} then hexValue b else None)"

fun scanHexBytes :: "string \<Rightarrow> octet list option" where
  "scanHexBytes (a # b # rest) =
     (case scanHexByte a b of None \<Rightarrow> None | Some x \<Rightarrow> map_option ((#) x) (scanHexBytes rest))"
| "scanHexBytes _ = Some []"

section \<open>Encryption\<close>

text \<open>\<open>NewUseCase\<close> cuts or pads the key to 32 bytes.\<close>

definition normalizeKey :: "octet list \<Rightarrow> octet list" where
  "normalizeKey k = (if length k > 32 then take 32 k else k @ replicate (32 - length k) 0)"

definition gcmNonceSize :: nat where "gcmNonceSize = 12"

definition mfaEncrypt :: "mfa_env \<Rightarrow> mfa_plain \<Rightarrow> mfa_world \<Rightarrow> string option \<times> mfa_world" where
  "mfaEncrypt env plaintext w =
     (case randRead env gcmNonceSize w of
        (None, w) \<Rightarrow> (None, w)
      | (Some nonce, w) \<Rightarrow> (Some (hexText (nonce @ meSeal env (normalizeKey (meKey env)) nonce plaintext)), w))"

definition mfaDecrypt :: "mfa_env \<Rightarrow> string \<Rightarrow> mfa_plain option" where
  "mfaDecrypt env ciphertext =
     (if length ciphertext < gcmNonceSize * 2 then None
      else case scanHexBytes (take (gcmNonceSize * 2) ciphertext) of
        None \<Rightarrow> None
      | Some nonce \<Rightarrow>
          (case scanHexBytes (drop (gcmNonceSize * 2) ciphertext) of
             None \<Rightarrow> None
           | Some bytes \<Rightarrow> meOpen env (normalizeKey (meKey env)) nonce bytes))"

text \<open>Decoding a decrypted text as \<open>[]BackupCode\<close>: a string is not an object.\<close>

definition unmarshalBackupCodes :: "mfa_plain \<Rightarrow> BackupCode list option" where
  "unmarshalBackupCodes p =
     (case p of CodeObjects bs \<Rightarrow> Some bs | CodeStrings cs \<Rightarrow> (if cs = [] then Some [] else None) | SecretText _ \<Rightarrow> None)"

section \<open>Base32\<close>

definition base32Alphabet :: string where
  "base32Alphabet = ''ABCDEFGHIJKLMNOPQRSTUVWXYZ234567''"

definition octetBits :: "octet \<Rightarrow> bool list" where
  "octetBits b = map (\<lambda>i. odd (unat b div 2 ^ (7 - i))) [0..<8]"

definition bitsNat :: "bool list \<Rightarrow> nat" where
  "bitsNat bs = foldl (\<lambda>n b. 2 * n + (if b then 1 else 0)) 0 bs"

fun groups :: "nat \<Rightarrow> bool list \<Rightarrow> bool list list" where
  "groups n bs = (if n = 0 \<or> bs = [] then [] else take n (bs @ replicate (n - 1) False) # groups n (drop n bs))"

declare groups.simps [simp del]

text \<open>\<open>EncodeToString\<close> with the padding trimmed: groups of five bits, the last filled with zeros.\<close>

definition base32Text :: "octet list \<Rightarrow> string" where
  "base32Text bs = map (\<lambda>g. base32Alphabet ! bitsNat g) (groups 5 (concat (map octetBits bs)))"

definition base32Value :: "rune \<Rightarrow> nat option" where
  "base32Value c = (let n = rune_code c in
     if 65 \<le> n \<and> n \<le> 90 then Some (n - 65) else if 50 \<le> n \<and> n \<le> 55 then Some (n - 24) else None)"

text \<open>\<open>DecodeString\<close>: line ends are dropped, then whole groups of eight, the last one padded with \<open>=\<close> in a place
  where padding may start. What follows the last padding of the group is not read.\<close>

definition base32Decode :: "string \<Rightarrow> octet list option" where
  "base32Decode text =
     (let s = filter (\<lambda>c. rune_code c \<noteq> 10 \<and> rune_code c \<noteq> 13) text;
          core = takeWhile (\<lambda>c. c \<noteq> CHR ''='') s;
          rest = drop (length core) s;
          j = length core mod 8 in
      if (\<forall>c \<in> set core. base32Value c \<noteq> None)
         \<and> (if rest = [] then j = 0
            else j \<in> {2, 4, 5, 7} \<and> length rest \<le> 8 \<and> 8 \<le> length rest + j
              \<and> (\<forall>c \<in> set (take (8 - j) rest). c = CHR ''=''))
      then Some (map (\<lambda>g. of_nat (bitsNat g))
             (groups 8 (take (length core * 5 div 8 * 8)
               (concat (map (\<lambda>c. map (\<lambda>i. odd (the (base32Value c) div 2 ^ (4 - i))) [0..<5]) core)))))
      else None)"

section \<open>One-time passwords\<close>

definition TOTPDigits :: nat where "TOTPDigits = 6"
definition TOTPInterval :: int where "TOTPInterval = 30"
definition TOTPSkew :: int where "TOTPSkew = 1"
definition SecretLength :: nat where "SecretLength = 20"

definition GenerateSecret :: "mfa_env \<Rightarrow> mfa_world \<Rightarrow> string option \<times> mfa_world" where
  "GenerateSecret env w = (case randRead env SecretLength w of (bytes, w) \<Rightarrow> (map_option base32Text bytes, w))"

definition bigEndian64 :: "64 word \<Rightarrow> octet list" where
  "bigEndian64 c = map (\<lambda>i. of_nat (unat c div 256 ^ (7 - i))) [0..<8]"

definition digestBytes :: "160 word \<Rightarrow> octet list" where
  "digestBytes d = map (\<lambda>i. of_nat (unat d div 256 ^ (19 - i))) [0..<20]"

definition bigEndian32 :: "octet list \<Rightarrow> 32 word" where
  "bigEndian32 bs = foldl (\<lambda>n b. push_bit 8 n OR ucast b) 0 (take 4 bs)"

definition generateTOTP :: "mfa_env \<Rightarrow> octet list \<Rightarrow> int \<Rightarrow> string" where
  "generateTOTP env key counter =
     (let sum = digestBytes (meHmacSha1 env key (bigEndian64 (word_of_int counter)));
          offset = unat (last sum AND 15);
          code = bigEndian32 (drop offset sum) AND 0x7FFFFFFF;
          code = code mod 1000000
      in PadLeft 6 (Itoa (uint code)))"

text \<open>The counter of an instant; \<open>Unix()\<close> rounds down, the division towards zero.\<close>

definition totpCounter :: "gotime \<Rightarrow> int" where
  "totpCounter now = (now div 10 ^ 9) sdiv TOTPInterval"

definition totpWindow :: "mfa_env \<Rightarrow> octet list \<Rightarrow> gotime \<Rightarrow> string list" where
  "totpWindow env key now = map (\<lambda>i. generateTOTP env key (totpCounter now + i)) [- TOTPSkew .. TOTPSkew]"

definition padSecret :: "string \<Rightarrow> string" where
  "padSecret secret =
     (let secret = TrimRight (ToUpper secret) CHR ''='';
          pad = 8 - go_len secret mod 8
      in if pad \<noteq> 8 then secret @ replicate pad CHR ''='' else secret)"

definition ValidateTOTP :: "mfa_env \<Rightarrow> gotime \<Rightarrow> string \<Rightarrow> string \<Rightarrow> bool" where
  "ValidateTOTP env now secret code =
     (if go_len code \<noteq> TOTPDigits then False
      else case base32Decode (padSecret secret) of
        None \<Rightarrow> False
      | Some key \<Rightarrow> code \<in> set (totpWindow env key now))"

text \<open>A stored secret that is JSON starts with a bracket, which is not base32.\<close>

definition validatePlainTOTP :: "mfa_env \<Rightarrow> gotime \<Rightarrow> mfa_plain \<Rightarrow> string \<Rightarrow> bool" where
  "validatePlainTOTP env now secret code =
     (case secret of SecretText s \<Rightarrow> ValidateTOTP env now s code | _ \<Rightarrow> False)"

section \<open>Backup codes\<close>

definition backupCodeChars :: string where
  "backupCodeChars = ''ABCDEFGHIJKLMNOPQRSTUVWXYZ0123456789''"

definition generateBackupCode :: "mfa_env \<Rightarrow> mfa_world \<Rightarrow> string option \<times> mfa_world" where
  "generateBackupCode env w =
     (case randRead env 8 w of
        (bytes, w) \<Rightarrow> (map_option (map (\<lambda>b. backupCodeChars ! (unat b mod length backupCodeChars))) bytes, w))"

fun GenerateBackupCodes :: "mfa_env \<Rightarrow> nat \<Rightarrow> mfa_world \<Rightarrow> string list option \<times> mfa_world" where
  "GenerateBackupCodes env 0 w = (Some [], w)"
| "GenerateBackupCodes env (Suc n) w =
     (case generateBackupCode env w of
        (None, w) \<Rightarrow> (None, w)
      | (Some code, w) \<Rightarrow> (case GenerateBackupCodes env n w of (codes, w) \<Rightarrow> (map_option ((#) code) codes, w)))"

section \<open>The QR code\<close>

definition queryEscapeRune :: "rune \<Rightarrow> string" where
  "queryEscapeRune c =
     (let n = rune_code c in
      if (48 \<le> n \<and> n \<le> 57) \<or> (65 \<le> n \<and> n \<le> 90) \<or> (97 \<le> n \<and> n \<le> 122) \<or> c \<in> set ''-_.~'' then [c]
      else if n = 32 then ''+''
      else concat (map (\<lambda>b. CHR ''%'' # PadLeft 2 (FormatHex b))
             (if n < 128 then [n] else [192 + n div 64, 128 + n mod 64])))"

definition QueryEscape :: "string \<Rightarrow> string" where
  "QueryEscape s = concat (map queryEscapeRune s)"

definition GenerateQRCodeURL :: "string \<Rightarrow> string \<Rightarrow> string \<Rightarrow> string" where
  "GenerateQRCodeURL secret issuer accountName =
     ''otpauth://totp/'' @ QueryEscape issuer @ '':'' @ QueryEscape accountName @ ''?secret='' @ secret
     @ ''&issuer='' @ QueryEscape issuer @ ''&algorithm=SHA1&digits='' @ Itoa (int TOTPDigits)
     @ ''&period='' @ Itoa TOTPInterval"

definition GenerateQRCodeImage :: "mfa_env \<Rightarrow> string \<Rightarrow> string \<Rightarrow> string \<Rightarrow> string option" where
  "GenerateQRCodeImage env secret issuer accountName = meQRPng env (GenerateQRCodeURL secret issuer accountName)"

section \<open>Use case\<close>

definition SetupMFA :: "mfa_env \<Rightarrow> mfa_world \<Rightarrow> nat \<Rightarrow> string \<Rightarrow> (mfa_error + MFASetupResponse) \<times> mfa_world" where
  "SetupMFA env w userID username =
     (case GenerateSecret env w of (None, w) \<Rightarrow> (Inl SecretNotGenerated, w) | (Some secret, w) \<Rightarrow>
      (case GenerateBackupCodes env 10 w of (None, w) \<Rightarrow> (Inl BackupCodesNotGenerated, w) | (Some codes, w) \<Rightarrow>
      (case mfaEncrypt env (SecretText secret) w of (None, w) \<Rightarrow> (Inl SecretNotEncrypted, w) | (Some encryptedSecret, w) \<Rightarrow>
      (case mfaEncrypt env (CodeStrings codes) w of (None, w) \<Rightarrow> (Inl BackupCodesNotEncrypted, w) | (Some encryptedCodes, w) \<Rightarrow>
      (case (case GetUserMFA env w userID of
               Inr (Some existing) \<Rightarrow>
                 UpdateMFA env w (existing\<lparr>umTOTPSecret := encryptedSecret, umBackupCodes := encryptedCodes,
                   umTOTPEnabled := False, umTOTPVerified := False\<rparr>)
             | _ \<Rightarrow>
                 CreateMFA env w \<lparr>umID = 0, umUserID = userID, umTOTPEnabled = False, umTOTPSecret = encryptedSecret,
                   umTOTPVerified = False, umBackupCodes = encryptedCodes\<rparr>) of
         (Some e, w) \<Rightarrow> (Inl e, w)
       | (None, w) \<Rightarrow>
         (case GenerateQRCodeImage env secret (meIssuer env) username of
            None \<Rightarrow> (Inl QRNotGenerated, w)
          | Some url \<Rightarrow> (Inr \<lparr>msSecret = secret, msQRCodeURL = url, msManualCode = secret\<rparr>, w)))))))"

definition VerifyAndEnableMFA ::
  "mfa_env \<Rightarrow> mfa_world \<Rightarrow> gotime \<Rightarrow> nat \<Rightarrow> string \<Rightarrow> string \<Rightarrow> string \<Rightarrow> (mfa_error + bool) \<times> mfa_world" where
  "VerifyAndEnableMFA env w now userID code ip agent =
     (case GetUserMFA env w userID of
        Inl e \<Rightarrow> (Inl e, w)
      | Inr None \<Rightarrow> (Inl MFANotSetUp, w)
      | Inr (Some mfa) \<Rightarrow>
        (case mfaDecrypt env (umTOTPSecret mfa) of
           None \<Rightarrow> (Inl SecretNotDecrypted, w)
         | Some secret \<Rightarrow>
             let valid = validatePlainTOTP env now secret code;
                 w = CreateLog env w \<lparr>mlUserID = userID, mlAction = ''enable'', mlIPAddress = ip, mlUserAgent = agent,
                       mlSuccess = valid\<rparr> in
             if \<not> valid then (Inr False, w)
             else case UpdateMFA env w (mfa\<lparr>umTOTPEnabled := True, umTOTPVerified := True\<rparr>) of
               (Some e, w) \<Rightarrow> (Inl e, w)
             | (None, w) \<Rightarrow> (Inr True, w)))"

text \<open>\<open>validateBackupCode\<close>: the first unused code that matches is marked as used; the error of the update is not looked at.\<close>

fun useBackupCode :: "gotime \<Rightarrow> string \<Rightarrow> BackupCode list \<Rightarrow> BackupCode list option" where
  "useBackupCode now code [] = None"
| "useBackupCode now code (bc # rest) =
     (if bcCode bc = code \<and> \<not> bcUsed bc then Some (bc\<lparr>bcUsed := True, bcUsedAt := Some now\<rparr> # rest)
      else map_option ((#) bc) (useBackupCode now code rest))"

definition validateBackupCode ::
  "mfa_env \<Rightarrow> mfa_world \<Rightarrow> gotime \<Rightarrow> UserMFA \<Rightarrow> string \<Rightarrow> bool \<times> mfa_world" where
  "validateBackupCode env w now mfa code =
     (case mfaDecrypt env (umBackupCodes mfa) of
        None \<Rightarrow> (False, w)
      | Some plaintext \<Rightarrow>
        (case unmarshalBackupCodes plaintext of
           None \<Rightarrow> (False, w)
         | Some codes \<Rightarrow>
           (case useBackupCode now code codes of
              None \<Rightarrow> (False, w)
            | Some codes \<Rightarrow>
              (case mfaEncrypt env (CodeObjects codes) w of
                 (None, w) \<Rightarrow> (True, w)
               | (Some encrypted, w) \<Rightarrow> (True, snd (UpdateMFA env w (mfa\<lparr>umBackupCodes := encrypted\<rparr>)))))))"

definition ValidateMFACode ::
  "mfa_env \<Rightarrow> mfa_world \<Rightarrow> gotime \<Rightarrow> nat \<Rightarrow> string \<Rightarrow> string \<Rightarrow> string \<Rightarrow> (mfa_error + bool) \<times> mfa_world" where
  "ValidateMFACode env w now userID code ip agent =
     (case GetUserMFA env w userID of
        Inl e \<Rightarrow> (Inl e, w)
      | Inr None \<Rightarrow> (Inl MFANotEnabled, w)
      | Inr (Some mfa) \<Rightarrow>
        if \<not> IsEnabled mfa then (Inl MFANotEnabled, w)
        else case mfaDecrypt env (umTOTPSecret mfa) of
           None \<Rightarrow> (Inl SecretNotDecrypted, w)
         | Some secret \<Rightarrow>
           (case (if validatePlainTOTP env now secret code then (True, w) else validateBackupCode env w now mfa code) of
              (valid, w) \<Rightarrow>
                (Inr valid, CreateLog env w \<lparr>mlUserID = userID, mlAction = ''verify'', mlIPAddress = ip,
                   mlUserAgent = agent, mlSuccess = valid\<rparr>)))"

definition GetMFAStatus :: "mfa_env \<Rightarrow> mfa_world \<Rightarrow> nat \<Rightarrow> mfa_error + UserMFA option" where
  "GetMFAStatus env w userID = GetUserMFA env w userID"

definition DisableMFA ::
  "mfa_env \<Rightarrow> mfa_world \<Rightarrow> gotime \<Rightarrow> nat \<Rightarrow> string \<Rightarrow> string \<Rightarrow> string \<Rightarrow> (mfa_error + bool) \<times> mfa_world" where
  "DisableMFA env w now userID code ip agent =
     (case ValidateMFACode env w now userID code ip agent of
        (Inl e, w) \<Rightarrow> (Inl e, w)
      | (Inr False, w) \<Rightarrow> (Inr False, w)
      | (Inr True, w) \<Rightarrow>
        let w = (case GetUserMFA env w userID of
                   Inr (Some mfa) \<Rightarrow> snd (UpdateMFA env w (mfa\<lparr>umTOTPEnabled := False, umTOTPVerified := False\<rparr>))
                 | _ \<Rightarrow> w);
            w = DeleteUserTrustedDevices env w userID
        in (Inr True, CreateLog env w \<lparr>mlUserID = userID, mlAction = ''disable'', mlIPAddress = ip,
              mlUserAgent = agent, mlSuccess = True\<rparr>))"

definition RegenerateBackupCodes ::
  "mfa_env \<Rightarrow> mfa_world \<Rightarrow> gotime \<Rightarrow> nat \<Rightarrow> string \<Rightarrow> string \<Rightarrow> string \<Rightarrow> (mfa_error + string list) \<times> mfa_world" where
  "RegenerateBackupCodes env w now userID code ip agent =
     (case ValidateMFACode env w now userID code ip agent of
        (Inl e, w) \<Rightarrow> (Inl e, w)
      | (Inr False, w) \<Rightarrow> (Inl WrongCode, w)
      | (Inr True, w) \<Rightarrow>
        (case GenerateBackupCodes env 10 w of
           (None, w) \<Rightarrow> (Inl RandomFailed, w)
         | (Some codes, w) \<Rightarrow>
           (case GetUserMFA env w userID of
              Inr (Some mfa) \<Rightarrow>
                (case mfaEncrypt env (CodeStrings codes) w of
                   (None, w) \<Rightarrow> (Inl RandomFailed, w)
                 | (Some encrypted, w) \<Rightarrow> (Inr codes, snd (UpdateMFA env w (mfa\<lparr>umBackupCodes := encrypted\<rparr>))))
            | _ \<Rightarrow> (Inr codes, w))))"

definition IsMFAEnabled :: "mfa_env \<Rightarrow> mfa_world \<Rightarrow> nat \<Rightarrow> bool" where
  "IsMFAEnabled env w userID = (case GetUserMFA env w userID of Inr (Some mfa) \<Rightarrow> IsEnabled mfa | _ \<Rightarrow> False)"

section \<open>Trusted devices\<close>

definition hashDeviceToken :: "mfa_env \<Rightarrow> string \<Rightarrow> string" where
  "hashDeviceToken env token = hexText (meSha256 env token)"

definition GenerateDeviceToken :: "mfa_env \<Rightarrow> mfa_world \<Rightarrow> string option \<times> mfa_world" where
  "GenerateDeviceToken env w = (case randRead env 32 w of (bytes, w) \<Rightarrow> (map_option hexText bytes, w))"

text \<open>\<open>SaveTrustedDevice\<close>; the clean-up it starts runs on its own, as \<open>DeleteExpiredTrustedDevices\<close> at some later time.\<close>

definition SaveTrustedDevice ::
  "mfa_env \<Rightarrow> mfa_world \<Rightarrow> gotime \<Rightarrow> nat \<Rightarrow> string \<Rightarrow> string \<Rightarrow> int \<Rightarrow> (mfa_error + string) \<times> mfa_world" where
  "SaveTrustedDevice env w now userID deviceName ip durationSeconds =
     (case GenerateDeviceToken env w of
        (None, w) \<Rightarrow> (Inl DeviceTokenFailed, w)
      | (Some token, w) \<Rightarrow>
        (case SaveTrustedDeviceRow env w \<lparr>tdID = 0, tdUserID = userID, tdDeviceToken = hashDeviceToken env token,
                tdDeviceName = deviceName, tdIPAddress = ip, tdLastVerifiedAt = now,
                tdExpiresAt = now + durationSeconds * 10 ^ 9\<rparr> of
           (Some e, w) \<Rightarrow> (Inl e, w)
         | (None, w) \<Rightarrow> (Inr token, w)))"

definition IsTrustedDevice :: "mfa_env \<Rightarrow> mfa_world \<Rightarrow> gotime \<Rightarrow> nat \<Rightarrow> string \<Rightarrow> bool" where
  "IsTrustedDevice env w now userID deviceToken =
     (if deviceToken = [] then False
      else case GetTrustedDevice w (hashDeviceToken env deviceToken) of
        None \<Rightarrow> False
      | Some device \<Rightarrow> tdUserID device = userID \<and> IsValidDevice now device)"

section \<open>Service\<close>

text \<open>\<open>EnableMFA\<close> and \<open>DisableMFA\<close> of the service pass the error on, not the verdict: \<open>None\<close> is the answer
  that the switch was made.\<close>

definition serviceEnableMFA ::
  "mfa_env \<Rightarrow> mfa_world \<Rightarrow> gotime \<Rightarrow> nat \<Rightarrow> string \<Rightarrow> string \<Rightarrow> string \<Rightarrow> mfa_error option \<times> mfa_world" where
  "serviceEnableMFA env w now userID code ip agent =
     apfst (\<lambda>r. case r of Inl e \<Rightarrow> Some e | Inr _ \<Rightarrow> None) (VerifyAndEnableMFA env w now userID code ip agent)"

definition serviceDisableMFA ::
  "mfa_env \<Rightarrow> mfa_world \<Rightarrow> gotime \<Rightarrow> nat \<Rightarrow> string \<Rightarrow> string \<Rightarrow> string \<Rightarrow> mfa_error option \<times> mfa_world" where
  "serviceDisableMFA env w now userID code ip agent =
     apfst (\<lambda>r. case r of Inl e \<Rightarrow> Some e | Inr _ \<Rightarrow> None) (DisableMFA env w now userID code ip agent)"

end
