(* ===== verification/Login.thy ===== *)
theory Login
  imports Sys_Config Mfa
begin

text \<open>
  Logging in: the handler Login of internal/service/rbac/user.go, tokens (auth.go), the second step
  MFALogin of internal/service/mfa and internal/server/mfa, failed attempts (internal/biz/system/usecase.go,
  internal/data/system/config.go) and passwords (internal/biz/rbac/usecase.go, internal/data/rbac/user.go).

  bcrypt, JWT signatures, the captcha store, LDAP and failing repositories are parameters. A session is the
  token of an answer; the cookies that carry it are not modelled.
\<close>

section \<open>Data\<close>

record SysUser =
  suID :: nat
  suUsername :: string
  suPassword :: string
  suRealName :: string
  suEmail :: string
  suPhone :: string
  suAvatar :: string
  suStatus :: int
  suDepartmentID :: nat
  suBio :: string
  suLastLoginAt :: "gotime option"

record SysUserLoginAttempt =
  atUsername :: string
  atFailCount :: int
  atLastFailAt :: gotime
  atLockedUntil :: "gotime option"

record JwtClaims =
  jcUserID :: nat
  jcUsername :: string
  jcTokenType :: string
  jcExpiresAt :: gotime
  jcIssuedAt :: gotime
  jcNotBefore :: gotime

datatype login_reason =
    BadRequest | AccountLocked int | CaptchaEmpty | CaptchaMissing | CaptchaWrong | BadPassword | UserDisabled
  | TokenFailed | MFATokenFailed | BadMFAToken | MFAFailed mfa_error | MFAWrongCode | UserNotFound

record SysLoginLog =
  llUserID :: nat
  llUsername :: string
  llRealName :: string
  llLoginType :: string
  llLoginStatus :: string
  llLoginTime :: gotime
  llFailReason :: "login_reason option"

record login_world =
  lwConfigs :: "SysConfig list"
  lwAttempts :: "SysUserLoginAttempt list"
  lwUsers :: "SysUser list"
  lwLogs :: "SysLoginLog list"
  lwMfa :: mfa_world

record login_env =
  leConfigUseCase :: bool
  leMfaUseCase :: bool
  leConfig :: config_env
  leMfa :: mfa_env
  leBcryptMatches :: "string \<Rightarrow> string \<Rightarrow> bool" \<comment> \<open>hash and password\<close>
  leBcryptHash :: "string \<Rightarrow> string option"
  leCaptcha :: "(string \<Rightarrow> string \<Rightarrow> bool) option"
  leLDAP :: "(string \<Rightarrow> string \<Rightarrow> SysUser option) option" \<comment> \<open>when LDAP is enabled\<close>
  leSign :: "JwtClaims \<Rightarrow> string option"
  leParse :: "gotime \<Rightarrow> string \<Rightarrow> JwtClaims option" \<comment> \<open>a valid token at that time\<close>
  leAttemptReadErr :: bool
  leAttemptWriteErr :: bool
  leUserErr :: bool
  leLoginLog :: bool

record LoginRequest =
  lrUsername :: string
  lrPassword :: string
  lrCaptchaId :: string
  lrCaptchaId2 :: string
  lrCaptchaCode :: string
  lrDeviceCookie :: string

datatype login_response =
    LoginRefused login_reason
  | LoginRequireMFA string
  | LoginOK string SysUser bool \<comment> \<open>token, user, set-up required\<close>

section \<open>Failed attempts\<close>

definition attemptOf :: "login_world \<Rightarrow> string \<Rightarrow> SysUserLoginAttempt option" where
  "attemptOf w name = find (\<lambda>a. atUsername a = name) (lwAttempts w)"

definition saveAttempt :: "SysUserLoginAttempt \<Rightarrow> login_world \<Rightarrow> login_world" where
  "saveAttempt a w = w\<lparr>lwAttempts := map (\<lambda>x. if atUsername x = atUsername a then a else x) (lwAttempts w)\<rparr>"

definition lockIfMax :: "gotime \<Rightarrow> int \<Rightarrow> int \<Rightarrow> SysUserLoginAttempt \<Rightarrow> SysUserLoginAttempt" where
  "lockIfMax now maxAttempts lockoutDuration a =
     (if atFailCount a \<ge> maxAttempts then a\<lparr>atLockedUntil := Some (now + lockoutDuration * 10 ^ 9)\<rparr> else a)"

definition IncrementFailCount :: "login_env \<Rightarrow> gotime \<Rightarrow> string \<Rightarrow> int \<Rightarrow> int \<Rightarrow> login_world \<Rightarrow> login_world" where
  "IncrementFailCount env now name maxAttempts lockoutDuration w =
     (if leAttemptReadErr env \<or> leAttemptWriteErr env then w
      else case attemptOf w name of
        None \<Rightarrow> w\<lparr>lwAttempts := lwAttempts w @ [lockIfMax now maxAttempts lockoutDuration
                 \<lparr>atUsername = name, atFailCount = 1, atLastFailAt = now, atLockedUntil = None\<rparr>]\<rparr>
      | Some a \<Rightarrow>
          let expired = (case atLockedUntil a of Some t \<Rightarrow> t < now | None \<Rightarrow> False);
              a = (if expired then a\<lparr>atFailCount := 1, atLockedUntil := None\<rparr> else a\<lparr>atFailCount := atFailCount a + 1\<rparr>);
              a = a\<lparr>atLastFailAt := now\<rparr>
          in saveAttempt (lockIfMax now maxAttempts lockoutDuration a) w)"

definition ResetFailCount :: "login_env \<Rightarrow> string \<Rightarrow> login_world \<Rightarrow> login_world" where
  "ResetFailCount env name w =
     (if leAttemptWriteErr env then w else w\<lparr>lwAttempts := filter (\<lambda>a. atUsername a \<noteq> name) (lwAttempts w)\<rparr>)"

text \<open>\<open>IsLocked\<close>: the end of the lock, if there is one and it is not over. A failing read counts as not locked.\<close>

definition IsLocked :: "login_env \<Rightarrow> login_world \<Rightarrow> gotime \<Rightarrow> string \<Rightarrow> gotime option" where
  "IsLocked env w now name =
     (if leAttemptReadErr env then None
      else case attemptOf w name of None \<Rightarrow> None
      | Some a \<Rightarrow> (case atLockedUntil a of Some t \<Rightarrow> if now < t then Some t else None | None \<Rightarrow> None))"

text \<open>\<open>CheckLoginAttempt\<close>: the seconds that are left.\<close>

definition CheckLoginAttempt :: "login_env \<Rightarrow> login_world \<Rightarrow> gotime \<Rightarrow> string \<Rightarrow> int option" where
  "CheckLoginAttempt env w now name = map_option (\<lambda>t. (t - now) div 10 ^ 9) (IsLocked env w now name)"

definition RecordLoginFailure :: "login_env \<Rightarrow> gotime \<Rightarrow> string \<Rightarrow> login_world \<Rightarrow> login_world" where
  "RecordLoginFailure env now name w =
     (case GetSecurityConfig (leConfig env) (lwConfigs w) of
        Inl _ \<Rightarrow> IncrementFailCount env now name 5 300 w
      | Inr c \<Rightarrow> IncrementFailCount env now name (seMaxLoginAttempts c) (seLockoutDuration c) w)"

section \<open>Users and passwords\<close>

definition userByName :: "login_world \<Rightarrow> string \<Rightarrow> SysUser option" where
  "userByName w name = find (\<lambda>u. suUsername u = name) (lwUsers w)"

definition userByID :: "login_world \<Rightarrow> nat \<Rightarrow> SysUser option" where
  "userByID w i = find (\<lambda>u. suID u = i) (lwUsers w)"

text \<open>\<open>Update\<close> of the user repository writes every field but the password.\<close>

definition updateUser :: "login_env \<Rightarrow> SysUser \<Rightarrow> login_world \<Rightarrow> login_world" where
  "updateUser env u w =
     (if leUserErr env then w
      else w\<lparr>lwUsers := map (\<lambda>x. if suID x = suID u then u\<lparr>suPassword := suPassword x\<rparr> else x) (lwUsers w)\<rparr>)"

definition UpdatePasswordRow :: "login_env \<Rightarrow> nat \<Rightarrow> string \<Rightarrow> login_world \<Rightarrow> login_reason option \<times> login_world" where
  "UpdatePasswordRow env i hash w =
     (if leUserErr env then (Some UserNotFound, w)
      else (None, w\<lparr>lwUsers := map (\<lambda>x. if suID x = i then x\<lparr>suPassword := hash\<rparr> else x) (lwUsers w)\<rparr>))"

definition ValidatePassword :: "login_env \<Rightarrow> login_world \<Rightarrow> string \<Rightarrow> string \<Rightarrow> SysUser option" where
  "ValidatePassword env w name password =
     (case userByName w name of None \<Rightarrow> None
      | Some u \<Rightarrow> if leBcryptMatches env (suPassword u) password then Some u else None)"

definition UpdatePassword :: "login_env \<Rightarrow> nat \<Rightarrow> string \<Rightarrow> string \<Rightarrow> login_world \<Rightarrow> login_reason option \<times> login_world" where
  "UpdatePassword env i oldPassword newPassword w =
     (case userByID w i of None \<Rightarrow> (Some UserNotFound, w)
      | Some u \<Rightarrow>
          if \<not> leBcryptMatches env (suPassword u) oldPassword then (Some BadPassword, w)
          else case leBcryptHash env newPassword of None \<Rightarrow> (Some BadRequest, w) | Some h \<Rightarrow> UpdatePasswordRow env i h w)"

definition ResetPassword :: "login_env \<Rightarrow> nat \<Rightarrow> string \<Rightarrow> login_world \<Rightarrow> login_reason option \<times> login_world" where
  "ResetPassword env i newPassword w =
     (case userByID w i of None \<Rightarrow> (Some UserNotFound, w)
      | Some u \<Rightarrow>
          case leBcryptHash env newPassword of None \<Rightarrow> (Some BadRequest, w) | Some h \<Rightarrow> UpdatePasswordRow env i h w)"

section \<open>Tokens\<close>

definition tokenClaims :: "string \<Rightarrow> gotime \<Rightarrow> gotime \<Rightarrow> nat \<Rightarrow> string \<Rightarrow> JwtClaims" where
  "tokenClaims tokenType now life userID name =
     \<lparr>jcUserID = userID, jcUsername = name, jcTokenType = tokenType, jcExpiresAt = now + life,
      jcIssuedAt = now, jcNotBefore = now\<rparr>"

definition GenerateToken :: "login_env \<Rightarrow> gotime \<Rightarrow> nat \<Rightarrow> string \<Rightarrow> string option" where
  "GenerateToken env now userID name = leSign env (tokenClaims ''auth'' now (24 * 3600 * 10 ^ 9) userID name)"

definition GenerateMFAToken :: "login_env \<Rightarrow> gotime \<Rightarrow> nat \<Rightarrow> string \<Rightarrow> string option" where
  "GenerateMFAToken env now userID name = leSign env (tokenClaims ''mfa'' now (5 * 60 * 10 ^ 9) userID name)"

definition ParseToken :: "login_env \<Rightarrow> gotime \<Rightarrow> string \<Rightarrow> JwtClaims option" where
  "ParseToken env now token =
     (case leParse env now token of None \<Rightarrow> None | Some c \<Rightarrow> if jcTokenType c = ''mfa'' then None else Some c)"

definition ParseMFAToken :: "login_env \<Rightarrow> gotime \<Rightarrow> string \<Rightarrow> JwtClaims option" where
  "ParseMFAToken env now token =
     (case leParse env now token of None \<Rightarrow> None | Some c \<Rightarrow> if jcTokenType c \<noteq> ''mfa'' then None else Some c)"

section \<open>The login handler\<close>

text \<open>\<open>recordLoginLog\<close>; the row is written by a goroutine of its own, here at once.\<close>

definition recordLoginLog ::
  "login_env \<Rightarrow> gotime \<Rightarrow> string \<Rightarrow> string \<Rightarrow> string \<Rightarrow> login_reason option \<Rightarrow> nat \<Rightarrow> login_world \<Rightarrow> login_world" where
  "recordLoginLog env now name loginType status reason userID w =
     (if \<not> leLoginLog env then w
      else w\<lparr>lwLogs := lwLogs w @ [\<lparr>llUserID = userID, llUsername = name,
             llRealName = (if userID \<noteq> 0 then (case userByID w userID of Some u \<Rightarrow> suRealName u | None \<Rightarrow> []) else []),
             llLoginType = loginType, llLoginStatus = status, llLoginTime = now, llFailReason = reason\<rparr>]\<rparr>)"

definition refuse :: "login_env \<Rightarrow> gotime \<Rightarrow> LoginRequest \<Rightarrow> login_reason \<Rightarrow> nat \<Rightarrow> login_world \<Rightarrow> login_response \<times> login_world" where
  "refuse env now req reason userID w =
     (LoginRefused reason, recordLoginLog env now (lrUsername req) ''web'' ''failed'' (Some reason) userID w)"

text \<open>The captcha of a request: the reason to refuse it.\<close>

definition captchaRefused :: "login_env \<Rightarrow> login_world \<Rightarrow> LoginRequest \<Rightarrow> login_reason option" where
  "captchaRefused env w req =
     (let captchaEnabled = (if leConfigUseCase env then IsCaptchaEnabled (leConfig env) (lwConfigs w) else True);
          captchaId = (if lrCaptchaId req = [] then lrCaptchaId2 req else lrCaptchaId req) in
      if \<not> captchaEnabled then None
      else if captchaId = [] \<or> lrCaptchaCode req = [] then Some CaptchaEmpty
      else case leCaptcha env of None \<Rightarrow> Some CaptchaMissing
      | Some verify \<Rightarrow> if verify captchaId (lrCaptchaCode req) then None else Some CaptchaWrong)"

text \<open>The user behind name and password: the database first, then LDAP, which is logged.\<close>

definition authenticate :: "login_env \<Rightarrow> gotime \<Rightarrow> LoginRequest \<Rightarrow> login_world \<Rightarrow> SysUser option \<times> login_world" where
  "authenticate env now req w =
     (case ValidatePassword env w (lrUsername req) (lrPassword req) of
        Some u \<Rightarrow> (Some u, w)
      | None \<Rightarrow>
        (case leLDAP env of None \<Rightarrow> (None, w)
         | Some ldap \<Rightarrow>
           (case ldap (lrUsername req) (lrPassword req) of None \<Rightarrow> (None, w)
            | Some u \<Rightarrow> (Some u, recordLoginLog env now (lrUsername req) ''ldap'' ''success'' None (suID u) w))))"

definition securityOf :: "login_env \<Rightarrow> login_world \<Rightarrow> SecurityConfig option" where
  "securityOf env w =
     (if leConfigUseCase env
      then (case GetSecurityConfig (leConfig env) (lwConfigs w) of Inr c \<Rightarrow> Some c | Inl _ \<Rightarrow> None) else None)"

definition userMFAEnabled :: "login_env \<Rightarrow> login_world \<Rightarrow> nat \<Rightarrow> bool" where
  "userMFAEnabled env w userID = (leMfaUseCase env \<and> IsMFAEnabled (leMfa env) (lwMfa w) userID)"

definition needsSecondFactor :: "login_env \<Rightarrow> login_world \<Rightarrow> gotime \<Rightarrow> LoginRequest \<Rightarrow> nat \<Rightarrow> bool" where
  "needsSecondFactor env w now req userID \<longleftrightarrow>
     (case securityOf env w of Some c \<Rightarrow> seMFAEnabled c | None \<Rightarrow> False) \<and> leMfaUseCase env
     \<and> userMFAEnabled env w userID
     \<and> \<not> (lrDeviceCookie req \<noteq> [] \<and> IsTrustedDevice (leMfa env) (lwMfa w) now userID (lrDeviceCookie req))"

definition finishLogin :: "login_env \<Rightarrow> gotime \<Rightarrow> LoginRequest \<Rightarrow> SysUser \<Rightarrow> login_world \<Rightarrow> login_response \<times> login_world" where
  "finishLogin env now req user w =
     (case GenerateToken env now (suID user) (suUsername user) of
        None \<Rightarrow> refuse env now req TokenFailed (suID user) w
      | Some token \<Rightarrow>
          let setup = ((case securityOf env w of Some c \<Rightarrow> seMFAEnforced c | None \<Rightarrow> False) \<and> \<not> userMFAEnabled env w (suID user));
              w = (if leConfigUseCase env then ResetFailCount env (lrUsername req) w else w);
              user = user\<lparr>suPassword := []\<rparr>;
              w = updateUser env user w
          in (LoginOK token user setup,
              recordLoginLog env now (lrUsername req) ''web'' ''success'' None (suID user) w))"

definition Login :: "login_env \<Rightarrow> gotime \<Rightarrow> LoginRequest \<Rightarrow> login_world \<Rightarrow> login_response \<times> login_world" where
  "Login env now req w =
     (if lrUsername req = [] \<or> lrPassword req = [] then (LoginRefused BadRequest, w)
      else case (if leConfigUseCase env then CheckLoginAttempt env w now (lrUsername req) else None) of
        Some seconds \<Rightarrow> refuse env now req (AccountLocked seconds) 0 w
      | None \<Rightarrow>
        (case captchaRefused env w req of
           Some reason \<Rightarrow> refuse env now req reason 0 w
         | None \<Rightarrow>
           (case authenticate env now req w of
              (None, w) \<Rightarrow>
                (case refuse env now req BadPassword 0 w of
                   (answer, w) \<Rightarrow> (answer, if leConfigUseCase env then RecordLoginFailure env now (lrUsername req) w else w))
            | (Some user, w) \<Rightarrow>
                if suStatus user \<noteq> 1 then refuse env now req UserDisabled (suID user) w
                else if needsSecondFactor env w now req (suID user) then
                  (case GenerateMFAToken env now (suID user) (suUsername user) of
                     None \<Rightarrow> (LoginRefused MFATokenFailed, w)
                   | Some token \<Rightarrow> (LoginRequireMFA token, w))
                else finishLogin env now req user w)))"

section \<open>The second step\<close>

text \<open>\<open>MFALogin\<close> of the handler and the service; \<open>rememberDevice\<close> asks for a trusted device.\<close>

definition MFALogin ::
  "login_env \<Rightarrow> gotime \<Rightarrow> string \<Rightarrow> string \<Rightarrow> bool \<Rightarrow> string \<Rightarrow> string \<Rightarrow> login_world
   \<Rightarrow> (login_reason + string \<times> SysUser \<times> string) \<times> login_world" where
  "MFALogin env now mfaToken code rememberDevice ip agent w =
     (if mfaToken = [] \<or> code = [] then (Inl BadRequest, w)
      else
       let skipDuration = (if rememberDevice then (case securityOf env w of Some c \<Rightarrow> seMFASkipDuration c | None \<Rightarrow> 0) else 0) in
       case ParseMFAToken env now mfaToken of
        None \<Rightarrow> (Inl BadMFAToken, w)
      | Some claims \<Rightarrow>
        (case ValidateMFACode (leMfa env) (lwMfa w) now (jcUserID claims) code ip agent of
           (Inl e, m) \<Rightarrow> (Inl (MFAFailed e), w\<lparr>lwMfa := m\<rparr>)
         | (Inr False, m) \<Rightarrow> (Inl MFAWrongCode, w\<lparr>lwMfa := m\<rparr>)
         | (Inr True, m) \<Rightarrow>
           let w = w\<lparr>lwMfa := m\<rparr> in
           (case GenerateToken env now (jcUserID claims) (jcUsername claims) of
              None \<Rightarrow> (Inl TokenFailed, w)
            | Some token \<Rightarrow>
              (case userByID w (jcUserID claims) of
                 None \<Rightarrow> (Inl UserNotFound, w)
               | Some user \<Rightarrow>
                   if rememberDevice \<and> skipDuration > 0 then
                     (case SaveTrustedDevice (leMfa env) (lwMfa w) now (jcUserID claims) agent ip skipDuration of
                        (Inl _, m) \<Rightarrow> (Inr (token, user, []), w\<lparr>lwMfa := m\<rparr>)
                      | (Inr device, m) \<Rightarrow> (Inr (token, user, device), w\<lparr>lwMfa := m\<rparr>))
                   else (Inr (token, user, []), w)))))"

end
