(* ===== verification/Oauth.thy ===== *)
theory Oauth
  imports Login
begin

text \<open>
  The OAuth2 server for single sign-on: internal/biz/identity/oauth2_server.go, its repositories
  (internal/data/identity), the endpoints of internal/service/identity/oauth2_server.go and the optional
  authentication in front of them (internal/service/rbac/middleware.go).

  Random bytes, SHA-256, the decoding of the JSON settings of an application, the parsing of an URL, the RSA
  signature of an identity token and failing repositories are parameters. A redirect is the URI it
  goes to with the query parameters that are set in it.
\<close>

section \<open>Data\<close>

record SSOApplication =
  saID :: nat
  saName :: string
  saCode :: string
  saSSOConfig :: string
  saEnabled :: bool

record SSOConfig =
  scClientID :: string
  scClientSecret :: string
  scRedirectURI :: string
  scScopes :: string

record AppPermission =
  apAppID :: nat
  apSubjectType :: string
  apSubjectID :: nat

record OAuth2AuthorizationCode =
  acCode :: string
  acClientID :: string
  acUserID :: nat
  acScope :: string
  acRedirectURI :: string
  acNonce :: string
  acCodeChallenge :: string
  acCodeChallengeMethod :: string
  acExpiresAt :: gotime
  acUsed :: bool
  acCreatedAt :: gotime

record OAuth2AccessToken =
  otID :: nat
  otTokenHash :: string
  otClientID :: string
  otUserID :: nat
  otScope :: string
  otExpiresAt :: gotime
  otCreatedAt :: gotime

record OAuth2RefreshToken =
  orID :: nat
  orTokenHash :: string
  orAccessTokenID :: nat
  orExpiresAt :: gotime
  orRevoked :: bool
  orCreatedAt :: gotime

record AuthorizeRequest =
  arClientID :: string
  arRedirectURI :: string
  arResponseType :: string
  arScope :: string
  arState :: string
  arNonce :: string
  arCodeChallenge :: string
  arCodeChallengeMethod :: string

record TokenRequest =
  trGrantType :: string
  trCode :: string
  trRedirectURI :: string
  trClientID :: string
  trClientSecret :: string
  trCodeVerifier :: string
  trRefreshToken :: string

record TokenResponse =
  tpAccessToken :: string
  tpExpiresIn :: int
  tpRefreshToken :: string
  tpScope :: string
  tpIDToken :: string

record UserInfoResponse =
  uiSub :: string
  uiName :: string
  uiEmail :: string
  uiPhone :: string
  uiAvatar :: string
  uiUsername :: string

record id_claims =
  icIss :: string
  icSub :: string
  icAud :: string
  icExp :: int
  icIat :: int
  icAuthTime :: int
  icPreferredUsername :: string
  icName :: string
  icNonce :: "string option"
  icPicture :: "string option"
  icEmail :: "string option"
  icPhoneNumber :: "string option"

datatype oauth_error =
    ClientNotFound | ClientDisabled | UnsupportedResponseType | RedirectMismatch | CodeNotGenerated | CodeNotSaved
  | UnsupportedGrantType | CodeNotFound | CodeAlreadyUsed | CodeExpired | ClientMismatch | CodeRedirectMismatch
  | VerifierRequired | VerifierInvalid | InvalidClient | SecretInvalid | CodeNotMarked | AccessNotGenerated
  | AccessNotSaved | RefreshNotGenerated | RefreshNotSaved | IDTokenFailed | RefreshNotFound | RefreshRevoked
  | RefreshExpired | TokenNotFound | TokenExpired | TokenUserNotFound | TokenNotRevoked

record oauth_world =
  owApps :: "SSOApplication list"
  owPermissions :: "AppPermission list"
  owCodes :: "OAuth2AuthorizationCode list"
  owAccess :: "OAuth2AccessToken list"
  owRefresh :: "OAuth2RefreshToken list"
  owUsers :: login_world
  owReads :: nat

record oauth_env =
  oeLogin :: login_env
  oeIssuer :: string
  oeRand :: "nat \<Rightarrow> nat \<Rightarrow> octet list option" \<comment> \<open>the read of that number, of so many bytes\<close>
  oeSha256 :: "string \<Rightarrow> octet list"
  oeSSOConfig :: "string \<Rightarrow> SSOConfig option"
  oeUrlPath :: "string \<Rightarrow> string option" \<comment> \<open>the path of an URL that can be parsed\<close>
  oeSignID :: "id_claims \<Rightarrow> string option"
  oeCodeErr :: "OAuth2AuthorizationCode \<Rightarrow> bool"
  oeMarkErr :: "string \<Rightarrow> bool"
  oeAccessErr :: "OAuth2AccessToken \<Rightarrow> bool"
  oeRefreshErr :: "OAuth2RefreshToken \<Rightarrow> bool"
  oeRevokeErr :: bool

section \<open>Repositories\<close>

definition appByCode :: "oauth_world \<Rightarrow> string \<Rightarrow> SSOApplication option" where
  "appByCode w code = find (\<lambda>a. saCode a = code) (owApps w)"

definition codeRow :: "oauth_world \<Rightarrow> string \<Rightarrow> OAuth2AuthorizationCode option" where
  "codeRow w code = find (\<lambda>c. acCode c = code) (owCodes w)"

definition accessByHash :: "oauth_world \<Rightarrow> string \<Rightarrow> OAuth2AccessToken option" where
  "accessByHash w h = find (\<lambda>t. otTokenHash t = h) (owAccess w)"

definition refreshByHash :: "oauth_world \<Rightarrow> string \<Rightarrow> OAuth2RefreshToken option" where
  "refreshByHash w h = find (\<lambda>t. orTokenHash t = h) (owRefresh w)"

text \<open>The columns of the codes and of the hashes have unique indexes.\<close>

definition createCode :: "oauth_env \<Rightarrow> OAuth2AuthorizationCode \<Rightarrow> oauth_world \<Rightarrow> (oauth_error + oauth_world)" where
  "createCode env c w =
     (if oeCodeErr env c \<or> codeRow w (acCode c) \<noteq> None then Inl CodeNotSaved else Inr (w\<lparr>owCodes := owCodes w @ [c]\<rparr>))"

definition markUsed :: "oauth_env \<Rightarrow> string \<Rightarrow> oauth_world \<Rightarrow> (oauth_error + oauth_world)" where
  "markUsed env code w =
     (if oeMarkErr env code then Inl CodeNotMarked
      else Inr (w\<lparr>owCodes := map (\<lambda>c. if acCode c = code then c\<lparr>acUsed := True\<rparr> else c) (owCodes w)\<rparr>))"

definition CreateAccessToken :: "oauth_env \<Rightarrow> OAuth2AccessToken \<Rightarrow> oauth_world \<Rightarrow> (oauth_error + nat \<times> oauth_world)" where
  "CreateAccessToken env t w =
     (if oeAccessErr env t \<or> accessByHash w (otTokenHash t) \<noteq> None then Inl AccessNotSaved
      else let i = Suc (Max (set (0 # map otID (owAccess w)))) in Inr (i, w\<lparr>owAccess := owAccess w @ [t\<lparr>otID := i\<rparr>]\<rparr>))"

definition CreateRefreshToken :: "oauth_env \<Rightarrow> OAuth2RefreshToken \<Rightarrow> oauth_world \<Rightarrow> (oauth_error + oauth_world)" where
  "CreateRefreshToken env t w =
     (if oeRefreshErr env t \<or> refreshByHash w (orTokenHash t) \<noteq> None then Inl RefreshNotSaved
      else Inr (w\<lparr>owRefresh := owRefresh w @ [t\<lparr>orID := Suc (Max (set (0 # map orID (owRefresh w))))\<rparr>]\<rparr>))"

definition RevokeRefreshToken :: "string \<Rightarrow> oauth_world \<Rightarrow> oauth_world" where
  "RevokeRefreshToken h w =
     w\<lparr>owRefresh := map (\<lambda>t. if orTokenHash t = h then t\<lparr>orRevoked := True\<rparr> else t) (owRefresh w)\<rparr>"

definition CheckPermission :: "oauth_world \<Rightarrow> nat \<Rightarrow> string \<Rightarrow> nat \<Rightarrow> bool" where
  "CheckPermission w appID subjectType subjectID \<longleftrightarrow>
     list_ex (\<lambda>p. apAppID p = appID \<and> apSubjectType p = subjectType \<and> apSubjectID p = subjectID) (owPermissions w)"

section \<open>Helpers\<close>

definition generateRandomCode :: "oauth_env \<Rightarrow> nat \<Rightarrow> oauth_world \<Rightarrow> string option \<times> oauth_world" where
  "generateRandomCode env n w =
     (map_option (\<lambda>bytes. take n (hexText (take n (bytes @ replicate n 0)))) (oeRand env (owReads w) n),
      w\<lparr>owReads := Suc (owReads w)\<rparr>)"

definition hashToken :: "oauth_env \<Rightarrow> string \<Rightarrow> string" where
  "hashToken env token = hexText (oeSha256 env token)"

text \<open>\<open>base64.RawURLEncoding\<close>: groups of six bits, the last filled with zeros, no padding.\<close>

definition base64URLAlphabet :: string where
  "base64URLAlphabet = ''ABCDEFGHIJKLMNOPQRSTUVWXYZabcdefghijklmnopqrstuvwxyz0123456789-_''"

definition RawURLEncoding :: "octet list \<Rightarrow> string" where
  "RawURLEncoding bs = map (\<lambda>g. base64URLAlphabet ! bitsNat g) (groups 6 (concat (map octetBits bs)))"

definition verifyPKCE :: "oauth_env \<Rightarrow> string \<Rightarrow> string \<Rightarrow> string \<Rightarrow> bool" where
  "verifyPKCE env challenge meth verifier =
     (if meth = ''S256'' then RawURLEncoding (oeSha256 env verifier) = challenge
      else if meth = ''plain'' \<or> meth = [] then verifier = challenge
      else False)"

fun splitAt :: "rune \<Rightarrow> string \<Rightarrow> string list" where
  "splitAt sep [] = [[]]"
| "splitAt sep (c # s) =
     (if c = sep then [] # splitAt sep s
      else case splitAt sep s of part # parts \<Rightarrow> (c # part) # parts | [] \<Rightarrow> [[c]])"

definition makeAbsoluteURL :: "oauth_env \<Rightarrow> string \<Rightarrow> string" where
  "makeAbsoluteURL env path =
     (if path = [] then []
      else if HasPrefix path ''http://'' \<or> HasPrefix path ''https://'' then path
      else TrimSuffix (oeIssuer env) ''/'' @ ''/'' @ TrimPrefix path ''/'')"

definition ParseScope :: "string \<Rightarrow> string list" where
  "ParseScope scope = (if scope = [] then [] else splitAt CHR '' '' scope)"

section \<open>Authorization codes\<close>

definition ValidateAuthorizeRequest :: "oauth_env \<Rightarrow> oauth_world \<Rightarrow> AuthorizeRequest \<Rightarrow> oauth_error + SSOApplication" where
  "ValidateAuthorizeRequest env w req =
     (case appByCode w (arClientID req) of
        None \<Rightarrow> Inl ClientNotFound
      | Some app \<Rightarrow>
          if \<not> saEnabled app then Inl ClientDisabled
          else if arResponseType req \<noteq> ''code'' then Inl UnsupportedResponseType
          else case oeSSOConfig env (saSSOConfig app) of
            None \<Rightarrow> Inr app
          | Some config \<Rightarrow>
              if scRedirectURI config \<noteq> [] \<and> arRedirectURI req \<noteq> [] \<and> scRedirectURI config \<noteq> arRedirectURI req
              then Inl RedirectMismatch else Inr app)"

definition CreateAuthorizationCode ::
  "oauth_env \<Rightarrow> oauth_world \<Rightarrow> gotime \<Rightarrow> AuthorizeRequest \<Rightarrow> nat \<Rightarrow> (oauth_error + string \<times> string) \<times> oauth_world" where
  "CreateAuthorizationCode env w now req userID =
     (case generateRandomCode env 32 w of
        (None, w) \<Rightarrow> (Inl CodeNotGenerated, w)
      | (Some code, w) \<Rightarrow>
        (case createCode env \<lparr>acCode = code, acClientID = arClientID req, acUserID = userID, acScope = arScope req,
                acRedirectURI = arRedirectURI req, acNonce = arNonce req, acCodeChallenge = arCodeChallenge req,
                acCodeChallengeMethod = arCodeChallengeMethod req, acExpiresAt = now + 10 * 60 * 10 ^ 9,
                acUsed = False, acCreatedAt = now\<rparr> w of
           Inl e \<Rightarrow> (Inl e, w)
         | Inr w \<Rightarrow> (Inr (code, arState req), w)))"

section \<open>Tokens\<close>

definition generateIDToken ::
  "oauth_env \<Rightarrow> oauth_world \<Rightarrow> gotime \<Rightarrow> nat \<Rightarrow> string \<Rightarrow> string \<Rightarrow> string \<Rightarrow> string option" where
  "generateIDToken env w now userID clientID scope nonce =
     (case userByID (owUsers w) userID of
        None \<Rightarrow> None
      | Some user \<Rightarrow>
          let scopes = splitAt CHR '' '' scope in
          oeSignID env \<lparr>icIss = oeIssuer env, icSub = suUsername user, icAud = clientID,
            icExp = (now + 3600 * 10 ^ 9) div 10 ^ 9, icIat = now div 10 ^ 9, icAuthTime = now div 10 ^ 9,
            icPreferredUsername = suUsername user, icName = suRealName user,
            icNonce = (if nonce \<noteq> [] then Some nonce else None),
            icPicture = (if suAvatar user \<noteq> [] then Some (makeAbsoluteURL env (suAvatar user)) else None),
            icEmail = (if ''email'' \<in> set scopes \<and> suEmail user \<noteq> [] then Some (suEmail user) else None),
            icPhoneNumber = (if ''phone'' \<in> set scopes \<and> suPhone user \<noteq> [] then Some (suPhone user) else None)\<rparr>)"

text \<open>The checks of an exchange, on the rows as they are read.\<close>

definition exchangeChecks ::
  "oauth_env \<Rightarrow> oauth_world \<Rightarrow> gotime \<Rightarrow> TokenRequest \<Rightarrow> oauth_error + OAuth2AuthorizationCode" where
  "exchangeChecks env w now req =
     (case codeRow w (trCode req) of
        None \<Rightarrow> Inl CodeNotFound
      | Some authCode \<Rightarrow>
          if acUsed authCode then Inl CodeAlreadyUsed
          else if now > acExpiresAt authCode then Inl CodeExpired
          else if acClientID authCode \<noteq> trClientID req then Inl ClientMismatch
          else if acRedirectURI authCode \<noteq> [] \<and> acRedirectURI authCode \<noteq> trRedirectURI req then Inl CodeRedirectMismatch
          else if acCodeChallenge authCode \<noteq> [] then
            (if trCodeVerifier req = [] then Inl VerifierRequired
             else if \<not> verifyPKCE env (acCodeChallenge authCode) (acCodeChallengeMethod authCode) (trCodeVerifier req)
             then Inl VerifierInvalid else Inr authCode)
          else
            (case appByCode w (trClientID req) of
               None \<Rightarrow> Inl InvalidClient
             | Some app \<Rightarrow>
               (case oeSSOConfig env (saSSOConfig app) of
                  None \<Rightarrow> Inr authCode
                | Some config \<Rightarrow>
                    if scClientSecret config \<noteq> [] \<and> scClientSecret config \<noteq> trClientSecret req
                    then Inl SecretInvalid else Inr authCode)))"

text \<open>The rest of it: the code is marked, then the tokens are made and saved.\<close>

definition issueTokens ::
  "oauth_env \<Rightarrow> oauth_world \<Rightarrow> gotime \<Rightarrow> TokenRequest \<Rightarrow> OAuth2AuthorizationCode
   \<Rightarrow> (oauth_error + TokenResponse) \<times> oauth_world" where
  "issueTokens env w now req authCode =
     (case markUsed env (trCode req) w of
        Inl e \<Rightarrow> (Inl e, w)
      | Inr w \<Rightarrow>
     (case generateRandomCode env 32 w of
        (None, w) \<Rightarrow> (Inl AccessNotGenerated, w)
      | (Some accessToken, w) \<Rightarrow>
     (case CreateAccessToken env \<lparr>otID = 0, otTokenHash = hashToken env accessToken, otClientID = acClientID authCode,
             otUserID = acUserID authCode, otScope = acScope authCode, otExpiresAt = now + 3600 * 10 ^ 9,
             otCreatedAt = now\<rparr> w of
        Inl e \<Rightarrow> (Inl e, w)
      | Inr (accessID, w) \<Rightarrow>
     (case generateRandomCode env 32 w of
        (None, w) \<Rightarrow> (Inl RefreshNotGenerated, w)
      | (Some refreshToken, w) \<Rightarrow>
     (case CreateRefreshToken env \<lparr>orID = 0, orTokenHash = hashToken env refreshToken, orAccessTokenID = accessID,
             orExpiresAt = now + 7 * 24 * 3600 * 10 ^ 9, orRevoked = False, orCreatedAt = now\<rparr> w of
        Inl e \<Rightarrow> (Inl e, w)
      | Inr w \<Rightarrow>
     (case generateIDToken env w now (acUserID authCode) (acClientID authCode) (acScope authCode) (acNonce authCode) of
        None \<Rightarrow> (Inl IDTokenFailed, w)
      | Some idToken \<Rightarrow>
          (Inr \<lparr>tpAccessToken = accessToken, tpExpiresIn = 3600, tpRefreshToken = refreshToken,
                tpScope = acScope authCode, tpIDToken = idToken\<rparr>, w)))))))"

definition exchangeAuthorizationCode ::
  "oauth_env \<Rightarrow> oauth_world \<Rightarrow> gotime \<Rightarrow> TokenRequest \<Rightarrow> (oauth_error + TokenResponse) \<times> oauth_world" where
  "exchangeAuthorizationCode env w now req =
     (case exchangeChecks env w now req of Inl e \<Rightarrow> (Inl e, w) | Inr authCode \<Rightarrow> issueTokens env w now req authCode)"

definition refreshAccessToken ::
  "oauth_env \<Rightarrow> oauth_world \<Rightarrow> gotime \<Rightarrow> TokenRequest \<Rightarrow> (oauth_error + TokenResponse) \<times> oauth_world" where
  "refreshAccessToken env w now req =
     (case refreshByHash w (hashToken env (trRefreshToken req)) of
        None \<Rightarrow> (Inl RefreshNotFound, w)
      | Some r \<Rightarrow>
          if orRevoked r then (Inl RefreshRevoked, w)
          else if now > orExpiresAt r then (Inl RefreshExpired, w)
          else case generateRandomCode env 32 w of
            (None, w) \<Rightarrow> (Inl AccessNotGenerated, w)
          | (Some accessToken, w) \<Rightarrow>
              (Inr \<lparr>tpAccessToken = accessToken, tpExpiresIn = 3600, tpRefreshToken = [], tpScope = [], tpIDToken = []\<rparr>, w))"

definition ExchangeToken ::
  "oauth_env \<Rightarrow> oauth_world \<Rightarrow> gotime \<Rightarrow> TokenRequest \<Rightarrow> (oauth_error + TokenResponse) \<times> oauth_world" where
  "ExchangeToken env w now req =
     (if trGrantType req = ''authorization_code'' then exchangeAuthorizationCode env w now req
      else if trGrantType req = ''refresh_token'' then refreshAccessToken env w now req
      else (Inl UnsupportedGrantType, w))"

section \<open>Use of tokens\<close>

definition ValidateAccessToken :: "oauth_env \<Rightarrow> oauth_world \<Rightarrow> gotime \<Rightarrow> string \<Rightarrow> oauth_error + OAuth2AccessToken" where
  "ValidateAccessToken env w now accessToken =
     (case accessByHash w (hashToken env accessToken) of
        None \<Rightarrow> Inl TokenNotFound
      | Some t \<Rightarrow> if now > otExpiresAt t then Inl TokenExpired else Inr t)"

definition GetUserInfo :: "oauth_env \<Rightarrow> oauth_world \<Rightarrow> gotime \<Rightarrow> string \<Rightarrow> oauth_error + UserInfoResponse" where
  "GetUserInfo env w now accessToken =
     (case accessByHash w (hashToken env accessToken) of
        None \<Rightarrow> Inl TokenNotFound
      | Some t \<Rightarrow>
          if now > otExpiresAt t then Inl TokenExpired
          else case userByID (owUsers w) (otUserID t) of
            None \<Rightarrow> Inl TokenUserNotFound
          | Some user \<Rightarrow> Inr \<lparr>uiSub = suUsername user, uiName = suRealName user, uiEmail = suEmail user, uiPhone = suPhone user,
              uiAvatar = makeAbsoluteURL env (suAvatar user), uiUsername = suUsername user\<rparr>)"

definition RevokeToken :: "oauth_env \<Rightarrow> oauth_world \<Rightarrow> string \<Rightarrow> oauth_error option \<times> oauth_world" where
  "RevokeToken env w token =
     (if oeRevokeErr env then (Some TokenNotRevoked, w) else (None, RevokeRefreshToken (hashToken env token) w))"

definition CheckAppPermission :: "oauth_world \<Rightarrow> nat \<Rightarrow> nat \<Rightarrow> nat list \<Rightarrow> nat \<Rightarrow> bool" where
  "CheckAppPermission w appID userID roleIDs deptID =
     (if CheckPermission w appID ''user'' userID then True
      else if list_ex (CheckPermission w appID ''role'') roleIDs then True
      else deptID > 0 \<and> CheckPermission w appID ''dept'' deptID)"

section \<open>Endpoints\<close>

text \<open>\<open>OptionalAuth\<close>: the session token is taken from the header, the query or the cookie.\<close>

definition OptionalAuth :: "oauth_env \<Rightarrow> gotime \<Rightarrow> string \<Rightarrow> string \<Rightarrow> string \<Rightarrow> nat option" where
  "OptionalAuth env now header query cookie =
     (let token = (if HasPrefix header ''Bearer '' then drop 7 header else []);
          token = (if token = [] then query else token);
          token = (if token = [] then cookie else token) in
      if token = [] then None else map_option jcUserID (ParseToken (oeLogin env) now token))"

text \<open>The part of the path behind \<open>auth\<close>, for clients that do not send their name.\<close>

fun behindAuth :: "string list \<Rightarrow> string option" where
  "behindAuth (part # next # rest) = (if part = ''auth'' then Some next else behindAuth (next # rest))"
| "behindAuth _ = None"

definition trimSlashes :: "string \<Rightarrow> string" where
  "trimSlashes s = (let drop_slashes = dropWhile (\<lambda>c. c = CHR ''/'') in rev (drop_slashes (rev (drop_slashes s))))"

definition clientOf :: "oauth_env \<Rightarrow> string \<Rightarrow> string \<Rightarrow> string" where
  "clientOf env clientID redirectURI =
     (if clientID = [] \<and> redirectURI \<noteq> [] then
        (case oeUrlPath env redirectURI of
           None \<Rightarrow> clientID
         | Some path \<Rightarrow> (case behindAuth (splitAt CHR ''/'' (trimSlashes path)) of Some c \<Rightarrow> c | None \<Rightarrow> clientID))
      else clientID)"

datatype authorize_answer =
    RedirectTo string "(string \<times> string) list" | RedirectError string oauth_error string
  | PlainError oauth_error | BadRedirectURI | RedirectToLogin

definition redirectWithError :: "oauth_env \<Rightarrow> string \<Rightarrow> string \<Rightarrow> oauth_error \<Rightarrow> authorize_answer" where
  "redirectWithError env redirectURI state e =
     (if redirectURI = [] then PlainError e
      else case oeUrlPath env redirectURI of None \<Rightarrow> BadRedirectURI | Some _ \<Rightarrow> RedirectError redirectURI e state)"

definition buildRedirectURL :: "oauth_env \<Rightarrow> string \<Rightarrow> string \<Rightarrow> string \<Rightarrow> authorize_answer" where
  "buildRedirectURL env redirectURI code state =
     (case oeUrlPath env redirectURI of
        None \<Rightarrow> RedirectTo redirectURI []
      | Some _ \<Rightarrow> RedirectTo redirectURI ((''code'', code) # (if state \<noteq> [] then [(''state'', state)] else [])))"

definition Authorize ::
  "oauth_env \<Rightarrow> oauth_world \<Rightarrow> gotime \<Rightarrow> nat option \<Rightarrow> AuthorizeRequest \<Rightarrow> authorize_answer \<times> oauth_world" where
  "Authorize env w now user req =
     (let req = req\<lparr>arClientID := clientOf env (arClientID req) (arRedirectURI req)\<rparr> in
      case ValidateAuthorizeRequest env w req of
        Inl e \<Rightarrow> (redirectWithError env (arRedirectURI req) (arState req) e, w)
      | Inr _ \<Rightarrow>
        (case user of
           None \<Rightarrow> (RedirectToLogin, w)
         | Some userID \<Rightarrow>
           (case CreateAuthorizationCode env w now req userID of
              (Inl e, w) \<Rightarrow> (redirectWithError env (arRedirectURI req) (arState req) e, w)
            | (Inr (code, state), w) \<Rightarrow> (buildRedirectURL env (arRedirectURI req) code state, w))))"

text \<open>The token endpoint; \<open>basic\<close> holds the credentials of the Authorization header.\<close>

definition tokenRequest :: "oauth_env \<Rightarrow> (string \<times> string) option \<Rightarrow> TokenRequest \<Rightarrow> TokenRequest" where
  "tokenRequest env basic req =
     (let req = (if trClientID req = [] then
                   (case basic of Some (i, s) \<Rightarrow> req\<lparr>trClientID := i, trClientSecret := s\<rparr> | None \<Rightarrow> req) else req)
      in req\<lparr>trClientID := clientOf env (trClientID req) (trRedirectURI req)\<rparr>)"

definition Token ::
  "oauth_env \<Rightarrow> oauth_world \<Rightarrow> gotime \<Rightarrow> (string \<times> string) option \<Rightarrow> TokenRequest
   \<Rightarrow> (oauth_error + TokenResponse) \<times> oauth_world" where
  "Token env w now basic req = ExchangeToken env w now (tokenRequest env basic req)"

definition bearerToken :: "string \<Rightarrow> string option" where
  "bearerToken header =
     (let scheme = takeWhile (\<lambda>c. c \<noteq> CHR '' '') header in
      if CHR '' '' \<in> set header \<and> ToLower scheme = ''bearer'' then Some (drop (Suc (length scheme)) header) else None)"

definition UserInfo :: "oauth_env \<Rightarrow> oauth_world \<Rightarrow> gotime \<Rightarrow> string \<Rightarrow> oauth_error + UserInfoResponse" where
  "UserInfo env w now header =
     (case bearerToken header of None \<Rightarrow> Inl TokenNotFound | Some token \<Rightarrow> GetUserInfo env w now token)"

text \<open>\<open>Introspect\<close>: the token if it is active.\<close>

definition Introspect :: "oauth_env \<Rightarrow> oauth_world \<Rightarrow> gotime \<Rightarrow> string \<Rightarrow> OAuth2AccessToken option" where
  "Introspect env w now token =
     (if token = [] then None else case ValidateAccessToken env w now token of Inl _ \<Rightarrow> None | Inr t \<Rightarrow> Some t)"

definition Revoke :: "oauth_env \<Rightarrow> oauth_world \<Rightarrow> string \<Rightarrow> oauth_error option \<times> oauth_world" where
  "Revoke env w token = (if token = [] then (Some TokenNotFound, w) else RevokeToken env w token)"

text \<open>Requests one after the other; the user of an authorization is the one of its session.\<close>

datatype oauth_op =
    OpAuthorize string string string AuthorizeRequest | OpToken "(string \<times> string) option" TokenRequest | OpRevoke string

fun oauth_step :: "oauth_env \<Rightarrow> gotime \<times> oauth_op \<Rightarrow> oauth_world \<Rightarrow> oauth_world" where
  "oauth_step env (now, OpAuthorize header query cookie req) w =
     snd (Authorize env w now (OptionalAuth env now header query cookie) req)"
| "oauth_step env (now, OpToken basic req) w = snd (Token env w now basic req)"
| "oauth_step env (now, OpRevoke token) w = snd (Revoke env w token)"

fun oauth_run :: "oauth_env \<Rightarrow> (gotime \<times> oauth_op) list \<Rightarrow> oauth_world \<Rightarrow> oauth_world" where
  "oauth_run env [] w = w"
| "oauth_run env (op # ops) w = oauth_run env ops (oauth_step env op w)"

end
