(* ===== verification/Mfa_Codec.thy ===== *)
theory Mfa_Codec
  imports Mfa
begin

text \<open>
  The codecs of the authentication component: hexadecimal texts, base32 and the encryption round trip.
\<close>

section \<open>Hexadecimal\<close>

lemma hex_nibble: "n < 16 \<Longrightarrow> hexValue (hexDigit (of_nat n)) = Some (of_nat n)"
proof -
  have "\<forall>n \<in> set [0..<16]. hexValue (hexDigit (of_nat n)) = Some (of_nat n)"
    by (simp add: upt_rec hexDigit_def hexValue_def rune_code_def)
  then show "n < 16 \<Longrightarrow> hexValue (hexDigit (of_nat n)) = Some (of_nat n)" by simp
qed

lemma low_nibble: "b AND 15 = take_bit 4 b" for b :: octet
  by (simp add: take_bit_eq_mask mask_eq_exp_minus_1)

lemma octet_nibbles: "16 * drop_bit 4 b + (b AND 15) = b" for b :: octet
  using bits_ident [of 4 b] by (simp add: low_nibble push_bit_eq_mult mult.commute)

lemma nibbles_small: "unat (drop_bit 4 b) < 16" "unat (b AND 15) < 16" for b :: octet
proof -
  have "unat b < 256" using unsigned_less [of b, where 'a = nat] by simp
  then show "unat (drop_bit 4 b) < 16" unfolding unat_drop_bit_eq by (simp add: drop_bit_eq_div)
  show "unat (b AND 15) < 16"
    using take_bit_nat_less_exp [of 4 "unat b"] by (simp add: low_nibble unsigned_take_bit_eq)
qed

lemma scan_hex_octet: "scanHexByte (hexDigit (drop_bit 4 b)) (hexDigit (b AND 15)) = Some b"
proof -
  have "hexValue (hexDigit (drop_bit 4 b)) = Some (drop_bit 4 b)" "hexValue (hexDigit (b AND 15)) = Some (b AND 15)"
    using hex_nibble [OF nibbles_small(1) [of b]] hex_nibble [OF nibbles_small(2) [of b]] by simp_all
  then show ?thesis using octet_nibbles [of b] by (simp add: scanHexByte_def)
qed

lemma scan_hexText [simp]: "scanHexBytes (hexText bs) = Some bs"
  by (induction bs) (auto simp: hexText_def scan_hex_octet)

lemma length_hexText [simp]: "length (hexText bs) = 2 * length bs"
  by (induction bs) (auto simp: hexText_def)

lemma hexText_append: "hexText (a @ b) = hexText a @ hexText b"
  by (simp add: hexText_def)

lemma randRead_length: "fst (randRead env n w) = Some bs \<Longrightarrow> length bs = n"
  by (auto simp: randRead_def)

text \<open>AES-GCM opens what it sealed with the same key and nonce.\<close>

definition gcm_opens :: "mfa_env \<Rightarrow> bool" where
  "gcm_opens env \<longleftrightarrow> (\<forall>k n p. length n = gcmNonceSize \<longrightarrow> meOpen env k n (meSeal env k n p) = Some p)"

lemma decrypt_hex:
  "length n = gcmNonceSize \<Longrightarrow> mfaDecrypt env (hexText n @ hexText bs) = meOpen env (normalizeKey (meKey env)) n bs"
  by (simp add: mfaDecrypt_def)

lemma decrypt_encrypt:
  assumes "gcm_opens env" "mfaEncrypt env p w = (Some c, w')"
  shows "mfaDecrypt env c = Some p"
proof -
  obtain nonce where n: "fst (randRead env gcmNonceSize w) = Some nonce"
    "c = hexText nonce @ hexText (meSeal env (normalizeKey (meKey env)) nonce p)"
    using assms(2) by (auto simp: mfaEncrypt_def hexText_append split: prod.splits option.splits)
  have "length nonce = gcmNonceSize" using randRead_length [OF n(1)] .
  then show ?thesis using assms(1) n(2) by (simp add: decrypt_hex gcm_opens_def)
qed

section \<open>Base32\<close>

lemma groups_Nil [simp]: "groups n [] = []"
  by (subst groups.simps) simp

lemma groups_Cons: "n > 0 \<Longrightarrow> length g = n \<Longrightarrow> groups n (g @ bs) = g # groups n bs"
  by (subst groups.simps) (auto simp: neq_Nil_conv)

lemma groups_concat: "n > 0 \<Longrightarrow> \<forall>g \<in> set gs. length g = n \<Longrightarrow> groups n (concat gs) = gs"
  by (induction gs) (auto simp: groups_Cons)

lemma concat_groups: "n > 0 \<Longrightarrow> n dvd length bs \<Longrightarrow> concat (groups n bs) = bs"
proof (induction n bs rule: groups.induct)
  case (1 n bs)
  show ?case
  proof (cases "bs = []")
    case False
    then have "n \<le> length bs" using 1(3) by (auto dest: dvd_imp_le)
    then have "take n (bs @ replicate (n - 1) False) = take n bs" by simp
    moreover have "concat (groups n (drop n bs)) = drop n bs"
      using 1 False by auto
    ultimately show ?thesis using False 1(2) by (subst groups.simps) simp
  qed simp
qed

lemma groups_length: "n > 0 \<Longrightarrow> g \<in> set (groups n bs) \<Longrightarrow> length g = n"
proof (induction n bs rule: groups.induct)
  case (1 n bs)
  have "bs \<noteq> []" using 1(3) by (cases "bs = []") auto
  then have "g = take n (bs @ replicate (n - 1) False) \<or> g \<in> set (groups n (drop n bs))"
    using 1(2,3) by (subst (asm) groups.simps) auto
  then show ?case
  proof
    assume "g = take n (bs @ replicate (n - 1) False)"
    then show ?thesis using \<open>bs \<noteq> []\<close> 1(2) by (cases bs) auto
  next
    assume "g \<in> set (groups n (drop n bs))"
    then show ?thesis using 1(1,2) \<open>bs \<noteq> []\<close> by auto
  qed
qed

lemma bitsNat_horner: "bitsNat bs = horner_sum of_bool 2 (rev bs)"
  unfolding bitsNat_def by (induction bs rule: rev_induct) (auto simp: of_bool_def)

lemma octet_of_bits: "of_nat (bitsNat (octetBits b)) = b"
proof -
  have "rev (octetBits b) = map (bit (unat b)) [0..<8]"
  proof (intro nth_equalityI)
    fix i assume i: "i < length (rev (octetBits b))"
    then have "[0..<8] ! (7 - i) = 7 - i" by (subst nth_upt) auto
    then show "rev (octetBits b) ! i = map (bit (unat b)) [0..<8] ! i"
      using i by (simp add: octetBits_def rev_nth bit_iff_odd)
  qed (simp add: octetBits_def)
  then have "bitsNat (octetBits b) = take_bit 8 (unat b)"
    by (simp add: bitsNat_horner horner_sum_bit_eq_take_bit del: upt.simps)
  moreover have "take_bit 8 (unat b) = unat b"
    using unsigned_less [of b, where 'a = nat] by (simp add: take_bit_nat_eq_self)
  ultimately show ?thesis by simp
qed

lemma quintet:
  assumes "length g = 5"
  shows "base32Value (base32Alphabet ! bitsNat g) = Some (bitsNat g)"
    and "map (\<lambda>i. odd (bitsNat g div 2 ^ (4 - i))) [0..<5] = g"
    and "rune_upper (base32Alphabet ! bitsNat g) = base32Alphabet ! bitsNat g"
    and "rune_code (base32Alphabet ! bitsNat g) < 128"
    and "base32Alphabet ! bitsNat g \<noteq> CHR ''=''"
    and "rune_code (base32Alphabet ! bitsNat g) \<notin> {10, 13}"
proof -
  obtain a b c d e where "g = [a, b, c, d, e]" using assms by (auto simp: length_Suc_conv eval_nat_numeral)
  then show "base32Value (base32Alphabet ! bitsNat g) = Some (bitsNat g)"
    and "rune_upper (base32Alphabet ! bitsNat g) = base32Alphabet ! bitsNat g"
    and "rune_code (base32Alphabet ! bitsNat g) < 128"
    and "base32Alphabet ! bitsNat g \<noteq> CHR ''=''"
    and "rune_code (base32Alphabet ! bitsNat g) \<notin> {10, 13}"
    by (cases a; cases b; cases c; cases d; cases e;
        simp add: bitsNat_def base32Alphabet_def base32Value_def rune_upper_def rune_code_def)+
  show "map (\<lambda>i. odd (bitsNat g div 2 ^ (4 - i))) [0..<5] = g"
    unfolding bit_iff_odd [symmetric] using assms
    by (intro nth_equalityI) (auto simp: bitsNat_horner bit_horner_sum_bit_iff rev_nth)
qed

lemma base32Text_chars:
  assumes "c \<in> set (base32Text bs)"
  obtains g where "length g = 5" "c = base32Alphabet ! bitsNat g"
proof -
  obtain g where g: "g \<in> set (groups 5 (concat (map octetBits bs)))" "c = base32Alphabet ! bitsNat g"
    using assms unfolding base32Text_def set_map by (rule imageE)
  show ?thesis by (rule that [OF groups_length [OF _ g(1)] g(2)]) simp
qed

lemma length_octetBits [simp]: "length (octetBits b) = 8"
  by (simp add: octetBits_def)

lemma length_bits: "length (concat (map octetBits bs)) = 8 * length bs"
  by (induction bs) auto

lemma length_concat_same: "\<forall>g \<in> set gs. length g = n \<Longrightarrow> length (concat gs) = length gs * n"
  by (induction gs) auto

lemma length_groups: "n > 0 \<Longrightarrow> n dvd length bs \<Longrightarrow> length (groups n bs) * n = length bs"
  using concat_groups [of n bs] length_concat_same [of "groups n bs" n] groups_length [of n _ bs] by auto

lemma length_base32Text: "5 dvd length bs \<Longrightarrow> length (base32Text bs) * 5 = 8 * length bs"
  using length_groups [of 5 "concat (map octetBits bs)"] by (simp add: base32Text_def length_bits)

lemma mod_base32Text: "5 dvd length bs \<Longrightarrow> length (base32Text bs) mod 8 = 0"
  using length_base32Text [of bs] by (auto elim!: dvdE)

lemma base32Text_upper: "ToUpper (base32Text bs) = base32Text bs"
proof -
  have "rune_upper c = c" if "c \<in> set (base32Text bs)" for c using base32Text_chars [OF that] quintet(3) by metis
  then show ?thesis by (simp add: ToUpper_def map_idI)
qed

lemma go_len_ascii: "\<forall>c \<in> set s. rune_code c < 128 \<Longrightarrow> go_len s = length s"
  by (induction s) (auto simp: go_len_def)

lemma base32Text_len: "go_len (base32Text bs) = length (base32Text bs)"
proof -
  have "rune_code c < 128" if "c \<in> set (base32Text bs)" for c using base32Text_chars [OF that] quintet(4) by metis
  then show ?thesis by (intro go_len_ascii) blast
qed

lemma padSecret_base32Text:
  assumes "5 dvd length bs"
  shows "padSecret (base32Text bs) = base32Text bs"
proof -
  have "c \<noteq> CHR ''=''" if "c \<in> set (base32Text bs)" for c using base32Text_chars [OF that] quintet(5) by metis
  then have "dropWhile (\<lambda>x. x = CHR ''='') (rev (base32Text bs)) = rev (base32Text bs)"
    by (cases "rev (base32Text bs)") (auto simp: dropWhile_eq_self_iff dest: arg_cong [of _ _ set])
  then have "TrimRight (base32Text bs) CHR ''='' = base32Text bs" by (simp add: TrimRight_def)
  moreover have "length (base32Text bs) mod 8 = 0" by (rule mod_base32Text [OF assms])
  ultimately show ?thesis by (simp add: padSecret_def base32Text_upper base32Text_len Let_def)
qed

lemma base32_round_trip:
  assumes "5 dvd length bs"
  shows "base32Decode (padSecret (base32Text bs)) = Some bs"
proof -
  let ?t = "base32Text bs" and ?bits = "concat (map octetBits bs)"
  have chars: "c \<noteq> CHR ''='' \<and> rune_code c \<noteq> 10 \<and> rune_code c \<noteq> 13 \<and> base32Value c \<noteq> None"
    if "c \<in> set ?t" for c
    using that by (rule base32Text_chars) (use quintet in auto)
  have f: "filter (\<lambda>c. rune_code c \<noteq> 10 \<and> rune_code c \<noteq> 13) ?t = ?t" "takeWhile (\<lambda>c. c \<noteq> CHR ''='') ?t = ?t"
    using chars by (simp_all add: filter_id_conv takeWhile_eq_all_conv)
  have len: "length ?t * 5 = length ?bits" "length ?bits div 8 * 8 = length ?bits"
    using length_base32Text [OF assms] by (simp_all add: length_bits)
  have "5 dvd length ?bits" using assms by (simp add: length_bits)
  then have five: "concat (groups 5 ?bits) = ?bits" by (intro concat_groups) auto
  let ?bits_of = "\<lambda>c. map (\<lambda>i. odd (the (base32Value c) div 2 ^ (4 - i))) [0..<5]"
  have "?bits_of (base32Alphabet ! bitsNat g) = g" if "g \<in> set (groups 5 ?bits)" for g
    unfolding quintet(1) [OF groups_length [OF _ that], simplified] option.sel
    by (rule quintet(2) [OF groups_length [OF _ that]]) simp
  then have bits: "map ?bits_of ?t = groups 5 ?bits"
    unfolding base32Text_def map_map o_def by (rule map_idI)
  have "base32Decode ?t = Some (map (\<lambda>g. of_nat (bitsNat g)) (groups 8 (take (length ?bits) (concat (map ?bits_of ?t)))))"
    unfolding base32Decode_def f Let_def len using chars mod_base32Text [OF assms]
    by (simp del: map_map upt_rec_numeral)
  then have "base32Decode ?t = Some (map (\<lambda>g. of_nat (bitsNat g)) (groups 8 ?bits))"
    unfolding bits five by simp
  moreover have "groups 8 ?bits = map octetBits bs" by (rule groups_concat) auto
  ultimately show ?thesis by (simp add: padSecret_base32Text [OF assms] o_def octet_of_bits)
qed

end
