(* ===== verification/Mfa_Sample.thy ===== *)
theory Mfa_Sample
  imports Mfa_Codec "HOL-Library.Code_Target_Nat"
begin

text \<open>
  Executable instances of the parameters of the authentication component: an authenticated cipher that
  writes the nonce and an encoding of the text in the clear and checks the nonce, a keyed digest, and an
  environment without failures. They show that what is assumed of the parameters can hold.
\<close>

section \<open>An encoding of the texts\<close>

type_synonym 'a reader = "octet list \<Rightarrow> ('a \<times> octet list) option"

definition reads :: "('a \<Rightarrow> octet list) \<Rightarrow> 'a reader \<Rightarrow> bool" where
  "reads enc rd \<longleftrightarrow> (\<forall>x rest. rd (enc x @ rest) = Some (x, rest))"

lemma reads_all: "reads enc rd \<Longrightarrow> rd (enc x) = Some (x, [])"
  unfolding reads_def by (metis append_Nil2)

lemma unat_octet: "k < 256 \<Longrightarrow> unat (of_nat k :: octet) = k"
  by (simp add: unsigned_of_nat take_bit_nat_eq_self)

fun encNat :: "nat \<Rightarrow> octet list" where
  "encNat n = (if n < 128 then [of_nat n] else of_nat (128 + n mod 128) # encNat (n div 128))"

declare encNat.simps [simp del]

fun decNat :: "nat reader" where
  "decNat [] = None"
| "decNat (b # bs) =
     (if unat b < 128 then Some (unat b, bs)
      else map_option (\<lambda>(n, rest). (unat b - 128 + 128 * n, rest)) (decNat bs))"

lemma reads_nat: "reads encNat decNat"
proof -
  have "decNat (encNat n @ rest) = Some (n, rest)" for n rest
  proof (induction n rule: encNat.induct)
    case (1 n)
    have "unat (128 + of_nat (n mod 128) :: octet) = 128 + n mod 128"
      using unat_octet [of "128 + n mod 128"] by simp
    then show ?case using 1 unat_octet [of n] by (subst encNat.simps) auto
  qed
  then show ?thesis by (simp add: reads_def)
qed

definition encString :: "string \<Rightarrow> octet list" where
  "encString s = encNat (length s) @ map (\<lambda>c. of_nat (rune_code c)) s"

definition decString :: "string reader" where
  "decString bs = map_option (\<lambda>(n, rest). (map (\<lambda>b. char_of (unat b)) (take n rest), drop n rest)) (decNat bs)"

lemma reads_string: "reads encString decString"
proof -
  have "char_of (unat (of_nat (rune_code c) :: octet)) = c" for c by (simp add: unat_octet)
  then show ?thesis using reads_nat by (simp add: reads_def encString_def decString_def o_def)
qed

definition encBool :: "bool \<Rightarrow> octet list" where
  "encBool b = [if b then 1 else 0]"

definition decBool :: "bool reader" where
  "decBool bs = (case bs of [] \<Rightarrow> None | b # rest \<Rightarrow> Some (b = 1, rest))"

lemma reads_bool: "reads encBool decBool"
  by (simp add: reads_def encBool_def decBool_def)

definition encTime :: "gotime option \<Rightarrow> octet list" where
  "encTime t = (case t of None \<Rightarrow> encNat 0
     | Some t \<Rightarrow> if t < 0 then encNat 1 @ encNat (nat (- t)) else encNat 2 @ encNat (nat t))"

definition decTime :: "gotime option reader" where
  "decTime bs = (case decNat bs of None \<Rightarrow> None
     | Some (tag, rest) \<Rightarrow>
         if tag = 0 then Some (None, rest)
         else map_option (\<lambda>(n, rest). (Some (if tag = 1 then - int n else int n), rest)) (decNat rest))"

lemma reads_time: "reads encTime decTime"
  using reads_nat by (auto simp: reads_def encTime_def decTime_def split: option.split)

definition encCode :: "BackupCode \<Rightarrow> octet list" where
  "encCode bc = encString (bcCode bc) @ encBool (bcUsed bc) @ encTime (bcUsedAt bc)"

definition decCode :: "BackupCode reader" where
  "decCode bs = (case decString bs of None \<Rightarrow> None | Some (code, rest) \<Rightarrow>
     (case decBool rest of None \<Rightarrow> None | Some (used, rest) \<Rightarrow>
     (case decTime rest of None \<Rightarrow> None | Some (t, rest) \<Rightarrow>
       Some (\<lparr>bcCode = code, bcUsed = used, bcUsedAt = t\<rparr>, rest))))"

lemma reads_code: "reads encCode decCode"
  using reads_string reads_bool reads_time by (simp add: reads_def encCode_def decCode_def)

fun decTimes :: "'a reader \<Rightarrow> nat \<Rightarrow> 'a list reader" where
  "decTimes d 0 bs = Some ([], bs)"
| "decTimes d (Suc n) bs = (case d bs of None \<Rightarrow> None
     | Some (x, rest) \<Rightarrow> map_option (\<lambda>(xs, rest). (x # xs, rest)) (decTimes d n rest))"

definition encList :: "('a \<Rightarrow> octet list) \<Rightarrow> 'a list \<Rightarrow> octet list" where
  "encList e xs = encNat (length xs) @ concat (map e xs)"

definition decList :: "'a reader \<Rightarrow> 'a list reader" where
  "decList d bs = (case decNat bs of None \<Rightarrow> None | Some (n, rest) \<Rightarrow> decTimes d n rest)"

lemma reads_list:
  assumes "reads e d"
  shows "reads (encList e) (decList d)"
proof -
  have "decTimes d (length xs) (concat (map e xs) @ rest) = Some (xs, rest)" for xs rest
    using assms by (induction xs) (auto simp: reads_def)
  then show ?thesis using reads_nat by (simp add: reads_def encList_def decList_def)
qed

definition encPlain :: "mfa_plain \<Rightarrow> octet list" where
  "encPlain p = (case p of SecretText s \<Rightarrow> 0 # encString s | CodeStrings cs \<Rightarrow> 1 # encList encString cs
     | CodeObjects bs \<Rightarrow> 2 # encList encCode bs)"

definition decPlain :: "octet list \<Rightarrow> mfa_plain option" where
  "decPlain bs = (case bs of [] \<Rightarrow> None | tag # rest \<Rightarrow>
     if tag = 0 then map_option (SecretText \<circ> fst) (decString rest)
     else if tag = 1 then map_option (CodeStrings \<circ> fst) (decList decString rest)
     else map_option (CodeObjects \<circ> fst) (decList decCode rest))"

lemma decPlain_encPlain: "decPlain (encPlain p) = Some p"
  using reads_all [OF reads_string] reads_all [OF reads_list [OF reads_string]] reads_all [OF reads_list [OF reads_code]]
  by (cases p) (simp_all add: decPlain_def encPlain_def)

section \<open>An environment\<close>

definition sample_mfa_env :: mfa_env where
  "sample_mfa_env = \<lparr>meIssuer = ''OpsHub'', meKey = [1, 2, 3],
     meRand = (\<lambda>i n. Some (map (\<lambda>j. of_nat (7 * i + j)) [0..<n])),
     meSeal = (\<lambda>k n p. n @ encPlain p),
     meOpen = (\<lambda>k n c. if take (length n) c = n then decPlain (drop (length n) c) else None),
     meHmacSha1 = (\<lambda>k m. of_nat (fold (\<lambda>b s. (s * 31 + unat b) mod 2 ^ 64) (k @ m) 7)),
     meSha256 = (\<lambda>s. map (\<lambda>c. of_nat (rune_code c)) s), meQRPng = (\<lambda>url. Some url), meGetErr = (\<lambda>_. False), meCreateErr = (\<lambda>_. False),
     meUpdateErr = (\<lambda>_. False), meLogErr = (\<lambda>_. False), meDeviceErr = (\<lambda>_. False), meDeleteErr = False\<rparr>"

lemma sample_gcm: "gcm_opens sample_mfa_env"
  by (simp add: gcm_opens_def sample_mfa_env_def decPlain_encPlain)

definition empty_mfa :: mfa_world where
  "empty_mfa = \<lparr>mwSettings = [], mwLogs = [], mwDevices = [], mwReads = 0\<rparr>"

text \<open>A stored text, and the row of user 5 with authentication on.\<close>

definition sealed :: "mfa_plain \<Rightarrow> string" where
  "sealed p = hexText (replicate gcmNonceSize 0) @ hexText (replicate gcmNonceSize 0 @ encPlain p)"

lemma decrypt_sealed: "mfaDecrypt sample_mfa_env (sealed p) = Some p"
  unfolding sealed_def by (subst decrypt_hex) (simp_all add: sample_mfa_env_def decPlain_encPlain)

definition sample_key :: "octet list" where
  "sample_key = map of_nat [1..<21]"

definition sample_setting :: "mfa_plain \<Rightarrow> UserMFA" where
  "sample_setting codes = \<lparr>umID = 1, umUserID = 5, umTOTPEnabled = True,
     umTOTPSecret = sealed (SecretText (base32Text sample_key)), umTOTPVerified = True,
     umBackupCodes = sealed codes\<rparr>"

definition sample_mfa :: "mfa_plain \<Rightarrow> mfa_world" where
  "sample_mfa codes = empty_mfa\<lparr>mwSettings := [sample_setting codes]\<rparr>"

end
