(* ===== verification/Mfa_Props.thy ===== *)
theory Mfa_Props
  imports Mfa_Sample Tables Sql_Gate "HOL-Library.Code_Target_Nat"
begin

text \<open>
  Properties of multi-factor authentication: what a user is enrolled with, which passwords are accepted,
  who may switch it on and off, and what happens to backup codes.
\<close>

section \<open>Rows\<close>

interpretation settings: row_table settingOf saveSetting umUserID
  by unfold_locales (auto simp: settingOf_def saveSetting_def find_map_key dest: find_key)

named_theorems mfa_rows \<open>operations that leave the settings alone\<close>

lemma settingOf_rows: "mwSettings w = mwSettings w' \<Longrightarrow> settingOf w u = settingOf w' u"
  by (simp add: settingOf_def)

lemma randRead_rows [mfa_rows]: "mwSettings (snd (randRead env n w)) = mwSettings w"
  by (simp add: randRead_def)

lemma generateBackupCode_rows [mfa_rows]: "mwSettings (snd (generateBackupCode env w)) = mwSettings w"
  by (simp add: generateBackupCode_def randRead_def)

lemma GenerateBackupCodes_rows [mfa_rows]: "mwSettings (snd (GenerateBackupCodes env n w)) = mwSettings w"
proof (induction n arbitrary: w)
  case (Suc n)
  then show ?case using generateBackupCode_rows [of env w] by (auto split: prod.splits option.splits) (metis snd_conv)+
qed simp

lemma other_rows [mfa_rows]:
  "mwSettings (snd (GenerateSecret env w)) = mwSettings w"
  "mwSettings (snd (mfaEncrypt env p w)) = mwSettings w"
  "mwSettings (CreateLog env w l) = mwSettings w"
  "mwSettings (DeleteUserTrustedDevices env w u) = mwSettings w"
  by (simp_all add: GenerateSecret_def mfaEncrypt_def randRead_def CreateLog_def DeleteUserTrustedDevices_def split: option.split)

lemma settingOf_reads [simp]:
  "settingOf (snd (randRead env n w)) u = settingOf w u"
  "settingOf (snd (GenerateSecret env w)) u = settingOf w u"
  "settingOf (snd (GenerateBackupCodes env k w)) u = settingOf w u"
  "settingOf (snd (mfaEncrypt env p w)) u = settingOf w u"
  "settingOf (CreateLog env w l) u = settingOf w u"
  "settingOf (DeleteUserTrustedDevices env w u') u = settingOf w u"
  by (auto intro!: settingOf_rows simp: mfa_rows)

lemma settingOf_update:
  assumes "settingOf w u = Some m" "umUserID m' = u"
  shows "settingOf (snd (UpdateMFA env w m')) v = (if v = u \<and> \<not> meUpdateErr env m' then Some m' else settingOf w v)"
  using settings.lookup_save [OF assms] by (auto simp: UpdateMFA_def)

section \<open>One-time passwords\<close>

lemma digits_of_bound: "2 \<le> b \<Longrightarrow> n < b ^ Suc k \<Longrightarrow> length (digits_of b n) \<le> Suc k"
proof (induction k arbitrary: n)
  case (Suc k)
  have "length (digits_of b (n div b)) \<le> Suc k" if "\<not> n < b"
    using Suc.IH [of "n div b"] Suc.prems by (simp add: less_mult_imp_div_less mult.commute)
  then show ?case using Suc.prems by (subst digits_of.simps) auto
qed (simp add: digits_of.simps)

lemma six_digits: "k < 1000000 \<Longrightarrow> length (digits_of 10 (nat k)) \<le> 6"
  using digits_of_bound [of 10 "nat k" 5] by simp

lemma padded_digits:
  assumes "0 \<le> k" "k < 1000000"
  shows "length (PadLeft 6 (Itoa k)) = 6 \<and> list_all IsDigit (PadLeft 6 (Itoa k))"
proof -
  have "IsDigit CHR ''0''" by code_simp
  then show ?thesis
    using six_digits [OF assms(2)] digits_of_IsDigit [of "nat k"] assms(1)
    by (auto simp: Itoa_def PadLeft_def list_all_iff)
qed

lemma totp_digits: "length (generateTOTP env key c) = 6 \<and> list_all IsDigit (generateTOTP env key c)"
proof -
  obtain x :: "32 word" where "generateTOTP env key c = PadLeft 6 (Itoa (uint (x mod 1000000)))"
    by (auto simp: generateTOTP_def Let_def)
  moreover have "uint (x mod 1000000) < 1000000" by (simp add: uint_mod)
  ultimately show ?thesis using padded_digits [of "uint (x mod 1000000)"] by simp
qed

lemma totp_len: "go_len (generateTOTP env key c) = 6"
proof -
  have "rune_code d < 128" if "d \<in> set (generateTOTP env key c)" for d
    using totp_digits [of env key c] that by (auto simp: list_all_iff IsDigit_def Let_def)
  then show ?thesis using go_len_ascii totp_digits by metis
qed

lemma totp_exact:
  assumes "5 dvd length key"
  shows "ValidateTOTP env now (base32Text key) code \<longleftrightarrow> code \<in> set (totpWindow env key now)"
proof -
  have "go_len code = TOTPDigits" if "code \<in> set (totpWindow env key now)"
    using that by (auto simp: totpWindow_def TOTPDigits_def totp_len)
  then show ?thesis by (auto simp: ValidateTOTP_def base32_round_trip [OF assms])
qed

section \<open>Enrolment\<close>

text \<open>What a set-up leaves in the row of the user and tells the user.\<close>

definition enrolled :: "mfa_env \<Rightarrow> mfa_world \<Rightarrow> octet list \<Rightarrow> MFASetupResponse \<Rightarrow> UserMFA \<Rightarrow> bool" where
  "enrolled env w key resp m \<longleftrightarrow>
     fst (randRead env SecretLength w) = Some key \<and> msSecret resp = base32Text key
     \<and> mfaDecrypt env (umTOTPSecret m) = Some (SecretText (msSecret resp))
     \<and> (\<exists>cs. length cs = 10 \<and> mfaDecrypt env (umBackupCodes m) = Some (CodeStrings cs)) \<and> \<not> IsEnabled m"

lemma length_backup_codes: "fst (GenerateBackupCodes env n w) = Some cs \<Longrightarrow> length cs = n"
proof (induction n arbitrary: w cs)
  case (Suc n)
  obtain c w1 where "generateBackupCode env w = (Some c, w1)"
    using Suc.prems by (cases "generateBackupCode env w"; cases "fst (generateBackupCode env w)") auto
  then show ?case using Suc.prems Suc.IH [of w1] by (cases "GenerateBackupCodes env n w1") auto
qed simp

lemma stored_setting:
  assumes "(case GetUserMFA env w u of Inr (Some x) \<Rightarrow> UpdateMFA env w (f x) | _ \<Rightarrow> CreateMFA env w y) = (None, w')"
    and "\<And>x. umUserID (f x) = umUserID x" "umUserID y = u"
  shows "\<exists>x i. settingOf w' u = Some x \<and> (x \<in> range f \<or> x = y\<lparr>umID := i\<rparr>)"
proof (cases "GetUserMFA env w u = Inr None \<or> (\<exists>e. GetUserMFA env w u = Inl e)")
  case True
  then have "CreateMFA env w y = (None, w')" using assms(1) by auto
  then show ?thesis using assms(3)
    by (auto simp: CreateMFA_def settingOf_def find_append split: if_splits)
next
  case False
  then obtain x where "settingOf w u = Some x" "UpdateMFA env w (f x) = (None, w')"
    using assms(1) by (cases "GetUserMFA env w u") (auto simp: GetUserMFA_def split: if_splits option.splits)
  then show ?thesis using settingOf_update [of w u x "f x" env u] settings.lookup_key assms(2)
    by (auto simp: UpdateMFA_def split: if_splits)
qed

lemma encrypted:
  assumes "gcm_opens env" "mfaEncrypt env p w = (Some c, w')"
  shows "mfaDecrypt env c = Some p" "settingOf w' u = settingOf w u" "mwSettings w' = mwSettings w"
  using decrypt_encrypt [OF assms] settingOf_reads(4) [of env p w u] other_rows(2) [of env p w] assms(2) by auto

lemma setup_enrols:
  assumes "gcm_opens env" "SetupMFA env w u name = (Inr resp, w')"
  shows "\<exists>key m. settingOf w' u = Some m \<and> enrolled env w key resp m"
proof -
  obtain secret w1 where 1: "GenerateSecret env w = (Some secret, w1)"
    using assms(2) by (cases "GenerateSecret env w"; cases "fst (GenerateSecret env w)") (auto simp: SetupMFA_def)
  obtain cs w2 where 2: "GenerateBackupCodes env 10 w1 = (Some cs, w2)"
    using assms(2) 1 by (cases "GenerateBackupCodes env 10 w1"; cases "fst (GenerateBackupCodes env 10 w1)") (auto simp: SetupMFA_def)
  obtain es w3 where 3: "mfaEncrypt env (SecretText secret) w2 = (Some es, w3)"
    using assms(2) 1 2 by (cases "mfaEncrypt env (SecretText secret) w2"; cases "fst (mfaEncrypt env (SecretText secret) w2)")
      (auto simp: SetupMFA_def)
  obtain ec w4 where 4: "mfaEncrypt env (CodeStrings cs) w3 = (Some ec, w4)"
    using assms(2) 1 2 3 by (cases "mfaEncrypt env (CodeStrings cs) w3"; cases "fst (mfaEncrypt env (CodeStrings cs) w3)")
      (auto simp: SetupMFA_def)
  let ?f = "\<lambda>m. m\<lparr>umTOTPSecret := es, umBackupCodes := ec, umTOTPEnabled := False, umTOTPVerified := False\<rparr>"
  let ?y = "\<lparr>umID = 0, umUserID = u, umTOTPEnabled = False, umTOTPSecret = es, umTOTPVerified = False, umBackupCodes = ec\<rparr>"
  have stored: "(case GetUserMFA env w4 u of Inr (Some x) \<Rightarrow> UpdateMFA env w4 (?f x) | _ \<Rightarrow> CreateMFA env w4 ?y) = (None, w')"
    and resp: "msSecret resp = secret"
    using assms(2) 1 2 3 4 by (auto simp: SetupMFA_def split: prod.splits option.splits)
  obtain x i where x: "settingOf w' u = Some x" "x \<in> range ?f \<or> x = ?y\<lparr>umID := i\<rparr>"
    using stored_setting [OF stored] by auto
  then have row: "umTOTPSecret x = es" "umBackupCodes x = ec" "\<not> IsEnabled x" by (auto simp: IsEnabled_def)
  have "\<exists>key. fst (randRead env SecretLength w) = Some key \<and> secret = base32Text key"
    using 1 by (auto simp: GenerateSecret_def split: prod.splits)
  moreover have "length cs = 10" using length_backup_codes [of env 10 w1] 2 by simp
  ultimately show ?thesis
    using x(1) row resp encrypted(1) [OF assms(1) 3] encrypted(1) [OF assms(1) 4] by (auto simp: enrolled_def)
qed

text \<open>C11: Enrolment works: after a successful set-up the secret shown to the user is the stored one, authentication
  is off, and it is switched on exactly by a password that the 20 random bytes behind the secret give for
  the present, the previous or the next half minute.\<close>

theorem enrolment_enables:
  assumes "gcm_opens env" "SetupMFA env w u name = (Inr resp, w1)" "\<not> meGetErr env u" "\<And>m. \<not> meUpdateErr env m"
  shows "\<exists>key. fst (randRead env SecretLength w) = Some key \<and> msSecret resp = base32Text key
    \<and> \<not> IsMFAEnabled env w1 u
    \<and> (\<forall>now code ip agent. fst (VerifyAndEnableMFA env w1 now u code ip agent)
           = Inr (\<exists>i \<in> {-1, 0, 1}. code = generateTOTP env key (totpCounter now + i))
         \<and> IsMFAEnabled env (snd (VerifyAndEnableMFA env w1 now u code ip agent)) u
           = (\<exists>i \<in> {-1, 0, 1}. code = generateTOTP env key (totpCounter now + i)))"
proof -
  obtain key m where m: "settingOf w1 u = Some m" "enrolled env w key resp m"
    using setup_enrols [OF assms(1,2)] by blast
  have len: "5 dvd length key" using m(2) randRead_length [of env SecretLength w key] by (simp add: enrolled_def SecretLength_def)
  have "set (totpWindow env key now) = (\<lambda>i. generateTOTP env key (totpCounter now + i)) ` {-1, 0, 1}" for now
  proof -
    have "[- TOTPSkew .. TOTPSkew] = [-1, 0, 1]" by code_simp
    then show ?thesis by (simp add: totpWindow_def)
  qed
  then have valid: "validatePlainTOTP env now (SecretText (msSecret resp)) code
      = (\<exists>i \<in> {-1, 0, 1}. code = generateTOTP env key (totpCounter now + i))" for now code
    using totp_exact [OF len, of env now code] m(2) by (auto simp: validatePlainTOTP_def enrolled_def)
  have u: "umUserID m = u" using settings.lookup_key [OF m(1)] .
  have off: "\<not> IsMFAEnabled env w1 u" using m by (simp add: IsMFAEnabled_def GetUserMFA_def enrolled_def)
  have "fst (VerifyAndEnableMFA env w1 now u code ip agent) = Inr (validatePlainTOTP env now (SecretText (msSecret resp)) code)
    \<and> IsMFAEnabled env (snd (VerifyAndEnableMFA env w1 now u code ip agent)) u
      = validatePlainTOTP env now (SecretText (msSecret resp)) code" for now code ip agent
    using m u off assms(3,4) settings.lookup_save
    by (auto simp: VerifyAndEnableMFA_def GetUserMFA_def enrolled_def Let_def UpdateMFA_def IsMFAEnabled_def IsEnabled_def)
  then show ?thesis using m(2) off valid by (auto simp: enrolled_def)
qed

section \<open>Checking a second factor\<close>

text \<open>The parts of a row that checking a code does not change.\<close>

definition switches :: "mfa_world \<Rightarrow> nat \<Rightarrow> (bool \<times> bool \<times> string) option" where
  "switches w u = map_option (\<lambda>m. (umTOTPEnabled m, umTOTPVerified m, umTOTPSecret m)) (settingOf w u)"

definition mfa_on :: "mfa_world \<Rightarrow> nat \<Rightarrow> bool" where
  "mfa_on w u \<longleftrightarrow> (case settingOf w u of Some m \<Rightarrow> IsEnabled m | None \<Rightarrow> False)"

lemma mfa_on_switches: "switches w u = switches w' u \<Longrightarrow> mfa_on w u = mfa_on w' u"
  by (auto simp: switches_def mfa_on_def IsEnabled_def split: option.splits)

text \<open>A code is accepted as a one-time password, or as a backup code that was not used yet.\<close>

definition totp_ok :: "mfa_env \<Rightarrow> gotime \<Rightarrow> UserMFA \<Rightarrow> string \<Rightarrow> bool" where
  "totp_ok env now m code \<longleftrightarrow> (case mfaDecrypt env (umTOTPSecret m) of
     Some secret \<Rightarrow> validatePlainTOTP env now secret code | None \<Rightarrow> False)"

definition backup_ok :: "mfa_env \<Rightarrow> UserMFA \<Rightarrow> string \<Rightarrow> bool" where
  "backup_ok env m code \<longleftrightarrow> (\<exists>p bs bc. mfaDecrypt env (umBackupCodes m) = Some p \<and> unmarshalBackupCodes p = Some bs
     \<and> bc \<in> set bs \<and> bcCode bc = code \<and> \<not> bcUsed bc)"

lemma useBackupCode_Some:
  "useBackupCode now code bs \<noteq> None \<longleftrightarrow> (\<exists>bc \<in> set bs. bcCode bc = code \<and> \<not> bcUsed bc)"
  by (induction bs) auto

lemma backup_code_result: "fst (validateBackupCode env w now m code) = backup_ok env m code"
  using useBackupCode_Some [of now code]
  by (auto simp: validateBackupCode_def backup_ok_def split: option.splits prod.splits) (metis option.distinct(1))+

lemma validate_answer:
  assumes "settingOf w u = Some m" "\<not> meGetErr env u" "IsEnabled m" "mfaDecrypt env (umTOTPSecret m) = Some s"
  shows "fst (ValidateMFACode env w now u code ip agent) = Inr (totp_ok env now m code \<or> backup_ok env m code)"
  using assms backup_code_result [of env w now m code]
  by (auto simp: ValidateMFACode_def GetUserMFA_def totp_ok_def split: prod.split)

lemma backup_code_world:
  "snd (validateBackupCode env w now m code) = w
   \<or> (\<exists>p. snd (validateBackupCode env w now m code) = snd (mfaEncrypt env p w))
   \<or> (\<exists>p c. snd (validateBackupCode env w now m code)
        = snd (UpdateMFA env (snd (mfaEncrypt env p w)) (m\<lparr>umBackupCodes := c\<rparr>)))"
  unfolding validateBackupCode_def by (auto split: option.split prod.split) (metis snd_conv)+

lemma backup_code_row:
  assumes "settingOf w u = Some m"
  shows "switches (snd (validateBackupCode env w now m code)) v = switches w v"
proof -
  have "umUserID m = u" using settings.lookup_key [OF assms] .
  then have "switches (snd (UpdateMFA env (snd (mfaEncrypt env p w)) (m\<lparr>umBackupCodes := c\<rparr>))) v = switches w v" for p c
    using settingOf_update [of "snd (mfaEncrypt env p w)" u m "m\<lparr>umBackupCodes := c\<rparr>" env v] assms
    by (auto simp: switches_def)
  moreover have "switches (snd (mfaEncrypt env p w)) v = switches w v" for p by (simp add: switches_def)
  ultimately show ?thesis using backup_code_world [of env w now m code] by (elim disjE exE) simp_all
qed

lemma validate_result:
  assumes "fst (ValidateMFACode env w now u code ip agent) = Inr ok"
  obtains m where "settingOf w u = Some m" "IsEnabled m" "ok \<longleftrightarrow> totp_ok env now m code \<or> backup_ok env m code"
proof -
  obtain m where m: "GetUserMFA env w u = Inr (Some m)" "IsEnabled m"
    using assms by (auto simp: ValidateMFACode_def split: sum.splits option.splits if_splits)
  then obtain s where s: "mfaDecrypt env (umTOTPSecret m) = Some s"
    using assms by (auto simp: ValidateMFACode_def split: option.splits)
  have "settingOf w u = Some m" using m(1) by (simp add: GetUserMFA_def split: if_splits)
  moreover have "ok \<longleftrightarrow> totp_ok env now m code \<or> backup_ok env m code"
    using assms m s backup_code_result [of env w now m code]
    by (auto simp: ValidateMFACode_def totp_ok_def split: if_splits prod.splits)
  ultimately show ?thesis using that m(2) by blast
qed

lemma validate_row: "switches (snd (ValidateMFACode env w now u code ip agent)) v = switches w v"
proof -
  have logged: "switches (CreateLog env w' l) v = switches w' v" for w' l by (simp add: switches_def)
  have "switches (snd (validateBackupCode env w now m code)) v = switches w v" if "GetUserMFA env w u = Inr (Some m)" for m
    using that by (intro backup_code_row [of w u]) (simp add: GetUserMFA_def split: if_splits)
  then show ?thesis
    by (auto simp: ValidateMFACode_def logged split: sum.split option.split prod.split)
qed

section \<open>Switching authentication on and off\<close>

datatype mfa_op =
    SetupOp nat string | VerifyOp nat string | ValidateOp nat string | DisableOp nat string | RegenerateOp nat string
  | SaveDeviceOp nat int | CleanDevicesOp

fun mfa_step :: "mfa_env \<Rightarrow> gotime \<times> mfa_op \<Rightarrow> mfa_world \<Rightarrow> mfa_world" where
  "mfa_step env (now, SetupOp u name) w = snd (SetupMFA env w u name)"
| "mfa_step env (now, VerifyOp u code) w = snd (VerifyAndEnableMFA env w now u code [] [])"
| "mfa_step env (now, ValidateOp u code) w = snd (ValidateMFACode env w now u code [] [])"
| "mfa_step env (now, DisableOp u code) w = snd (DisableMFA env w now u code [] [])"
| "mfa_step env (now, RegenerateOp u code) w = snd (RegenerateBackupCodes env w now u code [] [])"
| "mfa_step env (now, SaveDeviceOp u d) w = snd (SaveTrustedDevice env w now u [] [] d)"
| "mfa_step env (now, CleanDevicesOp) w = DeleteExpiredTrustedDevices now w"

lemma setting_saved:
  assumes "settingOf w u = Some m" "umUserID m' = u"
  shows "v \<noteq> u \<Longrightarrow> switches (snd (UpdateMFA env w m')) v = switches w v"
  using settingOf_update [OF assms, of env v] by (simp add: switches_def)

lemma setup_row:
  "settingOf (snd (SetupMFA env w u name)) v = settingOf w v
   \<or> v = u \<and> (\<exists>m. settingOf (snd (SetupMFA env w u name)) v = Some m \<and> \<not> IsEnabled m)"
proof -
  define kept where "kept w1 \<longleftrightarrow> settingOf w1 v = settingOf w v \<or> v = u \<and> (\<exists>m. settingOf w1 v = Some m \<and> \<not> IsEnabled m)" for w1
  have create: "kept w1"
    if "CreateMFA env w' \<lparr>umID = 0, umUserID = u, umTOTPEnabled = False, umTOTPSecret = s, umTOTPVerified = False,
          umBackupCodes = c\<rparr> = (e, w1)" "settingOf w' v = settingOf w v" for w' s c e w1
    using that by (auto simp: kept_def CreateMFA_def IsEnabled_def settingOf_def find_append split: if_splits option.splits)
  have update: "kept w1"
    if "UpdateMFA env w' (m\<lparr>umTOTPSecret := s, umBackupCodes := c, umTOTPEnabled := False, umTOTPVerified := False\<rparr>) = (e, w1)"
      "GetUserMFA env w' u = Inr (Some m)" "settingOf w' v = settingOf w v" for w' m s c e w1
    using that settings.lookup_key [of w' u m]
      settingOf_update [of w' u m "m\<lparr>umTOTPSecret := s, umBackupCodes := c, umTOTPEnabled := False, umTOTPVerified := False\<rparr>" env v]
    by (auto simp: kept_def IsEnabled_def GetUserMFA_def split: if_splits)
  have same: "settingOf w1 v = settingOf w v" if "GenerateSecret env w = (s, w1)" for s w1
    using settingOf_reads(2) [of env w v] that by simp
  have same2: "settingOf w1 v = settingOf w' v" if "GenerateBackupCodes env n w' = (s, w1)" for n s w1 w'
    using settingOf_reads(3) [of env n w' v] that by simp
  have same3: "settingOf w1 v = settingOf w' v" if "mfaEncrypt env p w' = (s, w1)" for p s w1 w'
    using settingOf_reads(4) [of env p w' v] that by simp
  have unchanged: "kept w1" if "settingOf w1 v = settingOf w v" for w1 using that by (simp add: kept_def)
  have "kept (snd (SetupMFA env w u name))"
    unfolding SetupMFA_def
    by (auto split: prod.split option.split sum.split dest!: same same2 same3 dest: create update intro: unchanged)
  then show ?thesis by (simp add: kept_def)
qed

lemma encrypt_switches: "mfaEncrypt env p w = (r, w1) \<Longrightarrow> switches w1 v = switches w v"
  using settingOf_reads(4) [of env p w v] by (simp add: switches_def)

lemma codes_saved:
  assumes "mfaEncrypt env p w = (r, w1)" "settingOf w u = Some m"
  shows "switches (snd (UpdateMFA env w1 (m\<lparr>umBackupCodes := c\<rparr>))) v = switches w v"
  using settingOf_update [of w1 u m "m\<lparr>umBackupCodes := c\<rparr>" env v] settings.lookup_key [OF assms(2)]
    settingOf_reads(4) [of env p w u] settingOf_reads(4) [of env p w v] assms
  by (auto simp: switches_def)

lemma verify_switch:
  assumes "mfa_on (snd (VerifyAndEnableMFA env w now u code ip agent)) v \<noteq> mfa_on w v"
  shows "v = u \<and> \<not> mfa_on w v \<and> (\<exists>m. settingOf w u = Some m \<and> totp_ok env now m code)"
proof -
  obtain m where m: "GetUserMFA env w u = Inr (Some m)"
    using assms by (auto simp: VerifyAndEnableMFA_def split: sum.splits option.splits)
  then have row: "settingOf w u = Some m" by (simp add: GetUserMFA_def split: if_splits)
  then have key: "umUserID m = u" by (rule settings.lookup_key)
  obtain s where s: "mfaDecrypt env (umTOTPSecret m) = Some s"
    using assms m by (auto simp: VerifyAndEnableMFA_def split: option.splits)
  have logged: "mfa_on (CreateLog env w l) v = mfa_on w v" for l by (simp add: mfa_on_def)
  let ?l = "\<lparr>mlUserID = u, mlAction = ''enable'', mlIPAddress = ip, mlUserAgent = agent, mlSuccess = True\<rparr>"
  let ?m = "m\<lparr>umTOTPEnabled := True, umTOTPVerified := True\<rparr>"
  have valid: "validatePlainTOTP env now s code"
    using assms m s logged by (auto simp: VerifyAndEnableMFA_def Let_def split: if_splits)
  then have w': "snd (VerifyAndEnableMFA env w now u code ip agent) = snd (UpdateMFA env (CreateLog env w ?l) ?m)"
    using m s by (auto simp: VerifyAndEnableMFA_def Let_def split: prod.split option.split)
  have "settingOf (snd (UpdateMFA env (CreateLog env w ?l) ?m)) v
      = (if v = u \<and> \<not> meUpdateErr env ?m then Some ?m else settingOf w v)"
    using settingOf_update [of "CreateLog env w ?l" u m ?m env v] row key by simp
  with assms w' row s valid show ?thesis
    by (auto simp: mfa_on_def totp_ok_def IsEnabled_def split: if_splits)
qed

lemma disable_switch:
  assumes "mfa_on (snd (DisableMFA env w now u code ip agent)) v \<noteq> mfa_on w v"
  shows "v = u \<and> mfa_on w v \<and> (\<exists>m. settingOf w u = Some m \<and> (totp_ok env now m code \<or> backup_ok env m code))"
proof -
  let ?v = "ValidateMFACode env w now u code ip agent"
  have same: "switches (snd ?v) x = switches w x" for x by (rule validate_row)
  have ok: "fst ?v = Inr True"
    using assms mfa_on_switches [OF same [of v]]
    by (cases ?v; cases "fst ?v") (auto simp: DisableMFA_def split: bool.splits)
  then obtain m where m: "settingOf w u = Some m" "IsEnabled m" "totp_ok env now m code \<or> backup_ok env m code"
    by (rule validate_result) auto
  have v: "?v = (Inr True, snd ?v)" using ok by (metis prod.collapse)
  have other: "mfa_on (snd (DisableMFA env w now u code ip agent)) x = mfa_on w x" if "x \<noteq> u" for x
  proof -
    have "switches (snd (UpdateMFA env (snd ?v) (m'\<lparr>umTOTPEnabled := False, umTOTPVerified := False\<rparr>))) x = switches w x"
      if "settingOf (snd ?v) u = Some m'" for m'
      using setting_saved [OF that] settings.lookup_key [OF that] \<open>x \<noteq> u\<close> same [of x] by simp
    then have "switches (case GetUserMFA env (snd ?v) u of
        Inr (Some m) \<Rightarrow> snd (UpdateMFA env (snd ?v) (m\<lparr>umTOTPEnabled := False, umTOTPVerified := False\<rparr>))
      | _ \<Rightarrow> snd ?v) x = switches w x" (is "switches ?w x = _")
      using same [of x] by (auto simp: GetUserMFA_def split: option.split)
    moreover have "snd (DisableMFA env w now u code ip agent) = CreateLog env (DeleteUserTrustedDevices env ?w u)
        \<lparr>mlUserID = u, mlAction = ''disable'', mlIPAddress = ip, mlUserAgent = agent, mlSuccess = True\<rparr>"
      unfolding DisableMFA_def by (subst v) simp
    ultimately show ?thesis by (intro mfa_on_switches) (simp add: switches_def)
  qed
  then have "v = u" using assms by blast
  then show ?thesis using m by (auto simp: mfa_on_def)
qed

lemma regenerate_row: "switches (snd (RegenerateBackupCodes env w now u code ip agent)) v = switches w v"
proof -
  let ?v = "ValidateMFACode env w now u code ip agent"
  let ?g = "GenerateBackupCodes env 10 (snd ?v)"
  have same: "switches (snd ?g) x = switches w x" for x
    using validate_row [of env w now u code ip agent x] by (simp add: switches_def)
  then show ?thesis
    using validate_row [of env w now u code ip agent v] same [of v]
    by (auto simp: RegenerateBackupCodes_def GetUserMFA_def codes_saved
        split: prod.splits sum.splits bool.splits option.splits if_splits dest: encrypt_switches)
qed

lemma device_rows:
  "mwSettings (snd (SaveTrustedDevice env w now u name ip d)) = mwSettings w"
  "mwSettings (DeleteExpiredTrustedDevices now w) = mwSettings w"
  by (auto simp: SaveTrustedDevice_def GenerateDeviceToken_def randRead_def SaveTrustedDeviceRow_def
      DeleteExpiredTrustedDevices_def split: option.split prod.split)

text \<open>C10: Authentication of a user is switched on only with a one-time password of the stored secret, and switched
  off only by the user's request to disable it with a one-time password or an unused backup code, or by
  a new set-up.\<close>

theorem mfa_switch:
  assumes "mfa_on (mfa_step env (now, op) w) u \<noteq> mfa_on w u"
  shows "\<not> mfa_on w u \<and> (\<exists>code m. op = VerifyOp u code \<and> settingOf w u = Some m \<and> totp_ok env now m code)
    \<or> mfa_on w u \<and> (\<exists>code m. op = DisableOp u code \<and> settingOf w u = Some m \<and> (totp_ok env now m code \<or> backup_ok env m code))
    \<or> mfa_on w u \<and> (\<exists>name. op = SetupOp u name)"
proof (cases op)
  case (SetupOp u' name)
  show ?thesis using assms SetupOp setup_row [of env w u' name u] by (auto simp: mfa_on_def split: option.splits)
next
  case (VerifyOp u' code)
  then show ?thesis using assms verify_switch [of env w now u' code "[]" "[]" u] by auto
next
  case (ValidateOp u' code)
  then show ?thesis using assms mfa_on_switches [OF validate_row] by auto
next
  case (DisableOp u' code)
  then show ?thesis using assms disable_switch [of env w now u' code "[]" "[]" u] by auto
next
  case (RegenerateOp u' code)
  then show ?thesis using assms mfa_on_switches [OF regenerate_row] by auto
next
  case (SaveDeviceOp u' d)
  then show ?thesis using assms settingOf_rows [OF device_rows(1)] by (auto simp: mfa_on_def)
next
  case CleanDevicesOp
  then show ?thesis using assms settingOf_rows [OF device_rows(2)] by (auto simp: mfa_on_def)
qed

lemma sample_code: "totp_ok sample_mfa_env 5 (sample_setting codes) (generateTOTP sample_mfa_env sample_key 0)"
proof -
  have "totpWindow sample_mfa_env sample_key 5 = map (generateTOTP sample_mfa_env sample_key) [-1, 0, 1]"
  proof -
    have "[- TOTPSkew .. TOTPSkew] = [-1, 0, 1]" "totpCounter 5 = 0" by code_simp+
    then show ?thesis by (simp add: totpWindow_def)
  qed
  moreover have "5 dvd length sample_key" by (simp add: sample_key_def)
  ultimately have "ValidateTOTP sample_mfa_env 5 (base32Text sample_key) (generateTOTP sample_mfa_env sample_key 0)"
    using totp_exact [of sample_key sample_mfa_env 5] by simp
  then show ?thesis by (simp add: totp_ok_def sample_setting_def decrypt_sealed validatePlainTOTP_def)
qed

lemma sample_row: "settingOf (sample_mfa codes) 5 = Some (sample_setting codes)"
  by (simp add: settingOf_def sample_mfa_def sample_setting_def)

lemma sample_enabled: "IsEnabled (sample_setting codes)"
  by (simp add: sample_setting_def IsEnabled_def)

theorem mfa_switch_witness:
  "\<exists>code. mfa_on (sample_mfa (CodeStrings [])) 5
     \<and> \<not> mfa_on (mfa_step sample_mfa_env (5, DisableOp 5 code) (sample_mfa (CodeStrings []))) 5
     \<and> (\<exists>m. settingOf (sample_mfa (CodeStrings [])) 5 = Some m \<and> totp_ok sample_mfa_env 5 m code)"
proof -
  let ?w = "sample_mfa (CodeStrings [])" and ?m = "sample_setting (CodeStrings [])"
  let ?code = "generateTOTP sample_mfa_env sample_key 0"
  have ok: "totp_ok sample_mfa_env 5 ?m ?code" by (rule sample_code)
  have on: "IsEnabled ?m" "umUserID ?m = 5" by (simp_all add: sample_setting_def IsEnabled_def)
  let ?l = "\<lparr>mlUserID = 5, mlAction = ''verify'', mlIPAddress = [], mlUserAgent = [], mlSuccess = True\<rparr>"
  let ?w1 = "CreateLog sample_mfa_env ?w ?l" and ?m1 = "?m\<lparr>umTOTPEnabled := False, umTOTPVerified := False\<rparr>"
  have v: "ValidateMFACode sample_mfa_env ?w 5 5 ?code [] [] = (Inr True, ?w1)"
    using ok on sample_row [of "CodeStrings []"]
    by (auto simp: ValidateMFACode_def GetUserMFA_def totp_ok_def sample_mfa_env_def split: option.splits)
  have "settingOf (snd (UpdateMFA sample_mfa_env ?w1 ?m1)) 5 = Some ?m1"
    using settingOf_update [of ?w1 5 ?m ?m1 sample_mfa_env 5] sample_row on by (simp add: sample_mfa_env_def)
  then have "\<not> mfa_on (mfa_step sample_mfa_env (5, DisableOp 5 ?code) ?w) 5"
    using sample_row [of "CodeStrings []"]
    by (simp add: DisableMFA_def v GetUserMFA_def Let_def mfa_on_def IsEnabled_def) (simp add: sample_mfa_env_def)
  moreover have "mfa_on ?w 5" using sample_row on by (simp add: mfa_on_def)
  ultimately show ?thesis using mfa_switch [of sample_mfa_env 5 "DisableOp 5 ?code" ?w 5] ok sample_row by auto
qed

text \<open>A new set-up of a user whose authentication is on switches it off: nothing but the session is asked for, and
  no second factor is accepted afterwards.\<close>

theorem setup_switches_off:
  assumes "gcm_opens env" "mfa_on w u" "SetupMFA env w u name = (Inr resp, w')"
  shows "\<not> mfa_on w' u \<and> fst (ValidateMFACode env w' now u code ip agent) \<in> {Inl MFANotRead, Inl MFANotEnabled}"
proof -
  obtain key m where "settingOf w' u = Some m" "enrolled env w key resp m" using setup_enrols [OF assms(1,3)] by blast
  then show ?thesis by (auto simp: mfa_on_def enrolled_def ValidateMFACode_def GetUserMFA_def)
qed

section \<open>What the service answers\<close>

text \<open>A wrong code is answered as if the switch had been made: enabling with a wrong password and disabling with
  a wrong code both report success, and authentication is as before.\<close>

theorem wrong_code_reported_as_success:
  assumes "\<not> meGetErr env u" "settingOf w u = Some m" "mfaDecrypt env (umTOTPSecret m) = Some secret"
    and "\<not> totp_ok env now m code" "\<not> backup_ok env m code"
  shows "fst (serviceEnableMFA env w now u code ip agent) = None
    \<and> mfa_on (snd (serviceEnableMFA env w now u code ip agent)) u = mfa_on w u
    \<and> (IsEnabled m \<longrightarrow> fst (serviceDisableMFA env w now u code ip agent) = None
         \<and> mfa_on (snd (serviceDisableMFA env w now u code ip agent)) u)"
proof (intro conjI impI)
  have no: "\<not> validatePlainTOTP env now secret code" using assms(3,4) by (simp add: totp_ok_def)
  show "fst (serviceEnableMFA env w now u code ip agent) = None"
    and "mfa_on (snd (serviceEnableMFA env w now u code ip agent)) u = mfa_on w u"
    using assms no by (simp_all add: serviceEnableMFA_def VerifyAndEnableMFA_def GetUserMFA_def Let_def mfa_on_def)
  assume on: "IsEnabled m"
  let ?v = "ValidateMFACode env w now u code ip agent"
  have "fst ?v = Inr False" using validate_answer [OF assms(2,1) on assms(3)] assms(4,5) by simp
  then obtain w1 where w1: "?v = (Inr False, w1)" by (metis prod.collapse)
  moreover have "mfa_on (snd ?v) u" using mfa_on_switches [OF validate_row, of env w now u code ip agent u] assms(2) on
    by (simp add: mfa_on_def)
  ultimately show "fst (serviceDisableMFA env w now u code ip agent) = None"
    and "mfa_on (snd (serviceDisableMFA env w now u code ip agent)) u"
    by (simp_all add: serviceDisableMFA_def DisableMFA_def)
qed

section \<open>Backup codes\<close>

lemma accepted_row:
  assumes "ValidateMFACode env w now u code ip agent = (Inr True, w1)"
  obtains m m1 s where "settingOf w u = Some m" "settingOf w1 u = Some m1" "IsEnabled m1"
    "umTOTPSecret m1 = umTOTPSecret m" "mfaDecrypt env (umTOTPSecret m) = Some s" "\<not> meGetErr env u"
proof -
  obtain m where m: "settingOf w u = Some m" "IsEnabled m" using validate_result [of env w now u code ip agent True] assms by auto
  have "switches w1 u = switches w u" using validate_row [of env w now u code ip agent u] assms by simp
  then obtain m1 where "settingOf w1 u = Some m1" "IsEnabled m1" "umTOTPSecret m1 = umTOTPSecret m"
    using m by (auto simp: switches_def IsEnabled_def)
  moreover obtain s where "mfaDecrypt env (umTOTPSecret m) = Some s" "\<not> meGetErr env u"
    using assms m by (auto simp: ValidateMFACode_def GetUserMFA_def split: if_splits option.splits)
  ultimately show ?thesis using that m(1) by blast
qed

lemma backup_code_length: "fst (generateBackupCode env w) = Some c \<Longrightarrow> length c = 8"
  using randRead_length [of env 8 w] by (auto simp: generateBackupCode_def split: prod.splits)

lemma backup_code_lengths: "fst (GenerateBackupCodes env n w) = Some cs \<Longrightarrow> c \<in> set cs \<Longrightarrow> length c = 8"
proof (induction n arbitrary: w cs)
  case (Suc n)
  obtain d w1 where d: "generateBackupCode env w = (Some d, w1)"
    using Suc.prems by (cases "generateBackupCode env w"; cases "fst (generateBackupCode env w)") auto
  then have "length d = 8" using backup_code_length [of env w d] by simp
  then show ?case using Suc.prems Suc.IH [of w1] d by (cases "GenerateBackupCodes env n w1") auto
qed simp

lemma length_le_go_len: "length s \<le> go_len s"
  by (induction s) (auto simp: go_len_def)

lemma eight_no_totp: "length c = 8 \<Longrightarrow> \<not> totp_ok env now m c"
  using length_le_go_len [of c]
  by (auto simp: totp_ok_def validatePlainTOTP_def ValidateTOTP_def TOTPDigits_def split: option.split mfa_plain.split)

lemma regenerated_row:
  assumes "gcm_opens env" "RegenerateBackupCodes env w now u code ip agent = (Inr codes, w1)" "\<And>m. \<not> meUpdateErr env m"
  obtains m s where "settingOf w1 u = Some m" "IsEnabled m" "mfaDecrypt env (umTOTPSecret m) = Some s" "\<not> meGetErr env u"
    "mfaDecrypt env (umBackupCodes m) = Some (CodeStrings codes)" "length codes = 10" "\<And>c. c \<in> set codes \<Longrightarrow> length c = 8"
proof -
  obtain w0 where v: "ValidateMFACode env w now u code ip agent = (Inr True, w0)"
    using assms(2) by (cases "ValidateMFACode env w now u code ip agent"; cases "fst (ValidateMFACode env w now u code ip agent)")
      (auto simp: RegenerateBackupCodes_def split: bool.splits)
  obtain w2 where g: "GenerateBackupCodes env 10 w0 = (Some codes, w2)"
    using assms(2) v by (auto simp: RegenerateBackupCodes_def split: prod.splits sum.splits option.splits)
  obtain m :: UserMFA and s where m: "settingOf w0 u = Some m" "IsEnabled m" "mfaDecrypt env (umTOTPSecret m) = Some s"
    "\<not> meGetErr env u"
    using accepted_row [OF v] by metis
  have m2: "settingOf w2 u = Some m" using m(1) g settingOf_reads(3) [of env 10 w0 u] by simp
  then obtain c w3 where e: "mfaEncrypt env (CodeStrings codes) w2 = (Some c, w3)"
    "w1 = snd (UpdateMFA env w3 (m\<lparr>umBackupCodes := c\<rparr>))"
    using assms(2) v g m(4) by (auto simp: RegenerateBackupCodes_def GetUserMFA_def split: prod.splits option.splits)
  have "settingOf w3 u = Some m" using encrypted(2) [OF assms(1) e(1)] m2 by simp
  then have "settingOf w1 u = Some (m\<lparr>umBackupCodes := c\<rparr>)"
    using settingOf_update [of w3 u m "m\<lparr>umBackupCodes := c\<rparr>" env u] settings.lookup_key [of w3 u m] assms(3) e(2) by simp
  then show ?thesis
    using that [of "m\<lparr>umBackupCodes := c\<rparr>" s] m encrypted(1) [OF assms(1) e(1)] g length_backup_codes [of env 10 w0 codes]
      backup_code_lengths [of env 10 w0 codes] by (simp add: IsEnabled_def)
qed

text \<open>The backup codes a user is given never work: they are stored as a list of texts and read back as a list of
  objects, so every code that a regeneration returned is rejected at any time after it.\<close>

theorem fresh_backup_codes_rejected:
  assumes "gcm_opens env" "RegenerateBackupCodes env w now u code ip agent = (Inr codes, w1)" "\<And>m. \<not> meUpdateErr env m"
    and "c \<in> set codes"
  shows "fst (ValidateMFACode env w1 now' u c ip' agent') = Inr False"
proof -
  obtain m :: UserMFA and s where m: "settingOf w1 u = Some m" "IsEnabled m" "mfaDecrypt env (umTOTPSecret m) = Some s"
    "\<not> meGetErr env u" "mfaDecrypt env (umBackupCodes m) = Some (CodeStrings codes)" "length codes = 10"
    "\<And>c. c \<in> set codes \<Longrightarrow> length c = 8"
    using regenerated_row [OF assms(1-3)] by metis
  have "\<not> backup_ok env m c" using m(5,6) by (auto simp: backup_ok_def unmarshalBackupCodes_def split: if_splits)
  then show ?thesis using validate_answer [OF m(1,4,2,3)] eight_no_totp [OF m(7) [OF assms(4)]] by simp
qed

lemma used_once:
  "useBackupCode now code bs = Some bs' \<Longrightarrow> distinct (map bcCode bs) \<Longrightarrow> bc \<in> set bs' \<Longrightarrow> bcCode bc = code \<Longrightarrow> bcUsed bc"
proof (induction bs arbitrary: bs')
  case (Cons a bs)
  show ?case
  proof (cases "bcCode a = code \<and> \<not> bcUsed a")
    case True
    then have "bs' = a\<lparr>bcUsed := True, bcUsedAt := Some now\<rparr> # bs" using Cons.prems(1) by simp
    moreover have "bc \<notin> set bs"
    proof
      assume "bc \<in> set bs"
      then have "bcCode bc \<in> bcCode ` set bs" by (rule imageI)
      then show False using Cons.prems(2,4) True by simp
    qed
    ultimately show ?thesis using Cons.prems(3) by simp
  next
    case False
    then obtain rest where "useBackupCode now code bs = Some rest" "bs' = a # rest" using Cons.prems(1) by auto
    then show ?thesis using Cons.IH [of rest] Cons.prems(2-4) False by auto
  qed
qed simp


section \<open>Instances\<close>

lemma generate_codes_total:
  assumes "\<And>i n. meRand env i n \<noteq> None"
  shows "\<exists>cs. fst (GenerateBackupCodes env n w) = Some cs"
proof (induction n arbitrary: w)
  case (Suc n)
  obtain d w1 where d: "generateBackupCode env w = (Some d, w1)"
    using assms [of "mwReads w" 8] by (auto simp: generateBackupCode_def randRead_def)
  then show ?case using Suc [of w1] by (cases "GenerateBackupCodes env n w1") auto
qed simp

lemma encrypt_total:
  assumes "\<And>i n. meRand env i n \<noteq> None"
  shows "\<exists>c w'. mfaEncrypt env p w = (Some c, w')"
  using assms [of "mwReads w" gcmNonceSize] by (auto simp: mfaEncrypt_def randRead_def)

lemma setup_total:
  assumes "\<And>i n. meRand env i n \<noteq> None" "\<not> meGetErr env u" "\<And>m. \<not> meUpdateErr env m" "\<And>m. \<not> meCreateErr env m"
    and "\<And>url. meQRPng env url \<noteq> None"
  shows "\<exists>resp w'. SetupMFA env w u name = (Inr resp, w')"
proof -
  obtain s w1 where 1: "GenerateSecret env w = (Some s, w1)"
    using assms(1) [of "mwReads w" SecretLength] by (auto simp: GenerateSecret_def randRead_def)
  obtain cs w2 where 2: "GenerateBackupCodes env 10 w1 = (Some cs, w2)"
    using generate_codes_total [of env 10 w1] assms(1) by (metis prod.collapse)
  obtain es w3 where 3: "mfaEncrypt env (SecretText s) w2 = (Some es, w3)" using encrypt_total [of env "SecretText s" w2] assms(1) by metis
  obtain ec w4 where 4: "mfaEncrypt env (CodeStrings cs) w3 = (Some ec, w4)"
    using encrypt_total [of env "CodeStrings cs" w3] assms(1) by metis
  obtain url where "meQRPng env (GenerateQRCodeURL s (meIssuer env) name) = Some url" using assms(5) by blast
  then show ?thesis using 1 2 3 4 assms(2-4)
    by (auto simp: SetupMFA_def GetUserMFA_def UpdateMFA_def CreateMFA_def GenerateQRCodeImage_def split: option.split)
qed

lemma sample_total:
  "meRand sample_mfa_env i n \<noteq> None" "\<not> meGetErr sample_mfa_env u" "\<not> meUpdateErr sample_mfa_env m"
  "\<not> meCreateErr sample_mfa_env m" "meQRPng sample_mfa_env url \<noteq> None"
  by (simp_all add: sample_mfa_env_def)

theorem enrolment_enables_witness:
  "\<exists>resp w1. SetupMFA sample_mfa_env empty_mfa 5 ''alice'' = (Inr resp, w1)
     \<and> IsMFAEnabled sample_mfa_env (snd (VerifyAndEnableMFA sample_mfa_env w1 5 5
         (generateTOTP sample_mfa_env (map of_nat [0..<20]) 0) [] [])) 5"
proof -
  obtain resp w1 where s: "SetupMFA sample_mfa_env empty_mfa 5 ''alice'' = (Inr resp, w1)"
    using setup_total [of sample_mfa_env 5 empty_mfa "''alice''"] sample_total by blast
  have key: "fst (randRead sample_mfa_env SecretLength empty_mfa) = Some (map of_nat [0..<20])" by code_simp
  have "totpCounter 5 = 0" by code_simp
  then show ?thesis using enrolment_enables [OF sample_gcm s sample_total(2,3)] key s by auto
qed

theorem setup_switches_off_witness:
  "mfa_on (sample_mfa (CodeStrings [])) 5
   \<and> (\<exists>resp w'. SetupMFA sample_mfa_env (sample_mfa (CodeStrings [])) 5 ''alice'' = (Inr resp, w') \<and> \<not> mfa_on w' 5)"
proof -
  let ?w = "sample_mfa (CodeStrings [])"
  have on: "mfa_on ?w 5" using sample_row by (simp add: mfa_on_def sample_setting_def IsEnabled_def)
  obtain resp w' where s: "SetupMFA sample_mfa_env ?w 5 ''alice'' = (Inr resp, w')"
    using setup_total [of sample_mfa_env 5 ?w "''alice''"] sample_total by blast
  then show ?thesis using setup_switches_off [OF sample_gcm on s] on by blast
qed

theorem wrong_code_reported_as_success_witness:
  "fst (serviceEnableMFA sample_mfa_env (sample_mfa (CodeStrings [])) 5 5 ''12'' [] []) = None
   \<and> fst (serviceDisableMFA sample_mfa_env (sample_mfa (CodeStrings [])) 5 5 ''12'' [] []) = None
   \<and> mfa_on (snd (serviceDisableMFA sample_mfa_env (sample_mfa (CodeStrings [])) 5 5 ''12'' [] [])) 5"
proof -
  let ?m = "sample_setting (CodeStrings [])"
  have "go_len ''12'' \<noteq> TOTPDigits" by code_simp
  then have no: "\<not> totp_ok sample_mfa_env 5 ?m ''12''" "\<not> backup_ok sample_mfa_env ?m ''12''"
    by (auto simp: totp_ok_def backup_ok_def sample_setting_def decrypt_sealed validatePlainTOTP_def ValidateTOTP_def
        unmarshalBackupCodes_def)
  have s: "mfaDecrypt sample_mfa_env (umTOTPSecret ?m) = Some (SecretText (base32Text sample_key))" "IsEnabled ?m"
    by (simp_all add: sample_setting_def decrypt_sealed IsEnabled_def)
  show ?thesis
    using wrong_code_reported_as_success [OF sample_total(2) sample_row s(1) no, where ip = "[]" and agent = "[]"] s(2)
    by blast
qed

theorem fresh_backup_codes_rejected_witness:
  "\<exists>codes w1. RegenerateBackupCodes sample_mfa_env (sample_mfa (CodeStrings [])) 5 5
        (generateTOTP sample_mfa_env sample_key 0) [] [] = (Inr codes, w1)
     \<and> length codes = 10 \<and> fst (ValidateMFACode sample_mfa_env w1 6 5 (hd codes) [] []) = Inr False"
proof -
  let ?w = "sample_mfa (CodeStrings [])" and ?m = "sample_setting (CodeStrings [])"
  let ?code = "generateTOTP sample_mfa_env sample_key 0"
  let ?v = "ValidateMFACode sample_mfa_env ?w 5 5 ?code [] []"
  have "fst ?v = Inr True"
    using validate_answer [OF sample_row [of "CodeStrings []"] sample_total(2) sample_enabled] sample_code
    by (simp add: sample_setting_def decrypt_sealed)
  then have v: "?v = (Inr True, snd ?v)" by (metis prod.collapse)
  obtain cs w2 where 2: "GenerateBackupCodes sample_mfa_env 10 (snd ?v) = (Some cs, w2)"
    using generate_codes_total [of sample_mfa_env 10 "snd ?v"] sample_total(1) by (metis prod.collapse)
  obtain c w3 where 3: "mfaEncrypt sample_mfa_env (CodeStrings cs) w2 = (Some c, w3)"
    using encrypt_total [of sample_mfa_env "CodeStrings cs" w2] sample_total(1) by metis
  have "\<exists>w1. RegenerateBackupCodes sample_mfa_env ?w 5 5 ?code [] [] = (Inr cs, w1)"
    unfolding RegenerateBackupCodes_def by (subst v) (simp add: 2 3 GetUserMFA_def split: option.split)
  then obtain w1 where r: "RegenerateBackupCodes sample_mfa_env ?w 5 5 ?code [] [] = (Inr cs, w1)" by blast
  have "length cs = 10" using length_backup_codes [of sample_mfa_env 10 "snd ?v" cs] 2 by simp
  then show ?thesis using fresh_backup_codes_rejected [OF sample_gcm r sample_total(3), of "hd cs" 6 "[]" "[]"] r
    by (metis list.size(3) list.set_sel(1) zero_neq_numeral)
qed


end
