(* ===== verification/Config_Props.thy ===== *)
theory Config_Props
  imports Sys_Config Tables Sql_Gate "HOL-Library.Code_Target_Nat"
begin

text \<open>
  Properties of the system settings: what is saved is what is read, and what the service lets in.
\<close>

section \<open>Numbers and truth values as text\<close>

lemma digits_value: "foldl (\<lambda>n c. n * 10 + int (rune_code c - 48)) 0 (digits_of 10 n) = int n"
proof (induction "10::nat" n rule: digits_of.induct)
  case (1 n)
  have digit: "int (rune_code (digit_rune d) - 48) = int d" if "d < 10" for d
    using that by (simp add: digit_rune_def)
  show ?case
  proof (cases "n < 10")
    case True
    then show ?thesis by (subst digits_of.simps) (simp add: digit)
  next
    case False
    then show ?thesis using 1 by (subst digits_of.simps) (simp add: digit; presburger)
  qed
qed

lemma Atoi_Itoa:
  assumes "- (2 ^ 63) \<le> i" "i < 2 ^ 63"
  shows "Atoi (Itoa i) = Some i"
proof -
  have d: "digits_of 10 n \<noteq> []" "list_all IsDigit (digits_of 10 n)" for n
    by (rule digits_of_nonempty, rule digits_of_IsDigit)
  have first: "hd (digits_of 10 n) \<noteq> CHR ''-''" "hd (digits_of 10 n) \<noteq> CHR ''+''" for n
  proof -
    have "IsDigit (hd (digits_of 10 n))" using d [of n] by (cases "digits_of 10 n") auto
    moreover have "\<not> IsDigit CHR ''-''" "\<not> IsDigit CHR ''+''" by code_simp+
    ultimately show "hd (digits_of 10 n) \<noteq> CHR ''-''" "hd (digits_of 10 n) \<noteq> CHR ''+''" by auto
  qed
  show ?thesis
  proof (cases "i < 0")
    case True
    then show ?thesis using d [of "nat (- i)"] digits_value [of "nat (- i)"] assms by (simp add: Itoa_def Atoi_def Let_def)
  next
    case False
    obtain c s where c: "digits_of 10 (nat i) = c # s" using d(1) [of "nat i"] by (cases "digits_of 10 (nat i)") auto
    with False show ?thesis using d [of "nat i"] digits_value [of "nat i"] first [of "nat i"] assms
      by (simp add: Itoa_def Atoi_def Let_def)
  qed
qed

lemma getInt_saved: "m k = Some (Itoa i) \<Longrightarrow> - (2 ^ 63) \<le> i \<Longrightarrow> i < 2 ^ 63 \<Longrightarrow> getIntValue m k d = i"
  by (simp add: getIntValue_def Atoi_Itoa)

lemma getBool_saved: "m k = Some (FormatBool b) \<Longrightarrow> getBoolValue m k d = b"
  by (simp add: getBoolValue_def FormatBool_def)

lemma getString_saved: "m k = Some s \<Longrightarrow> s \<noteq> [] \<Longrightarrow> getStringValue m k d = s"
  by (simp add: getStringValue_def)

section \<open>Rows\<close>

text \<open>Keys are unique, and a row of a known key is in the group of that key.\<close>

definition config_wf :: "SysConfig list \<Rightarrow> bool" where
  "config_wf rows \<longleftrightarrow> distinct (map scKey rows)
     \<and> (\<forall>c \<in> set rows. \<forall>v t g. map_of DefaultConfigs (scKey c) = Some (v, t, g) \<longrightarrow> scGroup c = g)"

lemma configByKey_None: "configByKey rows k = None \<longleftrightarrow> k \<notin> scKey ` set rows"
  by (auto simp: configByKey_def find_None_iff)

lemma saveConfig_wf: "config_wf rows \<Longrightarrow> config_wf (saveConfig k v rows)"
  unfolding saveConfig_def config_wf_def
  by (auto simp: configByKey_None comp_def if_distrib cong: if_cong split: option.split)

lemma configMap_group:
  assumes "config_wf rows"
  shows "configMap (configByGroup rows g) k = Some v \<longleftrightarrow> (\<exists>c \<in> set rows. scGroup c = g \<and> scKey c = k \<and> scValue c = v)"
proof -
  let ?ps = "rev (map (\<lambda>c. (scKey c, scValue c)) (configByGroup rows g))"
  have "distinct (map fst ?ps)"
    using assms distinct_map_filter [of scKey rows "\<lambda>c. scGroup c = g"]
    by (simp add: config_wf_def configByGroup_def rev_map [symmetric] o_def)
  then show ?thesis unfolding configMap_def map_of_eq_Some_iff [OF \<open>distinct (map fst ?ps)\<close>]
    by (auto simp: configByGroup_def)
qed

lemma saved_rows:
  "c \<in> set (saveConfig k v rows) \<longleftrightarrow>
     (\<exists>c0 \<in> set rows. c = (if scKey c0 = k then c0\<lparr>scValue := v\<rparr> else c0))
     \<or> (k \<notin> scKey ` set rows \<and> c = (case map_of DefaultConfigs k of
        Some (_, t, g) \<Rightarrow> \<lparr>scKey = k, scValue = v, scType = t, scGroup = g\<rparr>
      | None \<Rightarrow> \<lparr>scKey = k, scValue = v, scType = ''string'', scGroup = []\<rparr>))"
proof (cases "k \<in> scKey ` set rows")
  case False
  then have "(if scKey c0 = k then c0\<lparr>scValue := v\<rparr> else c0) = c0" if "c0 \<in> set rows" for c0 using that by auto
  then show ?thesis using False by (auto simp: saveConfig_def configByKey_None)
qed (auto simp: saveConfig_def configByKey_None)

lemma saved_value:
  assumes "config_wf rows" "map_of DefaultConfigs k = Some (v0, t, g)"
  shows "configMap (configByGroup (saveConfig k v rows) g) k = Some v"
proof (cases "k \<in> scKey ` set rows")
  case True
  then obtain c where c: "c \<in> set rows" "scKey c = k" by auto
  then have "scGroup c = g" using assms by (auto simp: config_wf_def)
  then show ?thesis unfolding configMap_group [OF saveConfig_wf [OF assms(1)]]
    using c by (intro bexI [of _ "c\<lparr>scValue := v\<rparr>"]) (auto simp: saved_rows)
next
  case False
  then show ?thesis unfolding configMap_group [OF saveConfig_wf [OF assms(1)]]
    using assms(2) by (intro bexI [of _ "\<lparr>scKey = k, scValue = v, scType = t, scGroup = g\<rparr>"]) (auto simp: saved_rows)
qed

lemma saved_other:
  assumes "config_wf rows" "k' \<noteq> k" "configMap (configByGroup rows g) k' = Some x"
  shows "configMap (configByGroup (saveConfig k v rows) g) k' = Some x"
proof -
  obtain c where c: "c \<in> set rows" "scGroup c = g" "scKey c = k'" "scValue c = x"
    using assms(3) configMap_group [OF assms(1)] by auto
  then show ?thesis unfolding configMap_group [OF saveConfig_wf [OF assms(1)]]
    using assms(2) by (intro bexI [of _ c]) (auto simp: saved_rows)
qed

lemma saved_all:
  assumes "config_wf rows" "distinct (map fst kvs)"
    and "list_all (\<lambda>k. map_option (snd \<circ> snd) (map_of DefaultConfigs k) = Some g) (map fst kvs)"
  shows "config_wf (fold (\<lambda>(k, v). saveConfig k v) kvs rows)
    \<and> (\<forall>(k, v) \<in> set kvs. configMap (configByGroup (fold (\<lambda>(k, v). saveConfig k v) kvs rows) g) k = Some v)"
  using assms(2,3)
proof (induction kvs rule: rev_induct)
  case (snoc kv kvs)
  obtain k v where kv: "kv = (k, v)" by (cases kv) auto
  let ?w = "fold (\<lambda>(k, v). saveConfig k v) kvs rows"
  have IH: "config_wf ?w" "\<forall>(k, v) \<in> set kvs. configMap (configByGroup ?w g) k = Some v"
    using snoc by (auto simp: kv)
  obtain v0 t where "map_of DefaultConfigs k = Some (v0, t, g)" using snoc.prems(2) kv by (auto simp: map_option_eq_Some)
  then have "configMap (configByGroup (saveConfig k v ?w) g) k = Some v" by (rule saved_value [OF IH(1)])
  moreover have "configMap (configByGroup (saveConfig k v ?w) g) k' = Some v'" if "(k', v') \<in> set kvs" for k' v'
  proof -
    have "k' \<noteq> k" using snoc.prems(1) that kv by (auto simp: image_iff)
    then show ?thesis using saved_other [OF IH(1)] IH(2) that by auto
  qed
  ultimately show ?case using saveConfig_wf [OF IH(1)] by (auto simp: kv)
qed (simp add: assms(1))

definition int64 :: "int \<Rightarrow> bool" where "int64 i \<longleftrightarrow> - (2 ^ 63) \<le> i \<and> i < 2 ^ 63"

lemma security_keys:
  "distinct [''password_min_length'', ''session_timeout'', ''enable_captcha'', ''max_login_attempts'', ''lockout_duration'',
     ''mfa_enabled'', ''mfa_enforced'', ''mfa_type'', ''mfa_skip_duration'']"
  "list_all (\<lambda>k. map_option (snd \<circ> snd) (map_of DefaultConfigs k) = Some GroupSecurity)
     [''password_min_length'', ''session_timeout'', ''enable_captcha'', ''max_login_attempts'', ''lockout_duration'',
      ''mfa_enabled'', ''mfa_enforced'', ''mfa_type'', ''mfa_skip_duration'']"
  by code_simp+

text \<open>Security settings that are saved are the settings that are read afterwards, the rows stay well formed, and
  the service saves only password lengths of 6 to 20 and limits of 3 to 10 failed logins.\<close>

theorem security_round_trip:
  assumes "config_wf rows" "serviceSaveSecurityConfig env c rows = (None, rows')" "\<not> ceReadErr env"
    and "int64 (seSessionTimeout c)" "int64 (seLockoutDuration c)" "int64 (seMFASkipDuration c)" "seMFAType c \<noteq> []"
  shows "GetSecurityConfig env rows' = Inr c \<and> config_wf rows'
    \<and> sePasswordMinLength c \<in> {6..20} \<and> seMaxLoginAttempts c \<in> {3..10}"
proof -
  let ?kvs = "[(''password_min_length'', Itoa (sePasswordMinLength c)), (''session_timeout'', Itoa (seSessionTimeout c)),
      (''enable_captcha'', FormatBool (seEnableCaptcha c)), (''max_login_attempts'', Itoa (seMaxLoginAttempts c)),
      (''lockout_duration'', Itoa (seLockoutDuration c)), (''mfa_enabled'', FormatBool (seMFAEnabled c)),
      (''mfa_enforced'', FormatBool (seMFAEnforced c)), (''mfa_type'', seMFAType c),
      (''mfa_skip_duration'', Itoa (seMFASkipDuration c))]"
  have range: "sePasswordMinLength c \<in> {6..20}" "seMaxLoginAttempts c \<in> {3..10}"
    and rows': "rows' = fold (\<lambda>(k, v). saveConfig k v) ?kvs rows"
    using assms(2) by (auto simp: serviceSaveSecurityConfig_def SaveSecurityConfig_def BatchSaveOrUpdate_def split: if_splits)
  have "config_wf rows' \<and> (\<forall>(k, v) \<in> set ?kvs. configMap (configByGroup rows' GroupSecurity) k = Some v)"
    unfolding rows' by (rule saved_all [OF assms(1)]) (simp_all only: list.map fst_conv security_keys)
  moreover define M where "M = configMap (configByGroup rows' GroupSecurity)"
  ultimately have wf: "config_wf rows'" and m: "\<forall>(k, v) \<in> set ?kvs. M k = Some v" by simp_all
  have small: "int64 (sePasswordMinLength c)" "int64 (seMaxLoginAttempts c)" using range by (auto simp: int64_def)
  have "GetSecurityConfig env rows' = Inr c"
    using assms(3-7) small m unfolding GetSecurityConfig_def groupMap_def M_def [symmetric] int64_def
    by (simp add: getInt_saved getBool_saved getString_saved)
  with wf range show ?thesis by simp
qed

definition sample_config_env :: config_env where
  "sample_config_env = \<lparr>ceReadErr = False, ceWriteErr = False, ceMarshal = concat, ceUnmarshal = (\<lambda>_. None)\<rparr>"

definition sample_security :: SecurityConfig where
  "sample_security = \<lparr>sePasswordMinLength = 10, seSessionTimeout = 600, seEnableCaptcha = False, seMaxLoginAttempts = 3,
     seLockoutDuration = 60, seMFAEnabled = True, seMFAEnforced = False, seMFAType = ''totp'', seMFASkipDuration = 3600\<rparr>"

theorem security_round_trip_witness:
  "\<exists>rows. serviceSaveSecurityConfig sample_config_env sample_security [] = (None, rows)
     \<and> GetSecurityConfig sample_config_env rows = Inr sample_security"
proof -
  obtain rows where rows: "serviceSaveSecurityConfig sample_config_env sample_security [] = (None, rows)"
    by (simp add: serviceSaveSecurityConfig_def SaveSecurityConfig_def BatchSaveOrUpdate_def sample_security_def sample_config_env_def)
  have "config_wf []" by (simp add: config_wf_def)
  from security_round_trip [OF this rows] rows show ?thesis
    by (simp add: sample_config_env_def sample_security_def int64_def)
qed

end
