(* ===== verification/Login_Props.thy ===== *)
theory Login_Props
  imports Login Mfa_Props Config_Props
begin

text \<open>
  Properties of logging in: what a session token was given for, that the two kinds of tokens are kept apart,
  when an account is locked, and what a login leaves behind.
\<close>

section \<open>Sessions\<close>

lemma captcha_reason: "captchaRefused env w req \<noteq> Some BadPassword"
  by (auto simp: captchaRefused_def Let_def split: option.split)

lemma refuse_answer [simp]: "fst (refuse env now req reason i w) = LoginRefused reason"
  by (simp add: refuse_def)

text \<open>What stands before a session is given to a user.\<close>

definition first_factor :: "login_env \<Rightarrow> login_world \<Rightarrow> LoginRequest \<Rightarrow> SysUser \<Rightarrow> bool" where
  "first_factor env w req u \<longleftrightarrow>
     ValidatePassword env w (lrUsername req) (lrPassword req) = Some u
     \<or> (\<exists>ldap. leLDAP env = Some ldap \<and> ldap (lrUsername req) (lrPassword req) = Some u)"

lemma authenticated: "authenticate env now req w = (Some u, w') \<Longrightarrow> first_factor env w req u"
  by (auto simp: authenticate_def first_factor_def split: option.splits)

lemma authenticate_same:
  "authenticate env now req w = (r, w') \<Longrightarrow>
     lwConfigs w' = lwConfigs w \<and> lwAttempts w' = lwAttempts w \<and> lwMfa w' = lwMfa w \<and> lwUsers w' = lwUsers w"
  by (auto simp: authenticate_def recordLoginLog_def split: option.splits)

lemma factor_same:
  assumes "lwConfigs w' = lwConfigs w" "lwMfa w' = lwMfa w"
  shows "needsSecondFactor env w' now req i = needsSecondFactor env w now req i"
  using assms by (simp add: needsSecondFactor_def securityOf_def userMFAEnabled_def)

lemma login_accepted:
  assumes "Login env now req w = (LoginOK token user setup, w')"
  obtains u w1 where "leConfigUseCase env \<Longrightarrow> IsLocked env w now (lrUsername req) = None"
    "captchaRefused env w req = None" "authenticate env now req w = (Some u, w1)" "suStatus u = 1"
    "\<not> needsSecondFactor env w now req (suID u)" "finishLogin env now req u w1 = (LoginOK token user setup, w')"
proof -
  have unlocked: "(if leConfigUseCase env then CheckLoginAttempt env w now (lrUsername req) else None) = None"
    using assms by (auto simp: Login_def refuse_def split: if_splits option.splits)
  have captcha: "captchaRefused env w req = None"
    using assms unlocked by (auto simp: Login_def refuse_def split: if_splits option.splits)
  obtain u w1 where a: "authenticate env now req w = (Some u, w1)"
    using assms unlocked captcha by (cases "authenticate env now req w"; cases "fst (authenticate env now req w)")
      (auto simp: Login_def refuse_def split: if_splits)
  have "suStatus u = 1" "\<not> needsSecondFactor env w1 now req (suID u)"
    "finishLogin env now req u w1 = (LoginOK token user setup, w')"
    using assms unlocked captcha a by (auto simp: Login_def refuse_def split: if_splits option.splits)
  moreover have "leConfigUseCase env \<Longrightarrow> IsLocked env w now (lrUsername req) = None"
    using unlocked by (simp add: CheckLoginAttempt_def)
  ultimately show ?thesis using that captcha a factor_same authenticate_same [OF a] by metis
qed

lemma finished_token:
  assumes "finishLogin env now req u w = (LoginOK token user setup, w')"
  shows "GenerateToken env now (suID u) (suUsername u) = Some token" "user = u\<lparr>suPassword := []\<rparr>"
  using assms by (auto simp: finishLogin_def refuse_def Let_def split: option.splits)

text \<open>C2: A login gives a session only to an enabled user who showed a password the database or LDAP accepts, behind
  the captcha and while the account is not locked; and if authentication with a second factor is on, in
  the settings and for the user, only from a trusted device of that user.\<close>

theorem login_needs_factors:
  assumes "Login env now req w = (LoginOK token user setup, w')"
  shows "(leConfigUseCase env \<longrightarrow> IsLocked env w now (lrUsername req) = None)
    \<and> captchaRefused env w req = None
    \<and> (\<exists>u. first_factor env w req u \<and> suStatus u = 1 \<and> user = u\<lparr>suPassword := []\<rparr>
         \<and> GenerateToken env now (suID u) (suUsername u) = Some token
         \<and> (leMfaUseCase env \<and> IsMFAEnabled (leMfa env) (lwMfa w) (suID u)
              \<and> (case securityOf env w of Some c \<Rightarrow> seMFAEnabled c | None \<Rightarrow> False)
            \<longrightarrow> IsTrustedDevice (leMfa env) (lwMfa w) now (suID u) (lrDeviceCookie req)))"
proof -
  obtain u w1 where u: "leConfigUseCase env \<Longrightarrow> IsLocked env w now (lrUsername req) = None"
    "captchaRefused env w req = None" "authenticate env now req w = (Some u, w1)" "suStatus u = 1"
    "\<not> needsSecondFactor env w now req (suID u)" "finishLogin env now req u w1 = (LoginOK token user setup, w')"
    using login_accepted [OF assms] by metis
  show ?thesis
    using u(1,2,4,5) authenticated [OF u(3)] finished_token [OF u(6)]
    by (auto simp: needsSecondFactor_def userMFAEnabled_def)
qed

text \<open>C9: The second step gives a session only for an unexpired token of a first step, and only for a one-time password
  or an unused backup code of the user of that token, whose authentication is on.\<close>

theorem second_step_needs_code:
  assumes "MFALogin env now mfaToken code remember ip agent w = (Inr (token, user, device), w')"
  shows "\<exists>claims m. ParseMFAToken env now mfaToken = Some claims \<and> jcTokenType claims = ''mfa''
    \<and> GenerateToken env now (jcUserID claims) (jcUsername claims) = Some token
    \<and> userByID w (jcUserID claims) = Some user
    \<and> settingOf (lwMfa w) (jcUserID claims) = Some m \<and> IsEnabled m
    \<and> (totp_ok (leMfa env) now m code \<or> backup_ok (leMfa env) m code)"
proof -
  obtain claims where c: "ParseMFAToken env now mfaToken = Some claims" "jcTokenType claims = ''mfa''"
    using assms by (auto simp: MFALogin_def Let_def ParseMFAToken_def split: if_splits option.splits)
  let ?v = "ValidateMFACode (leMfa env) (lwMfa w) now (jcUserID claims) code ip agent"
  have v: "fst ?v = Inr True"
    using assms c by (auto simp: MFALogin_def Let_def split: if_splits prod.splits sum.splits bool.splits)
  then obtain m where "settingOf (lwMfa w) (jcUserID claims) = Some m" "IsEnabled m"
    "totp_ok (leMfa env) now m code \<or> backup_ok (leMfa env) m code"
    using validate_result [OF v] by auto
  moreover have "GenerateToken env now (jcUserID claims) (jcUsername claims) = Some token
      \<and> userByID w (jcUserID claims) = Some user"
    using assms c v
    by (auto simp: MFALogin_def Let_def userByID_def split: if_splits prod.splits sum.splits option.splits bool.splits)
  ultimately show ?thesis using c by blast
qed

section \<open>Tokens\<close>

text \<open>A token that is accepted carries the claims it was signed for.\<close>

definition jwt_carries :: "login_env \<Rightarrow> bool" where
  "jwt_carries env \<longleftrightarrow> (\<forall>c t token c'. leSign env c = Some token \<and> leParse env t token = Some c' \<longrightarrow>
     jcUserID c' = jcUserID c \<and> jcUsername c' = jcUsername c \<and> jcTokenType c' = jcTokenType c)"

lemma carried_type:
  "jwt_carries env \<Longrightarrow> leSign env c = Some token \<Longrightarrow> leParse env t token = Some c' \<Longrightarrow> jcTokenType c' = jcTokenType c"
  unfolding jwt_carries_def by blast

text \<open>The token of a first step is never taken for a session, and a session token never for one of a first step.\<close>

theorem token_kinds_apart:
  assumes "jwt_carries env" "GenerateMFAToken env now i name = Some mfaToken" "GenerateToken env now i name = Some token"
  shows "ParseToken env t mfaToken = None \<and> ParseMFAToken env t token = None"
proof -
  have "jcTokenType c = ''mfa''" if "leParse env t mfaToken = Some c" for c
    using carried_type [OF assms(1) _ that] assms(2) by (simp add: GenerateMFAToken_def tokenClaims_def)
  moreover have "jcTokenType c = ''auth''" if "leParse env t token = Some c" for c
    using carried_type [OF assms(1) _ that] assms(3) by (simp add: GenerateToken_def tokenClaims_def)
  ultimately show ?thesis by (auto simp: ParseToken_def ParseMFAToken_def split: option.split)
qed

section \<open>Locked accounts\<close>

fun login_answers :: "login_env \<Rightarrow> (gotime \<times> LoginRequest) list \<Rightarrow> login_world \<Rightarrow> login_response list" where
  "login_answers env [] w = []"
| "login_answers env ((now, req) # rs) w = fst (Login env now req w) # login_answers env rs (snd (Login env now req w))"

fun login_run :: "login_env \<Rightarrow> (gotime \<times> LoginRequest) list \<Rightarrow> login_world \<Rightarrow> login_world" where
  "login_run env [] w = w"
| "login_run env ((now, req) # rs) w = login_run env rs (snd (Login env now req w))"

lemma log_same [simp]:
  "lwConfigs (recordLoginLog env now n ty st r i w) = lwConfigs w"
  "lwAttempts (recordLoginLog env now n ty st r i w) = lwAttempts w"
  by (simp_all add: recordLoginLog_def)

lemma attempt_rows: "lwAttempts w = lwAttempts w' \<Longrightarrow> attemptOf w n = attemptOf w' n"
  by (simp add: attemptOf_def)

lemma increment_same: "lwConfigs (IncrementFailCount env now n m d w) = lwConfigs w"
  by (auto simp: IncrementFailCount_def saveAttempt_def Let_def split: option.split)

lemma failure_same: "lwConfigs (RecordLoginFailure env now n w) = lwConfigs w"
  by (simp add: RecordLoginFailure_def increment_same split: sum.split)

lemma bad_password:
  assumes "fst (Login env now req w) = LoginRefused BadPassword" "leConfigUseCase env"
  obtains w1 where "lwConfigs w1 = lwConfigs w" "lwAttempts w1 = lwAttempts w"
    "snd (Login env now req w) = RecordLoginFailure env now (lrUsername req) w1"
proof -
  have unlocked: "CheckLoginAttempt env w now (lrUsername req) = None" "lrUsername req \<noteq> []" "lrPassword req \<noteq> []"
    using assms by (auto simp: Login_def refuse_def split: if_splits option.splits)
  have captcha: "captchaRefused env w req = None"
    using assms unlocked captcha_reason [of env w req] by (auto simp: Login_def refuse_def split: option.splits)
  obtain w1 where a: "authenticate env now req w = (None, w1)"
    using assms unlocked captcha by (cases "authenticate env now req w"; cases "fst (authenticate env now req w)")
      (auto simp: Login_def refuse_def finishLogin_def Let_def split: if_splits option.splits)
  let ?w = "recordLoginLog env now (lrUsername req) ''web'' ''failed'' (Some BadPassword) 0 w1"
  have "snd (Login env now req w) = RecordLoginFailure env now (lrUsername req) ?w"
    using assms(2) unlocked captcha a by (simp add: Login_def refuse_def)
  then show ?thesis using that [of ?w] authenticate_same [OF a] by simp
qed

interpretation attempts: row_table attemptOf saveAttempt atUsername
  by unfold_locales (auto simp: attemptOf_def saveAttempt_def find_map_key dest: find_key)

lemma login_run_append: "login_run env (rs @ rs') w = login_run env rs' (login_run env rs w)"
  by (induction rs arbitrary: w) auto

lemma login_answers_append:
  "login_answers env (rs @ rs') w = login_answers env rs w @ login_answers env rs' (login_run env rs w)"
  by (induction rs arbitrary: w) auto

lemma increment_row:
  assumes "\<not> leAttemptReadErr env" "\<not> leAttemptWriteErr env"
  shows "attemptOf (IncrementFailCount env now n m d w) n = Some (lockIfMax now m d (case attemptOf w n of
      None \<Rightarrow> \<lparr>atUsername = n, atFailCount = 1, atLastFailAt = now, atLockedUntil = None\<rparr>
    | Some a \<Rightarrow> (if (case atLockedUntil a of Some t \<Rightarrow> t < now | None \<Rightarrow> False)
        then a\<lparr>atFailCount := 1, atLockedUntil := None\<rparr> else a\<lparr>atFailCount := atFailCount a + 1\<rparr>)\<lparr>atLastFailAt := now\<rparr>))"
proof (cases "attemptOf w n")
  case None
  then show ?thesis using assms by (simp add: IncrementFailCount_def attemptOf_def find_append lockIfMax_def)
next
  case (Some a)
  then have n: "atUsername a = n" by (rule attempts.lookup_key)
  have "attemptOf (saveAttempt a' w) n = Some a'" if "atUsername a' = n" for a'
    using attempts.lookup_save [OF Some that] by simp
  then show ?thesis using Some assms n by (simp add: IncrementFailCount_def Let_def lockIfMax_def)
qed

text \<open>Wrong passwords one after the other, from the first to the one that reaches the limit.\<close>

lemma failures_counted:
  assumes "leConfigUseCase env" "\<not> leAttemptReadErr env" "\<not> leAttemptWriteErr env"
    and "GetSecurityConfig (leConfig env) (lwConfigs w) = Inr c" "attemptOf w n = None"
    and "\<forall>(now, req) \<in> set rs. lrUsername req = n" "set (login_answers env rs w) \<subseteq> {LoginRefused BadPassword}"
    and "rs \<noteq> []" "int (length rs) \<le> seMaxLoginAttempts c"
  shows "\<exists>a. attemptOf (login_run env rs w) n = Some a \<and> atFailCount a = int (length rs)
    \<and> atLockedUntil a = (if int (length rs) = seMaxLoginAttempts c
        then Some (fst (last rs) + seLockoutDuration c * 10 ^ 9) else None)
    \<and> lwConfigs (login_run env rs w) = lwConfigs w"
  using assms(6-9)
proof (induction rs rule: rev_induct)
  case (snoc r rs)
  obtain now req where r: "r = (now, req)" by (cases r) auto
  let ?w = "login_run env rs w"
  have name: "lrUsername req = n" using snoc.prems(1) r by simp
  have bad: "fst (Login env now req ?w) = LoginRefused BadPassword"
    using snoc.prems(2) by (simp add: login_answers_append r)
  obtain w1 where w1: "lwConfigs w1 = lwConfigs ?w" "lwAttempts w1 = lwAttempts ?w"
    "snd (Login env now req ?w) = RecordLoginFailure env now n w1"
    using bad_password [OF bad assms(1)] name by metis
  have before: "(rs = [] \<and> attemptOf ?w n = None
      \<or> (\<exists>a. attemptOf ?w n = Some a \<and> atFailCount a = int (length rs) \<and> atLockedUntil a = None))
    \<and> lwConfigs ?w = lwConfigs w"
    using snoc.IH snoc.prems assms(5) by (cases "rs = []") (auto simp: login_answers_append)
  have "GetSecurityConfig (leConfig env) (lwConfigs w1) = Inr c" using assms(4) w1(1) before by simp
  then have "login_run env (rs @ [r]) w = IncrementFailCount env now n (seMaxLoginAttempts c) (seLockoutDuration c) w1"
    using w1(3) r by (simp add: login_run_append RecordLoginFailure_def)
  then show ?case
    using increment_row [OF assms(2,3), of now n "seMaxLoginAttempts c" "seLockoutDuration c" w1] before w1(1)
      attempt_rows [OF w1(2), of n] snoc.prems(4) r
    by (auto simp: lockIfMax_def increment_same)
qed simp

text \<open>C15: A locked account: when as many logins in a row as the settings allow were refused for a wrong password, every
  login of that name, with the right password too, is refused until the lock is over, and it is over
  when the lock time has passed since the last of them.\<close>

theorem lockout_after_max:
  assumes "leConfigUseCase env" "\<not> leAttemptReadErr env" "\<not> leAttemptWriteErr env"
    and "GetSecurityConfig (leConfig env) (lwConfigs w) = Inr c" "attemptOf w n = None" "n \<noteq> []"
    and "\<forall>(now, req) \<in> set rs. lrUsername req = n" "set (login_answers env rs w) \<subseteq> {LoginRefused BadPassword}"
    and "rs \<noteq> []" "int (length rs) = seMaxLoginAttempts c" "lrUsername req = n" "lrPassword req \<noteq> []"
  shows "(now < fst (last rs) + seLockoutDuration c * 10 ^ 9 \<longrightarrow>
        (\<exists>seconds. fst (Login env now req (login_run env rs w)) = LoginRefused (AccountLocked seconds)))
    \<and> (fst (last rs) + seLockoutDuration c * 10 ^ 9 \<le> now \<longrightarrow> IsLocked env (login_run env rs w) now n = None)"
proof -
  obtain a where a: "attemptOf (login_run env rs w) n = Some a"
    "atLockedUntil a = Some (fst (last rs) + seLockoutDuration c * 10 ^ 9)"
    using failures_counted [OF assms(1-5,7-9)] assms(10) by auto
  then have lock: "IsLocked env (login_run env rs w) now n
      = (if now < fst (last rs) + seLockoutDuration c * 10 ^ 9 then Some (fst (last rs) + seLockoutDuration c * 10 ^ 9) else None)"
    using assms(2) by (simp add: IsLocked_def)
  then have "\<exists>seconds. fst (Login env now req (login_run env rs w)) = LoginRefused (AccountLocked seconds)"
    if "now < fst (last rs) + seLockoutDuration c * 10 ^ 9"
    using that assms(1,6,11,12) by (auto simp: Login_def CheckLoginAttempt_def)
  then show ?thesis using lock by auto
qed

section \<open>What a login leaves behind\<close>

text \<open>A login does not write the time of the last login: the update of the user after a login with a local password
  writes back the row that was read, so the rows of the users stay as they were.\<close>

theorem login_keeps_last_login:
  assumes "Login env now req w = (LoginOK token user setup, w')" "distinct (map suID (lwUsers w))"
    and "ValidatePassword env w (lrUsername req) (lrPassword req) \<noteq> None"
  shows "lwUsers w' = lwUsers w"
proof -
  obtain u w1 where u: "authenticate env now req w = (Some u, w1)" "finishLogin env now req u w1 = (LoginOK token user setup, w')"
    using login_accepted [OF assms(1)] by metis
  have "userByName w (lrUsername req) = Some u" and w1: "w1 = w"
    using u(1) assms(3) by (auto simp: authenticate_def ValidatePassword_def split: option.splits if_splits)
  then have "u \<in> set (lwUsers w)" by (auto simp: userByName_def find_Some_iff)
  then have "x = u" if "x \<in> set (lwUsers w)" "suID x = suID u" for x
    using assms(2) that by (auto simp: distinct_map inj_on_def)
  then have "(if suID x = suID u then u\<lparr>suPassword := suPassword x\<rparr> else x) = x" if "x \<in> set (lwUsers w)" for x
    using that by (cases "suID x = suID u"; cases u) auto
  then have "map (\<lambda>x. if suID x = suID u then u\<lparr>suPassword := suPassword x\<rparr> else x) (lwUsers w) = lwUsers w"
    by (rule map_idI)
  moreover have "lwUsers w' \<in> {lwUsers w, map (\<lambda>x. if suID x = suID u then u\<lparr>suPassword := suPassword x\<rparr> else x) (lwUsers w)}"
    using u(2) w1
    by (auto simp: finishLogin_def refuse_def Let_def updateUser_def ResetFailCount_def recordLoginLog_def
        split: option.splits if_splits)
  ultimately show ?thesis by auto
qed

text \<open>Wrong codes of the second step are not counted: it neither reads nor writes the failed attempts, so no number
  of wrong codes locks the account and a lock of the account does not stop the second step.\<close>

theorem second_step_not_limited:
  "lwAttempts (snd (MFALogin env now mfaToken code remember ip agent w)) = lwAttempts w
   \<and> fst (MFALogin env now mfaToken code remember ip agent (w\<lparr>lwAttempts := rows\<rparr>))
     = fst (MFALogin env now mfaToken code remember ip agent w)"
  by (simp add: MFALogin_def Let_def securityOf_def userByID_def split: prod.split sum.split bool.split option.split)

section \<open>A concrete installation\<close>

text \<open>Tokens that spell out type, user and name; passwords with a one-character hash; no failing table.\<close>

definition sample_sign :: "JwtClaims \<Rightarrow> string option" where
  "sample_sign c = Some (concat (map (\<lambda>x. [CHR ''t'', x]) (jcTokenType c)) @ replicate (jcUserID c) CHR ''u''
     @ CHR ''.'' # jcUsername c)"

fun sample_parse :: "string \<Rightarrow> JwtClaims option" where
  "sample_parse [] = None"
| "sample_parse (k # s) =
     (if k = CHR ''.'' then Some \<lparr>jcUserID = 0, jcUsername = s, jcTokenType = [], jcExpiresAt = 0, jcIssuedAt = 0, jcNotBefore = 0\<rparr>
      else if k = CHR ''u'' then map_option (\<lambda>c. c\<lparr>jcUserID := Suc (jcUserID c)\<rparr>) (sample_parse s)
      else case s of [] \<Rightarrow> None | x # s \<Rightarrow> map_option (\<lambda>c. c\<lparr>jcTokenType := x # jcTokenType c\<rparr>) (sample_parse s))"

definition sample_login_env :: login_env where
  "sample_login_env = \<lparr>leConfigUseCase = True, leMfaUseCase = True, leConfig = sample_config_env, leMfa = sample_mfa_env,
     leBcryptMatches = (\<lambda>h p. h = CHR ''$'' # p), leBcryptHash = (\<lambda>p. Some (CHR ''$'' # p)), leCaptcha = None, leLDAP = None,
     leSign = sample_sign, leParse = (\<lambda>_. sample_parse), leAttemptReadErr = False, leAttemptWriteErr = False,
     leUserErr = False, leLoginLog = True\<rparr>"

lemma sample_parsed: "sample_sign c = Some token \<Longrightarrow> sample_parse token = Some
    \<lparr>jcUserID = jcUserID c, jcUsername = jcUsername c, jcTokenType = jcTokenType c, jcExpiresAt = 0, jcIssuedAt = 0, jcNotBefore = 0\<rparr>"
proof -
  have u: "sample_parse (replicate n CHR ''u'' @ CHR ''.'' # name) = Some
      \<lparr>jcUserID = n, jcUsername = name, jcTokenType = [], jcExpiresAt = 0, jcIssuedAt = 0, jcNotBefore = 0\<rparr>" for n name
    by (induction n) auto
  have "sample_parse (concat (map (\<lambda>x. [CHR ''t'', x]) ty) @ replicate n CHR ''u'' @ CHR ''.'' # name) = Some
      \<lparr>jcUserID = n, jcUsername = name, jcTokenType = ty, jcExpiresAt = 0, jcIssuedAt = 0, jcNotBefore = 0\<rparr>" for ty n name
    by (induction ty) (auto simp: u)
  then show "sample_sign c = Some token \<Longrightarrow> ?thesis" by (auto simp: sample_sign_def)
qed

lemma sample_carries: "jwt_carries sample_login_env"
  by (auto simp: jwt_carries_def sample_login_env_def dest: sample_parsed)

text \<open>User 5 with a password; a second factor is asked for, except from one device; two wrong passwords lock.\<close>

definition alice :: SysUser where
  "alice = \<lparr>suID = 5, suUsername = ''alice'', suPassword = ''$pw'', suRealName = [], suEmail = [], suPhone = [], suAvatar = [],
     suStatus = 1, suDepartmentID = 0, suBio = [], suLastLoginAt = None\<rparr>"

definition sample_device :: TrustedDevice where
  "sample_device = \<lparr>tdID = 1, tdUserID = 5, tdDeviceToken = hashDeviceToken sample_mfa_env ''d'', tdDeviceName = [],
     tdIPAddress = [], tdLastVerifiedAt = 0, tdExpiresAt = 100\<rparr>"

definition plain_setting :: UserMFA where
  "plain_setting = \<lparr>umID = 1, umUserID = 5, umTOTPEnabled = True, umTOTPSecret = [], umTOTPVerified = True, umBackupCodes = []\<rparr>"

definition sample_rows :: "SysConfig list" where
  "sample_rows = map (\<lambda>(k, v). \<lparr>scKey = k, scValue = v, scType = ''string'', scGroup = GroupSecurity\<rparr>)
     [(''enable_captcha'', ''false''), (''max_login_attempts'', ''2''), (''lockout_duration'', ''60''), (''mfa_enabled'', ''true'')]"

definition sample_world :: "mfa_world \<Rightarrow> login_world" where
  "sample_world m = \<lparr>lwConfigs = sample_rows, lwAttempts = [], lwUsers = [alice], lwLogs = [], lwMfa = m\<rparr>"

definition device_mfa :: mfa_world where
  "device_mfa = \<lparr>mwSettings = [plain_setting], mwLogs = [], mwDevices = [sample_device], mwReads = 0\<rparr>"

definition alice_request :: "string \<Rightarrow> string \<Rightarrow> LoginRequest" where
  "alice_request password device = \<lparr>lrUsername = ''alice'', lrPassword = password, lrCaptchaId = [], lrCaptchaId2 = [],
     lrCaptchaCode = [], lrDeviceCookie = device\<rparr>"

lemma sample_login:
  obtains token w' where "Login sample_login_env 7 (alice_request ''pw'' ''d'') (sample_world device_mfa)
    = (LoginOK token (alice\<lparr>suPassword := []\<rparr>) False, w')"
proof -
  have "fst (Login sample_login_env 7 (alice_request ''pw'' ''d'') (sample_world device_mfa))
      = LoginOK ''tatuttthuuuuu.alice'' (alice\<lparr>suPassword := []\<rparr>) False"
    by code_simp
  then show ?thesis using that by (metis prod.collapse)
qed

theorem login_needs_factors_witness:
  "(\<exists>token setup w'. Login sample_login_env 7 (alice_request ''pw'' ''d'') (sample_world device_mfa)
      = (LoginOK token (alice\<lparr>suPassword := []\<rparr>) setup, w'))
   \<and> IsTrustedDevice sample_mfa_env device_mfa 7 5 ''d''"
proof -
  obtain token w' where l: "Login sample_login_env 7 (alice_request ''pw'' ''d'') (sample_world device_mfa)
    = (LoginOK token (alice\<lparr>suPassword := []\<rparr>) False, w')" by (rule sample_login)
  have on: "IsMFAEnabled sample_mfa_env device_mfa 5" "securityOf sample_login_env (sample_world device_mfa) \<noteq> None"
    "map_option seMFAEnabled (securityOf sample_login_env (sample_world device_mfa)) = Some True"
    by code_simp+
  have env: "leMfa sample_login_env = sample_mfa_env" "leMfaUseCase sample_login_env" "lwMfa (sample_world device_mfa) = device_mfa"
    "lrDeviceCookie (alice_request ''pw'' ''d'') = ''d''"
    by (simp_all add: sample_login_env_def sample_world_def alice_request_def)
  obtain u where u: "alice\<lparr>suPassword := []\<rparr> = u\<lparr>suPassword := []\<rparr>"
    "leMfaUseCase sample_login_env \<and> IsMFAEnabled (leMfa sample_login_env) (lwMfa (sample_world device_mfa)) (suID u)
        \<and> (case securityOf sample_login_env (sample_world device_mfa) of Some c \<Rightarrow> seMFAEnabled c | None \<Rightarrow> False)
      \<longrightarrow> IsTrustedDevice (leMfa sample_login_env) (lwMfa (sample_world device_mfa)) 7 (suID u)
            (lrDeviceCookie (alice_request ''pw'' ''d''))"
    using login_needs_factors [OF l] by blast
  have "suID (alice\<lparr>suPassword := []\<rparr>) = suID (u\<lparr>suPassword := []\<rparr>)" by (simp add: u(1))
  then have "suID u = 5" by (simp add: alice_def)
  moreover have "(case securityOf sample_login_env (sample_world device_mfa) of Some c \<Rightarrow> seMFAEnabled c | None \<Rightarrow> False)"
    using on(2,3) by auto
  ultimately have "IsTrustedDevice sample_mfa_env device_mfa 7 5 ''d''" using u(2) on(1) env by simp
  then show ?thesis using l by blast
qed

theorem login_keeps_last_login_witness:
  "\<exists>token setup w'. Login sample_login_env 7 (alice_request ''pw'' ''d'') (sample_world device_mfa)
      = (LoginOK token (alice\<lparr>suPassword := []\<rparr>) setup, w') \<and> lwUsers w' = [alice]"
proof -
  obtain token w' where l: "Login sample_login_env 7 (alice_request ''pw'' ''d'') (sample_world device_mfa)
    = (LoginOK token (alice\<lparr>suPassword := []\<rparr>) False, w')" by (rule sample_login)
  have "distinct (map suID (lwUsers (sample_world device_mfa)))"
    "ValidatePassword sample_login_env (sample_world device_mfa) (lrUsername (alice_request ''pw'' ''d''))
       (lrPassword (alice_request ''pw'' ''d'')) \<noteq> None"
    by code_simp+
  from login_keeps_last_login [OF l this] l show ?thesis by (auto simp: sample_world_def)
qed

theorem token_kinds_apart_witness:
  "ParseToken sample_login_env 8 ''tmtftauuuuu.alice'' = None \<and> ParseMFAToken sample_login_env 8 ''tatuttthuuuuu.alice'' = None"
proof -
  have "GenerateMFAToken sample_login_env 7 5 ''alice'' = Some ''tmtftauuuuu.alice''"
    "GenerateToken sample_login_env 7 5 ''alice'' = Some ''tatuttthuuuuu.alice''"
    by code_simp+
  from token_kinds_apart [OF sample_carries this] show ?thesis by blast
qed

theorem lockout_after_max_witness:
  "\<exists>seconds. fst (Login sample_login_env 9 (alice_request ''pw'' ''d'')
      (login_run sample_login_env [(7, alice_request ''a'' []), (8, alice_request ''b'' [])] (sample_world device_mfa)))
    = LoginRefused (AccountLocked seconds)"
proof -
  let ?rs = "[(7, alice_request ''a'' []), (8, alice_request ''b'' [])]"
  obtain c where c: "GetSecurityConfig (leConfig sample_login_env) (lwConfigs (sample_world device_mfa)) = Inr c"
    "seMaxLoginAttempts c = 2" "seLockoutDuration c = 60"
  proof -
    have "map_sum id (\<lambda>c. (seMaxLoginAttempts c, seLockoutDuration c))
        (GetSecurityConfig (leConfig sample_login_env) (lwConfigs (sample_world device_mfa))) = Inr (2, 60)" by code_simp
    then show ?thesis using that by (cases "GetSecurityConfig (leConfig sample_login_env) (lwConfigs (sample_world device_mfa))") auto
  qed
  have a: "leConfigUseCase sample_login_env" "\<not> leAttemptReadErr sample_login_env" "\<not> leAttemptWriteErr sample_login_env"
    "attemptOf (sample_world device_mfa) ''alice'' = None" "''alice'' \<noteq> []"
    by (simp_all add: sample_login_env_def sample_world_def attemptOf_def)
  have "login_answers sample_login_env ?rs (sample_world device_mfa) = [LoginRefused BadPassword, LoginRefused BadPassword]"
    by code_simp
  then have "set (login_answers sample_login_env ?rs (sample_world device_mfa)) \<subseteq> {LoginRefused BadPassword}" by simp
  from lockout_after_max [OF a(1-3) c(1) a(4,5) _ this, of "alice_request ''pw'' ''d''" 9] c(2,3)
  show ?thesis by (simp add: alice_request_def)
qed

theorem second_step_needs_code_witness:
  "\<exists>token device w'. MFALogin sample_login_env 5 ''tmtftauuuuu.alice'' ''K7'' False [] []
      (sample_world (sample_mfa (CodeObjects [\<lparr>bcCode = ''K7'', bcUsed = False, bcUsedAt = None\<rparr>])))
      = (Inr (token, alice, device), w')
    \<and> GenerateToken sample_login_env 5 5 ''alice'' = Some token"
proof -
  let ?bs = "[\<lparr>bcCode = ''K7'', bcUsed = False, bcUsedAt = None\<rparr>]"
  let ?m = "sample_setting (CodeObjects ?bs)" and ?w = "sample_world (sample_mfa (CodeObjects ?bs))"
  let ?v = "ValidateMFACode sample_mfa_env (sample_mfa (CodeObjects ?bs)) 5 5 ''K7'' [] []"
  have "mfaDecrypt sample_mfa_env (umBackupCodes ?m) = Some (CodeObjects ?bs)"
    by (simp add: sample_setting_def decrypt_sealed)
  then have "backup_ok sample_mfa_env ?m ''K7''" by (simp add: backup_ok_def unmarshalBackupCodes_def)
  then have "fst ?v = Inr True"
    using validate_answer [OF sample_row [of "CodeObjects ?bs"] sample_total(2) sample_enabled]
    by (simp add: sample_setting_def decrypt_sealed)
  then have v: "?v = (Inr True, snd ?v)" by (metis prod.collapse)
  have p: "map_option (\<lambda>c. (jcUserID c, jcUsername c)) (ParseMFAToken sample_login_env 5 ''tmtftauuuuu.alice'') = Some (5, ''alice'')"
    "GenerateToken sample_login_env 5 5 ''alice'' = Some ''tatuttthuuuuu.alice''"
    by code_simp+
  have "fst (MFALogin sample_login_env 5 ''tmtftauuuuu.alice'' ''K7'' False [] [] ?w)
      = Inr (''tatuttthuuuuu.alice'', alice, [])"
    using p v by (auto simp: MFALogin_def sample_world_def userByID_def alice_def sample_login_env_def split: option.splits prod.splits)
  then obtain w' where l: "MFALogin sample_login_env 5 ''tmtftauuuuu.alice'' ''K7'' False [] [] ?w
      = (Inr (''tatuttthuuuuu.alice'', alice, []), w')" by (metis prod.collapse)
  obtain claims where "ParseMFAToken sample_login_env 5 ''tmtftauuuuu.alice'' = Some claims"
    "GenerateToken sample_login_env 5 (jcUserID claims) (jcUsername claims) = Some ''tatuttthuuuuu.alice''"
    using second_step_needs_code [OF l] by blast
  then show ?thesis using l p by auto
qed

end
