(* ===== verification/Oauth_Props.thy ===== *)
theory Oauth_Props
  imports Oauth Mfa_Codec Login_Props Tables
begin

text \<open>
  Properties of the OAuth2 server: what stands behind an access token, that a code is exchanged once, what a
  PKCE challenge binds, and what revoking, refreshing and the permissions of an application do not do.
\<close>

section \<open>Frames\<close>

lemma random_read: "generateRandomCode env n w = (r, w') \<Longrightarrow> w' = w\<lparr>owReads := Suc (owReads w)\<rparr>"
  by (auto simp: generateRandomCode_def)

lemma reads_irrelevant [simp]: "codeRow (w\<lparr>owReads := n\<rparr>) = codeRow w" "accessByHash (w\<lparr>owReads := n\<rparr>) = accessByHash w"
  by (simp_all add: fun_eq_iff codeRow_def accessByHash_def)

lemma created_code: "createCode env c w = Inr w' \<Longrightarrow> w' = w\<lparr>owCodes := owCodes w @ [c]\<rparr> \<and> codeRow w (acCode c) = None"
  by (auto simp: createCode_def split: if_splits)

lemma marked: "markUsed env code w = Inr w' \<Longrightarrow>
    w' = w\<lparr>owCodes := map (\<lambda>c. if acCode c = code then c\<lparr>acUsed := True\<rparr> else c) (owCodes w)\<rparr>"
  by (auto simp: markUsed_def split: if_splits)

lemma created_access: "CreateAccessToken env t w = Inr (i, w') \<Longrightarrow> w' = w\<lparr>owAccess := owAccess w @ [t\<lparr>otID := i\<rparr>]\<rparr>"
  by (auto simp: CreateAccessToken_def Let_def split: if_splits)

lemma created_refresh: "CreateRefreshToken env t w = Inr w' \<Longrightarrow> \<exists>r. w' = w\<lparr>owRefresh := owRefresh w @ [r]\<rparr>"
  by (auto simp: CreateRefreshToken_def split: if_splits)

lemmas oauth_frames = random_read created_code marked created_access created_refresh

lemma authorized_world:
  assumes "Authorize env w now user req = (a, w')"
  shows "owApps w' = owApps w \<and> owAccess w' = owAccess w \<and> owUsers w' = owUsers w"
    and "owCodes w' = owCodes w \<or> (\<exists>c userID app. owCodes w' = owCodes w @ [c] \<and> user = Some userID \<and> acUserID c = userID
      \<and> \<not> acUsed c \<and> codeRow w (acCode c) = None
      \<and> ValidateAuthorizeRequest env w (req\<lparr>arClientID := acClientID c\<rparr>) = Inr app
      \<and> acClientID c = clientOf env (arClientID req) (arRedirectURI req) \<and> acScope c = arScope req
      \<and> acRedirectURI c = arRedirectURI req \<and> acCodeChallenge c = arCodeChallenge req
      \<and> acCodeChallengeMethod c = arCodeChallengeMethod req \<and> acExpiresAt c = now + 10 * 60 * 10 ^ 9)"
  using assms
  by (auto simp: Authorize_def CreateAuthorizationCode_def Let_def generateRandomCode_def
      split: sum.splits option.splits prod.splits dest!: created_code)

lemma issued_world:
  assumes "issueTokens env w now req c = (a, w')"
  shows "owApps w' = owApps w \<and> owUsers w' = owUsers w"
    and "owCodes w' = owCodes w
      \<or> owCodes w' = map (\<lambda>c. if acCode c = trCode req then c\<lparr>acUsed := True\<rparr> else c) (owCodes w)"
    and "a = Inr resp \<Longrightarrow> owCodes w' = map (\<lambda>c. if acCode c = trCode req then c\<lparr>acUsed := True\<rparr> else c) (owCodes w)"
    and "owAccess w' = owAccess w \<or> (\<exists>t. owAccess w' = owAccess w @ [t] \<and> otClientID t = acClientID c
      \<and> otUserID t = acUserID c \<and> otScope t = acScope c \<and> otExpiresAt t = now + 3600 * 10 ^ 9)"
  using assms
  by (auto simp: issueTokens_def split: sum.splits option.splits prod.splits dest!: oauth_frames)

lemma revoked_world: "Revoke env w token = (a, w') \<Longrightarrow>
    owApps w' = owApps w \<and> owUsers w' = owUsers w \<and> owCodes w' = owCodes w \<and> owAccess w' = owAccess w"
  by (auto simp: Revoke_def RevokeToken_def RevokeRefreshToken_def split: if_splits)

lemma refreshed_world: "refreshAccessToken env w now req = (a, w') \<Longrightarrow> w' = w \<or> w' = w\<lparr>owReads := Suc (owReads w)\<rparr>"
  by (auto simp: refreshAccessToken_def split: option.splits prod.splits if_splits dest!: random_read)

lemma run_append: "oauth_run env (a @ b) w = oauth_run env b (oauth_run env a w)"
  by (induction a arbitrary: w) simp_all

section \<open>What stands behind a token\<close>

text \<open>The client shows the verifier of the challenge or its secret.\<close>

definition client_proof :: "oauth_env \<Rightarrow> oauth_world \<Rightarrow> TokenRequest \<Rightarrow> OAuth2AuthorizationCode \<Rightarrow> bool" where
  "client_proof env w req c \<longleftrightarrow>
     (if acCodeChallenge c \<noteq> []
      then trCodeVerifier req \<noteq> [] \<and> verifyPKCE env (acCodeChallenge c) (acCodeChallengeMethod c) (trCodeVerifier req)
      else case appByCode w (acClientID c) of
          None \<Rightarrow> False
        | Some app \<Rightarrow> (case oeSSOConfig env (saSSOConfig app) of
            None \<Rightarrow> True
          | Some config \<Rightarrow> scClientSecret config = [] \<or> scClientSecret config = trClientSecret req))"

lemma checks_passed:
  assumes "exchangeChecks env w now req = Inr c"
  shows "codeRow w (trCode req) = Some c" "\<not> acUsed c" "now \<le> acExpiresAt c" "acClientID c = trClientID req"
    "acRedirectURI c = [] \<or> acRedirectURI c = trRedirectURI req" "client_proof env w req c"
  using assms by (auto simp: exchangeChecks_def client_proof_def split: option.splits if_splits)

text \<open>The first operation gives the user's code to the client, the second exchanges it for the token.\<close>

definition authorization_gives :: "oauth_env \<Rightarrow> oauth_world \<Rightarrow> gotime \<times> oauth_op \<Rightarrow> OAuth2AuthorizationCode \<Rightarrow> bool" where
  "authorization_gives env w op c \<longleftrightarrow>
     (\<exists>now header query cookie req app.
        op = (now, OpAuthorize header query cookie req)
      \<and> OptionalAuth env now header query cookie = Some (acUserID c)
      \<and> appByCode w (acClientID c) = Some app \<and> saEnabled app
      \<and> (\<forall>config. oeSSOConfig env (saSSOConfig app) = Some config \<longrightarrow>
           scRedirectURI config = [] \<or> acRedirectURI c = [] \<or> acRedirectURI c = scRedirectURI config)
      \<and> acClientID c = clientOf env (arClientID req) (arRedirectURI req) \<and> acScope c = arScope req
      \<and> acRedirectURI c = arRedirectURI req \<and> acCodeChallenge c = arCodeChallenge req
      \<and> acCodeChallengeMethod c = arCodeChallengeMethod req \<and> acExpiresAt c = now + 10 * 60 * 10 ^ 9)"

definition exchange_gives ::
  "oauth_env \<Rightarrow> oauth_world \<Rightarrow> gotime \<times> oauth_op \<Rightarrow> OAuth2AuthorizationCode \<Rightarrow> OAuth2AccessToken \<Rightarrow> bool" where
  "exchange_gives env w op c t \<longleftrightarrow>
     (\<exists>now basic req. op = (now, OpToken basic req) \<and> now \<le> acExpiresAt c
      \<and> acCode c = trCode req \<and> acClientID c = trClientID (tokenRequest env basic req)
      \<and> (acRedirectURI c = [] \<or> acRedirectURI c = trRedirectURI req)
      \<and> client_proof env w (tokenRequest env basic req) c
      \<and> otClientID t = acClientID c \<and> otUserID t = acUserID c \<and> otScope t = acScope c
      \<and> otExpiresAt t = now + 3600 * 10 ^ 9)"

lemma request_accepted:
  assumes "ValidateAuthorizeRequest env w req = Inr app"
  shows "appByCode w (arClientID req) = Some app" "saEnabled app"
    "\<forall>config. oeSSOConfig env (saSSOConfig app) = Some config \<longrightarrow>
       scRedirectURI config = [] \<or> arRedirectURI req = [] \<or> arRedirectURI req = scRedirectURI config"
  using assms by (auto simp: ValidateAuthorizeRequest_def split: option.splits if_splits)

lemma token_request [simp]: "trCode (tokenRequest env basic req) = trCode req"
  "trRedirectURI (tokenRequest env basic req) = trRedirectURI req"
  by (auto simp: tokenRequest_def Let_def split: option.split)

lemma used_irrelevant [simp]:
  "authorization_gives env w op (c\<lparr>acUsed := u\<rparr>) = authorization_gives env w op c"
  "exchange_gives env w op (c\<lparr>acUsed := u\<rparr>) t = exchange_gives env w op c t"
  by (simp_all add: authorization_gives_def exchange_gives_def client_proof_def)

lemma same_apps:
  assumes "owApps w' = owApps w"
  shows "appByCode w' = appByCode w" "client_proof env w' = client_proof env w"
    "authorization_gives env w' = authorization_gives env w" "exchange_gives env w' = exchange_gives env w"
proof -
  show app: "appByCode w' = appByCode w" using assms by (simp add: fun_eq_iff appByCode_def)
  show "client_proof env w' = client_proof env w" by (simp add: fun_eq_iff client_proof_def app)
  then show "authorization_gives env w' = authorization_gives env w" "exchange_gives env w' = exchange_gives env w"
    by (simp_all add: fun_eq_iff authorization_gives_def exchange_gives_def app)
qed

text \<open>What one operation adds.\<close>

lemma step_codes:
  assumes "c \<in> set (owCodes (oauth_step env op w))"
  shows "authorization_gives env w op c \<or> (\<exists>c' \<in> set (owCodes w). c = c' \<or> c = c'\<lparr>acUsed := True\<rparr>)"
proof (cases op)
  case (Pair now o')
  show ?thesis
  proof (cases o')
    case (OpAuthorize header query cookie req)
    obtain a w' where "Authorize env w now (OptionalAuth env now header query cookie) req = (a, w')" by (metis surj_pair)
    note codes = authorized_world(2) [OF this] and w' = this
    have "c \<in> set (owCodes w')" using assms w' Pair OpAuthorize by simp
    then consider "c \<in> set (owCodes w)" | app where "OptionalAuth env now header query cookie = Some (acUserID c)"
      "ValidateAuthorizeRequest env w (req\<lparr>arClientID := acClientID c\<rparr>) = Inr app"
      "acClientID c = clientOf env (arClientID req) (arRedirectURI req)" "acScope c = arScope req"
      "acRedirectURI c = arRedirectURI req" "acCodeChallenge c = arCodeChallenge req"
      "acCodeChallengeMethod c = arCodeChallengeMethod req" "acExpiresAt c = now + 10 * 60 * 10 ^ 9"
      using codes by auto
    then show ?thesis
    proof cases
      case 2
      then show ?thesis using request_accepted [OF 2(2)] Pair OpAuthorize by (auto simp: authorization_gives_def)
    qed auto
  next
    case (OpToken basic req)
    let ?req = "tokenRequest env basic req"
    show ?thesis
    proof (cases "trGrantType ?req = ''authorization_code''")
      case True
      then show ?thesis using assms Pair OpToken
        by (cases "exchangeChecks env w now ?req"; cases "issueTokens env w now ?req (projr (exchangeChecks env w now ?req))")
          (auto simp: Token_def ExchangeToken_def exchangeAuthorizationCode_def dest!: issued_world(2))
    next
      case False
      then show ?thesis using assms Pair OpToken
        by (cases "refreshAccessToken env w now ?req")
          (auto simp: Token_def ExchangeToken_def dest!: refreshed_world split: if_splits)
    qed
  next
    case (OpRevoke token)
    then show ?thesis using assms Pair by (cases "Revoke env w token") (auto dest!: revoked_world)
  qed
qed

lemma step_access:
  assumes "t \<in> set (owAccess (oauth_step env op w))"
  shows "t \<in> set (owAccess w) \<or> (\<exists>c \<in> set (owCodes w). exchange_gives env w op c t)"
proof (cases op)
  case (Pair now o')
  show ?thesis
  proof (cases o')
    case (OpAuthorize header query cookie req)
    obtain a w' where "Authorize env w now (OptionalAuth env now header query cookie) req = (a, w')" by (metis surj_pair)
    with authorized_world(1) [OF this] show ?thesis using assms Pair OpAuthorize by simp
  next
    case (OpToken basic req)
    let ?req = "tokenRequest env basic req"
    show ?thesis
    proof (cases "trGrantType ?req = ''authorization_code'' \<and> t \<notin> set (owAccess w)")
      case True
      then obtain c where c: "exchangeChecks env w now ?req = Inr c"
        using assms Pair OpToken
        by (cases "exchangeChecks env w now ?req") (auto simp: Token_def ExchangeToken_def exchangeAuthorizationCode_def)
      obtain a w' where i: "issueTokens env w now ?req c = (a, w')" by (metis surj_pair)
      have "t \<in> set (owAccess w')" using assms Pair OpToken True c i
        by (simp add: Token_def ExchangeToken_def exchangeAuthorizationCode_def)
      then have t: "otClientID t = acClientID c" "otUserID t = acUserID c" "otScope t = acScope c"
        "otExpiresAt t = now + 3600 * 10 ^ 9" using issued_world(4) [OF i] True by auto
      have "c \<in> set (owCodes w)" "acCode c = trCode req"
        using checks_passed(1) [OF c] by (auto simp: codeRow_def find_Some_iff)
      then show ?thesis using checks_passed [OF c] t Pair OpToken by (auto simp: exchange_gives_def)
    next
      case False
      then show ?thesis using assms Pair OpToken
        by (cases "refreshAccessToken env w now ?req")
          (auto simp: Token_def ExchangeToken_def dest!: refreshed_world split: if_splits)
    qed
  next
    case (OpRevoke token)
    then show ?thesis using assms Pair by (cases "Revoke env w token") (auto dest!: revoked_world)
  qed
qed

lemma step_apps: "owApps (oauth_step env op w) = owApps w"
proof (cases op)
  case (Pair now o')
  show ?thesis
  proof (cases o')
    case (OpAuthorize header query cookie req)
    obtain a w' where "Authorize env w now (OptionalAuth env now header query cookie) req = (a, w')" by (metis surj_pair)
    with authorized_world(1) [OF this] show ?thesis using Pair OpAuthorize by simp
  next
    case (OpToken basic req)
    let ?req = "tokenRequest env basic req"
    show ?thesis
      using Pair OpToken
      by (cases "exchangeChecks env w now ?req"; cases "issueTokens env w now ?req (projr (exchangeChecks env w now ?req))";
          cases "refreshAccessToken env w now ?req")
        (auto simp: Token_def ExchangeToken_def exchangeAuthorizationCode_def dest!: issued_world(1) refreshed_world)
  next
    case (OpRevoke token)
    then show ?thesis using Pair by (cases "Revoke env w token") (auto dest!: revoked_world)
  qed
qed

lemma run_apps: "owApps (oauth_run env ops w) = owApps w"
  by (induction ops arbitrary: w) (simp_all add: step_apps)

text \<open>A sequence of requests gives no token without an authorization and an exchange in it.\<close>

definition traced :: "oauth_env \<Rightarrow> oauth_world \<Rightarrow> (gotime \<times> oauth_op) list \<Rightarrow> OAuth2AccessToken \<Rightarrow> bool" where
  "traced env w ops t \<longleftrightarrow>
     (\<exists>before between after op1 op2 c. ops = before @ op1 # between @ op2 # after
        \<and> authorization_gives env w op1 c \<and> exchange_gives env w op2 c t)"

lemma traced_append: "traced env w ops t \<Longrightarrow> traced env w (ops @ rest) t"
proof -
  assume "traced env w ops t"
  then obtain before between after op1 op2 c where "ops = before @ op1 # between @ op2 # after"
    "authorization_gives env w op1 c" "exchange_gives env w op2 c t" by (auto simp: traced_def)
  then have "ops @ rest = before @ op1 # between @ op2 # (after @ rest)"
    "authorization_gives env w op1 c" "exchange_gives env w op2 c t" by simp_all
  then show ?thesis unfolding traced_def by blast
qed

lemma run_codes:
  assumes "owCodes w = []" "c \<in> set (owCodes (oauth_run env ops w))"
  shows "\<exists>op \<in> set ops. authorization_gives env w op c"
  using assms(2)
proof (induction ops arbitrary: c rule: rev_induct)
  case (snoc op ops)
  have "authorization_gives env w op c
      \<or> (\<exists>c' \<in> set (owCodes (oauth_run env ops w)). c = c' \<or> c = c'\<lparr>acUsed := True\<rparr>)"
    using step_codes [of c env op "oauth_run env ops w"] snoc.prems
    by (simp add: run_append same_apps(3) [OF run_apps])
  then show ?case
  proof
    assume "\<exists>c' \<in> set (owCodes (oauth_run env ops w)). c = c' \<or> c = c'\<lparr>acUsed := True\<rparr>"
    then show ?thesis using snoc.IH by fastforce
  qed simp
qed (use assms(1) in simp)

lemma run_access:
  assumes "owCodes w = []" "owAccess w = []" "t \<in> set (owAccess (oauth_run env ops w))"
  shows "traced env w ops t"
  using assms(3)
proof (induction ops rule: rev_induct)
  case (snoc op ops)
  consider "t \<in> set (owAccess (oauth_run env ops w))"
    | c where "c \<in> set (owCodes (oauth_run env ops w))" "exchange_gives env w op c t"
    using step_access [of t env op "oauth_run env ops w"] snoc.prems
    by (auto simp: run_append same_apps(4) [OF run_apps])
  then show ?case
  proof cases
    case 1
    then show ?thesis by (rule traced_append [OF snoc.IH])
  next
    case 2
    then obtain op1 before between where "ops = before @ op1 # between" "authorization_gives env w op1 c"
      using run_codes [OF assms(1) 2(1)] by (meson split_list)
    then have "ops @ [op] = before @ op1 # between @ op # []" by simp
    then show ?thesis using 2(2) \<open>authorization_gives env w op1 c\<close> unfolding traced_def by blast
  qed
qed (use assms(2) in simp)

section \<open>Codes are used once\<close>

lemma find_map_same: "(\<And>x. P (f x) = P x) \<Longrightarrow> find P (map f xs) = map_option f (find P xs)"
  by (induction xs) auto

definition usedCode :: "oauth_world \<Rightarrow> string \<Rightarrow> bool" where
  "usedCode w code \<longleftrightarrow> (case codeRow w code of Some c \<Rightarrow> acUsed c | None \<Rightarrow> False)"

lemma found_code: "find (\<lambda>c. acCode c = code) cs = Some c \<Longrightarrow> acCode c = code"
  by (auto simp: find_Some_iff)

lemma used_after:
  "usedCode w code \<Longrightarrow> owCodes w' = owCodes w @ cs \<Longrightarrow> usedCode w' code"
  "usedCode w code \<Longrightarrow> owCodes w' = map (\<lambda>c. if acCode c = code' then c\<lparr>acUsed := True\<rparr> else c) (owCodes w) \<Longrightarrow>
     usedCode w' code"
  "codeRow w code = Some c \<Longrightarrow>
     owCodes w' = map (\<lambda>c. if acCode c = code then c\<lparr>acUsed := True\<rparr> else c) (owCodes w) \<Longrightarrow> usedCode w' code"
  by (auto simp: usedCode_def codeRow_def find_append find_map_same split: option.splits dest: found_code)

lemma step_used: "usedCode w code \<Longrightarrow> usedCode (oauth_step env op w) code"
proof -
  assume u: "usedCode w code"
  have same: "owCodes w' = owCodes w \<Longrightarrow> usedCode w' code" for w'
    using used_after(1) [OF u, of w' "[]"] by simp
  obtain now o' where op: "op = (now, o')" by (metis surj_pair)
  show ?thesis
  proof (cases o')
    case (OpAuthorize header query cookie req)
    obtain a w' where "Authorize env w now (OptionalAuth env now header query cookie) req = (a, w')" by (metis surj_pair)
    with authorized_world(2) [OF this] show ?thesis
      using op OpAuthorize by (auto intro: same used_after(1) [OF u])
  next
    case (OpToken basic req)
    let ?req = "tokenRequest env basic req"
    show ?thesis
      using op OpToken u
      by (cases "exchangeChecks env w now ?req"; cases "issueTokens env w now ?req (projr (exchangeChecks env w now ?req))";
          cases "refreshAccessToken env w now ?req")
        (auto simp: Token_def ExchangeToken_def exchangeAuthorizationCode_def
          dest!: issued_world(2) refreshed_world intro: same used_after(2) [OF u])
  next
    case (OpRevoke token)
    then show ?thesis using op by (cases "Revoke env w token") (auto dest!: revoked_world intro: same)
  qed
qed

lemma run_used: "usedCode w code \<Longrightarrow> usedCode (oauth_run env ops w) code"
  by (induction ops arbitrary: w) (simp_all add: step_used)

lemma used_refused: "usedCode w (trCode req) \<Longrightarrow> exchangeAuthorizationCode env w now req = (Inl CodeAlreadyUsed, w)"
  by (auto simp: usedCode_def exchangeAuthorizationCode_def exchangeChecks_def split: option.splits)

lemma exchange_marks:
  assumes "exchangeAuthorizationCode env w now req = (Inr resp, w')"
  shows "usedCode w' (trCode req)"
proof -
  obtain c where c: "exchangeChecks env w now req = Inr c" "issueTokens env w now req c = (Inr resp, w')"
    using assms by (auto simp: exchangeAuthorizationCode_def split: sum.splits)
  show ?thesis using used_after(3) [OF checks_passed(1) [OF c(1)]] issued_world(3) [OF c(2)] by blast
qed

lemma token_exchanged:
  assumes "trGrantType (tokenRequest env basic req) = ''authorization_code''"
  shows "Token env w now basic req = exchangeAuthorizationCode env w now (tokenRequest env basic req)"
  using assms by (simp add: Token_def ExchangeToken_def)

section \<open>The challenge of a code\<close>

lemma bits_of_number:
  assumes "length g = n"
  shows "map (\<lambda>i. odd (bitsNat g div 2 ^ (n - 1 - i))) [0..<n] = g"
  using assms by (intro nth_equalityI) (auto simp: bitsNat_horner bit_iff_odd [symmetric] bit_horner_sum_bit_iff rev_nth)

lemma bitsNat_inj: "length g = length h \<Longrightarrow> bitsNat g = bitsNat h \<Longrightarrow> g = h"
  using bits_of_number [of g "length h"] bits_of_number [of h "length h"] by simp

lemma bitsNat_less: "bitsNat g < 2 ^ length g"
  using horner_sum_of_bool_2_less [of "rev g"] by (simp add: bitsNat_horner)

lemma groups_unfold: "n > 0 \<Longrightarrow> bs \<noteq> [] \<Longrightarrow> groups n bs = take n (bs @ replicate (n - 1) False) # groups n (drop n bs)"
  by (subst groups.simps) simp

lemma groups_take: "n > 0 \<Longrightarrow> take (length bs) (concat (groups n bs)) = bs"
proof (induction n bs rule: groups.induct)
  case (1 n bs)
  show ?case
  proof (cases "bs = []")
    case False
    then have rest: "take (length (drop n bs)) (concat (groups n (drop n bs))) = drop n bs" using 1 by auto
    obtain l where "length bs = Suc l" using False by (cases bs) auto
    then have "take (length bs) (take n (bs @ replicate (n - 1) False) @ g) = take n bs @ take (length bs - n) g" for g
      by (cases "length bs \<ge> n") auto
    then show ?thesis using rest by (simp add: groups_unfold [OF 1(2) False])
  qed simp
qed

lemma length_grouped: "n > 0 \<Longrightarrow> length (groups n bs) = (length bs + (n - 1)) div n"
proof (induction n bs rule: groups.induct)
  case (1 n bs)
  show ?case
  proof (cases "bs = []")
    case False
    then have l: "length (groups n bs) = Suc ((length bs - n + (n - 1)) div n)"
      using 1 by (simp add: groups_unfold)
    show ?thesis
    proof (cases "length bs \<ge> n")
      case True
      then have "(length bs + (n - 1)) div n = Suc ((length bs - n + (n - 1)) div n)"
        using 1(2) div_add_self2 [of n "length bs - n + (n - 1)"] by simp
      then show ?thesis using l by simp
    next
      case short: False
      obtain k where "length bs = Suc k" using False by (cases bs) auto
      then have "(length bs + (n - 1)) div n = Suc 0" using short 1(2) by (intro div_nat_eqI) simp_all
      then show ?thesis using l short 1(2) by simp
    qed
  qed (use 1(2) in simp)
qed

lemma octets_inj: "inj octetBits"
  by (rule injI) (metis octet_of_bits)

lemma rawURL_inj:
  assumes "RawURLEncoding a = RawURLEncoding b"
  shows "a = b"
proof -
  let ?x = "concat (map octetBits a)" and ?y = "concat (map octetBits b)"
  have inj: "inj_on (\<lambda>g. base64URLAlphabet ! bitsNat g) {g. length g = 6}"
  proof (rule inj_onI)
    fix g h assume g: "g \<in> {g. length g = 6}" "h \<in> {g. length g = 6}"
      "base64URLAlphabet ! bitsNat g = base64URLAlphabet ! bitsNat h"
    have "bitsNat g < 64" "bitsNat h < 64" using bitsNat_less [of g] bitsNat_less [of h] g by simp_all
    moreover have "distinct base64URLAlphabet" "length base64URLAlphabet = 64" by (code_simp, code_simp)
    ultimately have "bitsNat g = bitsNat h" using g(3) by (simp add: nth_eq_iff_index_eq)
    then show "g = h" using g by (simp add: bitsNat_inj)
  qed
  have groups: "groups 6 ?x = groups 6 ?y"
  proof (rule inj_on_map_eq_map [OF inj_on_subset [OF inj], THEN iffD1])
    show "set (groups 6 ?x) \<union> set (groups 6 ?y) \<subseteq> {g. length g = 6}" using groups_length [of 6] by auto
    show "map (\<lambda>g. base64URLAlphabet ! bitsNat g) (groups 6 ?x) = map (\<lambda>g. base64URLAlphabet ! bitsNat g) (groups 6 ?y)"
      using assms by (simp add: RawURLEncoding_def)
  qed
  have bits: "length (concat (map octetBits xs)) = 8 * length xs" for xs
    by (induction xs) (simp_all add: octetBits_def)
  have "(8 * length a + 5) div 6 = (8 * length b + 5) div 6"
    using arg_cong [OF groups, of length] by (simp add: length_grouped bits)
  moreover have "(8 * m + 5) div 6 < (8 * n + 5) div 6" if "m < n" for m n :: nat
    using div_le_mono [of "8 * m + 5 + 6" "8 * n + 5" 6] that by simp
  ultimately have "length a = length b" by (metis less_irrefl linorder_neqE_nat)
  then have "length ?x = length ?y" by (simp only: bits)
  then have "take (length ?x) (concat (groups 6 ?x)) = take (length ?y) (concat (groups 6 ?y))" by (simp only: groups)
  then have "?x = ?y" by (simp only: groups_take zero_less_numeral)
  moreover have "groups 8 (concat (map octetBits xs)) = map octetBits xs" for xs
    by (rule groups_concat) (auto simp: octetBits_def)
  ultimately have "map octetBits a = map octetBits b" by metis
  then show ?thesis using octets_inj by (simp add: inj_map_eq_map)
qed

text \<open>With the method S256, a code verifier is accepted for the challenge that a client made of its verifier
  when and only when the two have the same SHA-256 digest: the base64url text of a digest determines it.\<close>
theorem pkce_binds:
  "verifyPKCE env (RawURLEncoding (oeSha256 env verifier)) ''S256'' shown \<longleftrightarrow> oeSha256 env shown = oeSha256 env verifier"
  by (auto simp: verifyPKCE_def dest: rawURL_inj)

section \<open>Properties of requests\<close>

text \<open>C19: Starting without codes and tokens, after any sequence of requests, every access token was given by an
  exchange that followed an authorization: the session of the token's user asked for it, for an enabled
  application registered under the client and with an allowed redirect URI; the exchange came within ten minutes,
  from the same client and with the same redirect URI, and showed the verifier of the challenge or, without a
  challenge, the secret of the application; user and scope of the token are those of the authorization.\<close>
theorem tokens_traceable:
  assumes "owCodes w = []" "owAccess w = []" "t \<in> set (owAccess (oauth_run env ops w))"
  shows "\<exists>before between after op1 op2 c. ops = before @ op1 # between @ op2 # after
    \<and> authorization_gives env w op1 c \<and> exchange_gives env w op2 c t"
  using run_access [OF assms] by (simp add: traced_def)

text \<open>C20: When a code has been exchanged for tokens, no later exchange of it succeeds, whatever requests come
  between: the answer is that the code was used.\<close>
theorem code_exchanged_once:
  assumes "Token env w now basic req = (Inr resp, w')"
    and "trGrantType (tokenRequest env basic req) = ''authorization_code''"
    and "trGrantType (tokenRequest env basic' req') = ''authorization_code''" "trCode req' = trCode req"
  shows "fst (Token env (oauth_run env ops w') now' basic' req') = Inl CodeAlreadyUsed"
proof -
  have "usedCode w' (trCode req)" using exchange_marks [of env w now "tokenRequest env basic req"] assms(1) token_exchanged [OF assms(2)] by simp
  then have "usedCode (oauth_run env ops w') (trCode (tokenRequest env basic' req'))"
    using assms(4) by (simp add: run_used)
  then show ?thesis using used_refused token_exchanged [OF assms(3)] by simp
qed

text \<open>C39: The access token that a refresh answers is not stored: unless another token has its hash, the user
  information endpoint does not know it and the introspection calls it inactive.\<close>
theorem refreshed_token_unknown:
  assumes "refreshAccessToken env w now req = (Inr resp, w')"
    and "accessByHash w (hashToken env (tpAccessToken resp)) = None"
  shows "GetUserInfo env w' now' (tpAccessToken resp) = Inl TokenNotFound
    \<and> Introspect env w' now' (tpAccessToken resp) = None"
  using assms refreshed_world [OF assms(1)]
  by (auto simp: GetUserInfo_def Introspect_def ValidateAccessToken_def)

text \<open>Revoking a token changes no answer about an access token: a revoked access token is as active as it was
  before.\<close>
theorem revoking_keeps_access:
  "Introspect env (snd (Revoke env w token)) now token' = Introspect env w now token'
   \<and> GetUserInfo env (snd (Revoke env w token)) now token' = GetUserInfo env w now token'"
proof (cases "Revoke env w token")
  case (Pair a w')
  then have "owUsers w' = owUsers w" "owAccess w' = owAccess w" using revoked_world by blast+
  note same = this
  show ?thesis
    unfolding Pair Introspect_def ValidateAccessToken_def GetUserInfo_def accessByHash_def snd_conv same by simp
qed

text \<open>The permissions of an application play no part in an authorization: the answer and the new codes are the
  same whatever rows the table of permissions has.\<close>
theorem authorization_ignores_permissions:
  "Authorize env (w\<lparr>owPermissions := rows\<rparr>) now user req =
     (let (a, w') = Authorize env w now user req in (a, w'\<lparr>owPermissions := rows\<rparr>))"
proof -
  have valid: "ValidateAuthorizeRequest env (w\<lparr>owPermissions := rows\<rparr>) req = ValidateAuthorizeRequest env w req" for req
    by (simp add: ValidateAuthorizeRequest_def appByCode_def)
  have created: "CreateAuthorizationCode env (w\<lparr>owPermissions := rows\<rparr>) now req i =
      (let (a, w') = CreateAuthorizationCode env w now req i in (a, w'\<lparr>owPermissions := rows\<rparr>))" for req i
    by (cases "oeRand env (owReads w) 32")
      (simp_all add: CreateAuthorizationCode_def generateRandomCode_def createCode_def codeRow_def Let_def)
  let ?req = "req\<lparr>arClientID := clientOf env (arClientID req) (arRedirectURI req)\<rparr>"
  show ?thesis
  proof (cases "ValidateAuthorizeRequest env w ?req"; cases user)
    fix app i assume "ValidateAuthorizeRequest env w ?req = Inr app" "user = Some i"
    then show ?thesis
      by (cases "CreateAuthorizationCode env w now ?req i"; cases "fst (CreateAuthorizationCode env w now ?req i)")
        (auto simp: Authorize_def valid created Let_def)
  qed (simp_all add: Authorize_def valid Let_def)
qed

section \<open>Defects\<close>

text \<open>A refresh does not look at the client.\<close>

lemma refresh_without_client:
  "refreshAccessToken env w now (req\<lparr>trClientID := i, trClientSecret := s\<rparr>) = refreshAccessToken env w now req"
  by (simp add: refreshAccessToken_def)

text \<open>The error about an unknown client is sent to whatever address the request names.\<close>

lemma error_redirect_unchecked:
  assumes "appByCode w (arClientID req) = None" "arClientID req \<noteq> []" "arRedirectURI req \<noteq> []"
    and "oeUrlPath env (arRedirectURI req) \<noteq> None"
  shows "Authorize env w now user req = (RedirectError (arRedirectURI req) ClientNotFound (arState req), w)"
  using assms by (auto simp: Authorize_def ValidateAuthorizeRequest_def clientOf_def redirectWithError_def)

text \<open>The mark is set whether or not it was set before: of two exchanges that have both read the code, the second
  is answered as if it were the only one.\<close>

lemma mark_unconditional:
  assumes "\<not> oeMarkErr env (trCode req)"
  shows "issueTokens env (w\<lparr>owCodes := map (\<lambda>c. if acCode c = trCode req then c\<lparr>acUsed := True\<rparr> else c) (owCodes w)\<rparr>) now req c
   = issueTokens env w now req c"
proof -
  let ?mark = "map (\<lambda>c. if acCode c = trCode req then c\<lparr>acUsed := True\<rparr> else c)"
  have "?mark (?mark cs) = ?mark cs" for cs by simp
  then have "markUsed env (trCode req) (w\<lparr>owCodes := ?mark (owCodes w)\<rparr>) = markUsed env (trCode req) w"
    "markUsed env (trCode req) w = Inr (w\<lparr>owCodes := ?mark (owCodes w)\<rparr>)"
    using assms by (simp_all add: markUsed_def)
  then show ?thesis unfolding issueTokens_def by simp
qed

section \<open>A concrete server\<close>

text \<open>Reads that count, a one-byte digest, one client without settings; the user is the one of the login samples.\<close>

definition sample_oauth_env :: oauth_env where
  "sample_oauth_env = \<lparr>oeLogin = sample_login_env, oeIssuer = ''https://ops'', oeRand = (\<lambda>i n. Some (replicate n (of_nat i))),
     oeSha256 = (\<lambda>s. case s of _ # c # _ \<Rightarrow> [if c = CHR ''0'' then 0 else if c = CHR ''1'' then 1 else 2] | _ \<Rightarrow> []),
     oeSSOConfig = (\<lambda>_. None), oeUrlPath = (\<lambda>s. Some s),
     oeSignID = (\<lambda>c. Some (icSub c)), oeCodeErr = (\<lambda>_. False), oeMarkErr = (\<lambda>_. False), oeAccessErr = (\<lambda>_. False),
     oeRefreshErr = (\<lambda>_. False), oeRevokeErr = False\<rparr>"

definition sample_oauth_world :: oauth_world where
  "sample_oauth_world = \<lparr>owApps = [\<lparr>saID = 1, saName = ''git'', saCode = ''git'', saSSOConfig = [], saEnabled = True\<rparr>],
     owPermissions = [], owCodes = [], owAccess = [], owRefresh = [], owUsers = sample_world device_mfa, owReads = 0\<rparr>"

definition sample_authorization :: oauth_op where
  "sample_authorization = OpAuthorize [] [] ''tatuttthuuuuu.alice''
     \<lparr>arClientID = ''git'', arRedirectURI = ''/cb'', arResponseType = ''code'', arScope = ''openid'', arState = [],
      arNonce = [], arCodeChallenge = ''verifier'', arCodeChallengeMethod = ''plain''\<rparr>"

definition sample_exchange :: TokenRequest where
  "sample_exchange = \<lparr>trGrantType = ''authorization_code'', trCode = replicate 32 CHR ''0'', trRedirectURI = ''/cb'',
     trClientID = ''git'', trClientSecret = [], trCodeVerifier = ''verifier'', trRefreshToken = []\<rparr>"

definition code_world :: oauth_world where
  "code_world = oauth_step sample_oauth_env (5, sample_authorization) sample_oauth_world"

definition exchanged_world :: oauth_world where
  "exchanged_world = snd (Token sample_oauth_env code_world 7 None sample_exchange)"

lemma sample_token:
  obtains resp where "Token sample_oauth_env code_world 7 None sample_exchange = (Inr resp, exchanged_world)"
proof -
  have "map_sum id tpIDToken (fst (Token sample_oauth_env code_world 7 None sample_exchange)) = Inr ''alice''"
    by code_simp
  then have "\<exists>resp. fst (Token sample_oauth_env code_world 7 None sample_exchange) = Inr resp"
    by (cases "fst (Token sample_oauth_env code_world 7 None sample_exchange)") auto
  then show ?thesis using that by (metis exchanged_world_def prod.collapse)
qed

lemma tokens_traceable_witness:
  "\<exists>t before between after op1 op2 c. otUserID t = 5
     \<and> [(5, sample_authorization), (7, OpToken None sample_exchange)] = before @ op1 # between @ op2 # after
     \<and> authorization_gives sample_oauth_env sample_oauth_world op1 c \<and> exchange_gives sample_oauth_env sample_oauth_world op2 c t"
proof -
  let ?ops = "[(5, sample_authorization), (7, OpToken None sample_exchange)]"
  have "map otUserID (owAccess (oauth_run sample_oauth_env ?ops sample_oauth_world)) = [5]" by code_simp
  then obtain t where t: "t \<in> set (owAccess (oauth_run sample_oauth_env ?ops sample_oauth_world))" "otUserID t = 5"
    by (auto simp: map_eq_Cons_conv)
  have "owCodes sample_oauth_world = []" "owAccess sample_oauth_world = []" by (simp_all add: sample_oauth_world_def)
  from tokens_traceable [OF this t(1)] t(2) show ?thesis by blast
qed

lemma code_exchanged_once_witness:
  "(\<exists>resp. fst (Token sample_oauth_env code_world 7 None sample_exchange) = Inr resp)
   \<and> fst (Token sample_oauth_env (oauth_run sample_oauth_env [(8, OpRevoke ''x''), (8, sample_authorization)] exchanged_world)
       9 None sample_exchange) = Inl CodeAlreadyUsed"
proof -
  obtain resp where r: "Token sample_oauth_env code_world 7 None sample_exchange = (Inr resp, exchanged_world)"
    by (rule sample_token)
  have "trGrantType (tokenRequest sample_oauth_env None sample_exchange) = ''authorization_code''" by code_simp
  from code_exchanged_once [OF r this this refl] r show ?thesis by (metis fst_conv)
qed

definition sample_refresh :: TokenRequest where
  "sample_refresh = sample_exchange\<lparr>trGrantType := ''refresh_token'', trRefreshToken := concat (replicate 16 ''02'')\<rparr>"

lemma refreshed_token_unknown_witness:
  "\<exists>resp w'. refreshAccessToken sample_oauth_env exchanged_world 9 sample_refresh = (Inr resp, w')
     \<and> GetUserInfo sample_oauth_env w' 10 (tpAccessToken resp) = Inl TokenNotFound"
proof -
  let ?answer = "refreshAccessToken sample_oauth_env exchanged_world 9 sample_refresh"
  have "map_sum id tpAccessToken (fst ?answer) = Inr (concat (replicate 16 ''03''))" by code_simp
  then obtain resp w' where r: "?answer = (Inr resp, w')" "tpAccessToken resp = concat (replicate 16 ''03'')"
    by (cases "fst ?answer"; cases ?answer) auto
  have "accessByHash exchanged_world (hashToken sample_oauth_env (concat (replicate 16 ''03''))) = None" by code_simp
  then show ?thesis using refreshed_token_unknown [OF r(1)] r by auto
qed

end
