(* ===== verification/Host_Access.thy ===== *)
theory Host_Access
  imports Login
begin

unbundle bit_operations_syntax

text \<open>
  Who may do what with a host: roles, their grants on groups of hosts (internal/biz/rbac/asset_permission.go and
  usecase.go, the repositories of internal/data/rbac), the guards in front of the handlers (internal/service/rbac,
  middleware.go) and the routes they guard (internal/server/asset/http.go).

  The state is the rows of the tables. A list of hosts that was nil is stored as the JSON value null, which is a scalar
  of length one for the database, so such a list is \<open>None\<close> here and an empty one \<open>Some []\<close>. Texts are compared byte for
  byte. A read of the database fails as a whole or not at all.
\<close>

section \<open>Tables\<close>

definition PermissionView :: uint64 where "PermissionView = 1"
definition PermissionEdit :: uint64 where "PermissionEdit = 2"
definition PermissionDelete :: uint64 where "PermissionDelete = 4"
definition PermissionTerminal :: uint64 where "PermissionTerminal = 8"
definition PermissionFile :: uint64 where "PermissionFile = 16"
definition PermissionCollect :: uint64 where "PermissionCollect = 32"
definition PermissionDesktop :: uint64 where "PermissionDesktop = 64"
definition PermissionAll :: uint64 where "PermissionAll = 0x7F"

lemmas permission_defs = PermissionView_def PermissionEdit_def PermissionDelete_def PermissionTerminal_def
  PermissionFile_def PermissionCollect_def PermissionDesktop_def PermissionAll_def

record SysRole =
  roID :: nat
  roCode :: string
  roStatus :: int
  roDeleted :: bool

record SysRoleAssetPermission =
  raID :: nat
  raRoleID :: nat
  raAssetGroupID :: nat
  raHostIDs :: "nat list option"
  raPermissions :: uint64
  raDeleted :: bool

record SysMenu =
  smID :: nat
  smCode :: string
  smParentID :: nat
  smStatus :: int
  smDeleted :: bool

text \<open>Of a host only its group and whether it was deleted.\<close>

record Host =
  xhID :: nat
  xhGroupID :: nat
  xhDeleted :: bool

record access_world =
  xwRoles :: "SysRole list"
  xwUserRoles :: "(nat \<times> nat) list" \<comment> \<open>user and role\<close>
  xwGrants :: "SysRoleAssetPermission list"
  xwMenus :: "SysMenu list"
  xwRoleMenus :: "(nat \<times> nat) list" \<comment> \<open>role and menu\<close>
  xwHosts :: "Host list"

record access_env =
  xeReadErr :: bool
  xeGrantErr :: "SysRoleAssetPermission \<Rightarrow> bool"
  xeMenuUseCase :: bool
  xeLogin :: login_env

section \<open>Bits\<close>

definition HasPermission :: "SysRoleAssetPermission \<Rightarrow> uint64 \<Rightarrow> bool" where
  "HasPermission g perm \<longleftrightarrow> raPermissions g AND perm > 0"

definition AddPermission :: "uint64 \<Rightarrow> SysRoleAssetPermission \<Rightarrow> SysRoleAssetPermission" where
  "AddPermission perm g = g\<lparr>raPermissions := raPermissions g OR perm\<rparr>"

definition RemovePermission :: "uint64 \<Rightarrow> SysRoleAssetPermission \<Rightarrow> SysRoleAssetPermission" where
  "RemovePermission perm g = g\<lparr>raPermissions := raPermissions g AND NOT perm\<rparr>"

text \<open>The names of the permissions, by the bit they belong to.\<close>

definition GetAllPermissionNames :: "uint64 \<Rightarrow> uint64 list" where
  "GetAllPermissionNames permissions =
     filter (\<lambda>bit. permissions AND bit > 0)
       [PermissionView, PermissionEdit, PermissionDelete, PermissionTerminal, PermissionFile, PermissionCollect,
        PermissionDesktop]"

section \<open>Grants\<close>

definition DeleteByRoleAndGroup :: "nat \<Rightarrow> nat \<Rightarrow> access_world \<Rightarrow> access_world" where
  "DeleteByRoleAndGroup roleID assetGroupID w =
     w\<lparr>xwGrants := filter (\<lambda>g. \<not> (raRoleID g = roleID \<and> raAssetGroupID g = assetGroupID)) (xwGrants w)\<rparr>"

definition DeleteGrant :: "nat \<Rightarrow> access_world \<Rightarrow> access_world" where
  "DeleteGrant i w = w\<lparr>xwGrants := filter (\<lambda>g. raID g \<noteq> i) (xwGrants w)\<rparr>"

definition createGrant :: "access_env \<Rightarrow> SysRoleAssetPermission \<Rightarrow> access_world \<Rightarrow> bool \<times> access_world" where
  "createGrant env g w =
     (if xeGrantErr env g then (False, w)
      else (True, w\<lparr>xwGrants := xwGrants w @ [g\<lparr>raID := Suc (fold max (map raID (xwGrants w)) 0)\<rparr>]\<rparr>))"

definition newGrant :: "nat \<Rightarrow> nat \<Rightarrow> nat list option \<Rightarrow> uint64 \<Rightarrow> SysRoleAssetPermission" where
  "newGrant roleID assetGroupID hostIDs permissions =
     \<lparr>raID = 0, raRoleID = roleID, raAssetGroupID = assetGroupID, raHostIDs = hostIDs,
      raPermissions = (if permissions = 0 then PermissionView else permissions), raDeleted = False\<rparr>"

definition CreateBatch :: "access_env \<Rightarrow> nat \<Rightarrow> nat \<Rightarrow> nat list option \<Rightarrow> access_world \<Rightarrow> bool \<times> access_world" where
  "CreateBatch env roleID assetGroupID hostIDs w =
     createGrant env (newGrant roleID assetGroupID hostIDs PermissionView) (DeleteByRoleAndGroup roleID assetGroupID w)"

definition CreateBatchWithPermissions ::
  "access_env \<Rightarrow> nat \<Rightarrow> nat \<Rightarrow> nat list option \<Rightarrow> uint64 \<Rightarrow> access_world \<Rightarrow> bool \<times> access_world" where
  "CreateBatchWithPermissions env roleID assetGroupID hostIDs permissions w =
     createGrant env (newGrant roleID assetGroupID hostIDs permissions) (DeleteByRoleAndGroup roleID assetGroupID w)"

definition UpdatePermissions :: "nat \<Rightarrow> uint64 \<Rightarrow> access_world \<Rightarrow> access_world" where
  "UpdatePermissions i permissions w =
     w\<lparr>xwGrants := map (\<lambda>g. if raID g = i \<and> \<not> raDeleted g then g\<lparr>raPermissions := permissions\<rparr> else g) (xwGrants w)\<rparr>"

definition UpdateAssetPermission ::
  "access_env \<Rightarrow> nat \<Rightarrow> nat \<Rightarrow> nat \<Rightarrow> nat list option \<Rightarrow> uint64 \<Rightarrow> access_world \<Rightarrow> bool \<times> access_world" where
  "UpdateAssetPermission env i roleID assetGroupID hostIDs permissions w =
     createGrant env (newGrant roleID assetGroupID hostIDs permissions) (DeleteGrant i w)"

section \<open>Roles\<close>

definition GetByUserID :: "access_world \<Rightarrow> nat \<Rightarrow> SysRole list" where
  "GetByUserID w userID = filter (\<lambda>r. \<not> roDeleted r \<and> (userID, roID r) \<in> set (xwUserRoles w)) (xwRoles w)"

text \<open>A transaction: a role that is named twice violates the primary key, and nothing changes.\<close>

definition AssignRoles :: "nat \<Rightarrow> nat list \<Rightarrow> access_world \<Rightarrow> bool \<times> access_world" where
  "AssignRoles userID roleIDs w =
     (if \<not> distinct roleIDs then (False, w)
      else (True, w\<lparr>xwUserRoles := filter (\<lambda>(u, _). u \<noteq> userID) (xwUserRoles w) @ map (Pair userID) roleIDs\<rparr>))"

definition DeleteRole :: "nat \<Rightarrow> access_world \<Rightarrow> access_world" where
  "DeleteRole i w =
     w\<lparr>xwRoleMenus := filter (\<lambda>(r, _). r \<noteq> i) (xwRoleMenus w), xwUserRoles := filter (\<lambda>(_, r). r \<noteq> i) (xwUserRoles w),
       xwRoles := map (\<lambda>r. if roID r = i then r\<lparr>roDeleted := True\<rparr> else r) (xwRoles w)\<rparr>"

definition AssignMenus :: "nat \<Rightarrow> nat list \<Rightarrow> access_world \<Rightarrow> bool \<times> access_world" where
  "AssignMenus roleID menuIDs w =
     (if \<not> distinct menuIDs then (False, w)
      else (True, w\<lparr>xwRoleMenus := filter (\<lambda>(r, _). r \<noteq> roleID) (xwRoleMenus w) @ map (Pair roleID) menuIDs\<rparr>))"

definition HasUserMenuCode :: "access_world \<Rightarrow> nat \<Rightarrow> string \<Rightarrow> bool" where
  "HasUserMenuCode w userID code \<longleftrightarrow>
     list_ex (\<lambda>m. \<not> smDeleted m \<and> smCode m = code \<and> smStatus m = 1
       \<and> list_ex (\<lambda>(r, i). i = smID m \<and> (userID, r) \<in> set (xwUserRoles w)) (xwRoleMenus w)) (xwMenus w)"

section \<open>Checks\<close>

text \<open>The tables are joined without a look at what was deleted.\<close>

definition isAdmin :: "access_world \<Rightarrow> nat \<Rightarrow> bool" where
  "isAdmin w userID \<longleftrightarrow> list_ex (\<lambda>r. roCode r = ''admin'' \<and> (userID, roID r) \<in> set (xwUserRoles w)) (xwRoles w)"

definition hostGroup :: "access_world \<Rightarrow> nat \<Rightarrow> nat" where
  "hostGroup w hostID = (case find (\<lambda>h. xhID h = hostID) (xwHosts w) of Some h \<Rightarrow> xhGroupID h | None \<Rightarrow> 0)"

text \<open>\<open>JSON_LENGTH(COALESCE(host_ids, JSON_ARRAY())) = 0 OR JSON_CONTAINS(host_ids, id)\<close>.\<close>

definition coversHost :: "SysRoleAssetPermission \<Rightarrow> nat \<Rightarrow> bool" where
  "coversHost g hostID \<longleftrightarrow> (case raHostIDs g of None \<Rightarrow> False | Some ids \<Rightarrow> ids = [] \<or> hostID \<in> set ids)"

definition grantsOf :: "access_world \<Rightarrow> nat \<Rightarrow> nat \<Rightarrow> SysRoleAssetPermission list" where
  "grantsOf w userID hostID =
     filter (\<lambda>g. (userID, raRoleID g) \<in> set (xwUserRoles w) \<and> raAssetGroupID g = hostGroup w hostID \<and> \<not> raDeleted g
       \<and> coversHost g hostID) (xwGrants w)"

definition CheckHostPermission :: "access_env \<Rightarrow> access_world \<Rightarrow> nat \<Rightarrow> nat \<Rightarrow> bool option" where
  "CheckHostPermission env w userID hostID =
     (if xeReadErr env then None else Some (isAdmin w userID \<or> grantsOf w userID hostID \<noteq> []))"

definition CheckHostOperationPermission ::
  "access_env \<Rightarrow> access_world \<Rightarrow> nat \<Rightarrow> nat \<Rightarrow> uint64 \<Rightarrow> bool option" where
  "CheckHostOperationPermission env w userID hostID operation =
     (if xeReadErr env then None
      else Some (isAdmin w userID
        \<or> filter (\<lambda>g. raPermissions g AND operation > 0) (grantsOf w userID hostID) \<noteq> []))"

definition GetUserHostPermissions :: "access_env \<Rightarrow> access_world \<Rightarrow> nat \<Rightarrow> nat \<Rightarrow> uint64 option" where
  "GetUserHostPermissions env w userID hostID =
     (if xeReadErr env then None
      else Some (if isAdmin w userID then PermissionAll
                 else fold (\<lambda>g p. p OR raPermissions g) (grantsOf w userID hostID) 0))"

definition GetUserAccessibleHostIDs :: "access_env \<Rightarrow> access_world \<Rightarrow> nat \<Rightarrow> nat list option" where
  "GetUserAccessibleHostIDs env w userID =
     (if xeReadErr env then None
      else if isAdmin w userID then Some (map xhID (filter (\<lambda>h. \<not> xhDeleted h) (xwHosts w)))
      else Some (map xhID (filter (\<lambda>h. \<not> xhDeleted h
        \<and> list_ex (\<lambda>g. raAssetGroupID g = xhGroupID h \<and> (userID, raRoleID g) \<in> set (xwUserRoles w) \<and> \<not> raDeleted g
            \<and> coversHost g (xhID h)) (xwGrants w)) (xwHosts w))))"

section \<open>Guards\<close>

datatype guard_answer = Pass | Abort nat

text \<open>The token of a request: from the header, the query, or the cookie of the session.\<close>

definition requestToken :: "string \<Rightarrow> string \<Rightarrow> string \<Rightarrow> string" where
  "requestToken header query cookie =
     (let token = (if HasPrefix header ''Bearer '' then drop 7 header else []);
          token = (if token = [] then query else token)
      in if token = [] then cookie else token)"

text \<open>The user of a request, or none when it is refused with the code 401.\<close>

definition AuthRequired :: "access_env \<Rightarrow> gotime \<Rightarrow> string \<Rightarrow> string \<Rightarrow> string \<Rightarrow> nat option" where
  "AuthRequired env now header query cookie =
     (let token = requestToken header query cookie in
      if token = [] then None else map_option jcUserID (ParseToken (xeLogin env) now token))"

definition RequireAdmin :: "access_env \<Rightarrow> access_world \<Rightarrow> nat \<Rightarrow> guard_answer" where
  "RequireAdmin env w userID =
     (if userID = 0 then Abort 401
      else if xeReadErr env then Abort 500
      else if \<not> list_ex (\<lambda>r. roCode r = ''admin'') (GetByUserID w userID) then Abort 403 else Pass)"

definition HasMenuPermission :: "access_env \<Rightarrow> access_world \<Rightarrow> nat \<Rightarrow> string \<Rightarrow> bool option" where
  "HasMenuPermission env w userID code =
     (let code = TrimSpace code in
      if userID = 0 \<or> code = [] then Some False
      else if xeReadErr env then None
      else if list_ex (\<lambda>r. roCode r = ''admin'') (GetByUserID w userID) then Some True
      else if \<not> xeMenuUseCase env then None
      else Some (HasUserMenuCode w userID code))"

definition RequireMenuPermission :: "access_env \<Rightarrow> access_world \<Rightarrow> nat \<Rightarrow> string \<Rightarrow> guard_answer" where
  "RequireMenuPermission env w userID code =
     (if userID = 0 then Abort 401
      else if TrimSpace code = [] then Abort 500
      else case HasMenuPermission env w userID code of
        None \<Rightarrow> Abort 500 | Some ok \<Rightarrow> if \<not> ok then Abort 403 else Pass)"

definition RequireHostPermission :: "access_env \<Rightarrow> access_world \<Rightarrow> uint64 \<Rightarrow> nat \<Rightarrow> string \<Rightarrow> guard_answer" where
  "RequireHostPermission env w operation userID hostIDStr =
     (if userID = 0 then Abort 401
      else if hostIDStr = [] then Pass
      else case ParseUint hostIDStr 10 32 of
        None \<Rightarrow> Abort 400
      | Some hostID \<Rightarrow>
          (case CheckHostOperationPermission env w userID hostID operation of
             None \<Rightarrow> Abort 500
           | Some hasPermission \<Rightarrow> if \<not> hasPermission then Abort 403 else Pass))"

section \<open>Routes\<close>

datatype route_guard = NoGuard | HostGuard uint64 | AdminGuard

datatype http_method = MGET | MPOST | MPUT | MDELETE

text \<open>The routes of hosts, of agents and of terminals.\<close>

definition hostRoutes :: "(http_method \<times> string \<times> route_guard) list" where
  "hostRoutes =
    [(MGET, ''/hosts'', NoGuard), (MGET, ''/hosts/template/download'', NoGuard), (MPOST, ''/hosts/import'', NoGuard),
     (MPOST, ''/hosts/batch-collect'', NoGuard), (MPOST, ''/hosts/batch-delete'', NoGuard),
     (MGET, ''/hosts/:id/trends'', HostGuard PermissionView), (MGET, ''/hosts/:id'', HostGuard PermissionView),
     (MPOST, ''/hosts'', HostGuard PermissionEdit), (MPUT, ''/hosts/:id'', HostGuard PermissionEdit),
     (MDELETE, ''/hosts/:id'', HostGuard PermissionDelete), (MPOST, ''/hosts/:id/collect'', HostGuard PermissionCollect),
     (MPOST, ''/hosts/:id/test'', NoGuard), (MGET, ''/hosts/:id/agent/bootstrap'', HostGuard PermissionEdit),
     (MPOST, ''/hosts/:id/desktop/sessions'', HostGuard PermissionDesktop),
     (MGET, ''/hosts/:id/files'', HostGuard PermissionFile), (MPOST, ''/hosts/:id/files/upload'', HostGuard PermissionFile),
     (MGET, ''/hosts/:id/files/download'', HostGuard PermissionFile), (MDELETE, ''/hosts/:id/files'', HostGuard PermissionFile),
     (MGET, ''/agents'', NoGuard), (MPOST, ''/agents/deploy'', NoGuard), (MPOST, ''/agents/reinstall'', NoGuard),
     (MPOST, ''/agents/uninstall'', NoGuard), (MGET, ''/agents/jobs/:id'', NoGuard),
     (MGET, ''/agents/:id/inventory'', HostGuard PermissionView),
     (MGET, ''/asset/terminal/:id'', HostGuard PermissionTerminal), (MPOST, ''/asset/terminal/:id/resize'', NoGuard),
     (MGET, ''/terminal-sessions'', AdminGuard), (MGET, ''/terminal-sessions/:id/play'', AdminGuard),
     (MGET, ''/terminal-sessions/:id/download'', AdminGuard), (MGET, ''/terminal-sessions/:id/events'', AdminGuard),
     (MDELETE, ''/terminal-sessions/:id'', AdminGuard)]"

text \<open>A request of a route under \<open>/api/v1\<close>: the session first, then the guard; \<open>hostIDStr\<close> is the parameter of the path.\<close>

definition admit ::
  "access_env \<Rightarrow> access_world \<Rightarrow> gotime \<Rightarrow> string \<Rightarrow> string \<Rightarrow> string \<Rightarrow> route_guard \<Rightarrow> string \<Rightarrow> guard_answer" where
  "admit env w now header query cookie guard hostIDStr =
     (case AuthRequired env now header query cookie of
        None \<Rightarrow> Abort 401
      | Some userID \<Rightarrow>
          (case guard of
             NoGuard \<Rightarrow> Pass
           | HostGuard operation \<Rightarrow> RequireHostPermission env w operation userID hostIDStr
           | AdminGuard \<Rightarrow> RequireAdmin env w userID))"

text \<open>The handlers that change grants and roles; their routes have no guard of their own.\<close>

definition CreateAssetPermission ::
  "access_env \<Rightarrow> nat \<Rightarrow> nat \<Rightarrow> nat list option \<Rightarrow> uint64 \<Rightarrow> access_world \<Rightarrow> guard_answer \<times> access_world" where
  "CreateAssetPermission env roleID assetGroupID hostIDs permissions w =
     (if roleID = 0 \<or> assetGroupID = 0 then (Abort 400, w)
      else case CreateBatchWithPermissions env roleID assetGroupID hostIDs
          (if permissions = 0 then PermissionView else permissions) w of
        (ok, w) \<Rightarrow> (if ok then Pass else Abort 500, w))"

definition AssignUserRoles :: "string \<Rightarrow> nat list option \<Rightarrow> access_world \<Rightarrow> guard_answer \<times> access_world" where
  "AssignUserRoles idStr roleIDs w =
     (case ParseUint idStr 10 32 of
        None \<Rightarrow> (Abort 400, w)
      | Some i \<Rightarrow>
          (case roleIDs of
             None \<Rightarrow> (Abort 400, w)
           | Some ids \<Rightarrow> (case AssignRoles i ids w of (ok, w) \<Rightarrow> (if ok then Pass else Abort 500, w))))"

definition postUserRoles ::
  "access_env \<Rightarrow> gotime \<Rightarrow> string \<Rightarrow> string \<Rightarrow> string \<Rightarrow> string \<Rightarrow> nat list option \<Rightarrow> access_world
   \<Rightarrow> guard_answer \<times> access_world" where
  "postUserRoles env now header query cookie idStr roleIDs w =
     (if admit env w now header query cookie NoGuard [] = Pass then AssignUserRoles idStr roleIDs w
      else (Abort 401, w))"

end
