(* ===== verification/Host_Props.thy ===== *)
theory Host_Props
  imports Host_Access Login_Props
begin

text \<open>
  What the guards in front of the hosts let through, that the three queries behind the guards, the page of a host and the
  list of hosts agree with each other, and what a grant changes.
\<close>

section \<open>Bits of permissions\<close>

lemma some_bit: "(x :: uint64) > 0 \<longleftrightarrow> x \<noteq> 0"
  by (simp add: word_gt_0)

lemma or_shares: "((x :: uint64) OR y) AND z = 0 \<longleftrightarrow> x AND z = 0 \<and> y AND z = 0"
  by (simp add: bit.conj_disj_distrib2 or_eq_0_iff)

lemma fold_shares:
  "fold (\<lambda>g p. p OR raPermissions g) gs p AND op = 0 \<longleftrightarrow> p AND op = 0 \<and> (\<forall>g\<in>set gs. raPermissions g AND op = 0)"
  by (induction gs arbitrary: p) (auto simp: or_shares)

definition operations :: "uint64 list" where
  "operations = [PermissionView, PermissionEdit, PermissionDelete, PermissionTerminal, PermissionFile, PermissionCollect,
     PermissionDesktop]"

lemma all_operations: "op \<in> set operations \<Longrightarrow> PermissionAll AND op \<noteq> 0"
  by (auto simp: operations_def permission_defs)

lemma add_permission: "HasPermission (AddPermission perm g) op \<longleftrightarrow> HasPermission g op \<or> perm AND op \<noteq> 0"
  by (simp add: HasPermission_def AddPermission_def some_bit or_shares)

lemma remove_permission: "\<not> HasPermission (RemovePermission perm g) perm"
  by (simp add: HasPermission_def RemovePermission_def and.assoc)

section \<open>Guards\<close>

lemma granted_iff:
  "g \<in> set (grantsOf w u h) \<longleftrightarrow> g \<in> set (xwGrants w) \<and> (u, raRoleID g) \<in> set (xwUserRoles w)
     \<and> raAssetGroupID g = hostGroup w h \<and> \<not> raDeleted g \<and> (raHostIDs g = Some [] \<or> (\<exists>ids. raHostIDs g = Some ids \<and> h \<in> set ids))"
  by (auto simp: grantsOf_def coversHost_def split: option.splits)

lemma check_exact:
  "CheckHostOperationPermission env w u h op = Some True \<longleftrightarrow>
     \<not> xeReadErr env \<and> (isAdmin w u \<or> (\<exists>g\<in>set (grantsOf w u h). raPermissions g AND op \<noteq> 0))"
  by (auto simp: CheckHostOperationPermission_def filter_empty_conv some_bit)

lemma host_guard_passes:
  "hostIDStr \<noteq> [] \<Longrightarrow> RequireHostPermission env w op u hostIDStr = Pass \<longleftrightarrow>
     u \<noteq> 0 \<and> (\<exists>h. ParseUint hostIDStr 10 32 = Some h \<and> CheckHostOperationPermission env w u h op = Some True)"
  by (auto simp: RequireHostPermission_def split: option.splits if_splits)

lemma session_user:
  "AuthRequired env now header query cookie = Some u \<longleftrightarrow> requestToken header query cookie \<noteq> []
     \<and> (\<exists>claims. ParseToken (xeLogin env) now (requestToken header query cookie) = Some claims \<and> jcUserID claims = u)"
  by (auto simp: AuthRequired_def Let_def)

text \<open>C16: A request of a route that asks for an operation on a host comes through exactly when it carries a valid session
  token, names a host by number, and its user is an administrator or has a role with an undeleted grant on the group of
  the host, for all hosts of the group or for this one, whose bits include the operation.\<close>

theorem guarded_host_route:
  assumes "hostIDStr \<noteq> []"
  shows "admit env w now header query cookie (HostGuard op) hostIDStr = Pass \<longleftrightarrow>
    requestToken header query cookie \<noteq> [] \<and> \<not> xeReadErr env
    \<and> (\<exists>claims h. ParseToken (xeLogin env) now (requestToken header query cookie) = Some claims \<and> jcUserID claims \<noteq> 0
        \<and> ParseUint hostIDStr 10 32 = Some h
        \<and> (isAdmin w (jcUserID claims)
           \<or> (\<exists>g\<in>set (xwGrants w). \<not> raDeleted g \<and> (jcUserID claims, raRoleID g) \<in> set (xwUserRoles w)
               \<and> raAssetGroupID g = hostGroup w h
               \<and> (raHostIDs g = Some [] \<or> (\<exists>ids. raHostIDs g = Some ids \<and> h \<in> set ids))
               \<and> raPermissions g AND op \<noteq> 0)))" (is "?l \<longleftrightarrow> ?r")
proof -
  have "?l \<longleftrightarrow> (\<exists>u. AuthRequired env now header query cookie = Some u \<and> RequireHostPermission env w op u hostIDStr = Pass)"
    by (auto simp: admit_def split: option.splits)
  then show ?thesis unfolding host_guard_passes [OF assms] session_user check_exact Bex_def granted_iff by blast
qed

lemma admin_guard_passes:
  "admit env w now header query cookie AdminGuard hostIDStr = Pass \<longleftrightarrow>
     (\<exists>u. AuthRequired env now header query cookie = Some u \<and> u \<noteq> 0 \<and> \<not> xeReadErr env
        \<and> (\<exists>r\<in>set (xwRoles w). \<not> roDeleted r \<and> roCode r = ''admin'' \<and> (u, roID r) \<in> set (xwUserRoles w)))"
  by (auto simp: admit_def RequireAdmin_def GetByUserID_def list_ex_iff split: option.splits if_splits)

text \<open>The two notions of an administrator: the guard of the host joins roles that were deleted as well.\<close>

lemma admin_passes_host_guard:
  "admit env w now header query cookie AdminGuard hostIDStr = Pass \<Longrightarrow> hostIDStr \<noteq> [] \<Longrightarrow> ParseUint hostIDStr 10 32 \<noteq> None \<Longrightarrow>
   admit env w now header query cookie (HostGuard op) hostIDStr = Pass"
  unfolding admin_guard_passes by (auto simp: admit_def host_guard_passes check_exact isAdmin_def list_ex_iff)

lemma menu_permission:
  "RequireMenuPermission env w u code = Pass \<longleftrightarrow> u \<noteq> 0 \<and> TrimSpace code \<noteq> [] \<and> HasMenuPermission env w u code = Some True"
  by (auto simp: RequireMenuPermission_def split: option.splits)

lemma menu_permission_of_role:
  assumes "HasMenuPermission env w u code = Some True"
  obtains r where "(u, r) \<in> set (xwUserRoles w)"
  using assms by (fastforce simp: HasMenuPermission_def Let_def GetByUserID_def HasUserMenuCode_def list_ex_iff
      split: if_splits)

section \<open>Agreement of the queries\<close>

text \<open>The operations that the page of a host offers to a user are the ones the guards let through: every bit of the
  permissions shown is granted by the check, and every operation that passes the check is shown.\<close>

theorem shown_permissions_are_checked:
  assumes "GetUserHostPermissions env w u h = Some shown" "op \<in> set operations"
  shows "CheckHostOperationPermission env w u h op = Some (shown AND op \<noteq> 0)"
proof -
  have "\<not> xeReadErr env" using assms(1) by (auto simp: GetUserHostPermissions_def split: if_splits)
  moreover have "shown AND op \<noteq> 0 \<longleftrightarrow> isAdmin w u \<or> (\<exists>g\<in>set (grantsOf w u h). raPermissions g AND op \<noteq> 0)"
    using assms all_operations [OF assms(2)]
    by (auto simp: GetUserHostPermissions_def fold_shares split: if_splits)
  ultimately show ?thesis
    by (auto simp: CheckHostOperationPermission_def filter_empty_conv some_bit)
qed

lemma host_found: "distinct (map xhID hs) \<Longrightarrow> x \<in> set hs \<Longrightarrow> find (\<lambda>y. xhID y = xhID x) hs = Some x"
  by (induction hs) auto

lemma host_group: "distinct (map xhID (xwHosts w)) \<Longrightarrow> x \<in> set (xwHosts w) \<Longrightarrow> hostGroup w (xhID x) = xhGroupID x"
  by (simp add: hostGroup_def host_found)

text \<open>C18: The list of the hosts a user may see holds exactly the hosts that are not deleted and that the check of a
  single host grants to the user, each of them once.\<close>

theorem accessible_hosts_exact:
  assumes "distinct (map xhID (xwHosts w))" "GetUserAccessibleHostIDs env w u = Some ids"
  shows "distinct ids \<and> set ids = {xhID x |x. x \<in> set (xwHosts w) \<and> \<not> xhDeleted x
    \<and> CheckHostPermission env w u (xhID x) = Some True}"
proof -
  let ?may = "\<lambda>x. list_ex (\<lambda>g. raAssetGroupID g = xhGroupID x \<and> (u, raRoleID g) \<in> set (xwUserRoles w) \<and> \<not> raDeleted g
    \<and> coversHost g (xhID x)) (xwGrants w)"
  have err: "\<not> xeReadErr env" using assms(2) by (auto simp: GetUserAccessibleHostIDs_def)
  have may: "?may x \<longleftrightarrow> grantsOf w u (xhID x) \<noteq> []" if "x \<in> set (xwHosts w)" for x
    using host_group [OF assms(1) that] by (auto simp: grantsOf_def list_ex_iff filter_empty_conv)
  have ids: "ids = map xhID (filter (\<lambda>x. \<not> xhDeleted x \<and> (isAdmin w u \<or> ?may x)) (xwHosts w))"
    using assms(2) err by (auto simp: GetUserAccessibleHostIDs_def split: if_splits)
  have "distinct ids" unfolding ids by (rule distinct_map_filter [OF assms(1)])
  then show ?thesis unfolding ids using err by (auto simp: CheckHostPermission_def may)
qed

section \<open>Grants\<close>

text \<open>Only the rows of the grants are written.\<close>

lemma grants_updated [simp]:
  "isAdmin (xwGrants_update f w) u = isAdmin w u" "hostGroup (xwGrants_update f w) h = hostGroup w h"
  by (simp_all add: isAdmin_def hostGroup_def)

lemma revoked_grant_gone:
  "grantsOf (DeleteByRoleAndGroup r g w) u h = filter (\<lambda>y. \<not> (raRoleID y = r \<and> raAssetGroupID y = g)) (grantsOf w u h)"
  by (auto simp: DeleteByRoleAndGroup_def grantsOf_def intro!: filter_cong)

lemma deleted_grant_gone: "grantsOf (DeleteGrant i w) u h = filter (\<lambda>y. raID y \<noteq> i) (grantsOf w u h)"
  by (auto simp: DeleteGrant_def grantsOf_def intro!: filter_cong)

lemma created_grant:
  assumes "createGrant env x w = (True, w')"
  obtains i where "isAdmin w' u = isAdmin w u"
    "grantsOf w' u h = grantsOf w u h @ filter (\<lambda>y. (u, raRoleID y) \<in> set (xwUserRoles w)
       \<and> raAssetGroupID y = hostGroup w h \<and> \<not> raDeleted y \<and> coversHost y h) [x\<lparr>raID := i\<rparr>]"
proof -
  have "w' = xwGrants_update (\<lambda>_. xwGrants w @ [x\<lparr>raID := Suc (fold max (map raID (xwGrants w)) 0)\<rparr>]) w"
    using assms by (simp add: createGrant_def split: if_splits)
  then show ?thesis
    using that [of "Suc (fold max (map raID (xwGrants w)) 0)"] by (simp only: grants_updated grantsOf_def) simp
qed

lemma revoked_rows [simp]:
  "isAdmin (DeleteByRoleAndGroup r g w) u = isAdmin w u" "hostGroup (DeleteByRoleAndGroup r g w) h = hostGroup w h"
  "xwUserRoles (DeleteByRoleAndGroup r g w) = xwUserRoles w"
  by (simp_all add: DeleteByRoleAndGroup_def)

text \<open>C17: A grant replaces what the role had on the group and nothing else: afterwards a user may carry out an operation on a
  host exactly when the user is an administrator, or another role or group granted it before, or the user has the role,
  the host belongs to the group and is covered by the list of hosts, and the bits include the operation; bits that are
  all zero count as the permission to view.\<close>

theorem grant_replaces:
  assumes "CreateBatchWithPermissions env r g ids p w = (True, w')"
  shows "CheckHostOperationPermission env w' u h op =
    (if xeReadErr env then None
     else Some (isAdmin w u
       \<or> (\<exists>x\<in>set (grantsOf w u h). (raRoleID x, raAssetGroupID x) \<noteq> (r, g) \<and> raPermissions x AND op \<noteq> 0)
       \<or> ((u, r) \<in> set (xwUserRoles w) \<and> hostGroup w h = g \<and> (\<exists>hs. ids = Some hs \<and> (hs = [] \<or> h \<in> set hs))
          \<and> (if p = 0 then PermissionView else p) AND op \<noteq> 0)))"
proof -
  obtain i where "isAdmin w' u = isAdmin w u"
    and "grantsOf w' u h = grantsOf (DeleteByRoleAndGroup r g w) u h @ filter (\<lambda>y. (u, raRoleID y) \<in> set (xwUserRoles w)
       \<and> raAssetGroupID y = hostGroup w h \<and> \<not> raDeleted y \<and> coversHost y h) [newGrant r g ids p\<lparr>raID := i\<rparr>]"
    using created_grant [OF assms [unfolded CreateBatchWithPermissions_def], of u h] by auto
  then show ?thesis
    by (auto simp: CheckHostOperationPermission_def revoked_grant_gone filter_empty_conv some_bit newGrant_def coversHost_def
        split: option.splits)
qed

text \<open>Revoking never gives a user an operation.\<close>

lemma revoking_never_grants:
  "CheckHostOperationPermission env (DeleteByRoleAndGroup r g w) u h op = Some True \<Longrightarrow>
   CheckHostOperationPermission env w u h op = Some True"
  unfolding check_exact revoked_grant_gone by auto

text \<open>A role that was deleted is nobody's role, but its grants stay and come back when the role is assigned again.\<close>

lemma deleted_role_ends: "(u, i) \<notin> set (xwUserRoles (DeleteRole i w))"
  by (auto simp: DeleteRole_def)

lemma deleted_role_grants_again:
  assumes "raRoleID x = i" "x \<in> set (xwGrants w)" "\<not> raDeleted x" "raAssetGroupID x = hostGroup w h" "raHostIDs x = Some []"
    "AssignRoles u [i] (DeleteRole i w) = (ok, w')"
  shows "ok \<and> x \<in> set (grantsOf w' u h)"
  using assms by (auto simp: AssignRoles_def DeleteRole_def granted_iff hostGroup_def)

text \<open>A grant on a whole group whose list of hosts is left out of the request covers no host.\<close>

lemma omitted_hosts_grant_nothing:
  "CreateBatchWithPermissions env r g None p w = (True, w') \<Longrightarrow>
   grantsOf w' u h = filter (\<lambda>y. \<not> (raRoleID y = r \<and> raAssetGroupID y = g)) (grantsOf w u h)"
  unfolding CreateBatchWithPermissions_def
  by (erule created_grant [where u = u and h = h]) (simp add: revoked_grant_gone newGrant_def coversHost_def)

text \<open>The route that assigns roles asks for a session only: whoever has one becomes an administrator with one request.\<close>

lemma session_makes_itself_admin:
  assumes "AuthRequired env now header query cookie = Some u" "ParseUint idStr 10 32 = Some u"
    "r \<in> set (xwRoles w)" "roCode r = ''admin''" "\<not> roDeleted r" "\<not> xeReadErr env" "u \<noteq> 0"
    "postUserRoles env now header query cookie idStr (Some [roID r]) w = (answer, w')"
  shows "answer = Pass \<and> admit env w' now header query cookie AdminGuard [] = Pass"
proof -
  have "answer = Pass \<and> xwRoles w' = xwRoles w \<and> (u, roID r) \<in> set (xwUserRoles w')"
    using assms(1,2,8) by (auto simp: postUserRoles_def admit_def AssignUserRoles_def AssignRoles_def)
  then show ?thesis using assms unfolding admin_guard_passes by auto
qed

text \<open>The routes without a guard although they change hosts, agents or sessions.\<close>

lemma unguarded_changes:
  "filter (\<lambda>(m, _, guard). m \<noteq> MGET \<and> guard = NoGuard) hostRoutes =
    map (\<lambda>path. (MPOST, path, NoGuard))
      [''/hosts/import'', ''/hosts/batch-collect'', ''/hosts/batch-delete'', ''/hosts/:id/test'', ''/agents/deploy'',
       ''/agents/reinstall'', ''/agents/uninstall'', ''/asset/terminal/:id/resize'']"
  by (simp add: hostRoutes_def)

section \<open>A concrete installation\<close>

text \<open>User 5 has role 2, which may view and use the terminal of host 7 of group 3 and view all hosts of group 4.\<close>

definition sample_access_env :: access_env where
  "sample_access_env = \<lparr>xeReadErr = False, xeGrantErr = (\<lambda>_. False), xeMenuUseCase = True, xeLogin = sample_login_env\<rparr>"

definition sample_access :: access_world where
  "sample_access = \<lparr>xwRoles = [\<lparr>roID = 1, roCode = ''admin'', roStatus = 1, roDeleted = False\<rparr>,
       \<lparr>roID = 2, roCode = ''ops'', roStatus = 1, roDeleted = False\<rparr>],
     xwUserRoles = [(1, 1), (5, 2)],
     xwGrants = [\<lparr>raID = 1, raRoleID = 2, raAssetGroupID = 3, raHostIDs = Some [7], raPermissions = 9, raDeleted = False\<rparr>,
       \<lparr>raID = 2, raRoleID = 2, raAssetGroupID = 4, raHostIDs = Some [], raPermissions = 1, raDeleted = False\<rparr>],
     xwMenus = [], xwRoleMenus = [],
     xwHosts = [\<lparr>xhID = 7, xhGroupID = 3, xhDeleted = False\<rparr>, \<lparr>xhID = 8, xhGroupID = 3, xhDeleted = False\<rparr>,
       \<lparr>xhID = 9, xhGroupID = 4, xhDeleted = False\<rparr>, \<lparr>xhID = 10, xhGroupID = 4, xhDeleted = True\<rparr>]\<rparr>"

definition sample_header :: string where
  "sample_header = ''Bearer tatuttthuuuuu.alice''"

theorem guarded_host_route_witness:
  "admit sample_access_env sample_access 0 sample_header [] [] (HostGuard PermissionTerminal) ''7'' = Pass
   \<and> admit sample_access_env sample_access 0 sample_header [] [] (HostGuard PermissionTerminal) ''9'' \<noteq> Pass"
proof -
  have token: "requestToken sample_header [] [] = ''tatuttthuuuuu.alice''" by code_simp
  have claims: "ParseToken (xeLogin sample_access_env) 0 ''tatuttthuuuuu.alice'' = Some \<lparr>jcUserID = 5, jcUsername = ''alice'',
      jcTokenType = ''auth'', jcExpiresAt = 0, jcIssuedAt = 0, jcNotBefore = 0\<rparr>" by code_simp
  have ids: "ParseUint ''7'' 10 32 = Some 7" "ParseUint ''9'' 10 32 = Some 9" by code_simp+
  have rows: "\<not> isAdmin sample_access 5" "hostGroup sample_access 7 = 3" "hostGroup sample_access 9 = 4" by code_simp+
  have read: "\<not> xeReadErr sample_access_env" by (simp add: sample_access_env_def)
  have some: "''7'' \<noteq> []" "''9'' \<noteq> []" by simp_all
  show ?thesis unfolding some [THEN guarded_host_route] token claims ids
    using rows read by (simp add: sample_access_def permission_defs)
qed

theorem shown_permissions_are_checked_witness:
  "CheckHostOperationPermission sample_access_env sample_access 5 7 PermissionTerminal = Some True
   \<and> CheckHostOperationPermission sample_access_env sample_access 5 7 PermissionDelete = Some False"
proof -
  have shown: "GetUserHostPermissions sample_access_env sample_access 5 7 = Some 9" by code_simp
  show ?thesis
    using shown_permissions_are_checked [OF shown, of PermissionTerminal] shown_permissions_are_checked [OF shown, of PermissionDelete]
    by (simp add: operations_def permission_defs)
qed

theorem accessible_hosts_exact_witness:
  "GetUserAccessibleHostIDs sample_access_env sample_access 5 = Some [7, 9]
   \<and> {xhID x |x. x \<in> set (xwHosts sample_access) \<and> \<not> xhDeleted x
        \<and> CheckHostPermission sample_access_env sample_access 5 (xhID x) = Some True} = {7, 9}"
proof -
  have "distinct (map xhID (xwHosts sample_access))" by code_simp
  moreover have ids: "GetUserAccessibleHostIDs sample_access_env sample_access 5 = Some [7, 9]" by code_simp
  ultimately show ?thesis using accessible_hosts_exact [of sample_access sample_access_env 5 "[7, 9]"] by auto
qed

theorem grant_replaces_witness:
  "CheckHostOperationPermission sample_access_env
     (snd (CreateBatchWithPermissions sample_access_env 2 3 (Some []) PermissionFile sample_access)) 5 8 PermissionFile = Some True
   \<and> CheckHostOperationPermission sample_access_env
     (snd (CreateBatchWithPermissions sample_access_env 2 3 (Some []) PermissionFile sample_access)) 5 7 PermissionTerminal
     = Some False"
proof -
  let ?r = "CreateBatchWithPermissions sample_access_env 2 3 (Some []) PermissionFile sample_access"
  have ok: "?r = (True, snd ?r)"
    by (simp add: CreateBatchWithPermissions_def createGrant_def sample_access_env_def)
  have "\<not> isAdmin sample_access 5" "hostGroup sample_access 8 = 3" "hostGroup sample_access 7 = 3" by code_simp+
  then show ?thesis unfolding grant_replaces [OF ok]
    by (auto simp: sample_access_env_def grantsOf_def sample_access_def permission_defs)
qed

end
