(* ===== verification/Log_Files.thy ===== *)
theory Log_Files
  imports Log_Archive Backup_Purge Sql_Format
begin

text \<open>
  The archive of binary logs by a runner over SSH (runner_binlog.go): which files of the server a run takes, the script it
  sends, the output it reads back, and the rows of archives, jobs and streams it writes.

  A run is started by a request and goes on in the background, where it reads its stream again, waits for the runner and
  saves the row it read; the two halves are \<open>prepareArchive\<close> and \<open>finishOnce\<close> or \<open>finishCatchUp\<close>. What the runner answers to a
  script, how the server answers to SHOW BINARY LOGS and the time zone are parameters. Of the script the words that
  are put into its fixed text are modelled. The engine of an archive, the texts of a job for display, and the time of a
  stream's last archive are left out. A text the program writes around an error is a constructor, with the error uncut.
\<close>

section \<open>Data\<close>

record mysqlBinaryLogFile =
  bfName :: string
  bfSize :: int

record mysqlBinlogArchiveSelection =
  bsFileName :: string
  bsFileSize :: int
  bsPrevious :: string
  bsNext :: string

record mysqlBinlogArchiveOutput =
  boFileName :: string
  boStoragePath :: string
  boStorageURI :: string
  boFileSize :: int
  boChecksumSHA256 :: string
  boFirstEventLine :: string
  boLastEventLine :: string

text \<open>A row of the archive with the columns that only this component writes.\<close>

record archived_file = DatabaseLogArchive +
  laSourceInstanceID :: nat
  laStorageURI :: string
  laChecksumSHA256 :: string
  laArchivedAt :: "gotime option"
  laStartPos :: int
  laEndPos :: int

record archive_job =
  ajID :: nat
  ajRunnerHostID :: nat
  ajRunnerID :: string
  ajSourceInstanceID :: nat
  ajStatus :: string
  ajFiles :: "string list"
  ajWorkDir :: string
  ajOperatorID :: nat
  ajOperatorName :: string
  ajExitCode :: int
  ajErrorMessage :: archive_text
  ajStartedAt :: "gotime option"
  ajHeartbeatAt :: "gotime option"
  ajFinishedAt :: "gotime option"
  ajDurationMs :: int

text \<open>The quoted words of the script.\<close>

record archive_script =
  asWorkDir :: string
  asDestRoot :: string
  asStreamID :: nat
  asBinlogFile :: string
  asUser :: string
  asPassword :: string
  asHost :: string
  asPort :: string
  asFiles :: "string list"

record runner_answer =
  raStdout :: string
  raStderr :: string
  raExitCode :: int
  raError :: "string option"

datatype file_error =
    FilesUnconfigured | FileStreamIDEmpty | FileRunnerNotChosen | FileStreamMissing | FileStreamDisabled | FileBinlogOnly
  | FileSourceMissing | FileEngineUnsupported db_text | FileHostMissing | FileHostDisabled | FileHostNotSSH
  | FileResolverMissing | FileCredentialFailed string | FileConnectFailed string | FileListUnreadable
  | NoBinlogs | BinlogNameInvalid | BinlogNotListed | LastArchivedGone string | NothingToCatchUp | NothingRotated
  | FileJobFailed string

record file_world =
  fwArchive :: archive_world
  fwFiles :: "archived_file list"
  fwJobs :: "archive_job list"

record file_env =
  feRepos :: bool \<comment> \<open>the repositories of streams, hosts and jobs\<close>
  feFileRepo :: bool
  feInstances :: "nat \<Rightarrow> DatabaseInstance option"
  feResolve :: "(nat \<Rightarrow> string + ConnectionCredential) option"
  feBinaryLogs :: "DatabaseInstance \<Rightarrow> ConnectionCredential
    \<Rightarrow> string + (string \<Rightarrow> (string list \<times> string option list list) option)"
  feMountPath :: "nat \<Rightarrow> string" \<comment> \<open>the column of a host\<close>
  feDate :: "int \<times> int \<times> int \<times> int \<times> int \<times> int \<Rightarrow> gotime"
  feJobErr :: "archive_job \<Rightarrow> string option"
  feFileErr :: "archived_file \<Rightarrow> string option"
  feJobUpdateErr :: "archive_job \<Rightarrow> bool"
  feStreamUpdateErr :: "DatabaseLogArchiveStream \<Rightarrow> bool"

section \<open>Files of the server\<close>

definition isSafeRunnerFileName :: "string \<Rightarrow> bool" where
  "isSafeRunnerFileName value \<longleftrightarrow>
     TrimSpace value \<noteq> [] \<and> \<not> Contains value ''/'' \<and> \<not> Contains value [BSL]
     \<and> list_all (\<lambda>r. (CHR ''a'' \<le> r \<and> r \<le> CHR ''z'') \<or> (CHR ''A'' \<le> r \<and> r \<le> CHR ''Z'') \<or> (CHR ''0'' \<le> r \<and> r \<le> CHR ''9'')
         \<or> r = CHR ''.'' \<or> r = CHR ''_'' \<or> r = CHR ''-'') value"

definition firstNonZeroInt64 :: "int list \<Rightarrow> int" where
  "firstNonZeroInt64 values = (case find (\<lambda>v. v > 0) values of Some v \<Rightarrow> v | None \<Rightarrow> 0)"

text \<open>A row of the answer by its columns; a later column replaces one of the same name.\<close>

definition columnText :: "string list \<Rightarrow> string option list \<Rightarrow> string \<Rightarrow> string" where
  "columnText columns values name =
     (case map_of (rev (zip (map (\<lambda>c. ToLower (TrimSpace c)) columns) values)) name of
        Some (Some v) \<Rightarrow> TrimSpace v | _ \<Rightarrow> [])"

definition binlogRow :: "string list \<Rightarrow> string option list \<Rightarrow> mysqlBinaryLogFile option" where
  "binlogRow columns values =
     (let name = firstNonEmpty [columnText columns values ''log_name'', columnText columns values ''file''];
          sizeRaw = firstNonEmpty [columnText columns values ''file_size'', columnText columns values ''size'']
      in if name \<noteq> [] then Some \<lparr>bfName = name, bfSize = ParseInt64 sizeRaw\<rparr> else None)"

definition scanMySQLBinaryLogs :: "(string list \<times> string option list list) option \<Rightarrow> mysqlBinaryLogFile list option" where
  "scanMySQLBinaryLogs answer =
     (case answer of None \<Rightarrow> None | Some (columns, rows) \<Rightarrow> Some (List.map_filter (binlogRow columns) rows))"

definition listMySQLBinaryLogs ::
  "file_env \<Rightarrow> DatabaseInstance \<Rightarrow> ConnectionCredential \<Rightarrow> file_error + mysqlBinaryLogFile list" where
  "listMySQLBinaryLogs env instance credential =
     (case feBinaryLogs env instance credential of
        Inl m \<Rightarrow> Inl (FileConnectFailed m)
      | Inr query \<Rightarrow>
          (case List.map_filter (\<lambda>q. case scanMySQLBinaryLogs (query q) of
                  Some logs \<Rightarrow> if logs \<noteq> [] then Some logs else None | None \<Rightarrow> None)
                [''SHOW BINARY LOGS'', ''SHOW MASTER LOGS''] of
             logs # _ \<Rightarrow> Inr logs | [] \<Rightarrow> Inl FileListUnreadable))"

text \<open>The index of the first file of a name.\<close>

fun indexOf :: "string \<Rightarrow> mysqlBinaryLogFile list \<Rightarrow> nat option" where
  "indexOf name [] = None"
| "indexOf name (f # fs) = (if bfName f = name then Some 0 else map_option Suc (indexOf name fs))"

definition selectionAt :: "mysqlBinaryLogFile list \<Rightarrow> nat \<Rightarrow> mysqlBinlogArchiveSelection" where
  "selectionAt logs i =
     \<lparr>bsFileName = bfName (logs ! i), bsFileSize = bfSize (logs ! i),
      bsPrevious = (if i > 0 then bfName (logs ! (i - 1)) else []),
      bsNext = (if i + 1 < length logs then bfName (logs ! (i + 1)) else [])\<rparr>"

definition selectMySQLBinlogForArchive ::
  "mysqlBinaryLogFile list \<Rightarrow> string \<Rightarrow> string \<Rightarrow> file_error + mysqlBinlogArchiveSelection" where
  "selectMySQLBinlogForArchive logs requestedFile lastArchived =
     (if logs = [] then Inl NoBinlogs
      else let requestedFile = TrimSpace requestedFile; lastArchived = TrimSpace lastArchived in
      if requestedFile \<noteq> [] \<and> \<not> isSafeRunnerFileName requestedFile then Inl BinlogNameInvalid
      else if requestedFile \<noteq> [] then
        (case indexOf requestedFile logs of None \<Rightarrow> Inl BinlogNotListed | Some i \<Rightarrow> Inr (selectionAt logs i))
      else if lastArchived \<noteq> [] then
        (case indexOf lastArchived logs of
           None \<Rightarrow> Inr (selectionAt logs (length logs - 1))
         | Some i \<Rightarrow> Inr (selectionAt logs (if i + 1 < length logs then i + 1 else i)))
      else Inr (selectionAt logs (length logs - 1)))"

definition clampFiles :: "int \<Rightarrow> nat" where
  "clampFiles maxFiles = (if maxFiles \<le> 0 then 5 else if maxFiles > 20 then 20 else nat maxFiles)"

definition selectMySQLBinlogsForCatchUp ::
  "mysqlBinaryLogFile list \<Rightarrow> string \<Rightarrow> int \<Rightarrow> bool \<Rightarrow> file_error + mysqlBinlogArchiveSelection list" where
  "selectMySQLBinlogsForCatchUp logs lastArchived maxFiles includeCurrent =
     (if logs = [] then Inl NoBinlogs
      else let lastArchived = TrimSpace lastArchived in
      case (if lastArchived \<noteq> [] then map_option Suc (indexOf lastArchived logs) else Some 0) of
        None \<Rightarrow> Inl (LastArchivedGone lastArchived)
      | Some start \<Rightarrow>
          let stop = (if \<not> includeCurrent then length logs - 1 else length logs) in
          if start \<ge> stop then Inl (if includeCurrent then NothingToCatchUp else NothingRotated)
          else let stop = (if stop - start > clampFiles maxFiles then start + clampFiles maxFiles else stop)
               in Inr (map (selectionAt logs) [start..<stop]))"

section \<open>The script\<close>

definition shellSingleQuote :: "string \<Rightarrow> string" where
  "shellSingleQuote value = SQ # concat (map (\<lambda>c. if c = SQ then [SQ, BSL, SQ, SQ] else [c]) value) @ [SQ]"

definition buildMySQLBinlogArchiveOnceScript ::
  "string \<Rightarrow> string \<Rightarrow> nat \<Rightarrow> DatabaseInstance \<Rightarrow> ConnectionCredential \<Rightarrow> string \<Rightarrow> string list \<Rightarrow> script_error + archive_script" where
  "buildMySQLBinlogArchiveOnceScript workDir mountPath streamID instance credential binlogFile binlogFiles =
     (let files = (if binlogFiles = [] \<and> TrimSpace binlogFile \<noteq> [] then [TrimSpace binlogFile] else binlogFiles);
          files' = map TrimSpace files;
          workDir = (if TrimSpace workDir = [] then ''/var/lib/opshub/database-runner'' else TrimSpace workDir) in
      if files = [] then Inl FileNamesEmpty
      else if \<not> list_all (\<lambda>f. f \<noteq> [] \<and> isSafeRunnerFileName f) files' then Inl FileNameInvalid
      else if TrimSpace (iHost instance) = [] \<or> iPort instance \<le> 0 then Inl AddressIncomplete
      else if TrimSpace (Username credential) = [] then Inl UserEmpty
      else if Password credential = [] then Inl PasswordEmpty
      else Inr \<lparr>asWorkDir = shellSingleQuote workDir,
                asDestRoot = shellSingleQuote (if TrimSpace mountPath = [] then workDir else TrimSpace mountPath),
                asStreamID = streamID, asBinlogFile = shellSingleQuote binlogFile,
                asUser = shellSingleQuote (Username credential), asPassword = shellSingleQuote (Password credential),
                asHost = shellSingleQuote (iHost instance), asPort = shellSingleQuote (Itoa (iPort instance)),
                asFiles = map shellSingleQuote files'\<rparr>)"

section \<open>The output\<close>

definition Cut :: "string \<Rightarrow> rune \<Rightarrow> (string \<times> string) option" where
  "Cut s sep = (if sep \<in> set s then Some (takeWhile (\<lambda>c. c \<noteq> sep) s, tl (dropWhile (\<lambda>c. c \<noteq> sep) s)) else None)"

type_synonym output_values = "(string \<times> string) list"

text \<open>A line changes the finished blocks, the values read since and whether a block is open; newer values stand in front.\<close>

definition outputLine ::
  "string \<Rightarrow> output_values list \<times> output_values \<times> bool \<Rightarrow> output_values list \<times> output_values \<times> bool" where
  "outputLine line st =
     (case st of (blocks, current, inBlock) \<Rightarrow>
      case Cut (TrimRight line CR) CHR ''='' of
        None \<Rightarrow> st
      | Some (key, value) \<Rightarrow>
          let key = TrimSpace key; value = TrimSpace value in
          if key = ''OPSHUB_BINLOG_BEGIN'' then (blocks, [(''OPSHUB_BINLOG_FILE'', value)], True)
          else if key = ''OPSHUB_BINLOG_END'' then (if inBlock then (blocks @ [current], [], False) else st)
          else if HasPrefix key ''OPSHUB_'' then (blocks, (key, value) # current, inBlock)
          else st)"

definition textOf :: "output_values \<Rightarrow> string \<Rightarrow> string" where
  "textOf values key = (case map_of values key of Some v \<Rightarrow> v | None \<Rightarrow> [])"

definition mysqlBinlogArchiveOutputFromValues :: "output_values \<Rightarrow> mysqlBinlogArchiveOutput" where
  "mysqlBinlogArchiveOutputFromValues values =
     \<lparr>boFileName = textOf values ''OPSHUB_BINLOG_FILE'', boStoragePath = textOf values ''OPSHUB_STORAGE_PATH'', boStorageURI = [],
      boFileSize = ParseInt64 (textOf values ''OPSHUB_FILE_SIZE''), boChecksumSHA256 = textOf values ''OPSHUB_SHA256'',
      boFirstEventLine = textOf values ''OPSHUB_FIRST_EVENT_LINE'', boLastEventLine = textOf values ''OPSHUB_LAST_EVENT_LINE''\<rparr>"

definition parseMySQLBinlogArchiveOutputs :: "string \<Rightarrow> mysqlBinlogArchiveOutput list" where
  "parseMySQLBinlogArchiveOutputs stdout =
     (case fold outputLine (splitLines stdout) ([], [], False) of
        (blocks, current, _) \<Rightarrow>
          map mysqlBinlogArchiveOutputFromValues (if blocks = [] \<and> current \<noteq> [] then [current] else blocks))"

definition parseMySQLBinlogArchiveOutput :: "string \<Rightarrow> mysqlBinlogArchiveOutput" where
  "parseMySQLBinlogArchiveOutput stdout =
     (case parseMySQLBinlogArchiveOutputs stdout of
        output # _ \<Rightarrow> output | [] \<Rightarrow> mysqlBinlogArchiveOutputFromValues [])"

text \<open>The pattern of the time of an event: a hash, six digits, a time of day, and \<open>server id\<close>.\<close>

definition twoDigits :: "string \<Rightarrow> (int \<times> string) option" where
  "twoDigits s = (case s of a # b # rest \<Rightarrow>
       if IsDigit a \<and> IsDigit b then Some (int (rune_code a - 48) * 10 + int (rune_code b - 48), rest) else None
     | _ \<Rightarrow> None)"

definition hourDigits :: "string \<Rightarrow> (int \<times> string) option" where
  "hourDigits s =
     (case twoDigits s of
        Some r \<Rightarrow> Some r
      | None \<Rightarrow> (case s of a # rest \<Rightarrow> if IsDigit a then Some (int (rune_code a - 48), rest) else None | [] \<Rightarrow> None))"

definition skipRune :: "rune \<Rightarrow> string \<Rightarrow> string option" where
  "skipRune c s = (case s of d # rest \<Rightarrow> if d = c then Some rest else None | [] \<Rightarrow> None)"

definition skipBlanks :: "string \<Rightarrow> string option" where
  "skipBlanks s = (let blank = \<lambda>c. c \<in> set [SP, CHR 0x09, LF, CHR 0x0C, CR] in
     case s of c # _ \<Rightarrow> if blank c then Some (dropWhile blank s) else None | [] \<Rightarrow> None)"

definition matchEventLine :: "string \<Rightarrow> (int \<times> int \<times> int \<times> int \<times> int \<times> int) option" where
  "matchEventLine s =
     Option.bind (skipRune CHR ''#'' s) (\<lambda>s. Option.bind (twoDigits s) (\<lambda>(yy, s). Option.bind (twoDigits s) (\<lambda>(month, s).
     Option.bind (twoDigits s) (\<lambda>(day, s). Option.bind (skipBlanks s) (\<lambda>s. Option.bind (hourDigits s) (\<lambda>(hour, s).
     Option.bind (skipRune CHR '':'' s) (\<lambda>s. Option.bind (twoDigits s) (\<lambda>(minute, s).
     Option.bind (skipRune CHR '':'' s) (\<lambda>s. Option.bind (twoDigits s) (\<lambda>(second, s).
     Option.bind (skipBlanks s) (\<lambda>s. if HasPrefix s ''server id'' then Some (yy, month, day, hour, minute, second) else None)))))))))))"

definition parseMySQLBinlogEventTime :: "file_env \<Rightarrow> string \<Rightarrow> gotime option" where
  "parseMySQLBinlogEventTime env line =
     map_option (\<lambda>(yy, month, day, hour, minute, second).
         feDate env (if yy \<ge> 70 then 1900 + yy else 2000 + yy, month, day, hour, minute, second))
       (matchEventLine (TrimSpace line))"

section \<open>Starting a run\<close>

definition fileHost :: "file_world \<Rightarrow> nat \<Rightarrow> DatabaseRunnerHost option" where
  "fileHost w i = hostByID (fwArchive w) i"

definition sourceOf :: "DatabaseLogArchiveStream \<Rightarrow> nat" where
  "sourceOf stream = (if lsSourceInstanceID stream = 0 then lsInstanceID stream else lsSourceInstanceID stream)"

text \<open>The checks both requests begin with; the files of the server are read last. The request is none when it is nil.\<close>

definition archiveRunChecks ::
  "file_env \<Rightarrow> file_world \<Rightarrow> nat \<Rightarrow> nat option
   \<Rightarrow> file_error + DatabaseLogArchiveStream \<times> DatabaseRunnerHost \<times> mysqlBinaryLogFile list" where
  "archiveRunChecks env w streamID hostID =
     (if \<not> feRepos env then Inl FilesUnconfigured
      else if streamID = 0 then Inl FileStreamIDEmpty
      else if hostID = None \<or> hostID = Some 0 then Inl FileRunnerNotChosen
      else case streamByID (fwArchive w) streamID of
        None \<Rightarrow> Inl FileStreamMissing
      | Some stream \<Rightarrow>
      if \<not> lsEnabled stream \<or> lsStatus stream = StreamDisabledS then Inl FileStreamDisabled
      else if normalizeArchiveType (lsArchiveType stream) \<noteq> ArchiveTypeBinlog then Inl FileBinlogOnly
      else case feInstances env (sourceOf stream) of
        None \<Rightarrow> Inl FileSourceMissing
      | Some instance \<Rightarrow>
      if normalizeDBType (iDBType instance) \<notin> set [DBTypeMySQL, DBTypeMariaDB]
      then Inl (FileEngineUnsupported (DBTypeText (iDBType instance)))
      else case fileHost w (the hostID) of
        None \<Rightarrow> Inl FileHostMissing
      | Some host \<Rightarrow>
      if \<not> rhEnabled host \<or> rhStatus host = HostDisabled then Inl FileHostDisabled
      else if rhRunnerType host \<noteq> ''ssh'' then Inl FileHostNotSSH
      else case feResolve env of
        None \<Rightarrow> Inl FileResolverMissing
      | Some resolve \<Rightarrow>
      (case resolve (iCredentialID instance) of
         Inl m \<Rightarrow> Inl (FileCredentialFailed m)
       | Inr credential \<Rightarrow>
           (case listMySQLBinaryLogs env instance credential of
              Inl e \<Rightarrow> Inl e
            | Inr logs \<Rightarrow> Inr (stream, host, logs))))"

definition queueArchiveJob ::
  "file_env \<Rightarrow> DatabaseLogArchiveStream \<Rightarrow> DatabaseRunnerHost \<Rightarrow> string list \<Rightarrow> nat \<times> string \<Rightarrow> file_world
   \<Rightarrow> (file_error + archive_job) \<times> file_world" where
  "queueArchiveJob env stream host files operator w =
     (let job = \<lparr>ajID = Suc (fold max (map ajID (fwJobs w)) 0), ajRunnerHostID = rhID host, ajRunnerID = runnerIDForHost host,
                 ajSourceInstanceID = sourceOf stream, ajStatus = ''queued'', ajFiles = files, ajWorkDir = rhWorkDir host,
                 ajOperatorID = fst operator, ajOperatorName = trimText (snd operator) 120, ajExitCode = 0,
                 ajErrorMessage = Plain [], ajStartedAt = None, ajHeartbeatAt = None, ajFinishedAt = None, ajDurationMs = 0\<rparr>
      in case feJobErr env job of
           Some m \<Rightarrow> (Inl (FileJobFailed m), w) | None \<Rightarrow> (Inr job, w\<lparr>fwJobs := fwJobs w @ [job]\<rparr>))"

definition RunLogArchiveOnce ::
  "file_env \<Rightarrow> nat \<Rightarrow> (nat \<times> string) option \<Rightarrow> nat \<times> string \<Rightarrow> file_world
   \<Rightarrow> (file_error + archive_job \<times> mysqlBinlogArchiveSelection) \<times> file_world" where
  "RunLogArchiveOnce env streamID req operator w =
     (case archiveRunChecks env w streamID (map_option fst req) of
        Inl e \<Rightarrow> (Inl e, w)
      | Inr (stream, host, logs) \<Rightarrow>
          (case selectMySQLBinlogForArchive logs (snd (the req)) (lsLastArchiveName stream) of
             Inl e \<Rightarrow> (Inl e, w)
           | Inr selection \<Rightarrow>
               (case queueArchiveJob env stream host [bsFileName selection] operator w of
                  (Inl e, w) \<Rightarrow> (Inl e, w) | (Inr job, w) \<Rightarrow> (Inr (job, selection), w))))"

record DatabaseRunLogArchiveCatchUpRequest =
  rcRunnerHostID :: nat
  rcMaxFiles :: int
  rcIncludeCurrent :: bool

definition RunLogArchiveCatchUp ::
  "file_env \<Rightarrow> nat \<Rightarrow> DatabaseRunLogArchiveCatchUpRequest option \<Rightarrow> nat \<times> string \<Rightarrow> file_world
   \<Rightarrow> (file_error + archive_job \<times> mysqlBinlogArchiveSelection list) \<times> file_world" where
  "RunLogArchiveCatchUp env streamID req operator w =
     (case archiveRunChecks env w streamID (map_option rcRunnerHostID req) of
        Inl e \<Rightarrow> (Inl e, w)
      | Inr (stream, host, logs) \<Rightarrow>
          (case selectMySQLBinlogsForCatchUp logs (lsLastArchiveName stream) (rcMaxFiles (the req)) (rcIncludeCurrent (the req)) of
             Inl e \<Rightarrow> (Inl e, w)
           | Inr selections \<Rightarrow>
               (case queueArchiveJob env stream host (map bsFileName selections) operator w of
                  (Inl e, w) \<Rightarrow> (Inl e, w) | (Inr job, w) \<Rightarrow> (Inr (job, selections), w))))"

section \<open>The run\<close>

definition milliseconds :: "gotime \<Rightarrow> int" where
  "milliseconds d = (if d < 0 then - (- d div 10 ^ 6) else d div 10 ^ 6)"

text \<open>Saving a row; an error is dropped.\<close>

definition updateArchiveJob :: "file_env \<Rightarrow> archive_job \<Rightarrow> file_world \<Rightarrow> file_world" where
  "updateArchiveJob env job w =
     (if feJobUpdateErr env job then w
      else w\<lparr>fwJobs := map (\<lambda>r. if ajID r = ajID job then job else r) (fwJobs w)\<rparr>)"

definition updateFileStream :: "file_env \<Rightarrow> DatabaseLogArchiveStream \<Rightarrow> file_world \<Rightarrow> file_world" where
  "updateFileStream env stream w =
     (if feStreamUpdateErr env stream then w else w\<lparr>fwArchive := saveStream stream (fwArchive w)\<rparr>)"

definition applyBinlogArchiveFailure ::
  "gotime \<Rightarrow> gotime \<Rightarrow> int \<Rightarrow> archive_text \<Rightarrow> DatabaseLogArchiveStream \<times> archive_job \<Rightarrow> DatabaseLogArchiveStream \<times> archive_job" where
  "applyBinlogArchiveFailure started finished exitCode err rows =
     (case rows of (stream, job) \<Rightarrow>
       (stream\<lparr>lsStatus := StreamDegradedS, lsDaemonStatus := DaemonDegraded,
          lsConsecutiveFailures := lsConsecutiveFailures stream + 1, lsLastError := err\<rparr>,
        job\<lparr>ajStatus := ''failed'', ajExitCode := exitCode, ajErrorMessage := err, ajFinishedAt := Some finished,
          ajDurationMs := milliseconds (finished - started), ajHeartbeatAt := Some finished\<rparr>))"

definition failBinlogArchiveJob ::
  "file_env \<Rightarrow> gotime \<Rightarrow> archive_text \<Rightarrow> DatabaseLogArchiveStream \<Rightarrow> archive_job \<Rightarrow> file_world \<Rightarrow> file_world" where
  "failBinlogArchiveJob env now err stream job w =
     updateFileStream env (stream\<lparr>lsStatus := StreamDegradedS, lsDaemonStatus := DaemonDegraded,
         lsConsecutiveFailures := lsConsecutiveFailures stream + 1, lsLastError := err\<rparr>)
       (updateArchiveJob env (job\<lparr>ajStatus := ''failed'', ajExitCode := 1, ajErrorMessage := err, ajFinishedAt := Some now,
          ajHeartbeatAt := Some now\<rparr>) w)"

text \<open>What a run carries along from its begin to the answer of the runner.\<close>

record archive_run =
  arStream :: DatabaseLogArchiveStream
  arHost :: DatabaseRunnerHost
  arJob :: archive_job
  arInstance :: DatabaseInstance
  arCredential :: ConnectionCredential
  arStarted :: gotime

definition failRun :: "file_env \<Rightarrow> archive_run \<Rightarrow> gotime \<Rightarrow> int \<Rightarrow> archive_text \<Rightarrow> file_world \<Rightarrow> file_world" where
  "failRun env run finished exitCode err w =
     (case applyBinlogArchiveFailure (arStarted run) finished exitCode err (arStream run, arJob run) of
        (stream, job) \<Rightarrow> updateFileStream env stream (updateArchiveJob env job w))"

definition prepareArchive ::
  "file_env \<Rightarrow> gotime \<Rightarrow> nat \<Rightarrow> nat \<Rightarrow> nat \<Rightarrow> bool \<Rightarrow> file_world \<Rightarrow> archive_run option \<times> file_world" where
  "prepareArchive env now streamID hostID jobID nothing w =
     (if \<not> feRepos env \<or> \<not> feFileRepo env then (None, w)
      else case (streamByID (fwArchive w) streamID, fileHost w hostID, find (\<lambda>j. ajID j = jobID) (fwJobs w)) of
        (Some stream, Some host, Some job) \<Rightarrow>
          if nothing then (None, failBinlogArchiveJob env now NothingToArchive stream job w)
          else (case feInstances env (sourceOf stream) of
            None \<Rightarrow> (None, failBinlogArchiveJob env now SourceGone stream job w)
          | Some instance \<Rightarrow>
            (case the (feResolve env) (iCredentialID instance) of
               Inl m \<Rightarrow> (None, failBinlogArchiveJob env now (SourceCredentialFailed m) stream job w)
             | Inr credential \<Rightarrow>
               (case the (feResolve env) (rhCredentialID host) of
                  Inl m \<Rightarrow> (None, failBinlogArchiveJob env now (RunnerCredentialFailed m) stream job w)
                | Inr _ \<Rightarrow>
                    let job = job\<lparr>ajStatus := ''running'', ajStartedAt := Some now, ajHeartbeatAt := Some now\<rparr>
                    in (Some \<lparr>arStream = stream, arHost = host, arJob = job, arInstance = instance,
                              arCredential = credential, arStarted = now\<rparr>, updateArchiveJob env job w))))
      | _ \<Rightarrow> (None, w))"

definition runScript :: "file_env \<Rightarrow> archive_run \<Rightarrow> string \<Rightarrow> string list \<Rightarrow> script_error + archive_script" where
  "runScript env run binlogFile binlogFiles =
     buildMySQLBinlogArchiveOnceScript (rhWorkDir (arHost run)) (feMountPath env (rhID (arHost run))) (lsID (arStream run))
       (arInstance run) (arCredential run) binlogFile binlogFiles"

text \<open>The job with what the runner answered.\<close>

definition answered :: "archive_run \<Rightarrow> gotime \<Rightarrow> runner_answer \<Rightarrow> archive_run" where
  "answered run finished answer =
     run\<lparr>arJob := (arJob run)\<lparr>ajExitCode := raExitCode answer, ajFinishedAt := Some finished,
       ajDurationMs := milliseconds (finished - arStarted run), ajHeartbeatAt := Some finished\<rparr>\<rparr>"

definition eventTimes :: "file_env \<Rightarrow> archive_run \<Rightarrow> gotime \<Rightarrow> mysqlBinlogArchiveOutput \<Rightarrow> gotime \<times> gotime" where
  "eventTimes env run finished output =
     (let firstEvent = (case parseMySQLBinlogEventTime env (boFirstEventLine output) of Some t \<Rightarrow> t | None \<Rightarrow> arStarted run);
          lastEvent = (case parseMySQLBinlogEventTime env (boLastEventLine output) of Some t \<Rightarrow> t | None \<Rightarrow> finished)
      in (firstEvent, if lastEvent < firstEvent then firstEvent else lastEvent))"

definition runnerURI :: "DatabaseRunnerHost \<Rightarrow> string \<Rightarrow> string" where
  "runnerURI host path = ''runner://runner-host-'' @ Itoa (int (rhID host)) @ path"

definition archiveRow ::
  "file_env \<Rightarrow> archive_run \<Rightarrow> gotime \<Rightarrow> mysqlBinlogArchiveSelection \<Rightarrow> mysqlBinlogArchiveOutput \<Rightarrow> string \<Rightarrow> nat \<Rightarrow> archived_file" where
  "archiveRow env run finished selection output fileName i =
     (let stream = arStream run; (firstEvent, lastEvent) = eventTimes env run finished output in
      \<lparr>laID = i, laStreamID = lsID stream, laInstanceID = lsInstanceID stream, laArchiveType = ArchiveTypeBinlog,
       laFileName = fileName, laPreviousFileName = bsPrevious selection, laNextFileName = bsNext selection,
       laStartGTIDSet = [], laEndGTIDSet = [], laStatus = ''archived'', laFirstEventTime = Some firstEvent,
       laLastEventTime = Some lastEvent, laFileSize = boFileSize output, laPostgreSQL = no_pg_log,
       laSourceInstanceID = sourceOf stream,
       laStorageURI = (if boStorageURI output = []
                       then runnerURI (arHost run) (''/binlog/stream-'' @ Itoa (int (lsID stream)) @ ''/'' @ fileName)
                       else boStorageURI output),
       laChecksumSHA256 = boChecksumSHA256 output, laArchivedAt = Some finished, laStartPos = 4,
       laEndPos = firstNonZeroInt64 [bsFileSize selection, boFileSize output]\<rparr>)"

definition createArchive :: "file_env \<Rightarrow> archived_file \<Rightarrow> file_world \<Rightarrow> string + archived_file \<times> file_world" where
  "createArchive env row w =
     (let row = row\<lparr>laID := Suc (fold max (map laID (fwFiles w)) 0)\<rparr> in
      case feFileErr env row of Some m \<Rightarrow> Inl m | None \<Rightarrow> Inr (row, w\<lparr>fwFiles := fwFiles w @ [row]\<rparr>))"

text \<open>The output with the size of the listing when it has none, and the place where the runner put the file.\<close>

definition storedOutput :: "archive_run \<Rightarrow> mysqlBinlogArchiveOutput \<Rightarrow> mysqlBinlogArchiveOutput" where
  "storedOutput run output =
     (if boStoragePath output \<noteq> [] then output\<lparr>boStorageURI := runnerURI (arHost run) (boStoragePath output)\<rparr> else output)"

definition sizedOutput :: "mysqlBinlogArchiveSelection \<Rightarrow> mysqlBinlogArchiveOutput \<Rightarrow> mysqlBinlogArchiveOutput" where
  "sizedOutput selection output =
     (if boFileSize output = 0 then output\<lparr>boFileSize := bsFileSize selection\<rparr> else output)"

definition succeedRun ::
  "file_env \<Rightarrow> archive_run \<Rightarrow> gotime \<Rightarrow> string \<Rightarrow> int \<Rightarrow> gotime \<Rightarrow> file_world \<Rightarrow> file_world" where
  "succeedRun env run finished fileName pos lastEvent w =
     updateFileStream env ((arStream run)\<lparr>lsStatus := StreamRunningS, lsLastError := Plain [], lsLastArchiveName := fileName,
         lsCursorFile := fileName, lsCursorPos := pos, lsLastEventTime := Some lastEvent, lsLastHeartbeatAt := Some finished,
         lsConsecutiveFailures := 0, lsArchiveLagSeconds := 0\<rparr>)
       (updateArchiveJob env ((arJob run)\<lparr>ajStatus := ''success'', ajErrorMessage := Plain []\<rparr>) w)"

definition finishOnce ::
  "file_env \<Rightarrow> archive_run \<Rightarrow> gotime \<Rightarrow> mysqlBinlogArchiveSelection \<Rightarrow> runner_answer \<Rightarrow> file_world \<Rightarrow> file_world" where
  "finishOnce env run finished selection answer w =
     (let output = storedOutput run (sizedOutput selection (parseMySQLBinlogArchiveOutput (raStdout answer)));
          run = answered run finished answer in
      case raError answer of
        Some m \<Rightarrow> failRun env run finished (raExitCode answer) (Plain (trimText m 1000)) w
      | None \<Rightarrow>
          (case createArchive env (archiveRow env run finished selection output (bsFileName selection) 0) w of
             Inl m \<Rightarrow> failRun env run finished 1 (RegisterFailed m) w
           | Inr (row, w) \<Rightarrow>
               succeedRun env run finished (bsFileName selection) (laEndPos row) (the (laLastEventTime row)) w))"

fun registerLoop ::
  "file_env \<Rightarrow> archive_run \<Rightarrow> gotime \<Rightarrow> mysqlBinlogArchiveSelection list \<Rightarrow> mysqlBinlogArchiveOutput list \<Rightarrow> file_world
   \<Rightarrow> archive_text option \<times> file_world" where
  "registerLoop env run finished selections [] w = (None, w)"
| "registerLoop env run finished selections (output # outputs) w =
     (case find (\<lambda>s. bsFileName s = boFileName output) (rev selections) of
        None \<Rightarrow> (Some (NotRequested (boFileName output)), w)
      | Some selection \<Rightarrow>
          (case createArchive env (archiveRow env run finished selection (sizedOutput selection output) (boFileName output) 0) w of
             Inl m \<Rightarrow> (Some (RegisterFailed m), w)
           | Inr (_, w) \<Rightarrow> registerLoop env run finished selections outputs w))"

definition finishCatchUp ::
  "file_env \<Rightarrow> archive_run \<Rightarrow> gotime \<Rightarrow> mysqlBinlogArchiveSelection list \<Rightarrow> runner_answer \<Rightarrow> file_world \<Rightarrow> file_world" where
  "finishCatchUp env run finished selections answer w =
     (let outputs = map (storedOutput run) (parseMySQLBinlogArchiveOutputs (raStdout answer));
          run = answered run finished answer in
      case raError answer of
        Some m \<Rightarrow> failRun env run finished (raExitCode answer) (Plain (trimText m 1000)) w
      | None \<Rightarrow>
      if length outputs \<noteq> length selections then failRun env run finished 1 OutputCount w
      else case registerLoop env run finished selections outputs w of
        (Some err, w) \<Rightarrow> failRun env run finished 1 err w
      | (None, w) \<Rightarrow>
          succeedRun env run finished (bsFileName (last selections)) (firstNonZeroInt64 [bsFileSize (last selections), 0]) finished w)"

text \<open>The background functions as a whole: \<open>runner\<close> answers a script, \<open>meanwhile\<close> is what other requests do until then.\<close>

definition executeBinlogArchiveOnce ::
  "file_env \<Rightarrow> gotime \<Rightarrow> gotime \<Rightarrow> (archive_script \<Rightarrow> runner_answer) \<Rightarrow> (file_world \<Rightarrow> file_world) \<Rightarrow> nat \<Rightarrow> nat \<Rightarrow> nat
   \<Rightarrow> mysqlBinlogArchiveSelection \<Rightarrow> file_world \<Rightarrow> file_world" where
  "executeBinlogArchiveOnce env started finished runner meanwhile streamID hostID jobID selection w =
     (case prepareArchive env started streamID hostID jobID False w of
        (None, w) \<Rightarrow> w
      | (Some run, w) \<Rightarrow>
          (case runScript env run (bsFileName selection) [] of
             Inl e \<Rightarrow> failRun env run finished 1 (ScriptRefused e) w
           | Inr script \<Rightarrow> finishOnce env run finished selection (runner script) (meanwhile w)))"

definition executeBinlogArchiveCatchUp ::
  "file_env \<Rightarrow> gotime \<Rightarrow> gotime \<Rightarrow> (archive_script \<Rightarrow> runner_answer) \<Rightarrow> (file_world \<Rightarrow> file_world) \<Rightarrow> nat \<Rightarrow> nat \<Rightarrow> nat
   \<Rightarrow> mysqlBinlogArchiveSelection list \<Rightarrow> file_world \<Rightarrow> file_world" where
  "executeBinlogArchiveCatchUp env started finished runner meanwhile streamID hostID jobID selections w =
     (case prepareArchive env started streamID hostID jobID (selections = []) w of
        (None, w) \<Rightarrow> w
      | (Some run, w) \<Rightarrow>
          (case runScript env run [] (map bsFileName selections) of
             Inl e \<Rightarrow> failRun env run finished 1 (ScriptRefused e) w
           | Inr script \<Rightarrow> finishCatchUp env run finished selections (runner script) (meanwhile w)))"

end
