(* ===== verification/Files_Props.thy ===== *)
theory Files_Props
  imports Log_Files Log_Props Purge_Props "HOL-Library.Code_Target_Nat"
begin

text \<open>
  What the runs that catch up with the binary logs of a server leave in the archive: files without a gap, which the chain
  check of a purge accepts; that the shell reads the words of the script as they were meant, and the program the output as
  it was printed; and where a run loses events.
\<close>

section \<open>Words of the shell\<close>

text \<open>How a POSIX shell reads a word of quoted parts and escaped runes; anything else is no such word.\<close>

fun shell_read :: "bool \<Rightarrow> string \<Rightarrow> string option" where
  "shell_read True [] = None"
| "shell_read True (c # s) = (if c = SQ then shell_read False s else map_option (Cons c) (shell_read True s))"
| "shell_read False [] = Some []"
| "shell_read False (c # s) =
     (if c = SQ then shell_read True s
      else if c = BSL then (case s of [] \<Rightarrow> None | d # s \<Rightarrow> map_option (Cons d) (shell_read False s))
      else None)"

lemma read_quoted:
  "shell_read True (concat (map (\<lambda>c. if c = SQ then [SQ, BSL, SQ, SQ] else [c]) value) @ SQ # rest)
   = map_option (append value) (shell_read False rest)"
  by (induction "value") (auto simp: option.map_comp o_def option.map_ident)

lemma quoted_word [simp]: "shell_read False (shellSingleQuote value) = Some value"
  using read_quoted [of "value" "[]"] by (simp add: shellSingleQuote_def)

lemma script_files:
  "buildMySQLBinlogArchiveOnceScript workDir mountPath streamID instance credential f fs = Inr script \<Longrightarrow> fs \<noteq> [] \<Longrightarrow>
   map (shell_read False) (asFiles script) = map Some (map TrimSpace fs)"
  by (auto simp: buildMySQLBinlogArchiveOnceScript_def Let_def split: if_splits)


section \<open>The output of the script\<close>

record printed_file =
  pfName :: string
  pfPath :: string
  pfSize :: string
  pfSha :: string
  pfFirst :: string
  pfLast :: string

definition printed_lines :: "printed_file \<Rightarrow> (string \<times> string) list" where
  "printed_lines p =
     [(''OPSHUB_BINLOG_BEGIN'', pfName p), (''OPSHUB_BINLOG_FILE'', pfName p), (''OPSHUB_STORAGE_PATH'', pfPath p),
      (''OPSHUB_FILE_SIZE'', pfSize p), (''OPSHUB_SHA256'', pfSha p), (''OPSHUB_FIRST_EVENT_LINE'', pfFirst p),
      (''OPSHUB_LAST_EVENT_LINE'', pfLast p), (''OPSHUB_BINLOG_END'', pfName p)]"

text \<open>What the loop of the script prints for some files.\<close>

definition printed :: "printed_file list \<Rightarrow> string" where
  "printed ps = concat (map (\<lambda>(k, v). k @ CHR ''='' # v @ [LF]) (concat (map printed_lines ps)))"

definition one_line :: "string \<Rightarrow> bool" where
  "one_line v \<longleftrightarrow> LF \<notin> set v \<and> trimmed_text v"

definition printable :: "printed_file \<Rightarrow> bool" where
  "printable p \<longleftrightarrow> list_all one_line [pfName p, pfPath p, pfSize p, pfSha p, pfFirst p, pfLast p]"

lemma lines_of: "LF \<notin> set l \<Longrightarrow> splitLines (l @ LF # rest) = l # splitLines rest"
  by (induction l) auto

lemma read_line:
  assumes "one_line v" "CHR ''='' \<notin> set k"
  shows "Cut (TrimRight (k @ CHR ''='' # v) CR) CHR ''='' = Some (k, v)"
proof -
  have "TrimRight (k @ CHR ''='' # v) CR = k @ CHR ''='' # v"
  proof (cases "v = []")
    case False
    have "IsSpace CR" by code_simp
    then have "last v \<noteq> CR" using assms(1) False by (auto simp: one_line_def trimmed_text_def)
    then obtain c w where "rev v = c # w" "c \<noteq> CR" using False by (cases "rev v") (auto simp: last_rev hd_rev)
    then show ?thesis by (simp add: TrimRight_def)
  qed (simp add: TrimRight_def)
  then show ?thesis using assms(2) by (simp add: Cut_def takeWhile_append dropWhile_append)
qed


definition output_keys :: "string list" where
  "output_keys = [''OPSHUB_BINLOG_BEGIN'', ''OPSHUB_BINLOG_FILE'', ''OPSHUB_STORAGE_PATH'', ''OPSHUB_FILE_SIZE'', ''OPSHUB_SHA256'',
     ''OPSHUB_FIRST_EVENT_LINE'', ''OPSHUB_LAST_EVENT_LINE'', ''OPSHUB_BINLOG_END'']"

lemma plain_keys: "list_all (\<lambda>k. CHR ''='' \<notin> set k \<and> TrimSpace k = k \<and> HasPrefix k ''OPSHUB_'') output_keys"
  by code_simp

definition keyLine :: "string \<Rightarrow> string \<Rightarrow> output_values list \<times> output_values \<times> bool \<Rightarrow> output_values list \<times> output_values \<times> bool" where
  "keyLine k v = outputLine (k @ CHR ''='' # v)"

definition read_values :: "printed_file \<Rightarrow> output_values" where
  "read_values p = rev ((''OPSHUB_BINLOG_FILE'', pfName p) # butlast (tl (printed_lines p)))"

lemma lines_read:
  assumes "printable p"
  shows "fold (\<lambda>(k, v). keyLine k v) (printed_lines p) (blocks, current, False)
    = (blocks @ [read_values p], [], False)"
proof -
  have line: "keyLine k v (bs, cur, inb) =
      (if k = ''OPSHUB_BINLOG_BEGIN'' then (bs, [(''OPSHUB_BINLOG_FILE'', v)], True)
       else if k = ''OPSHUB_BINLOG_END'' then (if inb then (bs @ [cur], [], False) else (bs, cur, inb))
       else (bs, (k, v) # cur, inb))"
    if "one_line v" "k \<in> set output_keys" for k v bs cur inb
    using that plain_keys
    by (simp only: list_all_iff) (auto simp: keyLine_def outputLine_def read_line one_line_def TrimSpace_trimmed Let_def)
  have vs: "one_line (pfName p)" "one_line (pfPath p)" "one_line (pfSize p)" "one_line (pfSha p)" "one_line (pfFirst p)"
      "one_line (pfLast p)"
    using assms by (simp_all add: printable_def)
  show ?thesis by (simp add: printed_lines_def output_keys_def line vs read_values_def)
qed

lemma printed_outputs:
  assumes "list_all printable ps"
  shows "parseMySQLBinlogArchiveOutputs (printed ps) =
    map (\<lambda>p. \<lparr>boFileName = pfName p, boStoragePath = pfPath p, boStorageURI = [], boFileSize = ParseInt64 (pfSize p),
      boChecksumSHA256 = pfSha p, boFirstEventLine = pfFirst p, boLastEventLine = pfLast p\<rparr>) ps"
proof -
  have "LF \<notin> set k" if "k \<in> set output_keys" for k using that by (auto simp: output_keys_def)
  moreover have "\<forall>p\<in>set ps. \<forall>(k, v)\<in>set (printed_lines p). k \<in> set output_keys \<and> one_line v"
    using assms by (auto simp: list_all_iff printable_def printed_lines_def output_keys_def)
  ultimately have lines: "\<forall>(k, v)\<in>set (concat (map printed_lines ps)). LF \<notin> set (k @ CHR ''='' # v)"
    by (fastforce simp: one_line_def)
  have split: "splitLines (concat (map (\<lambda>(k, v). k @ CHR ''='' # v @ [LF]) kvs)) = map (\<lambda>(k, v). k @ CHR ''='' # v) kvs @ [[]]"
    if "\<forall>(k, v)\<in>set kvs. LF \<notin> set (k @ CHR ''='' # v)" for kvs
    using that
  proof (induction kvs)
    case (Cons kv kvs)
    then show ?case using lines_of [of "fst kv @ CHR ''='' # snd kv"] by (cases kv) auto
  qed simp
  have blocks: "fold (\<lambda>(k, v). keyLine k v) (concat (map printed_lines qs)) (bs, current, False)
      = (bs @ map read_values qs, if qs = [] then current else [], False)" if "list_all printable qs" for qs bs current
    using that by (induction qs arbitrary: bs current) (auto simp: lines_read)
  have "outputLine [] st = st" for st by (cases st) (simp add: outputLine_def TrimRight_def Cut_def)
  then have "fold outputLine (splitLines (printed ps)) ([], [], False)
      = fold (\<lambda>(k, v). keyLine k v) (concat (map printed_lines ps)) ([], [], False)"
    unfolding printed_def split [OF lines] by (simp add: fold_map o_def keyLine_def case_prod_beta')
  then have "parseMySQLBinlogArchiveOutputs (printed ps) = map mysqlBinlogArchiveOutputFromValues (map read_values ps)"
    by (simp add: parseMySQLBinlogArchiveOutputs_def blocks [OF assms])
  then show ?thesis
    by (simp add: o_def mysqlBinlogArchiveOutputFromValues_def read_values_def printed_lines_def textOf_def)
qed

text \<open>C32: The program reads back from the output of a script what the script printed: one result for each file, in their order,
  with its name, place, size, checksum and the lines of its first and last event; a run of a single file takes the first.\<close>

theorem printed_output_read_back:
  assumes "list_all printable (p # ps)"
  shows "parseMySQLBinlogArchiveOutputs (printed (p # ps)) =
      map (\<lambda>p. \<lparr>boFileName = pfName p, boStoragePath = pfPath p, boStorageURI = [], boFileSize = ParseInt64 (pfSize p),
        boChecksumSHA256 = pfSha p, boFirstEventLine = pfFirst p, boLastEventLine = pfLast p\<rparr>) (p # ps)
    \<and> parseMySQLBinlogArchiveOutput (printed (p # ps)) =
      \<lparr>boFileName = pfName p, boStoragePath = pfPath p, boStorageURI = [], boFileSize = ParseInt64 (pfSize p),
       boChecksumSHA256 = pfSha p, boFirstEventLine = pfFirst p, boLastEventLine = pfLast p\<rparr>"
  unfolding parseMySQLBinlogArchiveOutput_def printed_outputs [OF assms] by simp

section \<open>Files without a gap\<close>

text \<open>The names of all files that a server ever writes, in their order; at any time it lists a part without gaps.\<close>

definition next_in :: "string list \<Rightarrow> string \<Rightarrow> string \<Rightarrow> bool" where
  "next_in H f g \<longleftrightarrow> (\<exists>j. Suc j < length H \<and> H ! j = f \<and> H ! Suc j = g)"

definition listed :: "string list \<Rightarrow> mysqlBinaryLogFile list \<Rightarrow> bool" where
  "listed H logs \<longleftrightarrow> (\<exists>k m. map bfName logs = take m (drop k H))"

definition placed :: "string list \<Rightarrow> string \<Rightarrow> string \<Rightarrow> string \<Rightarrow> bool" where
  "placed H prev f next_file \<longleftrightarrow> f \<in> set H \<and> (prev = [] \<or> next_in H prev f) \<and> (next_file = [] \<or> next_in H f next_file)"

lemma next_unique: "distinct H \<Longrightarrow> next_in H f g \<Longrightarrow> next_in H f g' \<Longrightarrow> g = g'"
  and prev_unique: "distinct H \<Longrightarrow> next_in H f g \<Longrightarrow> next_in H f' g \<Longrightarrow> f = f'"
  by (auto simp: next_in_def distinct_conv_nth) (metis Suc_lessD nat.inject)+

lemma listed_nth:
  assumes "listed H logs"
  obtains k where "k + length logs \<le> length H" "\<And>i. i < length logs \<Longrightarrow> bfName (logs ! i) = H ! (k + i)"
proof -
  obtain k m where eq: "map bfName logs = take m (drop k H)" using assms by (auto simp: listed_def)
  show thesis
  proof (cases "logs = []")
    case False
    have len: "length logs \<le> length H - k" "length logs \<le> m" using arg_cong [OF eq, of length] by simp_all
    then have "k + length logs \<le> length H" using False by (cases logs) auto
    moreover have "bfName (logs ! i) = H ! (k + i)" if "i < length logs" for i
      using arg_cong [OF eq, of "\<lambda>xs. xs ! i"] that len calculation by simp
    ultimately show thesis by (rule that)
  qed (use that [of 0] in simp)
qed

lemma listed_next:
  assumes "listed H logs" "Suc i < length logs"
  shows "next_in H (bfName (logs ! i)) (bfName (logs ! Suc i))"
proof -
  obtain k where "k + length logs \<le> length H" "\<And>i. i < length logs \<Longrightarrow> bfName (logs ! i) = H ! (k + i)"
    using listed_nth [OF assms(1)] by metis
  then show ?thesis using assms(2) unfolding next_in_def by (intro exI [of _ "k + i"]) simp
qed

lemma listed_member: "listed H logs \<Longrightarrow> i < length logs \<Longrightarrow> bfName (logs ! i) \<in> set H"
  by (metis in_set_dropD in_set_takeD length_map listed_def nth_map nth_mem)

lemma listed_distinct: "listed H logs \<Longrightarrow> distinct H \<Longrightarrow> distinct (map bfName logs)"
  unfolding listed_def by (metis distinct_drop distinct_take)

lemma index_found: "indexOf f logs = Some i \<Longrightarrow> i < length logs \<and> bfName (logs ! i) = f"
  by (induction logs arbitrary: i) (auto split: if_splits)

lemma selection_placed:
  assumes "listed H logs" "i < length logs"
  shows "placed H (bsPrevious (selectionAt logs i)) (bsFileName (selectionAt logs i)) (bsNext (selectionAt logs i))"
  using assms listed_next [OF assms(1), of "i - 1"] listed_next [OF assms(1), of i] listed_member [OF assms]
  by (auto simp: placed_def selectionAt_def)

text \<open>What a run that catches up takes: at most twenty files, one after the other, the first of them the one after the file
  that was archived last.\<close>

lemma catch_up_selection:
  assumes "selectMySQLBinlogsForCatchUp logs lastArchived maxFiles includeCurrent = Inr sel" "listed H logs" "distinct H"
  shows "sel \<noteq> []" "length sel \<le> 20" "distinct (map bsFileName sel)"
    "successively (next_in H) ((if TrimSpace lastArchived = [] then [] else [TrimSpace lastArchived]) @ map bsFileName sel)"
    "\<forall>s\<in>set sel. placed H (bsPrevious s) (bsFileName s) (bsNext s)"
proof -
  let ?c = "clampFiles maxFiles" and ?all = "if \<not> includeCurrent then length logs - 1 else length logs"
  have c: "0 < ?c" "?c \<le> 20" by (auto simp: clampFiles_def)
  obtain start where st: "(if TrimSpace lastArchived \<noteq> [] then map_option Suc (indexOf (TrimSpace lastArchived) logs) else Some 0)
      = Some start"
    using assms(1) by (auto simp: selectMySQLBinlogsForCatchUp_def Let_def split: if_splits option.splits)
  define stop where "stop = (if ?all - start > ?c then start + ?c else ?all)"
  have sel: "sel = map (selectionAt logs) [start..<stop]" and all: "start < ?all"
    using assms(1) unfolding selectMySQLBinlogsForCatchUp_def Let_def st stop_def by (auto simp del: upt_Suc split: if_splits)
  have ord: "start < stop" "stop \<le> length logs" "stop \<le> start + ?c"
    using all c by (auto simp: stop_def split: if_splits)
  have start: "if TrimSpace lastArchived = [] then start = 0
      else \<exists>i. indexOf (TrimSpace lastArchived) logs = Some i \<and> start = Suc i"
    using st by (auto split: if_splits)
  have names: "map bsFileName sel = map (\<lambda>i. bfName (logs ! i)) [start..<stop]" unfolding sel by (simp add: selectionAt_def)
  show "sel \<noteq> []" "length sel \<le> 20" using sel ord c by auto
  have "distinct (map bfName logs)" using listed_distinct assms(2,3) by blast
  then show "distinct (map bsFileName sel)"
    unfolding names using ord by (auto simp: distinct_map inj_on_def distinct_conv_nth)
  show "\<forall>s\<in>set sel. placed H (bsPrevious s) (bsFileName s) (bsNext s)"
    using selection_placed [OF assms(2)] ord unfolding sel by auto
  have run: "successively (next_in H) (map (\<lambda>i. bfName (logs ! i)) [a..<b])" if "b \<le> length logs" for a b
    using that
  proof (induction b)
    case (Suc b)
    then show ?case
      using listed_next [OF assms(2), of "b - 1"]
      by (cases "a \<le> b"; cases "a = b") (auto simp: successively_append_iff last_map)
  qed simp
  show "successively (next_in H) ((if TrimSpace lastArchived = [] then [] else [TrimSpace lastArchived]) @ map bsFileName sel)"
  proof (cases "TrimSpace lastArchived = []")
    case False
    then obtain i where i: "start = Suc i" "i < length logs" "bfName (logs ! i) = TrimSpace lastArchived"
      using start index_found by force
    have "[TrimSpace lastArchived] @ map bsFileName sel = map (\<lambda>i. bfName (logs ! i)) [i..<stop]"
      unfolding names using i ord by (simp add: upt_conv_Cons)
    then show ?thesis using run [OF ord(2), of i] False by simp
  qed (use run [OF ord(2), of start] names in simp)
qed

definition rowsOf :: "nat \<Rightarrow> file_world \<Rightarrow> archived_file list" where
  "rowsOf i w = filter (\<lambda>a. laStreamID a = i) (fwFiles w)"

text \<open>The archive of a stream has no gap, and the stream knows its last file.\<close>

definition gap_free :: "string list \<Rightarrow> nat \<Rightarrow> file_world \<Rightarrow> bool" where
  "gap_free H i w \<longleftrightarrow>
     successively (next_in H) (map laFileName (rowsOf i w))
     \<and> (\<forall>a\<in>set (rowsOf i w). placed H (laPreviousFileName a) (laFileName a) (laNextFileName a))
     \<and> (\<forall>s. streamByID (fwArchive w) i = Some s \<longrightarrow>
          lsLastArchiveName s = (if rowsOf i w = [] then [] else laFileName (last (rowsOf i w))))"

lemma stream_number: "streamByID w i = Some s \<Longrightarrow> lsID s = i"
  by (auto simp: streamByID_def find_Some_iff)

lemma saved_stream: "streamByID (saveStream s w) (lsID s) = (if streamByID w (lsID s) = None then None else Some s)"
proof -
  have "find (\<lambda>r. lsID r = lsID s) (map (\<lambda>r. if lsID r = lsID s then s else r) rs)
      = (if find (\<lambda>r. lsID r = lsID s) rs = None then None else Some s)" for rs
    by (induction rs) auto
  then show ?thesis by (simp add: streamByID_def saveStream_def)
qed

lemma saved_known: "streamByID (saveStream s w) i = Some s' \<Longrightarrow> lsID s = i \<Longrightarrow> s' = s"
  using saved_stream [of s w] by (auto split: if_splits)

lemma job_saved [simp]:
  "fwFiles (updateArchiveJob env job w) = fwFiles w" "fwArchive (updateArchiveJob env job w) = fwArchive w"
  by (simp_all add: updateArchiveJob_def)

lemma stream_saved [simp]: "fwFiles (updateFileStream env stream w) = fwFiles w"
  by (simp add: updateFileStream_def)

lemma rows_same: "fwFiles w' = fwFiles w \<Longrightarrow> rowsOf i w' = rowsOf i w"
  by (simp add: rowsOf_def)

lemma gap_free_same: "gap_free H i w \<Longrightarrow> fwFiles w' = fwFiles w \<Longrightarrow> fwArchive w' = fwArchive w \<Longrightarrow> gap_free H i w'"
  by (simp add: gap_free_def rowsOf_def)

text \<open>Saving the stream keeps the archive as long as it still knows its last file.\<close>

lemma gap_free_saved:
  assumes "gap_free H i w" "fwFiles w' = fwFiles w" "fwArchive w' = fwArchive w" "lsID stream = i"
    "lsLastArchiveName stream = (if rowsOf i w = [] then [] else laFileName (last (rowsOf i w)))"
  shows "gap_free H i (updateFileStream env stream w')"
  using assms saved_stream [of stream "fwArchive w"] rows_same [OF assms(2), of i]
  by (auto simp: gap_free_def updateFileStream_def rowsOf_def split: if_splits)

lemma last_known:
  "gap_free H i w \<Longrightarrow> streamByID (fwArchive w) i = Some s \<Longrightarrow>
   lsLastArchiveName s = (if rowsOf i w = [] then [] else laFileName (last (rowsOf i w)))"
  by (simp add: gap_free_def)

lemma run_failed:
  assumes "gap_free H i w" "streamByID (fwArchive w) i = Some stream" "lsID (arStream run) = i"
    "lsLastArchiveName (arStream run) = lsLastArchiveName stream"
  shows "gap_free H i (failRun env run finished code err w)"
  unfolding failRun_def applyBinlogArchiveFailure_def prod.case
  by (rule gap_free_saved [OF assms(1)]) (use last_known [OF assms(1,2)] assms(3,4) in simp_all)

lemma job_failed:
  assumes "gap_free H i w" "streamByID (fwArchive w) i = Some stream"
  shows "gap_free H i (failBinlogArchiveJob env now err stream job w)"
  unfolding failBinlogArchiveJob_def
  by (rule gap_free_saved [OF assms(1)]) (use last_known [OF assms] stream_number [OF assms(2)] in simp_all)

text \<open>The rows a run writes are those of its selections.\<close>

definition row_of :: "nat \<Rightarrow> mysqlBinlogArchiveSelection \<Rightarrow> archived_file \<Rightarrow> bool" where
  "row_of i s a \<longleftrightarrow> laStreamID a = i \<and> laFileName a = bsFileName s \<and> laPreviousFileName a = bsPrevious s
     \<and> laNextFileName a = bsNext s"

lemma selection_found:
  assumes "distinct (map bsFileName sel)" "s \<in> set sel"
  shows "find (\<lambda>x. bsFileName x = bsFileName s) (rev sel) = Some s"
proof -
  have "distinct (map bsFileName xs) \<Longrightarrow> s \<in> set xs \<Longrightarrow> find (\<lambda>x. bsFileName x = bsFileName s) xs = Some s" for xs
    by (induction xs) auto
  from this [of "rev sel"] show ?thesis using assms by (simp add: rev_map [symmetric])
qed

lemma registered:
  assumes "\<And>r. feFileErr env r = None" "distinct (map bsFileName sel)"
    and "map boFileName outs = map bsFileName sels" "set sels \<subseteq> set sel"
  shows "\<exists>rows. registerLoop env run finished sel outs w = (None, w\<lparr>fwFiles := fwFiles w @ rows\<rparr>)
    \<and> list_all2 (row_of (lsID (arStream run))) sels rows"
  using assms(3,4)
proof (induction outs arbitrary: sels w)
  case (Cons out outs)
  then obtain s rest where sels: "sels = s # rest" "bsFileName s = boFileName out" "s \<in> set sel"
    "map boFileName outs = map bsFileName rest" "set rest \<subseteq> set sel"
    by (cases sels) auto
  have find: "find (\<lambda>x. bsFileName x = boFileName out) (rev sel) = Some s"
    using selection_found [OF assms(2) sels(3)] sels(2) by simp
  obtain row w' where row: "createArchive env (archiveRow env run finished s (sizedOutput s out) (boFileName out) 0) w = Inr (row, w')"
      "w' = w\<lparr>fwFiles := fwFiles w @ [row]\<rparr>" "row_of (lsID (arStream run)) s row"
    using sels(2) by (simp add: createArchive_def assms(1) row_of_def archiveRow_def Let_def split: prod.split)
  from Cons.IH [OF sels(4,5), of w'] row find show ?case
    by (auto simp: sels(1))
qed simp

text \<open>A runner that either fails or prints the files it was asked for, and a step whose tables can be written.\<close>

definition prints_asked :: "(archive_script \<Rightarrow> runner_answer) \<Rightarrow> bool" where
  "prints_asked runner \<longleftrightarrow> (\<forall>script. raError (runner script) = None \<longrightarrow>
     map (\<lambda>out. Some (boFileName out)) (parseMySQLBinlogArchiveOutputs (raStdout (runner script)))
       = map (shell_read False) (asFiles script))"

record catch_up_run =
  cuEnv :: file_env
  cuRequest :: DatabaseRunLogArchiveCatchUpRequest
  cuOperator :: "nat \<times> string"
  cuStarted :: gotime
  cuFinished :: gotime
  cuRunner :: "archive_script \<Rightarrow> runner_answer"

definition sound_run :: "string list \<Rightarrow> catch_up_run \<Rightarrow> bool" where
  "sound_run H c \<longleftrightarrow> prints_asked (cuRunner c) \<and> (\<forall>r. feFileErr (cuEnv c) r = None) \<and> (\<forall>s. \<not> feStreamUpdateErr (cuEnv c) s)
     \<and> (\<forall>instance credential logs. listMySQLBinaryLogs (cuEnv c) instance credential = Inr logs \<longrightarrow> listed H logs)"

text \<open>A request and the run it starts, when nothing else happens to the stream.\<close>

definition catchUp :: "nat \<Rightarrow> catch_up_run \<Rightarrow> file_world \<Rightarrow> file_world" where
  "catchUp i c w =
     (case RunLogArchiveCatchUp (cuEnv c) i (Some (cuRequest c)) (cuOperator c) w of
        (Inl _, w) \<Rightarrow> w
      | (Inr (job, sel), w) \<Rightarrow>
          executeBinlogArchiveCatchUp (cuEnv c) (cuStarted c) (cuFinished c) (cuRunner c) id i (rcRunnerHostID (cuRequest c))
            (ajID job) sel w)"

lemma finished_catch_up:
  assumes H: "distinct H" "\<forall>f\<in>set H. trimmed_text f \<and> f \<noteq> []"
    and free: "gap_free H i w" and stream: "streamByID (fwArchive w) i = Some (arStream run)"
    and tables: "\<And>r. feFileErr env r = None" "\<And>s. \<not> feStreamUpdateErr env s"
    and sel: "sel \<noteq> []" "distinct (map bsFileName sel)" "\<forall>s\<in>set sel. placed H (bsPrevious s) (bsFileName s) (bsNext s)"
      "successively (next_in H) ((if TrimSpace (lsLastArchiveName (arStream run)) = [] then []
         else [TrimSpace (lsLastArchiveName (arStream run))]) @ map bsFileName sel)"
    and prints: "raError answer = None \<Longrightarrow> map boFileName (parseMySQLBinlogArchiveOutputs (raStdout answer)) = map bsFileName sel"
  shows "gap_free H i (finishCatchUp env run finished sel answer w)"
proof -
  have i: "lsID (arStream run) = i" using stream_number [OF stream] .
  have failed: "gap_free H i (failRun env (answered run finished answer) finished code err w)" for code err
    by (rule run_failed [OF free stream]) (simp_all add: answered_def i)
  show ?thesis
  proof (cases "raError answer")
    case None
    let ?run = "answered run finished answer"
    let ?outs = "map (storedOutput run) (parseMySQLBinlogArchiveOutputs (raStdout answer))"
    have same: "arStream ?run = arStream run" by (simp add: answered_def)
    have outs: "map boFileName ?outs = map bsFileName sel"
      using prints [OF None] by (simp add: storedOutput_def o_def if_distrib [of boFileName] cong: if_cong)
    obtain rows where reg: "registerLoop env ?run finished sel ?outs w = (None, w\<lparr>fwFiles := fwFiles w @ rows\<rparr>)"
      and rows: "list_all2 (row_of i) sel rows"
      using registered [OF tables(1) sel(2) outs, of ?run finished w] i same by auto
    have len: "length ?outs = length sel" using arg_cong [OF outs, of length] by simp
    let ?w = "w\<lparr>fwFiles := fwFiles w @ rows\<rparr>"
    have new: "rowsOf i ?w = rowsOf i w @ rows" "map laFileName rows = map bsFileName sel" "rows \<noteq> []"
      using rows sel(1) by (auto simp: rowsOf_def filter_id_conv list_all2_conv_all_nth row_of_def in_set_conv_nth intro: nth_equalityI)
    have last: "lsLastArchiveName (arStream run) = (if rowsOf i w = [] then [] else laFileName (last (rowsOf i w)))"
      using last_known [OF free stream] .
    have known: "trimmed_text (laFileName a) \<and> laFileName a \<noteq> []" if "a \<in> set (rowsOf i w)" for a
      using free that H(2) by (auto simp: gap_free_def placed_def)
    have "successively (next_in H) (map laFileName (rowsOf i ?w))"
      using sel(4) free last known [of "last (rowsOf i w)"] sel(1)
      by (cases "rowsOf i w = []"; cases sel)
        (auto simp: new gap_free_def successively_append_iff TrimSpace_trimmed last_map trimmed_text_def)
    moreover have "\<forall>a\<in>set (rowsOf i ?w). placed H (laPreviousFileName a) (laFileName a) (laNextFileName a)"
      using free sel(3) rows by (auto simp: new(1) gap_free_def list_all2_conv_all_nth row_of_def in_set_conv_nth) (metis nth_mem)
    moreover have "laFileName (last (rowsOf i ?w)) = bsFileName (last sel)"
      using new(2,3) sel(1) by (simp add: new(1)) (metis last_map)
    moreover have "rowsOf i (succeedRun env ?run finished name pos t ?w) = rowsOf i ?w" for name pos t
      by (simp add: succeedRun_def rowsOf_def)
    moreover have "streamByID (fwArchive (succeedRun env ?run finished name pos t ?w)) i = Some s \<longrightarrow> lsLastArchiveName s = name"
      for name pos t s
      using i tables(2) by (auto simp: succeedRun_def updateFileStream_def same dest!: saved_known)
    ultimately have "gap_free H i (succeedRun env ?run finished (bsFileName (last sel)) pos t ?w)" for pos t
      using new(1,3) by (simp add: gap_free_def)
    then show ?thesis using None len reg by (simp add: finishCatchUp_def Let_def)
  qed (simp add: finishCatchUp_def Let_def failed)
qed

lemma started_catch_up:
  assumes "RunLogArchiveCatchUp env i (Some req) operator w = (r, w1)"
  shows "fwFiles w1 = fwFiles w \<and> fwArchive w1 = fwArchive w"
    and "r = Inr (job, sel) \<Longrightarrow> \<exists>stream logs instance credential. streamByID (fwArchive w) i = Some stream
      \<and> listMySQLBinaryLogs env instance credential = Inr logs
      \<and> selectMySQLBinlogsForCatchUp logs (lsLastArchiveName stream) (rcMaxFiles req) (rcIncludeCurrent req) = Inr sel"
proof -
  have queue: "fwFiles (snd (queueArchiveJob env stream host files operator w)) = fwFiles w
      \<and> fwArchive (snd (queueArchiveJob env stream host files operator w)) = fwArchive w" for stream host files
    by (simp add: queueArchiveJob_def Let_def split: option.split)
  show "fwFiles w1 = fwFiles w \<and> fwArchive w1 = fwArchive w"
    using assms queue by (auto simp: RunLogArchiveCatchUp_def split: sum.splits prod.splits) (metis snd_conv)+
  have checks: "\<exists>instance credential. streamByID (fwArchive w) i = Some stream \<and> listMySQLBinaryLogs env instance credential = Inr logs"
    if "archiveRunChecks env w i h = Inr (stream, host, logs)" for h stream host logs
    using that by (auto simp: archiveRunChecks_def split: if_splits option.splits sum.splits)
  show "\<exists>stream logs instance credential. streamByID (fwArchive w) i = Some stream
      \<and> listMySQLBinaryLogs env instance credential = Inr logs
      \<and> selectMySQLBinlogsForCatchUp logs (lsLastArchiveName stream) (rcMaxFiles req) (rcIncludeCurrent req) = Inr sel"
    if "r = Inr (job, sel)"
    using assms that by (auto simp: RunLogArchiveCatchUp_def split: sum.splits prod.splits dest!: checks)
qed

lemma prepared:
  assumes "prepareArchive env now i h j False w = (r, w1)" "gap_free H i w"
  shows "gap_free H i w1" and "r = Some run \<Longrightarrow> streamByID (fwArchive w) i = Some (arStream run) \<and> fwArchive w1 = fwArchive w"
  using assms job_failed [OF assms(2)]
  by (auto simp: prepareArchive_def Let_def split: if_splits option.splits sum.splits intro: gap_free_same [OF assms(2)])

lemma catch_up_gap_free:
  assumes H: "distinct H" "\<forall>f\<in>set H. trimmed_text f \<and> f \<noteq> []"
    and sound: "sound_run H c" and free: "gap_free H i w"
  shows "gap_free H i (catchUp i c w)"
proof -
  obtain r w1 where start: "RunLogArchiveCatchUp (cuEnv c) i (Some (cuRequest c)) (cuOperator c) w = (r, w1)"
    by (cases "RunLogArchiveCatchUp (cuEnv c) i (Some (cuRequest c)) (cuOperator c) w")
  have free1: "gap_free H i w1" using gap_free_same [OF free] started_catch_up(1) [OF start] by blast
  show ?thesis
  proof (cases r)
    case (Inr js)
    then obtain job sel where r: "r = Inr (job, sel)" by (cases js) auto
    then obtain stream logs where stream: "streamByID (fwArchive w) i = Some stream" and logs: "listed H logs"
      and sel: "selectMySQLBinlogsForCatchUp logs (lsLastArchiveName stream) (rcMaxFiles (cuRequest c))
        (rcIncludeCurrent (cuRequest c)) = Inr sel"
      using started_catch_up(2) [OF start] sound unfolding sound_run_def by metis
    note chosen = catch_up_selection [OF sel logs H(1)]
    obtain p w2 where prep: "prepareArchive (cuEnv c) (cuStarted c) i (rcRunnerHostID (cuRequest c)) (ajID job) False w1 = (p, w2)"
      by (cases "prepareArchive (cuEnv c) (cuStarted c) i (rcRunnerHostID (cuRequest c)) (ajID job) False w1")
    note free2 = prepared(1) [OF prep free1]
    show ?thesis
    proof (cases p)
      case (Some run)
      have same: "streamByID (fwArchive w2) i = Some (arStream run)" "arStream run = stream"
        using prepared(2) [OF prep free1 Some] started_catch_up(1) [OF start] stream by auto
      show ?thesis
      proof (cases "runScript (cuEnv c) run [] (map bsFileName sel)")
        case (Inl e)
        have "gap_free H i (failRun (cuEnv c) run (cuFinished c) 1 (ScriptRefused e) w2)"
          by (rule run_failed [OF free2 same(1)]) (use stream_number [OF same(1)] in simp_all)
        then show ?thesis using start r prep chosen(1) Some Inl by (simp add: catchUp_def executeBinlogArchiveCatchUp_def)
      next
        case (Inr script)
        have files: "map (shell_read False) (asFiles script) = map Some (map TrimSpace (map bsFileName sel))"
          using script_files [OF Inr [unfolded runScript_def]] chosen(1) by simp
        have trimmed: "map TrimSpace (map bsFileName sel) = map bsFileName sel"
          using chosen(5) H(2) by (auto simp: placed_def TrimSpace_trimmed)
        have "map boFileName (parseMySQLBinlogArchiveOutputs (raStdout (cuRunner c script))) = map bsFileName sel"
          if "raError (cuRunner c script) = None"
        proof -
          have "map (\<lambda>out. Some (boFileName out)) (parseMySQLBinlogArchiveOutputs (raStdout (cuRunner c script)))
              = map Some (map bsFileName sel)"
            using sound that files trimmed unfolding sound_run_def prints_asked_def by metis
          from arg_cong [OF this, of "map the"] show ?thesis by (simp add: o_def)
        qed
        then have "gap_free H i (finishCatchUp (cuEnv c) run (cuFinished c) sel (cuRunner c script) w2)"
          using finished_catch_up [OF H free2 same(1), of "cuEnv c" sel "cuRunner c script" "cuFinished c"] chosen sound same(2)
          by (auto simp: sound_run_def)
        then show ?thesis using start r prep chosen(1) Some Inr by (simp add: catchUp_def executeBinlogArchiveCatchUp_def)
      qed
    qed (use free2 start r prep chosen(1) in \<open>simp add: catchUp_def executeBinlogArchiveCatchUp_def\<close>)
  qed (use free1 start in \<open>simp add: catchUp_def\<close>)
qed

lemma contiguous:
  assumes "distinct H" "successively (next_in H) xs" "xs \<noteq> []" "hd xs \<in> set H"
  shows "\<exists>k. xs = take (length xs) (drop k H)"
  using assms(2-4)
proof (induction xs rule: induct_list012)
  case (2 x)
  then obtain k where "k < length H" "H ! k = x" by (auto simp: in_set_conv_nth)
  then show ?case by (intro exI [of _ k]) (simp add: take_Suc hd_drop_conv_nth)
next
  case (3 x y zs)
  then obtain j where j: "Suc j < length H" "H ! j = x" "H ! Suc j = y" by (auto simp: next_in_def)
  then have "y \<in> set H" using nth_mem by metis
  then obtain k where k: "y # zs = take (length (y # zs)) (drop k H)" using "3.IH"(2) "3.prems" by auto
  then have "k < length H" "H ! k = y"
    by (cases "k < length H"; simp add: take_Suc hd_drop_conv_nth)+
  then have "k = Suc j" using j assms(1) by (auto simp: distinct_conv_nth)
  then have "x # y # zs = take (length (x # y # zs)) (drop j H)"
    using j k by (simp add: Cons_nth_drop_Suc [symmetric])
  then show ?case by blast
qed simp

lemma runs_gap_free:
  assumes "distinct H" "\<forall>f\<in>set H. trimmed_text f \<and> f \<noteq> []" "\<forall>c\<in>set cs. sound_run H c" "gap_free H i w"
  shows "gap_free H i (fold (catchUp i) cs w)"
  using assms(3,4) by (induction cs arbitrary: w) (auto intro: catch_up_gap_free [OF assms(1,2)])

text \<open>A row as the other components see it.\<close>

abbreviation asArchive :: "archived_file \<Rightarrow> DatabaseLogArchive" where
  "asArchive a \<equiv> DatabaseLogArchive.truncate a"

lemma as_archive [simp]:
  "laFileName (asArchive a) = laFileName a" "laPreviousFileName (asArchive a) = laPreviousFileName a"
  "laNextFileName (asArchive a) = laNextFileName a" "laStartGTIDSet (asArchive a) = laStartGTIDSet a"
  "laEndGTIDSet (asArchive a) = laEndGTIDSet a"
  by (simp_all add: DatabaseLogArchive.defs)

lemma placed_links:
  assumes "distinct H" "next_in H (laFileName a) (laFileName b)"
    "placed H (laPreviousFileName a) (laFileName a) (laNextFileName a)" "placed H (laPreviousFileName b) (laFileName b) (laNextFileName b)"
  shows "log_link (asArchive a) (asArchive b)"
  using assms next_unique [OF assms(1)] prev_unique [OF assms(1)]
  by (auto simp: log_link_def placed_def TrimSpace_trimmed trimmed_text_def)

text \<open>C28: Runs that catch up with a server leave an archive without a gap, whatever number of them fails, as long as a
  server lists its files in their order, a runner prints the files it was asked for and rows can be written: the files of
  the stream are consecutive files of the server. The check of a purge accepts them as a complete chain for a backup that
  begins in the first of them and has no GTIDs.\<close>

theorem archived_chain_complete:
  assumes "distinct H" "\<forall>f\<in>set H. trimmed_text f \<and> f \<noteq> []" "\<forall>c\<in>set cs. sound_run H c"
    and "rowsOf i w = []" "map_option lsLastArchiveName (streamByID (fwArchive w) i) \<in> {None, Some []}"
    and "rows = rowsOf i (fold (catchUp i) cs w)" "rows \<noteq> []"
    and "brBackupBinlogFile base = laFileName (hd rows)" "\<not> gtidEnabled base"
  shows "(\<exists>k. map laFileName rows = take (length rows) (drop k H))
    \<and> fst (validateMySQLRestoreLogMetadata base (map asArchive rows)) = ChainComplete"
proof -
  have "gap_free H i w" using assms(4,5) by (auto simp: gap_free_def)
  then have free: "gap_free H i (fold (catchUp i) cs w)" by (rule runs_gap_free [OF assms(1-3)])
  have names: "successively (next_in H) (map laFileName rows)"
    and rows: "\<forall>a\<in>set rows. placed H (laPreviousFileName a) (laFileName a) (laNextFileName a)"
    using free assms(6) by (simp_all add: gap_free_def)
  have first: "laFileName (hd rows) \<in> set H" using rows assms(7) by (cases rows) (auto simp: placed_def)
  have "\<exists>k. map laFileName rows = take (length rows) (drop k H)"
    using contiguous [OF assms(1) names] first assms(7) by (simp add: hd_map)
  moreover have "successively log_link (map asArchive rows)"
    using names rows
  proof (induction rows rule: induct_list012)
    case (3 a b zs)
    then show ?case using placed_links [OF assms(1), of a b] by auto
  qed simp_all
  moreover have "list_ex (log_starts (brBackupBinlogFile base)) (map asArchive rows)"
    using assms(7,8) by (cases rows) (auto simp: log_starts_def)
  moreover have "TrimSpace (brBackupBinlogFile base) \<noteq> []"
    using assms(2,8) first by (auto simp: TrimSpace_trimmed)
  ultimately show ?thesis using assms(7,9) by (simp add: chain_check_exact)
qed

section \<open>Where a run loses events\<close>

text \<open>A file that was archived while the server still wrote to it is never taken again, so what was written later is lost.\<close>

lemma current_file_never_completed:
  assumes "selectMySQLBinlogsForCatchUp logs f maxFiles includeCurrent = Inr sel" "listed H logs" "distinct H" "trimmed_text f"
    "f \<noteq> []" "f \<in> set H"
  shows "f \<notin> set (map bsFileName sel)"
proof -
  have "successively (next_in H) (f # map bsFileName sel)"
    using catch_up_selection(4) [OF assms(1-3)] assms(4,5) by (simp add: TrimSpace_trimmed)
  then obtain k where "f # map bsFileName sel = take (length (f # map bsFileName sel)) (drop k H)"
    using contiguous [OF assms(3)] assms(6) by force
  then have "distinct (f # map bsFileName sel)" using assms(3) by (metis distinct_drop distinct_take)
  then show ?thesis by simp
qed

text \<open>When the server has removed the file that was archived last, catching up stops, but a run of a single file goes on with
  the newest one and says nothing; without any last file it takes the one the server still writes to.\<close>

lemma single_run_skips:
  assumes "logs \<noteq> []" "TrimSpace f = [] \<or> indexOf (TrimSpace f) logs = None"
  shows "selectMySQLBinlogForArchive logs [] f = Inr (selectionAt logs (length logs - 1))"
    and "TrimSpace f \<noteq> [] \<Longrightarrow> selectMySQLBinlogsForCatchUp logs f maxFiles includeCurrent = Inl (LastArchivedGone (TrimSpace f))"
proof -
  have "TrimSpace [] = []" by code_simp
  then show "selectMySQLBinlogForArchive logs [] f = Inr (selectionAt logs (length logs - 1))"
    using assms by (auto simp: selectMySQLBinlogForArchive_def Let_def)
  show "TrimSpace f \<noteq> [] \<Longrightarrow> selectMySQLBinlogsForCatchUp logs f maxFiles includeCurrent = Inl (LastArchivedGone (TrimSpace f))"
    using assms by (auto simp: selectMySQLBinlogsForCatchUp_def Let_def)
qed

text \<open>The row of a stream that a run saves at its end is the one it read at its begin: what an operator changed meanwhile, a
  pause or a stop, is undone, and the stream is running.\<close>

lemma run_undoes_pause:
  assumes "streamByID (fwArchive w) (lsID (arStream run)) \<noteq> None" "\<not> feStreamUpdateErr env ((arStream run)\<lparr>lsStatus := StreamRunningS,
      lsLastError := Plain [], lsLastArchiveName := f, lsCursorFile := f, lsCursorPos := pos, lsLastEventTime := Some t,
      lsLastHeartbeatAt := Some finished, lsConsecutiveFailures := 0, lsArchiveLagSeconds := 0\<rparr>)"
  shows "\<exists>s. streamByID (fwArchive (succeedRun env run finished f pos t w)) (lsID (arStream run)) = Some s
    \<and> lsStatus s = StreamRunningS \<and> lsDesiredState s = lsDesiredState (arStream run) \<and> lsPausedAt s = lsPausedAt (arStream run)
    \<and> lsLeaseOwner s = lsLeaseOwner (arStream run)"
proof -
  obtain s where "streamByID (fwArchive (succeedRun env run finished f pos t w)) (lsID (arStream run)) = Some s"
    and "s = (arStream run)\<lparr>lsStatus := StreamRunningS, lsLastError := Plain [], lsLastArchiveName := f, lsCursorFile := f,
      lsCursorPos := pos, lsLastEventTime := Some t, lsLastHeartbeatAt := Some finished, lsConsecutiveFailures := 0,
      lsArchiveLagSeconds := 0\<rparr>"
    using assms saved_stream [of "(arStream run)\<lparr>lsStatus := StreamRunningS, lsLastError := Plain [], lsLastArchiveName := f,
      lsCursorFile := f, lsCursorPos := pos, lsLastEventTime := Some t, lsLastHeartbeatAt := Some finished,
      lsConsecutiveFailures := 0, lsArchiveLagSeconds := 0\<rparr>" "fwArchive w"]
    by (simp add: succeedRun_def updateFileStream_def)
  then show ?thesis by simp
qed

text \<open>The rows have no GTID sets, so the check of a purge never accepts them for a backup with GTIDs.\<close>

lemma archived_rows_fail_gtid:
  assumes "gtidEnabled base" "TrimSpace (brBackupBinlogFile base) \<noteq> []"
  shows "fst (validateMySQLRestoreLogMetadata base (asArchive (archiveRow env run finished s out f i) # logs)) \<noteq> ChainComplete"
proof -
  have "\<not> log_gtid (asArchive (archiveRow env run finished s out f i))"
    by (simp add: log_gtid_def archiveRow_def Let_def TrimSpace_trimmed trimmed_text_def split: prod.split)
  then show ?thesis using assms by (simp add: chain_check_exact)
qed

section \<open>A concrete server\<close>

text \<open>A server lists its files up to a number; the runner prints what it is asked for, once it is up.\<close>

definition file_instance :: DatabaseInstance where
  "file_instance = \<lparr>iID = 1, iName = ''db'', iDBType = ''mysql'', iHost = ''h'', iPort = 3306, iDefaultDatabase = [],
     iCredentialID = 1, iTLSEnabled = False, iStatus = []\<rparr>"

definition sample_history :: "string list" where
  "sample_history = [''b.1'', ''b.2'', ''b.3'']"

definition sample_binlogs :: "nat \<Rightarrow> string list \<times> string option list list" where
  "sample_binlogs n = ([''Log_name'', ''File_size''], map (\<lambda>f. [Some f, Some ''100'']) (take n sample_history))"

definition sample_file_env :: "nat \<Rightarrow> file_env" where
  "sample_file_env n = \<lparr>feRepos = True, feFileRepo = True, feInstances = (\<lambda>_. Some file_instance),
     feResolve = Some (\<lambda>_. Inr \<lparr>Username = ''u'', Password = ''p''\<rparr>), feBinaryLogs = (\<lambda>_ _. Inr (\<lambda>_. Some (sample_binlogs n))),
     feMountPath = (\<lambda>_. []), feDate = (\<lambda>_. 0), feJobErr = (\<lambda>_. None), feFileErr = (\<lambda>_. None), feJobUpdateErr = (\<lambda>_. False),
     feStreamUpdateErr = (\<lambda>_. False)\<rparr>"

definition printed_name :: "string \<Rightarrow> printed_file" where
  "printed_name f = \<lparr>pfName = f, pfPath = [], pfSize = ''100'', pfSha = [], pfFirst = [], pfLast = []\<rparr>"

definition sample_file_runner :: "bool \<Rightarrow> archive_script \<Rightarrow> runner_answer" where
  "sample_file_runner up script =
     (case those (map (shell_read False) (asFiles script)) of
        Some names \<Rightarrow>
          if up \<and> list_all one_line names
          then \<lparr>raStdout = printed (map printed_name names), raStderr = [], raExitCode = 0, raError = None\<rparr>
          else \<lparr>raStdout = [], raStderr = [], raExitCode = 1, raError = Some ''down''\<rparr>
      | None \<Rightarrow> \<lparr>raStdout = [], raStderr = [], raExitCode = 2, raError = Some ''syntax''\<rparr>)"

lemma those_read: "those xs = Some ys \<Longrightarrow> xs = map Some ys"
  by (induction xs arbitrary: ys) (auto split: option.splits)

lemma sample_prints: "prints_asked (sample_file_runner up)"
proof -
  have "map (\<lambda>out. Some (boFileName out)) (parseMySQLBinlogArchiveOutputs (printed (map printed_name names))) = map Some names"
    if "list_all one_line names" for names
  proof -
    have "one_line []" "one_line ''100''" by code_simp+
    then have "list_all printable (map printed_name names)"
      using that by (auto simp: list_all_iff printable_def printed_name_def)
    from printed_outputs [OF this] show ?thesis by (simp add: o_def printed_name_def)
  qed
  then show ?thesis
    by (auto simp: prints_asked_def sample_file_runner_def dest!: those_read split: option.splits if_splits)
qed

definition sample_catch_up :: "nat \<Rightarrow> bool \<Rightarrow> catch_up_run" where
  "sample_catch_up n up = \<lparr>cuEnv = sample_file_env n,
     cuRequest = \<lparr>rcRunnerHostID = 4, rcMaxFiles = 0, rcIncludeCurrent = False\<rparr>, cuOperator = (1, ''op''), cuStarted = 10,
     cuFinished = 20, cuRunner = sample_file_runner up\<rparr>"

definition sample_files :: file_world where
  "sample_files = \<lparr>fwArchive = sample_archive\<lparr>awHosts := [sample_runner\<lparr>rhRunnerType := ''ssh''\<rparr>]\<rparr>, fwFiles = [], fwJobs = []\<rparr>"

definition sample_archived :: "archived_file list" where
  "sample_archived = rowsOf 7 (fold (catchUp 7) [sample_catch_up 2 True, sample_catch_up 3 False, sample_catch_up 3 True] sample_files)"

lemma sample_sound:
  assumes "n \<in> {2, 3}"
  shows "sound_run sample_history (sample_catch_up n up)"
proof -
  have scan: "scanMySQLBinaryLogs (Some (sample_binlogs 2)) = Some [\<lparr>bfName = ''b.1'', bfSize = 100\<rparr>, \<lparr>bfName = ''b.2'', bfSize = 100\<rparr>]"
    "scanMySQLBinaryLogs (Some (sample_binlogs 3)) = Some [\<lparr>bfName = ''b.1'', bfSize = 100\<rparr>, \<lparr>bfName = ''b.2'', bfSize = 100\<rparr>,
       \<lparr>bfName = ''b.3'', bfSize = 100\<rparr>]" by code_simp+
  have window: "map bfName logs = take n sample_history \<Longrightarrow> listed sample_history logs" for logs
    unfolding listed_def by (metis drop0)
  have "map bfName logs = take n sample_history" if "listMySQLBinaryLogs (sample_file_env n) db credential = Inr logs"
    for db credential logs
    using that assms by (auto simp: listMySQLBinaryLogs_def sample_file_env_def List.map_filter_def scan sample_history_def)
  then have "listed sample_history logs" if "listMySQLBinaryLogs (sample_file_env n) db credential = Inr logs"
    for db credential logs
    using that window by blast
  then show ?thesis using sample_prints by (simp add: sound_run_def sample_catch_up_def sample_file_env_def)
qed

theorem archived_chain_complete_witness:
  "map laFileName sample_archived = [''b.1'', ''b.2'']
   \<and> fst (validateMySQLRestoreLogMetadata sample_record (map asArchive sample_archived)) = ChainComplete"
proof -
  have names: "map laFileName sample_archived = [''b.1'', ''b.2'']" by code_simp
  have "distinct sample_history" "\<forall>f\<in>set sample_history. trimmed_text f \<and> f \<noteq> []"
    by (simp add: sample_history_def, code_simp)
  moreover have "\<forall>c\<in>set [sample_catch_up 2 True, sample_catch_up 3 False, sample_catch_up 3 True]. sound_run sample_history c"
    using sample_sound by simp
  moreover have "rowsOf 7 sample_files = []" "map_option lsLastArchiveName (streamByID (fwArchive sample_files) 7) \<in> {None, Some []}"
    by code_simp+
  moreover have "sample_archived \<noteq> []" using names by fastforce
  moreover have "brBackupBinlogFile sample_record = laFileName (hd sample_archived)"
  proof -
    have "brBackupBinlogFile sample_record = ''b.1''" by code_simp
    moreover have "laFileName (hd sample_archived) = ''b.1''" using names by (metis hd_map list.sel(1) list.simps(3) map_is_Nil_conv)
    ultimately show ?thesis by simp
  qed
  moreover have "\<not> gtidEnabled sample_record" by code_simp
  ultimately show ?thesis using names archived_chain_complete [OF _ _ _ _ _ sample_archived_def] by blast
qed

theorem printed_output_read_back_witness:
  "map boFileName (parseMySQLBinlogArchiveOutputs (printed [printed_name ''b.1'', printed_name ''b.2''])) = [''b.1'', ''b.2'']"
proof -
  have "list_all printable [printed_name ''b.1'', printed_name ''b.2'']" by code_simp
  from printed_output_read_back [OF this] show ?thesis by (simp add: printed_name_def)
qed


end
