(* ===== verification/Backup_Alert.thy ===== *)
theory Backup_Alert
  imports Backup_Purge
begin

text \<open>
  Alerts on backups (backup_alert_rule.go, protection_risk.go for its constants, and the repositories of
  backup_alert_repository.go): rules and what they match, the candidates of a scan, and the states that a scan fires,
  keeps and resolves, with the notices it sends.

  The world holds the rules, the states and a log of the notices that were tried. The risks and profiles of instances, the
  listing of failed records and the columns of an instance are parameters, page by page; the notifier decides about each
  notice. The JSON texts of a rule are the values they hold, the context a candidate carries as JSON is left out, and texts
  the program writes itself are constructors.
\<close>

section \<open>Data\<close>

abbreviation ScopeAll :: string where "ScopeAll \<equiv> ''all''"
abbreviation ScopeProduction :: string where "ScopeProduction \<equiv> ''production''"
abbreviation ScopeInstance :: string where "ScopeInstance \<equiv> ''instance''"
abbreviation ScopeEngine :: string where "ScopeEngine \<equiv> ''engine''"
abbreviation ScopeBusinessSystem :: string where "ScopeBusinessSystem \<equiv> ''business_system''"
abbreviation ScopeOwner :: string where "ScopeOwner \<equiv> ''owner''"
abbreviation StateFiring :: string where "StateFiring \<equiv> ''firing''"
abbreviation StateResolved :: string where "StateResolved \<equiv> ''resolved''"
abbreviation IssueBackupFailed :: string where "IssueBackupFailed \<equiv> ''backup_failed''"
abbreviation IssueNoRecentSuccess :: string where "IssueNoRecentSuccess \<equiv> ''no_recent_success_backup''"
abbreviation IssueRPOBreached :: string where "IssueRPOBreached \<equiv> ''rpo_breached''"
abbreviation IssueArchiveLagHigh :: string where "IssueArchiveLagHigh \<equiv> ''archive_lag_high''"

datatype alert_text =
    AlertPlain string
  | RecordName nat \<comment> \<open>the name of a record without a known instance\<close>
  | NoFullBackup int \<comment> \<open>no full backup at all, and the hours of the threshold\<close>
  | FullBackupOld int
  | FailedBackup purge_text string
  | CheckPolicyHint | CheckRecordHint
  | RecoveredText alert_text

record DatabaseBackupAlertThreshold =
  atNoSuccessBackupHours :: int
  atRestoreDrillStaleDays :: int
  atRPOLagGraceMinutes :: int
  atIncludeNonProduction :: bool
  atMinRiskLevel :: string

record DatabaseBackupAlertRule =
  blID :: nat
  blName :: string
  blEnabled :: bool
  blScopeType :: string
  blInstanceID :: nat
  blEngine :: string
  blBusinessSystem :: string
  blOwner :: string
  blIssueTypes :: "string list"
  blSeverity :: string
  blAlertInterval :: int
  blRecoveryNotify :: bool
  blChannelIDs :: "nat list"
  blThreshold :: DatabaseBackupAlertThreshold
  blDescription :: string

record DatabaseBackupAlertCandidate =
  cdFingerprint :: string
  cdInstanceID :: nat
  cdResourceType :: string
  cdResourceID :: nat
  cdResourceName :: alert_text
  cdResourceTarget :: string
  cdIssueType :: string
  cdAlertType :: string
  cdMetric :: string
  cdSeverity :: string
  cdMessage :: alert_text
  cdSuggestion :: alert_text

record DatabaseBackupAlertState =
  bsID :: nat
  bsRuleID :: nat
  bsCandidate :: DatabaseBackupAlertCandidate \<comment> \<open>the columns taken from a candidate, the fingerprint among them\<close>
  bsStatus :: string
  bsFirstFiredAt :: gotime
  bsLastFiredAt :: gotime
  bsLastNotifiedAt :: "gotime option"
  bsResolvedAt :: "gotime option"
  bsNotifyCount :: int

abbreviation fingerprint :: "DatabaseBackupAlertState \<Rightarrow> string" where
  "fingerprint s \<equiv> cdFingerprint (bsCandidate s)"

record DatabaseProtectionRiskVO =
  prInstanceID :: nat
  prInstanceName :: string
  prEndpoint :: string
  prEnvironment :: string
  prBusinessSystem :: string
  prOwner :: string
  prEngine :: string
  prIssueType :: string
  prRiskLevel :: string
  prMessage :: alert_text
  prAction :: string
  prActionText :: string

text \<open>Of a profile what an alert looks at; the time of the last full backup as it is read, none when it is no time.\<close>

record DatabaseProtectionProfileVO =
  ppInstanceID :: nat
  ppInstanceName :: string
  ppEndpoint :: string
  ppEnvironment :: string
  ppBusinessSystem :: string
  ppOwner :: string
  ppEngine :: string
  ppProtectionLevel :: string
  ppBackupRequirement :: string
  ppInheritedProtection :: bool
  ppLastFullAt :: "gotime option"

record alert_instance =
  aiID :: nat
  aiName :: string
  aiDBType :: string
  aiHost :: string
  aiPort :: int
  aiEnvironment :: string
  aiBusinessSystem :: string
  aiOwner :: string

record alert_notice =
  anTime :: gotime
  anRuleID :: nat
  anFingerprint :: string
  anResolved :: bool
  anSent :: bool

record alert_world =
  alRules :: "DatabaseBackupAlertRule list"
  alStates :: "DatabaseBackupAlertState list"
  alNotices :: "alert_notice list"

record alert_env =
  leRepos :: bool
  leRisks :: "nat \<Rightarrow> string \<Rightarrow> bool \<Rightarrow> nat \<Rightarrow> DatabaseProtectionRiskVO list option"
  leProfiles :: "nat \<Rightarrow> string \<Rightarrow> nat \<Rightarrow> DatabaseProtectionProfileVO list option"
  leFailedRecords :: "(nat \<Rightarrow> nat \<Rightarrow> DatabaseBackupRecord list option) option"
  leInstance :: "nat \<Rightarrow> alert_instance option"
  leNotifier :: "(nat \<Rightarrow> DatabaseBackupAlertCandidate \<Rightarrow> bool) option" \<comment> \<open>the notices tried before, and a candidate\<close>
  leStateErr :: "DatabaseBackupAlertState \<Rightarrow> bool"
  leRuleErr :: bool
  leListErr :: bool

section \<open>Rules\<close>

definition normalizeBackupAlertThreshold :: "DatabaseBackupAlertThreshold \<Rightarrow> DatabaseBackupAlertThreshold" where
  "normalizeBackupAlertThreshold t =
     t\<lparr>atNoSuccessBackupHours := (if atNoSuccessBackupHours t \<le> 0 then 24 else atNoSuccessBackupHours t),
       atRestoreDrillStaleDays := (if atRestoreDrillStaleDays t \<le> 0 then 30 else atRestoreDrillStaleDays t),
       atRPOLagGraceMinutes := (if atRPOLagGraceMinutes t \<le> 0 then 10 else atRPOLagGraceMinutes t),
       atMinRiskLevel := (if TrimSpace (atMinRiskLevel t) = [] then DatabaseQueryRiskMedium else atMinRiskLevel t)\<rparr>"

definition normalizeBackupAlertScope :: "string \<Rightarrow> string" where
  "normalizeBackupAlertScope value =
     (let v = TrimSpace value in
      if v \<in> set [ScopeProduction, ScopeInstance, ScopeEngine, ScopeBusinessSystem, ScopeOwner] then v else ScopeAll)"

definition normalizeBackupAlertSeverity :: "string \<Rightarrow> string" where
  "normalizeBackupAlertSeverity value =
     (let v = TrimSpace value in
      if v \<in> set [DatabaseQueryRiskCritical, DatabaseQueryRiskHigh, DatabaseQueryRiskMedium, DatabaseQueryRiskLow] then v
      else DatabaseQueryRiskMedium)"

definition normalizedBackupAlertInterval :: "int \<Rightarrow> int" where
  "normalizedBackupAlertInterval value = (if value \<le> 0 then 1800 else if value < 60 then 60 else value)"

definition sanitizeBackupAlertIssueTypes :: "string list \<Rightarrow> string list" where
  "sanitizeBackupAlertIssueTypes items = rev (remdups (rev (filter (\<lambda>v. v \<noteq> []) (map TrimSpace items))))"

definition sanitizeUintIDs :: "nat list \<Rightarrow> nat list" where
  "sanitizeUintIDs items = rev (remdups (rev (filter (\<lambda>i. i \<noteq> 0) items)))"

text \<open>The request is a rule without a number; the answer is none when the request is refused.\<close>

definition buildBackupAlertRuleFromRequest ::
  "DatabaseBackupAlertRule option \<Rightarrow> DatabaseBackupAlertRule option \<Rightarrow> DatabaseBackupAlertRule option" where
  "buildBackupAlertRuleFromRequest item req =
     (case req of
        None \<Rightarrow> None
      | Some r \<Rightarrow>
          if TrimSpace (blName r) = [] then None
          else let rule = r\<lparr>blID := (case item of Some i \<Rightarrow> blID i | None \<Rightarrow> 0), blName := TrimSpace (blName r),
                 blScopeType := normalizeBackupAlertScope (blScopeType r), blEngine := TrimSpace (blEngine r),
                 blBusinessSystem := TrimSpace (blBusinessSystem r), blOwner := TrimSpace (blOwner r),
                 blIssueTypes := sanitizeBackupAlertIssueTypes (blIssueTypes r),
                 blSeverity := normalizeBackupAlertSeverity (blSeverity r),
                 blAlertInterval := normalizedBackupAlertInterval (blAlertInterval r),
                 blChannelIDs := sanitizeUintIDs (blChannelIDs r),
                 blThreshold := normalizeBackupAlertThreshold (blThreshold r), blDescription := TrimSpace (blDescription r)\<rparr>
               in if blScopeType rule = ScopeInstance \<and> blInstanceID rule = 0 then None
                  else if blScopeType rule = ScopeEngine \<and> blEngine rule = [] then None
                  else Some rule)"

text \<open>Creating a row writes the default of a column in the place of a false value: both flags of a rule default to true.\<close>

definition createRule :: "DatabaseBackupAlertRule \<Rightarrow> alert_world \<Rightarrow> alert_world" where
  "createRule rule w =
     w\<lparr>alRules := alRules w @ [rule\<lparr>blID := Suc (fold max (map blID (alRules w)) 0), blEnabled := True, blRecoveryNotify := True\<rparr>]\<rparr>"

definition CreateBackupAlertRule ::
  "alert_env \<Rightarrow> DatabaseBackupAlertRule option \<Rightarrow> alert_world \<Rightarrow> bool \<times> alert_world" where
  "CreateBackupAlertRule env req w =
     (if \<not> leRepos env then (False, w)
      else case buildBackupAlertRuleFromRequest None req of
        None \<Rightarrow> (False, w)
      | Some rule \<Rightarrow> if leRuleErr env then (False, w) else (True, createRule rule w))"

definition UpdateBackupAlertRule ::
  "alert_env \<Rightarrow> nat \<Rightarrow> DatabaseBackupAlertRule option \<Rightarrow> alert_world \<Rightarrow> bool \<times> alert_world" where
  "UpdateBackupAlertRule env i req w =
     (if \<not> leRepos env then (False, w)
      else case find (\<lambda>r. blID r = i) (alRules w) of
        None \<Rightarrow> (False, w)
      | Some item \<Rightarrow>
          (case buildBackupAlertRuleFromRequest (Some item) req of
             None \<Rightarrow> (False, w)
           | Some rule \<Rightarrow> if leRuleErr env then (False, w)
               else (True, w\<lparr>alRules := map (\<lambda>r. if blID r = i then rule else r) (alRules w)\<rparr>)))"

definition DeleteBackupAlertRule :: "alert_env \<Rightarrow> nat \<Rightarrow> alert_world \<Rightarrow> bool \<times> alert_world" where
  "DeleteBackupAlertRule env i w =
     (if \<not> leRepos env \<or> find (\<lambda>r. blID r = i) (alRules w) = None \<or> leRuleErr env then (False, w)
      else (True, w\<lparr>alRules := filter (\<lambda>r. blID r \<noteq> i) (alRules w)\<rparr>))"

definition decodeBackupAlertRule :: "DatabaseBackupAlertRule \<Rightarrow> DatabaseBackupAlertRule" where
  "decodeBackupAlertRule rule =
     rule\<lparr>blScopeType := normalizeBackupAlertScope (blScopeType rule), blSeverity := normalizeBackupAlertSeverity (blSeverity rule),
          blAlertInterval := normalizedBackupAlertInterval (blAlertInterval rule)\<rparr>"

definition backupAlertThreshold :: "DatabaseBackupAlertRule \<Rightarrow> DatabaseBackupAlertThreshold" where
  "backupAlertThreshold rule = normalizeBackupAlertThreshold (blThreshold rule)"

text \<open>A duration of so many hours. The hours of a threshold are stored in a JSON text and have no bound, so the product may wrap;
  the interval of a rule has a column of 32 bits, and its seconds always fit.\<close>

definition hoursDuration :: "int \<Rightarrow> int" where
  "hoursDuration h = (h * 3600 * 10 ^ 9 + 2 ^ 63) mod 2 ^ 64 - 2 ^ 63"

section \<open>What a rule matches\<close>

definition backupAlertSeverityRank :: "string \<Rightarrow> nat" where
  "backupAlertSeverityRank value =
     (let v = TrimSpace value in
      if v = DatabaseQueryRiskCritical then 4 else if v = DatabaseQueryRiskHigh then 3
      else if v = DatabaseQueryRiskMedium then 2 else if v = DatabaseQueryRiskLow then 1 else 0)"

definition normalizedRiskIssueType :: "string \<Rightarrow> string" where
  "normalizedRiskIssueType issueType = (let v = TrimSpace issueType in if v = IssueArchiveLagHigh then IssueRPOBreached else v)"

definition backupAlertRuleAcceptsIssue :: "DatabaseBackupAlertRule \<Rightarrow> string \<Rightarrow> bool" where
  "backupAlertRuleAcceptsIssue rule issueType \<longleftrightarrow>
     blIssueTypes rule = [] \<or> list_ex (\<lambda>t. normalizedRiskIssueType t = normalizedRiskIssueType issueType) (blIssueTypes rule)"

text \<open>The two Chinese spellings of production are not in the range of the runes modelled.\<close>

definition isBackupAlertProductionEnvironment :: "string \<Rightarrow> bool" where
  "isBackupAlertProductionEnvironment value \<longleftrightarrow> ToLower (TrimSpace value) \<in> set [''prod'', ''production'']"

definition ruleScope :: "DatabaseBackupAlertRule \<Rightarrow> nat \<Rightarrow> string \<Rightarrow> string \<Rightarrow> string \<Rightarrow> string \<Rightarrow> bool" where
  "ruleScope rule instanceID engine environment businessSystem owner \<longleftrightarrow>
     (if blScopeType rule = ScopeProduction then isBackupAlertProductionEnvironment environment
      else if blScopeType rule = ScopeInstance then instanceID = blInstanceID rule
      else if blScopeType rule = ScopeEngine then EqualFold engine (blEngine rule)
      else if blScopeType rule = ScopeBusinessSystem
        then TrimSpace (blBusinessSystem rule) = [] \<or> EqualFold businessSystem (blBusinessSystem rule)
      else if blScopeType rule = ScopeOwner then TrimSpace (blOwner rule) = [] \<or> EqualFold owner (blOwner rule)
      else True)"

definition backupAlertRuleMatchesRisk ::
  "DatabaseBackupAlertRule \<Rightarrow> DatabaseBackupAlertThreshold \<Rightarrow> DatabaseProtectionRiskVO \<Rightarrow> bool" where
  "backupAlertRuleMatchesRisk rule threshold risk \<longleftrightarrow>
     backupAlertRuleAcceptsIssue rule (normalizedRiskIssueType (prIssueType risk))
     \<and> \<not> backupAlertSeverityRank (prRiskLevel risk) < backupAlertSeverityRank (atMinRiskLevel threshold)
     \<and> ruleScope rule (prInstanceID risk) (prEngine risk) (prEnvironment risk) (prBusinessSystem risk) (prOwner risk)"

definition backupAlertRuleMatchesProfileScope :: "DatabaseBackupAlertRule \<Rightarrow> DatabaseProtectionProfileVO \<Rightarrow> bool" where
  "backupAlertRuleMatchesProfileScope rule p \<longleftrightarrow>
     ruleScope rule (ppInstanceID p) (ppEngine p) (ppEnvironment p) (ppBusinessSystem p) (ppOwner p)"

definition backupAlertRuleMatchesInstance :: "DatabaseBackupAlertRule \<Rightarrow> alert_instance option \<Rightarrow> bool" where
  "backupAlertRuleMatchesInstance rule i \<longleftrightarrow>
     (case i of None \<Rightarrow> blScopeType rule = ScopeAll
      | Some i \<Rightarrow> ruleScope rule (aiID i) (aiDBType i) (aiEnvironment i) (aiBusinessSystem i) (aiOwner i))"

section \<open>Candidates\<close>

definition backupAlertTypeForIssue :: "string \<Rightarrow> string" where
  "backupAlertTypeForIssue issueType =
     (case map_of [(IssueBackupFailed, ''database_backup_failed''), (IssueNoRecentSuccess, ''database_backup_no_recent_success''),
         (''missing_full_backup'', ''database_backup_missing_full''), (''incremental_chain_broken'', ''database_backup_chain_broken''),
         (IssueRPOBreached, ''database_backup_rpo_breached''), (IssueArchiveLagHigh, ''database_backup_rpo_breached''),
         (''log_chain_gap'', ''database_backup_log_gap''), (''restore_drill_missing'', ''database_restore_drill_stale''),
         (''restore_drill_failed'', ''database_restore_drill_failed''), (''runner_offline'', ''database_backup_runner_unavailable''),
         (''runner_tool_missing'', ''database_backup_runner_tool_failed''),
         (''storage_posture_failed'', ''database_backup_storage_failed'')] (TrimSpace issueType) of
        Some t \<Rightarrow> t | None \<Rightarrow> ''database_backup_risk'')"

definition backupAlertMetricForIssue :: "string \<Rightarrow> string" where
  "backupAlertMetricForIssue issueType =
     (let v = TrimSpace issueType in
      if v = IssueBackupFailed then ''backup_failed''
      else if v \<in> set [IssueNoRecentSuccess, ''missing_full_backup'', ''incremental_chain_broken''] then ''backup_success_gap''
      else if v \<in> set [IssueRPOBreached, IssueArchiveLagHigh, ''log_chain_gap''] then ''rpo_lag''
      else if v \<in> set [''restore_drill_missing'', ''restore_drill_failed''] then ''restore_drill_stale''
      else if v \<in> set [''runner_offline'', ''runner_tool_missing''] then ''runner_status''
      else if v = ''storage_posture_failed'' then ''storage_posture'' else ''backup_risk'')"

definition backupAlertFingerprint :: "nat \<Rightarrow> string \<Rightarrow> nat \<Rightarrow> string \<Rightarrow> string" where
  "backupAlertFingerprint ruleID resourceType resourceID issueType =
     ''database_backup_alert:'' @ Itoa (int ruleID) @ '':'' @ TrimSpace resourceType @ '':'' @ Itoa (int resourceID) @ '':''
       @ TrimSpace issueType"

text \<open>A candidate of a rule on a resource with an issue; the rest is derived from these.\<close>

definition newCandidate ::
  "DatabaseBackupAlertRule \<Rightarrow> nat \<Rightarrow> string \<Rightarrow> nat \<Rightarrow> string \<Rightarrow> DatabaseBackupAlertCandidate" where
  "newCandidate rule instanceID resourceType resourceID issueType =
     \<lparr>cdFingerprint = backupAlertFingerprint (blID rule) resourceType resourceID issueType, cdInstanceID = instanceID,
      cdResourceType = resourceType, cdResourceID = resourceID, cdResourceName = AlertPlain [], cdResourceTarget = [],
      cdIssueType = issueType, cdAlertType = backupAlertTypeForIssue issueType, cdMetric = backupAlertMetricForIssue issueType,
      cdSeverity = [], cdMessage = AlertPlain [], cdSuggestion = AlertPlain []\<rparr>"

definition candidateFromProtectionRisk ::
  "DatabaseBackupAlertRule \<Rightarrow> DatabaseProtectionRiskVO \<Rightarrow> DatabaseBackupAlertCandidate" where
  "candidateFromProtectionRisk rule risk =
     (newCandidate rule (prInstanceID risk) ''database_instance'' (prInstanceID risk) (normalizedRiskIssueType (prIssueType risk)))
       \<lparr>cdResourceName := AlertPlain (firstNonEmpty [prInstanceName risk, ''#'' @ Itoa (int (prInstanceID risk))]),
        cdResourceTarget := prEndpoint risk, cdSeverity := firstNonEmpty [blSeverity rule, prRiskLevel risk, DatabaseQueryRiskMedium],
        cdMessage := prMessage risk, cdSuggestion := AlertPlain (firstNonEmpty [prActionText risk, prAction risk])\<rparr>"

definition candidateFromNoRecentSuccessProfile ::
  "DatabaseBackupAlertRule \<Rightarrow> DatabaseProtectionProfileVO \<Rightarrow> DatabaseBackupAlertThreshold \<Rightarrow> gotime
   \<Rightarrow> DatabaseBackupAlertCandidate option" where
  "candidateFromNoRecentSuccessProfile rule p threshold now =
     (let hours = atNoSuccessBackupHours threshold in
      if ppInstanceID p = 0 \<or> ppProtectionLevel p = ''none'' then None
      else if ppBackupRequirement p = ''inherited'' \<and> ppInheritedProtection p then None
      else if (case ppLastFullAt p of Some t \<Rightarrow> now - t < hoursDuration hours | None \<Rightarrow> False) then None
      else Some ((newCandidate rule (ppInstanceID p) ''database_instance'' (ppInstanceID p) IssueNoRecentSuccess)
        \<lparr>cdResourceName := AlertPlain (firstNonEmpty [ppInstanceName p, ''#'' @ Itoa (int (ppInstanceID p))]),
         cdResourceTarget := ppEndpoint p, cdSeverity := firstNonEmpty [blSeverity rule, DatabaseQueryRiskHigh],
         cdMessage := (case ppLastFullAt p of None \<Rightarrow> NoFullBackup hours | Some _ \<Rightarrow> FullBackupOld hours),
         cdSuggestion := CheckPolicyHint\<rparr>))"

definition databaseInstanceEndpoint :: "alert_instance \<Rightarrow> string" where
  "databaseInstanceEndpoint i = TrimSpace (aiHost i) @ '':'' @ Itoa (aiPort i)"

definition candidateFromFailedBackupRecord ::
  "DatabaseBackupAlertRule \<Rightarrow> DatabaseBackupRecord \<Rightarrow> alert_instance option \<Rightarrow> DatabaseBackupAlertCandidate" where
  "candidateFromFailedBackupRecord rule r i =
     (newCandidate rule (brInstanceID r) ''database_backup_record'' (brID r) IssueBackupFailed)
       \<lparr>cdResourceName := (case i of Some i \<Rightarrow> if TrimSpace (aiName i) \<noteq> [] then AlertPlain (TrimSpace (aiName i)) else RecordName (brID r)
                          | None \<Rightarrow> RecordName (brID r)),
        cdResourceTarget := (case i of Some i \<Rightarrow> databaseInstanceEndpoint i | None \<Rightarrow> []),
        cdSeverity := firstNonEmpty [blSeverity rule, DatabaseQueryRiskCritical],
        cdMessage := FailedBackup (brErrorMessage r) (brFileName r), cdSuggestion := CheckRecordHint\<rparr>"

text \<open>The pages of a listing up to one that is not full, at most so many.\<close>

function collectPages :: "nat \<Rightarrow> (nat \<Rightarrow> 'a list option) \<Rightarrow> nat \<Rightarrow> 'a list option" where
  "collectPages most fetch page =
     (case fetch page of
        None \<Rightarrow> None
      | Some items \<Rightarrow>
          if length items < 100 \<or> page \<ge> most then Some items
          else map_option (append items) (collectPages most fetch (Suc page)))"
  by pat_completeness auto
termination by (relation "measure (\<lambda>(most, _, page). most - page)") auto

declare collectPages.simps [simp del]

definition scopedAlertInstanceID :: "DatabaseBackupAlertRule \<Rightarrow> nat" where
  "scopedAlertInstanceID rule = (if blScopeType rule = ScopeInstance then blInstanceID rule else 0)"

definition scopedAlertEngine :: "DatabaseBackupAlertRule \<Rightarrow> string" where
  "scopedAlertEngine rule = (if blScopeType rule = ScopeEngine then blEngine rule else [])"

definition collectProtectionRisksForAlertRule :: "alert_env \<Rightarrow> DatabaseBackupAlertRule \<Rightarrow> DatabaseProtectionRiskVO list option" where
  "collectProtectionRisksForAlertRule env rule =
     collectPages 200 (leRisks env (scopedAlertInstanceID rule) (scopedAlertEngine rule) (blScopeType rule = ScopeProduction)) 1"

definition collectProtectionProfilesForAlertRule ::
  "alert_env \<Rightarrow> DatabaseBackupAlertRule \<Rightarrow> DatabaseProtectionProfileVO list option" where
  "collectProtectionProfilesForAlertRule env rule =
     collectPages 200 (leProfiles env (scopedAlertInstanceID rule) (scopedAlertEngine rule)) 1"

definition loadBackupAlertInstance :: "alert_env \<Rightarrow> nat \<Rightarrow> alert_instance option" where
  "loadBackupAlertInstance env i = (if i = 0 then None else leInstance env i)"

definition collectFailedBackupRecordCandidates ::
  "alert_env \<Rightarrow> DatabaseBackupAlertRule \<Rightarrow> DatabaseBackupAlertThreshold \<Rightarrow> gotime \<Rightarrow> DatabaseBackupAlertCandidate list option" where
  "collectFailedBackupRecordCandidates env rule threshold now =
     (case leFailedRecords env of
        None \<Rightarrow> Some []
      | Some fetch \<Rightarrow>
          if \<not> backupAlertRuleAcceptsIssue rule IssueBackupFailed then Some []
          else let hours = (if atNoSuccessBackupHours threshold \<le> 0 then 24 else atNoSuccessBackupHours threshold);
                   since = now + hoursDuration (- hours) in
            map_option (\<lambda>records. map (\<lambda>r. candidateFromFailedBackupRecord rule r (loadBackupAlertInstance env (brInstanceID r)))
                (filter (\<lambda>r. \<not> brCreatedAt r < since
                   \<and> backupAlertRuleMatchesInstance rule (loadBackupAlertInstance env (brInstanceID r))) records))
              (collectPages 5 (fetch (scopedAlertInstanceID rule)) 1))"

definition profileCandidates ::
  "alert_env \<Rightarrow> DatabaseBackupAlertRule \<Rightarrow> DatabaseBackupAlertThreshold \<Rightarrow> gotime \<Rightarrow> DatabaseBackupAlertCandidate list" where
  "profileCandidates env rule threshold now =
     (case collectProtectionProfilesForAlertRule env rule of
        None \<Rightarrow> []
      | Some profiles \<Rightarrow>
          List.map_filter (\<lambda>p. candidateFromNoRecentSuccessProfile rule p threshold now)
            (filter (\<lambda>p. backupAlertRuleAcceptsIssue rule IssueNoRecentSuccess \<and> backupAlertRuleMatchesProfileScope rule p) profiles))"

definition evaluateBackupAlertRule ::
  "alert_env \<Rightarrow> DatabaseBackupAlertRule \<Rightarrow> gotime \<Rightarrow> DatabaseBackupAlertCandidate list option" where
  "evaluateBackupAlertRule env rule now =
     (let threshold = backupAlertThreshold rule in
      case collectProtectionRisksForAlertRule env rule of
        None \<Rightarrow> None
      | Some risks \<Rightarrow>
          (case collectFailedBackupRecordCandidates env rule threshold now of
             None \<Rightarrow> None
           | Some failed \<Rightarrow>
               Some (sort_key (\<lambda>c. - int (backupAlertSeverityRank (cdSeverity c)))
                 (map (candidateFromProtectionRisk rule) (filter (backupAlertRuleMatchesRisk rule threshold) risks)
                  @ profileCandidates env rule threshold now @ failed))))"

section \<open>Scans\<close>

text \<open>A notice is tried and logged; without a notifier nothing happens. The answer tells whether it was sent.\<close>

definition tryNotice ::
  "alert_env \<Rightarrow> gotime \<Rightarrow> DatabaseBackupAlertRule \<Rightarrow> DatabaseBackupAlertCandidate \<Rightarrow> bool \<Rightarrow> alert_world
   \<Rightarrow> bool option \<times> alert_world" where
  "tryNotice env now rule candidate resolved w =
     (case leNotifier env of
        None \<Rightarrow> (None, w)
      | Some notify \<Rightarrow>
          let sent = notify (length (alNotices w)) candidate in
          (Some sent, w\<lparr>alNotices := alNotices w @ [\<lparr>anTime = now, anRuleID = blID rule,
             anFingerprint = cdFingerprint candidate, anResolved = resolved, anSent = sent\<rparr>]\<rparr>))"

definition saveAlertState :: "alert_env \<Rightarrow> DatabaseBackupAlertState \<Rightarrow> alert_world \<Rightarrow> bool \<times> alert_world" where
  "saveAlertState env s w =
     (if leStateErr env s then (False, w)
      else (True, w\<lparr>alStates := map (\<lambda>r. if bsID r = bsID s then s else r) (alStates w)\<rparr>))"

definition createAlertState :: "alert_env \<Rightarrow> DatabaseBackupAlertState \<Rightarrow> alert_world \<Rightarrow> bool \<times> alert_world" where
  "createAlertState env s w =
     (if leStateErr env s then (False, w)
      else (True, w\<lparr>alStates := alStates w @ [s\<lparr>bsID := Suc (fold max (map bsID (alStates w)) 0)\<rparr>]\<rparr>))"

definition stateByFingerprint :: "alert_world \<Rightarrow> string \<Rightarrow> DatabaseBackupAlertState option" where
  "stateByFingerprint w f = find (\<lambda>s. fingerprint s = TrimSpace f) (alStates w)"

text \<open>The row of a candidate before a notice: taken over, or a new one with the number 0.\<close>

definition firingState ::
  "DatabaseBackupAlertRule \<Rightarrow> DatabaseBackupAlertCandidate \<Rightarrow> gotime \<Rightarrow> DatabaseBackupAlertState option \<Rightarrow> DatabaseBackupAlertState" where
  "firingState rule candidate now found =
     (let s = (case found of Some s \<Rightarrow> s
               | None \<Rightarrow> \<lparr>bsID = 0, bsRuleID = blID rule, bsCandidate = candidate, bsStatus = StateFiring, bsFirstFiredAt = now,
                   bsLastFiredAt = now, bsLastNotifiedAt = None, bsResolvedAt = None, bsNotifyCount = 0\<rparr>) in
      s\<lparr>bsRuleID := blID rule,
        bsCandidate := candidate\<lparr>cdFingerprint := fingerprint s,
          cdSeverity := firstNonEmpty [cdSeverity candidate, blSeverity rule, DatabaseQueryRiskMedium]\<rparr>,
        bsStatus := StateFiring, bsLastFiredAt := now, bsResolvedAt := None\<rparr>)"

definition noticeDue :: "DatabaseBackupAlertRule \<Rightarrow> gotime \<Rightarrow> DatabaseBackupAlertState option \<Rightarrow> bool" where
  "noticeDue rule now found \<longleftrightarrow>
     (case found of None \<Rightarrow> True
      | Some s \<Rightarrow> bsStatus s = StateResolved
          \<or> (case bsLastNotifiedAt s of None \<Rightarrow> True
             | Some t \<Rightarrow> now - t \<ge> normalizedBackupAlertInterval (blAlertInterval rule) * 10 ^ 9))"

definition upsertBackupAlertState ::
  "alert_env \<Rightarrow> DatabaseBackupAlertRule \<Rightarrow> DatabaseBackupAlertCandidate \<Rightarrow> gotime \<Rightarrow> alert_world \<Rightarrow> bool \<times> alert_world" where
  "upsertBackupAlertState env rule candidate now w =
     (if leListErr env then (False, w)
      else let found = stateByFingerprint w (cdFingerprint candidate);
               s = firingState rule candidate now found;
               (sent, w) = (if noticeDue rule now found then tryNotice env now rule candidate False w else (None, w));
               counted = (case sent of None \<Rightarrow> False
                 | Some sent \<Rightarrow> sent \<or> (case bsLastNotifiedAt s of None \<Rightarrow> True | Some t \<Rightarrow> now - t \<ge> 60 * 10 ^ 9));
               s = (if counted then s\<lparr>bsLastNotifiedAt := Some now, bsNotifyCount := bsNotifyCount s + 1\<rparr> else s)
           in if found = None then createAlertState env s w else saveAlertState env s w)"

fun upsertLoop ::
  "alert_env \<Rightarrow> DatabaseBackupAlertRule \<Rightarrow> gotime \<Rightarrow> DatabaseBackupAlertCandidate list \<Rightarrow> alert_world \<Rightarrow> bool \<times> alert_world" where
  "upsertLoop env rule now [] w = (True, w)"
| "upsertLoop env rule now (c # cs) w =
     (if TrimSpace (cdFingerprint c) = [] then upsertLoop env rule now cs w
      else case upsertBackupAlertState env rule c now w of
        (False, w) \<Rightarrow> (False, w) | (True, w) \<Rightarrow> upsertLoop env rule now cs w)"

fun resolveLoop ::
  "alert_env \<Rightarrow> DatabaseBackupAlertRule \<Rightarrow> gotime \<Rightarrow> string list \<Rightarrow> DatabaseBackupAlertState list \<Rightarrow> alert_world
   \<Rightarrow> bool \<times> alert_world" where
  "resolveLoop env rule now current [] w = (True, w)"
| "resolveLoop env rule now current (s # ss) w =
     (if fingerprint s \<in> set current then resolveLoop env rule now current ss w
      else let s = s\<lparr>bsStatus := StateResolved, bsResolvedAt := Some now, bsLastFiredAt := now\<rparr>;
               c = (bsCandidate s)\<lparr>cdMessage := RecoveredText (cdMessage (bsCandidate s))\<rparr>;
               (sent, w) = (if blRecoveryNotify rule then tryNotice env now rule c True w else (None, w));
               s = (if sent = Some True then s\<lparr>bsLastNotifiedAt := Some now, bsNotifyCount := bsNotifyCount s + 1\<rparr> else s)
           in case saveAlertState env s w of
                (False, w) \<Rightarrow> (False, w) | (True, w) \<Rightarrow> resolveLoop env rule now current ss w)"

definition firingOf :: "nat \<Rightarrow> alert_world \<Rightarrow> DatabaseBackupAlertState list" where
  "firingOf ruleID w = filter (\<lambda>s. bsRuleID s = ruleID \<and> bsStatus s = StateFiring) (alStates w)"

definition runBackupAlertRuleScan ::
  "alert_env \<Rightarrow> DatabaseBackupAlertRule \<Rightarrow> gotime \<Rightarrow> alert_world \<Rightarrow> bool \<times> alert_world" where
  "runBackupAlertRuleScan env rule now w =
     (if blID rule = 0 \<or> \<not> blEnabled rule then (True, w)
      else case evaluateBackupAlertRule env rule now of
        None \<Rightarrow> (False, w)
      | Some candidates \<Rightarrow>
          (case upsertLoop env rule now candidates w of
             (False, w) \<Rightarrow> (False, w)
           | (True, w) \<Rightarrow>
               if leListErr env then (False, w)
               else resolveLoop env rule now (filter (\<lambda>f. TrimSpace f \<noteq> []) (map cdFingerprint candidates))
                 (firingOf (blID rule) w) w))"

fun scanLoop :: "alert_env \<Rightarrow> (nat \<Rightarrow> gotime) \<Rightarrow> DatabaseBackupAlertRule list \<Rightarrow> alert_world \<Rightarrow> bool \<times> alert_world" where
  "scanLoop env clock [] w = (True, w)"
| "scanLoop env clock (r # rs) w =
     (case runBackupAlertRuleScan env (decodeBackupAlertRule r) (clock (blID r)) w of
        (False, w) \<Rightarrow> (False, w) | (True, w) \<Rightarrow> scanLoop env clock rs w)"

text \<open>A scan reads the time once for each rule.\<close>

definition RunBackupAlertScan :: "alert_env \<Rightarrow> (nat \<Rightarrow> gotime) \<Rightarrow> alert_world \<Rightarrow> bool \<times> alert_world" where
  "RunBackupAlertScan env clock w =
     (if \<not> leRepos env then (True, w)
      else if leRuleErr env then (False, w)
      else scanLoop env clock (sort_key blID (filter blEnabled (alRules w))) w)"

end
