(* ===== verification/Alert_Props.thy ===== *)
theory Alert_Props
  imports Backup_Alert Config_Props Query_Audit
begin

text \<open>
  Properties of the backup alerts: what is firing after a scan, when a notice is tried, and what a scan leaves alone.
\<close>

section \<open>Fingerprints\<close>

lemma Itoa_nat: "Itoa (int n) = digits_of 10 n"
  by (simp add: Itoa_def)

lemma Itoa_nat_inj: "Itoa (int a) = Itoa (int b) \<Longrightarrow> a = b"
  unfolding Itoa_nat by (metis digits_value of_nat_eq_iff)

lemma Itoa_no_colon: "CHR '':'' \<notin> set (Itoa (int n))"
  using digits_of_IsDigit [of n] by (auto simp: Itoa_def list_all_iff IsDigit_def rune_code_def)

lemma split_at_colon:
  "CHR '':'' \<notin> set u \<Longrightarrow> CHR '':'' \<notin> set v \<Longrightarrow> u @ CHR '':'' # x = v @ CHR '':'' # y \<Longrightarrow> u = v"
  by (induction u arbitrary: v; case_tac v) auto

text \<open>A fingerprint tells the rule it is of, and it is stored as it is.\<close>

definition fingerprint_of :: "nat \<Rightarrow> string \<Rightarrow> bool" where
  "fingerprint_of rule f \<longleftrightarrow> (\<exists>t i u. f = backupAlertFingerprint rule t i u)"

lemma fingerprint_rule: "fingerprint_of a f \<Longrightarrow> fingerprint_of b f \<Longrightarrow> a = b"
  unfolding fingerprint_of_def backupAlertFingerprint_def
  by (auto dest!: split_at_colon [OF Itoa_no_colon Itoa_no_colon] intro: Itoa_nat_inj)

lemma fingerprint_trim: "fingerprint_of a f \<Longrightarrow> TrimSpace f = f \<and> f \<noteq> []"
proof -
  assume "fingerprint_of a f"
  then obtain t i u where "f = backupAlertFingerprint a t i u" by (auto simp: fingerprint_of_def)
  then have f: "f = ''database_backup_alert:'' @ (Itoa (int a) @ '':'' @ TrimSpace t @ '':'' @ Itoa (int i)) @ '':'' @ TrimSpace u"
    by (simp add: backupAlertFingerprint_def)
  have colon: "\<not> IsSpace (CHR '':'')" "\<not> IsSpace (CHR ''d'')" by code_simp+
  have "\<not> IsSpace (last f)"
    using trimmed_TrimSpace [of u] colon by (cases "TrimSpace u = []") (auto simp: f trimmed_text_def)
  moreover have "\<not> IsSpace (hd f)" using colon by (simp add: f)
  ultimately show ?thesis by (simp add: TrimSpace_trimmed trimmed_text_def f)
qed

text \<open>Every candidate of a rule carries a fingerprint of the rule.\<close>

lemma new_fingerprint [simp]: "fingerprint_of (blID rule) (cdFingerprint (newCandidate rule i t j u))"
  by (auto simp: fingerprint_of_def newCandidate_def)

lemma candidate_fingerprint:
  "fingerprint_of (blID rule) (cdFingerprint (candidateFromProtectionRisk rule risk))"
  "fingerprint_of (blID rule) (cdFingerprint (candidateFromFailedBackupRecord rule r i))"
  by (simp_all add: candidateFromProtectionRisk_def candidateFromFailedBackupRecord_def)

lemma late_fingerprint:
  "candidateFromNoRecentSuccessProfile rule p t now = Some c \<Longrightarrow> fingerprint_of (blID rule) (cdFingerprint c)"
  by (auto simp: candidateFromNoRecentSuccessProfile_def Let_def simp del: firstNonEmpty.simps split: if_split_asm)

lemma profile_fingerprints: "c \<in> set (profileCandidates env rule t now) \<Longrightarrow> fingerprint_of (blID rule) (cdFingerprint c)"
  using late_fingerprint
  by (force simp: profileCandidates_def List.map_filter_def split: option.splits)

lemma failed_fingerprints:
  "collectFailedBackupRecordCandidates env rule t now = Some cs \<Longrightarrow> c \<in> set cs \<Longrightarrow> fingerprint_of (blID rule) (cdFingerprint c)"
  by (auto simp: collectFailedBackupRecordCandidates_def Let_def candidate_fingerprint(2) split: option.splits if_splits)

lemma evaluated_fingerprints:
  assumes "evaluateBackupAlertRule env rule now = Some cs" "c \<in> set cs"
  shows "fingerprint_of (blID rule) (cdFingerprint c)"
  using assms profile_fingerprints failed_fingerprints
  by (auto simp: evaluateBackupAlertRule_def Let_def candidate_fingerprint(1) split: option.splits)

section \<open>The table of states\<close>

text \<open>A table of states: numbers and fingerprints are unique, each fingerprint is one of the rule the state is of, and a
  state without a time of recovery is a firing one.\<close>

definition alert_table :: "DatabaseBackupAlertState list \<Rightarrow> bool" where
  "alert_table ss \<longleftrightarrow> distinct (map bsID ss) \<and> distinct (map fingerprint ss)
     \<and> list_all (\<lambda>s. fingerprint_of (bsRuleID s) (fingerprint s)
         \<and> bsStatus s = (if bsResolvedAt s = None then StateFiring else StateResolved)) ss"

lemma alert_tableD:
  assumes "alert_table ss"
  shows "\<lbrakk>s \<in> set ss; t \<in> set ss; bsID s = bsID t\<rbrakk> \<Longrightarrow> s = t"
    and "\<lbrakk>s \<in> set ss; t \<in> set ss; fingerprint s = fingerprint t\<rbrakk> \<Longrightarrow> s = t"
    and "s \<in> set ss \<Longrightarrow> fingerprint_of (bsRuleID s) (fingerprint s)"
  using assms by (auto simp: alert_table_def distinct_map list_all_iff dest: inj_onD)

lemma replaced_rows:
  assumes "alert_table ss" "r \<in> set ss" "bsID s = bsID r" "fingerprint s = fingerprint r"
    "fingerprint_of (bsRuleID s) (fingerprint s)" "bsStatus s = (if bsResolvedAt s = None then StateFiring else StateResolved)"
  shows "alert_table (map (\<lambda>t. if bsID t = bsID s then s else t) ss)"
    "set (map (\<lambda>t. if bsID t = bsID s then s else t) ss) = insert s (set ss - {r})"
proof -
  have same: "bsID t = bsID s \<longleftrightarrow> t = r" if "t \<in> set ss" for t
    using that assms alert_tableD(1) by metis
  have ids: "map bsID (map (\<lambda>t. if bsID t = bsID s then s else t) ss) = map bsID ss" by (simp cong: map_cong)
  have fps: "map fingerprint (map (\<lambda>t. if bsID t = bsID s then s else t) ss) = map fingerprint ss"
    using same assms(4) by simp
  show set: "set (map (\<lambda>t. if bsID t = bsID s then s else t) ss) = insert s (set ss - {r})"
    using same assms(2) by (auto simp: image_iff)
  show "alert_table (map (\<lambda>t. if bsID t = bsID s then s else t) ss)"
    using assms(1,5,6) unfolding alert_table_def list_all_iff set ids fps by simp
qed

lemma added_row:
  assumes "alert_table ss" "fingerprint s \<notin> fingerprint ` set ss"
    "fingerprint_of (bsRuleID s) (fingerprint s)" "bsStatus s = (if bsResolvedAt s = None then StateFiring else StateResolved)"
  shows "alert_table (ss @ [s\<lparr>bsID := Suc (fold max (map bsID ss) 0)\<rparr>])"
proof -
  have "Suc (fold max (map bsID ss) 0) \<notin> bsID ` set ss"
    using fold_max_ge [of _ "map bsID ss" 0] by fastforce
  with assms show ?thesis by (auto simp: alert_table_def)
qed

section \<open>One candidate\<close>

text \<open>What is firing of a rule, and what is not of it.\<close>

definition firing_fingerprints :: "nat \<Rightarrow> alert_world \<Rightarrow> string set" where
  "firing_fingerprints r w = fingerprint ` set (firingOf r w)"

definition other_states :: "nat \<Rightarrow> alert_world \<Rightarrow> DatabaseBackupAlertState set" where
  "other_states r w = {s \<in> set (alStates w). bsRuleID s \<noteq> r}"

lemma tryNotice_states: "tryNotice env now rule c b w = (sent, w') \<Longrightarrow> alStates w' = alStates w"
  by (auto simp: tryNotice_def Let_def split: option.splits)

lemma found_state:
  assumes "alert_table (alStates w)" "fingerprint_of r f"
  shows "stateByFingerprint w f = Some s \<longleftrightarrow> s \<in> set (alStates w) \<and> fingerprint s = f"
    "stateByFingerprint w f = None \<longleftrightarrow> f \<notin> fingerprint ` set (alStates w)"
proof -
  have "TrimSpace f = f" using fingerprint_trim assms(2) by blast
  then have find: "stateByFingerprint w f = find (\<lambda>s. fingerprint s = f) (alStates w)" by (simp add: stateByFingerprint_def)
  then show none: "stateByFingerprint w f = None \<longleftrightarrow> f \<notin> fingerprint ` set (alStates w)"
    by (auto simp: find_None_iff)
  show "stateByFingerprint w f = Some s \<longleftrightarrow> s \<in> set (alStates w) \<and> fingerprint s = f"
  proof (cases "stateByFingerprint w f")
    case (Some t)
    then have "t \<in> set (alStates w)" "fingerprint t = f" unfolding find by (auto simp: find_Some_iff)
    with Some show ?thesis using alert_tableD(2) [OF assms(1)] by auto
  qed (use none in auto)
qed

text \<open>The row that a candidate leaves.\<close>

definition candidate_row ::
  "DatabaseBackupAlertRule \<Rightarrow> DatabaseBackupAlertCandidate \<Rightarrow> alert_world \<Rightarrow> DatabaseBackupAlertState \<Rightarrow> bool" where
  "candidate_row rule c w s \<longleftrightarrow> fingerprint s = cdFingerprint c \<and> bsRuleID s = blID rule \<and> bsStatus s = StateFiring
     \<and> bsResolvedAt s = None \<and> s \<in> set (alStates w)"

lemma firingState_fields:
  "bsRuleID (firingState rule c now found) = blID rule" "bsStatus (firingState rule c now found) = StateFiring"
  "bsResolvedAt (firingState rule c now found) = None"
  "fingerprint (firingState rule c now found) = (case found of None \<Rightarrow> cdFingerprint c | Some s \<Rightarrow> fingerprint s)"
  "bsLastNotifiedAt (firingState rule c now found) = (case found of None \<Rightarrow> None | Some s \<Rightarrow> bsLastNotifiedAt s)"
  "bsID (firingState rule c now found) = (case found of None \<Rightarrow> 0 | Some s \<Rightarrow> bsID s)"
  by (auto simp: firingState_def Let_def split: option.splits)

text \<open>The row after a notice.\<close>

definition noticed :: "gotime \<Rightarrow> bool option \<Rightarrow> DatabaseBackupAlertState \<Rightarrow> DatabaseBackupAlertState" where
  "noticed now sent s =
     (if (case sent of None \<Rightarrow> False
            | Some sent \<Rightarrow> sent \<or> (case bsLastNotifiedAt s of None \<Rightarrow> True | Some t \<Rightarrow> now - t \<ge> 60 * 10 ^ 9))
      then s\<lparr>bsLastNotifiedAt := Some now, bsNotifyCount := bsNotifyCount s + 1\<rparr> else s)"

lemma noticed_fields [simp]:
  "bsID (noticed now sent s) = bsID s" "bsRuleID (noticed now sent s) = bsRuleID s" "bsCandidate (noticed now sent s) = bsCandidate s"
  "bsStatus (noticed now sent s) = bsStatus s" "bsResolvedAt (noticed now sent s) = bsResolvedAt s"
  by (auto simp: noticed_def)

lemma upsert_cases:
  assumes "upsertBackupAlertState env rule c now w = (ok, w')" "\<not> leListErr env"
  obtains sent v where
    "(if noticeDue rule now (stateByFingerprint w (cdFingerprint c)) then tryNotice env now rule c False w else (None, w)) = (sent, v)"
    "(if stateByFingerprint w (cdFingerprint c) = None then createAlertState env else saveAlertState env)
       (noticed now sent (firingState rule c now (stateByFingerprint w (cdFingerprint c)))) v = (ok, w')"
proof -
  let ?found = "stateByFingerprint w (cdFingerprint c)"
  obtain sent v where n: "(if noticeDue rule now ?found then tryNotice env now rule c False w else (None, w)) = (sent, v)"
    by (meson surj_pair)
  show thesis
    by (rule that [OF n]) (use assms in \<open>simp add: upsertBackupAlertState_def n noticed_def Let_def split: if_splits\<close>)
qed

lemma interval_bound: "normalizedBackupAlertInterval v \<ge> 60"
  by (simp add: normalizedBackupAlertInterval_def)

lemma noticed_not_due:
  assumes "(if noticeDue rule now found then tryNotice env now rule c False w else (None, w)) = (sent, v)"
    "leNotifier env = Some notify"
  shows "\<not> noticeDue rule now (Some (noticed now sent (firingState rule c now found)))"
proof (cases "noticeDue rule now found")
  case True
  with assms obtain b where "sent = Some b" by (auto simp: tryNotice_def Let_def)
  then show ?thesis using interval_bound [of "blAlertInterval rule"]
    by (cases found) (auto simp: noticeDue_def noticed_def firingState_fields split: option.splits)
next
  case False
  with assms have "sent = None" by simp
  with False show ?thesis by (auto simp: noticeDue_def noticed_def firingState_fields split: option.splits)
qed

lemma upsert_row:
  assumes "upsertBackupAlertState env rule c now w = (True, w')"
    "alert_table (alStates w)" "fingerprint_of (blID rule) (cdFingerprint c)"
  obtains s where "candidate_row rule c w' s" "leNotifier env \<noteq> None \<longrightarrow> \<not> noticeDue rule now (Some s)" "alert_table (alStates w')"
    "set (alStates w') = insert s {t \<in> set (alStates w). fingerprint t \<noteq> cdFingerprint c}"
proof -
  let ?f = "cdFingerprint c"
  have ok: "\<not> leListErr env" using assms(1) by (auto simp: upsertBackupAlertState_def)
  from upsert_cases [OF assms(1) this] obtain sent v where
    n: "(if noticeDue rule now (stateByFingerprint w ?f) then tryNotice env now rule c False w else (None, w)) = (sent, v)"
    and row: "(if stateByFingerprint w ?f = None then createAlertState env else saveAlertState env)
       (noticed now sent (firingState rule c now (stateByFingerprint w ?f))) v = (True, w')" by metis
  have v: "alStates v = alStates w" using n by (auto split: if_splits dest: tryNotice_states)
  show thesis
  proof (cases "stateByFingerprint w ?f")
    case None
    let ?s = "(noticed now sent (firingState rule c now None))\<lparr>bsID := Suc (fold max (map bsID (alStates w)) 0)\<rparr>"
    from None row v have w': "alStates w' = alStates w @ [?s]" by (auto simp: createAlertState_def split: if_splits)
    from None found_state [OF assms(2,3)] have new: "?f \<notin> fingerprint ` set (alStates w)" by simp
    show thesis
    proof (rule that)
      show "leNotifier env \<noteq> None \<longrightarrow> \<not> noticeDue rule now (Some ?s)"
        using noticed_not_due [OF n] None by (auto simp: noticeDue_def)
      show "candidate_row rule c w' ?s" by (simp add: candidate_row_def w' firingState_fields)
      show "alert_table (alStates w')" unfolding w'
        by (rule added_row) (use assms(2,3) new in \<open>simp_all add: firingState_fields\<close>)
      show "set (alStates w') = insert ?s {t \<in> set (alStates w). fingerprint t \<noteq> ?f}" unfolding w' using new by force
    qed
  next
    case (Some r)
    let ?s = "noticed now sent (firingState rule c now (Some r))"
    from Some found_state [OF assms(2,3)] have r: "r \<in> set (alStates w)" "fingerprint r = ?f" by auto
    from Some row v have w': "alStates w' = map (\<lambda>t. if bsID t = bsID ?s then ?s else t) (alStates w)"
      by (auto simp: saveAlertState_def split: if_splits)
    have fields: "bsID ?s = bsID r" "fingerprint ?s = fingerprint r" "fingerprint_of (bsRuleID ?s) (fingerprint ?s)"
      "bsStatus ?s = (if bsResolvedAt ?s = None then StateFiring else StateResolved)"
      using assms(3) r(2) by (simp_all add: firingState_fields)
    have set: "set (alStates w') = insert ?s {t \<in> set (alStates w). fingerprint t \<noteq> ?f}"
      unfolding w' replaced_rows(2) [OF assms(2) r(1) fields] using r alert_tableD(2) [OF assms(2)] by auto
    show thesis
    proof (rule that)
      show "leNotifier env \<noteq> None \<longrightarrow> \<not> noticeDue rule now (Some ?s)"
        using noticed_not_due [OF n] Some by auto
      show "candidate_row rule c w' ?s" unfolding candidate_row_def set by (simp add: firingState_fields r)
      show "alert_table (alStates w')" unfolding w' by (rule replaced_rows(1) [OF assms(2) r(1) fields])
    qed (rule set)
  qed
qed

lemma upsert_firing:
  assumes "upsertBackupAlertState env rule c now w = (True, w')"
    "alert_table (alStates w)" "fingerprint_of (blID rule) (cdFingerprint c)"
  shows "alert_table (alStates w')" "other_states (blID rule) w' = other_states (blID rule) w"
    "firing_fingerprints (blID rule) w' = insert (cdFingerprint c) (firing_fingerprints (blID rule) w)"
proof -
  obtain s where s: "candidate_row rule c w' s" "alert_table (alStates w')"
    "set (alStates w') = insert s {t \<in> set (alStates w). fingerprint t \<noteq> cdFingerprint c}" by (metis upsert_row [OF assms])
  have own: "bsRuleID t = blID rule" if "t \<in> set (alStates w)" "fingerprint t = cdFingerprint c" for t
    using that alert_tableD(3) [OF assms(2)] assms(3) fingerprint_rule by metis
  show "alert_table (alStates w')" by (rule s(2))
  show "other_states (blID rule) w' = other_states (blID rule) w"
    using own s(1) by (auto simp: other_states_def s(3) candidate_row_def)
  show "firing_fingerprints (blID rule) w' = insert (cdFingerprint c) (firing_fingerprints (blID rule) w)"
  proof -
    have "set (firingOf (blID rule) w') = insert s {t \<in> set (firingOf (blID rule) w). fingerprint t \<noteq> cdFingerprint c}"
      using s(1) by (auto simp: firingOf_def s(3) candidate_row_def)
    then show ?thesis using s(1) by (auto simp: firing_fingerprints_def candidate_row_def)
  qed
qed

section \<open>A scan\<close>

lemma upserts_firing:
  assumes "upsertLoop env rule now cs w = (True, w')"
    "alert_table (alStates w)" "\<forall>c\<in>set cs. fingerprint_of (blID rule) (cdFingerprint c)"
  shows "alert_table (alStates w') \<and> other_states (blID rule) w' = other_states (blID rule) w
    \<and> firing_fingerprints (blID rule) w' = cdFingerprint ` set cs \<union> firing_fingerprints (blID rule) w"
  using assms
proof (induction cs arbitrary: w)
  case (Cons c cs)
  then have c: "fingerprint_of (blID rule) (cdFingerprint c)" by simp
  then have "TrimSpace (cdFingerprint c) \<noteq> []" using fingerprint_trim by metis
  with Cons.prems(1) obtain v where v: "upsertBackupAlertState env rule c now w = (True, v)" "upsertLoop env rule now cs v = (True, w')"
    by (auto split: prod.splits bool.splits)
  from upsert_firing [OF v(1) Cons.prems(2) c] Cons.IH [OF v(2)] Cons.prems(3) show ?case by simp
qed simp

text \<open>The row of a recovery.\<close>

definition recovered :: "gotime \<Rightarrow> bool option \<Rightarrow> DatabaseBackupAlertState \<Rightarrow> DatabaseBackupAlertState" where
  "recovered now sent s =
     (let s = s\<lparr>bsStatus := StateResolved, bsResolvedAt := Some now, bsLastFiredAt := now\<rparr> in
      if sent = Some True then s\<lparr>bsLastNotifiedAt := Some now, bsNotifyCount := bsNotifyCount s + 1\<rparr> else s)"

lemma recovered_fields [simp]:
  "bsID (recovered now sent s) = bsID s" "bsRuleID (recovered now sent s) = bsRuleID s" "bsCandidate (recovered now sent s) = bsCandidate s"
  "bsStatus (recovered now sent s) = StateResolved" "bsResolvedAt (recovered now sent s) = Some now"
  by (auto simp: recovered_def Let_def)

definition recoveryNotice ::
  "alert_env \<Rightarrow> DatabaseBackupAlertRule \<Rightarrow> gotime \<Rightarrow> DatabaseBackupAlertState \<Rightarrow> alert_world \<Rightarrow> bool option \<times> alert_world" where
  "recoveryNotice env rule now s w =
     (if blRecoveryNotify rule
      then tryNotice env now rule ((bsCandidate s)\<lparr>cdMessage := RecoveredText (cdMessage (bsCandidate s))\<rparr>) True w else (None, w))"

lemma resolveLoop_Cons:
  "resolveLoop env rule now current (s # ss) w =
     (if fingerprint s \<in> set current then resolveLoop env rule now current ss w
      else case recoveryNotice env rule now s w of
        (sent, v) \<Rightarrow> (case saveAlertState env (recovered now sent s) v of
           (False, w) \<Rightarrow> (False, w) | (True, w) \<Rightarrow> resolveLoop env rule now current ss w))"
  by (simp add: recoveryNotice_def recovered_def Let_def split: prod.splits)

lemma resolves_firing:
  assumes "resolveLoop env rule now current ss w = (True, w')" "alert_table (alStates w)"
    "distinct ss" "set ss \<subseteq> set (firingOf (blID rule) w)"
  shows "alert_table (alStates w') \<and> other_states (blID rule) w' = other_states (blID rule) w
    \<and> firing_fingerprints (blID rule) w' = firing_fingerprints (blID rule) w - (fingerprint ` set ss - set current)"
  using assms
proof (induction ss arbitrary: w)
  case (Cons s ss)
  show ?case
  proof (cases "fingerprint s \<in> set current")
    case True
    with Cons.IH [of w] Cons.prems show ?thesis by (simp add: insert_Diff_if)
  next
    case False
    obtain sent v where n: "recoveryNotice env rule now s w = (sent, v)" by (meson surj_pair)
    let ?s = "recovered now sent s"
    have v: "alStates v = alStates w" using n by (auto simp: recoveryNotice_def split: if_splits dest: tryNotice_states)
    from False Cons.prems(1) n obtain u where u: "saveAlertState env ?s v = (True, u)" "resolveLoop env rule now current ss u = (True, w')"
      by (auto simp: resolveLoop_Cons simp del: resolveLoop.simps split: prod.splits bool.splits)
    have s: "s \<in> set (alStates w)" "bsRuleID s = blID rule" "bsStatus s = StateFiring"
      using Cons.prems(4) by (auto simp: firingOf_def)
    have rows: "alStates u = map (\<lambda>t. if bsID t = bsID ?s then ?s else t) (alStates w)"
      using u(1) v by (auto simp: saveAlertState_def split: if_splits)
    have "fingerprint_of (bsRuleID ?s) (fingerprint ?s)" using alert_tableD(3) [OF Cons.prems(2) s(1)] by simp
    note rep = replaced_rows [OF Cons.prems(2) s(1), of ?s, simplified, OF this [simplified]]
    have set: "set (alStates u) = insert ?s (set (alStates w) - {s})" unfolding rows using rep(2) by simp
    have table: "alert_table (alStates u)" unfolding rows using rep(1) by simp
    have other: "other_states (blID rule) u = other_states (blID rule) w"
      using s(2) by (auto simp: other_states_def set)
    have "s \<noteq> ?s"
    proof
      assume "s = ?s"
      then have "bsStatus s = bsStatus ?s" by (rule arg_cong)
      with s(3) show False by simp
    qed
    then have fire: "set (firingOf (blID rule) u) = set (firingOf (blID rule) w) - {s}"
      using s by (auto simp: firingOf_def set)
    have fps: "firing_fingerprints (blID rule) u = firing_fingerprints (blID rule) w - {fingerprint s}"
      using s alert_tableD(2) [OF Cons.prems(2) _ s(1)] unfolding firing_fingerprints_def fire by (auto simp: firingOf_def)
    have "set ss \<subseteq> set (firingOf (blID rule) u)" using Cons.prems(3,4) fire by auto
    from Cons.IH [OF u(2) table _ this] Cons.prems(3) show ?thesis using other fps False by auto
  qed
qed simp

text \<open>A rule that is on and could be evaluated.\<close>

lemma scan_steps:
  assumes "runBackupAlertRuleScan env rule now w = (ok, w')" "evaluateBackupAlertRule env rule now = Some cs"
    "blID rule \<noteq> 0" "blEnabled rule"
  obtains (stopped) "upsertLoop env rule now cs w = (False, w')" "\<not> ok"
  | (unlisted) "upsertLoop env rule now cs w = (True, w')" "\<not> ok"
  | (resolved) v where "upsertLoop env rule now cs w = (True, v)"
      "resolveLoop env rule now (map cdFingerprint cs) (firingOf (blID rule) v) v = (ok, w')"
proof -
  have "TrimSpace (cdFingerprint c) \<noteq> []" if "c \<in> set cs" for c
    using fingerprint_trim [OF evaluated_fingerprints [OF assms(2) that]] by simp
  then have "filter (\<lambda>f. TrimSpace f \<noteq> []) (map cdFingerprint cs) = map cdFingerprint cs" by (simp add: filter_id_conv)
  with assms show thesis
    by (auto simp: runBackupAlertRuleScan_def split: prod.splits bool.splits if_splits intro: that)
qed

lemma scan_result:
  assumes "runBackupAlertRuleScan env rule now w = (True, w')" "evaluateBackupAlertRule env rule now = Some cs"
    "blID rule \<noteq> 0" "blEnabled rule" "alert_table (alStates w)"
  shows "alert_table (alStates w') \<and> other_states (blID rule) w' = other_states (blID rule) w
    \<and> firing_fingerprints (blID rule) w' = cdFingerprint ` set cs"
proof (rule scan_steps [OF assms(1-4)])
  fix v assume v: "upsertLoop env rule now cs w = (True, v)"
    and r: "resolveLoop env rule now (map cdFingerprint cs) (firingOf (blID rule) v) v = (True, w')"
  have fps: "\<forall>c\<in>set cs. fingerprint_of (blID rule) (cdFingerprint c)"
    using evaluated_fingerprints [OF assms(2)] by blast
  note up = upserts_firing [OF v assms(5) fps]
  then have "distinct (firingOf (blID rule) v)" by (auto simp: alert_table_def firingOf_def distinct_map)
  from resolves_firing [OF r conjunct1 [OF up] this] up show ?thesis
    by (auto simp: firing_fingerprints_def [of _ v])
qed simp_all

section \<open>Notices\<close>

definition notice_for :: "DatabaseBackupAlertRule \<Rightarrow> gotime \<Rightarrow> bool \<Rightarrow> alert_notice \<Rightarrow> bool" where
  "notice_for rule now resolved n \<longleftrightarrow> anRuleID n = blID rule \<and> anTime n = now \<and> anResolved n = resolved"

lemma tryNotice_log:
  assumes "tryNotice env now rule c b w = (sent, v)"
  obtains ns where "alNotices v = alNotices w @ ns"
    "ns = [] \<or> (\<exists>n. ns = [n] \<and> anFingerprint n = cdFingerprint c \<and> notice_for rule now b n)"
proof (cases "leNotifier env")
  case None
  with assms that [of "[]"] show thesis by (simp add: tryNotice_def)
next
  case (Some notify)
  with assms that [of "[_]"] show thesis by (auto simp: tryNotice_def notice_for_def Let_def)
qed

lemma row_log:
  "createAlertState env s w = (ok, v) \<Longrightarrow> alNotices v = alNotices w"
  "saveAlertState env s w = (ok, v) \<Longrightarrow> alNotices v = alNotices w"
  by (auto simp: createAlertState_def saveAlertState_def split: if_splits)

lemma upsert_log:
  assumes "upsertBackupAlertState env rule c now w = (ok, w')"
  obtains ns where "alNotices w' = alNotices w @ ns"
    "ns = [] \<or> (\<exists>n. ns = [n] \<and> anFingerprint n = cdFingerprint c \<and> notice_for rule now False n
       \<and> noticeDue rule now (stateByFingerprint w (cdFingerprint c)))"
proof (cases "leListErr env")
  case False
  let ?found = "stateByFingerprint w (cdFingerprint c)"
  from upsert_cases [OF assms False] obtain sent v where
    n: "(if noticeDue rule now ?found then tryNotice env now rule c False w else (None, w)) = (sent, v)"
    and row: "(if ?found = None then createAlertState env else saveAlertState env)
       (noticed now sent (firingState rule c now ?found)) v = (ok, w')" by metis
  have "alNotices w' = alNotices v" using row row_log by (cases "?found = None") simp_all
  show thesis
  proof (cases "noticeDue rule now ?found")
    case True
    with n have "tryNotice env now rule c False w = (sent, v)" by simp
    then obtain ns where "alNotices v = alNotices w @ ns"
      "ns = [] \<or> (\<exists>n. ns = [n] \<and> anFingerprint n = cdFingerprint c \<and> notice_for rule now False n)" by (rule tryNotice_log)
    with True \<open>alNotices w' = alNotices v\<close> that [of ns] show thesis by auto
  next
    case False
    with n \<open>alNotices w' = alNotices v\<close> that [of "[]"] show thesis by simp
  qed
qed (use assms that in \<open>simp add: upsertBackupAlertState_def\<close>)

text \<open>A stored candidate is not due again at the same time; nothing else becomes due.\<close>

lemma upsert_due:
  assumes "upsertBackupAlertState env rule c now w = (True, w')" "leNotifier env = Some notify"
    "alert_table (alStates w)" "fingerprint_of (blID rule) (cdFingerprint c)" "fingerprint_of r f"
  shows "noticeDue rule now (stateByFingerprint w' f) \<longleftrightarrow>
    f \<noteq> cdFingerprint c \<and> noticeDue rule now (stateByFingerprint w f)"
proof -
  obtain s where s: "candidate_row rule c w' s" "leNotifier env \<noteq> None \<longrightarrow> \<not> noticeDue rule now (Some s)" "alert_table (alStates w')"
    "set (alStates w') = insert s {t \<in> set (alStates w). fingerprint t \<noteq> cdFingerprint c}"
    by (rule upsert_row [OF assms(1,3,4)])
  show ?thesis
  proof (cases "f = cdFingerprint c")
    case True
    with found_state(1) [OF s(3) assms(4)] s(1) have "stateByFingerprint w' f = Some s" by (auto simp: candidate_row_def)
    with s(2) assms(2) True show ?thesis by simp
  next
    case False
    then have "stateByFingerprint w' f = Some t \<longleftrightarrow> stateByFingerprint w f = Some t" for t
      using s(1) unfolding found_state(1) [OF s(3) assms(5)] found_state(1) [OF assms(3,5)] by (auto simp: s(4) candidate_row_def)
    then have "stateByFingerprint w' f = stateByFingerprint w f" by (metis option.exhaust)
    with False show ?thesis by simp
  qed
qed

lemma upserts_log:
  assumes "upsertLoop env rule now cs w = (ok, w')" "leNotifier env = Some notify"
    "alert_table (alStates w)" "\<forall>c\<in>set cs. fingerprint_of (blID rule) (cdFingerprint c)"
  shows "\<exists>ns. alNotices w' = alNotices w @ ns \<and> distinct (map anFingerprint ns)
    \<and> (\<forall>n\<in>set ns. notice_for rule now False n \<and> anFingerprint n \<in> cdFingerprint ` set cs
         \<and> noticeDue rule now (stateByFingerprint w (anFingerprint n)))"
  using assms
proof (induction cs arbitrary: w)
  case (Cons c cs)
  then have c: "fingerprint_of (blID rule) (cdFingerprint c)" by simp
  then have blank: "TrimSpace (cdFingerprint c) \<noteq> []" using fingerprint_trim by metis
  obtain stored v where v: "upsertBackupAlertState env rule c now w = (stored, v)" by (meson surj_pair)
  obtain ns where ns: "alNotices v = alNotices w @ ns"
    "ns = [] \<or> (\<exists>n. ns = [n] \<and> anFingerprint n = cdFingerprint c \<and> notice_for rule now False n
       \<and> noticeDue rule now (stateByFingerprint w (cdFingerprint c)))" by (rule upsert_log [OF v])
  show ?case
  proof (cases stored)
    case False
    with v blank Cons.prems(1) have "w' = v" by simp
    with ns show ?thesis by auto
  next
    case True
    with v blank Cons.prems(1) have rest: "upsertLoop env rule now cs v = (ok, w')" by simp
    have stored: "upsertBackupAlertState env rule c now w = (True, v)" using v True by simp
    obtain ms where ms: "alNotices w' = alNotices v @ ms" "distinct (map anFingerprint ms)"
      "\<forall>n\<in>set ms. notice_for rule now False n \<and> anFingerprint n \<in> cdFingerprint ` set cs
         \<and> noticeDue rule now (stateByFingerprint v (anFingerprint n))"
      using Cons.IH [OF rest Cons.prems(2) upsert_firing(1) [OF stored Cons.prems(3) c]] Cons.prems(4) by auto
    have due: "anFingerprint n \<noteq> cdFingerprint c \<and> noticeDue rule now (stateByFingerprint w (anFingerprint n))"
      if "n \<in> set ms" for n
      using ms(3) that Cons.prems(4) upsert_due [OF stored Cons.prems(2,3) c] by fastforce
    have "distinct (map anFingerprint (ns @ ms))" using ns(2) ms(2) due by fastforce
    moreover have "\<forall>n\<in>set (ns @ ms). notice_for rule now False n \<and> anFingerprint n \<in> cdFingerprint ` set (c # cs)
         \<and> noticeDue rule now (stateByFingerprint w (anFingerprint n))"
      using ns(2) ms(3) due by fastforce
    ultimately show ?thesis using ns(1) ms(1) by (metis append.assoc)
  qed
qed simp

lemma resolves_log:
  assumes "resolveLoop env rule now current ss w = (ok, w')" "distinct (map fingerprint ss)"
  shows "\<exists>ns. alNotices w' = alNotices w @ ns \<and> distinct (map anFingerprint ns)
    \<and> (\<forall>n\<in>set ns. notice_for rule now True n \<and> blRecoveryNotify rule \<and> anFingerprint n \<in> fingerprint ` set ss - set current)"
  using assms
proof (induction ss arbitrary: w)
  case (Cons s ss)
  show ?case
  proof (cases "fingerprint s \<in> set current")
    case True
    with Cons.IH [of w] Cons.prems show ?thesis by (auto simp: Ball_def)
  next
    case False
    obtain sent v where v: "recoveryNotice env rule now s w = (sent, v)" by (meson surj_pair)
    then obtain ns where ns: "alNotices v = alNotices w @ ns"
      "ns = [] \<or> (\<exists>n. ns = [n] \<and> anFingerprint n = fingerprint s \<and> notice_for rule now True n \<and> blRecoveryNotify rule)"
      by (auto simp: recoveryNotice_def split: if_splits elim!: tryNotice_log)
    obtain saved u where u: "saveAlertState env (recovered now sent s) v = (saved, u)" by (meson surj_pair)
    have log: "alNotices u = alNotices v" by (rule row_log(2) [OF u])
    show ?thesis
    proof (cases saved)
      case True
      with False v u Cons.prems(1) have "resolveLoop env rule now current ss u = (ok, w')"
        by (simp add: resolveLoop_Cons del: resolveLoop.simps)
      from Cons.IH [OF this] Cons.prems(2) obtain ms where ms: "alNotices w' = alNotices u @ ms" "distinct (map anFingerprint ms)"
        "\<forall>n\<in>set ms. notice_for rule now True n \<and> blRecoveryNotify rule \<and> anFingerprint n \<in> fingerprint ` set ss - set current" by auto
      have "distinct (map anFingerprint (ns @ ms))" using ns(2) ms(2,3) Cons.prems(2) by fastforce
      moreover have "\<forall>n\<in>set (ns @ ms). notice_for rule now True n \<and> blRecoveryNotify rule
          \<and> anFingerprint n \<in> fingerprint ` set (s # ss) - set current"
        using ns(2) ms(3) False by fastforce
      ultimately show ?thesis using ns(1) ms(1) log by (metis append.assoc)
    next
      case unsaved: False
      with False v u Cons.prems(1) have "w' = u" by (simp add: resolveLoop_Cons del: resolveLoop.simps)
      with ns log False show ?thesis by auto
    qed
  qed
qed simp

section \<open>Properties\<close>

text \<open>C29: After a scan of a rule that could be evaluated and stored, what is firing of the rule is exactly what the evaluation
  found, states of other rules are as they were, and the table of states is still a proper one: unique numbers and
  fingerprints, each of its rule, firing without a time of recovery and resolved with one.\<close>

theorem scan_fires_exactly:
  assumes "runBackupAlertRuleScan env rule now w = (True, w')" "evaluateBackupAlertRule env rule now = Some cs"
    "blID rule \<noteq> 0" "blEnabled rule" "alert_table (alStates w)"
  shows "alert_table (alStates w') \<and> other_states (blID rule) w' = other_states (blID rule) w
    \<and> firing_fingerprints (blID rule) w' = cdFingerprint ` set cs"
  by (rule scan_result [OF assms])

text \<open>C30: A scan of a rule, even one that fails half way, tries at most one notice for each fingerprint. A notice of an alert is
  only tried for one that was due at the start: new, reopened, never notified, or notified an interval ago; a notice of a
  recovery only where the rule wants them, for an alert that was firing before or in the scan and is not found any more.\<close>

theorem one_notice_a_scan:
  assumes "runBackupAlertRuleScan env rule now w = (ok, w')" "evaluateBackupAlertRule env rule now = Some cs"
    "blID rule \<noteq> 0" "blEnabled rule" "alert_table (alStates w)" "leNotifier env = Some notify"
  shows "\<exists>ns. alNotices w' = alNotices w @ ns \<and> distinct (map anFingerprint ns)
    \<and> (\<forall>n\<in>set ns. anRuleID n = blID rule \<and> anTime n = now
        \<and> (if anResolved n
            then blRecoveryNotify rule \<and> anFingerprint n \<in> firing_fingerprints (blID rule) w - cdFingerprint ` set cs
            else anFingerprint n \<in> cdFingerprint ` set cs
              \<and> noticeDue rule now (stateByFingerprint w (anFingerprint n))))"
proof -
  let ?new = "\<lambda>n. notice_for rule now False n \<and> anFingerprint n \<in> cdFingerprint ` set cs
    \<and> noticeDue rule now (stateByFingerprint w (anFingerprint n))"
  have fps: "\<forall>c\<in>set cs. fingerprint_of (blID rule) (cdFingerprint c)" using evaluated_fingerprints [OF assms(2)] by blast
  have part: "\<exists>ns. alNotices v = alNotices w @ ns \<and> distinct (map anFingerprint ns) \<and> (\<forall>n\<in>set ns. ?new n)"
    if "upsertLoop env rule now cs w = (b, v)" for b v
    by (rule upserts_log [OF that assms(6,5) fps])
  show ?thesis
  proof (rule scan_steps [OF assms(1-4)])
    fix v assume v: "upsertLoop env rule now cs w = (True, v)"
      and r: "resolveLoop env rule now (map cdFingerprint cs) (firingOf (blID rule) v) v = (ok, w')"
    note up = upserts_firing [OF v assms(5) fps]
    then have dist: "distinct (map fingerprint (firingOf (blID rule) v))"
      by (auto simp: alert_table_def firingOf_def distinct_map inj_on_def)
    obtain ns where ns: "alNotices v = alNotices w @ ns" "distinct (map anFingerprint ns)" "\<forall>n\<in>set ns. ?new n"
      using part [OF v] by blast
    have gone: "fingerprint ` set (firingOf (blID rule) v) - set (map cdFingerprint cs)
        = firing_fingerprints (blID rule) w - cdFingerprint ` set cs"
      using up by (auto simp: firing_fingerprints_def [of _ v])
    obtain ms where ms: "alNotices w' = alNotices v @ ms" "distinct (map anFingerprint ms)"
      "\<forall>n\<in>set ms. notice_for rule now True n \<and> blRecoveryNotify rule
         \<and> anFingerprint n \<in> firing_fingerprints (blID rule) w - cdFingerprint ` set cs"
      using resolves_log [OF r dist, unfolded gone] by blast
    have "anFingerprint n \<noteq> anFingerprint m" if "n \<in> set ns" "m \<in> set ms" for n m
      using ns(3) ms(3) that by (metis DiffE)
    then have "distinct (map anFingerprint (ns @ ms))" using ns(2) ms(2) by auto
    with ns ms show ?thesis by (intro exI [of _ "ns @ ms"]) (auto simp: notice_for_def)
  qed (use part in \<open>fastforce simp: notice_for_def\<close>)+
qed

section \<open>A concrete scan\<close>

definition sample_alert_rule :: DatabaseBackupAlertRule where
  "sample_alert_rule = \<lparr>blID = 1, blName = ''rpo'', blEnabled = True, blScopeType = ScopeAll, blInstanceID = 0, blEngine = [],
     blBusinessSystem = [], blOwner = [], blIssueTypes = [], blSeverity = DatabaseQueryRiskHigh, blAlertInterval = 1800,
     blRecoveryNotify = True, blChannelIDs = [], blThreshold = \<lparr>atNoSuccessBackupHours = 24, atRestoreDrillStaleDays = 30,
       atRPOLagGraceMinutes = 10, atIncludeNonProduction = False, atMinRiskLevel = DatabaseQueryRiskLow\<rparr>, blDescription = []\<rparr>"

definition sample_risk :: DatabaseProtectionRiskVO where
  "sample_risk = \<lparr>prInstanceID = 7, prInstanceName = ''db'', prEndpoint = ''h:1'', prEnvironment = [], prBusinessSystem = [],
     prOwner = [], prEngine = ''mysql'', prIssueType = ''log_chain_gap'', prRiskLevel = DatabaseQueryRiskHigh,
     prMessage = AlertPlain ''gap'', prAction = [], prActionText = []\<rparr>"

text \<open>One risk, shown twice, and a notifier that fails with an odd number of notices before.\<close>

definition sample_alert_env :: "bool \<Rightarrow> alert_env" where
  "sample_alert_env listed = \<lparr>leRepos = True, leRisks = (\<lambda>_ _ _ _. Some (if listed then [sample_risk, sample_risk] else [])),
     leProfiles = (\<lambda>_ _ _. None), leFailedRecords = None, leInstance = (\<lambda>_. None), leNotifier = Some (\<lambda>n _. even n),
     leStateErr = (\<lambda>_. False), leRuleErr = False, leListErr = False\<rparr>"

text \<open>Two alerts are firing: one of the rule on instance 9, one of another rule.\<close>

definition sample_alert_state :: "nat \<Rightarrow> nat \<Rightarrow> DatabaseBackupAlertState" where
  "sample_alert_state i r = \<lparr>bsID = i, bsRuleID = r,
     bsCandidate = newCandidate (sample_alert_rule\<lparr>blID := r\<rparr>) 9 ''database_instance'' 9 IssueNoRecentSuccess, bsStatus = StateFiring,
     bsFirstFiredAt = 10, bsLastFiredAt = 20, bsLastNotifiedAt = Some 20, bsResolvedAt = None, bsNotifyCount = 1\<rparr>"

definition sample_alerts :: alert_world where
  "sample_alerts = \<lparr>alRules = [sample_alert_rule], alStates = [sample_alert_state 1 1, sample_alert_state 2 5], alNotices = []\<rparr>"

abbreviation sample_alert_scan :: "bool \<Rightarrow> bool \<times> alert_world" where
  "sample_alert_scan listed \<equiv> runBackupAlertRuleScan (sample_alert_env listed) sample_alert_rule 1000 sample_alerts"

lemma sample_alert_table: "alert_table (alStates sample_alerts)"
proof -
  have "distinct (map fingerprint (alStates sample_alerts))" "distinct (map bsID (alStates sample_alerts))" by code_simp+
  moreover have "fingerprint_of r (fingerprint (sample_alert_state i r))" for i r
    using new_fingerprint [of "sample_alert_rule\<lparr>blID := r\<rparr>"] by (simp add: sample_alert_state_def)
  ultimately show ?thesis by (simp add: alert_table_def sample_alerts_def) (simp add: sample_alert_state_def)
qed

lemma sample_alert_ok: "sample_alert_scan True = (True, snd (sample_alert_scan True))"
  "sample_alert_rule = decodeBackupAlertRule sample_alert_rule" "blID sample_alert_rule = 1" "blEnabled sample_alert_rule"
proof -
  have "fst (sample_alert_scan True)" by code_simp
  then show "sample_alert_scan True = (True, snd (sample_alert_scan True))" by (metis prod.collapse)
  show "sample_alert_rule = decodeBackupAlertRule sample_alert_rule" "blID sample_alert_rule = 1" "blEnabled sample_alert_rule"
    by (code_simp)+
qed

lemma sample_evaluation:
  obtains cs where "evaluateBackupAlertRule (sample_alert_env True) sample_alert_rule 1000 = Some cs"
    "map cdFingerprint cs = replicate 2 (backupAlertFingerprint 1 ''database_instance'' 7 ''log_chain_gap'')"
proof -
  have "map_option (map cdFingerprint) (evaluateBackupAlertRule (sample_alert_env True) sample_alert_rule 1000)
      = Some (replicate 2 (backupAlertFingerprint 1 ''database_instance'' 7 ''log_chain_gap''))"
    by code_simp
  then show thesis using that by auto
qed

theorem scan_fires_exactly_witness:
  "firing_fingerprints 1 (snd (sample_alert_scan True)) = {backupAlertFingerprint 1 ''database_instance'' 7 ''log_chain_gap''}"
proof -
  obtain cs where cs: "evaluateBackupAlertRule (sample_alert_env True) sample_alert_rule 1000 = Some cs"
    "map cdFingerprint cs = replicate 2 (backupAlertFingerprint 1 ''database_instance'' 7 ''log_chain_gap'')"
    by (rule sample_evaluation)
  have "cdFingerprint ` set cs = set (map cdFingerprint cs)" by simp
  also have "\<dots> = {backupAlertFingerprint 1 ''database_instance'' 7 ''log_chain_gap''}" by (simp add: cs(2))
  finally show ?thesis
    using scan_fires_exactly [OF sample_alert_ok(1) cs(1) _ sample_alert_ok(4) sample_alert_table] by (simp add: sample_alert_ok(3))
qed

theorem one_notice_a_scan_witness:
  "map anResolved (alNotices (snd (sample_alert_scan True))) = [False, True]
   \<and> distinct (map anFingerprint (alNotices (snd (sample_alert_scan True))))"
proof -
  obtain cs where cs: "evaluateBackupAlertRule (sample_alert_env True) sample_alert_rule 1000 = Some cs"
    "map cdFingerprint cs = replicate 2 (backupAlertFingerprint 1 ''database_instance'' 7 ''log_chain_gap'')"
    by (rule sample_evaluation)
  have "leNotifier (sample_alert_env True) = Some (\<lambda>n _. even n)" by (simp add: sample_alert_env_def)
  moreover have "alNotices sample_alerts = []" by (simp add: sample_alerts_def)
  ultimately have "distinct (map anFingerprint (alNotices (snd (sample_alert_scan True))))"
    using one_notice_a_scan [OF sample_alert_ok(1) cs(1) _ sample_alert_ok(4) sample_alert_table] by (auto simp: sample_alert_ok(3))
  moreover have "map anResolved (alNotices (snd (sample_alert_scan True))) = [False, True]" by code_simp
  ultimately show ?thesis by blast
qed

section \<open>What the scans leave out\<close>

text \<open>An error of the profile listing is dropped: a scan then resolves the alerts that the profiles would have kept firing.\<close>

lemma unread_profiles_recover:
  "profileCandidates env rule t now = []" if "collectProtectionProfilesForAlertRule env rule = None"
  using that by (simp add: profileCandidates_def)

lemma unread_profiles_resolve:
  "fst (sample_alert_scan False) \<and> collectProtectionProfilesForAlertRule (sample_alert_env False) sample_alert_rule = None
   \<and> map (\<lambda>s. (cdIssueType (bsCandidate s), bsStatus s)) (firingOf 1 sample_alerts) = [(IssueNoRecentSuccess, StateFiring)]
   \<and> firingOf 1 (snd (sample_alert_scan False)) = []"
  by (intro conjI) code_simp+

text \<open>A large number of hours wraps: a threshold of three million hours alerts right after a backup.\<close>

lemma large_threshold_wraps:
  assumes "ppInstanceID p \<noteq> 0" "ppProtectionLevel p \<noteq> ''none''" "ppBackupRequirement p \<noteq> ''inherited''"
    "ppLastFullAt p = Some t" "t \<le> now" "atNoSuccessBackupHours threshold = 3000000"
  shows "candidateFromNoRecentSuccessProfile rule p threshold now \<noteq> None"
  using assms by (simp add: candidateFromNoRecentSuccessProfile_def hoursDuration_def Let_def)

text \<open>The first notice counts as sent although it failed, and the next one waits for the interval.\<close>

lemma failed_notice_counts:
  assumes "stateByFingerprint w (cdFingerprint c) = None" "leNotifier env = Some (\<lambda>_ _. False)"
    "upsertBackupAlertState env rule c now w = (True, w')"
  shows "bsLastNotifiedAt (last (alStates w')) = Some now \<and> bsNotifyCount (last (alStates w')) = 1"
  using assms
  by (auto simp: upsertBackupAlertState_def noticeDue_def tryNotice_def createAlertState_def firingState_def Let_def
      split: if_splits)

text \<open>A rule is created enabled, whatever was asked for, and deleting or disabling a rule leaves its alerts firing.\<close>

lemma created_rule_enabled:
  "CreateBackupAlertRule env req w = (True, w') \<Longrightarrow> blEnabled (last (alRules w')) \<and> blRecoveryNotify (last (alRules w'))"
  by (auto simp: CreateBackupAlertRule_def createRule_def split: if_splits option.splits)

lemma deleted_rule_keeps_firing: "alStates (snd (DeleteBackupAlertRule env i w)) = alStates w"
  by (simp add: DeleteBackupAlertRule_def)

lemma disabled_rules_keep_firing: "\<forall>r\<in>set (alRules w). \<not> blEnabled r \<Longrightarrow> snd (RunBackupAlertScan env clock w) = w"
  by (simp add: RunBackupAlertScan_def filter_empty_conv [THEN iffD2])

text \<open>Three of the five thresholds of a rule decide nothing.\<close>

lemma unused_thresholds:
  "evaluateBackupAlertRule env (rule\<lparr>blThreshold := (blThreshold rule)\<lparr>atRestoreDrillStaleDays := d, atRPOLagGraceMinutes := g,
       atIncludeNonProduction := b\<rparr>\<rparr>) now = evaluateBackupAlertRule env rule now"
proof -
  let ?r = "rule\<lparr>blThreshold := (blThreshold rule)\<lparr>atRestoreDrillStaleDays := d, atRPOLagGraceMinutes := g, atIncludeNonProduction := b\<rparr>\<rparr>"
  have t: "atNoSuccessBackupHours (backupAlertThreshold ?r) = atNoSuccessBackupHours (backupAlertThreshold rule)"
    "atMinRiskLevel (backupAlertThreshold ?r) = atMinRiskLevel (backupAlertThreshold rule)"
    by (simp_all add: backupAlertThreshold_def normalizeBackupAlertThreshold_def)
  have c: "candidateFromProtectionRisk ?r = candidateFromProtectionRisk rule"
    "candidateFromFailedBackupRecord ?r = candidateFromFailedBackupRecord rule"
    "candidateFromNoRecentSuccessProfile ?r p (backupAlertThreshold ?r) now
       = candidateFromNoRecentSuccessProfile rule p (backupAlertThreshold rule) now" for p
    by (simp_all add: fun_eq_iff candidateFromProtectionRisk_def candidateFromFailedBackupRecord_def newCandidate_def
        candidateFromNoRecentSuccessProfile_def t Let_def del: firstNonEmpty.simps)
  have m: "backupAlertRuleMatchesRisk ?r (backupAlertThreshold ?r) = backupAlertRuleMatchesRisk rule (backupAlertThreshold rule)"
    "backupAlertRuleMatchesProfileScope ?r = backupAlertRuleMatchesProfileScope rule"
    "backupAlertRuleMatchesInstance ?r = backupAlertRuleMatchesInstance rule"
    "backupAlertRuleAcceptsIssue ?r = backupAlertRuleAcceptsIssue rule"
    by (simp_all add: fun_eq_iff backupAlertRuleMatchesRisk_def backupAlertRuleMatchesProfileScope_def ruleScope_def
        backupAlertRuleMatchesInstance_def backupAlertRuleAcceptsIssue_def t split: option.splits)
  have l: "collectProtectionRisksForAlertRule env ?r = collectProtectionRisksForAlertRule env rule"
    "collectProtectionProfilesForAlertRule env ?r = collectProtectionProfilesForAlertRule env rule"
    "scopedAlertInstanceID ?r = scopedAlertInstanceID rule"
    by (simp_all add: collectProtectionRisksForAlertRule_def collectProtectionProfilesForAlertRule_def scopedAlertInstanceID_def
        scopedAlertEngine_def)
  show ?thesis
    unfolding evaluateBackupAlertRule_def collectFailedBackupRecordCandidates_def profileCandidates_def Let_def c m l t by (rule refl)
qed

end
