(* ===== verification/Spec2Isabelle.thy ===== *)
theory Spec2Isabelle
  imports Query_Props Format_Props Redis_Query Pg_Wal Log_Props Purge_Props Chain_Rows Restore_Pg_Props Oauth_Props Host_Props Files_Props Alert_Props
begin

text \<open>
  OpsCenter is a Go server for operations work. This library models three of its subsystems: the query
  console of the database module (internal/biz/database), which lets operators run SQL and Redis commands
  against managed instances; the backup side of that module, log archive streams, chains of physical
  backups, the purge of superseded ones and PostgreSQL log positions; and what stands before all of it,
  logging in with a second factor, permissions on hosts, the settings that govern it (internal/biz/mfa, internal/biz/system,
  internal/service/rbac) and the OAuth2 server for other applications (internal/biz/identity).

  \<^bold>\<open>The query console.\<close> A use case resolves the instance and the write policy, asks a safety analyser
  about the text, records a denial in the audit table or inserts a pending audit row, calls an executor
  with the text the analyser released, passes a result through the result sanitiser and completes the
  audit row. The analysers stand on scanners that walk over the runes of a statement.
  \<^item> \<open>Go_Base\<close>: Go strings, the functions of strings, strconv, unicode and fmt the code calls, and
    small helpers of usecase.go. A rune is a character up to U+00FF, white space, letters, digits and
    the two cases are those of that range.
  \<^item> \<open>Sql_Scan\<close>: the loops of sql_safety.go (hasUnsafeSemicolon, hasExecutableSQLComment,
    stripSQLComments, maskSQLLiteralsAndComments, sqlKeywords), one function per loop, the flags of the
    loop as arguments. \<open>Sql_Lexer\<close>: a reference lexer with one state (code, literal, comment), and the
    equivalence of the loops with it.
  \<^item> \<open>Sql_Safety\<close>: the analysers of sql_safety.go with their tables; a message is a constructor.
    \<open>Sql_Gate\<close>: the locale of a statement gate, interpreted on the analysers; \<open>Sql_Props\<close>: which
    texts the gates let pass and what they release.
  \<^item> \<open>Query_Result\<close>: query_result_safety.go, masking and the byte budget. \<open>Redis_Query\<close>: redis_query.go,
    tokeniser, white list, canonical text, SCAN and windows.
  \<^item> \<open>Query_Exec\<close>: transactions of query_change.go, query_ddl.go, usecase.go and postgresql.go over an
    abstract driver; the result of an executor comes with the trace of its database calls.
  \<^item> \<open>Query_Console\<close>: the use cases, on a state of audit rows and database calls; \<open>Query_Audit\<close>: the
    locale of the audit log and its interpretation; \<open>Query_Props\<close>: the properties of the whole console.
  \<^item> \<open>Sql_Format\<close>: sql_format.go, the tokens of the formatter and how it writes them; \<open>Format_Props\<close>: what is
    left of a statement that was formatted.

  \<^bold>\<open>Backups.\<close> Agents on runner hosts archive the binary logs of an instance. An agent lists the streams of
  its host, which leases them to it, and reports its progress with checkpoints; operators start, pause and
  stop streams meanwhile. Physical backups of an instance run one at a time as background jobs; an incremental
  backup continues the checked chain of its policy, a synthetic full backup merges the oldest part of it.
  When a synthetic full backup has replaced older ones, a purge marks those expired, provided the chain of
  archived logs is complete and a restore was proved.
  \<^item> \<open>Log_Archive\<close>: log_archive_stream_control.go, runner_agent.go and the repository queries behind them;
    requests are operations on a world of hosts, streams and events. A checkpoint is also given in two
    halves, what it reads and what it writes, since other requests run in between.
  \<^item> \<open>Tables\<close>: rows found by a key and saved by it, as a locale. \<open>Log_Lease\<close>: the lease of a stream as an
    abstract machine (a step relation between owners), the locale of leased stores and its interpretation.
    \<open>Log_Props\<close>: the requests refine the machine, who may report, what a report overwrites.
  \<^item> \<open>Backup_Purge\<close>: backup_policy_purge.go and the chain check of backup_pitr.go; \<open>Purge_Props\<close>: what
    has to hold for a record to be marked, and that the preview tells what the purge does.
  \<^item> \<open>Log_Files\<close>: runner_binlog.go, the archive of binary logs by a runner over SSH, a run being cut where the runner
    works; \<open>Files_Props\<close>: scripts and their output are read as they were meant, what is archived has no gaps, and
    where events are lost.
  \<^item> \<open>Backup_Alert\<close>: backup_alert_rule.go, the rules for alerts on backups and their scan over the states and notices;
    \<open>Alert_Props\<close>: what is firing after a scan, and when a notice is tried.
  \<^item> \<open>Backup_Chain\<close>: backup_policy_chain.go, backup_policy.go, backup_policy_synthetic.go,
    backup_policy_auto_synthetic.go and the locks of backup_execution.go on a world of records, policies,
    states of chains, jobs and locks. A run is cut where other requests can come between: its start, the
    begin of its job, the report of the runner. \<open>Chain_Walk\<close>: what the check of a chain collects, and that
    it ends; \<open>Chain_Props\<close>: the locks, what increments continue, what is merged; \<open>Chain_Rows\<close>: the tables stay
    well-formed.
  \<^item> \<open>Restore_Plan\<close>: plans of restores to a time (backup_pitr.go): base backup, increments, logs; \<open>Restore_Pg\<close>: those of
    PostgreSQL to a time or a log position, over the catalogue of WAL segments, and CreateRestorePlan.
    \<open>Restore_Props\<close> and \<open>Restore_Pg_Props\<close>: what a plan that passed rests on, and where its checks do not look.
  \<^item> \<open>Pg_Wal\<close>: pgwal.go, positions and segment names on 64-bit words.

  \<^bold>\<open>Logging in.\<close> The handler checks the lock of the account, the captcha and the password, then asks for a
  one-time password unless the device is trusted, and signs a session token. Settings are rows of text that
  are decoded at each use.
  \<^item> \<open>Mfa\<close>: totp.go, usecase.go and the repository of internal/biz/mfa, with the bytes of base32, hexadecimal
    text and the truncation of RFC 4226; \<open>Mfa_Codec\<close>: the encodings are inverted by the decoders;
    \<open>Mfa_Sample\<close>: an executable instance of the parameters; \<open>Mfa_Props\<close>: enrolment, when authentication is
    switched, what codes are accepted.
  \<^item> \<open>Sys_Config\<close>: internal/biz/system and its repository and handlers; \<open>Config_Props\<close>: what is saved is
    read back.
  \<^item> \<open>Login\<close>: Login of internal/service/rbac/user.go, the tokens of auth.go, MFALogin of internal/service/mfa,
    failed attempts of internal/data/system and passwords; \<open>Login_Props\<close>: what a session was given for,
    that kinds of tokens are kept apart, when an account is locked.
  \<^item> \<open>Oauth\<close>: internal/biz/identity/oauth2_server.go, its handlers and its repositories: authorization codes,
    their exchange, refresh, introspection and revocation; \<open>Oauth_Props\<close>: what a token was issued for.
  \<^item> \<open>Host_Access\<close>: who may do what with a host: the grants of roles on groups of hosts (internal/biz/rbac,
    internal/data/rbac), the guards of internal/service/rbac/middleware.go and the routes they stand before;
    \<open>Host_Props\<close>: what a guard lets through, that the three queries of permissions agree, what a grant changes.

  \<^bold>\<open>Parameters.\<close> Database drivers, failures of repositories, the credential and policy resolvers, JSON
  decoding where its result is all that counts, SHA-256, HMAC-SHA1, AES-GCM, the random source, bcrypt, JWT
  signatures, the captcha store, LDAP authentication, the result a backup runner reports, the answer of a runner to a script, the listings
  of risks and profiles, the notifier of alerts, the reading and printing of
  times, the catalogue of Barman servers and the clients of
  engines whose executors are not modelled are fields of environment records or arguments. Two properties rest on a law of such a parameter:
  \<open>gcm_opens\<close> (what was sealed under a nonce is opened under it) and \<open>jwt_carries\<close> (an accepted token
  carries the claims that were signed); the sample environments show that both can hold. The repositories
  themselves are modelled by the rows they hold.

  \<^bold>\<open>Bounds.\<close> All loops are total functions, no fuel is used; the walk along a chain of backups ends because
  every step visits a record that was not visited before. Integers of the program are unbounded
  integers, except where the code can leave its width: the windows of LRANGE and ZRANGE and the count of
  a segment range wrap at 64 bits, the record numbers of a synthetic backup wrap while they are parsed, the hours of an alert threshold wrap as a duration,
  and positions, segment numbers and the arithmetic of one-time passwords are words. An instant is a
  number of nanoseconds, passed to a request as the time it reads.

  \<^bold>\<open>Not modelled.\<close> Runes above U+00FF in statements; SQL Server, Oracle and ClickHouse execution;
  collection of metadata and diagnosis; the execution of backups and restores by external tools, the
  schedules of policies; the files agents register; administration of users, menus, departments and assets; the
  HTTP layer beyond the handlers named above, plugins, agents and the frontend, which are input and output
  over libraries.
\<close>

end
